(* ===== verification/Hookly_Prelude.thy ===== *)
theory Hookly_Prelude
  imports Main "HOL-Library.State_Monad" "HOL-Library.Word" "HOL-Library.Char_ord"
    "HOL-Library.List_Lexorder" "HOL-Library.Product_Lexorder"
begin

text \<open>
  Shared vocabulary of the development: the theorem collections the component proofs feed to
  the simplifier, the types every component uses (identifiers, timestamps), the parts of the
  Rust standard library the sources call on strings and integers (decimal formatting and
  parsing, \<open>contains\<close>, \<open>starts_with\<close>, UTF-8 validity, \<open>saturating_sub\<close>), and generic
  facts on lists and on the state monad.
\<close>

named_theorems run_simps \<open>evaluation rules for programs of the state monad\<close>
named_theorems keeps_intros \<open>structural rules for the preservation calculus\<close>

section \<open>Identifiers and time\<close>

text \<open>
  A \<open>Uuid\<close> is represented by its canonical 36-character text: \<open>Uuid::to_string\<close> is injective
  and the text order is the order of the bytes. A \<open>DateTime<Utc>\<close> is the number of
  microseconds since the epoch, the resolution PostgreSQL stores.
\<close>

type_synonym uuid = string
type_synonym time = int

definition secs :: "int \<Rightarrow> time" where
  "secs n = n * 1000000"

definition millis :: "int \<Rightarrow> time" where
  "millis n = n * 1000"

definition timestamp :: "time \<Rightarrow> int" where
  "timestamp t = t div 1000000"

definition timestamp_millis :: "time \<Rightarrow> int" where
  "timestamp_millis t = t div 1000"

lemma secs_mono: "a \<le> b \<Longrightarrow> secs a \<le> secs b"
  by (simp add: secs_def)

lemma secs_less [simp]: "secs a < secs b \<longleftrightarrow> a < b" "0 < secs b \<longleftrightarrow> 0 < b"
  by (simp_all add: secs_def)

lemma timestamp_add_secs [simp]: "timestamp (t + secs n) = timestamp t + n"
  by (simp add: timestamp_def secs_def)

lemma timestamp_mono: "s \<le> t \<Longrightarrow> timestamp s \<le> timestamp t"
  by (simp add: timestamp_def zdiv_mono1)

section \<open>Decimal text of integers\<close>

fun show_nat :: "nat \<Rightarrow> string" where
  "show_nat n = (if n < 10 then [char_of (48 + n)] else show_nat (n div 10) @ [char_of (48 + n mod 10)])"

declare show_nat.simps [simp del]

definition show_int :: "int \<Rightarrow> string" where
  "show_int i = (if i < 0 then CHR ''-'' # show_nat (nat (- i)) else show_nat (nat i))"

definition is_digit :: "char \<Rightarrow> bool" where
  "is_digit c \<longleftrightarrow> 48 \<le> (of_char c :: nat) \<and> (of_char c :: nat) \<le> 57"

definition digit_val :: "char \<Rightarrow> nat" where
  "digit_val c = (of_char c :: nat) - 48"

definition parse_digits :: "string \<Rightarrow> nat option" where
  "parse_digits s = (if s = [] \<or> \<not> list_all is_digit s then None
     else Some (foldl (\<lambda>a c. 10 * a + digit_val c) 0 s))"

text \<open>\<open>str::parse\<close> of a signed integer type with bounds \<open>lo\<close> and \<open>hi\<close>: an optional sign,
  at least one digit, and the value in range.\<close>

fun parse_signed :: "int \<Rightarrow> int \<Rightarrow> string \<Rightarrow> int option" where
  "parse_signed lo hi [] = None"
| "parse_signed lo hi (c # cs) =
     (let r = (if c = CHR ''-'' then map_option (\<lambda>n. - int n) (parse_digits cs)
               else if c = CHR ''+'' then map_option int (parse_digits cs)
               else map_option int (parse_digits (c # cs)))
      in case r of None \<Rightarrow> None | Some i \<Rightarrow> if lo \<le> i \<and> i \<le> hi then Some i else None)"

definition parse_i16 :: "string \<Rightarrow> int option" where
  "parse_i16 = parse_signed (- 32768) 32767"

definition parse_i64 :: "string \<Rightarrow> int option" where
  "parse_i64 = parse_signed (- (2 ^ 63)) (2 ^ 63 - 1)"

definition parse_u64 :: "string \<Rightarrow> int option" where
  "parse_u64 s = (if s \<noteq> [] \<and> hd s = CHR ''-'' then None else parse_signed 0 (2 ^ 64 - 1) s)"

lemma digit_char: "d < 10 \<Longrightarrow> is_digit (char_of (48 + d)) \<and> digit_val (char_of (48 + d)) = d"
  by (simp add: is_digit_def digit_val_def)

lemma show_nat_digits: "list_all is_digit (show_nat n) \<and> show_nat n \<noteq> []"
proof (induction n rule: show_nat.induct)
  case (1 n)
  then show ?case
    by (cases "n < 10") (simp_all add: show_nat.simps [of n] digit_char)
qed

lemma show_nat_value: "foldl (\<lambda>a c. 10 * a + digit_val c) 0 (show_nat n) = n"
proof (induction n rule: show_nat.induct)
  case (1 n)
  show ?case
  proof (cases "n < 10")
    case True
    then show ?thesis by (simp add: show_nat.simps [of n] digit_char)
  next
    case False
    with 1 show ?thesis by (simp add: show_nat.simps [of n] digit_char)
  qed
qed

lemma parse_digits_show_nat [simp]: "parse_digits (show_nat n) = Some n"
  by (simp add: parse_digits_def show_nat_digits show_nat_value)

lemma show_nat_inj [simp]: "show_nat m = show_nat n \<longleftrightarrow> m = n"
  by (metis option.inject parse_digits_show_nat)

lemma show_nat_no_sign: "CHR ''-'' \<notin> set (show_nat n)" "CHR ''+'' \<notin> set (show_nat n)"
  using show_nat_digits [of n] by (auto simp: list_all_iff is_digit_def)

lemma show_nat_Cons: "show_nat n = c # cs \<Longrightarrow> c \<noteq> CHR ''-'' \<and> c \<noteq> CHR ''+''"
  using show_nat_no_sign [of n] by auto

lemma show_int_nonneg [simp]: "show_int (int n) = show_nat n"
  by (simp add: show_int_def)

lemma parse_signed_show_int:
  assumes "lo \<le> i" and "i \<le> hi"
  shows "parse_signed lo hi (show_int i) = Some i"
proof (cases "i < 0")
  case True
  with assms show ?thesis by (simp add: show_int_def)
next
  case False
  then obtain c cs where s: "show_nat (nat i) = c # cs"
    using show_nat_digits by (metis list.exhaust)
  with False assms show ?thesis
    using show_nat_Cons [OF s] parse_digits_show_nat [of "nat i"] by (simp add: show_int_def)
qed

lemma show_int_inj [simp]: "show_int i = show_int j \<longleftrightarrow> i = j"
  by (metis linorder_linear order_refl option.inject parse_signed_show_int order_trans)

lemma parse_i16_show: "- 32768 \<le> i \<Longrightarrow> i \<le> 32767 \<Longrightarrow> parse_i16 (show_int i) = Some i"
  by (simp add: parse_i16_def parse_signed_show_int)

lemma parse_i16_range: "parse_i16 s = Some i \<Longrightarrow> - 32768 \<le> i \<and> i \<le> 32767"
  by (cases s) (auto simp: parse_i16_def Let_def split: option.splits if_splits)

section \<open>String operations of the Rust standard library\<close>

fun starts_with :: "string \<Rightarrow> string \<Rightarrow> bool" where
  "starts_with s [] = True"
| "starts_with [] (p # ps) = False"
| "starts_with (c # cs) (p # ps) = (c = p \<and> starts_with cs ps)"

fun contains :: "string \<Rightarrow> string \<Rightarrow> bool" where
  "contains [] p = (p = [])"
| "contains (c # cs) p = (starts_with (c # cs) p \<or> contains cs p)"

lemma starts_with_iff: "starts_with s p \<longleftrightarrow> (\<exists>r. s = p @ r)"
  by (induction s p rule: starts_with.induct) auto

lemma contains_iff: "contains s p \<longleftrightarrow> (\<exists>a b. s = a @ p @ b)"
proof (induction s)
  case Nil
  then show ?case by auto
next
  case (Cons c s)
  show ?case
  proof
    assume "contains (c # s) p"
    then consider "starts_with (c # s) p" | "contains s p" by auto
    then show "\<exists>a b. c # s = a @ p @ b"
    proof cases
      case 1
      then show ?thesis by (metis append_Nil starts_with_iff)
    next
      case 2
      then show ?thesis using Cons by (metis append_Cons)
    qed
  next
    assume "\<exists>a b. c # s = a @ p @ b"
    then obtain a b where ab: "c # s = a @ p @ b" by blast
    note IH = Cons.IH
    then show "contains (c # s) p"
    proof (cases a)
      case Nil
      with ab show ?thesis by (metis append_Nil contains.simps(2) starts_with_iff)
    next
      case (Cons d a')
      with ab show ?thesis using IH by auto
    qed
  qed
qed

definition strip_prefix :: "string \<Rightarrow> string \<Rightarrow> string option" where
  "strip_prefix p s = (if starts_with s p then Some (drop (length p) s) else None)"

definition strip_suffix :: "string \<Rightarrow> string \<Rightarrow> string option" where
  "strip_suffix p s = map_option rev (strip_prefix (rev p) (rev s))"

text \<open>\<open>str::find\<close>: the least index at which the pattern starts.\<close>

fun find_str :: "string \<Rightarrow> string \<Rightarrow> nat option" where
  "find_str p s = (if starts_with s p then Some 0
     else case s of [] \<Rightarrow> None | _ # cs \<Rightarrow> map_option Suc (find_str p cs))"

declare find_str.simps [simp del]

definition replace_char :: "char \<Rightarrow> char \<Rightarrow> string \<Rightarrow> string" where
  "replace_char a b s = map (\<lambda>c. if c = a then b else c) s"

lemma strip_prefix_append [simp]: "strip_prefix p (p @ r) = Some r"
  by (simp add: strip_prefix_def starts_with_iff)

lemma strip_suffix_append [simp]: "strip_suffix p (r @ p) = Some r"
  by (simp add: strip_suffix_def)

lemma find_str_first:
  assumes "\<And>a b. a \<noteq> [] \<Longrightarrow> x @ p = a @ b \<Longrightarrow> starts_with (b @ r) p \<Longrightarrow> length x \<le> length a"
    and "\<not> starts_with (x @ p @ r) p \<or> x = []"
  shows "find_str p (x @ p @ r) = Some (length x)"
  using assms
proof (induction x)
  case Nil
  then show ?case by (simp add: find_str.simps starts_with_iff)
next
  case (Cons c x)
  have "find_str p (x @ p @ r) = Some (length x)"
  proof (cases "starts_with (x @ p @ r) p")
    case True
    then have "x = []" using Cons.prems(1) [of "[c]" "x @ p"] by simp
    then show ?thesis by (simp add: find_str.simps starts_with_iff)
  next
    case False
    have "length x \<le> length a" if "a \<noteq> []" "x @ p = a @ b" "starts_with (b @ r) p" for a b
      using Cons.prems(1) [of "c # a" b] that by simp
    then show ?thesis using Cons.IH False by blast
  qed
  with Cons.prems(2) show ?case by (subst find_str.simps) simp
qed

text \<open>\<open>trim_start_matches\<close> with a set of patterns, and \<open>trim\<close>: the UTF-8 forms of the characters
  with the property White\_Space are removed at both ends.\<close>

function trim_with :: "string list \<Rightarrow> string \<Rightarrow> string" where
  "trim_with ps s = (case find (\<lambda>p. p \<noteq> [] \<and> starts_with s p) ps of None \<Rightarrow> s
     | Some p \<Rightarrow> trim_with ps (drop (length p) s))"
  by pat_completeness auto

termination
proof (relation "measure (\<lambda>(ps, s). length s)", goal_cases)
  case (2 ps s p)
  then have "p \<noteq> []" and "starts_with s p" by (auto simp: find_Some_iff)
  then have "s \<noteq> []" by (cases p; cases s) auto
  with \<open>p \<noteq> []\<close> show ?case by simp
qed simp

declare trim_with.simps [simp del]

definition white_space :: "string list" where
  "white_space = map (\<lambda>n. [char_of n]) [9, 10, 11, 12, 13, 32 :: nat]
     @ map (map char_of) [[194, 133], [194, 160], [225, 154, 128 :: nat]]
     @ map (\<lambda>n. map char_of [226, 128, n]) ([128..<139] @ [168, 169, 175 :: nat])
     @ map (map char_of) [[226, 129, 159], [227, 128, 128 :: nat]]"

definition trim_start :: "string \<Rightarrow> string" where
  "trim_start s = trim_with white_space s"

definition trim_end :: "string \<Rightarrow> string" where
  "trim_end s = rev (trim_with (map rev white_space) (rev s))"

definition trim :: "string \<Rightarrow> string" where
  "trim s = trim_end (trim_start s)"

text \<open>\<open>splitn(3, c)\<close>: at most two splits.\<close>

fun split_once :: "char \<Rightarrow> string \<Rightarrow> (string \<times> string) option" where
  "split_once c [] = None"
| "split_once c (x # xs) = (if x = c then Some ([], xs) else map_option (map_prod ((#) x) id) (split_once c xs))"

definition splitn3 :: "char \<Rightarrow> string \<Rightarrow> string list" where
  "splitn3 c s = (case split_once c s of None \<Rightarrow> [s]
     | Some (a, r) \<Rightarrow> (case split_once c r of None \<Rightarrow> [a, r] | Some (b, r') \<Rightarrow> [a, b, r']))"

lemma split_once_append [simp]: "c \<notin> set a \<Longrightarrow> split_once c (a @ c # r) = Some (a, r)"
  by (induction a) auto

lemma splitn3_join: "c \<notin> set a \<Longrightarrow> c \<notin> set b \<Longrightarrow> splitn3 c (a @ c # b @ c # r) = [a, b, r]"
  by (simp add: splitn3_def)

text \<open>\<open>String::from_utf8\<close> accepts exactly the well-formed UTF-8 byte sequences.\<close>

definition byte_in :: "nat \<Rightarrow> nat \<Rightarrow> char \<Rightarrow> bool" where
  "byte_in lo hi c \<longleftrightarrow> lo \<le> (of_char c :: nat) \<and> (of_char c :: nat) \<le> hi"

fun utf8_valid :: "string \<Rightarrow> bool" where
  "utf8_valid [] = True"
| "utf8_valid (a # as) =
     (if byte_in 0 127 a then utf8_valid as
      else (case as of [] \<Rightarrow> False | b # bs \<Rightarrow>
        if byte_in 194 223 a then byte_in 128 191 b \<and> utf8_valid bs
        else (case bs of [] \<Rightarrow> False | c # cs \<Rightarrow>
          if byte_in 224 239 a then
            byte_in (if a = char_of (224::nat) then 160 else 128) (if a = char_of (237::nat) then 159 else 191) b
            \<and> byte_in 128 191 c \<and> utf8_valid cs
          else (case cs of [] \<Rightarrow> False | d # ds \<Rightarrow>
            byte_in 240 244 a
            \<and> byte_in (if a = char_of (240::nat) then 144 else 128) (if a = char_of (244::nat) then 143 else 191) b
            \<and> byte_in 128 191 c \<and> byte_in 128 191 d \<and> utf8_valid ds))))"

definition from_utf8 :: "string \<Rightarrow> string option" where
  "from_utf8 b = (if utf8_valid b then Some b else None)"

definition is_ascii :: "string \<Rightarrow> bool" where
  "is_ascii s \<longleftrightarrow> list_all (byte_in 0 127) s"

lemma ascii_utf8: "is_ascii s \<Longrightarrow> utf8_valid s"
  by (induction s) (simp_all add: is_ascii_def)

lemma from_utf8_ascii [simp]: "is_ascii s \<Longrightarrow> from_utf8 s = Some s"
  by (simp add: from_utf8_def ascii_utf8)

lemma is_ascii_append [simp]: "is_ascii (s @ t) \<longleftrightarrow> is_ascii s \<and> is_ascii t"
  by (simp add: is_ascii_def)

lemma is_ascii_Nil [simp]: "is_ascii []"
  by (simp add: is_ascii_def)

lemma is_ascii_Cons [simp]: "is_ascii (c # s) \<longleftrightarrow> byte_in 0 127 c \<and> is_ascii s"
  by (simp add: is_ascii_def)

lemma is_ascii_show_nat [simp]: "is_ascii (show_nat n)"
  using show_nat_digits [of n] by (auto simp: is_ascii_def list_all_iff is_digit_def byte_in_def)

section \<open>Lists\<close>

lemma sorted_wrt_filter: "sorted_wrt P xs \<Longrightarrow> sorted_wrt P (filter Q xs)"
  by (induction xs) auto

lemma dropWhile_filter_sorted:
  "sorted xs \<Longrightarrow> filter (\<lambda>x. a \<le> x) xs = dropWhile (\<lambda>x. x < a) (xs :: 'a::linorder list)"
proof (induction xs)
  case Nil
  then show ?case by simp
next
  case (Cons x xs)
  show ?case
  proof (cases "x < a")
    case True
    with Cons show ?thesis by auto
  next
    case False
    with Cons.prems have "\<forall>y\<in>set (x # xs). a \<le> y" by auto
    then have "filter (\<lambda>x. a \<le> x) (x # xs) = x # xs" by (simp add: filter_id_conv)
    with False show ?thesis by simp
  qed
qed

text \<open>Updating the rows of a table that satisfy a predicate, as SQL's \<open>UPDATE ... WHERE\<close>.\<close>

definition update_where :: "('a \<Rightarrow> bool) \<Rightarrow> ('a \<Rightarrow> 'a) \<Rightarrow> 'a list \<Rightarrow> 'a list" where
  "update_where p f xs = map (\<lambda>x. if p x then f x else x) xs"

lemma length_update_where [simp]: "length (update_where p f xs) = length xs"
  by (simp add: update_where_def)

lemma update_where_Nil [simp]: "update_where p f [] = []"
  by (simp add: update_where_def)

lemma update_where_Cons [simp]:
  "update_where p f (x # xs) = (if p x then f x else x) # update_where p f xs"
  by (simp add: update_where_def)

lemma update_where_append [simp]:
  "update_where p f (xs @ ys) = update_where p f xs @ update_where p f ys"
  by (simp add: update_where_def)

lemma set_update_where: "set (update_where p f xs) = (\<lambda>x. if p x then f x else x) ` set xs"
  by (simp add: update_where_def)

lemma map_update_where:
  "(\<And>x. p x \<Longrightarrow> g (f x) = g x) \<Longrightarrow> map g (update_where p f xs) = map g xs"
  by (simp add: update_where_def)

lemma update_where_none: "(\<And>x. x \<in> set xs \<Longrightarrow> \<not> p x) \<Longrightarrow> update_where p f xs = xs"
  by (induction xs) simp_all

lemma find_distinct_key:
  "distinct (map k xs) \<Longrightarrow> x \<in> set xs \<Longrightarrow> find (\<lambda>y. k y = k x) xs = Some x"
proof (induction xs)
  case Nil
  then show ?case by simp
next
  case (Cons y ys)
  then show ?case by (cases "x = y") (force simp: image_iff)+
qed

lemma find_unique_key:
  "distinct (map k xs) \<Longrightarrow> x \<in> set xs \<Longrightarrow> Q x \<Longrightarrow> find (\<lambda>y. k y = k x \<and> Q y) xs = Some x"
proof (induction xs)
  case (Cons y ys)
  then show ?case by (cases "x = y") (force simp: image_iff)+
qed simp

lemma filter_unique_key:
  assumes "distinct (map f xs)" and "x \<in> set xs" and "f x = k"
  shows "filter (\<lambda>y. f y = k \<and> Q y) xs = (if Q x then [x] else [])"
  using assms
proof (induction xs)
  case (Cons y ys)
  show ?case
  proof (cases "x = y")
    case True
    with Cons.prems have "k \<notin> f ` set ys" by simp
    then have "\<forall>z\<in>set ys. f z \<noteq> k" by blast
    with True Cons.prems(3) show ?thesis by (auto simp: filter_empty_conv)
  next
    case False
    with Cons.prems have "f y \<noteq> k" and "x \<in> set ys" by auto
    with Cons show ?thesis by simp
  qed
qed simp

lemma find_SomeD: "find P xs = Some x \<Longrightarrow> P x \<and> x \<in> set xs"
  by (induction xs) (auto split: if_splits)

lemma find_update_where_key:
  assumes "\<And>x. p x \<Longrightarrow> k (f x) = k x"
  shows "find (\<lambda>y. k y = v) (update_where p f xs)
    = map_option (\<lambda>x. if p x then f x else x) (find (\<lambda>y. k y = v) xs)"
  using assms by (induction xs) auto

section \<open>The state monad: evaluation and preservation\<close>

lemma run_bind [run_simps]:
  "run_state (State_Monad.bind m f) s = (case run_state m s of (a, s') \<Rightarrow> run_state (f a) s')"
  by (simp add: State_Monad.bind_def)

lemma run_return [run_simps]: "run_state (State_Monad.return a) s = (a, s)"
  by (simp add: State_Monad.return_def)

lemma run_get [run_simps]: "run_state State_Monad.get s = (s, s)"
  by (simp add: State_Monad.get_def)

lemma run_set [run_simps]: "run_state (State_Monad.set t) s = ((), t)"
  by (simp add: State_Monad.set_def)

lemma run_update [run_simps]: "run_state (State_Monad.update f) s = ((), f s)"
  by (simp add: State_Monad.update_def State_Monad.bind_def State_Monad.get_def State_Monad.set_def)

text \<open>\<open>keeps P m\<close>: running \<open>m\<close> from a state with \<open>P\<close> ends in a state with \<open>P\<close>. The structural
  rules reduce a program to its external calls.\<close>

definition keeps :: "('s \<Rightarrow> bool) \<Rightarrow> ('s, 'a) state \<Rightarrow> bool" where
  "keeps P m \<longleftrightarrow> (\<forall>s. P s \<longrightarrow> P (snd (run_state m s)))"

lemma keepsD: "keeps P m \<Longrightarrow> P s \<Longrightarrow> P (snd (run_state m s))"
  by (simp add: keeps_def)

lemma keepsI: "(\<And>s. P s \<Longrightarrow> P (snd (run_state m s))) \<Longrightarrow> keeps P m"
  by (simp add: keeps_def)

lemma keeps_return [keeps_intros]: "keeps P (State_Monad.return a)"
  by (simp add: keeps_def run_simps)

lemma keeps_get [keeps_intros]: "keeps P State_Monad.get"
  by (simp add: keeps_def run_simps)

lemma keeps_bind [keeps_intros]: "keeps P m \<Longrightarrow> (\<And>a. keeps P (f a)) \<Longrightarrow> keeps P (State_Monad.bind m f)"
  by (fastforce simp: keeps_def run_simps split: prod.splits)

lemma keeps_if [keeps_intros]:
  "(b \<Longrightarrow> keeps P m) \<Longrightarrow> (\<not> b \<Longrightarrow> keeps P n) \<Longrightarrow> keeps P (if b then m else n)"
  by simp

lemma keeps_case_option [keeps_intros]:
  "(x = None \<Longrightarrow> keeps P m) \<Longrightarrow> (\<And>a. x = Some a \<Longrightarrow> keeps P (f a))
    \<Longrightarrow> keeps P (case x of None \<Rightarrow> m | Some a \<Rightarrow> f a)"
  by (cases x) simp_all

lemma keeps_case_sum [keeps_intros]:
  "(\<And>e. x = Inl e \<Longrightarrow> keeps P (f e)) \<Longrightarrow> (\<And>a. x = Inr a \<Longrightarrow> keeps P (g a))
    \<Longrightarrow> keeps P (case x of Inl e \<Rightarrow> f e | Inr a \<Rightarrow> g a)"
  by (cases x) simp_all

lemma keeps_case_prod [keeps_intros]:
  "(\<And>a b. x = (a, b) \<Longrightarrow> keeps P (f a b)) \<Longrightarrow> keeps P (case x of (a, b) \<Rightarrow> f a b)"
  by (cases x) simp

lemma keeps_case_list [keeps_intros]:
  "(x = [] \<Longrightarrow> keeps P m) \<Longrightarrow> (\<And>y ys. x = y # ys \<Longrightarrow> keeps P (f y ys))
    \<Longrightarrow> keeps P (case x of [] \<Rightarrow> m | y # ys \<Rightarrow> f y ys)"
  by (cases x) simp_all

lemma keeps_let [keeps_intros]: "keeps P (f a) \<Longrightarrow> keeps P (let x = a in f x)"
  by simp

text \<open>Hoare triples for the state monad, where a postcondition talks about the result.\<close>

definition triple :: "('s \<Rightarrow> bool) \<Rightarrow> ('s, 'a) state \<Rightarrow> ('a \<Rightarrow> 's \<Rightarrow> bool) \<Rightarrow> bool" where
  "triple P m Q \<longleftrightarrow> (\<forall>s. P s \<longrightarrow> Q (fst (run_state m s)) (snd (run_state m s)))"

lemma tripleD: "triple P m Q \<Longrightarrow> P s \<Longrightarrow> Q (fst (run_state m s)) (snd (run_state m s))"
  by (simp add: triple_def)

lemma triple_keeps: "keeps P m \<Longrightarrow> triple P m (\<lambda>_. P)"
  by (simp add: keeps_def triple_def)

lemma triple_bind: "triple P m Q \<Longrightarrow> (\<And>a. triple (Q a) (f a) S) \<Longrightarrow> triple P (State_Monad.bind m f) S"
  by (simp add: triple_def run_simps case_prod_beta)

lemma keeps_triple: "keeps P m \<longleftrightarrow> triple P m (\<lambda>_. P)"
  by (simp add: keeps_def triple_def)

lemma triple_bind_keeps: "keeps P m \<Longrightarrow> (\<And>a. triple P (f a) S) \<Longrightarrow> triple P (State_Monad.bind m f) S"
  by (rule triple_bind [OF triple_keeps])

lemma triple_any: "(\<And>a. triple (\<lambda>_. True) (f a) S) \<Longrightarrow> triple (\<lambda>_. True) (State_Monad.bind m f) S"
  by (rule triple_bind_keeps) (simp_all add: keeps_def)

lemma triple_return: "(\<And>s. P s \<Longrightarrow> Q a s) \<Longrightarrow> triple P (State_Monad.return a) Q"
  by (simp add: triple_def run_simps)

lemma triple_weaken: "triple P m Q \<Longrightarrow> (\<And>s. P' s \<Longrightarrow> P s) \<Longrightarrow> (\<And>a s. Q a s \<Longrightarrow> Q' a s) \<Longrightarrow> triple P' m Q'"
  by (simp add: triple_def)

lemma triple_if: "(b \<Longrightarrow> triple P m Q) \<Longrightarrow> (\<not> b \<Longrightarrow> triple P n Q) \<Longrightarrow> triple P (if b then m else n) Q"
  by simp

lemma triple_case_option:
  "(x = None \<Longrightarrow> triple P m Q) \<Longrightarrow> (\<And>a. x = Some a \<Longrightarrow> triple P (f a) Q)
    \<Longrightarrow> triple P (case x of None \<Rightarrow> m | Some a \<Rightarrow> f a) Q"
  by (cases x) simp_all

lemma triple_case_sum:
  "(\<And>e. x = Inl e \<Longrightarrow> triple P (f e) Q) \<Longrightarrow> (\<And>a. x = Inr a \<Longrightarrow> triple P (g a) Q)
    \<Longrightarrow> triple P (case x of Inl e \<Rightarrow> f e | Inr a \<Rightarrow> g a) Q"
  by (cases x) simp_all

lemma triple_pull: "(b \<Longrightarrow> triple P m Q) \<Longrightarrow> triple (\<lambda>s. b \<and> P s) m Q"
  by (simp add: triple_def)

text \<open>Running a body for every element of a list, in order: the \<open>for\<close> loops of the sources.\<close>

fun for_each :: "'a list \<Rightarrow> ('a \<Rightarrow> ('s, unit) state) \<Rightarrow> ('s, unit) state" where
  "for_each [] f = State_Monad.return ()"
| "for_each (x # xs) f = State_Monad.bind (f x) (\<lambda>_. for_each xs f)"

lemma keeps_for_each [keeps_intros]:
  "(\<And>x. x \<in> set xs \<Longrightarrow> keeps P (f x)) \<Longrightarrow> keeps P (for_each xs f)"
  by (induction xs) (auto intro!: keeps_intros)

lemma run_for_each_Nil [run_simps]: "run_state (for_each [] f) s = ((), s)"
  by (simp add: run_simps)

lemma run_for_each_Cons [run_simps]:
  "run_state (for_each (x # xs) f) s = run_state (for_each xs f) (snd (run_state (f x) s))"
  by (simp add: run_simps split: prod.splits)

end
