(* ===== verification/App_Error.thy ===== *)
theory App_Error
  imports Hookly_Prelude
begin

text \<open>
  The error type of the API (\<open>src/error.rs\<close>): \<open>AppError\<close>, its translation from database and
  validation errors, and the HTTP status, error code and body it becomes. The errors of the
  database driver and of the validator crate are data the program inspects; the part it
  inspects is modelled.
\<close>

record field_error =
  fe_field :: string
  fe_value :: "string option"
  fe_code :: string
  fe_message :: string

definition field_error_new :: "string \<Rightarrow> string \<Rightarrow> string \<Rightarrow> field_error" where
  "field_error_new f c m = \<lparr>fe_field = f, fe_value = None, fe_code = c, fe_message = m\<rparr>"

definition with_value :: "field_error \<Rightarrow> string \<Rightarrow> field_error" where
  "with_value fe v = fe\<lparr>fe_value := Some v\<rparr>"

text \<open>\<open>sqlx::Error\<close>: an error of the database with its SQLSTATE code, constraint, table and
  detail, or any other failure of the driver.\<close>

datatype sqlx_error =
    DatabaseErr (db_code: "string option") (db_constraint: "string option") (db_table: "string option") (db_detail: "string option")
  | RowNotFound
  | OtherSqlx string

datatype app_error =
    Database sqlx_error
  | Redis string
  | NotFound string
  | BadRequest string
  | Validation "field_error list"
  | Conflict string "field_error list"
  | Internal string
  | Unauthorized string
  | Forbidden string
  | PayloadTooLarge
  | UriTooLong

section \<open>Conflicts\<close>

definition parse_conflict_value :: "string option \<Rightarrow> string option" where
  "parse_conflict_value detail = (case detail of None \<Rightarrow> None | Some d \<Rightarrow>
     (case find_str ''=('' d of None \<Rightarrow> None | Some eq_pos \<Rightarrow>
       (let rest = drop (eq_pos + 2) d in
        case find_str '')'' rest of None \<Rightarrow> None | Some e \<Rightarrow> Some (take e rest))))"

definition conflict_field :: "string option \<Rightarrow> string option \<Rightarrow> string option" where
  "conflict_field constraint table = (case constraint of None \<Rightarrow> None | Some c0 \<Rightarrow>
     (let c1 = (case strip_prefix ''idx_'' c0 of None \<Rightarrow> c0 | Some r \<Rightarrow> r);
          c2 = (case strip_suffix ''_uq'' c1 of None \<Rightarrow> c1 | Some r \<Rightarrow> r);
          c3 = (case table of None \<Rightarrow> c2 | Some t \<Rightarrow>
                 (case strip_prefix t c2 of None \<Rightarrow> c2 | Some r \<Rightarrow>
                   (case strip_prefix ''_'' r of None \<Rightarrow> c2 | Some r' \<Rightarrow> r')))
      in if c3 = [] then None else Some c3))"

definition conflict_message :: "string \<Rightarrow> string" where
  "conflict_message f = ''A resource with this '' @ replace_char (CHR ''_'') (CHR '' '') f @ '' already exists''"

definition conflict_info :: "string option \<Rightarrow> string option \<Rightarrow> string option \<Rightarrow> string \<times> field_error list" where
  "conflict_info constraint table detail = (case conflict_field constraint table of
      None \<Rightarrow> (''A resource with this value already exists'', [])
    | Some f \<Rightarrow> (conflict_message f,
        [case parse_conflict_value detail of
           Some v \<Rightarrow> with_value (field_error_new f ''conflict'' (conflict_message f)) v
         | None \<Rightarrow> field_error_new f ''conflict'' (conflict_message f)]))"

fun from_sqlx :: "sqlx_error \<Rightarrow> app_error" where
  "from_sqlx (DatabaseErr code constraint table detail) =
     (if code = Some ''23505'' then (case conflict_info constraint table detail of (msg, errs) \<Rightarrow> Conflict msg errs)
      else if code = Some ''23503'' then BadRequest ''Referenced resource does not exist''
      else Database (DatabaseErr code constraint table detail))"
| "from_sqlx err = Database err"

section \<open>Validation errors\<close>

text \<open>A parameter value of the validator crate, as far as the program looks at it.\<close>

datatype param_value = PString string | PArray nat | PNumber int | POther

record validation_error =
  ve_code :: string
  ve_message :: "string option"
  ve_params :: "string \<Rightarrow> param_value option"

fun as_u64 :: "param_value \<Rightarrow> int option" where
  "as_u64 (PNumber n) = (if 0 \<le> n \<and> n < 2 ^ 64 then Some n else None)"
| "as_u64 _ = None"

definition param_u64 :: "validation_error \<Rightarrow> string \<Rightarrow> int option" where
  "param_u64 e k = (case ve_params e k of None \<Rightarrow> None | Some v \<Rightarrow> as_u64 v)"

definition remap_validator_code :: "validation_error \<Rightarrow> string" where
  "remap_validator_code e =
     (if ve_code e = ''email'' then ''invalid_format''
      else if ve_code e = ''length'' then
        (let mx = param_u64 e ''max'';
             mn = param_u64 e ''min'';
             is_array = (case ve_params e ''value'' of Some (PArray _) \<Rightarrow> True | _ \<Rightarrow> False);
             actual = (case ve_params e ''value'' of Some (PString s) \<Rightarrow> Some (int (length s))
                        | Some (PArray n) \<Rightarrow> Some (int n) | _ \<Rightarrow> None)
         in if (case (mx, actual) of (Some m, Some l) \<Rightarrow> m < l | _ \<Rightarrow> False) then ''max_length''
            else if mn \<noteq> None then (if is_array then ''min_items'' else ''required'')
            else ''length'')
      else if ve_code e = ''required'' then ''required''
      else if ve_code e = ''invalid_format'' then ''invalid_format''
      else if ve_code e = ''invalid_value'' then ''invalid_value''
      else if ve_code e = ''min_items'' then ''min_items''
      else ''validation_error'')"

definition from_validation :: "(string \<times> validation_error list) list \<Rightarrow> app_error" where
  "from_validation errs = Validation (concat (map (\<lambda>(field, es).
     map (\<lambda>e. field_error_new field (remap_validator_code e)
       (case ve_message e of None \<Rightarrow> ve_code e | Some m \<Rightarrow> m)) es) errs))"

section \<open>Responses\<close>

record error_body =
  eb_code :: string
  eb_message :: string
  eb_errors :: "field_error list option"

fun into_response :: "app_error \<Rightarrow> int \<times> error_body" where
  "into_response (NotFound m) = (404, \<lparr>eb_code = ''not_found'', eb_message = m, eb_errors = None\<rparr>)"
| "into_response (BadRequest m) = (400, \<lparr>eb_code = ''bad_request'', eb_message = m, eb_errors = None\<rparr>)"
| "into_response (Validation errs) =
     (422, \<lparr>eb_code = ''validation_error'', eb_message = ''Request validation failed'', eb_errors = Some errs\<rparr>)"
| "into_response (Conflict m errs) =
     (409, \<lparr>eb_code = ''conflict'', eb_message = m, eb_errors = (if errs = [] then None else Some errs)\<rparr>)"
| "into_response (Database _) =
     (500, \<lparr>eb_code = ''internal_error'', eb_message = ''An internal error occurred'', eb_errors = None\<rparr>)"
| "into_response (Redis _) =
     (500, \<lparr>eb_code = ''internal_error'', eb_message = ''An internal error occurred'', eb_errors = None\<rparr>)"
| "into_response (Internal _) =
     (500, \<lparr>eb_code = ''internal_error'', eb_message = ''An internal error occurred'', eb_errors = None\<rparr>)"
| "into_response (Unauthorized m) = (401, \<lparr>eb_code = ''unauthorized'', eb_message = m, eb_errors = None\<rparr>)"
| "into_response (Forbidden m) = (403, \<lparr>eb_code = ''forbidden'', eb_message = m, eb_errors = None\<rparr>)"
| "into_response PayloadTooLarge =
     (413, \<lparr>eb_code = ''payload_too_large'', eb_message = ''Request body exceeds the 256 KB limit'', eb_errors = None\<rparr>)"
| "into_response UriTooLong =
     (414, \<lparr>eb_code = ''uri_too_long'', eb_message = ''Request URI exceeds the 512 character limit'', eb_errors = None\<rparr>)"

fun to_error_info :: "app_error \<Rightarrow> int \<times> string \<times> string" where
  "to_error_info (NotFound m) = (404, ''not_found'', m)"
| "to_error_info (BadRequest m) = (400, ''bad_request'', m)"
| "to_error_info (Validation _) = (422, ''validation_error'', ''Request validation failed'')"
| "to_error_info (Conflict m _) = (409, ''conflict'', m)"
| "to_error_info (Unauthorized m) = (401, ''unauthorized'', m)"
| "to_error_info (Forbidden m) = (403, ''forbidden'', m)"
| "to_error_info PayloadTooLarge = (413, ''payload_too_large'', ''Request body exceeds the 256 KB limit'')"
| "to_error_info UriTooLong = (414, ''uri_too_long'', ''Request URI exceeds the 512 character limit'')"
| "to_error_info (Database _) = (500, ''internal_error'', ''An internal error occurred'')"
| "to_error_info (Redis _) = (500, ''internal_error'', ''An internal error occurred'')"
| "to_error_info (Internal _) = (500, ''internal_error'', ''An internal error occurred'')"

end
