(* ===== verification/Identity_Tables.thy ===== *)
theory Identity_Tables
  imports App_Error
begin

text \<open>
  The rows of the tables that say who may call the API: tenants, users, environments, API keys with
  their settings and audit log, JWT signing keys, invites and members, permissions, roles and who holds
  them. Columns that no modelled statement reads are left out.
\<close>

text \<open>\<open>serde_json::Value\<close>, with a number kept as its text.\<close>

datatype json =
    JNull
  | JBool bool
  | JNumber string
  | JString string
  | JArray "json list"
  | JObject "(string \<times> json) list"

record tenant_row =
  tn_id :: uuid
  tn_public_id :: string
  tn_org_id :: uuid
  tn_status :: string
  tn_deleted_at :: "time option"
  tn_name :: string
  tn_description :: "string option"
  tn_tags :: "(string \<times> string) list"
  tn_version :: int
  tn_request_id :: uuid
  tn_created_by :: uuid
  tn_updated_by :: uuid
  tn_created_at :: time
  tn_updated_at :: time

datatype user_status = UserActive | UserSuspended | UserInactive | UserLocked

record user_row =
  us_id :: uuid
  us_public_id :: string
  us_org_id :: uuid
  us_tenant_id :: uuid
  us_email :: string
  us_phone :: "string option"
  us_status :: user_status
  us_email_verified_at :: "time option"
  us_phone_verified_at :: "time option"
  us_last_active_at :: "time option"
  us_metadata :: "(string \<times> string) list"
  us_tags :: "(string \<times> string) list"
  us_settings :: "(string \<times> string) list"
  us_password_hash :: "string option"
  us_version :: int
  us_created_by :: uuid
  us_updated_by :: uuid
  us_request_id :: uuid
  us_locked_until :: "time option"
  us_login_count :: int
  us_created_at :: time
  us_updated_at :: time
  us_deleted_at :: "time option"

datatype environment_status = EnvActive | EnvDisabled

record environment_row =
  en_id :: uuid
  en_public_id :: string
  en_tenant_id :: uuid
  en_name :: string
  en_status :: environment_status
  en_description :: "string option"
  en_tags :: "(string \<times> string) list"
  en_version :: int
  en_request_id :: uuid
  en_created_by :: uuid
  en_updated_by :: uuid
  en_created_at :: time
  en_updated_at :: time

datatype api_key_status = KeyActive | KeyExpired

record api_key_row =
  ak_id :: uuid
  ak_public_id :: string
  ak_org_id :: uuid
  ak_tenant_id :: uuid
  ak_user_id :: uuid
  ak_name :: string
  ak_description :: "string option"
  ak_key_hash :: string
  ak_key_encrypted :: "string option"
  ak_key_prefix :: string
  ak_environment_id :: string
  ak_status :: api_key_status
  ak_expires_at :: "time option"
  ak_last_used_at :: "time option"
  ak_tags :: "(string \<times> string) list"
  ak_request_id :: uuid
  ak_version :: int
  ak_created_by :: uuid
  ak_updated_by :: uuid
  ak_created_at :: time
  ak_updated_at :: time
  ak_deleted_at :: "time option"

record api_key_settings_row =
  ks_id :: uuid
  ks_public_id :: string
  ks_org_id :: uuid
  ks_tenant_id :: uuid
  ks_max_keys_per_user :: "int option"
  ks_key_length :: int
  ks_default_ttl_seconds :: "int option"
  ks_allow_view_later :: bool
  ks_request_id :: uuid
  ks_version :: int
  ks_created_by :: uuid
  ks_updated_by :: uuid
  ks_created_at :: time
  ks_updated_at :: time

text \<open>The entries of the JSON object in the column \<open>changes\<close>: old and new value.\<close>

datatype audit_change = DescriptionChange "string option" string | ExpiresChange "time option" time

record api_key_audit_row =
  aa_api_key_id :: uuid
  aa_api_key_public_id :: string
  aa_org_id :: uuid
  aa_tenant_id :: uuid
  aa_user_id :: uuid
  aa_action :: string
  aa_actor_id :: "uuid option"
  aa_request_id :: uuid
  aa_changes :: "audit_change list option"
  aa_created_at :: time

datatype jwt_key_use = Authentication | WebhookSignature

datatype jwt_algorithm = RS256 | RS384 | RS512 | ES256 | ES384 | ES512 | HS256 | HS512

datatype jwt_key_status = JwtActive | JwtDisabled | JwtExpired

record jwt_key_row =
  jk_id :: uuid
  jk_public_id :: string
  jk_tenant_id :: uuid
  jk_application_id :: "string option"
  jk_name :: string
  jk_key_use :: jwt_key_use
  jk_algorithm :: jwt_algorithm
  jk_key_id :: string
  jk_status :: jwt_key_status
  jk_public_key :: "string option"
  jk_private_key_enc :: "string option"
  jk_secret_enc :: "string option"
  jk_expires_at :: "time option"
  jk_grace_ends_at :: "time option"
  jk_rotated_from_id :: "string option"
  jk_last_rotated_at :: "time option"
  jk_version :: int
  jk_created_by :: uuid
  jk_updated_by :: uuid
  jk_created_at :: time
  jk_updated_at :: time
  jk_deleted_at :: "time option"

record invite_row =
  iv_id :: uuid
  iv_public_id :: string
  iv_tenant_id :: uuid
  iv_org_id :: uuid
  iv_user_email :: string
  iv_role :: string
  iv_status :: string
  iv_token_hash :: string
  iv_tags :: json
  iv_metadata :: json
  iv_created_by :: uuid
  iv_request_id :: uuid
  iv_version :: int
  iv_created_at :: time
  iv_updated_at :: time
  iv_deleted_at :: "time option"
  iv_revoked_at :: "time option"
  iv_accepted_at :: "time option"
  iv_expires_at :: time

record member_row =
  mb_id :: uuid
  mb_public_id :: string
  mb_tenant_id :: uuid
  mb_org_id :: uuid
  mb_invite_id :: uuid
  mb_user_email :: string
  mb_user_id :: "uuid option"
  mb_role :: string
  mb_status :: string
  mb_created_at :: time
  mb_updated_at :: time
  mb_deleted_at :: "time option"

datatype permission_type = SystemPermission | CustomPermission

record permission_row =
  pm_id :: uuid
  pm_public_id :: string
  pm_tenant_id :: "uuid option"
  pm_name :: string
  pm_description :: "string option"
  pm_perm_type :: permission_type
  pm_resource :: string
  pm_action :: string
  pm_created_at :: time
  pm_updated_at :: time

record role_row =
  rl_id :: uuid
  rl_public_id :: string
  rl_tenant_id :: uuid
  rl_name :: string
  rl_description :: "string option"
  rl_is_system :: bool
  rl_version :: int
  rl_created_by :: uuid
  rl_updated_by :: uuid
  rl_created_at :: time
  rl_updated_at :: time
  rl_deleted_at :: "time option"

text \<open>A row of the five tables that link a subject (a role, a user or an API key) to a target (a role or a
  permission); the pair is the primary key of each of them. \<open>role_permissions\<close> and \<open>api_key_roles\<close> have no
  column \<open>expires_at\<close>: their rows carry \<open>None\<close>. Links of users also name a tenant.\<close>

record link_row =
  ln_subject :: string
  ln_target :: uuid
  ln_expires_at :: "time option"
  ln_created_at :: time
  ln_created_by :: uuid

record user_link_row = link_row +
  ul_tenant_id :: uuid

record access_db =
  permissions :: "permission_row list"
  roles :: "role_row list"
  role_permissions :: "link_row list"
  user_roles :: "user_link_row list"
  user_permissions :: "user_link_row list"
  api_key_roles :: "link_row list"
  api_key_permissions :: "link_row list"

definition empty_access :: access_db where
  "empty_access = \<lparr>permissions = [], roles = [], role_permissions = [], user_roles = [], user_permissions = [],
     api_key_roles = [], api_key_permissions = []\<rparr>"

record team_row =
  tm_id :: uuid
  tm_public_id :: string
  tm_name :: string
  tm_tenant_id :: uuid
  tm_org_id :: uuid
  tm_description :: "string option"
  tm_tags :: "(string \<times> string) list"
  tm_metadata :: "(string \<times> string) list"
  tm_settings :: "(string \<times> string) list"
  tm_created_by :: uuid
  tm_updated_by :: uuid
  tm_request_id :: uuid
  tm_version :: int
  tm_created_at :: time
  tm_updated_at :: time
  tm_deleted_at :: "time option"

record team_member_row =
  tk_id :: uuid
  tk_public_id :: string
  tk_tenant_id :: uuid
  tk_org_id :: uuid
  tk_team_id :: uuid
  tk_user_id :: uuid
  tk_created_by :: uuid
  tk_updated_by :: uuid
  tk_request_id :: uuid
  tk_version :: int
  tk_created_at :: time
  tk_updated_at :: time
  tk_deleted_at :: "time option"

record identity_db =
  tenants :: "tenant_row list"
  users :: "user_row list"
  environments :: "environment_row list"
  api_keys :: "api_key_row list"
  api_key_settings :: "api_key_settings_row list"
  api_key_audits :: "api_key_audit_row list"
  jwt_keys :: "jwt_key_row list"
  invites :: "invite_row list"
  tenant_members :: "member_row list"
  teams :: "team_row list"
  team_members :: "team_member_row list"
  access :: access_db

definition empty_identity :: identity_db where
  "empty_identity = \<lparr>tenants = [], users = [], environments = [], api_keys = [], api_key_settings = [], api_key_audits = [],
     jwt_keys = [], invites = [], tenant_members = [], teams = [], team_members = [], access = empty_access\<rparr>"

end
