(* ===== verification/Redis_Model.thy ===== *)
theory Redis_Model
  imports Hookly_Prelude "HOL-Library.Multiset"
begin

text \<open>
  The Redis server the program talks to. Redis is not part of the repository, so its commands
  are a parameter: the record \<open>redis_cmds\<close> holds one function per command the sources issue,
  over the keyspace of the documented data types (sorted sets, strings with an expiry,
  streams with consumer groups). The three locales state the documented behaviour of the
  commands the sources rely on, and nothing of the program; where the documentation leaves a
  choice (the id of a new stream entry, the member of \<open>ZRANDMEMBER\<close>, how much an approximate
  trim removes, the rounding of \<open>TTL\<close>) the law leaves it open. \<open>mem_redis\<close> is an executable
  instance that satisfies all of them.
\<close>

section \<open>Values and errors of the redis client crate\<close>

datatype rvalue =
    Nil_V
  | Int_V int
  | BulkString string
  | Array "rvalue list"
  | SimpleString string
  | Okay
  | OtherValue

text \<open>A \<open>RedisError\<close> is known to the program by its text only.\<close>

datatype redis_error = RedisError (err_to_string: string)

section \<open>The keyspace\<close>

text \<open>A stream entry id \<open>ms-seq\<close>, ordered numerically.\<close>

type_synonym sid = "nat \<times> nat"

definition sid_str :: "sid \<Rightarrow> string" where
  "sid_str i = show_nat (fst i) @ CHR ''-'' # show_nat (snd i)"

type_synonym fields = "(string \<times> string) list"

record pel_entry =
  pe_id :: sid
  pe_consumer :: string
  pe_since :: time

record group =
  last_delivered :: sid
  pel :: "pel_entry list"

record rstream =
  entries :: "(sid \<times> fields) list"
  top_id :: sid
  groups :: "(string \<times> group) list"

text \<open>A sorted set is its ordered content: (score, member) pairs in ascending order, members
  distinct. Scores are the integers the program writes (all below \<open>2^53\<close>).\<close>

type_synonym zset = "(int \<times> string) list"

record keyspace =
  zsets :: "string \<Rightarrow> zset"
  strs :: "string \<Rightarrow> (string \<times> time option) option"
  streams :: "string \<Rightarrow> rstream option"

datatype zflag = ZPlain | ZNx | ZGt

record redis_cmds =
  ZADD :: "zflag \<Rightarrow> string \<Rightarrow> int \<Rightarrow> string \<Rightarrow> keyspace \<Rightarrow> keyspace"
  ZREM :: "string \<Rightarrow> string \<Rightarrow> keyspace \<Rightarrow> keyspace"
  ZINCRBY :: "string \<Rightarrow> int \<Rightarrow> string \<Rightarrow> keyspace \<Rightarrow> keyspace"
  ZSCORE :: "string \<Rightarrow> string \<Rightarrow> keyspace \<Rightarrow> int option"
  ZRANGE :: "string \<Rightarrow> int \<Rightarrow> int \<Rightarrow> keyspace \<Rightarrow> string list"
  ZRANDMEMBER :: "string \<Rightarrow> keyspace \<Rightarrow> string option"
  ZRANGEBYSCORE :: "string \<Rightarrow> int \<Rightarrow> int \<Rightarrow> nat \<Rightarrow> nat \<Rightarrow> keyspace \<Rightarrow> string list"
  GET :: "string \<Rightarrow> time \<Rightarrow> keyspace \<Rightarrow> string option"
  SET_EX :: "string \<Rightarrow> string \<Rightarrow> time \<Rightarrow> time \<Rightarrow> keyspace \<Rightarrow> (redis_error + unit) \<times> keyspace"
  SET_NX :: "string \<Rightarrow> string \<Rightarrow> time \<Rightarrow> time \<Rightarrow> keyspace \<Rightarrow> bool \<times> keyspace"
  INCR :: "string \<Rightarrow> time \<Rightarrow> keyspace \<Rightarrow> (redis_error + int) \<times> keyspace"
  DECR :: "string \<Rightarrow> time \<Rightarrow> keyspace \<Rightarrow> (redis_error + int) \<times> keyspace"
  EXPIRE :: "string \<Rightarrow> int \<Rightarrow> time \<Rightarrow> keyspace \<Rightarrow> keyspace"
  DEL :: "string \<Rightarrow> keyspace \<Rightarrow> keyspace"
  TTL :: "string \<Rightarrow> time \<Rightarrow> keyspace \<Rightarrow> int"
  XADD :: "string \<Rightarrow> fields \<Rightarrow> time \<Rightarrow> keyspace \<Rightarrow> string \<times> keyspace"
  XLEN :: "string \<Rightarrow> keyspace \<Rightarrow> int"
  XGROUP_CREATE :: "string \<Rightarrow> string \<Rightarrow> string \<Rightarrow> keyspace \<Rightarrow> (redis_error + unit) \<times> keyspace"
  XREADGROUP :: "string \<Rightarrow> string \<Rightarrow> int \<Rightarrow> string list \<Rightarrow> time \<Rightarrow> keyspace \<Rightarrow> (redis_error + rvalue) \<times> keyspace"
  XACK :: "string \<Rightarrow> string \<Rightarrow> string \<Rightarrow> keyspace \<Rightarrow> keyspace"
  XAUTOCLAIM :: "string \<Rightarrow> string \<Rightarrow> string \<Rightarrow> int \<Rightarrow> string \<Rightarrow> int \<Rightarrow> time \<Rightarrow> keyspace \<Rightarrow> (redis_error + rvalue) \<times> keyspace"
  XTRIM_MINID :: "string \<Rightarrow> string \<Rightarrow> keyspace \<Rightarrow> int \<times> keyspace"
  XPENDING :: "string \<Rightarrow> string \<Rightarrow> keyspace \<Rightarrow> redis_error + rvalue"
  XINFO_GROUPS :: "string \<Rightarrow> keyspace \<Rightarrow> redis_error + rvalue"
  SCAN :: "int \<Rightarrow> string \<Rightarrow> keyspace \<Rightarrow> int \<times> string list"

section \<open>Sorted sets\<close>

definition zset_ok :: "zset \<Rightarrow> bool" where
  "zset_ok z \<longleftrightarrow> sorted_wrt (<) z \<and> distinct (map snd z)"

definition z_score :: "zset \<Rightarrow> string \<Rightarrow> int option" where
  "z_score z m = map_option fst (find (\<lambda>p. snd p = m) z)"

definition z_remove :: "string \<Rightarrow> zset \<Rightarrow> zset" where
  "z_remove m z = filter (\<lambda>p. snd p \<noteq> m) z"

definition z_put :: "int \<Rightarrow> string \<Rightarrow> zset \<Rightarrow> zset" where
  "z_put s m z = insort (s, m) (z_remove m z)"

fun z_add :: "zflag \<Rightarrow> int \<Rightarrow> string \<Rightarrow> zset \<Rightarrow> zset" where
  "z_add ZPlain s m z = z_put s m z"
| "z_add ZNx s m z = (if z_score z m = None then z_put s m z else z)"
| "z_add ZGt s m z = (case z_score z m of None \<Rightarrow> z_put s m z
     | Some t \<Rightarrow> if t < s then z_put s m z else z)"

definition put_zset :: "string \<Rightarrow> zset \<Rightarrow> keyspace \<Rightarrow> keyspace" where
  "put_zset k z ks = ks\<lparr>zsets := (zsets ks)(k := z)\<rparr>"

text \<open>\<open>ZRANGE key start stop\<close> with the end counted from the back when negative.\<close>

definition z_range :: "int \<Rightarrow> int \<Rightarrow> zset \<Rightarrow> string list" where
  "z_range i j z = (let n = int (length z); a = (if i < 0 then max 0 (n + i) else i);
      b = (if j < 0 then n + j else j) in map snd (drop (nat a) (take (nat (b + 1)) z)))"

locale redis_zsets =
  fixes R :: redis_cmds
  assumes zadd: "ZADD R f k s m ks = put_zset k (z_add f s m (zsets ks k)) ks"
    and zrem: "ZREM R k m ks = put_zset k (z_remove m (zsets ks k)) ks"
    and zincrby: "ZINCRBY R k d m ks = put_zset k (z_put ((case z_score (zsets ks k) m of None \<Rightarrow> 0 | Some s \<Rightarrow> s) + d) m (zsets ks k)) ks"
    and zscore: "ZSCORE R k m ks = z_score (zsets ks k) m"
    and zrange: "ZRANGE R k i j ks = z_range i j (zsets ks k)"
    and zrandmember_None: "zsets ks k = [] \<Longrightarrow> ZRANDMEMBER R k ks = None"
    and zrandmember_Some: "zsets ks k \<noteq> [] \<Longrightarrow> \<exists>m\<in>snd ` set (zsets ks k). ZRANDMEMBER R k ks = Some m"
    and zrangebyscore: "ZRANGEBYSCORE R k lo hi off cnt ks =
      take cnt (drop off (map snd (filter (\<lambda>p. lo \<le> fst p \<and> fst p \<le> hi) (zsets ks k))))"

section \<open>Strings with expiry\<close>

definition str_at :: "keyspace \<Rightarrow> time \<Rightarrow> string \<Rightarrow> (string \<times> time option) option" where
  "str_at ks now k = (case strs ks k of None \<Rightarrow> None
     | Some (v, None) \<Rightarrow> Some (v, None)
     | Some (v, Some e) \<Rightarrow> if now < e then Some (v, Some e) else None)"

definition put_str :: "string \<Rightarrow> string \<times> time option \<Rightarrow> keyspace \<Rightarrow> keyspace" where
  "put_str k v ks = ks\<lparr>strs := (strs ks)(k \<mapsto> v)\<rparr>"

text \<open>Expiries Redis accepts: positive, and small enough not to overflow its 64-bit
  millisecond clock.\<close>

definition ttl_ok :: "time \<Rightarrow> bool" where
  "ttl_ok t \<longleftrightarrow> 0 < t \<and> t \<le> secs 9000000000000"

locale redis_strings =
  fixes R :: redis_cmds
  assumes get: "GET R k now ks = map_option fst (str_at ks now k)"
    and set_ex: "ttl_ok t \<Longrightarrow> SET_EX R k v t now ks = (Inr (), put_str k (v, Some (now + t)) ks)"
    and set_ex_bad: "t \<le> 0 \<Longrightarrow> \<exists>e. SET_EX R k v t now ks = (Inl e, ks)"
    and set_nx: "ttl_ok t \<Longrightarrow> SET_NX R k v t now ks =
      (if str_at ks now k = None then (True, put_str k (v, Some (now + t)) ks) else (False, ks))"
    and incr_new: "str_at ks now k = None \<Longrightarrow> INCR R k now ks = (Inr 1, put_str k (show_int 1, None) ks)"
    and incr: "str_at ks now k = Some (show_int n, ex) \<Longrightarrow> - (2 ^ 63) \<le> n \<Longrightarrow> n < 2 ^ 63 - 1 \<Longrightarrow>
      INCR R k now ks = (Inr (n + 1), put_str k (show_int (n + 1), ex) ks)"
    and decr: "str_at ks now k = Some (show_int n, ex) \<Longrightarrow> - (2 ^ 63) < n \<Longrightarrow> n \<le> 2 ^ 63 - 1 \<Longrightarrow>
      DECR R k now ks = (Inr (n - 1), put_str k (show_int (n - 1), ex) ks)"
    and expire: "ttl_ok (secs s) \<Longrightarrow> EXPIRE R k s now ks =
      (case str_at ks now k of None \<Rightarrow> ks | Some (v, _) \<Rightarrow> put_str k (v, Some (now + secs s)) ks)"
    and del: "DEL R k ks = ks\<lparr>strs := (strs ks)(k := None)\<rparr>"
    and ttl_absent: "str_at ks now k = None \<Longrightarrow> TTL R k now ks = - 2"
    and ttl_persistent: "str_at ks now k = Some (v, None) \<Longrightarrow> TTL R k now ks = - 1"
    and ttl_remaining: "str_at ks now k = Some (v, Some e) \<Longrightarrow>
      0 \<le> TTL R k now ks \<and> secs (TTL R k now ks) < e - now + secs 1 \<and> e - now < secs (TTL R k now ks) + secs 1"

section \<open>Streams and consumer groups\<close>

definition empty_stream :: rstream where
  "empty_stream = \<lparr>entries = [], top_id = (0, 0), groups = []\<rparr>"

definition stream_of :: "keyspace \<Rightarrow> string \<Rightarrow> rstream" where
  "stream_of ks s = (case streams ks s of None \<Rightarrow> empty_stream | Some st \<Rightarrow> st)"

definition put_stream :: "string \<Rightarrow> rstream \<Rightarrow> keyspace \<Rightarrow> keyspace" where
  "put_stream s st ks = ks\<lparr>streams := (streams ks)(s \<mapsto> st)\<rparr>"

definition group_of :: "keyspace \<Rightarrow> string \<Rightarrow> string \<Rightarrow> group option" where
  "group_of ks s g = map_of (groups (stream_of ks s)) g"

definition map_group :: "string \<Rightarrow> (group \<Rightarrow> group) \<Rightarrow> rstream \<Rightarrow> rstream" where
  "map_group g f st = st\<lparr>groups := map (\<lambda>(n, x). (n, if n = g then f x else x)) (groups st)\<rparr>"

definition undelivered :: "rstream \<Rightarrow> group \<Rightarrow> (sid \<times> fields) list" where
  "undelivered st gr = filter (\<lambda>e. last_delivered gr < fst e) (entries st)"

definition encode_fields :: "fields \<Rightarrow> rvalue" where
  "encode_fields f = Array (concat (map (\<lambda>(k, v). [BulkString k, BulkString v]) f))"

definition encode_entry :: "sid \<times> fields \<Rightarrow> rvalue" where
  "encode_entry e = Array [BulkString (sid_str (fst e)), encode_fields (snd e)]"

definition encode_stream :: "string \<Rightarrow> (sid \<times> fields) list \<Rightarrow> rvalue" where
  "encode_stream s es = Array [BulkString s, Array (map encode_entry es)]"

definition deliver_to :: "string \<Rightarrow> time \<Rightarrow> (sid \<times> fields) list \<Rightarrow> group \<Rightarrow> group" where
  "deliver_to c now es gr = (if es = [] then gr else
     gr\<lparr>last_delivered := fst (last es),
        pel := pel gr @ map (\<lambda>e. \<lparr>pe_id = fst e, pe_consumer = c, pe_since = now\<rparr>) es\<rparr>)"

definition ack_id :: "string \<Rightarrow> group \<Rightarrow> group" where
  "ack_id i gr = gr\<lparr>pel := filter (\<lambda>p. sid_str (pe_id p) \<noteq> i) (pel gr)\<rparr>"

text \<open>What \<open>XAUTOCLAIM\<close> tries: the first \<open>n\<close> pending entries idle for at least the given
  time. Those still in the stream change owner, those deleted from it leave the list.\<close>

definition idle_pel :: "int \<Rightarrow> int \<Rightarrow> time \<Rightarrow> group \<Rightarrow> pel_entry list" where
  "idle_pel min_idle n now gr = take (nat n) (filter (\<lambda>p. millis min_idle \<le> now - pe_since p) (pel gr))"

definition has_entry :: "rstream \<Rightarrow> sid \<Rightarrow> bool" where
  "has_entry st i \<longleftrightarrow> i \<in> fst ` set (entries st)"

definition claim_idle :: "string \<Rightarrow> int \<Rightarrow> int \<Rightarrow> time \<Rightarrow> rstream \<Rightarrow> group \<Rightarrow> group" where
  "claim_idle c min_idle n now st gr = (let try = map pe_id (idle_pel min_idle n now gr) in
     gr\<lparr>pel := map (\<lambda>p. if pe_id p \<in> set try then p\<lparr>pe_consumer := c, pe_since := now\<rparr> else p)
        (filter (\<lambda>p. pe_id p \<in> set try \<longrightarrow> has_entry st (pe_id p)) (pel gr))\<rparr>)"

definition claimed_entries :: "int \<Rightarrow> int \<Rightarrow> time \<Rightarrow> rstream \<Rightarrow> group \<Rightarrow> (sid \<times> fields) list" where
  "claimed_entries min_idle n now st gr =
     filter (\<lambda>e. fst e \<in> pe_id ` set (idle_pel min_idle n now gr)) (entries st)"

fun start_id :: "string \<Rightarrow> sid \<Rightarrow> sid" where
  "start_id s t = (if s = ''$'' then t else (0, 0))"

text \<open>The fields of a group in the reply of \<open>XINFO GROUPS\<close>: the two the program reads, at
  their documented places, then the rest as alternating names and values.\<close>

definition encode_group :: "int \<Rightarrow> (string \<times> rvalue) list \<Rightarrow> string \<times> group \<Rightarrow> rvalue" where
  "encode_group c rest ng = Array ([BulkString ''name'', BulkString (fst ng), BulkString ''consumers'', Int_V c,
      BulkString ''pending'', Int_V (int (length (pel (snd ng)))),
      BulkString ''last-delivered-id'', BulkString (sid_str (last_delivered (snd ng)))]
      @ concat (map (\<lambda>(k, v). [BulkString k, v]) rest))"

definition group_info :: "string \<times> group \<Rightarrow> rvalue \<Rightarrow> bool" where
  "group_info ng v \<longleftrightarrow> (\<exists>c rest. v = encode_group c rest ng \<and>
     (\<forall>(k, x)\<in>set rest. k \<noteq> ''name'' \<and> k \<noteq> ''last-delivered-id''))"

locale redis_streams =
  fixes R :: redis_cmds
  assumes xadd: "\<exists>i::sid. top_id (stream_of ks s) < i \<and> XADD R s f now ks = (sid_str i,
      put_stream s ((stream_of ks s)\<lparr>entries := entries (stream_of ks s) @ [(i, f)], top_id := i\<rparr>) ks)"
    and xlen: "XLEN R s ks = int (length (entries (stream_of ks s)))"
    and xgroup_busy: "group_of ks s g \<noteq> None \<Longrightarrow>
      \<exists>m. contains m ''BUSYGROUP'' \<and> XGROUP_CREATE R s g at ks = (Inl (RedisError m), ks)"
    and xgroup_create: "group_of ks s g = None \<Longrightarrow> at = ''$'' \<or> at = ''0-0'' \<Longrightarrow> XGROUP_CREATE R s g at ks = (Inr (),
      put_stream s ((stream_of ks s)\<lparr>groups := groups (stream_of ks s) @
        [(g, \<lparr>last_delivered = start_id at (top_id (stream_of ks s)), pel = []\<rparr>)]\<rparr>) ks)"
    and xreadgroup_nogroup: "group_of ks s g = None \<Longrightarrow>
      \<exists>m. contains m ''NOGROUP'' \<and> XREADGROUP R g c n [s] now ks = (Inl (RedisError m), ks)"
    and xreadgroup: "streams ks s = Some st \<Longrightarrow> map_of (groups st) g = Some gr \<Longrightarrow> 0 < n \<Longrightarrow>
      es = take (nat n) (undelivered st gr) \<Longrightarrow> XREADGROUP R g c n [s] now ks =
        (Inr (if es = [] then Nil_V else Array [encode_stream s es]),
         put_stream s (map_group g (deliver_to c now es) st) ks)"
    and xack: "streams ks s = Some st \<Longrightarrow> XACK R s g mid ks = put_stream s (map_group g (ack_id mid) st) ks"
    and xack_absent: "streams ks s = None \<Longrightarrow> XACK R s g mid ks = ks"
    and xautoclaim_nogroup: "group_of ks s g = None \<Longrightarrow>
      \<exists>e. XAUTOCLAIM R s g c mi ''0-0'' n now ks = (Inl e, ks)"
    and xautoclaim: "streams ks s = Some st \<Longrightarrow> map_of (groups st) g = Some gr \<Longrightarrow> 0 < n \<Longrightarrow>
      \<exists>cur dead. XAUTOCLAIM R s g c mi ''0-0'' n now ks =
        (Inr (Array [BulkString cur, Array (map encode_entry (claimed_entries mi n now st gr)), dead]),
         put_stream s (map_group g (claim_idle c mi n now st) st) ks)"
    and xtrim: "streams ks s = Some st \<Longrightarrow> \<exists>n. (\<forall>e\<in>set (take n (entries st)). fst e < i) \<and>
      XTRIM_MINID R s (sid_str i) ks = (int (min n (length (entries st))), put_stream s (st\<lparr>entries := drop n (entries st)\<rparr>) ks)"
    and xpending_nogroup: "group_of ks s g = None \<Longrightarrow> \<exists>e. XPENDING R s g ks = Inl e"
    and xpending_none: "group_of ks s g = Some gr \<Longrightarrow> pel gr = [] \<Longrightarrow>
      XPENDING R s g ks = Inr (Array [Int_V 0, Nil_V, Nil_V, Nil_V])"
    and xpending_some: "group_of ks s g = Some gr \<Longrightarrow> pel gr \<noteq> [] \<Longrightarrow> \<exists>cs. XPENDING R s g ks =
      Inr (Array [Int_V (int (length (pel gr))), BulkString (sid_str (Min (pe_id ` set (pel gr)))),
        BulkString (sid_str (Max (pe_id ` set (pel gr)))), cs])"
    and xinfo_groups: "streams ks s = Some st \<Longrightarrow>
      \<exists>vs. XINFO_GROUPS R s ks = Inr (Array vs) \<and> list_all2 group_info (groups st) vs"

locale redis_server = redis_zsets R + redis_strings R + redis_streams R for R :: redis_cmds


section \<open>Facts on sorted sets\<close>

lemma z_score_None: "z_score z m = None \<longleftrightarrow> m \<notin> snd ` set z"
  by (force simp: z_score_def find_None_iff)

lemma z_score_Some: "zset_ok z \<Longrightarrow> z_score z m = Some s \<longleftrightarrow> (s, m) \<in> set z"
proof
  assume "z_score z m = Some s"
  then show "(s, m) \<in> set z" by (auto simp: z_score_def dest: find_SomeD)
next
  assume "zset_ok z" and "(s, m) \<in> set z"
  then show "z_score z m = Some s"
    using find_distinct_key [of snd z "(s, m)"] by (simp add: z_score_def zset_ok_def)
qed

lemma set_z_remove: "set (z_remove m z) = {p \<in> set z. snd p \<noteq> m}"
  by (auto simp: z_remove_def)

lemma set_z_put: "set (z_put s m z) = insert (s, m) {p \<in> set z. snd p \<noteq> m}"
  by (simp add: z_put_def set_insort_key set_z_remove)

lemma zset_ok_Nil [simp]: "zset_ok []"
  by (simp add: zset_ok_def)

lemma zset_ok_remove [simp]: "zset_ok z \<Longrightarrow> zset_ok (z_remove m z)"
  by (simp add: zset_ok_def z_remove_def sorted_wrt_filter distinct_map_filter)

lemma zset_ok_put [simp]:
  assumes "zset_ok z"
  shows "zset_ok (z_put s m z)"
proof -
  let ?r = "z_remove m z"
  have r: "zset_ok ?r" "m \<notin> snd ` set ?r"
    using assms by (auto simp: set_z_remove)
  then have "sorted ?r" and d: "distinct ?r" and dm: "distinct (map snd ?r)"
    by (auto simp: zset_ok_def strict_sorted_iff)
  have notin: "(s, m) \<notin> set ?r" by (auto simp: set_z_remove)
  have "sorted_wrt (<) (insort (s, m) ?r)"
    using \<open>sorted ?r\<close> d notin by (simp add: strict_sorted_iff sorted_insort distinct_insort)
  moreover have "mset (map snd (insort (s, m) ?r)) = mset (m # map snd ?r)"
    by simp
  then have "distinct (map snd (insort (s, m) ?r))"
    using dm r(2) by (metis distinct.simps(2) list.set_map mset_eq_imp_distinct_iff)
  ultimately show ?thesis by (simp add: zset_ok_def z_put_def)
qed

lemma zset_ok_add [simp]: "zset_ok z \<Longrightarrow> zset_ok (z_add f s m z)"
  by (cases f) (auto split: option.splits)

lemma z_score_put [simp]: "zset_ok z \<Longrightarrow> z_score (z_put s m z) x = (if x = m then Some s else z_score z x)"
proof (cases "x = m")
  case True
  assume "zset_ok z"
  with True show ?thesis by (simp add: z_score_Some set_z_put)
next
  case False
  assume z: "zset_ok z"
  have "z_score (z_put s m z) x = Some t \<longleftrightarrow> z_score z x = Some t" for t
    using z False by (simp add: z_score_Some set_z_put)
  then have "z_score (z_put s m z) x = z_score z x"
    by (metis not_Some_eq)
  with False show ?thesis by simp
qed

lemma z_score_remove [simp]: "z_score (z_remove m z) x = (if x = m then None else z_score z x)"
proof (cases "x = m")
  case True
  then show ?thesis by (auto simp: z_score_None set_z_remove)
next
  case False
  then show ?thesis
    by (induction z) (auto simp: z_score_def z_remove_def)
qed

lemma zset_hd_least:
  assumes "zset_ok ((s, m) # z)" and "z_score ((s, m) # z) x = Some t"
  shows "s \<le> t"
proof -
  have "(t, x) \<in> set ((s, m) # z)" using assms z_score_Some by blast
  with assms(1) show ?thesis by (auto simp: zset_ok_def less_prod_def)
qed

section \<open>Facts on stream ids\<close>

lemma split_at_dash:
  assumes "a @ CHR ''-'' # b = c @ CHR ''-'' # d" and "CHR ''-'' \<notin> set a" and "CHR ''-'' \<notin> set c"
  shows "a = c \<and> b = d"
  using assms
proof (induction a arbitrary: c)
  case Nil
  then show ?case by (cases c) auto
next
  case (Cons x a)
  then show ?case by (cases c) auto
qed

lemma sid_str_inj [simp]: "sid_str i = sid_str j \<longleftrightarrow> i = j"
proof
  assume "sid_str i = sid_str j"
  then have "show_nat (fst i) = show_nat (fst j) \<and> show_nat (snd i) = show_nat (snd j)"
    unfolding sid_str_def by (rule split_at_dash) (rule show_nat_no_sign)+
  then show "i = j" by (simp add: prod_eq_iff)
qed simp

lemma is_ascii_sid_str [simp]: "is_ascii (sid_str i)"
  by (simp add: sid_str_def byte_in_def)

lemma sid_str_nonempty [simp]: "sid_str i \<noteq> []"
  by (simp add: sid_str_def)

lemma sid_str_zero: "sid_str (0, 0) = ''0-0''"
  by code_simp

end
