(* ===== verification/Redis_Memory.thy ===== *)
theory Redis_Memory
  imports Redis_Model
begin

text \<open>
  An executable Redis: one choice for everything the laws of \<open>Redis_Model\<close> leave open. New
  stream ids are the server's millisecond clock with a sequence number, \<open>ZRANDMEMBER\<close> takes
  the first member, an approximate trim removes every entry below the given id, \<open>TTL\<close> rounds
  down to whole seconds plus one. It shows that the laws are satisfiable together and is what
  the witnesses of the development run on.
\<close>

fun next_sid :: "time \<Rightarrow> sid \<Rightarrow> sid" where
  "next_sid now t = (if fst t < nat (timestamp_millis now) then (nat (timestamp_millis now), 0)
     else (fst t, Suc (snd t)))"

lemma next_sid_greater: "t < next_sid now t"
  by (cases t) (auto simp: less_prod_def)

definition mem_counter :: "int \<Rightarrow> string \<Rightarrow> time \<Rightarrow> keyspace \<Rightarrow> (redis_error + int) \<times> keyspace" where
  "mem_counter d k now ks = (case str_at ks now k of
      None \<Rightarrow> (Inr d, put_str k (show_int d, None) ks)
    | Some (v, e) \<Rightarrow> (case parse_i64 v of
        None \<Rightarrow> (Inl (RedisError ''ERR value is not an integer or out of range''), ks)
      | Some n \<Rightarrow> if n + d < - (2 ^ 63) \<or> 2 ^ 63 - 1 < n + d
          then (Inl (RedisError ''ERR increment or decrement would overflow''), ks)
          else (Inr (n + d), put_str k (show_int (n + d), e) ks)))"

definition mem_set_ex :: "string \<Rightarrow> string \<Rightarrow> time \<Rightarrow> time \<Rightarrow> keyspace \<Rightarrow> (redis_error + unit) \<times> keyspace" where
  "mem_set_ex k v t now ks = (if ttl_ok t then (Inr (), put_str k (v, Some (now + t)) ks)
     else (Inl (RedisError ''ERR invalid expire time''), ks))"

definition mem_set_nx :: "string \<Rightarrow> string \<Rightarrow> time \<Rightarrow> time \<Rightarrow> keyspace \<Rightarrow> bool \<times> keyspace" where
  "mem_set_nx k v t now ks = (if str_at ks now k = None then (True, put_str k (v, Some (now + t)) ks) else (False, ks))"

definition mem_expire :: "string \<Rightarrow> int \<Rightarrow> time \<Rightarrow> keyspace \<Rightarrow> keyspace" where
  "mem_expire k s now ks = (case str_at ks now k of None \<Rightarrow> ks | Some (v, _) \<Rightarrow> put_str k (v, Some (now + secs s)) ks)"

definition mem_ttl :: "string \<Rightarrow> time \<Rightarrow> keyspace \<Rightarrow> int" where
  "mem_ttl k now ks = (case str_at ks now k of None \<Rightarrow> - 2 | Some (_, None) \<Rightarrow> - 1
     | Some (_, Some e) \<Rightarrow> timestamp (e - now + 999999))"

definition mem_xadd :: "string \<Rightarrow> fields \<Rightarrow> time \<Rightarrow> keyspace \<Rightarrow> string \<times> keyspace" where
  "mem_xadd s f now ks = (let st = stream_of ks s; i = next_sid now (top_id st) in
     (sid_str i, put_stream s (st\<lparr>entries := entries st @ [(i, f)], top_id := i\<rparr>) ks))"

definition mem_xgroup :: "string \<Rightarrow> string \<Rightarrow> string \<Rightarrow> keyspace \<Rightarrow> (redis_error + unit) \<times> keyspace" where
  "mem_xgroup s g at ks = (if group_of ks s g \<noteq> None then (Inl (RedisError ''BUSYGROUP Consumer Group name already exists''), ks)
     else (let st = stream_of ks s in (Inr (), put_stream s (st\<lparr>groups := groups st @
        [(g, \<lparr>last_delivered = start_id at (top_id st), pel = []\<rparr>)]\<rparr>) ks)))"

definition mem_xreadgroup :: "string \<Rightarrow> string \<Rightarrow> int \<Rightarrow> string \<Rightarrow> time \<Rightarrow> keyspace \<Rightarrow> (redis_error + rvalue) \<times> keyspace" where
  "mem_xreadgroup g c n s now ks = (case group_of ks s g of
      None \<Rightarrow> (Inl (RedisError ''NOGROUP No such key or consumer group''), ks)
    | Some gr \<Rightarrow> (let st = stream_of ks s; es = take (nat n) (undelivered st gr) in
        (Inr (if es = [] then Nil_V else Array [encode_stream s es]),
         put_stream s (map_group g (deliver_to c now es) st) ks)))"

definition mem_xack :: "string \<Rightarrow> string \<Rightarrow> string \<Rightarrow> keyspace \<Rightarrow> keyspace" where
  "mem_xack s g i ks = (case streams ks s of None \<Rightarrow> ks | Some st \<Rightarrow> put_stream s (map_group g (ack_id i) st) ks)"

definition mem_xautoclaim :: "string \<Rightarrow> string \<Rightarrow> string \<Rightarrow> int \<Rightarrow> int \<Rightarrow> time \<Rightarrow> keyspace \<Rightarrow> (redis_error + rvalue) \<times> keyspace" where
  "mem_xautoclaim s g c mi n now ks = (case group_of ks s g of
      None \<Rightarrow> (Inl (RedisError ''NOGROUP No such key or consumer group''), ks)
    | Some gr \<Rightarrow> (let st = stream_of ks s in
        (Inr (Array [BulkString ''0-0'', Array (map encode_entry (claimed_entries mi n now st gr)), Array []]),
         put_stream s (map_group g (claim_idle c mi n now st) st) ks)))"

definition parse_sid :: "string \<Rightarrow> sid option" where
  "parse_sid s = (case (parse_digits (takeWhile (\<lambda>c. c \<noteq> CHR ''-'') s), dropWhile (\<lambda>c. c \<noteq> CHR ''-'') s) of
      (Some a, _ # r) \<Rightarrow> map_option (\<lambda>b. (a, b)) (parse_digits r)
    | _ \<Rightarrow> None)"

definition mem_xtrim :: "string \<Rightarrow> string \<Rightarrow> keyspace \<Rightarrow> int \<times> keyspace" where
  "mem_xtrim s i ks = (case (streams ks s, parse_sid i) of
      (Some st, Some m) \<Rightarrow> (let n = length (takeWhile (\<lambda>e. fst e < m) (entries st))
        in (int n, put_stream s (st\<lparr>entries := drop n (entries st)\<rparr>) ks))
    | _ \<Rightarrow> (0, ks))"

definition mem_xpending :: "string \<Rightarrow> string \<Rightarrow> keyspace \<Rightarrow> redis_error + rvalue" where
  "mem_xpending s g ks = (case group_of ks s g of
      None \<Rightarrow> Inl (RedisError ''NOGROUP No such key or consumer group'')
    | Some gr \<Rightarrow> Inr (if pel gr = [] then Array [Int_V 0, Nil_V, Nil_V, Nil_V]
        else Array [Int_V (int (length (pel gr))), BulkString (sid_str (Min (pe_id ` set (pel gr)))),
          BulkString (sid_str (Max (pe_id ` set (pel gr)))), Array []]))"

definition mem_xinfo :: "string \<Rightarrow> keyspace \<Rightarrow> redis_error + rvalue" where
  "mem_xinfo s ks = (case streams ks s of None \<Rightarrow> Inl (RedisError ''ERR no such key'')
    | Some st \<Rightarrow> Inr (Array (map (encode_group 1 []) (groups st))))"

definition mem_redis :: redis_cmds where
  "mem_redis = \<lparr>
     ZADD = (\<lambda>f k s m ks. put_zset k (z_add f s m (zsets ks k)) ks),
     ZREM = (\<lambda>k m ks. put_zset k (z_remove m (zsets ks k)) ks),
     ZINCRBY = (\<lambda>k d m ks. put_zset k (z_put ((case z_score (zsets ks k) m of None \<Rightarrow> 0 | Some s \<Rightarrow> s) + d) m (zsets ks k)) ks),
     ZSCORE = (\<lambda>k m ks. z_score (zsets ks k) m),
     ZRANGE = (\<lambda>k i j ks. z_range i j (zsets ks k)),
     ZRANDMEMBER = (\<lambda>k ks. case zsets ks k of [] \<Rightarrow> None | p # _ \<Rightarrow> Some (snd p)),
     ZRANGEBYSCORE = (\<lambda>k lo hi off cnt ks.
       take cnt (drop off (map snd (filter (\<lambda>p. lo \<le> fst p \<and> fst p \<le> hi) (zsets ks k))))),
     GET = (\<lambda>k now ks. map_option fst (str_at ks now k)),
     SET_EX = mem_set_ex, SET_NX = mem_set_nx,
     INCR = mem_counter 1, DECR = mem_counter (- 1), EXPIRE = mem_expire,
     DEL = (\<lambda>k ks. ks\<lparr>strs := (strs ks)(k := None)\<rparr>), TTL = mem_ttl,
     XADD = mem_xadd, XLEN = (\<lambda>s ks. int (length (entries (stream_of ks s)))),
     XGROUP_CREATE = mem_xgroup,
     XREADGROUP = (\<lambda>g c n ss now ks. case ss of [s] \<Rightarrow> mem_xreadgroup g c n s now ks | _ \<Rightarrow> (Inr Nil_V, ks)),
     XACK = mem_xack,
     XAUTOCLAIM = (\<lambda>s g c mi _ n now ks. mem_xautoclaim s g c mi n now ks),
     XTRIM_MINID = mem_xtrim, XPENDING = mem_xpending, XINFO_GROUPS = mem_xinfo,
     SCAN = (\<lambda>_ _ ks. (0, []))\<rparr>"

interpretation mem_zsets: redis_zsets mem_redis
  by unfold_locales (auto simp: mem_redis_def image_iff neq_Nil_conv split: list.splits)

lemma mem_ttl_bounds:
  assumes "str_at ks now k = Some (v, Some e)"
  shows "0 \<le> mem_ttl k now ks \<and> secs (mem_ttl k now ks) < e - now + secs 1
    \<and> e - now < secs (mem_ttl k now ks) + secs 1"
proof -
  have "now < e" using assms by (auto simp: str_at_def split: option.splits if_splits)
  have "mem_ttl k now ks = timestamp (e - now + 999999)" using assms by (simp add: mem_ttl_def)
  with \<open>now < e\<close> show ?thesis by (simp add: secs_def timestamp_def) linarith
qed

interpretation mem_strings: redis_strings mem_redis
proof unfold_locales
  fix ks now k n ex assume s: "str_at ks now k = Some (show_int n, ex)"
  {
    assume "- (2 ^ 63) \<le> n" and "n < 2 ^ 63 - 1"
    then show "INCR mem_redis k now ks = (Inr (n + 1), put_str k (show_int (n + 1), ex) ks)"
      using s by (simp add: mem_redis_def mem_counter_def parse_i64_def parse_signed_show_int)
  next
    assume "- (2 ^ 63) < n" and "n \<le> 2 ^ 63 - 1"
    then show "DECR mem_redis k now ks = (Inr (n - 1), put_str k (show_int (n - 1), ex) ks)"
      using s by (simp add: mem_redis_def mem_counter_def parse_i64_def parse_signed_show_int)
  }
next
  fix ks now k v e assume "str_at ks now k = Some (v, Some e)"
  then show "0 \<le> TTL mem_redis k now ks \<and> secs (TTL mem_redis k now ks) < e - now + secs 1
      \<and> e - now < secs (TTL mem_redis k now ks) + secs 1"
    using mem_ttl_bounds by (simp add: mem_redis_def)
qed (auto simp: mem_redis_def mem_set_ex_def mem_set_nx_def mem_counter_def mem_expire_def
    mem_ttl_def ttl_ok_def)

lemma parse_sid_str [simp]: "parse_sid (sid_str i) = Some i"
proof -
  have "takeWhile (\<lambda>c. c \<noteq> CHR ''-'') (sid_str i) = show_nat (fst i)"
    and "dropWhile (\<lambda>c. c \<noteq> CHR ''-'') (sid_str i) = CHR ''-'' # show_nat (snd i)"
    using show_nat_no_sign(1) [of "fst i"]
    by (auto simp: sid_str_def takeWhile_append dropWhile_append)
  then show ?thesis by (simp add: parse_sid_def)
qed

lemma group_of_stream: "streams ks s = Some st \<Longrightarrow> group_of ks s g = map_of (groups st) g"
  by (simp add: group_of_def stream_of_def)

lemma stream_of_Some [simp]: "streams ks s = Some st \<Longrightarrow> stream_of ks s = st"
  by (simp add: stream_of_def)


lemma mem_xtrim_law:
  assumes "streams ks s = Some st"
  shows "\<exists>n. (\<forall>e\<in>set (take n (entries st)). fst e < i) \<and> mem_xtrim s (sid_str i) ks =
    (int (min n (length (entries st))), put_stream s (st\<lparr>entries := drop n (entries st)\<rparr>) ks)"
proof (intro exI conjI)
  let ?n = "length (takeWhile (\<lambda>e. fst e < i) (entries st))"
  show "\<forall>e\<in>set (take ?n (entries st)). fst e < i"
    by (metis set_takeWhileD takeWhile_eq_take)
  show "mem_xtrim s (sid_str i) ks = (int (min ?n (length (entries st))), put_stream s (st\<lparr>entries := drop ?n (entries st)\<rparr>) ks)"
    using assms length_takeWhile_le [of _ "entries st"] by (simp add: mem_xtrim_def min_absorb1 Let_def)
qed

interpretation mem_streams: redis_streams mem_redis
proof (unfold_locales, goal_cases)
  case (1 ks s f now)
  show ?case
    by (rule exI [of _ "next_sid now (top_id (stream_of ks s))"], rule conjI, rule next_sid_greater)
      (simp add: mem_redis_def mem_xadd_def Let_def del: next_sid.simps)
next
  case (3 ks s g at)
  then show ?case
    by (auto simp: mem_redis_def mem_xgroup_def)
next
  case (5 ks s g c n now)
  then show ?case by (auto simp: mem_redis_def mem_xreadgroup_def)
next
  case (11 ks s st i)
  then show ?case using mem_xtrim_law by (simp add: mem_redis_def)
next
  case (15 ks s st)
  then show ?case
    by (auto simp: mem_redis_def mem_xinfo_def group_info_def list_all2_conv_all_nth intro!: exI [of _ 1] exI [of _ "[]"])
qed (auto simp: mem_redis_def mem_xgroup_def mem_xreadgroup_def mem_xack_def mem_xautoclaim_def
    mem_xpending_def group_of_stream Let_def)

interpretation mem_server: redis_server mem_redis
  by unfold_locales

definition empty_keyspace :: keyspace where
  "empty_keyspace = \<lparr>zsets = (\<lambda>_. []), strs = (\<lambda>_. None), streams = (\<lambda>_. None)\<rparr>"

end
