(* ===== verification/World.thy ===== *)
theory World
  imports Identity_Tables Redis_Memory
begin

text \<open>
  The state the three binaries share and the monad their code runs in: the PostgreSQL tables
  (the row types of the \<open>models.rs\<close> files, with the columns the migrations declare), the Redis
  keyspace, the clock, and a script of outcomes for the external calls still to be made. A call
  may be served, refused (error, nothing happened) or lost (the effect happened, the reply did
  not arrive); a theorem that holds for every script holds under every pattern of failures.
\<close>

section \<open>Tables\<close>

record job_row =
  dj_id :: uuid
  dj_public_id :: string
  dj_event_id :: uuid
  dj_endpoint_id :: uuid
  dj_org_id :: uuid
  dj_status :: string
  dj_attempt :: int
  dj_enqueued_at :: "time option"
  dj_retry_after :: "time option"
  dj_max_attempts :: int
  dj_stream_name :: string
  dj_created_at :: time

record attempt_row =
  da_job_id :: uuid
  da_event_id :: uuid
  da_endpoint_id :: uuid
  da_attempt_number :: int
  da_status :: string
  da_http_status :: "int option"
  da_response_body :: "string option"
  da_latency_ms :: "int option"

record event_row =
  ev_id :: uuid
  ev_public_id :: string
  ev_application_id :: uuid
  ev_event_type_id :: uuid
  ev_endpoint_id :: "uuid option"
  ev_tenant_id :: uuid
  ev_org_id :: uuid
  ev_payload :: json
  ev_payload_type :: string
  ev_idempotency_key :: "string option"
  ev_body_hash :: "string option"
  ev_tags :: "(string \<times> string) list"
  ev_request_id :: uuid
  ev_created_by :: uuid
  ev_created_at :: time
  ev_schema_valid :: bool
  ev_schema_errors :: "(string \<times> string) list"

record endpoint_row =
  ep_id :: uuid
  ep_public_id :: string
  ep_application_id :: uuid
  ep_tenant_id :: uuid
  ep_org_id :: uuid
  ep_config :: json
  ep_status :: string
  ep_rate_limit :: "int option"
  ep_deleted_at :: "time option"
  ep_description :: "string option"
  ep_type :: string
  ep_event_types :: "string list"
  ep_tags :: "(string \<times> string) list"
  ep_version :: int
  ep_request_id :: uuid
  ep_created_by :: uuid
  ep_updated_by :: uuid
  ep_created_at :: time
  ep_updated_at :: time

record secret_row =
  es_endpoint_id :: uuid
  es_secret :: string
  es_is_active :: bool
  es_expires_at :: "time option"
  es_id :: uuid
  es_public_id :: string
  es_tenant_id :: uuid
  es_org_id :: uuid
  es_request_id :: uuid
  es_created_by :: uuid
  es_created_at :: time

record org_row =
  og_id :: uuid
  og_public_id :: string
  og_status :: string
  og_tier :: "string option"
  og_deleted_at :: "time option"
  og_name :: string
  og_slug :: string
  og_owner_email :: "string option"
  og_external_id :: "string option"
  og_tags :: "(string \<times> string) list"
  og_version :: int
  og_request_id :: uuid
  og_created_by :: uuid
  og_updated_by :: uuid
  og_created_at :: time
  og_updated_at :: time

datatype application_state = AppActive | AppSuspended | AppInactive

record application_row =
  ap_id :: uuid
  ap_public_id :: string
  ap_tenant_id :: uuid
  ap_org_id :: uuid
  ap_deleted_at :: "time option"
  ap_environment_id :: "uuid option"
  ap_name :: string
  ap_description :: string
  ap_tags :: "(string \<times> string) list"
  ap_state :: application_state
  ap_version :: int
  ap_request_id :: uuid
  ap_created_by :: uuid
  ap_updated_by :: uuid
  ap_created_at :: time
  ap_updated_at :: time

record event_type_row =
  et_id :: uuid
  et_public_id :: string
  et_tenant_id :: uuid
  et_name :: string
  et_schema_version :: string
  et_event_schema :: json
  et_archived :: bool
  et_deleted_at :: "time option"
  et_org_id :: uuid
  et_application_id :: "uuid option"
  et_description :: "string option"
  et_version :: int
  et_request_id :: uuid
  et_created_by :: uuid
  et_updated_by :: uuid
  et_created_at :: time
  et_updated_at :: time

record subscription_row =
  sb_id :: uuid
  sb_public_id :: string
  sb_endpoint_id :: uuid
  sb_event_type_id :: uuid
  sb_application_id :: uuid
  sb_tenant_id :: uuid
  sb_org_id :: uuid
  sb_status :: string
  sb_created_at :: time
  sb_deleted_at :: "time option"

record schedule_row =
  sc_id :: uuid
  sc_public_id :: string
  sc_name :: string
  sc_description :: "string option"
  sc_application_id :: "uuid option"
  sc_tenant_id :: uuid
  sc_org_id :: uuid
  sc_event_type_id :: uuid
  sc_payload :: json
  sc_cron :: string
  sc_timezone :: string
  sc_status :: string
  sc_next_run_at :: "time option"
  sc_last_run_at :: "time option"
  sc_last_run_status :: "string option"
  sc_idempotency_key :: "string option"
  sc_body_hash :: "string option"
  sc_created_by :: uuid
  sc_updated_by :: uuid
  sc_request_id :: uuid
  sc_version :: int
  sc_created_at :: time
  sc_updated_at :: time
  sc_deleted_at :: "time option"
  sc_assigned_shard :: int

record execution_row =
  sx_id :: uuid
  sx_public_id :: string
  sx_schedule_id :: uuid
  sx_tenant_id :: uuid
  sx_org_id :: uuid
  sx_status :: string
  sx_triggered_at :: time
  sx_created_at :: time

text \<open>The tables, and the two facts of the catalog on which statements of the sources depend:
  whether \<open>organizations\<close> has a column \<open>tier\<close>, and the values the check constraint of
  \<open>schedule_executions.status\<close> admits.\<close>

record db =
  has_tier_column :: bool
  execution_statuses :: "string list"
  delivery_jobs :: "job_row list"
  delivery_attempts :: "attempt_row list"
  events :: "event_row list"
  endpoints :: "endpoint_row list"
  endpoint_secrets :: "secret_row list"
  organizations :: "org_row list"
  applications :: "application_row list"
  event_types :: "event_type_row list"
  subscriptions :: "subscription_row list"
  schedules :: "schedule_row list"
  schedule_endpoints :: "(uuid \<times> uuid) list"
  schedule_executions :: "execution_row list"
  tenant_shard_affinity :: "(uuid \<times> int) list"
  identity :: identity_db

text \<open>The catalog the migrations of the repository create.\<close>

definition migrated_statuses :: "string list" where
  "migrated_statuses = [''pending'', ''running'', ''success'', ''partial_failure'', ''failure'']"

definition empty_db :: db where
  "empty_db = \<lparr>has_tier_column = False, execution_statuses = migrated_statuses,
     delivery_jobs = [], delivery_attempts = [], events = [], endpoints = [], endpoint_secrets = [],
     organizations = [], applications = [], event_types = [], subscriptions = [], schedules = [],
     schedule_endpoints = [], schedule_executions = [], tenant_shard_affinity = [], identity = empty_identity\<rparr>"

section \<open>The world and its external calls\<close>

datatype outcome = Served | Refused string | Lost string

record world =
  w_db :: db
  w_ks :: keyspace
  w_now :: time
  w_outcomes :: "outcome list"
  w_ids :: nat

type_synonym 'a io = "(world, 'a) state"

abbreviation no_faults :: "world \<Rightarrow> bool" where
  "no_faults w \<equiv> w_outcomes w = []"

definition next_outcome :: "outcome io" where
  "next_outcome = State (\<lambda>w. case w_outcomes w of [] \<Rightarrow> (Served, w)
     | x # xs \<Rightarrow> (x, w\<lparr>w_outcomes := xs\<rparr>))"

definition now :: "time io" where
  "now = State (\<lambda>w. (w_now w, w))"

text \<open>The number of the next identifier a generator of the process hands out.\<close>

definition fresh :: "nat io" where
  "fresh = State (\<lambda>w. (w_ids w, w\<lparr>w_ids := Suc (w_ids w)\<rparr>))"

text \<open>\<open>get_multiplexed_async_connection\<close>.\<close>

definition connect :: "(redis_error + unit) io" where
  "connect = do {
     x \<leftarrow> next_outcome;
     State_Monad.return (case x of Served \<Rightarrow> Inr () | Refused e \<Rightarrow> Inl (RedisError e) | Lost e \<Rightarrow> Inl (RedisError e)) }"

text \<open>One command, or one Lua script, sent to the server and run there atomically.\<close>

definition serve_redis :: "(time \<Rightarrow> keyspace \<Rightarrow> 'a \<times> keyspace) \<Rightarrow> 'a io" where
  "serve_redis c = State (\<lambda>w. case c (w_now w) (w_ks w) of (r, ks) \<Rightarrow> (r, w\<lparr>w_ks := ks\<rparr>))"

definition command :: "(time \<Rightarrow> keyspace \<Rightarrow> (redis_error + 'a) \<times> keyspace) \<Rightarrow> (redis_error + 'a) io" where
  "command c = do {
     x \<leftarrow> next_outcome;
     case x of
       Served \<Rightarrow> serve_redis c
     | Refused e \<Rightarrow> State_Monad.return (Inl (RedisError e))
     | Lost e \<Rightarrow> do { _ \<leftarrow> serve_redis c; State_Monad.return (Inl (RedisError e)) } }"

text \<open>One SQL statement in its own transaction.\<close>

definition serve_sql :: "(time \<Rightarrow> db \<Rightarrow> (sqlx_error + 'a) \<times> db) \<Rightarrow> (sqlx_error + 'a) io" where
  "serve_sql q = State (\<lambda>w. case q (w_now w) (w_db w) of
      (Inl e, _) \<Rightarrow> (Inl e, w) | (Inr a, d) \<Rightarrow> (Inr a, w\<lparr>w_db := d\<rparr>))"

definition statement :: "(time \<Rightarrow> db \<Rightarrow> (sqlx_error + 'a) \<times> db) \<Rightarrow> (sqlx_error + 'a) io" where
  "statement q = do {
     x \<leftarrow> next_outcome;
     case x of
       Served \<Rightarrow> serve_sql q
     | Refused e \<Rightarrow> State_Monad.return (Inl (OtherSqlx e))
     | Lost e \<Rightarrow> do { _ \<leftarrow> serve_sql q; State_Monad.return (Inl (OtherSqlx e)) } }"

text \<open>A statement inside a transaction works on the transaction's copy of the tables, and
  committing installs the copy. A failed statement leaves the transaction to be rolled back.\<close>

definition tx_statement :: "(time \<Rightarrow> db \<Rightarrow> (sqlx_error + 'a) \<times> db) \<Rightarrow> db \<Rightarrow> (sqlx_error + 'a \<times> db) io" where
  "tx_statement q d = do {
     x \<leftarrow> next_outcome;
     t \<leftarrow> now;
     State_Monad.return (case x of
         Served \<Rightarrow> (case q t d of (Inl e, _) \<Rightarrow> Inl e | (Inr a, d') \<Rightarrow> Inr (a, d'))
       | Refused e \<Rightarrow> Inl (OtherSqlx e)
       | Lost e \<Rightarrow> Inl (OtherSqlx e)) }"

definition tx_begin :: "(sqlx_error + db) io" where
  "tx_begin = do {
     x \<leftarrow> next_outcome;
     w \<leftarrow> State_Monad.get;
     State_Monad.return (case x of Served \<Rightarrow> Inr (w_db w) | Refused e \<Rightarrow> Inl (OtherSqlx e) | Lost e \<Rightarrow> Inl (OtherSqlx e)) }"

definition tx_commit :: "db \<Rightarrow> (sqlx_error + unit) io" where
  "tx_commit d = statement (\<lambda>_ _. (Inr (), d))"

text \<open>A query reads and changes nothing.\<close>

definition query :: "(time \<Rightarrow> db \<Rightarrow> 'a) \<Rightarrow> (sqlx_error + 'a) io" where
  "query q = statement (\<lambda>t d. (Inr (q t d), d))"

text \<open>\<open>?\<close> on a result: stop at the error, continue with the value.\<close>

definition try_bind :: "('e + 'a) io \<Rightarrow> ('a \<Rightarrow> ('e + 'b) io) \<Rightarrow> ('e + 'b) io" where
  "try_bind m f = do { r \<leftarrow> m; case r of Inl e \<Rightarrow> State_Monad.return (Inl e) | Inr a \<Rightarrow> f a }"

text \<open>\<open>.map_err(AppError::from)\<close>.\<close>

definition map_sqlx :: "(sqlx_error + 'a) io \<Rightarrow> (app_error + 'a) io" where
  "map_sqlx m = do { r \<leftarrow> m; State_Monad.return (map_sum from_sqlx id r) }"

text \<open>A world with given tables, keyspace and clock in which no call fails.\<close>

definition start_world :: "db \<Rightarrow> keyspace \<Rightarrow> time \<Rightarrow> world" where
  "start_world d ks t = \<lparr>w_db = d, w_ks = ks, w_now = t, w_outcomes = [], w_ids = 0\<rparr>"

lemma start_world_sel [simp]:
  "w_db (start_world d ks t) = d" "w_ks (start_world d ks t) = ks" "w_now (start_world d ks t) = t"
  "w_outcomes (start_world d ks t) = []" "w_ids (start_world d ks t) = 0"
  by (simp_all add: start_world_def)

section \<open>Evaluation\<close>

lemma run_next_outcome [run_simps]:
  "run_state next_outcome w = (case w_outcomes w of [] \<Rightarrow> (Served, w) | x # xs \<Rightarrow> (x, w\<lparr>w_outcomes := xs\<rparr>))"
  by (simp add: next_outcome_def)

lemma run_now [run_simps]: "run_state now w = (w_now w, w)"
  by (simp add: now_def)

lemma run_fresh [run_simps]: "run_state fresh w = (w_ids w, w\<lparr>w_ids := Suc (w_ids w)\<rparr>)"
  by (simp add: fresh_def)

lemma run_serve_redis [run_simps]:
  "run_state (serve_redis c) w = (case c (w_now w) (w_ks w) of (r, ks) \<Rightarrow> (r, w\<lparr>w_ks := ks\<rparr>))"
  by (simp add: serve_redis_def)

lemma run_serve_sql [run_simps]:
  "run_state (serve_sql q) w = (case q (w_now w) (w_db w) of
      (Inl e, _) \<Rightarrow> (Inl e, w) | (Inr a, d) \<Rightarrow> (Inr a, w\<lparr>w_db := d\<rparr>))"
  by (simp add: serve_sql_def)

lemma run_try_bind [run_simps]:
  "run_state (try_bind m f) w = (case run_state m w of (Inl e, w') \<Rightarrow> (Inl e, w') | (Inr a, w') \<Rightarrow> run_state (f a) w')"
  by (simp add: try_bind_def run_simps split: prod.splits sum.splits)

lemma run_map_sqlx [run_simps]:
  "run_state (map_sqlx m) w = (case run_state m w of (r, w') \<Rightarrow> (map_sum from_sqlx id r, w'))"
  by (simp add: map_sqlx_def run_simps)

text \<open>Without faults every call is served.\<close>

lemma run_connect_ok [simp]: "no_faults w \<Longrightarrow> run_state connect w = (Inr (), w)"
  by (simp add: connect_def run_simps)

lemma run_command_ok [simp]: "no_faults w \<Longrightarrow> run_state (command c) w =
    (case c (w_now w) (w_ks w) of (r, ks) \<Rightarrow> (r, w\<lparr>w_ks := ks\<rparr>))"
  by (simp add: command_def run_simps)

lemma run_statement_ok [simp]: "no_faults w \<Longrightarrow> run_state (statement q) w =
    (case q (w_now w) (w_db w) of (Inl e, _) \<Rightarrow> (Inl e, w) | (Inr a, d) \<Rightarrow> (Inr a, w\<lparr>w_db := d\<rparr>))"
  by (simp add: statement_def run_simps)

lemma run_query_ok [simp]: "no_faults w \<Longrightarrow> run_state (query q) w = (Inr (q (w_now w) (w_db w)), w)"
  by (simp add: query_def)

lemma run_tx_begin_ok [simp]: "no_faults w \<Longrightarrow> run_state tx_begin w = (Inr (w_db w), w)"
  by (simp add: tx_begin_def run_simps)

lemma run_tx_statement_ok [simp]: "no_faults w \<Longrightarrow> run_state (tx_statement q d) w =
    (case q (w_now w) d of (Inl e, _) \<Rightarrow> (Inl e, w) | (Inr a, d') \<Rightarrow> (Inr (a, d'), w))"
  by (simp add: tx_statement_def run_simps split: prod.splits sum.splits)

lemma run_tx_commit_ok [simp]: "no_faults w \<Longrightarrow> run_state (tx_commit d) w = (Inr (), w\<lparr>w_db := d\<rparr>)"
  by (simp add: tx_commit_def)

section \<open>Preservation\<close>

text \<open>A property of the world the bookkeeping of outcomes and identifiers keeps.\<close>

definition stable :: "(world \<Rightarrow> bool) \<Rightarrow> bool" where
  "stable P \<longleftrightarrow> (\<forall>w n. P w \<longrightarrow> P (w\<lparr>w_outcomes := tl (w_outcomes w)\<rparr>) \<and> P (w\<lparr>w_ids := n\<rparr>))"

lemma keeps_next_outcome: "stable P \<Longrightarrow> keeps P next_outcome"
proof -
  assume s: "stable P"
  have "P (snd (run_state next_outcome w))" if "P w" for w
  proof (cases "w_outcomes w")
    case Nil
    with that show ?thesis by (simp add: run_simps)
  next
    case (Cons x xs)
    then have "snd (run_state next_outcome w) = w\<lparr>w_outcomes := tl (w_outcomes w)\<rparr>" by (simp add: run_simps)
    with s that show ?thesis by (simp add: stable_def)
  qed
  then show ?thesis by (rule keepsI)
qed

lemma keeps_now [keeps_intros]: "keeps P now"
  by (simp add: keeps_def run_simps)

lemma keeps_fresh [keeps_intros]: "stable P \<Longrightarrow> keeps P fresh"
  by (simp add: keeps_def run_simps stable_def)

lemma keeps_connect [keeps_intros]: "stable P \<Longrightarrow> keeps P connect"
  by (auto simp: connect_def intro!: keeps_intros keeps_next_outcome)

lemma keeps_serve_redis:
  "(\<And>w. P w \<Longrightarrow> P (w\<lparr>w_ks := snd (c (w_now w) (w_ks w))\<rparr>)) \<Longrightarrow> keeps P (serve_redis c)"
  by (auto simp: keeps_def run_simps split: prod.splits) (metis snd_conv)

lemma keeps_command [keeps_intros]:
  assumes "stable P" and "\<And>w. P w \<Longrightarrow> P (w\<lparr>w_ks := snd (c (w_now w) (w_ks w))\<rparr>)"
  shows "keeps P (command c)"
proof -
  have "keeps P (case x of Served \<Rightarrow> serve_redis c
     | Refused e \<Rightarrow> State_Monad.return (Inl (RedisError e))
     | Lost e \<Rightarrow> State_Monad.bind (serve_redis c) (\<lambda>_. State_Monad.return (Inl (RedisError e))))" for x
    using assms(2) by (cases x) (auto intro!: keeps_intros keeps_serve_redis)
  then show ?thesis
    unfolding command_def using assms(1) by (auto intro!: keeps_intros keeps_next_outcome)
qed

lemma keeps_serve_sql:
  "(\<And>w a d. P w \<Longrightarrow> q (w_now w) (w_db w) = (Inr a, d) \<Longrightarrow> P (w\<lparr>w_db := d\<rparr>)) \<Longrightarrow> keeps P (serve_sql q)"
  by (auto simp: keeps_def run_simps split: prod.splits sum.splits)

lemma keeps_statement [keeps_intros]:
  assumes "stable P" and "\<And>w a d. P w \<Longrightarrow> q (w_now w) (w_db w) = (Inr a, d) \<Longrightarrow> P (w\<lparr>w_db := d\<rparr>)"
  shows "keeps P (statement q)"
proof -
  have "keeps P (case x of Served \<Rightarrow> serve_sql q
     | Refused e \<Rightarrow> State_Monad.return (Inl (OtherSqlx e))
     | Lost e \<Rightarrow> State_Monad.bind (serve_sql q) (\<lambda>_. State_Monad.return (Inl (OtherSqlx e))))" for x
    using assms(2) by (cases x) (auto intro!: keeps_intros keeps_serve_sql)
  then show ?thesis
    unfolding statement_def using assms(1) by (auto intro!: keeps_intros keeps_next_outcome)
qed

lemma keeps_query [keeps_intros]: "stable P \<Longrightarrow> keeps P (query q)"
  unfolding query_def by (rule keeps_statement) simp_all

lemma keeps_try_bind [keeps_intros]: "keeps P m \<Longrightarrow> (\<And>a. keeps P (f a)) \<Longrightarrow> keeps P (try_bind m f)"
  unfolding try_bind_def by (intro keeps_intros)

lemma keeps_map_sqlx [keeps_intros]: "keeps P m \<Longrightarrow> keeps P (map_sqlx m)"
  unfolding map_sqlx_def by (intro keeps_intros)

lemma keeps_tx_begin [keeps_intros]: "stable P \<Longrightarrow> keeps P tx_begin"
  unfolding tx_begin_def by (auto intro!: keeps_intros keeps_next_outcome)

lemma keeps_tx_statement [keeps_intros]: "stable P \<Longrightarrow> keeps P (tx_statement q d)"
  unfolding tx_statement_def by (auto intro!: keeps_intros keeps_next_outcome)

text \<open>Properties of the tables alone: commands to Redis cannot affect them, and neither can
  the passing of time.\<close>

definition tables_only :: "(world \<Rightarrow> bool) \<Rightarrow> bool" where
  "tables_only P \<longleftrightarrow> stable P \<and> (\<forall>w ks t. P w \<longrightarrow> P (w\<lparr>w_ks := ks\<rparr>) \<and> P (w\<lparr>w_now := t\<rparr>))"

lemma tables_only_stable: "tables_only P \<Longrightarrow> stable P"
  by (simp add: tables_only_def)

lemma keeps_command_tables: "tables_only P \<Longrightarrow> keeps P (command c)"
  by (rule keeps_command) (simp_all add: tables_only_def)

lemma record_now_update: "w_now_update f w = w\<lparr>w_now := f (w_now w)\<rparr>"
  by simp

lemma keeps_now_update: "tables_only P \<Longrightarrow> keeps P (State_Monad.update (w_now_update f))"
  by (rule keepsI, unfold run_update snd_conv, subst record_now_update) (simp add: tables_only_def)

text \<open>Properties of the tables of a world in which no call fails.\<close>

definition with_db :: "(db \<Rightarrow> bool) \<Rightarrow> world \<Rightarrow> bool" where
  "with_db Q w \<longleftrightarrow> no_faults w \<and> Q (w_db w)"

definition any_db :: "(db \<Rightarrow> bool) \<Rightarrow> world \<Rightarrow> bool" where
  "any_db Q w \<longleftrightarrow> Q (w_db w)"

lemma tables_only_with_db [simp]: "tables_only (with_db Q)" "tables_only (any_db Q)"
  by (simp_all add: tables_only_def stable_def with_db_def any_db_def)

section \<open>Triples for statements\<close>

lemma try_bind_Inr: "run_state (try_bind m f) w = (Inr b, w') \<Longrightarrow> \<exists>a w1. run_state m w = (Inr a, w1) \<and> run_state (f a) w1 = (Inr b, w')"
  by (auto simp: run_simps split: prod.splits sum.splits)

lemma try_bind_assoc: "try_bind (try_bind m f) g = try_bind m (\<lambda>a. try_bind (f a) g)"
  by (rule state.expand) (auto simp: fun_eq_iff run_simps split: prod.splits sum.splits)

lemma triple_try_bind: "triple P m Q \<Longrightarrow> (\<And>e s. Q (Inl e) s \<Longrightarrow> S (Inl e) s) \<Longrightarrow> (\<And>a. triple (Q (Inr a)) (f a) S) \<Longrightarrow> triple P (try_bind m f) S"
  by (auto simp: triple_def run_simps case_prod_beta split: sum.splits)

lemma triple_try_bind_keeps: "keeps P m \<Longrightarrow> (\<And>e s. P s \<Longrightarrow> S (Inl e) s) \<Longrightarrow> (\<And>a. triple P (f a) S) \<Longrightarrow> triple P (try_bind m f) S"
  by (rule triple_try_bind [OF triple_keeps])

lemma triple_next_outcome: "stable P \<Longrightarrow> triple P next_outcome (\<lambda>_. P)"
  by (rule triple_keeps [OF keeps_next_outcome])

text \<open>The tables after a statement: unchanged, or what it made of them.\<close>

lemma triple_statement:
  assumes "stable P" and "\<And>w. P w \<Longrightarrow> Q w" and "\<And>w a d. P w \<Longrightarrow> q (w_now w) (w_db w) = (Inr a, d) \<Longrightarrow> Q (w\<lparr>w_db := d\<rparr>)"
  shows "triple P (statement q) (\<lambda>_. Q)"
proof -
  have serve: "triple P (serve_sql q) (\<lambda>_. Q)"
    using assms(2,3) by (auto simp: triple_def run_simps split: prod.splits sum.splits)
  have "triple P (case x of Served \<Rightarrow> serve_sql q
     | Refused e \<Rightarrow> State_Monad.return (Inl (OtherSqlx e))
     | Lost e \<Rightarrow> State_Monad.bind (serve_sql q) (\<lambda>_. State_Monad.return (Inl (OtherSqlx e)))) (\<lambda>_. Q)" for x
    using assms(2) by (cases x) (auto intro: triple_return serve triple_bind [OF serve triple_return])
  then show ?thesis unfolding statement_def by (rule triple_bind [OF triple_next_outcome [OF assms(1)]])
qed

lemma triple_statement_result:
  assumes "stable P" and "\<And>w a d. P w \<Longrightarrow> q (w_now w) (w_db w) = (Inr a, d) \<Longrightarrow> Q (w\<lparr>w_db := d\<rparr>)"
  shows "triple P (map_sqlx (statement q)) (\<lambda>r w. \<forall>a. r = Inr a \<longrightarrow> Q w)"
proof -
  have "triple P (case x of Served \<Rightarrow> serve_sql q
     | Refused e \<Rightarrow> State_Monad.return (Inl (OtherSqlx e))
     | Lost e \<Rightarrow> State_Monad.bind (serve_sql q) (\<lambda>_. State_Monad.return (Inl (OtherSqlx e)))) (\<lambda>r w. \<forall>a. r = Inr a \<longrightarrow> Q w)" for x
    using assms(2) by (cases x) (auto simp: triple_def run_simps split: prod.splits sum.splits)
  then have "triple P (statement q) (\<lambda>r w. \<forall>a. r = Inr a \<longrightarrow> Q w)"
    unfolding statement_def by (rule triple_bind [OF triple_next_outcome [OF assms(1)]])
  then show ?thesis
    unfolding map_sqlx_def by (rule triple_bind) (auto simp: triple_def run_simps map_sum_def split: sum.splits)
qed

text \<open>Postconditions for a result: one for the value, one for the world an error leaves; and the same for a result
  that may be absent.\<close>

definition result_post :: "('a \<Rightarrow> world \<Rightarrow> bool) \<Rightarrow> (world \<Rightarrow> bool) \<Rightarrow> 'e + 'a \<Rightarrow> world \<Rightarrow> bool" where
  "result_post Q E r w \<longleftrightarrow> (case r of Inl _ \<Rightarrow> E w | Inr a \<Rightarrow> Q a w)"

definition found_post :: "('a \<Rightarrow> world \<Rightarrow> bool) \<Rightarrow> (world \<Rightarrow> bool) \<Rightarrow> 'e + 'a option \<Rightarrow> world \<Rightarrow> bool" where
  "found_post Q E = result_post (\<lambda>x w. case x of None \<Rightarrow> E w | Some a \<Rightarrow> Q a w) E"

lemma result_post_simps [simp]: "result_post Q E (Inl e) w = E w" "result_post Q E (Inr a) w = Q a w"
  "found_post Q E (Inl e) w = E w" "found_post Q E (Inr None) w = E w" "found_post Q E (Inr (Some a)) w = Q a w"
  by (simp_all add: result_post_def found_post_def)

lemma triple_try: "triple P m (result_post Q E) \<Longrightarrow> (\<And>e s. E s \<Longrightarrow> S (Inl e) s) \<Longrightarrow> (\<And>a. triple (Q a) (f a) S) \<Longrightarrow> triple P (try_bind m f) S"
  by (rule triple_try_bind [where Q = "result_post Q E"]) (simp_all add: triple_def)

text \<open>A statement that answers did what it says; one that failed left the tables alone, or did it and lost the
  reply.\<close>

lemma triple_statement_split:
  assumes "stable P" and "\<And>w. P w \<Longrightarrow> E w" and "\<And>w a d. P w \<Longrightarrow> q (w_now w) (w_db w) = (Inr a, d) \<Longrightarrow> E (w\<lparr>w_db := d\<rparr>) \<and> Q a (w\<lparr>w_db := d\<rparr>)"
  shows "triple P (map_sqlx (statement q)) (result_post Q E)"
proof -
  have "triple P (case x of Served \<Rightarrow> serve_sql q
     | Refused e \<Rightarrow> State_Monad.return (Inl (OtherSqlx e))
     | Lost e \<Rightarrow> State_Monad.bind (serve_sql q) (\<lambda>_. State_Monad.return (Inl (OtherSqlx e)))) (result_post Q E)" for x
    using assms(2,3) by (cases x) (auto simp: triple_def run_simps split: prod.splits sum.splits)
  then have "triple P (statement q) (result_post Q E)"
    unfolding statement_def by (rule triple_bind [OF triple_next_outcome [OF assms(1)]])
  then show ?thesis
    unfolding map_sqlx_def by (rule triple_bind) (auto simp: triple_def run_simps result_post_def map_sum_def split: sum.splits)
qed

text \<open>Inside a transaction the world stays as it is and the result speaks of the copy.\<close>

lemma triple_map_sqlx: "triple P m (result_post Q E) \<Longrightarrow> triple P (map_sqlx m) (result_post Q E)"
  unfolding map_sqlx_def by (rule triple_bind) (auto simp: triple_def run_simps result_post_def map_sum_def split: sum.splits)

lemma triple_tx_begin:
  assumes "stable P"
  shows "triple P (map_sqlx tx_begin) (result_post (\<lambda>d w. P w \<and> w_db w = d) P)"
  unfolding tx_begin_def
proof (intro triple_map_sqlx triple_bind [OF triple_next_outcome [OF assms]])
  fix x
  show "triple P (State_Monad.bind State_Monad.get (\<lambda>w. State_Monad.return (case x of Served \<Rightarrow> Inr (w_db w) | Refused e \<Rightarrow> Inl (OtherSqlx e) | Lost e \<Rightarrow> Inl (OtherSqlx e))))
      (result_post (\<lambda>d w. P w \<and> w_db w = d) P)"
    by (cases x) (simp_all add: triple_def run_simps)
qed

lemma triple_tx_statement:
  assumes "stable R"
  shows "triple R (map_sqlx (tx_statement q d)) (result_post (\<lambda>x w. R w \<and> q (w_now w) d = (Inr (fst x), snd x)) R)"
  unfolding tx_statement_def
proof (intro triple_map_sqlx triple_bind [OF triple_next_outcome [OF assms]])
  fix x
  show "triple R (State_Monad.bind now (\<lambda>t. State_Monad.return (case x of
         Served \<Rightarrow> (case q t d of (Inl e, _) \<Rightarrow> Inl e | (Inr a, d') \<Rightarrow> Inr (a, d'))
       | Refused e \<Rightarrow> Inl (OtherSqlx e) | Lost e \<Rightarrow> Inl (OtherSqlx e)))) (result_post (\<lambda>x w. R w \<and> q (w_now w) d = (Inr (fst x), snd x)) R)"
    by (cases x) (auto simp: triple_def run_simps split: prod.splits sum.splits)
qed

text \<open>The results of calls as facts for what follows them; a property of the tables that a transaction keeps on its
  copy is kept by the commit.\<close>

lemma keeps_try_result:
  assumes "keeps P m" "\<And>w a. P w \<Longrightarrow> fst (run_state m w) = Inr a \<Longrightarrow> keeps P (f a)"
  shows "keeps P (try_bind m f)"
  using assms unfolding keeps_def run_try_bind by (auto simp: case_prod_beta split: sum.splits)

lemma keeps_tx_begin_try: "(\<And>d. S d \<Longrightarrow> keeps (any_db S) (f d)) \<Longrightarrow> keeps (any_db S) (try_bind (map_sqlx tx_begin) f)"
  by (rule keeps_try_result)
    (auto simp: tx_begin_def run_simps any_db_def case_prod_beta tables_only_stable split: outcome.splits list.splits intro!: keeps_intros keeps_next_outcome)

lemma keeps_tx_statement_try:
  assumes "stable P" "\<And>t a d'. q t d = (Inr a, d') \<Longrightarrow> keeps P (f (a, d'))"
  shows "keeps P (try_bind (map_sqlx (tx_statement q d)) f)"
proof (rule keeps_try_result)
  fix w x
  assume "fst (run_state (map_sqlx (tx_statement q d)) w) = Inr x"
  then have "q (w_now w) d = (Inr (fst x), snd x)"
    by (cases "q (w_now w) d") (auto simp: tx_statement_def run_simps split: outcome.splits list.splits sum.splits)
  from assms(2) [OF this] show "keeps P (f x)" by simp
qed (intro keeps_intros assms(1))

lemma keeps_tx_commit_map: "S d \<Longrightarrow> keeps (any_db S) (map_sqlx (tx_commit d))"
  unfolding tx_commit_def by (intro keeps_intros) (simp_all add: any_db_def tables_only_stable)

lemma stable_at: "stable P \<Longrightarrow> stable (\<lambda>w. P (w\<lparr>w_db := d\<rparr>))"
proof -
  assume P: "stable P"
  have comm: "w\<lparr>w_outcomes := x, w_db := d\<rparr> = w\<lparr>w_db := d, w_outcomes := x\<rparr>" "w\<lparr>w_ids := n, w_db := d\<rparr> = w\<lparr>w_db := d, w_ids := n\<rparr>" for w :: world and x n
    by simp_all
  have "P (w\<lparr>w_outcomes := tl (w_outcomes w), w_db := d\<rparr>) \<and> P (w\<lparr>w_ids := n, w_db := d\<rparr>)" if "P (w\<lparr>w_db := d\<rparr>)" for w n
    using P [unfolded stable_def, rule_format, OF that, of n] unfolding comm by simp
  then show ?thesis by (auto simp: stable_def)
qed

lemma stable_conj: "stable P \<Longrightarrow> stable Q \<Longrightarrow> stable (\<lambda>w. P w \<and> Q w)"
  by (simp add: stable_def)

lemma stable_ex: "(\<And>x. stable (P x)) \<Longrightarrow> stable (\<lambda>w. \<exists>x. P x w)"
  unfolding stable_def by blast

text \<open>A query that answers does so from the tables.\<close>

lemma triple_query:
  assumes "stable P"
  shows "triple P (map_sqlx (query q)) (\<lambda>r w. P w \<and> (\<forall>a. r = Inr a \<longrightarrow> a = q (w_now w) (w_db w)))"
proof -
  have "triple P (case x of Served \<Rightarrow> serve_sql (\<lambda>t d. (Inr (q t d), d))
     | Refused e \<Rightarrow> State_Monad.return (Inl (OtherSqlx e))
     | Lost e \<Rightarrow> State_Monad.bind (serve_sql (\<lambda>t d. (Inr (q t d), d))) (\<lambda>_. State_Monad.return (Inl (OtherSqlx e))))
     (\<lambda>r w. P w \<and> (\<forall>a. r = Inr a \<longrightarrow> a = q (w_now w) (w_db w)))" for x
    by (cases x) (simp_all add: triple_def run_simps)
  then have "triple P (query q) (\<lambda>r w. P w \<and> (\<forall>a. r = Inr a \<longrightarrow> a = q (w_now w) (w_db w)))"
    unfolding query_def statement_def by (rule triple_bind [OF triple_next_outcome [OF assms(1)]])
  then have "P (snd (run_state (query q) w)) \<and> (\<forall>a. fst (run_state (query q) w) = Inr a \<longrightarrow>
      a = q (w_now (snd (run_state (query q) w))) (w_db (snd (run_state (query q) w))))" if "P w" for w
    using that by (rule tripleD)
  then show ?thesis
    by (auto simp: triple_def run_map_sqlx case_prod_beta map_sum_def split: sum.splits)
qed

end
