(* ===== verification/Queue.thy ===== *)
theory Queue
  imports World
begin

text \<open>
  The Redis Streams queue (\<open>src/queue/mod.rs\<close>): stream naming, the consumer group, enqueueing
  and acknowledging, the sorted set that schedules streams among workers, the parsers for the
  replies of \<open>XREADGROUP\<close>, \<open>XAUTOCLAIM\<close> and \<open>XINFO GROUPS\<close>, and the trimming of streams.
  Every function takes the Redis commands \<open>R\<close> as its first argument.
\<close>

section \<open>Names\<close>

definition GROUP :: string where "GROUP = ''workers''"

definition STREAM_DEFAULT :: string where "STREAM_DEFAULT = ''hookly:q:tier:default''"
definition STREAM_SILVER :: string where "STREAM_SILVER = ''hookly:q:tier:silver''"
definition STREAM_GOLD :: string where "STREAM_GOLD = ''hookly:q:tier:gold''"
definition STREAM_PLATINUM :: string where "STREAM_PLATINUM = ''hookly:q:tier:platinum''"

definition TIER_STREAMS :: "string list" where
  "TIER_STREAMS = [STREAM_DEFAULT, STREAM_SILVER, STREAM_GOLD, STREAM_PLATINUM]"

definition STREAM_SET_KEY :: string where "STREAM_SET_KEY = ''hookly:q:streams''"

definition stream_for_tier :: "string \<Rightarrow> uuid \<Rightarrow> string" where
  "stream_for_tier tier org_id = (if tier = ''enterprise'' then ''hookly:q:org:'' @ org_id
     else ''hookly:q:tier:'' @ tier)"

section \<open>Parsing replies\<close>

fun redis_str :: "rvalue \<Rightarrow> string option" where
  "redis_str (BulkString b) = from_utf8 b"
| "redis_str (SimpleString s) = Some s"
| "redis_str _ = None"

fun field_j_loop :: "rvalue list \<Rightarrow> string option" where
  "field_j_loop (k # v # rest) = (if redis_str k = Some ''j'' then redis_str v else field_j_loop rest)"
| "field_j_loop _ = None"

fun extract_field_j :: "rvalue \<Rightarrow> string option" where
  "extract_field_j (Array f) = field_j_loop f"
| "extract_field_j _ = None"

fun parse_entry :: "rvalue \<Rightarrow> (string \<times> string) option" where
  "parse_entry (Array parts) = (if length parts < 2 then None else
     (case redis_str (parts ! 0) of None \<Rightarrow> None | Some msg_id \<Rightarrow>
       (case extract_field_j (parts ! 1) of None \<Rightarrow> None | Some job_id \<Rightarrow> Some (msg_id, job_id))))"
| "parse_entry _ = None"

definition parse_entries :: "rvalue list \<Rightarrow> (string \<times> string) list" where
  "parse_entries es = List.map_filter parse_entry es"

definition second_array :: "rvalue list \<Rightarrow> rvalue list option" where
  "second_array parts = (case parts of _ # Array m # _ \<Rightarrow> Some m | _ \<Rightarrow> None)"

definition parse_xread_reply :: "rvalue \<Rightarrow> (string \<times> string) list" where
  "parse_xread_reply v = (case v of
      Array (Array first_stream # _) \<Rightarrow> (case second_array first_stream of Some messages \<Rightarrow> parse_entries messages | None \<Rightarrow> [])
    | _ \<Rightarrow> [])"

definition parse_autoclaim_entries :: "rvalue \<Rightarrow> (string \<times> string) list" where
  "parse_autoclaim_entries v = (case v of
      Array parts \<Rightarrow> (case second_array parts of Some es \<Rightarrow> parse_entries es | None \<Rightarrow> [])
    | _ \<Rightarrow> [])"

fun parse_multi_stream :: "rvalue \<Rightarrow> (string \<times> string \<times> string) list" where
  "parse_multi_stream (Array parts) = (if length parts < 2 then [] else
     (case redis_str (parts ! 0) of None \<Rightarrow> [] | Some stream_name \<Rightarrow>
       (case parts ! 1 of
          Array messages \<Rightarrow> List.map_filter (\<lambda>entry. case entry of
              Array entry_parts \<Rightarrow> (if length entry_parts < 2 then None else
                (case redis_str (entry_parts ! 0) of None \<Rightarrow> None | Some msg_id \<Rightarrow>
                  (case extract_field_j (entry_parts ! 1) of None \<Rightarrow> None
                   | Some job_id \<Rightarrow> Some (stream_name, msg_id, job_id))))
            | _ \<Rightarrow> None) messages
        | _ \<Rightarrow> [])))"
| "parse_multi_stream _ = []"

definition parse_xread_multi_reply :: "rvalue \<Rightarrow> (string \<times> string \<times> string) list" where
  "parse_xread_multi_reply v = (case v of Array stream_list \<Rightarrow> concat (map parse_multi_stream stream_list) | _ \<Rightarrow> [])"

text \<open>The loop over the alternating fields of one group, with its two variables.\<close>

fun group_loop :: "rvalue list \<Rightarrow> bool \<Rightarrow> string option \<Rightarrow> bool \<times> string option" where
  "group_loop (k # v # rest) is_workers last_id =
     (if redis_str k = Some ''name'' then group_loop rest (redis_str v = Some GROUP) last_id
      else if redis_str k = Some ''last-delivered-id'' then group_loop rest is_workers (redis_str v)
      else group_loop rest is_workers last_id)"
| "group_loop _ is_workers last_id = (is_workers, last_id)"

fun find_workers :: "rvalue list \<Rightarrow> string option" where
  "find_workers [] = None"
| "find_workers (Array flds # gs) = (case group_loop flds False None of
     (is_workers, last_id) \<Rightarrow> if is_workers then last_id else find_workers gs)"
| "find_workers (_ # gs) = find_workers gs"

section \<open>Operations\<close>

definition ensure_consumer_group :: "redis_cmds \<Rightarrow> string \<Rightarrow> string \<Rightarrow> (redis_error + unit) io" where
  "ensure_consumer_group R stream at = try_bind connect (\<lambda>_. do {
     r \<leftarrow> command (\<lambda>_. XGROUP_CREATE R stream GROUP at);
     State_Monad.return (case r of Inr _ \<Rightarrow> Inr ()
       | Inl e \<Rightarrow> if contains (err_to_string e) ''BUSYGROUP'' then Inr () else Inl e) })"

definition enqueue :: "redis_cmds \<Rightarrow> string \<Rightarrow> string \<Rightarrow> (redis_error + unit) io" where
  "enqueue R stream job_public_id = try_bind connect (\<lambda>_.
     try_bind (command (\<lambda>t ks. map_prod Inr id (XADD R stream [(''j'', job_public_id)] t ks)))
       (\<lambda>_. State_Monad.return (Inr ())))"

definition xack :: "redis_cmds \<Rightarrow> string \<Rightarrow> string \<Rightarrow> (redis_error + unit) io" where
  "xack R stream msg_id = try_bind connect (\<lambda>_. command (\<lambda>_ ks. (Inr (), XACK R stream GROUP msg_id ks)))"

definition xautoclaim :: "redis_cmds \<Rightarrow> string \<Rightarrow> string \<Rightarrow> int \<Rightarrow> (string \<times> string) list io" where
  "xautoclaim R stream consumer_name min_idle_ms = do {
     c \<leftarrow> connect;
     case c of Inl _ \<Rightarrow> State_Monad.return []
     | Inr _ \<Rightarrow> do {
         v \<leftarrow> command (XAUTOCLAIM R stream GROUP consumer_name min_idle_ms ''0-0'' 100);
         State_Monad.return (case v of Inr r \<Rightarrow> parse_autoclaim_entries r | Inl _ \<Rightarrow> []) } }"

definition claim_script :: "redis_cmds \<Rightarrow> int \<Rightarrow> keyspace \<Rightarrow> string option \<times> keyspace" where
  "claim_script R now_ms ks = (case ZRANGE R STREAM_SET_KEY 0 0 ks of
      [] \<Rightarrow> (None, ks)
    | stream # _ \<Rightarrow> (Some stream, ZADD R ZPlain STREAM_SET_KEY now_ms stream ks))"

definition claim_next_stream :: "redis_cmds \<Rightarrow> int \<Rightarrow> string option io" where
  "claim_next_stream R now_ms = do {
     c \<leftarrow> connect;
     case c of Inl _ \<Rightarrow> State_Monad.return None
     | Inr _ \<Rightarrow> do {
         v \<leftarrow> command (\<lambda>_ ks. map_prod Inr id (claim_script R now_ms ks));
         State_Monad.return (case v of Inr s \<Rightarrow> s | Inl _ \<Rightarrow> None) } }"

definition register_stream :: "redis_cmds \<Rightarrow> string \<Rightarrow> (redis_error + unit) io" where
  "register_stream R stream = try_bind connect (\<lambda>_. command (\<lambda>_ ks. (Inr (), ZADD R ZNx STREAM_SET_KEY 0 stream ks)))"

definition remove_script :: "redis_cmds \<Rightarrow> string \<Rightarrow> keyspace \<Rightarrow> int \<times> keyspace" where
  "remove_script R stream ks = (if XLEN R stream ks = 0 then (1, ZREM R STREAM_SET_KEY stream ks) else (0, ks))"

definition remove_stream_if_empty :: "redis_cmds \<Rightarrow> string \<Rightarrow> bool io" where
  "remove_stream_if_empty R stream = do {
     c \<leftarrow> connect;
     case c of Inl _ \<Rightarrow> State_Monad.return False
     | Inr _ \<Rightarrow> do {
         v \<leftarrow> command (\<lambda>_ ks. map_prod Inr id (remove_script R stream ks));
         State_Monad.return (case v of Inr n \<Rightarrow> n = 1 | Inl _ \<Rightarrow> False) } }"

definition list_scheduled_streams :: "redis_cmds \<Rightarrow> string list io" where
  "list_scheduled_streams R = do {
     c \<leftarrow> connect;
     case c of Inl _ \<Rightarrow> State_Monad.return []
     | Inr _ \<Rightarrow> do {
         v \<leftarrow> command (\<lambda>_ ks. (Inr (ZRANGE R STREAM_SET_KEY 0 (- 1) ks), ks));
         State_Monad.return (case v of Inr ss \<Rightarrow> ss | Inl _ \<Rightarrow> []) } }"

definition xreadgroup_single :: "redis_cmds \<Rightarrow> string \<Rightarrow> string \<Rightarrow> int \<Rightarrow> (string \<times> string) list io" where
  "xreadgroup_single R stream consumer_name batch = do {
     c \<leftarrow> connect;
     case c of Inl _ \<Rightarrow> State_Monad.return []
     | Inr _ \<Rightarrow> do {
         v \<leftarrow> command (XREADGROUP R GROUP consumer_name batch [stream]);
         State_Monad.return (case v of Inr r \<Rightarrow> parse_xread_reply r | Inl _ \<Rightarrow> []) } }"

definition xreadgroup_multi :: "redis_cmds \<Rightarrow> string list \<Rightarrow> string \<Rightarrow> int \<Rightarrow> (string \<times> string \<times> string) list io" where
  "xreadgroup_multi R stream_names consumer_name batch = (if stream_names = [] then State_Monad.return [] else do {
     c \<leftarrow> connect;
     case c of Inl _ \<Rightarrow> State_Monad.return []
     | Inr _ \<Rightarrow> do {
         v \<leftarrow> command (XREADGROUP R GROUP consumer_name batch stream_names);
         State_Monad.return (case v of Inr r \<Rightarrow> parse_xread_multi_reply r | Inl _ \<Rightarrow> []) } })"

definition xinfo_last_delivered :: "redis_cmds \<Rightarrow> string \<Rightarrow> string option io" where
  "xinfo_last_delivered R stream = do {
     v \<leftarrow> command (\<lambda>_ ks. (XINFO_GROUPS R stream ks, ks));
     State_Monad.return (case v of Inr (Array gs) \<Rightarrow> find_workers gs | _ \<Rightarrow> None) }"

definition safe_trim_id :: "redis_cmds \<Rightarrow> string \<Rightarrow> string option io" where
  "safe_trim_id R stream = do {
     pending \<leftarrow> command (\<lambda>_ ks. (XPENDING R stream GROUP ks, ks));
     case pending of
       Inr (Array (p0 # p1 # _)) \<Rightarrow> (if p0 = Int_V 0 then xinfo_last_delivered R stream
         else State_Monad.return (redis_str p1))
     | _ \<Rightarrow> State_Monad.return None }"

definition xtrim_safe :: "redis_cmds \<Rightarrow> string \<Rightarrow> unit io" where
  "xtrim_safe R stream = do {
     c \<leftarrow> connect;
     case c of Inl _ \<Rightarrow> State_Monad.return ()
     | Inr _ \<Rightarrow> do {
         trim_id \<leftarrow> safe_trim_id R stream;
         case trim_id of None \<Rightarrow> State_Monad.return ()
         | Some i \<Rightarrow> (if i = ''0-0'' \<or> i = [] then State_Monad.return () else do {
             _ \<leftarrow> command (\<lambda>_ ks. map_prod Inr id (XTRIM_MINID R stream i ks));
             State_Monad.return () }) } }"

text \<open>The cursor loop of \<open>SCAN\<close>. Nothing in the code bounds it, so it carries fuel; a failed
  call ends it like the cursor 0.\<close>

fun scan_loop :: "redis_cmds \<Rightarrow> nat \<Rightarrow> string \<Rightarrow> int \<Rightarrow> string list \<Rightarrow> string list option io" where
  "scan_loop R 0 pat cursor found = State_Monad.return None"
| "scan_loop R (Suc fuel) pat cursor found = do {
     r \<leftarrow> command (\<lambda>_ ks. (Inr (SCAN R cursor pat ks), ks));
     case (case r of Inr p \<Rightarrow> p | Inl _ \<Rightarrow> (0, [])) of (nxt, keys) \<Rightarrow>
       (if nxt = 0 then State_Monad.return (Some (found @ keys))
        else scan_loop R fuel pat nxt (found @ keys)) }"

definition scan_streams :: "redis_cmds \<Rightarrow> nat \<Rightarrow> string \<Rightarrow> string list option io" where
  "scan_streams R fuel pat = do {
     c \<leftarrow> connect;
     case c of Inl _ \<Rightarrow> State_Monad.return (Some []) | Inr _ \<Rightarrow> scan_loop R fuel pat 0 [] }"

end
