(* ===== verification/Nano_Id.thy ===== *)
theory Nano_Id
  imports World
begin

text \<open>
  Public identifiers (\<open>src/common/nano_id.rs\<close>): eight base-62 digits of the clock in
  milliseconds, then eight random characters. The random source is the parameter \<open>G\<close>, which
  maps the number of the request to the text the generator returns.
\<close>

record idgen =
  uuid_of :: "nat \<Rightarrow> uuid"
  rand_of :: "nat \<Rightarrow> nat \<Rightarrow> string"

text \<open>\<open>Uuid::nil()\<close>.\<close>

definition nil_uuid :: uuid where
  "nil_uuid = ''00000000-0000-0000-0000-000000000000''"

definition LEN :: nat where "LEN = 16"

definition ALPHANUMERIC :: string where
  "ALPHANUMERIC = ''0123456789ABCDEFGHIJKLMNOPQRSTUVWXYZabcdefghijklmnopqrstuvwxyz''"

datatype nano_id_error = InvalidLength | InvalidCharacter

text \<open>The loop \<open>for i in (0..8).rev()\<close>, with \<open>i\<close> iterations left.\<close>

fun encode_ts_loop :: "nat \<Rightarrow> nat \<Rightarrow> string \<Rightarrow> string" where
  "encode_ts_loop 0 ms buf = buf"
| "encode_ts_loop (Suc i) ms buf = encode_ts_loop i (ms div 62) (buf[i := ALPHANUMERIC ! (ms mod 62)])"

definition encode_ts :: "nat \<Rightarrow> string" where
  "encode_ts ms = encode_ts_loop 8 ms (replicate 8 (CHR ''0''))"

text \<open>\<open>duration_since(UNIX_EPOCH).unwrap_or_default().as_millis() as u64\<close>.\<close>

definition unix_millis :: "time \<Rightarrow> nat" where
  "unix_millis t = nat (max 0 (timestamp_millis t)) mod 2 ^ 64"

definition generate :: "idgen \<Rightarrow> nat \<Rightarrow> string io" where
  "generate G len = do { n \<leftarrow> fresh; State_Monad.return (rand_of G n len) }"

definition nano_id_new :: "idgen \<Rightarrow> string io" where
  "nano_id_new G = do {
     t \<leftarrow> now;
     let ts = encode_ts (unix_millis t);
     rand \<leftarrow> generate G 8;
     State_Monad.return (ts @ rand) }"

definition is_ascii_alphanumeric :: "char \<Rightarrow> bool" where
  "is_ascii_alphanumeric c \<longleftrightarrow> byte_in 48 57 c \<or> byte_in 65 90 c \<or> byte_in 97 122 c"

definition validate :: "string \<Rightarrow> nano_id_error + unit" where
  "validate s = (if length s \<noteq> LEN then Inl InvalidLength
     else if \<not> list_all is_ascii_alphanumeric s then Inl InvalidCharacter else Inr ())"

text \<open>\<open>FromStr\<close>, \<open>TryFrom<String>\<close> and the decoding from the database.\<close>

definition nano_id_from_str :: "string \<Rightarrow> nano_id_error + string" where
  "nano_id_from_str s = (case validate s of Inl e \<Rightarrow> Inl e | Inr _ \<Rightarrow> Inr s)"

text \<open>A generator whose identifiers are the numbers of the draws.\<close>

definition counting_idgen :: idgen where
  "counting_idgen = \<lparr>uuid_of = show_nat, rand_of = (\<lambda>n _. show_nat n)\<rparr>"

lemma keeps_nano_id_new [keeps_intros]: "stable P \<Longrightarrow> keeps P (nano_id_new G)"
  unfolding nano_id_new_def generate_def Let_def by (intro keeps_intros)

section \<open>The digits\<close>

fun base62 :: "nat \<Rightarrow> nat \<Rightarrow> string" where
  "base62 0 ms = []"
| "base62 (Suc n) ms = base62 n (ms div 62) @ [ALPHANUMERIC ! (ms mod 62)]"

lemma length_base62 [simp]: "length (base62 n ms) = n"
  by (induction n arbitrary: ms) auto

lemma encode_ts_loop_base62: "n \<le> length buf \<Longrightarrow> encode_ts_loop n ms buf = base62 n ms @ drop n buf"
proof (induction n arbitrary: ms buf)
  case 0
  then show ?case by simp
next
  case (Suc n)
  then have "n < length buf" by simp
  with Suc show ?case by (simp add: Cons_nth_drop_Suc [symmetric])
qed

lemma encode_ts_base62: "encode_ts ms = base62 8 ms"
  by (simp add: encode_ts_def encode_ts_loop_base62)

lemma length_ALPHANUMERIC [simp]: "length ALPHANUMERIC = 62"
  by (simp add: ALPHANUMERIC_def)

lemma ALPHANUMERIC_sorted: "sorted_wrt (<) ALPHANUMERIC"
  by (simp add: ALPHANUMERIC_def less_char_def)

lemma ALPHANUMERIC_alnum: "list_all is_ascii_alphanumeric ALPHANUMERIC"
  by (simp add: ALPHANUMERIC_def is_ascii_alphanumeric_def byte_in_def)

lemma ALPHANUMERIC_nth_alnum: "i < 62 \<Longrightarrow> is_ascii_alphanumeric (ALPHANUMERIC ! i)"
  using ALPHANUMERIC_alnum by (simp add: list_all_length)

lemma ALPHANUMERIC_less: "i < j \<Longrightarrow> j < 62 \<Longrightarrow> ALPHANUMERIC ! i < ALPHANUMERIC ! j"
  using ALPHANUMERIC_sorted by (simp add: sorted_wrt_iff_nth_less)

lemma base62_less: "ms < ms' \<Longrightarrow> ms' < 62 ^ n \<Longrightarrow> base62 n ms < base62 n ms'"
proof (induction n arbitrary: ms ms')
  case 0
  then show ?case by simp
next
  case (Suc n)
  show ?case
  proof (cases "ms div 62 = ms' div 62")
    case True
    with Suc.prems(1) have "ms mod 62 < ms' mod 62"
      using div_mult_mod_eq [of ms 62] div_mult_mod_eq [of ms' 62] by linarith
    then have "ALPHANUMERIC ! (ms mod 62) < ALPHANUMERIC ! (ms' mod 62)"
      by (rule ALPHANUMERIC_less) simp
    with True show ?thesis by (simp add: list_less_def lexord_append_leftI)
  next
    case False
    then have "ms div 62 < ms' div 62" using Suc.prems(1) by (simp add: div_le_mono le_neq_implies_less)
    moreover have "ms' div 62 < 62 ^ n" using Suc.prems(2) by (simp add: less_mult_imp_div_less mult.commute)
    ultimately have "base62 n (ms div 62) < base62 n (ms' div 62)" by (rule Suc.IH)
    then show ?thesis by (simp add: list_less_def lexord_sufI)
  qed
qed

lemma base62_alnum: "list_all is_ascii_alphanumeric (base62 n ms)"
  by (induction n arbitrary: ms) (simp_all add: ALPHANUMERIC_nth_alnum)

section \<open>Properties\<close>

text \<open>C36. Identifiers are ordered by time: of two identifiers made at different milliseconds
  the earlier one is lexicographically smaller, whatever their random parts are, until the
  clock exceeds \<open>62^8\<close> milliseconds.\<close>

theorem nano_ids_ordered_by_time:
  assumes "unix_millis (w_now w1) < unix_millis (w_now w2)" and "unix_millis (w_now w2) < 62 ^ 8"
  shows "fst (run_state (nano_id_new G) w1) < fst (run_state (nano_id_new G) w2)"
proof -
  have "base62 8 (unix_millis (w_now w1)) < base62 8 (unix_millis (w_now w2))"
    using assms by (rule base62_less)
  then show ?thesis
    by (simp add: nano_id_new_def generate_def run_simps Let_def encode_ts_base62 list_less_def lexord_sufI)
qed

definition sample_idgen :: idgen where
  "sample_idgen = \<lparr>uuid_of = show_nat, rand_of = (\<lambda>_ n. replicate n (CHR ''a''))\<rparr>"

theorem nano_ids_ordered_by_time_witness:
  "fst (run_state (nano_id_new sample_idgen) (start_world empty_db empty_keyspace (secs 1))) <
   fst (run_state (nano_id_new sample_idgen) (start_world empty_db empty_keyspace (secs 2)))"
  by (rule nano_ids_ordered_by_time) (simp_all add: unix_millis_def timestamp_millis_def secs_def)

text \<open>Every generated identifier is accepted when it is read back: with a generator that
  returns the requested number of characters of the alphabet, the new identifier passes
  \<open>validate\<close> and parses to itself.\<close>

theorem nano_id_new_validates:
  assumes "\<And>n k. length (rand_of G n k) = k \<and> set (rand_of G n k) \<subseteq> set ALPHANUMERIC"
  shows "nano_id_from_str (fst (run_state (nano_id_new G) w)) = Inr (fst (run_state (nano_id_new G) w))"
proof -
  have "list_all is_ascii_alphanumeric (rand_of G n 8)" for n
    using assms [of n 8] ALPHANUMERIC_alnum by (auto simp: list_all_iff)
  then show ?thesis
    using assms base62_alnum [of 8]
    by (simp add: nano_id_from_str_def validate_def LEN_def nano_id_new_def generate_def run_simps Let_def encode_ts_base62)
qed

theorem nano_id_new_validates_witness:
  "nano_id_from_str (fst (run_state (nano_id_new sample_idgen) (start_world empty_db empty_keyspace 0))) =
     Inr (fst (run_state (nano_id_new sample_idgen) (start_world empty_db empty_keyspace 0)))"
  by (rule nano_id_new_validates) (auto simp: sample_idgen_def ALPHANUMERIC_def)

end
