(* ===== verification/Delivery_Repo.thy ===== *)
theory Delivery_Repo
  imports Queue Nano_Id
begin

text \<open>
  Delivery jobs in the database and their manual retry (\<open>src/features/delivery/\<close>): every
  statement of \<open>repository.rs\<close> as a function on the tables, run under \<open>statement\<close>, and the
  handler of \<open>handlers.rs\<close>. Attempt counters are integers; they stay far below the 32-bit
  limit of the column.
\<close>

section \<open>Rows\<close>

record worker_job =
  wj_job_id :: uuid
  wj_job_public_id :: string
  wj_event_id :: uuid
  wj_endpoint_id :: uuid
  wj_org_id :: uuid
  wj_attempt :: int
  wj_max_attempts :: int
  wj_event_public_id :: string
  wj_payload :: json
  wj_tenant_id :: uuid
  wj_endpoint_config :: json
  wj_encrypted_secret :: string
  wj_rate_limit_per_minute :: "int option"

record unqueued_job =
  uj_id :: uuid
  uj_public_id :: string
  uj_stream_name :: string

record job_response =
  jr_id :: string
  jr_event_id :: uuid
  jr_endpoint_id :: uuid
  jr_org_id :: uuid
  jr_status :: string
  jr_attempt :: int
  jr_max_attempts :: int
  jr_retry_after :: "time option"
  jr_enqueued_at :: "time option"
  jr_stream_name :: string
  jr_created_at :: time

definition job_response_of :: "job_row \<Rightarrow> job_response" where
  "job_response_of r = \<lparr>jr_id = dj_public_id r, jr_event_id = dj_event_id r, jr_endpoint_id = dj_endpoint_id r,
     jr_org_id = dj_org_id r, jr_status = dj_status r, jr_attempt = dj_attempt r, jr_max_attempts = dj_max_attempts r,
     jr_retry_after = dj_retry_after r, jr_enqueued_at = dj_enqueued_at r, jr_stream_name = dj_stream_name r,
     jr_created_at = dj_created_at r\<rparr>"

definition new_job_public_id :: "idgen \<Rightarrow> string io" where
  "new_job_public_id G = do { i \<leftarrow> nano_id_new G; State_Monad.return (''dj_'' @ i) }"

section \<open>Statements\<close>

definition duplicate_key :: "string \<Rightarrow> string \<Rightarrow> string \<Rightarrow> string \<Rightarrow> sqlx_error" where
  "duplicate_key table index column v = DatabaseErr (Some ''23505'') (Some index) (Some table)
     (Some (''Key ('' @ column @ '')=('' @ v @ '') already exists.''))"

definition missing_reference :: "string \<Rightarrow> string \<Rightarrow> sqlx_error" where
  "missing_reference table constraint = DatabaseErr (Some ''23503'') (Some constraint) (Some table) None"

definition check_failed :: "string \<Rightarrow> string \<Rightarrow> sqlx_error" where
  "check_failed table constraint = DatabaseErr (Some ''23514'') (Some constraint) (Some table) None"

text \<open>\<open>char_length(trim(x)) >= 1\<close>; SQL's \<open>trim\<close> removes spaces.\<close>

definition nonempty_text :: "string \<Rightarrow> bool" where
  "nonempty_text s \<longleftrightarrow> \<not> list_all (\<lambda>c. c = CHR '' '') s"

text \<open>The length a \<open>VARCHAR\<close> column compares with its limit.\<close>

definition char_length :: "string \<Rightarrow> nat" where
  "char_length s = length (filter (\<lambda>c. \<not> byte_in 128 191 c) s)"

definition value_too_long :: sqlx_error where
  "value_too_long = DatabaseErr (Some ''22001'') None None None"

definition undefined_column :: sqlx_error where
  "undefined_column = DatabaseErr (Some ''42703'') None None None"

text \<open>\<open>SELECT tier FROM organizations WHERE id = $1\<close>; a NULL does not decode into a \<open>String\<close>.\<close>

definition select_tier :: "uuid \<Rightarrow> db \<Rightarrow> sqlx_error + string option" where
  "select_tier org_id d = (if \<not> has_tier_column d then Inl undefined_column
     else (case find (\<lambda>g. og_id g = org_id) (organizations d) of
         None \<Rightarrow> Inr None
       | Some g \<Rightarrow> (case og_tier g of None \<Rightarrow> Inl (OtherSqlx ''unexpected null'') | Some t \<Rightarrow> Inr (Some t))))"

definition get_org_tier :: "uuid \<Rightarrow> string io" where
  "get_org_tier org_id = do {
     r \<leftarrow> statement (\<lambda>_ d. (select_tier org_id d, d));
     State_Monad.return (case r of Inr (Some t) \<Rightarrow> t | _ \<Rightarrow> ''default'') }"

definition new_job_row :: "uuid \<Rightarrow> string \<Rightarrow> uuid \<Rightarrow> uuid \<Rightarrow> uuid \<Rightarrow> string \<Rightarrow> time \<Rightarrow> job_row" where
  "new_job_row i public_id event_id endpoint_id org_id stream_name t =
     \<lparr>dj_id = i, dj_public_id = public_id, dj_event_id = event_id, dj_endpoint_id = endpoint_id, dj_org_id = org_id,
      dj_status = ''pending'', dj_attempt = 0, dj_enqueued_at = None, dj_retry_after = None, dj_max_attempts = 5,
      dj_stream_name = stream_name, dj_created_at = t\<rparr>"

text \<open>\<open>INSERT INTO delivery_jobs\<close> with the primary key, the unique index and the two foreign
  keys of the migration.\<close>

definition insert_job :: "job_row \<Rightarrow> db \<Rightarrow> (sqlx_error + job_row) \<times> db" where
  "insert_job j d =
     (if \<exists>x\<in>set (delivery_jobs d). dj_id x = dj_id j then (Inl (duplicate_key ''delivery_jobs'' ''delivery_jobs_pkey'' ''id'' (dj_id j)), d)
      else if \<exists>x\<in>set (delivery_jobs d). dj_public_id x = dj_public_id j
        then (Inl (duplicate_key ''delivery_jobs'' ''idx_delivery_jobs_public_id'' ''public_id'' (dj_public_id j)), d)
      else if \<not> (\<exists>e\<in>set (events d). ev_id e = dj_event_id j) then (Inl (missing_reference ''delivery_jobs'' ''delivery_jobs_event_id_fkey''), d)
      else if \<not> (\<exists>e\<in>set (endpoints d). ep_id e = dj_endpoint_id j) then (Inl (missing_reference ''delivery_jobs'' ''delivery_jobs_endpoint_id_fkey''), d)
      else (Inr j, d\<lparr>delivery_jobs := delivery_jobs d @ [j]\<rparr>))"

definition create_job :: "idgen \<Rightarrow> uuid \<Rightarrow> uuid \<Rightarrow> uuid \<Rightarrow> string \<Rightarrow> (app_error + job_row) io" where
  "create_job G event_id endpoint_id org_id stream_name = do {
     public_id \<leftarrow> new_job_public_id G;
     n \<leftarrow> fresh;
     map_sqlx (statement (\<lambda>t. insert_job (new_job_row (uuid_of G n) public_id event_id endpoint_id org_id stream_name t))) }"

text \<open>\<open>UPDATE delivery_jobs SET ... WHERE id = $1\<close>.\<close>

definition update_job :: "uuid \<Rightarrow> (time \<Rightarrow> job_row \<Rightarrow> job_row) \<Rightarrow> (app_error + unit) io" where
  "update_job i f = map_sqlx (statement (\<lambda>t d.
     (Inr (), d\<lparr>delivery_jobs := update_where (\<lambda>j. dj_id j = i) (f t) (delivery_jobs d)\<rparr>)))"

definition mark_enqueued :: "uuid \<Rightarrow> (app_error + unit) io" where
  "mark_enqueued i = update_job i (\<lambda>t j. j\<lparr>dj_enqueued_at := Some t\<rparr>)"

text \<open>The lateral subquery: the active, unexpired secret without expiry, else the one that
  expires first.\<close>

definition usable_secrets :: "time \<Rightarrow> uuid \<Rightarrow> db \<Rightarrow> secret_row list" where
  "usable_secrets t endpoint_id d = filter (\<lambda>s. es_endpoint_id s = endpoint_id \<and> es_is_active s \<and>
     (case es_expires_at s of None \<Rightarrow> True | Some e \<Rightarrow> t < e)) (endpoint_secrets d)"

definition current_secret :: "time \<Rightarrow> uuid \<Rightarrow> db \<Rightarrow> string option" where
  "current_secret t endpoint_id d = (case sort_key (\<lambda>s. case es_expires_at s of None \<Rightarrow> (0, 0) | Some e \<Rightarrow> (1::nat, e))
       (usable_secrets t endpoint_id d) of [] \<Rightarrow> None | s # _ \<Rightarrow> Some (es_secret s))"

definition deliverable_status :: "string \<Rightarrow> bool" where
  "deliverable_status s \<longleftrightarrow> s = ''pending'' \<or> s = ''retrying''"

definition worker_job_of :: "job_row \<Rightarrow> event_row \<Rightarrow> endpoint_row \<Rightarrow> string \<Rightarrow> worker_job" where
  "worker_job_of dj ev ep secret =
     \<lparr>wj_job_id = dj_id dj, wj_job_public_id = dj_public_id dj, wj_event_id = dj_event_id dj,
      wj_endpoint_id = dj_endpoint_id dj, wj_org_id = dj_org_id dj, wj_attempt = dj_attempt dj,
      wj_max_attempts = dj_max_attempts dj, wj_event_public_id = ev_public_id ev, wj_payload = ev_payload ev,
      wj_tenant_id = ev_tenant_id ev, wj_endpoint_config = ep_config ep, wj_encrypted_secret = secret,
      wj_rate_limit_per_minute = ep_rate_limit ep\<rparr>"

definition deliverable_rows :: "string \<Rightarrow> time \<Rightarrow> db \<Rightarrow> worker_job list" where
  "deliverable_rows public_id t d =
     [worker_job_of dj ev ep (the (current_secret t (ep_id ep) d)).
        dj \<leftarrow> filter (\<lambda>j. dj_public_id j = public_id \<and> deliverable_status (dj_status j)) (delivery_jobs d),
        ev \<leftarrow> filter (\<lambda>e. ev_id e = dj_event_id dj) (events d),
        ep \<leftarrow> filter (\<lambda>e. ep_id e = dj_endpoint_id dj \<and> ep_status e = ''active'' \<and> ep_deleted_at e = None \<and>
                 current_secret t (ep_id e) d \<noteq> None) (endpoints d)]"

definition first_row :: "'a list \<Rightarrow> 'a option" where
  "first_row rs = (case rs of [] \<Rightarrow> None | r # _ \<Rightarrow> Some r)"

definition get_job_for_delivery :: "string \<Rightarrow> (app_error + worker_job option) io" where
  "get_job_for_delivery public_id = map_sqlx (query (\<lambda>t d. first_row (deliverable_rows public_id t d)))"

definition insert_attempt_row :: "attempt_row \<Rightarrow> db \<Rightarrow> (sqlx_error + unit) \<times> db" where
  "insert_attempt_row a d =
     (if \<not> (\<exists>j\<in>set (delivery_jobs d). dj_id j = da_job_id a) then (Inl (missing_reference ''delivery_attempts'' ''delivery_attempts_delivery_job_id_fkey''), d)
      else if \<not> (\<exists>e\<in>set (events d). ev_id e = da_event_id a) then (Inl (missing_reference ''delivery_attempts'' ''delivery_attempts_event_id_fkey''), d)
      else if \<not> (\<exists>e\<in>set (endpoints d). ep_id e = da_endpoint_id a) then (Inl (missing_reference ''delivery_attempts'' ''delivery_attempts_endpoint_id_fkey''), d)
      else (Inr (), d\<lparr>delivery_attempts := delivery_attempts d @ [a]\<rparr>))"

definition insert_attempt :: "uuid \<Rightarrow> uuid \<Rightarrow> uuid \<Rightarrow> int \<Rightarrow> string \<Rightarrow> int option \<Rightarrow> string option \<Rightarrow> int option \<Rightarrow> (app_error + unit) io" where
  "insert_attempt job_id event_id endpoint_id attempt_number status http_status response_body latency_ms =
     map_sqlx (statement (\<lambda>_. insert_attempt_row \<lparr>da_job_id = job_id, da_event_id = event_id, da_endpoint_id = endpoint_id,
       da_attempt_number = attempt_number, da_status = status, da_http_status = http_status,
       da_response_body = response_body, da_latency_ms = latency_ms\<rparr>))"

definition complete_job :: "uuid \<Rightarrow> (app_error + unit) io" where
  "complete_job i = update_job i (\<lambda>_ j. j\<lparr>dj_status := ''success'', dj_attempt := dj_attempt j + 1\<rparr>)"

definition fail_job :: "uuid \<Rightarrow> (app_error + unit) io" where
  "fail_job i = update_job i (\<lambda>_ j. j\<lparr>dj_status := ''failed'', dj_attempt := dj_attempt j + 1\<rparr>)"

definition defer_job :: "uuid \<Rightarrow> time \<Rightarrow> (app_error + unit) io" where
  "defer_job i retry_after = update_job i (\<lambda>_ j. j\<lparr>dj_status := ''retrying'', dj_retry_after := Some retry_after,
     dj_enqueued_at := None\<rparr>)"

definition schedule_retry :: "uuid \<Rightarrow> time \<Rightarrow> (app_error + unit) io" where
  "schedule_retry i retry_after = update_job i (\<lambda>_ j. j\<lparr>dj_status := ''retrying'', dj_attempt := dj_attempt j + 1,
     dj_retry_after := Some retry_after, dj_enqueued_at := None\<rparr>)"

definition reset_rows :: "string \<Rightarrow> db \<Rightarrow> job_row list \<times> db" where
  "reset_rows public_id d = (let hit = (\<lambda>j. dj_public_id j = public_id \<and> dj_status j = ''failed'');
      upd = (\<lambda>j. j\<lparr>dj_status := ''pending'', dj_enqueued_at := None\<rparr>) in
     (map upd (filter hit (delivery_jobs d)), d\<lparr>delivery_jobs := update_where hit upd (delivery_jobs d)\<rparr>))"

definition reset_for_retry :: "string \<Rightarrow> (app_error + job_row option) io" where
  "reset_for_retry public_id = map_sqlx (statement (\<lambda>_ d.
     case reset_rows public_id d of (rows, d') \<Rightarrow> (Inr (first_row rows), d')))"

definition job_exists :: "string \<Rightarrow> (app_error + bool) io" where
  "job_exists public_id = map_sqlx (query (\<lambda>_ d. \<exists>j\<in>set (delivery_jobs d). dj_public_id j = public_id))"

text \<open>The predicate of the outbox query.\<close>

definition unqueued :: "time \<Rightarrow> job_row \<Rightarrow> bool" where
  "unqueued t j \<longleftrightarrow> (dj_status j = ''pending'' \<and> dj_enqueued_at j = None \<and> dj_created_at j < t - secs 5) \<or>
     (dj_status j = ''retrying'' \<and> (case dj_retry_after j of None \<Rightarrow> False | Some r \<Rightarrow> r \<le> t) \<and> dj_enqueued_at j = None)"

definition list_unqueued :: "nat \<Rightarrow> (app_error + unqueued_job list) io" where
  "list_unqueued limit = map_sqlx (query (\<lambda>t d. take limit (map (\<lambda>j. \<lparr>uj_id = dj_id j, uj_public_id = dj_public_id j,
       uj_stream_name = dj_stream_name j\<rparr>) (sort_key dj_created_at (filter (unqueued t) (delivery_jobs d))))))"

section \<open>Manual retry\<close>

definition retry_delivery_job :: "redis_cmds \<Rightarrow> string \<Rightarrow> (app_error + int \<times> job_response) io" where
  "retry_delivery_job R public_id = try_bind (reset_for_retry public_id) (\<lambda>row. case row of
      None \<Rightarrow> try_bind (job_exists public_id) (\<lambda>exists. State_Monad.return (Inl (if exists
          then Conflict ''delivery job is not in a retryable state'' []
          else NotFound (''Delivery job not found: '' @ public_id))))
    | Some job \<Rightarrow> do {
        r \<leftarrow> enqueue R (dj_stream_name job) (dj_public_id job);
        (case r of Inl _ \<Rightarrow> State_Monad.return ()
         | Inr _ \<Rightarrow> do {
             _ \<leftarrow> register_stream R (dj_stream_name job);
             _ \<leftarrow> mark_enqueued (dj_id job);
             State_Monad.return () });
        State_Monad.return (Inr (200, job_response_of job)) })"

end
