(* ===== verification/Subscriptions.thy ===== *)
theory Subscriptions
  imports Delivery_Repo
begin

text \<open>
  Subscriptions of endpoints to event types (\<open>src/features/subscriptions/\<close>): the statements of
  \<open>repository.rs\<close> and the operations of \<open>service.rs\<close>. The lookup of an application by its
  public id is shared with the event service.
\<close>

section \<open>Types\<close>

record request_context =
  rc_request_id :: uuid
  rc_created_by :: uuid
  rc_org_id :: uuid
  rc_tenant_id :: uuid

record application_ref =
  ar_id :: uuid
  ar_tenant_id :: uuid
  ar_org_id :: uuid

record 'a paginated =
  pg_items :: "'a list"
  pg_total :: int
  pg_page :: int
  pg_limit :: int

text \<open>A subscription joined with the names of what it refers to.\<close>

record subscription_view =
  sv_row :: subscription_row
  sv_endpoint_public_id :: string
  sv_event_type_public_id :: string
  sv_event_type_name :: string
  sv_application_public_id :: string

record create_subscription_request =
  cs_application_id :: string
  cs_endpoint_id :: string
  cs_event_type_id :: string

record list_subscriptions_query =
  ls_application_id :: string
  ls_page :: nat
  ls_limit :: nat
  ls_endpoint_id :: "string option"
  ls_event_type_id :: "string option"

record subscription_response =
  sr_id :: string
  sr_application_id :: string
  sr_endpoint_id :: string
  sr_event_type_id :: string
  sr_event_type_name :: string
  sr_status :: string
  sr_created_at :: time

definition subscription_response_of :: "subscription_view \<Rightarrow> subscription_response" where
  "subscription_response_of v = \<lparr>sr_id = sb_public_id (sv_row v), sr_application_id = sv_application_public_id v,
     sr_endpoint_id = sv_endpoint_public_id v, sr_event_type_id = sv_event_type_public_id v,
     sr_event_type_name = sv_event_type_name v, sr_status = sb_status (sv_row v), sr_created_at = sb_created_at (sv_row v)\<rparr>"

text \<open>\<open>u32 as i32\<close>.\<close>

definition as_i32 :: "nat \<Rightarrow> int" where
  "as_i32 n = sint (of_nat n :: 32 word)"

section \<open>Statements\<close>

definition app_ref_of :: "application_row \<Rightarrow> application_ref" where
  "app_ref_of a = \<lparr>ar_id = ap_id a, ar_tenant_id = ap_tenant_id a, ar_org_id = ap_org_id a\<rparr>"

definition get_application :: "string \<Rightarrow> (app_error + application_ref option) io" where
  "get_application public_id = map_sqlx (query (\<lambda>_ d. map_option app_ref_of
     (find (\<lambda>a. ap_public_id a = public_id \<and> ap_deleted_at a = None) (applications d))))"

definition get_endpoint_for_app :: "string \<Rightarrow> uuid \<Rightarrow> (app_error + uuid option) io" where
  "get_endpoint_for_app public_id application_id = map_sqlx (query (\<lambda>_ d. map_option ep_id
     (find (\<lambda>e. ep_public_id e = public_id \<and> ep_application_id e = application_id \<and> ep_status e = ''active'' \<and> ep_deleted_at e = None)
       (endpoints d))))"

definition get_event_type_for_tenant :: "string \<Rightarrow> uuid \<Rightarrow> (app_error + uuid option) io" where
  "get_event_type_for_tenant public_id tenant_id = map_sqlx (query (\<lambda>_ d. map_option et_id
     (find (\<lambda>e. et_public_id e = public_id \<and> et_tenant_id e = tenant_id \<and> \<not> et_archived e \<and> et_deleted_at e = None)
       (event_types d))))"

text \<open>The joins of \<open>BASE_SELECT\<close>: a row is visible when all three references resolve.\<close>

definition view_subscription :: "db \<Rightarrow> subscription_row \<Rightarrow> subscription_view option" where
  "view_subscription d s = (case (find (\<lambda>e. ep_id e = sb_endpoint_id s) (endpoints d),
       find (\<lambda>e. et_id e = sb_event_type_id s) (event_types d), find (\<lambda>a. ap_id a = sb_application_id s) (applications d)) of
      (Some ep, Some et, Some a) \<Rightarrow> Some \<lparr>sv_row = s, sv_endpoint_public_id = ep_public_id ep,
        sv_event_type_public_id = et_public_id et, sv_event_type_name = et_name et, sv_application_public_id = ap_public_id a\<rparr>
    | _ \<Rightarrow> None)"

definition get_subscription :: "string \<Rightarrow> (app_error + subscription_view option) io" where
  "get_subscription public_id = map_sqlx (query (\<lambda>_ d. first_row (List.map_filter (view_subscription d)
     (filter (\<lambda>s. sb_public_id s = public_id \<and> sb_deleted_at s = None) (subscriptions d)))))"

text \<open>\<open>INSERT INTO subscriptions\<close> with its unique indexes and foreign keys.\<close>

definition insert_subscription :: "subscription_row \<Rightarrow> db \<Rightarrow> (sqlx_error + uuid) \<times> db" where
  "insert_subscription s d =
     (if \<exists>x\<in>set (subscriptions d). sb_id x = sb_id s then (Inl (duplicate_key ''subscriptions'' ''subscriptions_pkey'' ''id'' (sb_id s)), d)
      else if \<exists>x\<in>set (subscriptions d). sb_public_id x = sb_public_id s
        then (Inl (duplicate_key ''subscriptions'' ''idx_subscriptions_public_id'' ''public_id'' (sb_public_id s)), d)
      else if \<exists>x\<in>set (subscriptions d). sb_endpoint_id x = sb_endpoint_id s \<and> sb_event_type_id x = sb_event_type_id s \<and> sb_deleted_at x = None
        then (Inl (duplicate_key ''subscriptions'' ''idx_subscriptions_unique_active'' ''endpoint_id, event_type_id''
          (sb_endpoint_id s @ '', '' @ sb_event_type_id s)), d)
      else if \<not> (\<exists>e\<in>set (endpoints d). ep_id e = sb_endpoint_id s) then (Inl (missing_reference ''subscriptions'' ''subscriptions_endpoint_id_fkey''), d)
      else if \<not> (\<exists>e\<in>set (event_types d). et_id e = sb_event_type_id s) then (Inl (missing_reference ''subscriptions'' ''subscriptions_event_type_id_fkey''), d)
      else if \<not> (\<exists>a\<in>set (applications d). ap_id a = sb_application_id s) then (Inl (missing_reference ''subscriptions'' ''subscriptions_application_id_fkey''), d)
      else (Inr (sb_id s), d\<lparr>subscriptions := subscriptions d @ [s]\<rparr>))"

definition create_subscription_row :: "idgen \<Rightarrow> application_ref \<Rightarrow> uuid \<Rightarrow> uuid \<Rightarrow> (app_error + subscription_view) io" where
  "create_subscription_row G app endpoint_id event_type_id = do {
     i \<leftarrow> nano_id_new G;
     let public_id = ''sub_'' @ i;
     n \<leftarrow> fresh;
     try_bind (map_sqlx (statement (\<lambda>t. insert_subscription \<lparr>sb_id = uuid_of G n, sb_public_id = public_id,
         sb_endpoint_id = endpoint_id, sb_event_type_id = event_type_id, sb_application_id = ar_id app,
         sb_tenant_id = ar_tenant_id app, sb_org_id = ar_org_id app, sb_status = ''active'', sb_created_at = t, sb_deleted_at = None\<rparr>)))
       (\<lambda>_. try_bind (get_subscription public_id) (\<lambda>r. State_Monad.return (case r of
            None \<Rightarrow> Inl (Internal ''subscription created but not found on fetch'') | Some v \<Rightarrow> Inr v))) }"

text \<open>The page of a \<open>LIMIT ... OFFSET ...\<close> query with \<open>COUNT(*) OVER()\<close>: the total is read off the
  first row, so an empty page reports 0. The limit is cut at a maximum.\<close>

definition page_within :: "nat \<Rightarrow> nat \<Rightarrow> nat \<Rightarrow> 'a list \<Rightarrow> 'a list \<times> int" where
  "page_within cap page limit rows = (let lim = min limit cap; items = take lim (drop ((page - 1) * lim) rows) in
     (items, if items = [] then 0 else int (length rows)))"

definition page_of :: "nat \<Rightarrow> nat \<Rightarrow> 'a list \<Rightarrow> 'a list \<times> int" where
  "page_of = page_within 100"

definition list_subscription_rows :: "list_subscriptions_query \<Rightarrow> (app_error + subscription_view list \<times> int) io" where
  "list_subscription_rows f = map_sqlx (query (\<lambda>_ d.
     let app = map_option ap_id (find (\<lambda>a. ap_public_id a = ls_application_id f \<and> ap_deleted_at a = None) (applications d));
         hits = filter (\<lambda>v. (ls_endpoint_id f = None \<or> ls_endpoint_id f = Some (sv_endpoint_public_id v)) \<and>
             (ls_event_type_id f = None \<or> ls_event_type_id f = Some (sv_event_type_public_id v)))
           (List.map_filter (view_subscription d) (filter (\<lambda>s. Some (sb_application_id s) = app \<and> sb_deleted_at s = None) (subscriptions d)))
     in page_of (ls_page f) (ls_limit f) (sort_key (\<lambda>v. - sb_created_at (sv_row v)) hits)))"

definition delete_subscription_row :: "string \<Rightarrow> (app_error + bool) io" where
  "delete_subscription_row public_id = map_sqlx (statement (\<lambda>t d.
     let hit = (\<lambda>s. sb_public_id s = public_id \<and> sb_deleted_at s = None) in
     (Inr (0 < length (filter hit (subscriptions d))),
      d\<lparr>subscriptions := update_where hit (\<lambda>s. s\<lparr>sb_deleted_at := Some t\<rparr>) (subscriptions d)\<rparr>)))"

definition active_subscribers :: "uuid \<Rightarrow> uuid \<Rightarrow> db \<Rightarrow> uuid list" where
  "active_subscribers event_type_id application_id d = map sb_endpoint_id
     (filter (\<lambda>s. sb_event_type_id s = event_type_id \<and> sb_application_id s = application_id \<and> sb_status s = ''active'' \<and>
        sb_deleted_at s = None) (subscriptions d))"

definition get_active_for_event_type :: "uuid \<Rightarrow> uuid \<Rightarrow> (app_error + uuid list) io" where
  "get_active_for_event_type event_type_id application_id =
     map_sqlx (query (\<lambda>_. active_subscribers event_type_id application_id))"

section \<open>Service\<close>

text \<open>\<open>.ok_or_else(|| ...)?\<close> on an optional row.\<close>

definition or_not_found :: "(app_error + 'a option) io \<Rightarrow> string \<Rightarrow> (app_error + 'a) io" where
  "or_not_found m msg = try_bind m (\<lambda>r. State_Monad.return (case r of None \<Rightarrow> Inl (NotFound msg) | Some a \<Rightarrow> Inr a))"

definition create_subscription :: "idgen \<Rightarrow> create_subscription_request \<Rightarrow> (app_error + subscription_response) io" where
  "create_subscription G req =
     try_bind (or_not_found (get_application (cs_application_id req)) (''Application not found: '' @ cs_application_id req)) (\<lambda>app.
     try_bind (or_not_found (get_endpoint_for_app (cs_endpoint_id req) (ar_id app)) (''Endpoint not found or not active: '' @ cs_endpoint_id req)) (\<lambda>ep.
     try_bind (or_not_found (get_event_type_for_tenant (cs_event_type_id req) (ar_tenant_id app))
         (''Event type not found or archived: '' @ cs_event_type_id req)) (\<lambda>et.
     try_bind (create_subscription_row G app ep et) (\<lambda>row. State_Monad.return (Inr (subscription_response_of row))))))"

definition get_subscription_by_id :: "string \<Rightarrow> (app_error + subscription_response) io" where
  "get_subscription_by_id public_id = try_bind (or_not_found (get_subscription public_id) (''Subscription not found: '' @ public_id))
     (\<lambda>v. State_Monad.return (Inr (subscription_response_of v)))"

definition list_subscriptions :: "list_subscriptions_query \<Rightarrow> (app_error + subscription_response paginated) io" where
  "list_subscriptions f = try_bind (list_subscription_rows f) (\<lambda>(items, total). State_Monad.return (Inr
     \<lparr>pg_items = map subscription_response_of items, pg_total = total, pg_page = as_i32 (ls_page f), pg_limit = as_i32 (ls_limit f)\<rparr>))"

definition delete_subscription :: "string \<Rightarrow> (app_error + unit) io" where
  "delete_subscription public_id = try_bind (delete_subscription_row public_id) (\<lambda>deleted.
     State_Monad.return (if deleted then Inr () else Inl (NotFound (''Subscription not found: '' @ public_id))))"

end
