(* ===== verification/Rate_Limit.thy ===== *)
theory Rate_Limit
  imports World
begin

text \<open>
  The two guards a worker consults before it calls an endpoint: the rate limiter
  (\<open>src/worker/ratelimit.rs\<close>) and the circuit breaker (\<open>src/worker/circuitbreaker.rs\<close>). Both
  keep their state in Redis: a counter that a Lua script increments, and a flag with a time to
  live. The locale \<open>timed_flag\<close> is the contract the two flags share.
\<close>

section \<open>Rate limiter\<close>

definition blocked_key :: "uuid \<Rightarrow> string" where
  "blocked_key endpoint_id = ''hookly:rl:blocked:'' @ endpoint_id"

text \<open>\<open>SystemTime::now().duration_since(UNIX_EPOCH).unwrap_or_default().as_secs() / 60\<close>.\<close>

definition minute_of :: "time \<Rightarrow> int" where
  "minute_of t = max 0 (timestamp t) div 60"

definition counter_key :: "uuid \<Rightarrow> int \<Rightarrow> string" where
  "counter_key endpoint_id minute = ''hookly:rl:cnt:'' @ endpoint_id @ '':'' @ show_int minute"

definition ttl_query :: "redis_cmds \<Rightarrow> string \<Rightarrow> int option io" where
  "ttl_query R key = do {
     c \<leftarrow> connect;
     case c of Inl _ \<Rightarrow> State_Monad.return None
     | Inr _ \<Rightarrow> do {
         r \<leftarrow> command (\<lambda>t ks. (Inr (TTL R key t ks), ks));
         let ttl = (case r of Inr t \<Rightarrow> t | Inl _ \<Rightarrow> - 2);
         State_Monad.return (if 0 < ttl then Some ttl else None) } }"

definition blocked_remaining_secs :: "redis_cmds \<Rightarrow> uuid \<Rightarrow> int option io" where
  "blocked_remaining_secs R endpoint_id = ttl_query R (blocked_key endpoint_id)"

definition acquire_script :: "redis_cmds \<Rightarrow> string \<Rightarrow> int \<Rightarrow> time \<Rightarrow> keyspace \<Rightarrow> (redis_error + int) \<times> keyspace" where
  "acquire_script R key limit t ks = (case INCR R key t ks of
      (Inl e, ks1) \<Rightarrow> (Inl e, ks1)
    | (Inr n, ks1) \<Rightarrow>
        (let ks2 = (if n = 1 then EXPIRE R key 90 t ks1 else ks1) in
         if limit < n then (case DECR R key t ks2 of (Inl e, ks3) \<Rightarrow> (Inl e, ks3) | (Inr _, ks3) \<Rightarrow> (Inr 0, ks3))
         else (Inr 1, ks2)))"

definition try_acquire :: "redis_cmds \<Rightarrow> uuid \<Rightarrow> int \<Rightarrow> bool io" where
  "try_acquire R endpoint_id limit = do {
     c \<leftarrow> connect;
     case c of Inl _ \<Rightarrow> State_Monad.return True
     | Inr _ \<Rightarrow> do {
         t \<leftarrow> now;
         r \<leftarrow> command (acquire_script R (counter_key endpoint_id (minute_of t)) limit);
         State_Monad.return (case r of Inr n \<Rightarrow> n \<noteq> 0 | Inl _ \<Rightarrow> True) } }"

definition set_flag :: "redis_cmds \<Rightarrow> string \<Rightarrow> int \<Rightarrow> unit io" where
  "set_flag R key ttl_secs = do {
     c \<leftarrow> connect;
     case c of Inl _ \<Rightarrow> State_Monad.return ()
     | Inr _ \<Rightarrow> do {
         _ \<leftarrow> command (SET_EX R key ''1'' (secs ttl_secs));
         State_Monad.return () } }"

definition set_blocked :: "redis_cmds \<Rightarrow> uuid \<Rightarrow> int \<Rightarrow> unit io" where
  "set_blocked R endpoint_id ttl_secs = set_flag R (blocked_key endpoint_id) ttl_secs"

section \<open>Circuit breaker\<close>

definition open_key :: "uuid \<Rightarrow> string" where
  "open_key endpoint_id = ''hookly:cb:open:'' @ endpoint_id"

definition fail_key :: "uuid \<Rightarrow> string" where
  "fail_key endpoint_id = ''hookly:cb:fail:'' @ endpoint_id"

definition open_remaining_secs :: "redis_cmds \<Rightarrow> uuid \<Rightarrow> int option io" where
  "open_remaining_secs R endpoint_id = ttl_query R (open_key endpoint_id)"

definition failure_script :: "redis_cmds \<Rightarrow> string \<Rightarrow> int \<Rightarrow> time \<Rightarrow> keyspace \<Rightarrow> (redis_error + int) \<times> keyspace" where
  "failure_script R key window t ks = (case INCR R key t ks of
      (Inl e, ks1) \<Rightarrow> (Inl e, ks1)
    | (Inr n, ks1) \<Rightarrow> (Inr n, if n = 1 then EXPIRE R key window t ks1 else ks1))"

definition record_failure :: "redis_cmds \<Rightarrow> uuid \<Rightarrow> int \<Rightarrow> int \<Rightarrow> bool io" where
  "record_failure R endpoint_id threshold window_secs = do {
     c \<leftarrow> connect;
     case c of Inl _ \<Rightarrow> State_Monad.return False
     | Inr _ \<Rightarrow> do {
         r \<leftarrow> command (failure_script R (fail_key endpoint_id) window_secs);
         let n = (case r of Inr n \<Rightarrow> n | Inl _ \<Rightarrow> 0);
         State_Monad.return (threshold \<le> n) } }"

definition open_circuit :: "redis_cmds \<Rightarrow> uuid \<Rightarrow> int \<Rightarrow> unit io" where
  "open_circuit R endpoint_id cooldown_secs = set_flag R (open_key endpoint_id) cooldown_secs"

text \<open>\<open>DEL\<close> of the two keys is one command.\<close>

definition reset :: "redis_cmds \<Rightarrow> uuid \<Rightarrow> unit io" where
  "reset R endpoint_id = do {
     c \<leftarrow> connect;
     case c of Inl _ \<Rightarrow> State_Monad.return ()
     | Inr _ \<Rightarrow> do {
         _ \<leftarrow> command (\<lambda>_ ks. (Inr (), DEL R (fail_key endpoint_id) (DEL R (open_key endpoint_id) ks)));
         State_Monad.return () } }"

section \<open>Runs over time\<close>

text \<open>A call made at a given clock reading, and a sequence of them.\<close>

definition at_time :: "time \<Rightarrow> 'a io \<Rightarrow> 'a io" where
  "at_time t m = do { _ \<leftarrow> State_Monad.update (w_now_update (\<lambda>_. t)); m }"

fun seq_at :: "'a io \<Rightarrow> time list \<Rightarrow> 'a list io" where
  "seq_at m [] = State_Monad.return []"
| "seq_at m (t # ts) = do { x \<leftarrow> at_time t m; xs \<leftarrow> seq_at m ts; State_Monad.return (x # xs) }"

text \<open>How many of the calls made in minute \<open>m\<close> were made, and how many granted.\<close>

definition calls_in :: "int \<Rightarrow> time list \<Rightarrow> nat" where
  "calls_in m ts = length (filter (\<lambda>t. minute_of t = m) ts)"

definition grants_in :: "int \<Rightarrow> time list \<Rightarrow> bool list \<Rightarrow> nat" where
  "grants_in m ts gs = length (filter (\<lambda>(t, g). minute_of t = m \<and> g) (zip ts gs))"

lemma run_at_time [run_simps]: "run_state (at_time t m) w = run_state m (w\<lparr>w_now := t\<rparr>)"
  by (simp add: at_time_def run_simps)

lemma run_seq_at_Nil [run_simps]: "run_state (seq_at m []) w = ([], w)"
  by (simp add: run_simps)

lemma run_seq_at_Cons [run_simps]:
  "run_state (seq_at m (t # ts)) w = (case run_state m (w\<lparr>w_now := t\<rparr>) of
     (x, w1) \<Rightarrow> (case run_state (seq_at m ts) w1 of (xs, w2) \<Rightarrow> (x # xs, w2)))"
  by (simp add: run_simps case_prod_beta)

declare seq_at.simps [simp del]

lemma seq_at_now: "run_state (seq_at m (t # ts)) (w\<lparr>w_now := t'\<rparr>) = run_state (seq_at m (t # ts)) w"
  by (simp add: run_simps)

lemma calls_in_Cons [simp]: "calls_in m (t # ts) = (if minute_of t = m then 1 else 0) + calls_in m ts"
  by (simp add: calls_in_def)

lemma grants_in_Cons [simp]:
  "grants_in m (t # ts) (g # gs) = (if minute_of t = m \<and> g then 1 else 0) + grants_in m ts gs"
  by (simp add: grants_in_def)

lemma calls_in_Nil [simp]: "calls_in m [] = 0"
  by (simp add: calls_in_def)

lemma grants_in_Nil [simp]: "grants_in m [] gs = 0"
  by (simp add: grants_in_def)

section \<open>The counter of one minute\<close>

lemma minute_of_less: "0 \<le> t \<Longrightarrow> t < secs ((minute_of t + 1) * 60)"
  by (simp add: minute_of_def timestamp_def secs_def)

lemma minute_of_expiry: "0 \<le> t \<Longrightarrow> secs ((minute_of t + 1) * 60) \<le> t + secs 90"
  by (simp add: minute_of_def timestamp_def secs_def)

lemma counter_key_inj [simp]: "counter_key e m = counter_key e m' \<longleftrightarrow> m = m'"
  by (simp add: counter_key_def)

lemma put_str_sel [simp]:
  "strs (put_str k v ks) = (strs ks)(k \<mapsto> v)" "zsets (put_str k v ks) = zsets ks" "streams (put_str k v ks) = streams ks"
  by (simp_all add: put_str_def)

lemma put_str_twice [simp]: "put_str k v (put_str k u ks) = put_str k v ks"
  by (simp add: put_str_def)

lemma str_at_put [simp]: "str_at (put_str k (v, ex) ks) t k' =
    (if k' = k then (case ex of None \<Rightarrow> Some (v, None) | Some e \<Rightarrow> if t < e then Some (v, Some e) else None)
     else str_at ks t k')"
  by (simp add: str_at_def split: option.splits)

text \<open>The counter of a minute holds the number of grants and outlives the minute.\<close>

definition bucket :: "string \<Rightarrow> int \<Rightarrow> nat \<Rightarrow> keyspace \<Rightarrow> bool" where
  "bucket key m g ks \<longleftrightarrow> (strs ks key = None \<and> g = 0) \<or>
     (\<exists>e. strs ks key = Some (show_int (int g), Some e) \<and> secs ((m + 1) * 60) \<le> e)"

lemma bucket_alive:
  "bucket key m g ks \<Longrightarrow> 0 \<le> t \<Longrightarrow> minute_of t = m \<Longrightarrow>
   (str_at ks t key = None \<and> g = 0) \<or>
     (\<exists>e. str_at ks t key = Some (show_int (int g), Some e) \<and> secs ((m + 1) * 60) \<le> e)"
  using minute_of_less [of t] by (auto simp: bucket_def str_at_def)

lemma bucket_cong: "strs ks key = strs ks' key \<Longrightarrow> bucket key m g ks = bucket key m g ks'"
  by (simp add: bucket_def)

lemma ttl_ok_90 [simp]: "ttl_ok (secs 90)"
  by (simp add: ttl_ok_def secs_def)

context redis_strings
begin

lemma acquire_script_grant:
  assumes "bucket key m g ks" and "0 \<le> t" and "minute_of t = m" and "int g < limit" and "limit < 2 ^ 31"
  shows "\<exists>ks'. acquire_script R key limit t ks = (Inr 1, ks') \<and> bucket key m (Suc g) ks' \<and>
    (\<forall>k. k \<noteq> key \<longrightarrow> strs ks' k = strs ks k)"
  using bucket_alive [OF assms(1-3)]
proof (elim disjE conjE exE)
  assume "str_at ks t key = None" and "g = 0"
  then show ?thesis
    using assms minute_of_expiry [OF assms(2)] by (auto simp: acquire_script_def incr_new expire bucket_def)
next
  fix e assume e: "str_at ks t key = Some (show_int (int g), Some e)" "secs ((m + 1) * 60) \<le> e"
  have "t < e" using e minute_of_less [OF assms(2)] assms(3) by simp
  then show ?thesis
    using assms e incr [OF e(1)] minute_of_expiry [OF assms(2)]
    by (auto simp: acquire_script_def expire bucket_def algebra_simps)
qed

lemma acquire_script_refuse:
  assumes "bucket key m g ks" and "0 \<le> t" and "minute_of t = m" and "limit \<le> int g" and "int g < 2 ^ 31"
  shows "\<exists>ks'. acquire_script R key limit t ks = (Inr 0, ks') \<and> bucket key m g ks' \<and>
    (\<forall>k. k \<noteq> key \<longrightarrow> strs ks' k = strs ks k)"
  using bucket_alive [OF assms(1-3)]
proof (elim disjE conjE exE)
  assume "str_at ks t key = None" and "g = 0"
  then show ?thesis
    using assms minute_of_expiry [OF assms(2)] decr [of "put_str key (show_int 1, Some (t + secs 90)) ks" t key 1]
    by (auto simp: acquire_script_def incr_new expire bucket_def)
next
  fix e assume e: "str_at ks t key = Some (show_int (int g), Some e)" "secs ((m + 1) * 60) \<le> e"
  have "t < e" using e minute_of_less [OF assms(2)] assms(3) by simp
  then show ?thesis
    using assms e incr [OF e(1)] minute_of_expiry [OF assms(2)]
      decr [of "put_str key (show_int (int g + 1), Some e) ks" t key "int g + 1"]
      decr [of "put_str key (show_int (int g + 1), Some (t + secs 90)) ks" t key "int g + 1"]
    by (auto simp: acquire_script_def expire bucket_def algebra_simps)
qed

lemma run_try_acquire:
  "no_faults w \<Longrightarrow> run_state (try_acquire R ep limit) w =
     (case acquire_script R (counter_key ep (minute_of (w_now w))) limit (w_now w) (w_ks w) of
        (r, ks) \<Rightarrow> (case r of Inr n \<Rightarrow> n \<noteq> 0 | Inl _ \<Rightarrow> True, w\<lparr>w_ks := ks\<rparr>))"
  by (simp add: try_acquire_def run_simps split: prod.splits)

text \<open>One call: it is granted exactly when its own minute has grants left, and it leaves the
  counters of the other minutes alone.\<close>

lemma try_acquire_step:
  assumes "no_faults w" and "0 \<le> w_now w" and "bucket (counter_key ep (minute_of (w_now w))) (minute_of (w_now w)) g (w_ks w)"
    and "g \<le> nat limit" and "limit < 2 ^ 31"
  shows "\<exists>ks'. run_state (try_acquire R ep limit) w = (int g < limit, w\<lparr>w_ks := ks'\<rparr>) \<and>
    bucket (counter_key ep (minute_of (w_now w))) (minute_of (w_now w)) (if int g < limit then Suc g else g) ks' \<and>
    (\<forall>k. k \<noteq> counter_key ep (minute_of (w_now w)) \<longrightarrow> strs ks' k = strs (w_ks w) k)"
proof (cases "int g < limit")
  case True
  with acquire_script_grant [OF assms(3,2) refl, of limit] assms show ?thesis
    by (auto simp: run_try_acquire)
next
  case False
  moreover have "int g < 2 ^ 31" using assms(4,5) by (cases "limit \<le> 0") auto
  ultimately show ?thesis
    using acquire_script_refuse [OF assms(3,2) refl, of limit] assms by (auto simp: run_try_acquire)
qed

lemma seq_try_acquire:
  assumes "limit < 2 ^ 31" and "\<forall>t\<in>set ts. 0 \<le> t" and "no_faults w"
    and "\<forall>m. \<exists>g \<le> nat limit. bucket (counter_key ep m) m g (w_ks w)"
    and "bucket (counter_key ep m) m g (w_ks w)" and "g \<le> nat limit"
  shows "grants_in m ts (fst (run_state (seq_at (try_acquire R ep limit) ts) w)) = min (nat limit - g) (calls_in m ts)"
  using assms(2-)
proof (induction ts arbitrary: w g)
  case Nil
  then show ?case by (simp add: run_simps)
next
  case (Cons t ts)
  let ?k = "\<lambda>m. counter_key ep m" and ?m = "minute_of t" and ?w = "w\<lparr>w_now := t\<rparr>"
  obtain h where h: "h \<le> nat limit" "bucket (?k ?m) ?m h (w_ks w)" "?m = m \<longrightarrow> h = g"
    using Cons.prems(3-5) by (cases "?m = m") auto
  then obtain ks' where ks': "run_state (try_acquire R ep limit) ?w = (int h < limit, ?w\<lparr>w_ks := ks'\<rparr>)"
      "bucket (?k ?m) ?m (if int h < limit then Suc h else h) ks'"
      "\<forall>k. k \<noteq> ?k ?m \<longrightarrow> strs ks' k = strs (w_ks w) k"
    using try_acquire_step [of ?w ep h limit] Cons.prems assms(1) by auto
  have other: "m' \<noteq> ?m \<Longrightarrow> bucket (?k m') m' x ks' = bucket (?k m') m' x (w_ks w)" for m' x
    using ks'(3) by (intro bucket_cong) simp
  have all: "\<forall>m'. \<exists>x \<le> nat limit. bucket (?k m') m' x ks'"
  proof
    fix m' show "\<exists>x \<le> nat limit. bucket (?k m') m' x ks'"
    proof (cases "m' = ?m")
      case True
      have "(if int h < limit then Suc h else h) \<le> nat limit" using h(1) by auto
      with True ks'(2) show ?thesis by blast
    next
      case False
      with other Cons.prems(3) show ?thesis by auto
    qed
  qed
  let ?g = "if ?m = m \<and> int h < limit then Suc g else g"
  have bm: "bucket (?k m) m ?g ks'"
    using ks'(2) h(3) other [of m] Cons.prems(4) by (cases "?m = m") auto
  have "grants_in m ts (fst (run_state (seq_at (try_acquire R ep limit) ts) (?w\<lparr>w_ks := ks'\<rparr>))) =
      min (nat limit - ?g) (calls_in m ts)"
    by (rule Cons.IH) (use Cons.prems all bm h in \<open>auto simp: zless_nat_eq_int_zless\<close>)
  then show ?case
    using ks'(1) h(3) Cons.prems(5) by (auto simp: run_simps case_prod_beta min_def zless_nat_eq_int_zless [symmetric])
qed

end

section \<open>Flags with a time to live\<close>

text \<open>The contract of the blocked flag and of the open flag: raising it for \<open>n\<close> seconds, and
  asking for the seconds that remain. The server rounds what remains, so the answer is within
  a second of the truth and a flag about to expire may already read as lowered.\<close>

locale timed_flag =
  fixes key :: string and raise :: "int \<Rightarrow> unit io" and remaining :: "int option io"
  assumes raise_ok: "no_faults w \<Longrightarrow> ttl_ok (secs n) \<Longrightarrow> run_state (raise n) w =
      ((), w\<lparr>w_ks := put_str key (''1'', Some (w_now w + secs n)) (w_ks w)\<rparr>)"
    and raise_zero: "no_faults w \<Longrightarrow> n \<le> 0 \<Longrightarrow> run_state (raise n) w = ((), w)"
    and lowered: "no_faults w \<Longrightarrow> str_at (w_ks w) (w_now w) key = None \<Longrightarrow> run_state remaining w = (None, w)"
    and raised: "no_faults w \<Longrightarrow> str_at (w_ks w) (w_now w) key = Some (v, Some e) \<Longrightarrow>
      \<exists>r. run_state remaining w = (r, w) \<and> (case r of None \<Rightarrow> e - w_now w < secs 1
        | Some n \<Rightarrow> 0 < n \<and> \<bar>secs n - (e - w_now w)\<bar> < secs 1)"
begin

lemma raise_remaining:
  assumes "no_faults w" and "ttl_ok (secs n)" and "0 \<le> d"
  shows "case run_state (do { _ \<leftarrow> raise n; at_time (w_now w + d) remaining }) w of (r, w') \<Rightarrow>
    (case r of None \<Rightarrow> secs n - d < secs 1 | Some left \<Rightarrow> 0 < left \<and> \<bar>secs left - (secs n - d)\<bar> < secs 1)"
proof -
  let ?w = "w\<lparr>w_ks := put_str key (''1'', Some (w_now w + secs n)) (w_ks w), w_now := w_now w + d\<rparr>"
  have run: "run_state (do { _ \<leftarrow> raise n; at_time (w_now w + d) remaining }) w = run_state remaining ?w"
    using assms(1,2) by (simp add: run_simps raise_ok)
  show ?thesis
  proof (cases "d < secs n")
    case True
    then show ?thesis
      unfolding run using assms(1) raised [of ?w "''1''" "w_now w + secs n"] by (auto split: option.splits)
  next
    case False
    then show ?thesis
      unfolding run using assms(1) lowered [of ?w] by (simp add: secs_def)
  qed
qed

end

context redis_strings
begin

lemma run_set_flag:
  "no_faults w \<Longrightarrow> ttl_ok (secs n) \<Longrightarrow> run_state (set_flag R k n) w =
     ((), w\<lparr>w_ks := put_str k (''1'', Some (w_now w + secs n)) (w_ks w)\<rparr>)"
  by (simp add: set_flag_def run_simps set_ex)

lemma run_set_flag_zero: "no_faults w \<Longrightarrow> n \<le> 0 \<Longrightarrow> run_state (set_flag R k n) w = ((), w)"
  using set_ex_bad [of "secs n" k "''1''" "w_now w" "w_ks w"]
  by (auto simp: set_flag_def run_simps secs_def)

lemma run_ttl_query:
  "no_faults w \<Longrightarrow> run_state (ttl_query R k) w =
     ((let t = TTL R k (w_now w) (w_ks w) in if 0 < t then Some t else None), w)"
  by (simp add: ttl_query_def run_simps Let_def)

lemma flag_lowered:
  "no_faults w \<Longrightarrow> str_at (w_ks w) (w_now w) k = None \<Longrightarrow> run_state (ttl_query R k) w = (None, w)"
  by (simp add: run_ttl_query ttl_absent)

lemma flag_raised:
  assumes "no_faults w" and "str_at (w_ks w) (w_now w) k = Some (v, Some e)"
  shows "\<exists>r. run_state (ttl_query R k) w = (r, w) \<and> (case r of None \<Rightarrow> e - w_now w < secs 1
        | Some n \<Rightarrow> 0 < n \<and> \<bar>secs n - (e - w_now w)\<bar> < secs 1)"
  using ttl_remaining [OF assms(2)] assms(1) by (auto simp: run_ttl_query Let_def secs_def)

end

sublocale redis_strings \<subseteq> blocked: timed_flag "blocked_key ep" "set_blocked R ep" "blocked_remaining_secs R ep" for ep
  unfolding set_blocked_def blocked_remaining_secs_def
  by unfold_locales (fact run_set_flag run_set_flag_zero flag_lowered flag_raised)+

sublocale redis_strings \<subseteq> opened: timed_flag "open_key ep" "open_circuit R ep" "open_remaining_secs R ep" for ep
  unfolding open_circuit_def open_remaining_secs_def
  by unfold_locales (fact run_set_flag run_set_flag_zero flag_lowered flag_raised)+

section \<open>Counting failures\<close>

text \<open>The first failure starts the counter with its expiry, the next ones only count.\<close>

context redis_strings
begin

lemma record_failure_first:
  assumes "no_faults w" and "str_at (w_ks w) (w_now w) (fail_key ep) = None" and "ttl_ok (secs win)"
  shows "run_state (record_failure R ep k win) w = (k \<le> 1,
    w\<lparr>w_ks := put_str (fail_key ep) (show_int 1, Some (w_now w + secs win)) (w_ks w)\<rparr>)"
  using assms by (simp add: record_failure_def run_simps failure_script_def incr_new expire)

lemma record_failure_next:
  assumes "no_faults w" and "str_at (w_ks w) (w_now w) (fail_key ep) = Some (show_int (int n), Some e)"
    and "0 < n" and "int n < 2 ^ 62"
  shows "run_state (record_failure R ep k win) w = (k \<le> int (Suc n),
    w\<lparr>w_ks := put_str (fail_key ep) (show_int (int (Suc n)), Some e) (w_ks w)\<rparr>)"
  using assms incr [OF assms(2)]
  by (simp add: record_failure_def run_simps failure_script_def add.commute)

lemma record_failure_run:
  assumes "0 < n" and "int n + int (length ts) < 2 ^ 62" and "\<forall>t\<in>set ts. t < e" and "no_faults w"
    and "strs (w_ks w) (fail_key ep) = Some (show_int (int n), Some e)"
  shows "fst (run_state (seq_at (record_failure R ep k win) ts) w) = map (\<lambda>i. k \<le> int i) [Suc n..<Suc n + length ts]"
  using assms
proof (induction ts arbitrary: n w)
  case Nil
  then show ?case by (simp add: run_simps)
next
  case (Cons t ts)
  let ?w = "w\<lparr>w_now := t\<rparr>"
  have "str_at (w_ks ?w) (w_now ?w) (fail_key ep) = Some (show_int (int n), Some e)"
    using Cons.prems by (simp add: str_at_def)
  note step = record_failure_next [OF _ this, of k win]
  let ?w' = "?w\<lparr>w_ks := put_str (fail_key ep) (show_int (int (Suc n)), Some e) (w_ks w)\<rparr>"
  have "fst (run_state (seq_at (record_failure R ep k win) ts) ?w') = map (\<lambda>i. k \<le> int i) [Suc (Suc n)..<Suc (Suc n) + length ts]"
    using Cons.prems by (intro Cons.IH) auto
  then show ?case
    using step Cons.prems by (simp add: run_simps case_prod_beta upt_conv_Cons del: upt_Suc)
qed

end

context redis_strings
begin

lemma circuit_run:
  assumes "no_faults w" and "ttl_ok (secs win)" and "strs (w_ks w) (fail_key ep) = None"
    and "\<forall>t'\<in>set ts. t' < t + secs win" and "int (length ts) < 2 ^ 61"
  shows "fst (run_state (seq_at (record_failure R ep threshold win) (t # ts)) w) =
    map (\<lambda>i. threshold \<le> int i) [1..<Suc (Suc (length ts))]"
proof -
  let ?w = "w\<lparr>w_now := t, w_ks := put_str (fail_key ep) (show_int 1, Some (t + secs win)) (w_ks w)\<rparr>"
  have "run_state (record_failure R ep threshold win) (w\<lparr>w_now := t\<rparr>) = (threshold \<le> 1, ?w)"
    using assms record_failure_first [of "w\<lparr>w_now := t\<rparr>" ep win threshold] by (simp add: str_at_def)
  moreover have "fst (run_state (seq_at (record_failure R ep threshold win) ts) ?w) =
      map (\<lambda>i. threshold \<le> int i) [Suc 1..<Suc 1 + length ts]"
    using assms by (intro record_failure_run) auto
  ultimately show ?thesis
    by (simp add: run_simps case_prod_beta upt_conv_Cons del: upt_Suc)
qed

lemmas blocked_flag = blocked.raise_remaining
lemmas opened_flag = opened.raise_remaining

end

section \<open>Properties\<close>

text \<open>C30. The rate limiter is exact: over any sequence of calls for an endpoint, at any clock
  readings, the calls granted in a minute are as many as were made, up to the limit, and the
  counter of one minute never leaks into another.\<close>

theorem try_acquire_exact_per_minute:
  assumes "redis_strings R" and "no_faults w" and "limit < 2 ^ 31" and "\<forall>t\<in>set ts. 0 \<le> t"
    and "\<forall>m. strs (w_ks w) (counter_key ep m) = None"
  shows "grants_in m ts (fst (run_state (seq_at (try_acquire R ep limit) ts) w)) = min (nat limit) (calls_in m ts)"
proof -
  have b: "bucket (counter_key ep m') m' 0 (w_ks w)" for m'
    using assms(5) by (simp add: bucket_def)
  then have "\<forall>m'. \<exists>g \<le> nat limit. bucket (counter_key ep m') m' g (w_ks w)" by blast
  then show ?thesis
    using redis_strings.seq_try_acquire [OF assms(1,3,4,2) _ b, of m] by simp
qed

theorem try_acquire_exact_per_minute_witness:
  "grants_in 1 [secs 59, secs 60, secs 61, secs 62, secs 120] (fst (run_state (seq_at (try_acquire mem_redis ''e'' 2)
     [secs 59, secs 60, secs 61, secs 62, secs 120]) (start_world empty_db empty_keyspace 0))) = 2"
  using try_acquire_exact_per_minute [OF mem_strings.redis_strings_axioms, of "start_world empty_db empty_keyspace 0" 2
      "[secs 59, secs 60, secs 61, secs 62, secs 120]" "''e''" 1]
  by (simp add: empty_keyspace_def minute_of_def timestamp_def secs_def)

text \<open>A raised flag reads back until it expires: after \<open>set_blocked\<close> or \<open>open_circuit\<close> for
  \<open>n\<close> seconds, asking \<open>d\<close> microseconds later answers a positive number within a second of what
  remains, or none when less than a second (or nothing) remains.\<close>

theorem flags_read_back_until_expiry:
  assumes "redis_strings R" and "no_faults w" and "ttl_ok (secs n)" and "0 \<le> d"
    and "f = (set_blocked R ep, blocked_remaining_secs R ep) \<or> f = (open_circuit R ep, open_remaining_secs R ep)"
  shows "case fst (run_state (do { _ \<leftarrow> fst f n; at_time (w_now w + d) (snd f) }) w) of
      None \<Rightarrow> secs n - d < secs 1 | Some left \<Rightarrow> 0 < left \<and> \<bar>secs left - (secs n - d)\<bar> < secs 1"
  using assms(5) redis_strings.blocked_flag [OF assms(1-4)] redis_strings.opened_flag [OF assms(1-4)]
  by (auto simp: case_prod_beta)

theorem flags_read_back_until_expiry_witness:
  "case fst (run_state (do { _ \<leftarrow> set_blocked mem_redis ''e'' 30; at_time (0 + secs 10) (blocked_remaining_secs mem_redis ''e'') })
      (start_world empty_db empty_keyspace 0)) of
      None \<Rightarrow> secs 30 - secs 10 < secs 1 | Some left \<Rightarrow> 0 < left \<and> \<bar>secs left - (secs 30 - secs 10)\<bar> < secs 1"
  using flags_read_back_until_expiry [OF mem_strings.redis_strings_axioms, of "start_world empty_db empty_keyspace 0" 30
      "secs 10" "(set_blocked mem_redis ''e'', blocked_remaining_secs mem_redis ''e'')" "''e''"]
  by (simp add: ttl_ok_def secs_def)

text \<open>The circuit breaker trips at the threshold: from a clear counter, of the failures
  recorded within one window exactly the \<open>threshold\<close>-th and the later ones report that the
  circuit is to be opened.\<close>

theorem circuit_trips_at_threshold:
  assumes "redis_strings R" and "no_faults w" and "ttl_ok (secs win)" and "strs (w_ks w) (fail_key ep) = None"
    and "\<forall>t'\<in>set ts. t' < t + secs win" and "int (length ts) < 2 ^ 61"
  shows "fst (run_state (seq_at (record_failure R ep threshold win) (t # ts)) w) =
    map (\<lambda>i. threshold \<le> int i) [1..<Suc (Suc (length ts))]"
  using redis_strings.circuit_run [OF assms] .

theorem circuit_trips_at_threshold_witness:
  "fst (run_state (seq_at (record_failure mem_redis ''e'' 3 60) [0, secs 10, secs 20, secs 59])
     (start_world empty_db empty_keyspace 0)) = [False, False, True, True]"
  using circuit_trips_at_threshold [OF mem_strings.redis_strings_axioms, of "start_world empty_db empty_keyspace 0" 60
      "''e''" "[secs 10, secs 20, secs 59]" 0 3]
  by (simp add: empty_keyspace_def ttl_ok_def secs_def upt_conv_Cons)

text \<open>The window is fixed, not sliding: it starts at the first failure and the counter is
  dropped at its end, so \<open>threshold\<close> failures within one window length do not trip the circuit
  when they straddle that end.\<close>

theorem failure_window_is_fixed:
  assumes "redis_strings R" and "no_faults w" and "strs (w_ks w) (fail_key ep) = None"
  shows "fst (run_state (seq_at (record_failure R ep 3 60) [0, secs 59, secs 61, secs 62]) w) = [False, False, False, False]"
proof -
  have win: "ttl_ok (secs 60)" by (simp add: ttl_ok_def secs_def)
  have clear: "str_at (w_ks (w\<lparr>w_now := 0\<rparr>)) (w_now (w\<lparr>w_now := 0\<rparr>)) (fail_key ep) = None"
    using assms(3) by (simp add: str_at_def)
  show ?thesis
    using assms(2) redis_strings.record_failure_first [OF assms(1) _ clear win, of 3]
    by (simp add: run_simps secs_def redis_strings.record_failure_next [OF assms(1), where n = 1]
        redis_strings.record_failure_first [OF assms(1)] ttl_ok_def)
qed

theorem failure_window_is_fixed_witness:
  "fst (run_state (seq_at (record_failure mem_redis ''e'' 3 60) [0, secs 59, secs 61, secs 62])
     (start_world empty_db empty_keyspace 0)) = [False, False, False, False]"
  by (rule failure_window_is_fixed [OF mem_strings.redis_strings_axioms]) (simp_all add: empty_keyspace_def)

end
