(* ===== verification/Idempotency.thy ===== *)
theory Idempotency
  imports Nano_Id Rate_Limit
begin

text \<open>
  Request-level idempotency (\<open>src/common/idempotency.rs\<close>): the validation of the key header,
  the body hash and the distributed lock. The locale \<open>token_lock\<close> is the contract of a lock
  held by a token with a time to live; the shard lock of the scheduler satisfies it too.
\<close>

section \<open>Operations\<close>

definition LOCK_TTL_MS :: int where "LOCK_TTL_MS = 60000"

text \<open>\<open>HeaderValue::to_str\<close>: the value if it consists of visible ASCII, space and tab.\<close>

definition header_to_str :: "string \<Rightarrow> string option" where
  "header_to_str v = (if list_all (\<lambda>c. byte_in 32 126 c \<or> byte_in 9 9 c) v then Some v else None)"

definition extract_key :: "string option \<Rightarrow> app_error + string option" where
  "extract_key header = (case header of None \<Rightarrow> Inr None | Some v \<Rightarrow>
     (case header_to_str v of None \<Rightarrow> Inl (BadRequest ''Idempotency-Key must be valid ASCII'') | Some s \<Rightarrow>
        if s = [] then Inl (BadRequest ''Idempotency-Key must not be empty'')
        else if 64 < length s then Inl (BadRequest ''Idempotency-Key must be 64 characters or fewer'')
        else Inr (Some s)))"

text \<open>The serialiser and the hash function are parameters; \<open>unwrap_or_default\<close> hashes the empty
  text when serialising fails.\<close>

definition body_hash_bytes :: "('a \<Rightarrow> string option) \<Rightarrow> (string \<Rightarrow> string) \<Rightarrow> 'a \<Rightarrow> string" where
  "body_hash_bytes to_vec sha256 body = sha256 (case to_vec body of None \<Rightarrow> [] | Some b \<Rightarrow> b)"

definition lock_key :: "string \<Rightarrow> string \<Rightarrow> string" where
  "lock_key ns key = ''idmp_lock:'' @ ns @ '':'' @ key"

definition concurrent_conflict :: app_error where
  "concurrent_conflict = Conflict ''A concurrent request with this idempotency key is already in progress'' []"

definition acquire_lock :: "redis_cmds \<Rightarrow> idgen \<Rightarrow> string \<Rightarrow> string \<Rightarrow> (app_error + string) io" where
  "acquire_lock R G ns key = do {
     n \<leftarrow> fresh;
     let lock_token = uuid_of G n;
     c \<leftarrow> connect;
     case c of Inl e \<Rightarrow> State_Monad.return (Inl (Redis (err_to_string e)))
     | Inr _ \<Rightarrow> do {
         r \<leftarrow> command (\<lambda>t ks. map_prod Inr id (SET_NX R (lock_key ns key) lock_token (millis LOCK_TTL_MS) t ks));
         State_Monad.return (case r of Inl e \<Rightarrow> Inl (Redis (err_to_string e))
           | Inr acquired \<Rightarrow> if acquired then Inr lock_token else Inl concurrent_conflict) } }"

text \<open>The script of a release: delete the key if it still holds the token.\<close>

definition release_script :: "redis_cmds \<Rightarrow> string \<Rightarrow> string \<Rightarrow> time \<Rightarrow> keyspace \<Rightarrow> int \<times> keyspace" where
  "release_script R key token t ks = (if GET R key t ks = Some token then (1, DEL R key ks) else (0, ks))"

definition release_lock :: "redis_cmds \<Rightarrow> string \<Rightarrow> string \<Rightarrow> string \<Rightarrow> unit io" where
  "release_lock R ns key token = do {
     c \<leftarrow> connect;
     case c of Inl _ \<Rightarrow> State_Monad.return ()
     | Inr _ \<Rightarrow> do {
         _ \<leftarrow> command (\<lambda>t ks. map_prod Inr id (release_script R (lock_key ns key) token t ks));
         State_Monad.return () } }"

section \<open>The contract of a lock\<close>

text \<open>A lock is held by a token until it expires or the holder releases it.\<close>

definition holder :: "string \<Rightarrow> world \<Rightarrow> string option" where
  "holder key w = map_option fst (str_at (w_ks w) (w_now w) key)"

locale token_lock =
  fixes key :: string and ttl :: time and take_lock :: "string \<Rightarrow> bool io" and drop_lock :: "string \<Rightarrow> unit io"
  assumes ttl_pos: "0 < ttl"
    and take_free: "no_faults w \<Longrightarrow> holder key w = None \<Longrightarrow> run_state (take_lock tok) w =
      (True, w\<lparr>w_ks := put_str key (tok, Some (w_now w + ttl)) (w_ks w)\<rparr>)"
    and take_held: "no_faults w \<Longrightarrow> holder key w \<noteq> None \<Longrightarrow> run_state (take_lock tok) w = (False, w)"
    and drop_own: "no_faults w \<Longrightarrow> holder key w = Some tok \<Longrightarrow> run_state (drop_lock tok) w =
      ((), w\<lparr>w_ks := (w_ks w)\<lparr>strs := (strs (w_ks w))(key := None)\<rparr>\<rparr>)"
    and drop_other: "no_faults w \<Longrightarrow> holder key w \<noteq> Some tok \<Longrightarrow> run_state (drop_lock tok) w = ((), w)"
begin

lemma holder_take: "no_faults w \<Longrightarrow> holder key w = None \<Longrightarrow> holder key (snd (run_state (take_lock tok) w)) = Some tok"
  using ttl_pos by (simp add: take_free holder_def)

lemma exclusive:
  assumes "no_faults w" and "fst (run_state (take_lock a) w)" and "t < w_now w + ttl"
  shows "run_state (at_time t (take_lock b)) (snd (run_state (take_lock a) w)) =
    (False, (snd (run_state (take_lock a) w))\<lparr>w_now := t\<rparr>)"
proof -
  have free: "holder key w = None" using assms take_held [of w a] by fastforce
  let ?w = "(snd (run_state (take_lock a) w))\<lparr>w_now := t\<rparr>"
  have "holder key ?w \<noteq> None" using assms free by (simp add: take_free holder_def)
  then show ?thesis using assms free take_held [of ?w b] by (simp add: run_simps take_free)
qed

lemma expires:
  assumes "no_faults w" and "fst (run_state (take_lock a) w)" and "w_now w + ttl \<le> t"
  shows "fst (run_state (at_time t (take_lock b)) (snd (run_state (take_lock a) w)))"
proof -
  have free: "holder key w = None" using assms take_held [of w a] by fastforce
  let ?w = "(snd (run_state (take_lock a) w))\<lparr>w_now := t\<rparr>"
  have "holder key ?w = None" using assms free by (simp add: take_free holder_def)
  then show ?thesis using assms free take_free [of ?w b] by (simp add: run_simps take_free)
qed

lemma drop_keeps_other:
  assumes "no_faults w" and "holder key w = Some a" and "a \<noteq> b"
  shows "holder key (snd (run_state (drop_lock b) w)) = Some a"
  using assms by (simp add: drop_other)

lemma drop_frees: "no_faults w \<Longrightarrow> holder key w = Some a \<Longrightarrow> holder key (snd (run_state (drop_lock a) w)) = None"
  by (simp add: drop_own holder_def str_at_def)

end

text \<open>The lock of a request, with the token made explicit.\<close>

definition take_request_lock :: "redis_cmds \<Rightarrow> string \<Rightarrow> string \<Rightarrow> string \<Rightarrow> bool io" where
  "take_request_lock R ns key token = do {
     c \<leftarrow> connect;
     case c of Inl _ \<Rightarrow> State_Monad.return False
     | Inr _ \<Rightarrow> do {
         r \<leftarrow> command (\<lambda>t ks. map_prod Inr id (SET_NX R (lock_key ns key) token (millis LOCK_TTL_MS) t ks));
         State_Monad.return (r = Inr True) } }"

lemma ttl_ok_lock: "ttl_ok (millis LOCK_TTL_MS)"
  by (simp add: ttl_ok_def LOCK_TTL_MS_def millis_def secs_def)

context redis_strings
begin

lemma run_set_nx:
  assumes "ttl_ok d"
  shows "SET_NX R k v d (w_now w) (w_ks w) = (if holder k w = None
    then (True, put_str k (v, Some (w_now w + d)) (w_ks w)) else (False, w_ks w))"
  using set_nx [OF assms] by (simp add: holder_def)

lemma release_script_own:
  "map_option fst (str_at ks t k) = Some tok \<Longrightarrow> snd (release_script R k tok t ks) = ks\<lparr>strs := (strs ks)(k := None)\<rparr>"
  by (simp add: release_script_def get del)

lemma release_script_other:
  "map_option fst (str_at ks t k) \<noteq> Some tok \<Longrightarrow> release_script R k tok t ks = (0, ks)"
  by (simp add: release_script_def get)

lemma run_acquire_lock:
  "no_faults w \<Longrightarrow> run_state (acquire_lock R G ns key) w =
     (let tok = uuid_of G (w_ids w); w1 = w\<lparr>w_ids := Suc (w_ids w)\<rparr> in
      if holder (lock_key ns key) w = None
      then (Inr tok, w1\<lparr>w_ks := put_str (lock_key ns key) (tok, Some (w_now w + millis LOCK_TTL_MS)) (w_ks w)\<rparr>)
      else (Inl concurrent_conflict, w1))"
  using run_set_nx [OF ttl_ok_lock, of "lock_key ns key" "uuid_of G (w_ids w)" w]
  by (simp add: acquire_lock_def run_simps Let_def)

lemma acquire_lock_takes:
  "no_faults w \<Longrightarrow> case run_state (acquire_lock R G ns key) w of (r, w') \<Rightarrow>
     run_state (take_request_lock R ns key (uuid_of G (w_ids w))) (w\<lparr>w_ids := Suc (w_ids w)\<rparr>) = (r = Inr (uuid_of G (w_ids w)), w')"
  using run_set_nx [OF ttl_ok_lock, of "lock_key ns key" "uuid_of G (w_ids w)" w]
  by (simp add: run_acquire_lock take_request_lock_def run_simps Let_def)

end

sublocale redis_strings \<subseteq> request_lock: token_lock "lock_key ns key" "millis LOCK_TTL_MS"
    "take_request_lock R ns key" "release_lock R ns key" for ns key
proof unfold_locales
  show "0 < millis LOCK_TTL_MS" by (simp add: millis_def LOCK_TTL_MS_def)
next
  fix w tok assume "no_faults w" and "holder (lock_key ns key) w = None"
  then show "run_state (take_request_lock R ns key tok) w =
      (True, w\<lparr>w_ks := put_str (lock_key ns key) (tok, Some (w_now w + millis LOCK_TTL_MS)) (w_ks w)\<rparr>)"
    by (simp add: take_request_lock_def run_simps run_set_nx [OF ttl_ok_lock])
next
  fix w tok assume "no_faults w" and "holder (lock_key ns key) w \<noteq> None"
  then show "run_state (take_request_lock R ns key tok) w = (False, w)"
    by (simp add: take_request_lock_def run_simps run_set_nx [OF ttl_ok_lock])
next
  fix w tok assume "no_faults w" and "holder (lock_key ns key) w = Some tok"
  then show "run_state (release_lock R ns key tok) w =
      ((), w\<lparr>w_ks := (w_ks w)\<lparr>strs := (strs (w_ks w))(lock_key ns key := None)\<rparr>\<rparr>)"
    by (simp add: release_lock_def run_simps holder_def case_prod_beta release_script_own)
next
  fix w tok assume "no_faults w" and "holder (lock_key ns key) w \<noteq> Some tok"
  then show "run_state (release_lock R ns key tok) w = ((), w)"
    by (simp add: release_lock_def run_simps holder_def case_prod_beta release_script_other)
qed

context redis_strings
begin

lemma acquired_lock:
  assumes "no_faults w" and "run_state (acquire_lock R G ns key) w = (Inr tok, w')"
  shows "holder (lock_key ns key) w = None \<and> tok = uuid_of G (w_ids w) \<and> no_faults w' \<and> w_now w' = w_now w \<and>
    strs (w_ks w') (lock_key ns key) = Some (tok, Some (w_now w + millis LOCK_TTL_MS))"
  using assms by (auto simp: run_acquire_lock Let_def split: if_splits)

lemma lock_excludes:
  assumes "no_faults w" and "strs (w_ks w) (lock_key ns key) = Some (tok, Some e)" and "t < e"
  shows "fst (run_state (at_time t (acquire_lock R G ns key)) w) = Inl concurrent_conflict"
  using assms by (simp add: run_simps run_acquire_lock Let_def holder_def str_at_def)

lemma lock_expires:
  assumes "no_faults w" and "strs (w_ks w) (lock_key ns key) = Some (tok, Some e)" and "e \<le> t"
  shows "fst (run_state (at_time t (acquire_lock R G ns key)) w) = Inr (uuid_of G (w_ids w))"
  using assms by (simp add: run_simps run_acquire_lock Let_def holder_def str_at_def)

lemmas release_keeps_other = request_lock.drop_keeps_other
lemmas release_frees = request_lock.drop_frees

end

section \<open>Properties\<close>

text \<open>C29. The idempotency lock is exclusive and self-healing: once a request has acquired it,
  every other request with the key is answered with the conflict until sixty seconds later,
  from then on the lock can be acquired again; releasing it with another token leaves it held
  and releasing it with its own token frees it.\<close>

theorem acquire_lock_exclusive:
  assumes "redis_strings R" and "no_faults w" and "run_state (acquire_lock R G ns key) w = (Inr tok, w')"
  shows "(\<forall>t < w_now w + secs 60. fst (run_state (at_time t (acquire_lock R G' ns key)) w') = Inl concurrent_conflict)
    \<and> (\<forall>t \<ge> w_now w + secs 60. \<exists>tok'. fst (run_state (at_time t (acquire_lock R G' ns key)) w') = Inr tok')
    \<and> (\<forall>tok'. tok' \<noteq> tok \<longrightarrow> holder (lock_key ns key) (snd (run_state (release_lock R ns key tok') w')) = Some tok)
    \<and> holder (lock_key ns key) (snd (run_state (release_lock R ns key tok) w')) = None"
proof -
  have ttl: "millis LOCK_TTL_MS = secs 60" by (simp add: millis_def LOCK_TTL_MS_def secs_def)
  note st = redis_strings.acquired_lock [OF assms, unfolded ttl]
  then have held: "holder (lock_key ns key) w' = Some tok"
    by (simp add: holder_def str_at_def)
  from st have nf: "no_faults w'" and k: "strs (w_ks w') (lock_key ns key) = Some (tok, Some (w_now w + secs 60))"
    by simp_all
  show ?thesis
    using redis_strings.lock_excludes [OF assms(1) nf k] redis_strings.lock_expires [OF assms(1) nf k]
      redis_strings.release_keeps_other [OF assms(1) nf held] redis_strings.release_frees [OF assms(1) nf held]
    by simp
qed

theorem acquire_lock_exclusive_witness:
  "fst (run_state (at_time (secs 59) (acquire_lock mem_redis sample_idgen ''ev'' ''k''))
     (snd (run_state (acquire_lock mem_redis sample_idgen ''ev'' ''k'') (start_world empty_db empty_keyspace 0)))) =
   Inl concurrent_conflict"
proof -
  let ?w = "start_world empty_db empty_keyspace 0"
  have "run_state (acquire_lock mem_redis sample_idgen ''ev'' ''k'') ?w =
      (Inr (uuid_of sample_idgen 0), snd (run_state (acquire_lock mem_redis sample_idgen ''ev'' ''k'') ?w))"
    by (simp add: mem_strings.run_acquire_lock Let_def holder_def str_at_def empty_keyspace_def)
  from acquire_lock_exclusive [OF mem_strings.redis_strings_axioms _ this, THEN conjunct1, rule_format, of "secs 59"]
  show ?thesis by simp
qed

text \<open>The header check is exact: a key is accepted iff it is absent, or made of 1 to 64
  characters of visible ASCII, spaces and tabs; every other header is a 400.\<close>

theorem extract_key_accepts_exactly:
  "(extract_key h = Inr k \<longleftrightarrow> k = h \<and> (case h of None \<Rightarrow> True
      | Some v \<Rightarrow> 1 \<le> length v \<and> length v \<le> 64 \<and> (\<forall>c\<in>set v. of_char c = (9::nat) \<or> of_char c \<in> {32..126::nat})))
   \<and> (extract_key h = Inl e \<longrightarrow> fst (into_response e) = 400)"
proof (cases h)
  case None
  then show ?thesis by (auto simp: extract_key_def)
next
  case (Some v)
  have "header_to_str v = (if \<forall>c\<in>set v. of_char c = (9::nat) \<or> of_char c \<in> {32..126::nat} then Some v else None)"
    by (simp add: header_to_str_def list_all_iff byte_in_def Ball_def)
       (smt (verit) le_antisym order_refl)
  then show ?thesis
    using Some by (cases v) (auto simp: extract_key_def split: if_splits)
qed

theorem extract_key_accepts_exactly_witness:
  "extract_key (Some ''order-17'') = Inr (Some ''order-17'') \<and> (\<exists>e. extract_key (Some []) = Inl e \<and> fst (into_response e) = 400)"
  using extract_key_accepts_exactly [of "Some ''order-17''" "Some ''order-17''"]
    extract_key_accepts_exactly [of "Some []" _ "BadRequest ''Idempotency-Key must not be empty''"]
  by (simp add: extract_key_def header_to_str_def)

end
