(* ===== verification/Event_Schema.thy ===== *)
theory Event_Schema
  imports World
begin

text \<open>
  The schema language of event types (\<open>src/features/event_types/models.rs\<close>) and its translation
  into JSON Schema. A floating point bound is kept as the text of the JSON number.
\<close>

datatype field_type = FString | FNumber | FInteger | FBoolean | FNull | FObject | FArray

datatype string_format = Date | DateTime | UuidFormat | Email | Uri

datatype property_def = PropertyDef
  (pd_field_type: field_type) (pd_format: "string_format option") (pd_min_length: "nat option") (pd_max_length: "nat option")
  (pd_minimum: "string option") (pd_maximum: "string option") (pd_properties: "(string \<times> property_def) list option")
  (pd_required: "string list") (pd_items: "property_def option") (pd_min_items: "nat option") (pd_max_items: "nat option")
  (pd_description: "string option") (pd_nullable: bool)

fun type_str :: "field_type \<Rightarrow> string" where
  "type_str FString = ''string''"
| "type_str FNumber = ''number''"
| "type_str FInteger = ''integer''"
| "type_str FBoolean = ''boolean''"
| "type_str FNull = ''null''"
| "type_str FObject = ''object''"
| "type_str FArray = ''array''"

fun fmt_str :: "string_format \<Rightarrow> string" where
  "fmt_str Date = ''date''"
| "fmt_str DateTime = ''date-time''"
| "fmt_str UuidFormat = ''uuid''"
| "fmt_str Email = ''email''"
| "fmt_str Uri = ''uri''"

definition opt_entry :: "string \<Rightarrow> ('a \<Rightarrow> json) \<Rightarrow> 'a option \<Rightarrow> (string \<times> json) list" where
  "opt_entry k f v = (case v of None \<Rightarrow> [] | Some a \<Rightarrow> [(k, f a)])"

definition json_nat :: "nat \<Rightarrow> json" where
  "json_nat n = JNumber (show_nat n)"

lemma opt_entry_cong [fundef_cong]: "v = v' \<Longrightarrow> (\<And>a. a \<in> set_option v' \<Longrightarrow> f a = g a) \<Longrightarrow> opt_entry k f v = opt_entry k g v'"
  by (simp add: opt_entry_def split: option.splits)

text \<open>The entries in the order of the insertions.\<close>

fun to_json_schema :: "property_def \<Rightarrow> json" where
  "to_json_schema (PropertyDef ft fmt min_length max_length minimum maximum props required items min_items max_items descr nullable) =
     JObject ([(''type'', if nullable then JArray [JString (type_str ft), JString ''null''] else JString (type_str ft))]
       @ opt_entry ''format'' (\<lambda>x. JString (fmt_str x)) fmt
       @ opt_entry ''minLength'' json_nat min_length
       @ opt_entry ''maxLength'' json_nat max_length
       @ opt_entry ''minimum'' JNumber minimum
       @ opt_entry ''maximum'' JNumber maximum
       @ opt_entry ''minItems'' json_nat min_items
       @ opt_entry ''maxItems'' json_nat max_items
       @ opt_entry ''properties'' (\<lambda>ps. JObject (map (\<lambda>p. (fst p, to_json_schema (snd p))) ps)) props
       @ (if required = [] then [] else [(''required'', JArray (map JString required))])
       @ opt_entry ''items'' to_json_schema items
       @ opt_entry ''description'' JString descr)"

end
