(* ===== verification/Events.thy ===== *)
theory Events
  imports Subscriptions Idempotency Event_Schema
begin

text \<open>
  Publishing events (\<open>src/features/events/\<close>): validation of the payload, resolution of the
  application and the event type, the idempotent insert, the fan-out to the subscribed
  endpoints, and the bulk, list and get operations. JSON serialisation, hashing and the JSON
  schema validator are the parameter \<open>V\<close>.
\<close>

section \<open>Types\<close>

datatype payload_type = Json | Text

fun payload_type_str :: "payload_type \<Rightarrow> string" where
  "payload_type_str Json = ''json''"
| "payload_type_str Text = ''text''"

record create_event_request =
  ce_application_id :: string
  ce_event_type_id :: string
  ce_schema_version :: "string option"
  ce_payload :: json
  ce_payload_type :: payload_type
  ce_tags :: "(string \<times> string) list"

type_synonym schema_error = "string \<times> string"

text \<open>What the libraries compute: the length of the serialised payload, the bytes of a serialised
  request, SHA-256, the decoding of a stored schema, and the validator: the errors (path and
  text) of a payload under a JSON schema, or nothing when the schema does not compile.\<close>

record event_ext =
  json_len :: "json \<Rightarrow> nat option"
  request_to_vec :: "create_event_request \<Rightarrow> string option"
  sha256 :: "string \<Rightarrow> string"
  property_def_of :: "json \<Rightarrow> property_def option"
  schema_check :: "json \<Rightarrow> json \<Rightarrow> (string \<times> string) list option"

record event_view =
  vw_row :: event_row
  vw_application_public_id :: string
  vw_event_type_public_id :: string
  vw_event_type_name :: string
  vw_endpoint_public_id :: "string option"

record event_response =
  er_id :: string
  er_application_id :: string
  er_event_type_id :: string
  er_event_type_name :: string
  er_endpoint_id :: "string option"
  er_payload :: json
  er_payload_type :: string
  er_idempotency_key :: "string option"
  er_tags :: "(string \<times> string) list"
  er_schema_valid :: bool
  er_schema_errors :: "schema_error list"
  er_created_by :: uuid
  er_created_at :: time

definition event_response_of :: "event_view \<Rightarrow> event_response" where
  "event_response_of v = \<lparr>er_id = ev_public_id (vw_row v), er_application_id = vw_application_public_id v,
     er_event_type_id = vw_event_type_public_id v, er_event_type_name = vw_event_type_name v,
     er_endpoint_id = vw_endpoint_public_id v, er_payload = ev_payload (vw_row v), er_payload_type = ev_payload_type (vw_row v),
     er_idempotency_key = ev_idempotency_key (vw_row v), er_tags = ev_tags (vw_row v), er_schema_valid = ev_schema_valid (vw_row v),
     er_schema_errors = ev_schema_errors (vw_row v), er_created_by = ev_created_by (vw_row v), er_created_at = ev_created_at (vw_row v)\<rparr>"

section \<open>Statements\<close>

record event_type_ref =
  tr_id :: uuid
  tr_event_schema :: property_def
  tr_schema_version :: string

text \<open>The subquery for the name is not restricted to the tenant, and the versions are compared
  as text.\<close>

definition get_event_type :: "event_ext \<Rightarrow> string \<Rightarrow> uuid \<Rightarrow> string option \<Rightarrow> (app_error + event_type_ref option) io" where
  "get_event_type V public_id tenant_id schema_version = map_sqlx (statement (\<lambda>_ d.
     let name = map_option et_name (find (\<lambda>e. et_public_id e = public_id \<and> et_deleted_at e = None) (event_types d));
         hits = filter (\<lambda>e. Some (et_name e) = name \<and> et_tenant_id e = tenant_id \<and>
             (schema_version = None \<or> schema_version = Some (et_schema_version e)) \<and> \<not> et_archived e \<and> et_deleted_at e = None)
           (event_types d)
     in (case first_row (rev (sort_key et_schema_version hits)) of
           None \<Rightarrow> Inr None
         | Some e \<Rightarrow> (case property_def_of V (et_event_schema e) of
             None \<Rightarrow> Inl (OtherSqlx ''error occurred while decoding column'')
           | Some p \<Rightarrow> Inr (Some \<lparr>tr_id = et_id e, tr_event_schema = p, tr_schema_version = et_schema_version e\<rparr>)), d)))"

definition view_event :: "db \<Rightarrow> event_row \<Rightarrow> event_view option" where
  "view_event d e = (case (find (\<lambda>a. ap_id a = ev_application_id e) (applications d),
       find (\<lambda>t. et_id t = ev_event_type_id e) (event_types d)) of
      (Some a, Some et) \<Rightarrow> Some \<lparr>vw_row = e, vw_application_public_id = ap_public_id a, vw_event_type_public_id = et_public_id et,
        vw_event_type_name = et_name et, vw_endpoint_public_id = (case ev_endpoint_id e of None \<Rightarrow> None
          | Some i \<Rightarrow> map_option ep_public_id (find (\<lambda>p. ep_id p = i) (endpoints d)))\<rparr>
    | _ \<Rightarrow> None)"

definition get_event_row :: "string \<Rightarrow> (app_error + event_view option) io" where
  "get_event_row public_id = map_sqlx (query (\<lambda>_ d.
     first_row (List.map_filter (view_event d) (filter (\<lambda>e. ev_public_id e = public_id) (events d)))))"

definition fresh_key :: "time \<Rightarrow> uuid \<Rightarrow> string \<Rightarrow> event_row \<Rightarrow> bool" where
  "fresh_key t application_id key e \<longleftrightarrow> ev_application_id e = application_id \<and> ev_idempotency_key e = Some key \<and>
     t - secs 3600 < ev_created_at e"

definition find_event_by_idempotency_key :: "uuid \<Rightarrow> string \<Rightarrow> (app_error + event_view option) io" where
  "find_event_by_idempotency_key application_id key = map_sqlx (query (\<lambda>t d.
     first_row (List.map_filter (view_event d) (filter (fresh_key t application_id key) (events d)))))"

definition insert_event :: "event_row \<Rightarrow> db \<Rightarrow> (sqlx_error + uuid) \<times> db" where
  "insert_event e d =
     (if \<exists>x\<in>set (events d). ev_id x = ev_id e then (Inl (duplicate_key ''events'' ''events_pkey'' ''id'' (ev_id e)), d)
      else if \<exists>x\<in>set (events d). ev_public_id x = ev_public_id e
        then (Inl (duplicate_key ''events'' ''idx_events_public_id'' ''public_id'' (ev_public_id e)), d)
      else if \<not> (\<exists>a\<in>set (applications d). ap_id a = ev_application_id e) then (Inl (missing_reference ''events'' ''events_application_id_fkey''), d)
      else if \<not> (\<exists>t\<in>set (event_types d). et_id t = ev_event_type_id e) then (Inl (missing_reference ''events'' ''events_event_type_id_fkey''), d)
      else if \<not> (case ev_endpoint_id e of None \<Rightarrow> True | Some i \<Rightarrow> \<exists>p\<in>set (endpoints d). ep_id p = i)
        then (Inl (missing_reference ''events'' ''events_endpoint_id_fkey''), d)
      else (Inr (ev_id e), d\<lparr>events := events d @ [e]\<rparr>))"

definition new_event_public_id :: "idgen \<Rightarrow> string io" where
  "new_event_public_id G = do { i \<leftarrow> nano_id_new G; State_Monad.return (''evn_'' @ i) }"

definition create_event_row :: "idgen \<Rightarrow> application_ref \<Rightarrow> uuid \<Rightarrow> json \<Rightarrow> string \<Rightarrow> (string \<times> string) list \<Rightarrow> string option \<Rightarrow>
    string option \<Rightarrow> bool \<Rightarrow> schema_error list \<Rightarrow> request_context \<Rightarrow> (app_error + event_view) io" where
  "create_event_row G app event_type_id payload payload_type tags idempotency_key body_hash schema_valid schema_errors ctx = do {
     public_id \<leftarrow> new_event_public_id G;
     n \<leftarrow> fresh;
     try_bind (map_sqlx (statement (\<lambda>t. insert_event \<lparr>ev_id = uuid_of G n, ev_public_id = public_id, ev_application_id = ar_id app,
         ev_event_type_id = event_type_id, ev_endpoint_id = None, ev_tenant_id = ar_tenant_id app, ev_org_id = ar_org_id app,
         ev_payload = payload, ev_payload_type = payload_type, ev_idempotency_key = idempotency_key, ev_body_hash = body_hash,
         ev_tags = tags, ev_request_id = rc_request_id ctx, ev_created_by = rc_created_by ctx, ev_created_at = t,
         ev_schema_valid = schema_valid, ev_schema_errors = schema_errors\<rparr>)))
       (\<lambda>_. try_bind (get_event_row public_id) (\<lambda>r. State_Monad.return (case r of
            None \<Rightarrow> Inl (Internal ''event created but not found on fetch'') | Some v \<Rightarrow> Inr v))) }"

record list_events_query =
  le_application_id :: string
  le_page :: nat
  le_limit :: nat
  le_event_type_id :: "string option"
  le_before :: "time option"
  le_after :: "time option"

definition list_event_rows :: "list_events_query \<Rightarrow> (app_error + event_view list \<times> int) io" where
  "list_event_rows f = map_sqlx (query (\<lambda>_ d.
     let app = map_option ap_id (find (\<lambda>a. ap_public_id a = le_application_id f \<and> ap_deleted_at a = None) (applications d));
         hits = filter (\<lambda>v. (le_event_type_id f = None \<or> le_event_type_id f = Some (vw_event_type_public_id v)) \<and>
             (case le_before f of None \<Rightarrow> True | Some b \<Rightarrow> ev_created_at (vw_row v) < b) \<and>
             (case le_after f of None \<Rightarrow> True | Some a \<Rightarrow> a < ev_created_at (vw_row v)))
           (List.map_filter (view_event d) (filter (\<lambda>e. Some (ev_application_id e) = app) (events d)))
     in page_of (le_page f) (le_limit f) (sort_key (\<lambda>v. - ev_created_at (vw_row v)) hits)))"

section \<open>Validation\<close>

fun is_object :: "json \<Rightarrow> bool" where
  "is_object (JObject _) = True" | "is_object _ = False"

fun is_string :: "json \<Rightarrow> bool" where
  "is_string (JString _) = True" | "is_string _ = False"

definition quote :: "string \<Rightarrow> string" where
  "quote s = char_of (39::nat) # s @ [char_of (39::nat)]"

definition validate_payload :: "event_ext \<Rightarrow> json \<Rightarrow> payload_type \<Rightarrow> app_error + unit" where
  "validate_payload V payload pt =
     (if pt = Json \<and> \<not> is_object payload then Inl (BadRequest (''payload must be a JSON object when payload_type is '' @ quote ''json''))
      else if pt = Text \<and> \<not> is_string payload then Inl (BadRequest (''payload must be a string when payload_type is '' @ quote ''text''))
      else if 512 * 1024 < (case json_len V payload of None \<Rightarrow> 0 | Some n \<Rightarrow> n) then Inl (BadRequest ''payload exceeds 512 KB limit'')
      else Inr ())"

definition validate_tags :: "(string \<times> string) list \<Rightarrow> app_error + unit" where
  "validate_tags tags = (if 5 < length tags then Inl (BadRequest ''tags: max 5 entries'')
     else (case find (\<lambda>(k, v). 64 < length k \<or> 255 < length v) tags of
         None \<Rightarrow> Inr ()
       | Some (k, v) \<Rightarrow> Inl (BadRequest (if 64 < length k then ''tags: key must be 64 characters or fewer''
            else ''tags: value must be 255 characters or fewer''))))"

definition extract_required_field :: "string \<Rightarrow> string option" where
  "extract_required_field msg = (case strip_prefix [char_of (34::nat)] msg of None \<Rightarrow> None
     | Some s \<Rightarrow> (case split_once (char_of (34::nat)) s of None \<Rightarrow> None
         | Some (field, rest) \<Rightarrow> if starts_with (trim_start rest) ''is a required property'' then Some field else None))"

definition schema_error_of :: "string \<times> string \<Rightarrow> schema_error" where
  "schema_error_of e = (case e of (path, raw) \<Rightarrow>
     if path = [] then (case extract_required_field raw of None \<Rightarrow> [] | Some f \<Rightarrow> f, ''Missing required property'')
     else (replace_char (CHR ''/'') (CHR ''.'') (trim_with [''/''] path), raw))"

definition validate_against_schema :: "event_ext \<Rightarrow> property_def \<Rightarrow> json \<Rightarrow> bool \<times> schema_error list" where
  "validate_against_schema V schema payload = (case schema_check V (to_json_schema schema) payload of
      None \<Rightarrow> (True, [])
    | Some es \<Rightarrow> (es = [], map schema_error_of es))"

section \<open>Fan-out\<close>

definition enqueue_delivery :: "redis_cmds \<Rightarrow> idgen \<Rightarrow> uuid \<Rightarrow> uuid \<Rightarrow> uuid \<Rightarrow> unit io" where
  "enqueue_delivery R G event_id endpoint_id org_id = do {
     tier \<leftarrow> get_org_tier org_id;
     let stream = stream_for_tier tier org_id;
     r \<leftarrow> create_job G event_id endpoint_id org_id stream;
     case r of Inl _ \<Rightarrow> State_Monad.return ()
     | Inr job \<Rightarrow> do {
         q \<leftarrow> enqueue R stream (dj_public_id job);
         case q of Inl _ \<Rightarrow> State_Monad.return ()
         | Inr _ \<Rightarrow> do {
             _ \<leftarrow> mark_enqueued (dj_id job);
             _ \<leftarrow> register_stream R stream;
             State_Monad.return () } } }"

definition enqueue_for_subscriptions :: "redis_cmds \<Rightarrow> idgen \<Rightarrow> uuid \<Rightarrow> uuid \<Rightarrow> uuid \<Rightarrow> uuid \<Rightarrow> unit io" where
  "enqueue_for_subscriptions R G event_id event_type_id application_id org_id = do {
     r \<leftarrow> get_active_for_event_type event_type_id application_id;
     case r of Inl _ \<Rightarrow> State_Monad.return ()
     | Inr endpoint_ids \<Rightarrow> for_each endpoint_ids (\<lambda>endpoint_id. enqueue_delivery R G event_id endpoint_id org_id) }"

section \<open>Service\<close>

definition key_conflict :: app_error where
  "key_conflict = Conflict ''Idempotency key already used with a different request body'' []"

text \<open>Insert the event and fan it out.\<close>

definition publish_event :: "redis_cmds \<Rightarrow> idgen \<Rightarrow> create_event_request \<Rightarrow> application_ref \<Rightarrow> uuid \<Rightarrow> string option \<Rightarrow> string option \<Rightarrow>
    bool \<times> schema_error list \<Rightarrow> request_context \<Rightarrow> (app_error + event_response \<times> bool) io" where
  "publish_event R G req app type_id key hash checked ctx =
     try_bind (create_event_row G app type_id (ce_payload req) (payload_type_str (ce_payload_type req)) (ce_tags req) key hash
         (fst checked) (snd checked) ctx) (\<lambda>v. do {
       _ \<leftarrow> enqueue_for_subscriptions R G (ev_id (vw_row v)) type_id (ar_id app) (ev_org_id (vw_row v));
       State_Monad.return (Inr (event_response_of v, True)) })"

definition publish_idempotent :: "redis_cmds \<Rightarrow> event_ext \<Rightarrow> idgen \<Rightarrow> create_event_request \<Rightarrow> application_ref \<Rightarrow> uuid \<Rightarrow> string \<Rightarrow>
    bool \<times> schema_error list \<Rightarrow> request_context \<Rightarrow> (app_error + event_response \<times> bool) io" where
  "publish_idempotent R V G req app type_id key checked ctx = (let hash = body_hash_bytes (request_to_vec V) (sha256 V) req in
     try_bind (acquire_lock R G ''events'' key) (\<lambda>lock_token. do {
       r \<leftarrow> find_event_by_idempotency_key (ar_id app) key;
       result \<leftarrow> (case r of
           Inl e \<Rightarrow> State_Monad.return (Inl e)
         | Inr found \<Rightarrow> (case found of
             Some v \<Rightarrow> State_Monad.return (if ev_body_hash (vw_row v) = Some hash then Inr (event_response_of v, False) else Inl key_conflict)
           | None \<Rightarrow> publish_event R G req app type_id (Some key) (Some hash) checked ctx));
       _ \<leftarrow> release_lock R ''events'' key lock_token;
       State_Monad.return result }))"

definition create_event :: "redis_cmds \<Rightarrow> event_ext \<Rightarrow> idgen \<Rightarrow> create_event_request \<Rightarrow> request_context \<Rightarrow> string option \<Rightarrow>
    (app_error + event_response \<times> bool) io" where
  "create_event R V G req ctx idempotency_key = (case validate_payload V (ce_payload req) (ce_payload_type req) of
      Inl e \<Rightarrow> State_Monad.return (Inl e)
    | Inr _ \<Rightarrow> (case validate_tags (ce_tags req) of
        Inl e \<Rightarrow> State_Monad.return (Inl e)
      | Inr _ \<Rightarrow>
         try_bind (or_not_found (get_application (ce_application_id req)) (''Application not found: '' @ ce_application_id req)) (\<lambda>app.
         try_bind (or_not_found (get_event_type V (ce_event_type_id req) (ar_tenant_id app) (ce_schema_version req))
             (''Event type not found or archived: '' @ ce_event_type_id req)) (\<lambda>et.
           let checked = (case ce_payload_type req of Text \<Rightarrow> (True, [])
                 | Json \<Rightarrow> validate_against_schema V (tr_event_schema et) (ce_payload req)) in
           case idempotency_key of
             Some key \<Rightarrow> publish_idempotent R V G req app (tr_id et) key checked ctx
           | None \<Rightarrow> publish_event R G req app (tr_id et) None None checked ctx))))"

text \<open>Bulk: every item on its own, with its index, status and event or error.\<close>

record bulk_result =
  br_index :: nat
  br_status :: int
  br_event :: "event_response option"
  br_error :: "(string \<times> string) option"

definition bulk_item :: "nat \<Rightarrow> app_error + event_response \<times> bool \<Rightarrow> bulk_result" where
  "bulk_item index r = (case r of
      Inr (ev, created) \<Rightarrow> \<lparr>br_index = index, br_status = (if created then 201 else 200), br_event = Some ev, br_error = None\<rparr>
    | Inl e \<Rightarrow> (case to_error_info e of (status, code, message) \<Rightarrow>
        \<lparr>br_index = index, br_status = status, br_event = None, br_error = Some (code, message)\<rparr>))"

fun bulk_loop :: "redis_cmds \<Rightarrow> event_ext \<Rightarrow> idgen \<Rightarrow> request_context \<Rightarrow> nat \<Rightarrow> (create_event_request \<times> string option) list \<Rightarrow>
    bulk_result list \<Rightarrow> nat \<Rightarrow> nat \<Rightarrow> (bulk_result list \<times> nat \<times> nat) io" where
  "bulk_loop R V G ctx index [] results succeeded failed = State_Monad.return (results, succeeded, failed)"
| "bulk_loop R V G ctx index ((req, key) # items) results succeeded failed = do {
     r \<leftarrow> create_event R V G req ctx key;
     bulk_loop R V G ctx (Suc index) items (results @ [bulk_item index r])
       (case r of Inr _ \<Rightarrow> Suc succeeded | Inl _ \<Rightarrow> succeeded) (case r of Inr _ \<Rightarrow> failed | Inl _ \<Rightarrow> Suc failed) }"

definition create_bulk :: "redis_cmds \<Rightarrow> event_ext \<Rightarrow> idgen \<Rightarrow> (create_event_request \<times> string option) list \<Rightarrow> request_context \<Rightarrow>
    (bulk_result list \<times> nat \<times> nat) io" where
  "create_bulk R V G items ctx = bulk_loop R V G ctx 0 items [] 0 0"

definition create_events_bulk :: "redis_cmds \<Rightarrow> event_ext \<Rightarrow> idgen \<Rightarrow> (create_event_request \<times> string option) list \<Rightarrow> request_context \<Rightarrow>
    (app_error + int \<times> (bulk_result list \<times> nat \<times> nat)) io" where
  "create_events_bulk R V G items ctx = (if items = [] \<or> 10 < length items
     then State_Monad.return (Inl (BadRequest ''Bulk request must contain between 1 and 10 events''))
     else do { r \<leftarrow> create_bulk R V G items ctx; State_Monad.return (Inr (207, r)) })"

definition create_event_handler :: "redis_cmds \<Rightarrow> event_ext \<Rightarrow> idgen \<Rightarrow> create_event_request \<Rightarrow> request_context \<Rightarrow> string option \<Rightarrow>
    (app_error + int \<times> event_response) io" where
  "create_event_handler R V G req ctx header = (case extract_key header of
      Inl e \<Rightarrow> State_Monad.return (Inl e)
    | Inr key \<Rightarrow> try_bind (create_event R V G req ctx key) (\<lambda>(ev, created).
        State_Monad.return (Inr (if created then 201 else 200, ev))))"

definition list_events :: "list_events_query \<Rightarrow> (app_error + event_response paginated) io" where
  "list_events f = try_bind (list_event_rows f) (\<lambda>(items, total). State_Monad.return (Inr
     \<lparr>pg_items = map event_response_of items, pg_total = total, pg_page = as_i32 (le_page f), pg_limit = as_i32 (le_limit f)\<rparr>))"

definition get_event_by_id :: "string \<Rightarrow> (app_error + event_response) io" where
  "get_event_by_id public_id = try_bind (or_not_found (get_event_row public_id) (''Event not found: '' @ public_id))
     (\<lambda>v. State_Monad.return (Inr (event_response_of v)))"

end
