(* ===== verification/Crypto.thy ===== *)
theory Crypto
  imports Nano_Id
begin

text \<open>
  Secrets at rest (\<open>src/common/crypto.rs\<close>, \<open>src/common/key_provider.rs\<close>): the per-tenant
  encryption of endpoint secrets in a versioned envelope. The cipher, the MAC and base64 are
  library code and a parameter \<open>X\<close>. A panic is the value \<open>None\<close>.
\<close>

record crypto_ext =
  b64_encode :: "string \<Rightarrow> string"
  b64_decode :: "string \<Rightarrow> string option"
  b64url_encode :: "string \<Rightarrow> string"
  b64url_decode :: "string \<Rightarrow> string option"
  hmac_sha256 :: "string \<Rightarrow> string \<Rightarrow> string"
  aes_encrypt :: "string \<Rightarrow> string \<Rightarrow> string \<Rightarrow> string option"
  aes_decrypt :: "string \<Rightarrow> string \<Rightarrow> string \<Rightarrow> string option"
  uuid_bytes :: "uuid \<Rightarrow> string"
  rand_bytes :: "nat \<Rightarrow> nat \<Rightarrow> string"

definition key_of_b64 :: "crypto_ext \<Rightarrow> string \<Rightarrow> string \<Rightarrow> string + string" where
  "key_of_b64 X var s = (case b64_decode X (trim s) of
      None \<Rightarrow> Inl (var @ '' must be standard base64-encoded'')
    | Some key \<Rightarrow> if length key \<noteq> 32 then Inl (var @ '' must decode to 32 bytes, got '' @ show_nat (length key))
        else Inr key)"

definition tenant_crypto_new :: "crypto_ext \<Rightarrow> string \<Rightarrow> string + string" where
  "tenant_crypto_new X master_key_b64 = key_of_b64 X ''CRYPTO_MASTER_KEY'' master_key_b64"

definition env_key_provider :: "crypto_ext \<Rightarrow> string \<Rightarrow> string + string" where
  "env_key_provider X b64_key = key_of_b64 X ''API_KEY_ENCRYPTION_KEY'' b64_key"

definition derive_key :: "crypto_ext \<Rightarrow> string \<Rightarrow> uuid \<Rightarrow> string" where
  "derive_key X master_key tenant_id = hmac_sha256 X master_key (uuid_bytes X tenant_id)"

definition encrypt :: "crypto_ext \<Rightarrow> string \<Rightarrow> uuid \<Rightarrow> string \<Rightarrow> (app_error + string) io" where
  "encrypt X master_key tenant_id plaintext = do {
     n \<leftarrow> fresh;
     let nonce = rand_bytes X n 12;
     State_Monad.return (case aes_encrypt X (derive_key X master_key tenant_id) nonce plaintext of
         None \<Rightarrow> Inl (Internal ''encryption failed'')
       | Some ciphertext \<Rightarrow> Inr (''v1$'' @ b64url_encode X nonce @ ''$'' @ b64url_encode X ciphertext)) }"

text \<open>\<open>Nonce::from_slice\<close> panics unless the slice has twelve bytes.\<close>

definition decrypt :: "crypto_ext \<Rightarrow> string \<Rightarrow> uuid \<Rightarrow> string \<Rightarrow> (app_error + string) option" where
  "decrypt X master_key tenant_id encrypted = (let parts = splitn3 (CHR ''$'') encrypted in
     if length parts \<noteq> 3 \<or> parts ! 0 \<noteq> ''v1'' then Some (Inl (Internal ''invalid encrypted secret format''))
     else (case b64url_decode X (parts ! 1) of
        None \<Rightarrow> Some (Inl (Internal ''invalid nonce encoding''))
      | Some nonce_bytes \<Rightarrow> (case b64url_decode X (parts ! 2) of
          None \<Rightarrow> Some (Inl (Internal ''invalid ciphertext encoding''))
        | Some ciphertext \<Rightarrow>
            if length nonce_bytes \<noteq> 12 then None
            else (case aes_decrypt X (derive_key X master_key tenant_id) nonce_bytes ciphertext of
                None \<Rightarrow> Some (Inl (Internal ''decryption failed''))
              | Some plaintext \<Rightarrow> (case from_utf8 plaintext of
                  None \<Rightarrow> Some (Inl (Internal ''invalid UTF-8 in decrypted secret''))
                | Some s \<Rightarrow> Some (Inr s))))))"

definition generate_webhook_secret :: "crypto_ext \<Rightarrow> string io" where
  "generate_webhook_secret X = do {
     n \<leftarrow> fresh;
     State_Monad.return (''whsec_'' @ b64url_encode X (rand_bytes X n 32)) }"

section \<open>What the libraries promise\<close>

text \<open>URL-safe base64 decodes what it encoded and its alphabet has no dollar sign, the cipher
  decrypts what it encrypted under the same key and nonce, and a nonce has twelve bytes.\<close>

locale crypto_library =
  fixes X :: crypto_ext
  assumes b64url_roundtrip: "b64url_decode X (b64url_encode X b) = Some b"
    and b64url_no_dollar: "CHR ''$'' \<notin> set (b64url_encode X b)"
    and aes_roundtrip: "aes_encrypt X k n p = Some c \<Longrightarrow> aes_decrypt X k n c = Some p"
    and rand_length: "length (rand_bytes X i len) = len"
begin

lemma splitn3_envelope:
  "splitn3 (CHR ''$'') (''v1$'' @ b64url_encode X n @ ''$'' @ b64url_encode X c) =
     [''v1'', b64url_encode X n, b64url_encode X c]"
  using splitn3_join [of "CHR ''$''" "''v1''" "b64url_encode X n" "b64url_encode X c"]
  by (simp add: b64url_no_dollar)

lemma decrypt_envelope:
  "decrypt X mk t (''v1$'' @ b64url_encode X n @ ''$'' @ b64url_encode X c) =
     (if length n \<noteq> 12 then None
      else (case aes_decrypt X (derive_key X mk t) n c of
          None \<Rightarrow> Some (Inl (Internal ''decryption failed''))
        | Some plaintext \<Rightarrow> (case from_utf8 plaintext of
            None \<Rightarrow> Some (Inl (Internal ''invalid UTF-8 in decrypted secret'')) | Some s \<Rightarrow> Some (Inr s))))"
  unfolding decrypt_def Let_def splitn3_envelope by (simp add: b64url_roundtrip)

lemma decrypt_encrypt:
  "fst (run_state (encrypt X mk t p) w) = Inr env \<Longrightarrow> utf8_valid p \<Longrightarrow> decrypt X mk t env = Some (Inr p)"
  by (auto simp: encrypt_def run_simps Let_def decrypt_envelope rand_length aes_roundtrip from_utf8_def
      simp del: append.simps split: option.splits)

end

text \<open>An instance that can be evaluated: two letters per byte, and a cipher that reverses.\<close>

fun hex_decode :: "string \<Rightarrow> string option" where
  "hex_decode [] = Some []"
| "hex_decode (a # b # s) = map_option ((#) (char_of ((of_char a - 65) * 16 + (of_char b - 65) :: nat))) (hex_decode s)"
| "hex_decode _ = None"

definition hex_encode :: "string \<Rightarrow> string" where
  "hex_encode s = concat (map (\<lambda>c. [char_of (65 + of_char c div 16 :: nat), char_of (65 + of_char c mod 16 :: nat)]) s)"

definition sample_crypto :: crypto_ext where
  "sample_crypto = \<lparr>b64_encode = hex_encode, b64_decode = hex_decode, b64url_encode = hex_encode, b64url_decode = hex_decode,
     hmac_sha256 = (\<lambda>k m. k @ m), aes_encrypt = (\<lambda>k n p. Some (rev p)), aes_decrypt = (\<lambda>k n c. Some (rev c)),
     uuid_bytes = id, rand_bytes = (\<lambda>i n. replicate n (CHR ''r''))\<rparr>"

lemma of_char_div: "(of_char c :: nat) div 16 < 16"
proof -
  have "(of_char c :: nat) < 16 * 16" by simp
  then show ?thesis by (rule less_mult_imp_div_less)
qed

lemma hex_roundtrip: "hex_decode (hex_encode s) = Some s"
proof (induction s)
  case Nil
  then show ?case by (simp add: hex_encode_def)
next
  case (Cons c s)
  then show ?case using of_char_div [of c] by (simp add: hex_encode_def)
qed

lemma hex_no_dollar: "CHR ''$'' \<notin> set (hex_encode s)"
proof (induction s)
  case Nil
  then show ?case by (simp add: hex_encode_def)
next
  case (Cons c s)
  have "CHR ''$'' \<noteq> char_of (65 + of_char c div 16 :: nat)" "CHR ''$'' \<noteq> char_of (65 + of_char c mod 16 :: nat)"
    using of_char_div [of c] by (auto simp: char_of_eq_iff dest!: arg_cong [where f = "of_char :: char \<Rightarrow> nat"])
  with Cons show ?case by (simp add: hex_encode_def)
qed

interpretation sample_library: crypto_library sample_crypto
  by unfold_locales (auto simp: sample_crypto_def hex_roundtrip hex_no_dollar)

section \<open>Properties\<close>

text \<open>C31. Secrets survive encryption: what \<open>encrypt\<close> returns for a tenant, \<open>decrypt\<close> turns back
  into the same text for that tenant, without error and without panic.\<close>

theorem decrypt_inverts_encrypt:
  assumes "crypto_library X" and "utf8_valid plain" and "fst (run_state (encrypt X mk tenant plain) w) = Inr env"
  shows "decrypt X mk tenant env = Some (Inr plain)"
  using assms by (simp add: crypto_library.decrypt_encrypt)

theorem decrypt_inverts_encrypt_witness:
  "\<exists>env. fst (run_state (encrypt sample_crypto ''key'' ''t1'' ''whsec_abc'') (start_world empty_db empty_keyspace 0)) = Inr env \<and>
     decrypt sample_crypto ''key'' ''t1'' env = Some (Inr ''whsec_abc'')"
proof -
  obtain env where "fst (run_state (encrypt sample_crypto ''key'' ''t1'' ''whsec_abc'') (start_world empty_db empty_keyspace 0)) = Inr env"
    by (simp add: encrypt_def run_simps Let_def sample_crypto_def)
  with decrypt_inverts_encrypt [OF sample_library.crypto_library_axioms _ this] show ?thesis
    by (simp add: byte_in_def)
qed

text \<open>A stored envelope whose nonce does not have twelve bytes makes \<open>decrypt\<close> panic instead
  of returning the error its signature promises.\<close>

theorem decrypt_panics_on_bad_nonce:
  assumes "crypto_library X" and "length nonce \<noteq> 12"
  shows "decrypt X mk tenant (''v1$'' @ b64url_encode X nonce @ ''$'' @ b64url_encode X c) = None"
  using assms by (simp only: crypto_library.decrypt_envelope if_True simp_thms)

theorem decrypt_panics_on_bad_nonce_witness:
  "decrypt sample_crypto ''key'' ''t1'' (''v1$'' @ b64url_encode sample_crypto ''abc'' @ ''$'' @ b64url_encode sample_crypto ''x'') = None"
  by (rule decrypt_panics_on_bad_nonce [OF sample_library.crypto_library_axioms]) simp

end
