(* ===== verification/Request_Checks.thy ===== *)
theory Request_Checks
  imports World
begin

text \<open>
  What the services share when they look at a request (\<open>src/common/validators.rs\<close>): the validators, the
  collection of their errors, and keyset paging.
\<close>

section \<open>Validators\<close>

definition blank :: "string \<Rightarrow> bool" where
  "blank s \<longleftrightarrow> trim s = []"

definition validate_not_blank :: "string \<Rightarrow> string \<Rightarrow> validation_error list" where
  "validate_not_blank message s = (if blank s then [\<lparr>ve_code = ''required'', ve_message = Some message, ve_params = (\<lambda>_. None)\<rparr>] else [])"

definition validate_max :: "nat \<Rightarrow> string \<Rightarrow> string \<Rightarrow> validation_error list" where
  "validate_max n message s = (if n < length (filter (\<lambda>c. \<not> byte_in 128 191 c) s)
     then [\<lparr>ve_code = ''length'', ve_message = Some message, ve_params = [''max'' \<mapsto> PNumber (int n), ''value'' \<mapsto> PString s]\<rparr>] else [])"

definition validate_min_one :: "string \<Rightarrow> 'a list \<Rightarrow> validation_error list" where
  "validate_min_one message xs = (if xs = [] then [\<lparr>ve_code = ''length'', ve_message = Some message,
     ve_params = [''min'' \<mapsto> PNumber 1, ''value'' \<mapsto> PArray 0]\<rparr>] else [])"

definition reject_errors :: "(string \<times> validation_error list) list \<Rightarrow> app_error + unit" where
  "reject_errors errs = (let es = filter (\<lambda>(_, v). v \<noteq> []) errs in if es = [] then Inr () else Inl (from_validation es))"

definition on_some :: "'a option \<Rightarrow> ('a \<Rightarrow> 'b list) \<Rightarrow> 'b list" where
  "on_some x f = (case x of None \<Rightarrow> [] | Some a \<Rightarrow> f a)"

definition validate_slug :: "string \<Rightarrow> bool" where
  "validate_slug s \<longleftrightarrow> list_all (\<lambda>c. byte_in 97 122 c \<or> byte_in 48 57 c \<or> byte_in 45 45 c) s \<and>
     \<not> starts_with s ''-'' \<and> \<not> starts_with (rev s) ''-''"

definition validate_future_date :: "string \<Rightarrow> time \<Rightarrow> time \<Rightarrow> validation_error list" where
  "validate_future_date message t dt = (if dt \<le> t then [\<lparr>ve_code = ''invalid_value'', ve_message = Some message, ve_params = (\<lambda>_. None)\<rparr>] else [])"

definition validate_id_prefix :: "string \<Rightarrow> string \<Rightarrow> string \<Rightarrow> app_error + unit" where
  "validate_id_prefix i expected entity = (if starts_with i expected then Inr ()
     else Inl (BadRequest (''Invalid '' @ entity @ '' ID '' @ [CHR 0x27] @ i @ [CHR 0x27] @ '': expected a '' @ [CHR 0x27] @ expected @ [CHR 0x27] @ '' prefix'')))"

section \<open>Paging\<close>

definition coalesce :: "'a option \<Rightarrow> 'a \<Rightarrow> 'a" where
  "coalesce x y = (case x of None \<Rightarrow> y | Some a \<Rightarrow> a)"

definition page_limit :: "int option \<Rightarrow> nat" where
  "page_limit l = nat (min 100 (max 1 (coalesce l 20)))"

text \<open>Keyset paging: fetch one row more than the limit, drop it, and hand out its id as cursor.\<close>

definition cut_page :: "('a \<Rightarrow> uuid) \<Rightarrow> nat \<Rightarrow> 'a list \<Rightarrow> 'a list \<times> uuid option" where
  "cut_page key limit rows = (let page = take (limit + 1) rows in
     if limit < length page then (butlast page, Some (key (last page))) else (page, None))"

end
