(* ===== verification/Schedules.thy ===== *)
theory Schedules
  imports Events Crypto Request_Checks
begin

text \<open>
  Schedules of recurring events (\<open>src/features/schedules/\<close>): the types of \<open>models.rs\<close>, the
  statements of \<open>repository.rs\<close>, and the cron and cursor helpers of \<open>service.rs\<close>; the theory
  \<open>Schedule_Service\<close> has the operations. The cron and time zone libraries are the parameter \<open>C\<close>: a parsed expression
  is a function from a time zone and an instant to the next occurrence. The length and
  emptiness checks of text columns are left out.
\<close>

section \<open>Types\<close>

record create_schedule_request =
  cq_name :: string
  cq_description :: "string option"
  cq_application_id :: string
  cq_event_type_id :: string
  cq_endpoint_ids :: "string list"
  cq_payload :: json
  cq_cron_expression :: string
  cq_timezone :: "string option"

record sched_ext =
  tz_valid :: "string \<Rightarrow> bool"
  cron_parse :: "string \<Rightarrow> string + (string \<Rightarrow> time \<Rightarrow> time option)"
  cursor_crypto :: crypto_ext
  uuid_from_slice :: "string \<Rightarrow> uuid option"
  schedule_to_vec :: "create_schedule_request \<Rightarrow> string option"
  sched_sha256 :: "string \<Rightarrow> string"

record update_schedule_request =
  uq_name :: "string option"
  uq_description :: "string option"
  uq_endpoint_ids :: "string list option"
  uq_payload :: "json option"
  uq_cron_expression :: "string option"
  uq_timezone :: "string option"

record schedule_view =
  sw_row :: schedule_row
  sw_event_type_public_id :: string
  sw_endpoint_public_ids :: "string list"

record schedule_response =
  so_id :: string
  so_name :: string
  so_description :: "string option"
  so_tenant_id :: uuid
  so_org_id :: uuid
  so_event_type_id :: string
  so_endpoint_ids :: "string list"
  so_payload :: json
  so_cron :: string
  so_timezone :: string
  so_status :: string
  so_next_run_at :: "time option"
  so_last_run_at :: "time option"
  so_last_run_status :: "string option"
  so_created_by :: uuid
  so_updated_by :: uuid
  so_request_id :: uuid
  so_created_at :: time
  so_updated_at :: time

definition schedule_response_of :: "schedule_view \<Rightarrow> schedule_response" where
  "schedule_response_of v = (let r = sw_row v in \<lparr>so_id = sc_public_id r, so_name = sc_name r, so_description = sc_description r,
     so_tenant_id = sc_tenant_id r, so_org_id = sc_org_id r, so_event_type_id = sw_event_type_public_id v,
     so_endpoint_ids = sw_endpoint_public_ids v, so_payload = sc_payload r, so_cron = sc_cron r, so_timezone = sc_timezone r,
     so_status = sc_status r, so_next_run_at = sc_next_run_at r, so_last_run_at = sc_last_run_at r,
     so_last_run_status = sc_last_run_status r, so_created_by = sc_created_by r, so_updated_by = sc_updated_by r,
     so_request_id = sc_request_id r, so_created_at = sc_created_at r, so_updated_at = sc_updated_at r\<rparr>)"

section \<open>Validation\<close>

definition validate_create :: "create_schedule_request \<Rightarrow> app_error + unit" where
  "validate_create r = reject_errors
     [(''name'', validate_not_blank ''name is required'' (cq_name r) @ validate_max 255 ''name must be 255 characters or fewer'' (cq_name r)),
      (''event_type_id'', validate_not_blank ''event_type_id is required'' (cq_event_type_id r)),
      (''endpoint_ids'', validate_min_one ''endpoint_ids must contain at least one entry'' (cq_endpoint_ids r)),
      (''cron_expression'', validate_not_blank ''cron_expression is required'' (cq_cron_expression r))]"

definition validate_update :: "update_schedule_request \<Rightarrow> app_error + unit" where
  "validate_update r = reject_errors
     [(''name'', on_some (uq_name r) (\<lambda>n. validate_not_blank ''name cannot be empty'' n @ validate_max 255 ''name must be 255 characters or fewer'' n)),
      (''endpoint_ids'', on_some (uq_endpoint_ids r) (validate_min_one ''endpoint_ids must contain at least one entry'')),
      (''cron_expression'', on_some (uq_cron_expression r) (validate_not_blank ''cron_expression cannot be empty''))]"

section \<open>Cron and cursors\<close>

text \<open>\<open>split_whitespace\<close>, with the word read so far.\<close>

function split_ws :: "string \<Rightarrow> string \<Rightarrow> string list" where
  "split_ws cur [] = (if cur = [] then [] else [rev cur])"
| "split_ws cur (c # s) = (case find (\<lambda>p. p \<noteq> [] \<and> starts_with (c # s) p) white_space of
      None \<Rightarrow> split_ws (c # cur) s
    | Some p \<Rightarrow> (if cur = [] then [] else [rev cur]) @ split_ws [] (drop (length p - 1) s))"
  by pat_completeness auto

termination
  by (relation "measure (\<lambda>(cur, s). length s)") auto

definition normalize_cron :: "string \<Rightarrow> app_error + string" where
  "normalize_cron expr = (let n = length (split_ws [] expr) in
     if n = 5 then Inr (''0 '' @ expr @ '' *'') else if n = 7 then Inr expr
     else Inl (BadRequest (''cron expression must have 5 fields (min hour dom month dow), got '' @ show_nat n)))"

definition compute_next_run_at :: "sched_ext \<Rightarrow> string \<Rightarrow> string \<Rightarrow> time \<Rightarrow> app_error + time" where
  "compute_next_run_at C cron_expr tz t = (case normalize_cron cron_expr of
      Inl e \<Rightarrow> Inl e
    | Inr seven_field \<Rightarrow> (case cron_parse C seven_field of
        Inl e \<Rightarrow> Inl (BadRequest (''invalid cron expression: '' @ e))
      | Inr schedule \<Rightarrow> if \<not> tz_valid C tz then Inl (BadRequest (''invalid timezone: '' @ tz))
          else (case schedule tz t of None \<Rightarrow> Inl (BadRequest ''cron expression produces no future executions'')
            | Some r \<Rightarrow> Inr r)))"

definition encode_cursor :: "sched_ext \<Rightarrow> uuid \<Rightarrow> string" where
  "encode_cursor C i = b64url_encode (cursor_crypto C) (uuid_bytes (cursor_crypto C) i)"

definition decode_cursor :: "sched_ext \<Rightarrow> string \<Rightarrow> app_error + uuid" where
  "decode_cursor C cursor = (case b64url_decode (cursor_crypto C) cursor of None \<Rightarrow> Inl (BadRequest ''invalid cursor'')
     | Some bytes \<Rightarrow> (case uuid_from_slice C bytes of None \<Rightarrow> Inl (BadRequest ''invalid cursor'') | Some i \<Rightarrow> Inr i))"

section \<open>Queries\<close>

definition view_schedule :: "db \<Rightarrow> schedule_row \<Rightarrow> schedule_view option" where
  "view_schedule d s = map_option (\<lambda>et. \<lparr>sw_row = s, sw_event_type_public_id = et_public_id et,
       sw_endpoint_public_ids = sort (List.map_filter (\<lambda>(sid, eid). if sid = sc_id s
          then map_option ep_public_id (find (\<lambda>e. ep_id e = eid \<and> ep_deleted_at e = None) (endpoints d)) else None) (schedule_endpoints d))\<rparr>)
     (find (\<lambda>et. et_id et = sc_event_type_id s) (event_types d))"

definition select_schedules :: "(schedule_row \<Rightarrow> bool) \<Rightarrow> db \<Rightarrow> schedule_view list" where
  "select_schedules p d = List.map_filter (view_schedule d) (filter p (schedules d))"

definition resolve_application :: "string \<Rightarrow> (app_error + uuid option) io" where
  "resolve_application public_id = map_sqlx (query (\<lambda>_ d. map_option ap_id
     (find (\<lambda>a. ap_public_id a = public_id \<and> ap_deleted_at a = None) (applications d))))"

definition resolve_event_type :: "string \<Rightarrow> uuid \<Rightarrow> (app_error + uuid) io" where
  "resolve_event_type public_id tenant_id = or_not_found (map_sqlx (query (\<lambda>_ d. map_option et_id
     (find (\<lambda>e. et_public_id e = public_id \<and> et_tenant_id e = tenant_id \<and> \<not> et_archived e \<and> et_deleted_at e = None) (event_types d)))))
     (''EventType not found: '' @ public_id)"

fun join :: "string \<Rightarrow> string list \<Rightarrow> string" where
  "join sep [] = []"
| "join sep [x] = x"
| "join sep (x # xs) = x @ sep @ join sep xs"

definition resolve_endpoints :: "string list \<Rightarrow> uuid \<Rightarrow> (app_error + uuid list) io" where
  "resolve_endpoints public_ids tenant_id = (if public_ids = [] then State_Monad.return (Inr []) else
     try_bind (map_sqlx (query (\<lambda>_ d. map (\<lambda>e. (ep_id e, ep_public_id e))
         (filter (\<lambda>e. ep_public_id e \<in> set public_ids \<and> ep_tenant_id e = tenant_id \<and> ep_deleted_at e = None) (endpoints d))))) (\<lambda>rows.
       let missing = filter (\<lambda>pid. pid \<notin> snd ` set rows) public_ids in
       State_Monad.return (if missing \<noteq> [] then Inl (NotFound (''Endpoints not found: '' @ join '', '' missing)) else Inr (map fst rows))))"

definition get_tenant_shard_affinity :: "uuid \<Rightarrow> (app_error + int option) io" where
  "get_tenant_shard_affinity tenant_id = map_sqlx (query (\<lambda>_ d. map_of (tenant_shard_affinity d) tenant_id))"

definition get_schedule_id_by_public_id :: "string \<Rightarrow> (app_error + uuid option) io" where
  "get_schedule_id_by_public_id public_id = map_sqlx (query (\<lambda>_ d. map_option sc_id
     (find (\<lambda>s. sc_public_id s = public_id \<and> sc_deleted_at s = None) (schedules d))))"

definition get_full_by_id :: "uuid \<Rightarrow> (app_error + schedule_view option) io" where
  "get_full_by_id i = map_sqlx (query (\<lambda>_ d. first_row (select_schedules (\<lambda>s. sc_id s = i) d)))"

definition find_schedule_by_idempotency_key :: "uuid \<Rightarrow> string \<Rightarrow> (app_error + schedule_view option) io" where
  "find_schedule_by_idempotency_key application_id key = map_sqlx (query (\<lambda>t d. first_row (select_schedules (\<lambda>s.
     sc_application_id s = Some application_id \<and> sc_idempotency_key s = Some key \<and> t - secs 3600 < sc_created_at s \<and> sc_deleted_at s = None) d)))"

definition get_schedule_row :: "string \<Rightarrow> (app_error + schedule_view option) io" where
  "get_schedule_row public_id = map_sqlx (query (\<lambda>_ d. first_row (select_schedules (\<lambda>s. sc_public_id s = public_id \<and> sc_deleted_at s = None) d)))"

section \<open>Statements\<close>

definition insert_schedule :: "schedule_row \<Rightarrow> db \<Rightarrow> (sqlx_error + unit) \<times> db" where
  "insert_schedule s d =
     (if \<exists>x\<in>set (schedules d). sc_id x = sc_id s then (Inl (duplicate_key ''schedules'' ''schedules_pk'' ''id'' (sc_id s)), d)
      else if \<exists>x\<in>set (schedules d). sc_public_id x = sc_public_id s
        then (Inl (duplicate_key ''schedules'' ''schedules_public_id_uq'' ''public_id'' (sc_public_id s)), d)
      else if \<not> (\<exists>e\<in>set (event_types d). et_id e = sc_event_type_id s) then (Inl (missing_reference ''schedules'' ''schedules_event_type_id_fkey''), d)
      else (Inr (), d\<lparr>schedules := schedules d @ [s]\<rparr>))"

definition insert_schedule_endpoint :: "uuid \<Rightarrow> uuid \<Rightarrow> db \<Rightarrow> (sqlx_error + unit) \<times> db" where
  "insert_schedule_endpoint sid eid d =
     (if (sid, eid) \<in> set (schedule_endpoints d)
        then (Inl (duplicate_key ''schedule_endpoints'' ''schedule_endpoints_pk'' ''schedule_id, endpoint_id'' (sid @ '', '' @ eid)), d)
      else if \<not> (\<exists>e\<in>set (endpoints d). ep_id e = eid) then (Inl (missing_reference ''schedule_endpoints'' ''schedule_endpoints_endpoint_id_fkey''), d)
      else (Inr (), d\<lparr>schedule_endpoints := schedule_endpoints d @ [(sid, eid)]\<rparr>))"

text \<open>The loop over the endpoints inside the transaction.\<close>

fun tx_insert_endpoints :: "uuid \<Rightarrow> uuid list \<Rightarrow> db \<Rightarrow> (sqlx_error + db) io" where
  "tx_insert_endpoints sid [] d = State_Monad.return (Inr d)"
| "tx_insert_endpoints sid (e # es) d = try_bind (tx_statement (\<lambda>_. insert_schedule_endpoint sid e) d) (\<lambda>(_, d'). tx_insert_endpoints sid es d')"

definition create_schedule_row :: "idgen \<Rightarrow> create_schedule_request \<Rightarrow> uuid \<Rightarrow> uuid \<Rightarrow> uuid \<Rightarrow> uuid \<Rightarrow> uuid list \<Rightarrow> string \<Rightarrow> time \<Rightarrow> int \<Rightarrow>
    string option \<Rightarrow> string option \<Rightarrow> request_context \<Rightarrow> (app_error + schedule_view) io" where
  "create_schedule_row G req application_id tenant_id org_id event_type_id endpoint_ids tz next_run_at assigned_shard key hash ctx = do {
     n \<leftarrow> fresh;
     let i = uuid_of G n;
     nano \<leftarrow> nano_id_new G;
     let public_id = ''sch_'' @ nano;
     let row = (\<lambda>t. \<lparr>sc_id = i, sc_public_id = public_id, sc_name = cq_name req, sc_description = cq_description req,
         sc_application_id = Some application_id, sc_tenant_id = tenant_id, sc_org_id = org_id, sc_event_type_id = event_type_id,
         sc_payload = cq_payload req, sc_cron = cq_cron_expression req, sc_timezone = tz, sc_status = ''active'',
         sc_next_run_at = Some next_run_at, sc_last_run_at = None, sc_last_run_status = None, sc_idempotency_key = key,
         sc_body_hash = hash, sc_created_by = rc_created_by ctx, sc_updated_by = rc_created_by ctx, sc_request_id = rc_request_id ctx,
         sc_version = 1, sc_created_at = t, sc_updated_at = t, sc_deleted_at = None, sc_assigned_shard = assigned_shard\<rparr>);
     try_bind (map_sqlx (try_bind tx_begin (\<lambda>d. try_bind (tx_statement (\<lambda>t. insert_schedule (row t)) d) (\<lambda>(_, d1).
         try_bind (tx_insert_endpoints i endpoint_ids d1) tx_commit))))
       (\<lambda>_. try_bind (get_full_by_id i) (\<lambda>r. State_Monad.return (case r of
            None \<Rightarrow> Inl (Internal ''schedule created but not found on fetch'') | Some v \<Rightarrow> Inr v))) }"

definition touch :: "request_context \<Rightarrow> time \<Rightarrow> schedule_row \<Rightarrow> schedule_row" where
  "touch ctx t s = s\<lparr>sc_updated_by := rc_created_by ctx, sc_request_id := rc_request_id ctx, sc_version := sc_version s + 1, sc_updated_at := t\<rparr>"

definition apply_update :: "update_schedule_request \<Rightarrow> time option \<Rightarrow> request_context \<Rightarrow> time \<Rightarrow> schedule_row \<Rightarrow> schedule_row" where
  "apply_update req next_run_at ctx t s = touch ctx t (s\<lparr>sc_name := coalesce (uq_name req) (sc_name s),
     sc_description := (case uq_description req of None \<Rightarrow> sc_description s | Some x \<Rightarrow> Some x), sc_payload := coalesce (uq_payload req) (sc_payload s),
     sc_cron := coalesce (uq_cron_expression req) (sc_cron s), sc_timezone := coalesce (uq_timezone req) (sc_timezone s),
     sc_next_run_at := (case next_run_at of None \<Rightarrow> sc_next_run_at s | Some r \<Rightarrow> Some r)\<rparr>)"

text \<open>\<open>UPDATE schedules SET ... WHERE ... RETURNING\<close>: the rows before the update that matched.\<close>

definition update_schedules :: "(schedule_row \<Rightarrow> bool) \<Rightarrow> (schedule_row \<Rightarrow> schedule_row) \<Rightarrow> db \<Rightarrow> schedule_row list \<times> db" where
  "update_schedules p f d = (filter p (schedules d), d\<lparr>schedules := update_where p f (schedules d)\<rparr>)"

definition live_named :: "string \<Rightarrow> schedule_row \<Rightarrow> bool" where
  "live_named public_id s \<longleftrightarrow> sc_public_id s = public_id \<and> sc_deleted_at s = None"

definition update_schedule_row :: "string \<Rightarrow> update_schedule_request \<Rightarrow> uuid list option \<Rightarrow> time option \<Rightarrow> request_context \<Rightarrow>
    (app_error + schedule_view option) io" where
  "update_schedule_row public_id req endpoint_ids next_run_at ctx =
     try_bind (map_sqlx (try_bind tx_begin (\<lambda>d.
       try_bind (tx_statement (\<lambda>t d. case update_schedules (live_named public_id) (apply_update req next_run_at ctx t) d of
           (rows, d') \<Rightarrow> (Inr (map_option sc_id (first_row rows)), d')) d) (\<lambda>(updated, d1). case updated of
           None \<Rightarrow> try_bind (query (\<lambda>_ _. ())) (\<lambda>_. State_Monad.return (Inr None))
         | Some i \<Rightarrow> (case endpoint_ids of
             None \<Rightarrow> try_bind (tx_commit d1) (\<lambda>_. State_Monad.return (Inr (Some i)))
           | Some ids \<Rightarrow> try_bind (tx_statement (\<lambda>_ d. (Inr (), d\<lparr>schedule_endpoints := filter (\<lambda>p. fst p \<noteq> i) (schedule_endpoints d)\<rparr>)) d1) (\<lambda>(_, d2).
               try_bind (tx_insert_endpoints i ids d2) (\<lambda>d3. try_bind (tx_commit d3) (\<lambda>_. State_Monad.return (Inr (Some i))))))))))
       (\<lambda>r. case r of None \<Rightarrow> State_Monad.return (Inr None) | Some i \<Rightarrow> get_full_by_id i)"

definition delete_schedule_row :: "string \<Rightarrow> request_context \<Rightarrow> (app_error + (uuid \<times> int) option) io" where
  "delete_schedule_row public_id ctx = map_sqlx (statement (\<lambda>t d.
     case update_schedules (live_named public_id) (\<lambda>s. touch ctx t (s\<lparr>sc_deleted_at := Some t\<rparr>)) d of
       (rows, d') \<Rightarrow> (Inr (map_option (\<lambda>s. (sc_id s, sc_assigned_shard s)) (first_row rows)), d')))"

definition restore_schedule_row :: "string \<Rightarrow> request_context \<Rightarrow> (app_error + schedule_view option) io" where
  "restore_schedule_row public_id ctx = try_bind (map_sqlx (statement (\<lambda>t d.
     case update_schedules (\<lambda>s. sc_public_id s = public_id) (\<lambda>s. touch ctx t (s\<lparr>sc_deleted_at := None, sc_status := ''active''\<rparr>)) d of
       (rows, d') \<Rightarrow> (Inr (map_option sc_id (first_row rows)), d'))))
     (\<lambda>r. case r of None \<Rightarrow> State_Monad.return (Inr None) | Some i \<Rightarrow> get_full_by_id i)"

definition set_schedule_status :: "string \<Rightarrow> string \<Rightarrow> request_context \<Rightarrow> (app_error + schedule_view option) io" where
  "set_schedule_status public_id status ctx = try_bind (map_sqlx (statement (\<lambda>t d.
     case update_schedules (live_named public_id) (\<lambda>s. touch ctx t (s\<lparr>sc_status := status\<rparr>)) d of
       (rows, d') \<Rightarrow> (Inr (map_option sc_id (first_row rows)), d'))))
     (\<lambda>r. case r of None \<Rightarrow> State_Monad.return (Inr None) | Some i \<Rightarrow> get_full_by_id i)"

definition list_schedule_rows :: "nat \<Rightarrow> uuid option \<Rightarrow> uuid \<Rightarrow> uuid \<Rightarrow> string option \<Rightarrow> (app_error + schedule_view list \<times> uuid option) io" where
  "list_schedule_rows limit cursor org_id tenant_id status = map_sqlx (query (\<lambda>_ d.
     cut_page (sc_id \<circ> sw_row) limit (sort_key (sc_id \<circ> sw_row) (select_schedules (\<lambda>s. sc_deleted_at s = None \<and>
       (case cursor of None \<Rightarrow> True | Some c \<Rightarrow> c < sc_id s) \<and> sc_org_id s = org_id \<and> sc_tenant_id s = tenant_id \<and>
       (case status of None \<Rightarrow> True | Some st \<Rightarrow> sc_status s = st)) d))))"

definition insert_execution :: "execution_row \<Rightarrow> db \<Rightarrow> (sqlx_error + unit) \<times> db" where
  "insert_execution x d =
     (if \<exists>y\<in>set (schedule_executions d). sx_id y = sx_id x then (Inl (duplicate_key ''schedule_executions'' ''schedule_executions_pk'' ''id'' (sx_id x)), d)
      else if \<exists>y\<in>set (schedule_executions d). sx_public_id y = sx_public_id x
        then (Inl (duplicate_key ''schedule_executions'' ''schedule_executions_public_id_uq'' ''public_id'' (sx_public_id x)), d)
      else if sx_status x \<notin> set (execution_statuses d)
        then (Inl (DatabaseErr (Some ''23514'') (Some ''schedule_executions_status_valid'') (Some ''schedule_executions'') None), d)
      else if \<not> (\<exists>s\<in>set (schedules d). sc_id s = sx_schedule_id x)
        then (Inl (missing_reference ''schedule_executions'' ''schedule_executions_schedule_id_fkey''), d)
      else (Inr (), d\<lparr>schedule_executions := schedule_executions d @ [x]\<rparr>))"

text \<open>An execution joined with the public id of its schedule.\<close>

definition view_execution :: "db \<Rightarrow> execution_row \<Rightarrow> (execution_row \<times> string) option" where
  "view_execution d x = map_option (\<lambda>s. (x, sc_public_id s)) (find (\<lambda>s. sc_id s = sx_schedule_id x) (schedules d))"

definition create_execution :: "idgen \<Rightarrow> uuid \<Rightarrow> uuid \<Rightarrow> uuid \<Rightarrow> time \<Rightarrow> (app_error + execution_row \<times> string) io" where
  "create_execution G schedule_id tenant_id org_id triggered_at = do {
     n \<leftarrow> fresh;
     nano \<leftarrow> nano_id_new G;
     try_bind (map_sqlx (statement (\<lambda>t. insert_execution \<lparr>sx_id = uuid_of G n, sx_public_id = ''sxe_'' @ nano, sx_schedule_id = schedule_id,
         sx_tenant_id = tenant_id, sx_org_id = org_id, sx_status = ''pending'', sx_triggered_at = triggered_at, sx_created_at = t\<rparr>)))
       (\<lambda>_. map_sqlx (statement (\<lambda>_ d. (case first_row (List.map_filter (view_execution d) (filter (\<lambda>x. sx_id x = uuid_of G n) (schedule_executions d))) of
            None \<Rightarrow> Inl RowNotFound | Some v \<Rightarrow> Inr v, d)))) }"

definition list_execution_rows :: "uuid \<Rightarrow> nat \<Rightarrow> uuid option \<Rightarrow> (app_error + (execution_row \<times> string) list \<times> uuid option) io" where
  "list_execution_rows schedule_id limit cursor = map_sqlx (query (\<lambda>_ d.
     cut_page (sx_id \<circ> fst) limit (rev (sort_key (sx_id \<circ> fst) (List.map_filter (view_execution d) (filter (\<lambda>x.
       sx_schedule_id x = schedule_id \<and> (case cursor of None \<Rightarrow> True | Some c \<Rightarrow> sx_id x < c)) (schedule_executions d)))))))"

definition get_execution_row :: "string \<Rightarrow> string \<Rightarrow> (app_error + (execution_row \<times> string) option) io" where
  "get_execution_row schedule_public_id exec_public_id = map_sqlx (query (\<lambda>_ d. first_row (filter (\<lambda>v. snd v = schedule_public_id)
     (List.map_filter (view_execution d) (filter (\<lambda>x. sx_public_id x = exec_public_id) (schedule_executions d))))))"

end
