(* ===== verification/Schedule_Service.thy ===== *)
theory Schedule_Service
  imports Schedules
begin

text \<open>
  The operations on schedules (\<open>src/features/schedules/service.rs\<close>, \<open>handlers.rs\<close>): each writes the
  tables first and then updates the Redis sorted sets, ignoring what fails there. Three sets are
  involved: \<open>sched:routing\<close> counts the schedules of each shard, \<open>sched:pending:<shard>\<close> orders the
  schedules of a shard by their next run, and \<open>sched:shards\<close> is the set of shards the scheduler
  looks at, scored by the last change.
\<close>

section \<open>Sorted sets\<close>

definition ROUTING_KEY :: string where "ROUTING_KEY = ''sched:routing''"
definition SHARDS_KEY :: string where "SHARDS_KEY = ''sched:shards''"

definition pending_key :: "int \<Rightarrow> string" where
  "pending_key shard = ''sched:pending:'' @ show_int shard"

text \<open>A best-effort command: connect, send, ignore the outcome.\<close>

definition best_effort :: "(time \<Rightarrow> keyspace \<Rightarrow> keyspace) \<Rightarrow> unit io" where
  "best_effort c = do {
     r \<leftarrow> connect;
     case r of Inl _ \<Rightarrow> State_Monad.return ()
     | Inr _ \<Rightarrow> do { _ \<leftarrow> command (\<lambda>t ks. (Inr (), c t ks)); State_Monad.return () } }"

definition zadd_pending :: "redis_cmds \<Rightarrow> int \<Rightarrow> uuid \<Rightarrow> time \<Rightarrow> unit io" where
  "zadd_pending R shard schedule_id next_run_at =
     best_effort (\<lambda>_. ZADD R ZPlain (pending_key shard) (timestamp next_run_at) schedule_id)"

definition zrem_pending :: "redis_cmds \<Rightarrow> int \<Rightarrow> uuid \<Rightarrow> unit io" where
  "zrem_pending R shard schedule_id = best_effort (\<lambda>_. ZREM R (pending_key shard) schedule_id)"

definition zadd_shards :: "redis_cmds \<Rightarrow> int \<Rightarrow> unit io" where
  "zadd_shards R shard = do {
     c \<leftarrow> connect;
     case c of Inl _ \<Rightarrow> State_Monad.return ()
     | Inr _ \<Rightarrow> do {
         t \<leftarrow> now;
         _ \<leftarrow> command (\<lambda>_ ks. (Inr (), ZADD R ZGt SHARDS_KEY (timestamp_millis t) (show_int shard) ks));
         State_Monad.return () } }"

definition zincrby_routing :: "redis_cmds \<Rightarrow> int \<Rightarrow> int \<Rightarrow> unit io" where
  "zincrby_routing R shard delta = best_effort (\<lambda>_. ZINCRBY R ROUTING_KEY delta (show_int shard))"

text \<open>Put a schedule with a next run into its pending set and announce its shard.\<close>

definition announce :: "redis_cmds \<Rightarrow> schedule_row \<Rightarrow> unit io" where
  "announce R s = (case sc_next_run_at s of None \<Rightarrow> State_Monad.return ()
     | Some ts \<Rightarrow> do { _ \<leftarrow> zadd_pending R (sc_assigned_shard s) (sc_id s) ts; zadd_shards R (sc_assigned_shard s) })"

definition PICK_SHARD_LUA :: "redis_cmds \<Rightarrow> time \<Rightarrow> keyspace \<Rightarrow> string \<times> keyspace" where
  "PICK_SHARD_LUA R t ks = (case ZRANGE R ROUTING_KEY 0 0 ks of [] \<Rightarrow> (''-1'', ks)
     | shard # _ \<Rightarrow> (shard, ZINCRBY R ROUTING_KEY 1 shard ks))"

definition pick_shard :: "redis_cmds \<Rightarrow> uuid \<Rightarrow> (app_error + int) io" where
  "pick_shard R tenant_id = try_bind (get_tenant_shard_affinity tenant_id) (\<lambda>a. case a of
      Some shard \<Rightarrow> do { _ \<leftarrow> zincrby_routing R shard 1; State_Monad.return (Inr shard) }
    | None \<Rightarrow> do {
        c \<leftarrow> connect;
        case c of Inl e \<Rightarrow> State_Monad.return (Inl (Redis (err_to_string e)))
        | Inr _ \<Rightarrow> do {
            r \<leftarrow> command (\<lambda>t ks. map_prod Inr id (PICK_SHARD_LUA R t ks));
            State_Monad.return (case r of Inl e \<Rightarrow> Inl (Redis (err_to_string e))
              | Inr raw \<Rightarrow> (case parse_i16 raw of
                  None \<Rightarrow> Inl (Internal (''invalid shard id from routing set: '' @ raw))
                | Some shard \<Rightarrow> if shard < 0 then Inl (Internal ''no active scheduler shards configured'') else Inr shard)) } })"

section \<open>Creating\<close>

text \<open>Insert the schedule and announce it with the computed next run.\<close>

definition create_and_announce :: "redis_cmds \<Rightarrow> idgen \<Rightarrow> create_schedule_request \<Rightarrow> uuid \<Rightarrow> uuid \<Rightarrow> uuid list \<Rightarrow> string \<Rightarrow> time \<Rightarrow> int \<Rightarrow>
    string option \<Rightarrow> string option \<Rightarrow> request_context \<Rightarrow> (app_error + schedule_response \<times> bool) io" where
  "create_and_announce R G req application_id event_type_id endpoint_ids tz next_run_at shard key hash ctx =
     try_bind (create_schedule_row G req application_id (rc_tenant_id ctx) (rc_org_id ctx) event_type_id endpoint_ids tz next_run_at shard key hash ctx)
       (\<lambda>v. do {
          _ \<leftarrow> zadd_pending R (sc_assigned_shard (sw_row v)) (sc_id (sw_row v)) next_run_at;
          _ \<leftarrow> zadd_shards R (sc_assigned_shard (sw_row v));
          State_Monad.return (Inr (schedule_response_of v, True)) })"

definition create_schedule_idempotent :: "redis_cmds \<Rightarrow> sched_ext \<Rightarrow> idgen \<Rightarrow> create_schedule_request \<Rightarrow> uuid \<Rightarrow> uuid \<Rightarrow> uuid list \<Rightarrow> string \<Rightarrow> time \<Rightarrow>
    int \<Rightarrow> string \<Rightarrow> request_context \<Rightarrow> (app_error + schedule_response \<times> bool) io" where
  "create_schedule_idempotent R C G req application_id event_type_id endpoint_ids tz next_run_at shard key ctx =
     (let hash = body_hash_bytes (schedule_to_vec C) (sched_sha256 C) req in
      try_bind (acquire_lock R G ''schedules'' key) (\<lambda>lock_token. do {
        r \<leftarrow> find_schedule_by_idempotency_key application_id key;
        result \<leftarrow> (case r of
            Inl e \<Rightarrow> State_Monad.return (Inl e)
          | Inr found \<Rightarrow> (case found of
              Some v \<Rightarrow> State_Monad.return (if sc_body_hash (sw_row v) = Some hash then Inr (schedule_response_of v, False) else Inl key_conflict)
            | None \<Rightarrow> create_and_announce R G req application_id event_type_id endpoint_ids tz next_run_at shard (Some key) (Some hash) ctx));
        _ \<leftarrow> release_lock R ''schedules'' key lock_token;
        State_Monad.return result }))"

definition create_schedule :: "redis_cmds \<Rightarrow> sched_ext \<Rightarrow> idgen \<Rightarrow> create_schedule_request \<Rightarrow> request_context \<Rightarrow> string option \<Rightarrow>
    (app_error + schedule_response \<times> bool) io" where
  "create_schedule R C G req ctx idempotency_key = (case validate_create req of
      Inl e \<Rightarrow> State_Monad.return (Inl e)
    | Inr _ \<Rightarrow> do {
        let tz = coalesce (cq_timezone req) ''UTC'';
        t \<leftarrow> now;
        case compute_next_run_at C (cq_cron_expression req) tz t of
          Inl e \<Rightarrow> State_Monad.return (Inl e)
        | Inr next_run_at \<Rightarrow>
            try_bind (or_not_found (resolve_application (cq_application_id req)) (''Application not found: '' @ cq_application_id req)) (\<lambda>application_id.
            try_bind (resolve_event_type (cq_event_type_id req) (rc_tenant_id ctx)) (\<lambda>event_type_id.
            try_bind (resolve_endpoints (cq_endpoint_ids req) (rc_tenant_id ctx)) (\<lambda>endpoint_ids.
            try_bind (pick_shard R (rc_tenant_id ctx)) (\<lambda>shard. case idempotency_key of
                Some key \<Rightarrow> create_schedule_idempotent R C G req application_id event_type_id endpoint_ids tz next_run_at shard key ctx
              | None \<Rightarrow> create_and_announce R G req application_id event_type_id endpoint_ids tz next_run_at shard None None ctx)))) })"

section \<open>Reading and changing\<close>

definition schedule_missing :: "string \<Rightarrow> string" where
  "schedule_missing public_id = ''Schedule not found: '' @ public_id"

definition get_by_public_id :: "string \<Rightarrow> (app_error + schedule_response) io" where
  "get_by_public_id public_id = try_bind (or_not_found (get_schedule_row public_id) (schedule_missing public_id))
     (\<lambda>v. State_Monad.return (Inr (schedule_response_of v)))"

definition updated_endpoints :: "string \<Rightarrow> update_schedule_request \<Rightarrow> (app_error + uuid list option) io" where
  "updated_endpoints public_id req = (case uq_endpoint_ids req of
      None \<Rightarrow> State_Monad.return (Inr None)
    | Some ids \<Rightarrow> try_bind (or_not_found (get_schedule_row public_id) (schedule_missing public_id)) (\<lambda>current.
        try_bind (resolve_endpoints ids (sc_tenant_id (sw_row current))) (\<lambda>es. State_Monad.return (Inr (Some es)))))"

definition updated_next_run :: "sched_ext \<Rightarrow> string \<Rightarrow> update_schedule_request \<Rightarrow> (app_error + time option) io" where
  "updated_next_run C public_id req = (if uq_cron_expression req \<noteq> None \<or> uq_timezone req \<noteq> None
     then try_bind (or_not_found (get_schedule_row public_id) (schedule_missing public_id)) (\<lambda>current. do {
       t \<leftarrow> now;
       State_Monad.return (map_sum id Some (compute_next_run_at C (coalesce (uq_cron_expression req) (sc_cron (sw_row current)))
         (coalesce (uq_timezone req) (sc_timezone (sw_row current))) t)) })
     else State_Monad.return (Inr None))"

definition update_schedule :: "redis_cmds \<Rightarrow> sched_ext \<Rightarrow> string \<Rightarrow> update_schedule_request \<Rightarrow> request_context \<Rightarrow> (app_error + schedule_response) io" where
  "update_schedule R C public_id req ctx = (case validate_update req of
      Inl e \<Rightarrow> State_Monad.return (Inl e)
    | Inr _ \<Rightarrow> try_bind (updated_endpoints public_id req) (\<lambda>endpoint_ids.
        try_bind (updated_next_run C public_id req) (\<lambda>next_run_at.
        try_bind (or_not_found (update_schedule_row public_id req endpoint_ids next_run_at ctx) (schedule_missing public_id)) (\<lambda>v. do {
          _ \<leftarrow> announce R (sw_row v);
          State_Monad.return (Inr (schedule_response_of v)) }))))"

definition delete_schedule :: "redis_cmds \<Rightarrow> string \<Rightarrow> request_context \<Rightarrow> (app_error + unit) io" where
  "delete_schedule R public_id ctx = try_bind (or_not_found (delete_schedule_row public_id ctx) (schedule_missing public_id)) (\<lambda>(i, shard). do {
     _ \<leftarrow> zrem_pending R shard i;
     _ \<leftarrow> zincrby_routing R shard (- 1);
     State_Monad.return (Inr ()) })"

definition restore_schedule :: "redis_cmds \<Rightarrow> string \<Rightarrow> request_context \<Rightarrow> (app_error + schedule_response) io" where
  "restore_schedule R public_id ctx = try_bind (or_not_found (restore_schedule_row public_id ctx) (schedule_missing public_id)) (\<lambda>v. do {
     _ \<leftarrow> announce R (sw_row v);
     _ \<leftarrow> zincrby_routing R (sc_assigned_shard (sw_row v)) 1;
     State_Monad.return (Inr (schedule_response_of v)) })"

definition pause_schedule :: "redis_cmds \<Rightarrow> string \<Rightarrow> request_context \<Rightarrow> (app_error + schedule_response) io" where
  "pause_schedule R public_id ctx = try_bind (or_not_found (set_schedule_status public_id ''paused'' ctx) (schedule_missing public_id)) (\<lambda>v. do {
     _ \<leftarrow> zrem_pending R (sc_assigned_shard (sw_row v)) (sc_id (sw_row v));
     State_Monad.return (Inr (schedule_response_of v)) })"

definition resume_schedule :: "redis_cmds \<Rightarrow> string \<Rightarrow> request_context \<Rightarrow> (app_error + schedule_response) io" where
  "resume_schedule R public_id ctx = try_bind (or_not_found (set_schedule_status public_id ''active'' ctx) (schedule_missing public_id)) (\<lambda>v. do {
     _ \<leftarrow> announce R (sw_row v);
     State_Monad.return (Inr (schedule_response_of v)) })"

section \<open>Executions and listings\<close>

record execution_response =
  xo_id :: string
  xo_schedule_id :: string
  xo_tenant_id :: uuid
  xo_org_id :: uuid
  xo_status :: string
  xo_triggered_at :: time
  xo_created_at :: time

definition execution_response_of :: "execution_row \<times> string \<Rightarrow> execution_response" where
  "execution_response_of v = (case v of (x, schedule) \<Rightarrow> \<lparr>xo_id = sx_public_id x, xo_schedule_id = schedule, xo_tenant_id = sx_tenant_id x,
     xo_org_id = sx_org_id x, xo_status = sx_status x, xo_triggered_at = sx_triggered_at x, xo_created_at = sx_created_at x\<rparr>)"

definition trigger_schedule :: "idgen \<Rightarrow> string \<Rightarrow> (app_error + execution_response) io" where
  "trigger_schedule G public_id = try_bind (or_not_found (get_schedule_row public_id) (schedule_missing public_id)) (\<lambda>v. do {
     t \<leftarrow> now;
     try_bind (create_execution G (sc_id (sw_row v)) (sc_tenant_id (sw_row v)) (sc_org_id (sw_row v)) t)
       (\<lambda>x. State_Monad.return (Inr (execution_response_of x))) })"

record 'a cursor_page =
  cp_items :: "'a list"
  cp_next_cursor :: "string option"
  cp_limit :: nat

definition page_cursor :: "sched_ext \<Rightarrow> string option \<Rightarrow> app_error + uuid option" where
  "page_cursor C cursor = (case cursor of None \<Rightarrow> Inr None | Some c \<Rightarrow> map_sum id Some (decode_cursor C c))"

definition list_schedules :: "sched_ext \<Rightarrow> int option \<Rightarrow> string option \<Rightarrow> string option \<Rightarrow> request_context \<Rightarrow>
    (app_error + schedule_response cursor_page) io" where
  "list_schedules C limit cursor status ctx = (case page_cursor C cursor of
      Inl e \<Rightarrow> State_Monad.return (Inl e)
    | Inr c \<Rightarrow> try_bind (list_schedule_rows (page_limit limit) c (rc_org_id ctx) (rc_tenant_id ctx) status) (\<lambda>(rows, nxt).
        State_Monad.return (Inr \<lparr>cp_items = map schedule_response_of rows, cp_next_cursor = map_option (encode_cursor C) nxt,
          cp_limit = page_limit limit\<rparr>)))"

definition list_executions :: "sched_ext \<Rightarrow> string \<Rightarrow> int option \<Rightarrow> string option \<Rightarrow> (app_error + execution_response cursor_page) io" where
  "list_executions C public_id limit cursor =
     try_bind (or_not_found (get_schedule_id_by_public_id public_id) (schedule_missing public_id)) (\<lambda>schedule_id. case page_cursor C cursor of
        Inl e \<Rightarrow> State_Monad.return (Inl e)
      | Inr c \<Rightarrow> try_bind (list_execution_rows schedule_id (page_limit limit) c) (\<lambda>(rows, nxt).
          State_Monad.return (Inr \<lparr>cp_items = map execution_response_of rows, cp_next_cursor = map_option (encode_cursor C) nxt,
            cp_limit = page_limit limit\<rparr>)))"

definition get_execution :: "string \<Rightarrow> string \<Rightarrow> (app_error + execution_response) io" where
  "get_execution public_id exec_public_id =
     try_bind (or_not_found (get_execution_row public_id exec_public_id) (''Execution not found: '' @ exec_public_id))
       (\<lambda>x. State_Monad.return (Inr (execution_response_of x)))"

section \<open>Handlers\<close>

definition create_schedule_handler :: "redis_cmds \<Rightarrow> sched_ext \<Rightarrow> idgen \<Rightarrow> create_schedule_request \<Rightarrow> request_context \<Rightarrow> string option \<Rightarrow>
    (app_error + int \<times> schedule_response) io" where
  "create_schedule_handler R C G req ctx header = (case extract_key header of
      Inl e \<Rightarrow> State_Monad.return (Inl e)
    | Inr key \<Rightarrow> try_bind (create_schedule R C G req ctx key) (\<lambda>(s, created).
        State_Monad.return (Inr (if created then 201 else 200, s))))"

definition get_schedule_handler :: "string \<Rightarrow> (app_error + schedule_response) io" where
  "get_schedule_handler public_id = (case validate_id_prefix public_id ''sch_'' ''schedule'' of
      Inl e \<Rightarrow> State_Monad.return (Inl e) | Inr _ \<Rightarrow> get_by_public_id public_id)"

definition get_execution_handler :: "string \<Rightarrow> string \<Rightarrow> (app_error + execution_response) io" where
  "get_execution_handler public_id exec_public_id = (case validate_id_prefix public_id ''sch_'' ''schedule'' of
      Inl e \<Rightarrow> State_Monad.return (Inl e)
    | Inr _ \<Rightarrow> (case validate_id_prefix exec_public_id ''sxe_'' ''schedule execution'' of
        Inl e \<Rightarrow> State_Monad.return (Inl e) | Inr _ \<Rightarrow> get_execution public_id exec_public_id))"

end
