(* ===== verification/Deliver.thy ===== *)
theory Deliver
  imports Delivery_Repo Crypto
begin

text \<open>
  One HTTP delivery (\<open>src/worker/deliver.rs\<close>): signing, the request, and the classification of
  the answer. The HTTP client, JSON and the trace propagator are the parameter \<open>E\<close>; a call of
  the client takes some time and its answer may differ from call to call. Spans and metrics
  are left out. A panic is the value \<open>None\<close>.
\<close>

record http_config =
  hc_url :: string
  hc_method :: string
  hc_headers :: "(string \<times> string) list"

record http_request =
  rq_method :: string
  rq_url :: string
  rq_headers :: "(string \<times> string) list"
  rq_body :: string

text \<open>What \<open>send\<close> and \<open>text\<close> return: a response with its status, the value of the
  \<open>retry-after\<close> header and its body, a timeout, or another error.\<close>

datatype http_reply =
    HttpResponse (rp_status: int) (rp_retry_after: "string option") (rp_body: "string option")
  | HttpTimeout string
  | HttpError string

record worker_ext =
  wx_crypto :: crypto_ext
  wx_master_key :: string
  http_config_of :: "json \<Rightarrow> string + http_config"
  json_to_string :: "json \<Rightarrow> string + string"
  method_from_bytes :: "string \<Rightarrow> string option"
  trace_headers :: "(string \<times> string) list"
  http_send :: "nat \<Rightarrow> http_request \<Rightarrow> http_reply \<times> nat"

datatype delivery_status = Success | Failed | Timeout

fun as_str :: "delivery_status \<Rightarrow> string" where
  "as_str Success = ''success''"
| "as_str Failed = ''failed''"
| "as_str Timeout = ''timeout''"

fun is_success :: "delivery_status \<Rightarrow> bool" where
  "is_success Success = True"
| "is_success _ = False"

record delivery_result =
  dr_status :: delivery_status
  dr_http_status :: "int option"
  dr_response_body :: "string option"
  dr_latency_ms :: int
  dr_retry_after_secs :: "int option"

definition failed_before_send :: "string \<Rightarrow> delivery_result" where
  "failed_before_send body = \<lparr>dr_status = Failed, dr_http_status = None, dr_response_body = Some body,
     dr_latency_ms = 0, dr_retry_after_secs = None\<rparr>"

definition signed_content :: "string \<Rightarrow> int \<Rightarrow> string \<Rightarrow> string" where
  "signed_content event_id ts payload = event_id @ ''.'' @ show_int ts @ ''.'' @ payload"

definition sign :: "crypto_ext \<Rightarrow> string \<Rightarrow> string \<Rightarrow> int \<Rightarrow> string \<Rightarrow> string" where
  "sign X secret_plaintext event_id ts payload =
     (let encoded = trim_with [''whsec_''] secret_plaintext;
          key_bytes = (case b64url_decode X encoded of None \<Rightarrow> [] | Some k \<Rightarrow> k)
      in b64_encode X (hmac_sha256 X key_bytes (signed_content event_id ts payload)))"

text \<open>\<open>chars().take(n)\<close> on UTF-8: a continuation byte belongs to the character before it.\<close>

fun take_chars :: "nat \<Rightarrow> string \<Rightarrow> string" where
  "take_chars n [] = []"
| "take_chars n (c # s) = (if byte_in 128 191 c then c # take_chars n s
     else (case n of 0 \<Rightarrow> [] | Suc m \<Rightarrow> c # take_chars m s))"

definition count_chars :: "string \<Rightarrow> nat" where
  "count_chars s = length (filter (\<lambda>c. \<not> byte_in 128 191 c) s)"

definition latency_of :: "nat \<Rightarrow> int" where
  "latency_of elapsed = min (int (elapsed div 1000)) (2 ^ 31 - 1)"

fun classify :: "http_reply \<Rightarrow> int \<Rightarrow> delivery_result" where
  "classify (HttpResponse http_status retry_after body) latency_ms =
     \<lparr>dr_status = (if 200 \<le> http_status \<and> http_status < 300 then Success else Failed),
      dr_http_status = Some http_status,
      dr_response_body = map_option (take_chars 4096) body,
      dr_latency_ms = latency_ms,
      dr_retry_after_secs = (if http_status = 429 then Option.bind retry_after parse_u64 else None)\<rparr>"
| "classify (HttpTimeout e) latency_ms = \<lparr>dr_status = Timeout, dr_http_status = None, dr_response_body = Some e,
      dr_latency_ms = latency_ms, dr_retry_after_secs = None\<rparr>"
| "classify (HttpError e) latency_ms = \<lparr>dr_status = Failed, dr_http_status = None, dr_response_body = Some e,
      dr_latency_ms = latency_ms, dr_retry_after_secs = None\<rparr>"

definition request_of :: "worker_ext \<Rightarrow> http_config \<Rightarrow> worker_job \<Rightarrow> string \<Rightarrow> int \<Rightarrow> string \<Rightarrow> http_request" where
  "request_of E config job secret ts payload_str =
     \<lparr>rq_method = (case method_from_bytes E (hc_method config) of None \<Rightarrow> ''POST'' | Some m \<Rightarrow> m),
      rq_url = hc_url config,
      rq_headers = [(''content-type'', ''application/json''), (''webhook-id'', wj_event_public_id job),
          (''webhook-timestamp'', show_int ts),
          (''webhook-signature'', ''v1,'' @ sign (wx_crypto E) secret (wj_event_public_id job) ts payload_str)]
        @ trace_headers E @ hc_headers config,
      rq_body = payload_str\<rparr>"

text \<open>A call of the client: it takes the next call number and lets time pass.\<close>

definition send :: "worker_ext \<Rightarrow> http_request \<Rightarrow> (http_reply \<times> nat) io" where
  "send E rq = do {
     n \<leftarrow> fresh;
     case http_send E n rq of (reply, elapsed) \<Rightarrow> do {
       _ \<leftarrow> State_Monad.update (w_now_update (\<lambda>t. t + int elapsed));
       State_Monad.return (reply, elapsed) } }"

definition deliver :: "worker_ext \<Rightarrow> worker_job \<Rightarrow> delivery_result option io" where
  "deliver E job = (case http_config_of E (wj_endpoint_config job) of
      Inl e \<Rightarrow> State_Monad.return (Some (failed_before_send (''invalid endpoint config: '' @ e)))
    | Inr config \<Rightarrow> (case decrypt (wx_crypto E) (wx_master_key E) (wj_tenant_id job) (wj_encrypted_secret job) of
        None \<Rightarrow> State_Monad.return None
      | Some (Inl _) \<Rightarrow> State_Monad.return (Some (failed_before_send ''secret decryption failed''))
      | Some (Inr secret) \<Rightarrow> do {
          t \<leftarrow> now;
          case json_to_string E (wj_payload job) of
            Inl e \<Rightarrow> State_Monad.return (Some (failed_before_send (''payload serialization failed: '' @ e)))
          | Inr payload_str \<Rightarrow> do {
              (reply, elapsed) \<leftarrow> send E (request_of E config job secret (timestamp t) payload_str);
              State_Monad.return (Some (classify reply (latency_of elapsed))) } }))"

end
