(* ===== verification/Queue_Props.thy ===== *)
theory Queue_Props
  imports Queue
begin

text \<open>
  What the queue promises: the reply parsers recover exactly the messages Redis reports, and the
  scheduling set rotates fairly and never loses a stream that holds messages.
\<close>

section \<open>Parsers\<close>

lemma redis_str_BulkString_j: "redis_str (BulkString k) = Some ''j'' \<longleftrightarrow> k = ''j''"
  by (auto simp: from_utf8_def byte_in_def split: if_splits)

lemma field_j_encode [simp]: "extract_field_j (encode_fields f) = Option.bind (map_of f ''j'') from_utf8"
proof (induction f)
  case Nil
  then show ?case by (simp add: encode_fields_def)
next
  case (Cons p f)
  then show ?case
    by (cases p) (simp add: encode_fields_def redis_str_BulkString_j del: redis_str.simps(1), simp)
qed

text \<open>The job a stream entry refers to, when its field is well-formed text.\<close>

definition entry_job :: "sid \<times> fields \<Rightarrow> (string \<times> string) option" where
  "entry_job e = map_option (\<lambda>j. (sid_str (fst e), j)) (Option.bind (map_of (snd e) ''j'') from_utf8)"

lemma parse_entry_encode [simp]: "parse_entry (encode_entry e) = entry_job e"
  by (simp add: encode_entry_def entry_job_def split: option.splits)

lemma parse_entries_encode [simp]: "parse_entries (map encode_entry es) = List.map_filter entry_job es"
  by (induction es) (simp_all add: parse_entries_def List.map_filter_simps split: option.splits)

lemma parse_xread_encode [simp]: "parse_xread_reply (Array [encode_stream s es]) = List.map_filter entry_job es"
  by (simp add: parse_xread_reply_def encode_stream_def second_array_def)

lemma map_filter_map_option: "List.map_filter (\<lambda>x. map_option g (f x)) xs = map g (List.map_filter f xs)"
  by (induction xs) (simp_all add: List.map_filter_simps split: option.splits)

lemma multi_entry: "(case entry of
      Array entry_parts \<Rightarrow> (if length entry_parts < 2 then None else
        (case redis_str (entry_parts ! 0) of None \<Rightarrow> None | Some msg_id \<Rightarrow>
          (case extract_field_j (entry_parts ! 1) of None \<Rightarrow> None
           | Some job_id \<Rightarrow> Some (n, msg_id, job_id))))
    | _ \<Rightarrow> None) = map_option (Pair n) (parse_entry entry)"
  by (cases entry) (auto split: option.splits)

lemma parse_multi_stream_single:
  assumes "redis_str n = Some s"
  shows "parse_multi_stream (Array (n # m # r)) = map (Pair s) (parse_xread_reply (Array [Array (n # m # r)]))"
  using assms unfolding parse_multi_stream.simps multi_entry
  by (cases m) (simp_all add: parse_xread_reply_def second_array_def parse_entries_def map_filter_map_option)

section \<open>The scheduling set\<close>

definition scheduled :: "keyspace \<Rightarrow> string \<Rightarrow> bool" where
  "scheduled ks s \<longleftrightarrow> z_score (zsets ks STREAM_SET_KEY) s \<noteq> None"

lemma zsets_put_zset [simp]: "zsets (put_zset k z ks) j = (if j = k then z else zsets ks j)"
  by (simp add: put_zset_def)

lemma streams_put_zset [simp]: "streams (put_zset k z ks) = streams ks"
  by (simp add: put_zset_def)

lemma strs_put_zset [simp]: "strs (put_zset k z ks) = strs ks"
  by (simp add: put_zset_def)

lemma stream_of_put_zset [simp]: "stream_of (put_zset k z ks) s = stream_of ks s"
  by (simp add: stream_of_def)

lemma zsets_put_stream [simp]: "zsets (put_stream s st ks) = zsets ks"
  by (simp add: put_stream_def)

lemma streams_put_stream [simp]: "streams (put_stream s st ks) = (streams ks)(s \<mapsto> st)"
  by (simp add: put_stream_def)

lemma stream_of_put_stream [simp]: "stream_of (put_stream s st ks) x = (if x = s then st else stream_of ks x)"
  by (simp add: stream_of_def)

lemma entries_map_group [simp]: "entries (map_group g f st) = entries st"
  by (simp add: map_group_def)

lemma top_id_map_group [simp]: "top_id (map_group g f st) = top_id st"
  by (simp add: map_group_def)

lemma map_of_map_group [simp]:
  "map_of (groups (map_group g f st)) n = map_option (\<lambda>x. if n = g then f x else x) (map_of (groups st) n)"
proof -
  have "map_of (map (\<lambda>(n, x). (n, if n = g then f x else x)) xs) n
      = map_option (\<lambda>x. if n = g then f x else x) (map_of xs n)" for xs
    by (induction xs) auto
  then show ?thesis by (simp add: map_group_def)
qed

lemma z_range_first: "z_range 0 0 z = map snd (take 1 z)"
  by (simp add: z_range_def)

lemma z_range_all: "z_range 0 (- 1) z = map snd z"
  by (simp add: z_range_def)

lemma insort_append_greater:
  "\<forall>y\<in>set u. y < x \<Longrightarrow> insort (x :: 'a::linorder) (u @ c) = u @ insort x c"
  by (induction u) auto

lemma z_remove_head: "zset_ok ((s, m) # z) \<Longrightarrow> z_remove m ((s, m) # z) = z"
  by (auto simp: zset_ok_def z_remove_def intro!: filter_True)

lemma z_put_head:
  assumes "zset_ok ((s, m) # u @ c)" and "\<forall>p\<in>set u. fst p < t"
  shows "z_put t m ((s, m) # u @ c) = u @ insort (t, m) c"
  using assms z_remove_head [of s m "u @ c"] by (simp add: z_put_def insort_append_greater less_prod_def)

text \<open>Successive claims at given clock readings.\<close>

fun claim_seq :: "redis_cmds \<Rightarrow> int list \<Rightarrow> string option list io" where
  "claim_seq R [] = State_Monad.return []"
| "claim_seq R (t # ts) = do { s \<leftarrow> claim_next_stream R t; ss \<leftarrow> claim_seq R ts; State_Monad.return (s # ss) }"

context redis_zsets
begin

lemma claim_script_empty: "zsets ks STREAM_SET_KEY = [] \<Longrightarrow> claim_script R t ks = (None, ks)"
  by (simp add: claim_script_def zrange z_range_first)

lemma claim_script_head: "zsets ks STREAM_SET_KEY = (s, m) # z \<Longrightarrow>
    claim_script R t ks = (Some m, put_zset STREAM_SET_KEY (z_put t m ((s, m) # z)) ks)"
  by (simp add: claim_script_def zrange z_range_first zadd)

lemma run_claim: "no_faults w \<Longrightarrow> run_state (claim_next_stream R t) w =
    (fst (claim_script R t (w_ks w)), w\<lparr>w_ks := snd (claim_script R t (w_ks w))\<rparr>)"
  by (simp add: claim_next_stream_def run_simps case_prod_beta)

lemma claim_seq_rotates:
  assumes "no_faults w" and "zset_ok (zsets (w_ks w) STREAM_SET_KEY)"
    and "zsets (w_ks w) STREAM_SET_KEY = u @ c" and "\<forall>t\<in>set ts. \<forall>p\<in>set u. fst p < t"
    and "length ts \<le> length u"
  shows "fst (run_state (claim_seq R ts) w) = map (Some \<circ> snd) (take (length ts) u)"
  using assms
proof (induction ts arbitrary: w u c)
  case Nil
  then show ?case by (simp add: run_simps)
next
  case (Cons t ts)
  then obtain s m u' where u: "u = (s, m) # u'" by (cases u) auto
  let ?ks = "put_zset STREAM_SET_KEY (u' @ insort (t, m) c) (w_ks w)"
  have z: "z_put t m ((s, m) # u' @ c) = u' @ insort (t, m) c"
    using Cons.prems u by (intro z_put_head) auto
  have step: "claim_script R t (w_ks w) = (Some m, ?ks)"
    using claim_script_head [of "w_ks w" s m "u' @ c"] Cons.prems(3) u z by simp
  have ok: "zset_ok (u' @ insort (t, m) c)"
    using zset_ok_put [of "(s, m) # u' @ c" t m] Cons.prems(2,3) u z by simp
  have "fst (run_state (claim_seq R ts) (w\<lparr>w_ks := ?ks\<rparr>)) = map (Some \<circ> snd) (take (length ts) u')"
    using Cons.prems u ok by (intro Cons.IH) auto
  with Cons.prems(1) step u show ?case
    by (simp add: run_simps run_claim case_prod_beta)
qed

end

section \<open>No stream with messages leaves the scheduling set\<close>

definition holds_scheduled :: "world \<Rightarrow> bool" where
  "holds_scheduled w \<longleftrightarrow> zset_ok (zsets (w_ks w) STREAM_SET_KEY) \<and>
     (\<forall>s. entries (stream_of (w_ks w) s) \<noteq> [] \<longrightarrow> scheduled (w_ks w) s)"

lemma stable_holds_scheduled: "stable holds_scheduled"
  by (simp add: stable_def holds_scheduled_def)

text \<open>Commands that leave the scheduling set alone and at most drop entries.\<close>

definition shrinks :: "keyspace \<Rightarrow> keyspace \<Rightarrow> bool" where
  "shrinks ks ks' \<longleftrightarrow> zsets ks' STREAM_SET_KEY = zsets ks STREAM_SET_KEY \<and>
     (\<forall>s. set (entries (stream_of ks' s)) \<subseteq> set (entries (stream_of ks s)))"

lemma holds_scheduled_shrinks:
  "holds_scheduled w \<Longrightarrow> shrinks (w_ks w) ks' \<Longrightarrow> holds_scheduled (w\<lparr>w_ks := ks'\<rparr>)"
  unfolding holds_scheduled_def shrinks_def scheduled_def
  by simp (metis empty_iff empty_set set_empty subset_empty)

lemma shrinks_refl [simp]: "shrinks ks ks"
  by (simp add: shrinks_def)

context redis_server
begin

lemma shrinks_xack: "shrinks ks (XACK R s g i ks)"
  by (cases "streams ks s") (auto simp: shrinks_def xack xack_absent)

lemma shrinks_xtrim: "streams ks s \<noteq> None \<Longrightarrow> shrinks ks (snd (XTRIM_MINID R s (sid_str i) ks))"
proof -
  assume "streams ks s \<noteq> None"
  then obtain st where st: "streams ks s = Some st" by blast
  then obtain n where "XTRIM_MINID R s (sid_str i) ks =
      (int (min n (length (entries st))), put_stream s (st\<lparr>entries := drop n (entries st)\<rparr>) ks)"
    using xtrim by blast
  with st show ?thesis by (auto simp: shrinks_def dest: in_set_dropD)
qed

lemma holds_scheduled_claim: "holds_scheduled w \<Longrightarrow> holds_scheduled (w\<lparr>w_ks := snd (claim_script R t (w_ks w))\<rparr>)"
proof (cases "zsets (w_ks w) STREAM_SET_KEY")
  case Nil
  assume "holds_scheduled w"
  with Nil show ?thesis by (simp add: claim_script_empty)
next
  case (Cons p z)
  assume "holds_scheduled w"
  with Cons show ?thesis
    by (cases p) (auto simp: claim_script_head holds_scheduled_def scheduled_def)
qed

lemma holds_scheduled_register:
  "holds_scheduled w \<Longrightarrow> holds_scheduled (w\<lparr>w_ks := ZADD R ZNx STREAM_SET_KEY 0 s (w_ks w)\<rparr>)"
  by (auto simp: holds_scheduled_def scheduled_def zadd)

lemma holds_scheduled_remove: "holds_scheduled w \<Longrightarrow> holds_scheduled (w\<lparr>w_ks := snd (remove_script R s (w_ks w))\<rparr>)"
  by (auto simp: holds_scheduled_def scheduled_def remove_script_def zrem xlen)

lemma keeps_scheduled_claim: "keeps holds_scheduled (claim_next_stream R t)"
  unfolding claim_next_stream_def
  by (intro keeps_intros stable_holds_scheduled) (simp add: holds_scheduled_claim)

lemma keeps_scheduled_register: "keeps holds_scheduled (register_stream R s)"
  unfolding register_stream_def
  by (intro keeps_intros stable_holds_scheduled) (simp add: holds_scheduled_register)

lemma keeps_scheduled_remove: "keeps holds_scheduled (remove_stream_if_empty R s)"
  unfolding remove_stream_if_empty_def
  by (intro keeps_intros stable_holds_scheduled) (simp add: holds_scheduled_remove)

lemma keeps_scheduled_xack: "keeps holds_scheduled (Queue.xack R s i)"
  unfolding Queue.xack_def
  by (intro keeps_intros stable_holds_scheduled) (simp add: holds_scheduled_shrinks shrinks_xack)

end

section \<open>Properties\<close>

text \<open>Parsing a reply recovers the messages: for any entries Redis reports for one stream,
  \<open>parse_xread_reply\<close> returns, in order, the id and the text of field \<open>j\<close> of exactly the
  entries that have one in valid UTF-8.\<close>

theorem parse_xread_recovers_messages:
  "parse_xread_reply (Array [encode_stream s es]) =
     [(sid_str (fst e), the (map_of (snd e) ''j'')). e \<leftarrow> es,
        case map_of (snd e) ''j'' of None \<Rightarrow> False | Some j \<Rightarrow> utf8_valid j]"
  unfolding parse_xread_encode
  by (induction es) (auto simp: List.map_filter_simps entry_job_def from_utf8_def split: option.splits)



text \<open>C32. Fair rotation: with \<open>n\<close> streams registered, \<open>n\<close> claims at clock readings later than
  every recorded claim hand out every stream exactly once, in the order of the set, so no
  stream waits for more than one round.\<close>

theorem claims_rotate_through_streams:
  assumes "redis_zsets R" and "no_faults w" and "zset_ok (zsets (w_ks w) STREAM_SET_KEY)"
    and "length ts = length (zsets (w_ks w) STREAM_SET_KEY)"
    and "\<forall>t\<in>set ts. \<forall>(score, stream)\<in>set (zsets (w_ks w) STREAM_SET_KEY). score < t"
  shows "fst (run_state (claim_seq R ts) w) = map (\<lambda>(score, stream). Some stream) (zsets (w_ks w) STREAM_SET_KEY)
    \<and> distinct (fst (run_state (claim_seq R ts) w))"
proof -
  have "fst (run_state (claim_seq R ts) w) = map (Some \<circ> snd) (take (length ts) (zsets (w_ks w) STREAM_SET_KEY))"
    using assms by (intro redis_zsets.claim_seq_rotates [OF assms(1), where c = "[]"]) fastforce+
  moreover have "distinct (map (Some \<circ> snd) (zsets (w_ks w) STREAM_SET_KEY))"
    using assms(3) by (simp add: zset_ok_def distinct_map inj_on_def flip: map_map)
  ultimately show ?thesis using assms(4) by (simp add: case_prod_beta')
qed

theorem claims_rotate_through_streams_witness:
  "fst (run_state (claim_seq mem_redis [5, 5, 9]) (start_world empty_db
      (put_zset STREAM_SET_KEY [(0, ''a''), (1, ''b''), (4, ''c'')] empty_keyspace) 0))
    = [Some ''a'', Some ''b'', Some ''c'']"
proof -
  let ?w = "start_world empty_db (put_zset STREAM_SET_KEY [(0, ''a''), (1, ''b''), (4, ''c'')] empty_keyspace) 0"
  have "zset_ok [(0, ''a''), (1, ''b''), (4, ''c'')]"
    by (simp add: zset_ok_def less_prod_def)
  then show ?thesis
    using claims_rotate_through_streams [OF mem_zsets.redis_zsets_axioms, of ?w "[5, 5, 9]"] by simp
qed



end
