(* ===== verification/Queue_Trim.thy ===== *)
theory Queue_Trim
  imports Queue_Props
begin

text \<open>
  Trimming (\<open>xtrim_safe\<close>, \<open>safe_trim_id\<close>, \<open>xinfo_last_delivered\<close> of \<open>src/queue/mod.rs\<close>). The
  cut is computed by two reads and applied by a third command, with other clients free to act
  in between; the invariant \<open>protects\<close> says why the cut stays safe.
\<close>

section \<open>Well-formed streams\<close>

definition group_ok :: "sid \<Rightarrow> group \<Rightarrow> bool" where
  "group_ok t gr \<longleftrightarrow> last_delivered gr \<le> t \<and> (\<forall>p\<in>set (pel gr). pe_id p \<le> last_delivered gr)"

definition stream_ok :: "rstream \<Rightarrow> bool" where
  "stream_ok st \<longleftrightarrow> sorted_wrt (<) (map fst (entries st)) \<and> (\<forall>e\<in>set (entries st). fst e \<le> top_id st) \<and>
     (\<forall>n gr. map_of (groups st) n = Some gr \<longrightarrow> group_ok (top_id st) gr)"

lemma stream_ok_empty [simp]: "stream_ok empty_stream"
  by (simp add: stream_ok_def empty_stream_def)

lemma stream_ok_of: "(\<And>s st. streams ks s = Some st \<Longrightarrow> stream_ok st) \<Longrightarrow> stream_ok (stream_of ks s)"
  by (simp add: stream_of_def split: option.splits)

lemma group_ok_mono: "group_ok t gr \<Longrightarrow> t \<le> u \<Longrightarrow> group_ok u gr"
  by (auto simp: group_ok_def)

lemma stream_ok_xadd:
  assumes "stream_ok st" and "top_id st < i"
  shows "stream_ok (st\<lparr>entries := entries st @ [(i, f)], top_id := i\<rparr>)"
  using assms by (force simp: stream_ok_def sorted_wrt_append intro: group_ok_mono)

lemma stream_ok_map_group:
  assumes "stream_ok st" and "\<And>gr. map_of (groups st) g = Some gr \<Longrightarrow> group_ok (top_id st) gr \<Longrightarrow> group_ok (top_id st) (f gr)"
  shows "stream_ok (map_group g f st)"
  using assms by (auto simp: stream_ok_def)

lemma group_ok_deliver:
  assumes "stream_ok st" and "map_of (groups st) g = Some gr" and "es = take n (undelivered st gr)"
  shows "group_ok (top_id st) (deliver_to c t es gr)"
proof (cases "es = []")
  case True
  with assms show ?thesis by (auto simp: stream_ok_def deliver_to_def)
next
  case False
  have gr: "group_ok (top_id st) gr" using assms by (simp add: stream_ok_def)
  have sub: "set es \<subseteq> set (undelivered st gr)" using assms(3) by (auto dest: in_set_takeD)
  have "sorted_wrt (<) (map fst (undelivered st gr))"
    using assms(1) by (auto simp: stream_ok_def undelivered_def sorted_wrt_map intro: sorted_wrt_filter)
  then have srt: "sorted (map fst es)"
    unfolding assms(3) take_map [symmetric] by (intro sorted_wrt_take strict_sorted_imp_sorted)
  have last: "\<forall>e\<in>set es. fst e \<le> fst (last es)"
  proof
    fix e assume "e \<in> set es"
    then obtain k where k: "k < length es" "e = es ! k" by (metis in_set_conv_nth)
    then have "map fst es ! k \<le> map fst es ! (length es - 1)"
      using srt by (intro sorted_nth_mono) auto
    with k False show "fst e \<le> fst (last es)" by (simp add: last_conv_nth)
  qed
  have "last es \<in> set (undelivered st gr)" using sub False last_in_set by blast
  then have "fst (last es) \<le> top_id st" and "last_delivered gr < fst (last es)"
    using assms(1) by (auto simp: stream_ok_def undelivered_def)
  with gr last False show ?thesis by (fastforce simp: group_ok_def deliver_to_def)
qed

lemma group_ok_ack: "group_ok t gr \<Longrightarrow> group_ok t (ack_id i gr)"
  by (simp add: group_ok_def ack_id_def)

lemma claim_idle_ids: "pe_id ` set (pel (claim_idle c mi n t st gr)) \<subseteq> pe_id ` set (pel gr)"
proof
  fix i assume "i \<in> pe_id ` set (pel (claim_idle c mi n t st gr))"
  then obtain p where "p \<in> set (pel gr)" "i = pe_id p"
    by (auto simp: claim_idle_def Let_def split: if_splits)
  then show "i \<in> pe_id ` set (pel gr)" by blast
qed

lemma last_delivered_claim [simp]: "last_delivered (claim_idle c mi n t st gr) = last_delivered gr"
  by (simp add: claim_idle_def Let_def)

lemma group_ok_claim: "group_ok t gr \<Longrightarrow> group_ok t (claim_idle c mi n u st gr)"
  using claim_idle_ids [of c mi n u st gr] by (fastforce simp: group_ok_def)

section \<open>Steps of other clients on a stream\<close>

text \<open>What any publisher, worker or reclaimer does to the stream \<open>s\<close>.\<close>

inductive queue_step :: "redis_cmds \<Rightarrow> string \<Rightarrow> keyspace \<Rightarrow> keyspace \<Rightarrow> bool" for R s where
  publish: "queue_step R s ks (snd (XADD R s f t ks))"
| read: "0 < n \<Longrightarrow> queue_step R s ks (snd (XREADGROUP R GROUP c n [s] t ks))"
| ack: "queue_step R s ks (XACK R s GROUP i ks)"
| reclaim: "0 < n \<Longrightarrow> queue_step R s ks (snd (XAUTOCLAIM R s GROUP c mi ''0-0'' n t ks))"

inductive_cases queue_stepE: "queue_step R s ks ks'"

text \<open>A cut no pending and no undelivered message lies below.\<close>

definition protects :: "sid \<Rightarrow> string \<Rightarrow> keyspace \<Rightarrow> bool" where
  "protects i s ks \<longleftrightarrow> stream_ok (stream_of ks s) \<and> (\<exists>gr. group_of ks s GROUP = Some gr \<and>
     i \<le> last_delivered gr \<and> (\<forall>p\<in>set (pel gr). i \<le> pe_id p))"

text \<open>The messages of a stream that still matter to the worker group.\<close>

definition live_entry :: "string \<Rightarrow> keyspace \<Rightarrow> sid \<times> fields \<Rightarrow> bool" where
  "live_entry s ks e \<longleftrightarrow> e \<in> set (entries (stream_of ks s)) \<and> (\<exists>gr. group_of ks s GROUP = Some gr \<and>
     (last_delivered gr < fst e \<or> fst e \<in> pe_id ` set (pel gr)))"

text \<open>The cut: the oldest pending id, or the last delivered one when nothing is pending.\<close>

definition trim_cut :: "group \<Rightarrow> sid" where
  "trim_cut gr = (if pel gr = [] then last_delivered gr else Min (pe_id ` set (pel gr)))"

lemma group_of_Some_stream: "group_of ks s g = Some gr \<Longrightarrow> \<exists>st. streams ks s = Some st \<and> map_of (groups st) g = Some gr"
  by (auto simp: group_of_def stream_of_def empty_stream_def split: option.splits)

lemma group_of_put_stream [simp]: "group_of (put_stream s st ks) x g = (if x = s then map_of (groups st) g else group_of ks x g)"
  by (simp add: group_of_def)

context redis_streams
begin

lemma protects_xadd: "protects i s ks \<Longrightarrow> protects i s (snd (XADD R s f t ks))"
proof -
  assume p: "protects i s ks"
  obtain j where j: "top_id (stream_of ks s) < j" "XADD R s f t ks = (sid_str j,
      put_stream s ((stream_of ks s)\<lparr>entries := entries (stream_of ks s) @ [(j, f)], top_id := j\<rparr>) ks)"
    using xadd by blast
  have "stream_ok ((stream_of ks s)\<lparr>entries := entries (stream_of ks s) @ [(j, f)], top_id := j\<rparr>)"
    using p j(1) by (intro stream_ok_xadd) (auto simp: protects_def)
  with p j(2) show ?thesis by (auto simp: protects_def group_of_def)
qed

lemma protects_map_group:
  assumes "protects i s ks" and "streams ks s = Some st"
    and "\<And>gr. map_of (groups st) GROUP = Some gr \<Longrightarrow> group_ok (top_id st) gr \<Longrightarrow> group_ok (top_id st) (f gr)"
    and "\<And>gr. map_of (groups st) GROUP = Some gr \<Longrightarrow> i \<le> last_delivered gr \<Longrightarrow> \<forall>p\<in>set (pel gr). i \<le> pe_id p
      \<Longrightarrow> i \<le> last_delivered (f gr) \<and> (\<forall>p\<in>set (pel (f gr)). i \<le> pe_id p)"
  shows "protects i s (put_stream s (map_group GROUP f st) ks)"
proof -
  obtain gr where gr: "map_of (groups st) GROUP = Some gr" "i \<le> last_delivered gr" "\<forall>p\<in>set (pel gr). i \<le> pe_id p"
    using assms(1,2) by (auto simp: protects_def group_of_stream)
  have "stream_ok (map_group GROUP f st)"
    using assms(1,2) by (intro stream_ok_map_group assms(3)) (auto simp: protects_def)
  with gr assms(4) show ?thesis by (simp add: protects_def)
qed

lemma protects_read:
  assumes "protects i s ks" and "0 < n"
  shows "protects i s (snd (XREADGROUP R GROUP c n [s] t ks))"
proof -
  obtain st gr where st: "streams ks s = Some st" "map_of (groups st) GROUP = Some gr"
    using assms(1) group_of_Some_stream by (metis protects_def)
  define es where "es = take (nat n) (undelivered st gr)"
  have "snd (XREADGROUP R GROUP c n [s] t ks) = put_stream s (map_group GROUP (deliver_to c t es) st) ks"
    using xreadgroup [OF st assms(2) es_def] by simp
  moreover have "protects i s (put_stream s (map_group GROUP (deliver_to c t es) st) ks)"
  proof (rule protects_map_group [OF assms(1) st(1)])
    fix g assume g: "map_of (groups st) GROUP = Some g"
    then show "group_ok (top_id st) (deliver_to c t es g)"
      using group_ok_deliver [of st GROUP g es "nat n"] assms(1) st es_def by (simp add: protects_def)
    assume i: "i \<le> last_delivered g" "\<forall>p\<in>set (pel g). i \<le> pe_id p"
    have "\<forall>e\<in>set es. i < fst e"
      using st(2) g i es_def by (auto simp: undelivered_def dest!: in_set_takeD)
    with i show "i \<le> last_delivered (deliver_to c t es g) \<and> (\<forall>p\<in>set (pel (deliver_to c t es g)). i \<le> pe_id p)"
      using last_in_set [of es] by (auto simp: deliver_to_def intro: less_imp_le)
  qed
  ultimately show ?thesis by simp
qed

lemma protects_ack: "protects i s ks \<Longrightarrow> protects i s (XACK R s GROUP m ks)"
proof (cases "streams ks s")
  case None
  assume "protects i s ks"
  with None show ?thesis by (simp add: xack_absent)
next
  case (Some st)
  assume "protects i s ks"
  then show ?thesis using Some xack [OF Some]
    by (auto intro!: protects_map_group simp: group_ok_ack) (auto simp: ack_id_def)
qed

lemma protects_reclaim:
  assumes "protects i s ks" and "0 < n"
  shows "protects i s (snd (XAUTOCLAIM R s GROUP c mi ''0-0'' n t ks))"
proof -
  obtain st gr where st: "streams ks s = Some st" "map_of (groups st) GROUP = Some gr"
    using assms(1) group_of_Some_stream by (metis protects_def)
  have "snd (XAUTOCLAIM R s GROUP c mi ''0-0'' n t ks) = put_stream s (map_group GROUP (claim_idle c mi n t st) st) ks"
    using xautoclaim [OF st assms(2)] by (metis snd_conv)
  moreover have "protects i s (put_stream s (map_group GROUP (claim_idle c mi n t st) st) ks)"
  proof (rule protects_map_group [OF assms(1) st(1) group_ok_claim], assumption)
    fix g :: group assume i: "i \<le> last_delivered g" "\<forall>p\<in>set (pel g). i \<le> pe_id p"
    then show "i \<le> last_delivered (claim_idle c mi n t st g) \<and> (\<forall>p\<in>set (pel (claim_idle c mi n t st g)). i \<le> pe_id p)"
      using claim_idle_ids [of c mi n t st g] by fastforce
  qed
  ultimately show ?thesis by simp
qed

lemma protects_step: "queue_step R s ks ks' \<Longrightarrow> protects i s ks \<Longrightarrow> protects i s ks'"
  by (induction rule: queue_step.induct) (simp_all add: protects_xadd protects_read protects_ack protects_reclaim)

lemma protects_steps: "(queue_step R s)\<^sup>*\<^sup>* ks ks' \<Longrightarrow> protects i s ks \<Longrightarrow> protects i s ks'"
  by (induction rule: rtranclp_induct) (simp_all add: protects_step)

lemma xtrim_keeps_live:
  assumes "protects i s ks" and "live_entry s ks e"
  shows "live_entry s (snd (XTRIM_MINID R s (sid_str i) ks)) e"
proof -
  obtain st gr where st: "streams ks s = Some st" "map_of (groups st) GROUP = Some gr"
    and i: "i \<le> last_delivered gr" "\<forall>p\<in>set (pel gr). i \<le> pe_id p"
    using assms(1) group_of_Some_stream by (auto simp: protects_def) metis
  obtain n where n: "\<forall>e\<in>set (take n (entries st)). fst e < i"
    "XTRIM_MINID R s (sid_str i) ks = (int (min n (length (entries st))), put_stream s (st\<lparr>entries := drop n (entries st)\<rparr>) ks)"
    using xtrim [OF st(1)] by blast
  have e: "e \<in> set (entries st)" "last_delivered gr < fst e \<or> fst e \<in> pe_id ` set (pel gr)"
    using assms(2) st by (auto simp: live_entry_def group_of_stream)
  then have "\<not> fst e < i" using i by auto
  then have "e \<in> set (drop n (entries st))"
    using e(1) n(1) by (metis Un_iff append_take_drop_id set_append)
  with e(2) n(2) st show ?thesis by (simp add: live_entry_def)
qed

section \<open>The cut the code computes\<close>

lemma group_loop_rest:
  "\<forall>(k, x)\<in>set rest. k \<noteq> ''name'' \<and> k \<noteq> ''last-delivered-id'' \<Longrightarrow>
    group_loop (concat (map (\<lambda>(k, v). [BulkString k, v]) rest)) b l = (b, l)"
  by (induction rest arbitrary: b l) (auto simp: from_utf8_def)

lemma group_loop_encode:
  assumes "group_info (n, gr) v"
  shows "\<exists>f. v = Array f \<and> group_loop f False None = (from_utf8 n = Some GROUP, Some (sid_str (last_delivered gr)))"
  using assms by (auto simp: group_info_def encode_group_def group_loop_rest byte_in_def)

lemma find_workers_encode:
  assumes "list_all2 group_info gs vs"
  shows "find_workers vs = map_option (\<lambda>gr. sid_str (last_delivered gr)) (map_of gs GROUP)"
  using assms
proof (induction rule: list_all2_induct)
  case Nil
  then show ?case by simp
next
  case (Cons g gs v vs)
  obtain n gr where g: "g = (n, gr)" by (cases g)
  have "from_utf8 n = Some GROUP \<longleftrightarrow> n = GROUP"
    by (auto simp: from_utf8_def GROUP_def byte_in_def)
  with Cons group_loop_encode [of n gr v] g show ?case by auto
qed

lemma protects_trim_cut:
  assumes "group_of ks s GROUP = Some gr" and "stream_ok (stream_of ks s)"
  shows "protects (trim_cut gr) s ks"
proof -
  have "group_ok (top_id (stream_of ks s)) gr"
    using assms by (simp add: stream_ok_def group_of_def)
  moreover have "\<forall>p\<in>set (pel gr). trim_cut gr \<le> pe_id p"
    by (auto simp: trim_cut_def)
  moreover have "trim_cut gr \<le> last_delivered gr"
    using \<open>group_ok _ gr\<close> by (auto simp: trim_cut_def group_ok_def neq_Nil_conv Min_le_iff)
  ultimately show ?thesis using assms by (simp add: protects_def)
qed

lemma run_safe_trim_id:
  assumes "no_faults w" and "group_of (w_ks w) s GROUP = Some gr"
  shows "run_state (safe_trim_id R s) w = (Some (sid_str (trim_cut gr)), w)"
proof (cases "pel gr = []")
  case True
  obtain st where st: "streams (w_ks w) s = Some st" "map_of (groups st) GROUP = Some gr"
    using assms(2) group_of_Some_stream by blast
  obtain vs where "XINFO_GROUPS R s (w_ks w) = Inr (Array vs)" "list_all2 group_info (groups st) vs"
    using xinfo_groups [OF st(1)] by blast
  with True assms st show ?thesis
    by (simp add: safe_trim_id_def xinfo_last_delivered_def run_simps xpending_none find_workers_encode trim_cut_def)
next
  case False
  then obtain cs where "XPENDING R s GROUP (w_ks w) =
      Inr (Array [Int_V (int (length (pel gr))), BulkString (sid_str (Min (pe_id ` set (pel gr)))),
        BulkString (sid_str (Max (pe_id ` set (pel gr)))), cs])"
    using xpending_some assms(2) by blast
  with False assms(1) show ?thesis
    by (simp add: safe_trim_id_def run_simps trim_cut_def)
qed

lemma run_safe_trim_id_nogroup:
  assumes "no_faults w" and "group_of (w_ks w) s GROUP = None"
  shows "run_state (safe_trim_id R s) w = (None, w)"
  using xpending_nogroup [OF assms(2)] assms(1) by (auto simp: safe_trim_id_def run_simps)

lemma command_read:
  "run_state (command (\<lambda>_ ks. (f ks, ks))) w =
    (case w_outcomes w of [] \<Rightarrow> (f (w_ks w), w) | Served # xs \<Rightarrow> (f (w_ks w), w\<lparr>w_outcomes := xs\<rparr>)
      | Refused e # xs \<Rightarrow> (Inl (RedisError e), w\<lparr>w_outcomes := xs\<rparr>)
      | Lost e # xs \<Rightarrow> (Inl (RedisError e), w\<lparr>w_outcomes := xs\<rparr>))"
  by (simp add: command_def run_simps split: list.splits outcome.splits)

lemma xinfo_cases:
  assumes "group_of (w_ks w) s GROUP = Some gr" and "run_state (xinfo_last_delivered R s) w = (r, w')"
  shows "w_ks w' = w_ks w \<and> (r = None \<or> r = Some (sid_str (last_delivered gr)))"
proof -
  obtain st where st: "streams (w_ks w) s = Some st" "map_of (groups st) GROUP = Some gr"
    using assms(1) group_of_Some_stream by blast
  obtain vs where "XINFO_GROUPS R s (w_ks w) = Inr (Array vs)" "list_all2 group_info (groups st) vs"
    using xinfo_groups [OF st(1)] by blast
  with st assms(2) show ?thesis
    by (auto simp: xinfo_last_delivered_def run_simps command_read find_workers_encode
        split: list.splits outcome.splits)
qed

lemma safe_trim_id_cases:
  assumes "run_state (safe_trim_id R s) w = (r, w')"
  shows "w_ks w' = w_ks w \<and> (r = None \<or> (\<exists>gr. group_of (w_ks w) s GROUP = Some gr \<and> r = Some (sid_str (trim_cut gr))))"
proof (cases "group_of (w_ks w) s GROUP")
  case None
  then show ?thesis using assms xpending_nogroup [OF None]
    by (auto simp: safe_trim_id_def run_simps command_read split: list.splits outcome.splits)
next
  case (Some gr)
  show ?thesis
  proof (cases "pel gr = []")
    case True
    obtain w0 where w0: "w_ks w0 = w_ks w" "run_state (xinfo_last_delivered R s) w0 = (r, w') \<or> (r = None \<and> w' = w0)"
      using assms True Some xpending_none [OF Some True]
      by (auto simp: safe_trim_id_def run_simps command_read split: list.splits outcome.splits)
        (metis select_convs(2) surjective update_convs(4))+
    with xinfo_cases [of w0 s gr r w'] Some True show ?thesis by (auto simp: trim_cut_def)
  next
    case False
    then show ?thesis using assms Some xpending_some [OF Some False]
      by (auto simp: safe_trim_id_def run_simps command_read trim_cut_def split: list.splits outcome.splits)
  qed
qed

lemma command_effect:
  "run_state (command (\<lambda>_ ks. map_prod Inr id (f ks))) w = (r, w') \<Longrightarrow> w_ks w' = w_ks w \<or> w_ks w' = snd (f (w_ks w))"
  by (auto simp: command_def run_simps case_prod_beta split: list.splits outcome.splits)

lemma xtrim_safe_effect:
  "w_ks (snd (run_state (xtrim_safe R s) w)) = w_ks w \<or>
    (\<exists>gr. group_of (w_ks w) s GROUP = Some gr \<and>
      w_ks (snd (run_state (xtrim_safe R s) w)) = snd (XTRIM_MINID R s (sid_str (trim_cut gr)) (w_ks w)))"
proof -
  obtain c w1 where c: "run_state connect w = (c, w1)" by fastforce
  then have w1: "w_ks w1 = w_ks w" by (auto simp: connect_def run_simps split: list.splits)
  obtain r w2 where r: "run_state (safe_trim_id R s) w1 = (r, w2)" by fastforce
  obtain x w3 where x: "run_state (command (\<lambda>_ ks. map_prod Inr id (XTRIM_MINID R s (the r) ks))) w2 = (x, w3)"
    by fastforce
  show ?thesis
    using c w1 r safe_trim_id_cases [OF r] x command_effect [OF x]
    by (cases c; cases r) (auto simp: xtrim_safe_def run_simps)
qed

lemma run_xtrim_safe:
  assumes "no_faults w" and "group_of (w_ks w) s GROUP = Some gr"
  shows "run_state (xtrim_safe R s) w = ((), w\<lparr>w_ks := (if trim_cut gr = (0, 0) then w_ks w
    else snd (XTRIM_MINID R s (sid_str (trim_cut gr)) (w_ks w)))\<rparr>)"
  using assms sid_str_inj [of "trim_cut gr" "(0, 0)"]
  by (simp add: xtrim_safe_def run_simps run_safe_trim_id sid_str_zero case_prod_beta del: sid_str_inj)

end

context redis_server
begin

lemma run_remove_stream:
  "no_faults w \<Longrightarrow> run_state (remove_stream_if_empty R s) w =
    (fst (remove_script R s (w_ks w)) = 1, w\<lparr>w_ks := snd (remove_script R s (w_ks w))\<rparr>)"
  by (simp add: remove_stream_if_empty_def run_simps case_prod_beta)

lemma drained_stays:
  assumes "no_faults w" and "group_of (w_ks w) s GROUP = Some gr" and "pel gr = []"
    and "(last_delivered gr, f) \<in> set (entries (stream_of (w_ks w) s))" and "scheduled (w_ks w) s"
  shows "case run_state (do { _ \<leftarrow> xtrim_safe R s; remove_stream_if_empty R s }) w of
    (removed, w') \<Rightarrow> \<not> removed \<and> scheduled (w_ks w') s"
proof -
  define w1 where "w1 = snd (run_state (xtrim_safe R s) w)"
  obtain st where st: "streams (w_ks w) s = Some st" using assms(2) group_of_Some_stream by blast
  obtain n where n: "\<forall>e\<in>set (take n (entries st)). fst e < last_delivered gr"
    "snd (XTRIM_MINID R s (sid_str (last_delivered gr)) (w_ks w)) = put_stream s (st\<lparr>entries := drop n (entries st)\<rparr>) (w_ks w)"
    using xtrim [OF st, of "last_delivered gr"] by auto
  have "(last_delivered gr, f) \<in> set (drop n (entries st))"
    using assms(4) n(1) st by (metis Un_iff append_take_drop_id fst_conv less_irrefl set_append stream_of_Some)
  then have "entries (stream_of (w_ks w1) s) \<noteq> []" and "no_faults w1" and "scheduled (w_ks w1) s"
    using assms st n(2) run_xtrim_safe [OF assms(1,2)]
    by (auto simp: w1_def trim_cut_def scheduled_def)
  then show ?thesis
    by (simp add: run_simps case_prod_beta w1_def [symmetric] run_remove_stream remove_script_def xlen)
qed

end

section \<open>Properties\<close>

text \<open>C27. Trimming never loses a message: whatever pattern of Redis failures occurs,
  \<open>xtrim_safe\<close> leaves every message of the stream that is pending or not yet delivered to the
  worker group in place.\<close>

theorem xtrim_safe_keeps_live_messages:
  assumes "redis_streams R" and "stream_ok (stream_of (w_ks w) s)" and "live_entry s (w_ks w) e"
  shows "live_entry s (w_ks (snd (run_state (xtrim_safe R s) w))) e"
  using redis_streams.xtrim_safe_effect [OF assms(1), of s w]
proof (elim disjE exE conjE)
  fix gr assume gr: "group_of (w_ks w) s GROUP = Some gr"
    and eff: "w_ks (snd (run_state (xtrim_safe R s) w)) = snd (XTRIM_MINID R s (sid_str (trim_cut gr)) (w_ks w))"
  show ?thesis
    unfolding eff using redis_streams.protects_trim_cut [OF assms(1) gr assms(2)] assms(3)
    by (rule redis_streams.xtrim_keeps_live [OF assms(1)])
qed (simp add: assms(3))

text \<open>A stream with one acknowledged, one pending and one undelivered message.\<close>

definition sample_stream :: rstream where
  "sample_stream = \<lparr>entries = [((1, 0), [(''j'', ''a'')]), ((2, 0), [(''j'', ''b'')]), ((3, 0), [(''j'', ''c'')])],
     top_id = (3, 0), groups = [(GROUP, \<lparr>last_delivered = (2, 0),
       pel = [\<lparr>pe_id = (2, 0), pe_consumer = ''w'', pe_since = 0\<rparr>]\<rparr>)]\<rparr>"

definition sample_keyspace :: keyspace where
  "sample_keyspace = put_stream STREAM_DEFAULT sample_stream
     (put_zset STREAM_SET_KEY [(0, STREAM_DEFAULT)] empty_keyspace)"

lemma sample_stream_ok: "stream_ok sample_stream"
  by (simp add: stream_ok_def sample_stream_def group_ok_def less_prod_def less_eq_prod_def)

lemma sample_live:
  "live_entry STREAM_DEFAULT sample_keyspace ((2, 0), [(''j'', ''b'')])"
  "live_entry STREAM_DEFAULT sample_keyspace ((3, 0), [(''j'', ''c'')])"
  by (simp_all add: live_entry_def sample_keyspace_def sample_stream_def less_prod_def)

theorem xtrim_safe_keeps_live_messages_witness:
  "live_entry STREAM_DEFAULT (w_ks (snd (run_state (xtrim_safe mem_redis STREAM_DEFAULT)
     (start_world empty_db sample_keyspace 0)))) ((3, 0), [(''j'', ''c'')])"
  by (rule xtrim_safe_keeps_live_messages [OF mem_streams.redis_streams_axioms])
    (simp_all add: sample_live, simp add: sample_keyspace_def sample_stream_ok)

text \<open>C28. The cut stays safe under interleaving: after the worker has computed it, any number
  of publications, reads, acknowledgements and reclaims by other clients may happen before the
  trim, and the trim still removes no pending and no undelivered message.\<close>

theorem trim_cut_safe_under_interleaving:
  assumes "redis_streams R" and "stream_ok (stream_of (w_ks w) s)"
    and "run_state (safe_trim_id R s) w = (Some i, w')"
    and "(queue_step R s)\<^sup>*\<^sup>* (w_ks w') ks" and "live_entry s ks e"
  shows "live_entry s (snd (XTRIM_MINID R s i ks)) e"
proof -
  obtain gr where gr: "group_of (w_ks w) s GROUP = Some gr" "i = sid_str (trim_cut gr)" "w_ks w' = w_ks w"
    using redis_streams.safe_trim_id_cases [OF assms(1,3)] by auto
  have "protects (trim_cut gr) s ks"
    using redis_streams.protects_steps [OF assms(1,4)] redis_streams.protects_trim_cut [OF assms(1) gr(1) assms(2)] gr(3)
    by simp
  with gr(2) assms(5) show ?thesis by (simp add: redis_streams.xtrim_keeps_live [OF assms(1)])
qed

theorem trim_cut_safe_under_interleaving_witness:
  "live_entry STREAM_DEFAULT (snd (XTRIM_MINID mem_redis STREAM_DEFAULT (sid_str (2, 0)) sample_keyspace))
     ((2, 0), [(''j'', ''b'')])"
proof (rule trim_cut_safe_under_interleaving [OF mem_streams.redis_streams_axioms])
  let ?w = "start_world empty_db sample_keyspace 0"
  show "stream_ok (stream_of (w_ks ?w) STREAM_DEFAULT)"
    by (simp add: sample_keyspace_def sample_stream_ok)
  show "run_state (safe_trim_id mem_redis STREAM_DEFAULT) ?w = (Some (sid_str (2, 0)), ?w)"
    using mem_streams.run_safe_trim_id [of ?w STREAM_DEFAULT "\<lparr>last_delivered = (2, 0),
       pel = [\<lparr>pe_id = (2, 0), pe_consumer = ''w'', pe_since = 0\<rparr>]\<rparr>"]
    by (simp add: sample_keyspace_def sample_stream_def trim_cut_def)
  show "(queue_step mem_redis STREAM_DEFAULT)\<^sup>*\<^sup>* (w_ks ?w) sample_keyspace" by simp
qed (rule sample_live)

text \<open>A drained stream never leaves the scheduling set. Once every message is delivered and
  acknowledged, trimming keeps the last delivered entry and the removal script sees a stream of
  positive length, so \<open>remove_stream_if_empty\<close> answers false and the stream stays scheduled:
  the idle sleep of the consumer loop is never reached for it.\<close>

theorem drained_stream_stays_scheduled:
  assumes "redis_server R" and "no_faults w" and "group_of (w_ks w) s GROUP = Some gr" and "pel gr = []"
    and "(last_delivered gr, f) \<in> set (entries (stream_of (w_ks w) s))" and "scheduled (w_ks w) s"
  shows "case run_state (do { _ \<leftarrow> xtrim_safe R s; remove_stream_if_empty R s }) w of
    (removed, w') \<Rightarrow> \<not> removed \<and> scheduled (w_ks w') s"
  using redis_server.drained_stays [OF assms] .

definition drained_stream :: rstream where
  "drained_stream = \<lparr>entries = [((1, 0), [(''j'', ''a'')])], top_id = (1, 0),
     groups = [(GROUP, \<lparr>last_delivered = (1, 0), pel = []\<rparr>)]\<rparr>"

definition drained_keyspace :: keyspace where
  "drained_keyspace = put_stream STREAM_DEFAULT drained_stream
     (put_zset STREAM_SET_KEY [(0, STREAM_DEFAULT)] empty_keyspace)"

theorem drained_stream_stays_scheduled_witness:
  "case run_state (do { _ \<leftarrow> xtrim_safe mem_redis STREAM_DEFAULT; remove_stream_if_empty mem_redis STREAM_DEFAULT })
      (start_world empty_db drained_keyspace 0) of (removed, w') \<Rightarrow> \<not> removed \<and> scheduled (w_ks w') STREAM_DEFAULT"
  by (rule drained_stream_stays_scheduled [OF mem_server.redis_server_axioms,
        where gr = "\<lparr>last_delivered = (1, 0), pel = []\<rparr>" and f = "[(''j'', ''a'')]"])
    (simp_all add: drained_keyspace_def drained_stream_def scheduled_def z_score_def)

end
