(* ===== verification/Consumer.thy ===== *)
theory Consumer
  imports Deliver Rate_Limit Queue_Trim
begin

text \<open>
  The delivery worker (\<open>src/worker/\<close>): the processing of one message, an iteration of the
  consumer loop, the outbox, reclaim and trim loops, and the startup of the binary. A task of
  the worker either finishes or panics.
\<close>

section \<open>Configuration\<close>

record worker_config =
  num_workers :: nat
  batch_size :: int
  consumer_name :: string
  reclaim_idle_ms :: int
  outbox_interval :: time
  delivery_timeout :: time
  max_inflight :: nat
  trim_interval_secs :: int
  poll_interval_ms :: int
  cb_failure_threshold :: int
  cb_window_secs :: int
  cb_cooldown_secs :: int

text \<open>\<open>parse_env\<close>: the parsed variable, or the default when it is absent or does not parse.\<close>

definition parse_env :: "(string \<Rightarrow> string option) \<Rightarrow> (string \<Rightarrow> int option) \<Rightarrow> string \<Rightarrow> int \<Rightarrow> int" where
  "parse_env env parse key dflt = (case Option.bind (env key) parse of None \<Rightarrow> dflt | Some v \<Rightarrow> v)"

definition parse_u32 :: "string \<Rightarrow> int option" where
  "parse_u32 s = (if s \<noteq> [] \<and> hd s = CHR ''-'' then None else parse_signed 0 (2 ^ 32 - 1) s)"

definition worker_config_from_env :: "(string \<Rightarrow> string option) \<Rightarrow> nat \<Rightarrow> worker_config" where
  "worker_config_from_env env pid =
     \<lparr>num_workers = nat (parse_env env parse_u64 ''WORKER_NUM_WORKERS'' 4),
      batch_size = parse_env env parse_i64 ''WORKER_BATCH_SIZE'' 10,
      consumer_name = (case env ''WORKER_CONSUMER_NAME'' of Some n \<Rightarrow> n
        | None \<Rightarrow> (case env ''HOSTNAME'' of Some h \<Rightarrow> h | None \<Rightarrow> ''worker'') @ ''-'' @ show_nat pid),
      reclaim_idle_ms = parse_env env parse_i64 ''WORKER_RECLAIM_IDLE_MS'' 90000,
      outbox_interval = secs (parse_env env parse_u64 ''WORKER_OUTBOX_INTERVAL_SECS'' 10),
      delivery_timeout = secs (parse_env env parse_u64 ''WORKER_DELIVERY_TIMEOUT_SECS'' 10),
      max_inflight = nat (parse_env env parse_u64 ''WORKER_MAX_INFLIGHT'' 64),
      trim_interval_secs = parse_env env parse_u64 ''WORKER_TRIM_INTERVAL_SECS'' 60,
      poll_interval_ms = parse_env env parse_u64 ''WORKER_POLL_INTERVAL_MS'' 250,
      cb_failure_threshold = parse_env env parse_u32 ''WORKER_CB_FAILURE_THRESHOLD'' 5,
      cb_window_secs = parse_env env parse_u64 ''WORKER_CB_WINDOW_SECS'' 60,
      cb_cooldown_secs = parse_env env parse_u64 ''WORKER_CB_COOLDOWN_SECS'' 30\<rparr>"

section \<open>One message\<close>

datatype task_end = Finished | Panicked

text \<open>\<open>Utc::now() + chrono::Duration::seconds(n)\<close>: \<open>seconds\<close> panics beyond the range of a
  \<open>TimeDelta\<close>, the addition beyond the last representable instant (year 262142).\<close>

definition MAX_UTC :: time where
  "MAX_UTC = secs 8210266876799 + 999999"

definition utc_plus :: "time \<Rightarrow> int \<Rightarrow> time option" where
  "utc_plus t n = (if n \<le> 9223372036854775 \<and> t + secs n \<le> MAX_UTC then Some (t + secs n) else None)"

text \<open>\<open>(30u64 * 2u64.pow(attempt as u32)).min(3600)\<close> with the wrapping arithmetic of a release
  build.\<close>

definition backoff_secs :: "int \<Rightarrow> int" where
  "backoff_secs attempt = uint (min (30 * 2 ^ nat (attempt mod 2 ^ 32)) (3600 :: 64 word))"

definition secs_to_next_minute :: "time \<Rightarrow> int" where
  "secs_to_next_minute t = 60 - (timestamp t mod 2 ^ 64) mod 60"

text \<open>The common tail of the three guards: compute the time, defer, acknowledge.\<close>

definition defer_and_ack :: "redis_cmds \<Rightarrow> string \<Rightarrow> string \<Rightarrow> worker_job \<Rightarrow> int \<Rightarrow> task_end io" where
  "defer_and_ack R stream msg_id job n = do {
     t \<leftarrow> now;
     case utc_plus t n of None \<Rightarrow> State_Monad.return Panicked
     | Some retry_at \<Rightarrow> do {
         _ \<leftarrow> defer_job (wj_job_id job) retry_at;
         _ \<leftarrow> Queue.xack R stream msg_id;
         State_Monad.return Finished } }"

definition is_endpoint_fault :: "delivery_result \<Rightarrow> bool" where
  "is_endpoint_fault r \<longleftrightarrow> dr_status r = Timeout \<or>
     (dr_status r = Failed \<and> (case dr_http_status r of None \<Rightarrow> True | Some s \<Rightarrow> 500 \<le> s))"

definition note_429 :: "redis_cmds \<Rightarrow> uuid \<Rightarrow> delivery_result \<Rightarrow> unit io" where
  "note_429 R endpoint_id result = (if dr_http_status result = Some 429
     then set_blocked R endpoint_id (case dr_retry_after_secs result of None \<Rightarrow> 60 | Some n \<Rightarrow> n)
     else State_Monad.return ())"

definition update_circuit :: "redis_cmds \<Rightarrow> worker_config \<Rightarrow> uuid \<Rightarrow> delivery_result \<Rightarrow> unit io" where
  "update_circuit R cfg endpoint_id result =
     (if is_endpoint_fault result then do {
        tripped \<leftarrow> record_failure R endpoint_id (cb_failure_threshold cfg) (cb_window_secs cfg);
        if tripped then open_circuit R endpoint_id (cb_cooldown_secs cfg) else State_Monad.return () }
      else if is_success (dr_status result) then reset R endpoint_id
      else State_Monad.return ())"

definition settle_job :: "worker_job \<Rightarrow> delivery_result \<Rightarrow> task_end io" where
  "settle_job job result =
     (if is_success (dr_status result) then do { _ \<leftarrow> complete_job (wj_job_id job); State_Monad.return Finished }
      else if wj_attempt job + 1 < wj_max_attempts job then do {
        t \<leftarrow> now;
        case utc_plus t (backoff_secs (wj_attempt job)) of None \<Rightarrow> State_Monad.return Panicked
        | Some retry_after \<Rightarrow> do { _ \<leftarrow> schedule_retry (wj_job_id job) retry_after; State_Monad.return Finished } }
      else do { _ \<leftarrow> fail_job (wj_job_id job); State_Monad.return Finished })"

definition attempt_delivery :: "worker_ext \<Rightarrow> redis_cmds \<Rightarrow> worker_config \<Rightarrow> string \<Rightarrow> string \<Rightarrow> worker_job \<Rightarrow> task_end io" where
  "attempt_delivery E R cfg msg_id stream job = do {
     d \<leftarrow> deliver E job;
     case d of None \<Rightarrow> State_Monad.return Panicked
     | Some result \<Rightarrow> do {
         _ \<leftarrow> note_429 R (wj_endpoint_id job) result;
         _ \<leftarrow> update_circuit R cfg (wj_endpoint_id job) result;
         _ \<leftarrow> insert_attempt (wj_job_id job) (wj_event_id job) (wj_endpoint_id job) (wj_attempt job + 1)
               (as_str (dr_status result)) (dr_http_status result) (dr_response_body result) (Some (dr_latency_ms result));
         e \<leftarrow> settle_job job result;
         case e of Panicked \<Rightarrow> State_Monad.return Panicked
         | Finished \<Rightarrow> do {
             _ \<leftarrow> Queue.xack R stream msg_id;
             State_Monad.return Finished } } }"

definition rate_granted :: "redis_cmds \<Rightarrow> worker_job \<Rightarrow> bool io" where
  "rate_granted R job = (case wj_rate_limit_per_minute job of None \<Rightarrow> State_Monad.return True
     | Some limit \<Rightarrow> try_acquire R (wj_endpoint_id job) limit)"

definition process_one :: "worker_ext \<Rightarrow> redis_cmds \<Rightarrow> worker_config \<Rightarrow> string \<Rightarrow> string \<Rightarrow> string \<Rightarrow> task_end io" where
  "process_one E R cfg msg_id job_pub_id stream = do {
     r \<leftarrow> get_job_for_delivery job_pub_id;
     case r of
       Inl _ \<Rightarrow> State_Monad.return Finished
     | Inr found \<Rightarrow> (case found of
         None \<Rightarrow> do { _ \<leftarrow> Queue.xack R stream msg_id; State_Monad.return Finished }
       | Some job \<Rightarrow> do {
           blocked \<leftarrow> blocked_remaining_secs R (wj_endpoint_id job);
           case blocked of
             Some remaining_secs \<Rightarrow> defer_and_ack R stream msg_id job (max remaining_secs 1)
           | None \<Rightarrow> do {
               opened \<leftarrow> open_remaining_secs R (wj_endpoint_id job);
               case opened of
                 Some remaining_secs \<Rightarrow> defer_and_ack R stream msg_id job (max remaining_secs 1)
               | None \<Rightarrow> do {
                   granted \<leftarrow> rate_granted R job;
                   if granted then attempt_delivery E R cfg msg_id stream job
                   else do { t \<leftarrow> now; defer_and_ack R stream msg_id job (secs_to_next_minute t) } } } }) }"

section \<open>The loops\<close>

text \<open>One iteration of the consumer loop up to the spawning of its tasks: the stream that was
  claimed and the messages to process, each by a task of its own; \<open>None\<close> is the sleep when the
  scheduling set is empty.\<close>

definition claim_batch :: "redis_cmds \<Rightarrow> worker_config \<Rightarrow> nat \<Rightarrow> (string \<times> (string \<times> string) list) option io" where
  "claim_batch R cfg worker_id = do {
     t \<leftarrow> now;
     s \<leftarrow> claim_next_stream R (int (unix_millis t));
     case s of None \<Rightarrow> State_Monad.return None
     | Some stream \<Rightarrow> do {
         messages \<leftarrow> xreadgroup_single R stream (consumer_name cfg @ ''-w'' @ show_nat worker_id) (batch_size cfg);
         if messages = [] then do {
           _ \<leftarrow> remove_stream_if_empty R stream;
           State_Monad.return (Some (stream, [])) }
         else State_Monad.return (Some (stream, messages)) } }"

definition outbox_one :: "redis_cmds \<Rightarrow> unqueued_job \<Rightarrow> unit io" where
  "outbox_one R job = do {
     r \<leftarrow> enqueue R (uj_stream_name job) (uj_public_id job);
     case r of Inl _ \<Rightarrow> State_Monad.return ()
     | Inr _ \<Rightarrow> do {
         _ \<leftarrow> register_stream R (uj_stream_name job);
         _ \<leftarrow> mark_enqueued (uj_id job);
         State_Monad.return () } }"

definition outbox_pass :: "redis_cmds \<Rightarrow> unit io" where
  "outbox_pass R = do {
     r \<leftarrow> list_unqueued 500;
     case r of Inl _ \<Rightarrow> State_Monad.return () | Inr jobs \<Rightarrow> for_each jobs (outbox_one R) }"

text \<open>The reclaim loop awaits each message in its own task: a panic ends the loop.\<close>

fun reclaim_messages :: "worker_ext \<Rightarrow> redis_cmds \<Rightarrow> worker_config \<Rightarrow> string \<Rightarrow> (string \<times> string) list \<Rightarrow> task_end io" where
  "reclaim_messages E R cfg stream [] = State_Monad.return Finished"
| "reclaim_messages E R cfg stream ((msg_id, job_pub_id) # ms) = do {
     e \<leftarrow> process_one E R cfg msg_id job_pub_id stream;
     case e of Panicked \<Rightarrow> State_Monad.return Panicked | Finished \<Rightarrow> reclaim_messages E R cfg stream ms }"

fun reclaim_streams :: "worker_ext \<Rightarrow> redis_cmds \<Rightarrow> worker_config \<Rightarrow> string list \<Rightarrow> task_end io" where
  "reclaim_streams E R cfg [] = State_Monad.return Finished"
| "reclaim_streams E R cfg (stream # ss) = do {
     claimed \<leftarrow> xautoclaim R stream (consumer_name cfg) (reclaim_idle_ms cfg);
     e \<leftarrow> reclaim_messages E R cfg stream claimed;
     case e of Panicked \<Rightarrow> State_Monad.return Panicked | Finished \<Rightarrow> reclaim_streams E R cfg ss }"

definition reclaim_pass :: "worker_ext \<Rightarrow> redis_cmds \<Rightarrow> worker_config \<Rightarrow> task_end io" where
  "reclaim_pass E R cfg = do { current \<leftarrow> list_scheduled_streams R; reclaim_streams E R cfg current }"

definition trim_pass :: "redis_cmds \<Rightarrow> unit io" where
  "trim_pass R = do { current \<leftarrow> list_scheduled_streams R; for_each current (xtrim_safe R) }"

text \<open>Preparing the streams when the binary starts; errors are logged and ignored.\<close>

definition startup_streams :: "redis_cmds \<Rightarrow> nat \<Rightarrow> unit option io" where
  "startup_streams R fuel = do {
     _ \<leftarrow> for_each TIER_STREAMS (\<lambda>stream. do {
       _ \<leftarrow> ensure_consumer_group R stream (if contains stream '':org:'' then ''0-0'' else ''$'');
       State_Monad.return () });
     _ \<leftarrow> for_each TIER_STREAMS (\<lambda>stream. do { _ \<leftarrow> register_stream R stream; State_Monad.return () });
     found \<leftarrow> scan_streams R fuel ''hookly:q:org:*'';
     case found of None \<Rightarrow> State_Monad.return None
     | Some enterprise_streams \<Rightarrow> do {
         _ \<leftarrow> for_each enterprise_streams (\<lambda>stream. do {
           _ \<leftarrow> ensure_consumer_group R stream ''0-0'';
           _ \<leftarrow> register_stream R stream;
           State_Monad.return () });
         State_Monad.return (Some ()) } }"

text \<open>One pass of the stream watcher over the shared list of streams.\<close>

fun watch_found :: "redis_cmds \<Rightarrow> string list \<Rightarrow> string list \<Rightarrow> string list io" where
  "watch_found R [] current = State_Monad.return current"
| "watch_found R (stream # found) current =
     (if stream \<in> set current then watch_found R found current
      else do {
        r \<leftarrow> ensure_consumer_group R stream ''0-0'';
        case r of Inr _ \<Rightarrow> watch_found R found (current @ [stream]) | Inl _ \<Rightarrow> watch_found R found current })"

definition watcher_pass :: "redis_cmds \<Rightarrow> nat \<Rightarrow> string list \<Rightarrow> string list option io" where
  "watcher_pass R fuel current = do {
     discovered \<leftarrow> scan_streams R fuel ''hookly:q:*'';
     case discovered of None \<Rightarrow> State_Monad.return None
     | Some found \<Rightarrow> do { c \<leftarrow> watch_found R found current; State_Monad.return (Some c) } }"

end
