(* ===== verification/Scheduler.thy ===== *)
theory Scheduler
  imports Schedule_Service Consumer
begin

text \<open>
  The scheduler process (\<open>src/scheduler/\<close>): \<open>fire.rs\<close> turns a due schedule into events and
  delivery jobs, \<open>shard.rs\<close> picks a shard, locks it and fires what is due, \<open>reconcile.rs\<close> copies
  schedules from the tables into the sorted sets. An iteration of each loop is one operation;
  the timers and the shutdown signal are left out.
\<close>

section \<open>Configuration\<close>

record scheduler_config =
  worker_count :: int
  idle_sleep :: time
  reconcile_interval :: time

definition parse_u8 :: "string \<Rightarrow> int option" where
  "parse_u8 s = (if s \<noteq> [] \<and> hd s = CHR ''-'' then None else parse_signed 0 255 s)"

definition scheduler_config_default :: "(string \<Rightarrow> string option) \<Rightarrow> scheduler_config" where
  "scheduler_config_default env =
     \<lparr>worker_count = parse_env env parse_u8 ''SCHEDULER_WORKER_COUNT'' 4,
      idle_sleep = millis (parse_env env parse_u64 ''SCHEDULER_IDLE_SLEEP_MS'' 1000),
      reconcile_interval = millis (parse_env env parse_u64 ''SCHEDULER_RECONCILE_MS'' 120000)\<rparr>"

section \<open>Firing\<close>

datatype fire_error = FireSql sqlx_error | BadTimezone string | BadCron string string | NoOccurrence

record schedule_fire_row =
  fr_id :: uuid
  fr_public_id :: string
  fr_tenant_id :: uuid
  fr_org_id :: uuid
  fr_event_type_id :: uuid
  fr_payload :: json
  fr_cron :: string
  fr_timezone :: string
  fr_assigned_shard :: int
  fr_status :: string
  fr_endpoint_ids :: "uuid list"
  fr_endpoint_public_ids :: "string list"
  fr_tiers :: "string list"

text \<open>The endpoints a schedule reaches: linked, not deleted and active.\<close>

definition fire_endpoints_of :: "uuid \<Rightarrow> db \<Rightarrow> endpoint_row list" where
  "fire_endpoints_of sid d = List.map_filter (\<lambda>(s, eid). if s = sid
     then find (\<lambda>e. ep_id e = eid \<and> ep_deleted_at e = None \<and> ep_status e = ''active'') (endpoints d) else None) (schedule_endpoints d)"

definition org_tier_or_default :: "uuid \<Rightarrow> db \<Rightarrow> string" where
  "org_tier_or_default org d = (case find (\<lambda>g. og_id g = org) (organizations d) of None \<Rightarrow> ''default''
     | Some g \<Rightarrow> coalesce (og_tier g) ''default'')"

definition fire_row_of :: "schedule_row \<Rightarrow> db \<Rightarrow> schedule_fire_row" where
  "fire_row_of s d = (let es = fire_endpoints_of (sc_id s) d in
     \<lparr>fr_id = sc_id s, fr_public_id = sc_public_id s, fr_tenant_id = sc_tenant_id s, fr_org_id = sc_org_id s,
      fr_event_type_id = sc_event_type_id s, fr_payload = sc_payload s, fr_cron = sc_cron s, fr_timezone = sc_timezone s,
      fr_assigned_shard = sc_assigned_shard s, fr_status = sc_status s, fr_endpoint_ids = map ep_id es,
      fr_endpoint_public_ids = sort (map ep_public_id es), fr_tiers = map (\<lambda>_. org_tier_or_default (sc_org_id s) d) es\<rparr>)"

definition firable :: "uuid \<Rightarrow> schedule_row \<Rightarrow> bool" where
  "firable i s \<longleftrightarrow> sc_id s = i \<and> sc_deleted_at s = None \<and> sc_status s = ''active''"

definition select_fire_row :: "uuid \<Rightarrow> db \<Rightarrow> sqlx_error + schedule_fire_row option" where
  "select_fire_row i d = (if \<not> has_tier_column d then Inl undefined_column
     else Inr (map_option (\<lambda>s. fire_row_of s d) (find (firable i) (schedules d))))"

definition fire_next_run_at :: "sched_ext \<Rightarrow> string \<Rightarrow> string \<Rightarrow> time \<Rightarrow> fire_error + time" where
  "fire_next_run_at C cron_expr tz t = (if \<not> tz_valid C tz then Inl (BadTimezone tz)
     else (case cron_parse C cron_expr of
         Inl e \<Rightarrow> Inl (BadCron cron_expr e)
       | Inr schedule \<Rightarrow> (case schedule tz t of
           None \<Rightarrow> Inl NoOccurrence | Some r \<Rightarrow> Inr r)))"

text \<open>The insert takes any live application of the tenant; without one the column is NULL.\<close>

definition insert_fired_event :: "schedule_fire_row \<Rightarrow> uuid \<Rightarrow> string \<Rightarrow> uuid \<Rightarrow> uuid \<Rightarrow> time \<Rightarrow> db \<Rightarrow> (sqlx_error + uuid) \<times> db" where
  "insert_fired_event row i public_id endpoint_id request_id t d =
     (case find (\<lambda>a. ap_tenant_id a = fr_tenant_id row \<and> ap_deleted_at a = None) (applications d) of
        None \<Rightarrow> (Inl (DatabaseErr (Some ''23502'') None (Some ''events'') None), d)
      | Some a \<Rightarrow> insert_event \<lparr>ev_id = i, ev_public_id = public_id, ev_application_id = ap_id a,
          ev_event_type_id = fr_event_type_id row, ev_endpoint_id = Some endpoint_id, ev_tenant_id = fr_tenant_id row, ev_org_id = fr_org_id row,
          ev_payload = fr_payload row, ev_payload_type = ''json'', ev_idempotency_key = None, ev_body_hash = None, ev_tags = [],
          ev_request_id = request_id, ev_created_by = nil_uuid, ev_created_at = t, ev_schema_valid = True, ev_schema_errors = []\<rparr> d)"

text \<open>The loop over the endpoints in the transaction: the (event id, job public id) pairs and the
  transaction's tables.\<close>

fun fire_endpoints :: "idgen \<Rightarrow> schedule_fire_row \<Rightarrow> string \<Rightarrow> uuid list \<Rightarrow> db \<Rightarrow> (sqlx_error + (uuid \<times> string) list \<times> db) io" where
  "fire_endpoints G row stream [] d = State_Monad.return (Inr ([], d))"
| "fire_endpoints G row stream (endpoint_id # es) d = do {
     event_public_id \<leftarrow> new_event_public_id G;
     n \<leftarrow> fresh;
     m \<leftarrow> fresh;
     try_bind (tx_statement (insert_fired_event row (uuid_of G m) event_public_id endpoint_id (uuid_of G n)) d) (\<lambda>(event_id, d1). do {
       job_public_id \<leftarrow> new_job_public_id G;
       k \<leftarrow> fresh;
       try_bind (tx_statement (\<lambda>t. insert_job (new_job_row (uuid_of G k) job_public_id event_id endpoint_id (fr_org_id row) stream t)) d1) (\<lambda>(_, d2).
       try_bind (fire_endpoints G row stream es d2) (\<lambda>(job_ids, d3). State_Monad.return (Inr ((event_id, job_public_id) # job_ids, d3)))) }) }"

definition fired_schedule :: "time \<Rightarrow> time \<Rightarrow> time \<Rightarrow> schedule_row \<Rightarrow> schedule_row" where
  "fired_schedule next_run_at triggered_at t s = s\<lparr>sc_next_run_at := Some next_run_at, sc_last_run_at := Some triggered_at,
     sc_last_run_status := Some ''fired'', sc_version := sc_version s + 1, sc_updated_at := t\<rparr>"

definition record_execution :: "idgen \<Rightarrow> schedule_fire_row \<Rightarrow> uuid \<Rightarrow> time \<Rightarrow> db \<Rightarrow> (sqlx_error + unit \<times> db) io" where
  "record_execution G row schedule_id triggered_at d = do {
     n \<leftarrow> fresh;
     nano \<leftarrow> nano_id_new G;
     tx_statement (\<lambda>t. insert_execution \<lparr>sx_id = uuid_of G n, sx_public_id = ''sxe_'' @ nano, sx_schedule_id = schedule_id,
       sx_tenant_id = fr_tenant_id row, sx_org_id = fr_org_id row, sx_status = ''fired'', sx_triggered_at = triggered_at, sx_created_at = t\<rparr>) d }"

definition advance_schedule :: "uuid \<Rightarrow> time \<Rightarrow> time \<Rightarrow> db \<Rightarrow> (sqlx_error + unit \<times> db) io" where
  "advance_schedule schedule_id next_run_at triggered_at d = tx_statement (\<lambda>t d. (Inr (), d\<lparr>schedules :=
     update_where (\<lambda>s. sc_id s = schedule_id) (fired_schedule next_run_at triggered_at t) (schedules d)\<rparr>)) d"

definition fire_tx :: "idgen \<Rightarrow> schedule_fire_row \<Rightarrow> uuid \<Rightarrow> string \<Rightarrow> time \<Rightarrow> time \<Rightarrow> (sqlx_error + (uuid \<times> string) list) io" where
  "fire_tx G row schedule_id stream next_run_at triggered_at =
     try_bind tx_begin (\<lambda>d.
     try_bind (fire_endpoints G row stream (map fst (zip (fr_endpoint_ids row) (fr_endpoint_public_ids row))) d) (\<lambda>(job_ids, d1).
     try_bind (record_execution G row schedule_id triggered_at d1) (\<lambda>(_, d2).
     try_bind (advance_schedule schedule_id next_run_at triggered_at d2) (\<lambda>(_, d3).
     try_bind (tx_commit d3) (\<lambda>_. State_Monad.return (Inr job_ids))))))"

definition fire_map_err :: "(sqlx_error + 'a) io \<Rightarrow> (fire_error + 'a) io" where
  "fire_map_err m = do { r \<leftarrow> m; State_Monad.return (map_sum FireSql id r) }"

text \<open>After the commit: the new score, and one message per job.\<close>

definition fire_announce :: "redis_cmds \<Rightarrow> schedule_fire_row \<Rightarrow> uuid \<Rightarrow> string \<Rightarrow> time \<Rightarrow> (uuid \<times> string) list \<Rightarrow> unit io" where
  "fire_announce R row schedule_id stream next_run_at job_ids = do {
     _ \<leftarrow> zadd_pending R (fr_assigned_shard row) schedule_id next_run_at;
     _ \<leftarrow> for_each job_ids (\<lambda>(_, job_public_id). do { _ \<leftarrow> enqueue R stream job_public_id; State_Monad.return () });
     if job_ids \<noteq> [] then do { _ \<leftarrow> register_stream R stream; State_Monad.return () } else State_Monad.return () }"

definition fire_inner :: "redis_cmds \<Rightarrow> sched_ext \<Rightarrow> idgen \<Rightarrow> uuid \<Rightarrow> (fire_error + bool) io" where
  "fire_inner R C G schedule_id = try_bind (fire_map_err (statement (\<lambda>_ d. (select_fire_row schedule_id d, d)))) (\<lambda>r. case r of
      None \<Rightarrow> State_Monad.return (Inr False)
    | Some row \<Rightarrow> if fr_endpoint_ids row = [] then State_Monad.return (Inr False) else do {
        t \<leftarrow> now;
        case fire_next_run_at C (fr_cron row) (fr_timezone row) t of
          Inl e \<Rightarrow> State_Monad.return (Inl e)
        | Inr next_run_at \<Rightarrow> do {
            triggered_at \<leftarrow> now;
            let tier = (case fr_tiers row of [] \<Rightarrow> ''default'' | x # _ \<Rightarrow> x);
            let stream = stream_for_tier tier (fr_org_id row);
            try_bind (fire_map_err (fire_tx G row schedule_id stream next_run_at triggered_at)) (\<lambda>job_ids. do {
              _ \<leftarrow> fire_announce R row schedule_id stream next_run_at job_ids;
              State_Monad.return (Inr True) }) } })"

definition fire_schedule :: "redis_cmds \<Rightarrow> sched_ext \<Rightarrow> idgen \<Rightarrow> uuid \<Rightarrow> bool io" where
  "fire_schedule R C G schedule_id = do {
     r \<leftarrow> fire_inner R C G schedule_id;
     State_Monad.return (case r of Inr fired \<Rightarrow> fired | Inl _ \<Rightarrow> False) }"

section \<open>Shards\<close>

definition LOCK_TTL_SECS :: int where "LOCK_TTL_SECS = 30"

definition shard_lock_key :: "int \<Rightarrow> string" where
  "shard_lock_key shard = ''sched:lock:'' @ show_int shard"

definition REMOVE_IF_SCORE_MATCHES :: "redis_cmds \<Rightarrow> string \<Rightarrow> int \<Rightarrow> keyspace \<Rightarrow> int \<times> keyspace" where
  "REMOVE_IF_SCORE_MATCHES R shard score ks =
     (if ZSCORE R SHARDS_KEY shard ks = Some score then (1, ZREM R SHARDS_KEY shard ks) else (0, ks))"

text \<open>\<open>unwrap_or(None)\<close>, \<open>unwrap_or_default()\<close> on the reply of a command.\<close>

definition reply_or :: "'a \<Rightarrow> (redis_error + 'a) io \<Rightarrow> 'a io" where
  "reply_or x m = do { r \<leftarrow> m; State_Monad.return (case r of Inl _ \<Rightarrow> x | Inr a \<Rightarrow> a) }"

definition take_shard_lock :: "redis_cmds \<Rightarrow> int \<Rightarrow> string \<Rightarrow> bool io" where
  "take_shard_lock R shard instance_id =
     reply_or False (command (\<lambda>t ks. map_prod Inr id (SET_NX R (shard_lock_key shard) instance_id (secs LOCK_TTL_SECS) t ks)))"

definition release_shard_lock :: "redis_cmds \<Rightarrow> int \<Rightarrow> string \<Rightarrow> unit io" where
  "release_shard_lock R shard instance_id = do {
     _ \<leftarrow> command (\<lambda>t ks. map_prod Inr id (release_script R (shard_lock_key shard) instance_id t ks));
     State_Monad.return () }"

definition due_schedules :: "redis_cmds \<Rightarrow> int \<Rightarrow> string list io" where
  "due_schedules R shard = do {
     t \<leftarrow> now;
     reply_or [] (command (\<lambda>_ ks. (Inr (ZRANGEBYSCORE R (pending_key shard) 0 (timestamp t) 0 50 ks), ks))) }"

text \<open>\<open>Uuid::parse_str\<close> is a parameter; it gives the canonical text.\<close>

definition fire_all :: "redis_cmds \<Rightarrow> sched_ext \<Rightarrow> idgen \<Rightarrow> (string \<Rightarrow> uuid option) \<Rightarrow> string list \<Rightarrow> unit io" where
  "fire_all R C G parse_uuid ids = for_each ids (\<lambda>id_str. case parse_uuid id_str of
      None \<Rightarrow> State_Monad.return ()
    | Some schedule_id \<Rightarrow> do { _ \<leftarrow> fire_schedule R C G schedule_id; State_Monad.return () })"

definition shard_process_one :: "redis_cmds \<Rightarrow> sched_ext \<Rightarrow> idgen \<Rightarrow> (string \<Rightarrow> uuid option) \<Rightarrow> string \<Rightarrow> unit io" where
  "shard_process_one R C G parse_uuid instance_id = do {
     c \<leftarrow> connect;
     case c of Inl _ \<Rightarrow> State_Monad.return ()
     | Inr _ \<Rightarrow> do {
         picked \<leftarrow> reply_or None (command (\<lambda>_ ks. (Inr (ZRANDMEMBER R SHARDS_KEY ks), ks)));
         case picked of None \<Rightarrow> State_Monad.return ()
         | Some shard_str \<Rightarrow> (case parse_i16 shard_str of None \<Rightarrow> State_Monad.return ()
           | Some shard_id \<Rightarrow> do {
               sc \<leftarrow> reply_or None (command (\<lambda>_ ks. (Inr (ZSCORE R SHARDS_KEY shard_str ks), ks)));
               case sc of None \<Rightarrow> State_Monad.return ()
               | Some score \<Rightarrow> do {
                   acquired \<leftarrow> take_shard_lock R shard_id instance_id;
                   if \<not> acquired then State_Monad.return () else do {
                     schedule_ids \<leftarrow> due_schedules R shard_id;
                     if schedule_ids = [] then do {
                       _ \<leftarrow> command (\<lambda>_ ks. map_prod Inr id (REMOVE_IF_SCORE_MATCHES R shard_str score ks));
                       release_shard_lock R shard_id instance_id }
                     else do {
                       _ \<leftarrow> fire_all R C G parse_uuid schedule_ids;
                       c2 \<leftarrow> connect;
                       case c2 of Inl _ \<Rightarrow> State_Monad.return () | Inr _ \<Rightarrow> release_shard_lock R shard_id instance_id } } } }) } }"

section \<open>Reconciliation\<close>

definition reconcile_rows :: "time option \<Rightarrow> db \<Rightarrow> (uuid \<times> int \<times> time option) list" where
  "reconcile_rows since d = map (\<lambda>s. (sc_id s, sc_assigned_shard s, sc_next_run_at s))
     (filter (\<lambda>s. sc_status s = ''active'' \<and> sc_deleted_at s = None \<and> sc_next_run_at s \<noteq> None \<and>
        (case since of None \<Rightarrow> True | Some ts \<Rightarrow> ts - secs 1 < sc_updated_at s)) (schedules d))"

definition reconcile_pending :: "redis_cmds \<Rightarrow> (uuid \<times> int \<times> time option) \<Rightarrow> unit io" where
  "reconcile_pending R = (\<lambda>(schedule_id, shard, next_run_at). case next_run_at of None \<Rightarrow> State_Monad.return ()
     | Some next \<Rightarrow> do {
         _ \<leftarrow> command (\<lambda>_ ks. (Inr (), ZADD R ZNx (pending_key shard) (timestamp next) schedule_id ks));
         State_Monad.return () })"

text \<open>The hash set of shards seen is iterated in some order; the updates of different members
  commute.\<close>

definition reconcile :: "redis_cmds \<Rightarrow> time option \<Rightarrow> time io" where
  "reconcile R since = do {
     run_at \<leftarrow> now;
     r \<leftarrow> query (\<lambda>_. reconcile_rows since);
     let rows = (case r of Inl _ \<Rightarrow> [] | Inr rows \<Rightarrow> rows);
     c \<leftarrow> connect;
     case c of Inl _ \<Rightarrow> State_Monad.return run_at
     | Inr _ \<Rightarrow> do {
         _ \<leftarrow> for_each rows (reconcile_pending R);
         _ \<leftarrow> for_each (remdups (map (\<lambda>(_, shard, _). shard) (filter (\<lambda>(_, _, nxt). nxt \<noteq> None) rows))) (\<lambda>shard. do {
           _ \<leftarrow> command (\<lambda>_ ks. (Inr (), ZADD R ZGt SHARDS_KEY (timestamp_millis run_at) (show_int shard) ks));
           State_Monad.return () });
         State_Monad.return run_at } }"

end
