(* ===== verification/Consumer_Props.thy ===== *)
theory Consumer_Props
  imports Consumer
begin

text \<open>
  What the worker does to a job: the backoff, the effect of processing one message on the
  tables, the acknowledgement, and the ways in which a job can be left behind.
\<close>

section \<open>Frames\<close>

text \<open>Everything the worker does in Redis leaves the tables alone.\<close>

lemma keeps_ttl_query [keeps_intros]: "tables_only P \<Longrightarrow> keeps P (ttl_query R k)"
  unfolding ttl_query_def Let_def by (intro keeps_intros keeps_command_tables tables_only_stable)

lemma keeps_set_flag [keeps_intros]: "tables_only P \<Longrightarrow> keeps P (set_flag R k n)"
  unfolding set_flag_def by (intro keeps_intros keeps_command_tables tables_only_stable)

lemma keeps_try_acquire [keeps_intros]: "tables_only P \<Longrightarrow> keeps P (try_acquire R ep n)"
  unfolding try_acquire_def by (intro keeps_intros keeps_command_tables tables_only_stable)

lemma keeps_record_failure [keeps_intros]: "tables_only P \<Longrightarrow> keeps P (record_failure R ep k n)"
  unfolding record_failure_def Let_def by (intro keeps_intros keeps_command_tables tables_only_stable)

lemma keeps_reset [keeps_intros]: "tables_only P \<Longrightarrow> keeps P (reset R ep)"
  unfolding reset_def by (intro keeps_intros keeps_command_tables tables_only_stable)

lemma keeps_xack_tables [keeps_intros]: "tables_only P \<Longrightarrow> keeps P (Queue.xack R s i)"
  unfolding Queue.xack_def by (intro keeps_intros keeps_command_tables tables_only_stable)

lemma keeps_enqueue_tables [keeps_intros]: "tables_only P \<Longrightarrow> keeps P (enqueue R s i)"
  unfolding enqueue_def by (intro keeps_intros keeps_command_tables tables_only_stable)

lemma keeps_register_tables [keeps_intros]: "tables_only P \<Longrightarrow> keeps P (register_stream R s)"
  unfolding register_stream_def by (intro keeps_intros keeps_command_tables tables_only_stable)

lemma keeps_rate_granted [keeps_intros]: "tables_only P \<Longrightarrow> keeps P (rate_granted R job)"
  unfolding rate_granted_def by (intro keeps_intros)

lemma keeps_note_429 [keeps_intros]: "tables_only P \<Longrightarrow> keeps P (note_429 R ep r)"
  unfolding note_429_def set_blocked_def by (intro keeps_intros)

lemma keeps_update_circuit [keeps_intros]: "tables_only P \<Longrightarrow> keeps P (update_circuit R cfg ep r)"
  unfolding update_circuit_def open_circuit_def by (intro keeps_intros)

lemma keeps_send [keeps_intros]: "tables_only P \<Longrightarrow> keeps P (send E rq)"
  unfolding send_def by (intro keeps_intros keeps_now_update tables_only_stable)

lemma keeps_deliver [keeps_intros]: "tables_only P \<Longrightarrow> keeps P (deliver E job)"
  unfolding deliver_def by (intro keeps_intros) (auto intro!: keeps_intros split: sum.splits)

lemma keeps_get_job [keeps_intros]: "tables_only P \<Longrightarrow> keeps P (get_job_for_delivery p)"
  unfolding get_job_for_delivery_def by (intro keeps_intros tables_only_stable)

section \<open>Backoff\<close>

lemma backoff_below_59:
  assumes "0 \<le> a" and "a < 59"
  shows "backoff_secs a = min (30 * 2 ^ nat a) 3600"
proof -
  have "(2::nat) ^ nat a \<le> 2 ^ 58" using assms by (intro power_increasing) auto
  then have lt: "30 * (2::nat) ^ nat a < 2 ^ 64" by simp
  have "unat (of_nat (30 * 2 ^ nat a) :: 64 word) = 30 * 2 ^ nat a"
    using take_bit_nat_eq_self [OF lt] by (simp add: unsigned_of_nat del: of_nat_mult of_nat_power of_nat_numeral)
  then have u: "unat (30 * 2 ^ nat a :: 64 word) = 30 * 2 ^ nat a" by simp
  have "unat (min (30 * 2 ^ nat a) (3600 :: 64 word)) = min (30 * 2 ^ nat a) 3600"
    using u by (auto simp: min_def word_le_nat_alt)
  then have "uint (min (30 * 2 ^ nat a) (3600 :: 64 word)) = int (min (30 * 2 ^ nat a) 3600)"
    by (simp only: uint_nat)
  moreover have "nat (a mod 2 ^ 32) = nat a" using assms by simp
  ultimately show ?thesis unfolding backoff_secs_def by (simp add: of_nat_min)
qed

lemma backoff_59_62: "backoff_secs 59 = 3600" "backoff_secs 60 = 3600" "backoff_secs 61 = 3600" "backoff_secs 62 = 3600"
  by (simp_all add: backoff_secs_def)

lemma backoff_small:
  assumes "0 \<le> a" and "a < 63"
  shows "backoff_secs a = min (30 * 2 ^ nat a) 3600"
proof -
  consider "a < 59" | "a = 59" | "a = 60" | "a = 61" | "a = 62" using assms by linarith
  then show ?thesis using assms by cases (simp_all add: backoff_below_59 backoff_59_62)
qed

lemma backoff_wraps:
  assumes "63 \<le> a" and "a < 2 ^ 31"
  shows "backoff_secs a = 0"
proof -
  have "(2::64 word) ^ Suc (nat a) = 0" using assms by (subst exp_eq_zero_iff) simp
  moreover have "30 * (2::64 word) ^ nat a = 15 * 2 ^ Suc (nat a)" by (simp only: power_Suc mult.assoc [symmetric]) simp
  ultimately have z: "30 * (2::64 word) ^ nat a = 0" by (simp only: mult_zero_right)
  have n: "nat (a mod 2 ^ 32) = nat a" using assms by simp
  show ?thesis unfolding backoff_secs_def n z by simp
qed

lemma backoff_bounds: "0 \<le> backoff_secs a" "backoff_secs a \<le> 3600"
proof -
  have "min x (3600 :: 64 word) \<le> 3600" for x by simp
  then have "uint (min x (3600 :: 64 word)) \<le> uint (3600 :: 64 word)" for x by (simp only: word_le_def)
  then show "backoff_secs a \<le> 3600" by (simp add: backoff_secs_def)
qed (simp add: backoff_secs_def)

lemma secs_to_next_minute_bounds: "1 \<le> secs_to_next_minute t \<and> secs_to_next_minute t \<le> 60"
  by (simp add: secs_to_next_minute_def)

section \<open>Effect of one message on the tables\<close>

definition set_job :: "uuid \<Rightarrow> (job_row \<Rightarrow> job_row) \<Rightarrow> db \<Rightarrow> db" where
  "set_job i f d = d\<lparr>delivery_jobs := update_where (\<lambda>j. dj_id j = i) f (delivery_jobs d)\<rparr>"

definition attempt_of :: "worker_job \<Rightarrow> delivery_result \<Rightarrow> attempt_row" where
  "attempt_of job r = \<lparr>da_job_id = wj_job_id job, da_event_id = wj_event_id job, da_endpoint_id = wj_endpoint_id job,
     da_attempt_number = wj_attempt job + 1, da_status = as_str (dr_status r), da_http_status = dr_http_status r,
     da_response_body = dr_response_body r, da_latency_ms = Some (dr_latency_ms r)\<rparr>"

definition log_attempt :: "worker_job \<Rightarrow> delivery_result \<Rightarrow> db \<Rightarrow> db" where
  "log_attempt job r d = d\<lparr>delivery_attempts := delivery_attempts d @ [attempt_of job r]\<rparr>"

text \<open>The specification of the processing of one message for a deliverable job: it is deferred
  without using up an attempt, or tried once with exactly one row in the attempt log.\<close>

inductive process_effect :: "worker_job \<Rightarrow> db \<Rightarrow> db \<Rightarrow> bool" for job d where
  deferred: "process_effect job d (set_job (wj_job_id job) (\<lambda>j. j\<lparr>dj_status := ''retrying'',
      dj_retry_after := Some r, dj_enqueued_at := None\<rparr>) d)"
| delivered: "dr_status res = Success \<Longrightarrow> process_effect job d
      (set_job (wj_job_id job) (\<lambda>j. j\<lparr>dj_status := ''success'', dj_attempt := dj_attempt j + 1\<rparr>) (log_attempt job res d))"
| retried: "dr_status res \<noteq> Success \<Longrightarrow> wj_attempt job + 1 < wj_max_attempts job \<Longrightarrow> process_effect job d
      (set_job (wj_job_id job) (\<lambda>j. j\<lparr>dj_status := ''retrying'', dj_attempt := dj_attempt j + 1,
        dj_retry_after := Some r, dj_enqueued_at := None\<rparr>) (log_attempt job res d))"
| exhausted: "dr_status res \<noteq> Success \<Longrightarrow> wj_max_attempts job \<le> wj_attempt job + 1 \<Longrightarrow> process_effect job d
      (set_job (wj_job_id job) (\<lambda>j. j\<lparr>dj_status := ''failed'', dj_attempt := dj_attempt j + 1\<rparr>) (log_attempt job res d))"

inductive_cases process_effectE: "process_effect job d d'"

definition at_db :: "db \<Rightarrow> time \<Rightarrow> world \<Rightarrow> bool" where
  "at_db d T w \<longleftrightarrow> no_faults w \<and> w_db w = d \<and> w_now w \<le> T"

lemma at_dbD: "at_db d T w \<Longrightarrow> no_faults w" "at_db d T w \<Longrightarrow> w_db w = d" "at_db d T w \<Longrightarrow> w_now w \<le> T"
  by (simp_all add: at_db_def)

text \<open>Commands keep the tables, the clock and the absence of faults.\<close>

lemma stable_at_db [simp]: "stable (at_db d T)"
  by (simp add: stable_def at_db_def)

lemma at_db_command: "keeps (at_db d T) (command c)"
  by (intro keeps_command) (simp_all add: at_db_def)

lemma at_db_set_flag: "keeps (at_db d T) (set_flag R k n)"
  unfolding set_flag_def by (intro keeps_intros at_db_command) simp_all

lemma at_db_note: "keeps (at_db d T) (note_429 R ep r)"
  unfolding note_429_def set_blocked_def by (intro keeps_intros at_db_set_flag)

lemma at_db_circuit: "keeps (at_db d T) (update_circuit R cfg ep r)"
  unfolding update_circuit_def open_circuit_def record_failure_def reset_def Let_def
  by (intro keeps_intros at_db_set_flag at_db_command) simp_all

lemma at_db_xack: "keeps (at_db d T) (Queue.xack R s i)"
  unfolding Queue.xack_def by (intro keeps_intros at_db_command) simp_all

lemma at_db_try_acquire: "keeps (at_db d T) (try_acquire R ep n)"
  unfolding try_acquire_def by (intro keeps_intros at_db_command) simp_all

lemma at_db_rate: "keeps (at_db d T) (rate_granted R job)"
  unfolding rate_granted_def by (intro keeps_intros at_db_try_acquire)

text \<open>The database steps.\<close>

lemma run_update_job:
  "no_faults w \<Longrightarrow> run_state (update_job i f) w = (Inr (), w\<lparr>w_db := set_job i (f (w_now w)) (w_db w)\<rparr>)"
  by (simp add: update_job_def run_simps set_job_def)

lemma triple_update_job:
  "triple (at_db d T) (update_job i (\<lambda>_. f)) (\<lambda>_. at_db (set_job i f d) T)"
  by (simp add: triple_def at_db_def run_update_job)

lemma triple_insert_attempt:
  assumes "\<exists>j\<in>set (delivery_jobs d). dj_id j = wj_job_id job" and "\<exists>e\<in>set (events d). ev_id e = wj_event_id job"
    and "\<exists>e\<in>set (endpoints d). ep_id e = wj_endpoint_id job"
  shows "triple (at_db d T) (insert_attempt (wj_job_id job) (wj_event_id job) (wj_endpoint_id job) (wj_attempt job + 1)
     (as_str (dr_status r)) (dr_http_status r) (dr_response_body r) (Some (dr_latency_ms r))) (\<lambda>_. at_db (log_attempt job r d) T)"
  using assms
  by (simp add: triple_def at_db_def insert_attempt_def insert_attempt_row_def run_simps log_attempt_def attempt_of_def)

text \<open>The acknowledged message is pending no longer.\<close>

definition acked :: "string \<Rightarrow> string \<Rightarrow> world \<Rightarrow> bool" where
  "acked s i w \<longleftrightarrow> (\<forall>gr. group_of (w_ks w) s GROUP = Some gr \<longrightarrow> (\<forall>p\<in>set (pel gr). sid_str (pe_id p) \<noteq> i))"

context redis_streams
begin

lemma acked_XACK: "acked s i (w\<lparr>w_ks := XACK R s GROUP i (w_ks w)\<rparr>)"
proof (cases "streams (w_ks w) s")
  case None
  then show ?thesis by (simp add: acked_def xack_absent group_of_def stream_of_def empty_stream_def)
next
  case (Some st)
  then show ?thesis by (auto simp: acked_def xack ack_id_def)
qed

lemma triple_xack: "triple (at_db d T) (Queue.xack R s i) (\<lambda>_ w. at_db d T w \<and> acked s i w)"
  by (simp add: triple_def at_db_def Queue.xack_def run_simps acked_XACK)

end

section \<open>Processing without faults\<close>

text \<open>Clock readings and durations far below the limits of the date type.\<close>

definition far :: time where "far = secs 1000000000000"

lemma utc_plus_far: "t \<le> 2 * far \<Longrightarrow> n \<le> 1000000000 \<Longrightarrow> utc_plus t n = Some (t + secs n)"
  by (simp add: utc_plus_def far_def MAX_UTC_def secs_def)

definition refs_ok :: "worker_job \<Rightarrow> db \<Rightarrow> bool" where
  "refs_ok job d \<longleftrightarrow> (\<exists>j\<in>set (delivery_jobs d). dj_id j = wj_job_id job) \<and>
     (\<exists>e\<in>set (events d). ev_id e = wj_event_id job) \<and> (\<exists>e\<in>set (endpoints d). ep_id e = wj_endpoint_id job)"

lemma deliverable_rowsD:
  assumes "job \<in> set (deliverable_rows p t d)"
  obtains dj ev ep where "dj \<in> set (delivery_jobs d)" "ev \<in> set (events d)" "ep \<in> set (endpoints d)"
    "dj_public_id dj = p" "deliverable_status (dj_status dj)" "ev_id ev = dj_event_id dj" "ep_id ep = dj_endpoint_id dj"
    "ep_status ep = ''active''" "ep_deleted_at ep = None" "current_secret t (ep_id ep) d \<noteq> None"
    "job = worker_job_of dj ev ep (the (current_secret t (ep_id ep) d))"
  using assms by (auto simp: deliverable_rows_def)

lemma first_row_in: "first_row rs = Some r \<Longrightarrow> r \<in> set rs"
  by (cases rs) (auto simp: first_row_def)

lemma found_refs_ok: "first_row (deliverable_rows p t d) = Some job \<Longrightarrow> refs_ok job d"
  by (drule first_row_in, erule deliverable_rowsD) (force simp: refs_ok_def worker_job_of_def)

text \<open>What makes the task finish: clock, durations and the two flags are within range and the
  stored secret does not make the cipher panic.\<close>

definition calm :: "worker_ext \<Rightarrow> redis_cmds \<Rightarrow> worker_job \<Rightarrow> world \<Rightarrow> bool" where
  "calm E R job w \<longleftrightarrow> w_now w \<le> far \<and> (\<forall>n rq. int (snd (http_send E n rq)) \<le> far) \<and>
     TTL R (blocked_key (wj_endpoint_id job)) (w_now w) (w_ks w) \<le> 1000000000 \<and>
     TTL R (open_key (wj_endpoint_id job)) (w_now w) (w_ks w) \<le> 1000000000 \<and>
     decrypt (wx_crypto E) (wx_master_key E) (wj_tenant_id job) (wj_encrypted_secret job) \<noteq> None"

lemma far_pos: "0 < far"
  by (simp add: far_def secs_def)

lemma triple_send:
  assumes "\<And>n rq. int (snd (http_send E n rq)) \<le> far"
  shows "triple (at_db d far) (send E rq) (\<lambda>_. at_db d (2 * far))"
proof -
  have "int (snd (http_send E n rq)) \<le> far" for n by (rule assms)
  then show ?thesis
    by (auto simp: triple_def at_db_def send_def run_simps case_prod_beta) (smt (verit) snd_conv)
qed

lemma triple_deliver:
  assumes "\<And>n rq. int (snd (http_send E n rq)) \<le> far"
    and "decrypt (wx_crypto E) (wx_master_key E) (wj_tenant_id job) (wj_encrypted_secret job) \<noteq> None"
  shows "triple (at_db d far) (deliver E job) (\<lambda>r w. r \<noteq> None \<and> at_db d (2 * far) w)"
proof -
  have le: "at_db d far w \<Longrightarrow> at_db d (2 * far) w" for w
    using far_pos by (simp add: at_db_def)
  have send: "triple (at_db d far) (send E rq) (\<lambda>_. at_db d (2 * far))" for rq
    using assms(1) by (rule triple_send)
  show ?thesis
    unfolding deliver_def using assms(2)
    by (auto intro!: triple_return triple_bind [OF triple_keeps [OF keeps_now]] triple_bind [OF send] le
        split: sum.splits option.splits prod.splits)
qed

context redis_streams
begin

lemma triple_defer_and_ack:
  assumes "n \<le> 1000000000"
  shows "triple (at_db d (2 * far)) (defer_and_ack R s i job n)
    (\<lambda>r w. r = Finished \<and> process_effect job d (w_db w) \<and> acked s i w)"
proof -
  have "triple (\<lambda>w. t \<le> 2 * far \<and> at_db d (2 * far) w) (case utc_plus t n of None \<Rightarrow> State_Monad.return Panicked
     | Some retry_at \<Rightarrow> do { _ \<leftarrow> defer_job (wj_job_id job) retry_at; _ \<leftarrow> Queue.xack R s i; State_Monad.return Finished })
     (\<lambda>r w. r = Finished \<and> process_effect job d (w_db w) \<and> acked s i w)" for t
    unfolding defer_job_def
    by (rule triple_pull) (auto simp: utc_plus_far assms at_dbD(2) intro: deferred
        intro!: triple_bind [OF triple_update_job] triple_bind [OF triple_xack] triple_return)
  then show ?thesis
    unfolding defer_and_ack_def
    by (intro triple_bind [where Q = "\<lambda>t w. t \<le> 2 * far \<and> at_db d (2 * far) w"]) (simp add: triple_def run_simps at_db_def)
qed

lemma triple_settle:
  "triple (at_db (log_attempt job res d) (2 * far)) (settle_job job res)
     (\<lambda>r w. r = Finished \<and> process_effect job d (w_db w) \<and> at_db (w_db w) (2 * far) w)"
proof -
  have b: "t \<le> 2 * far \<Longrightarrow> utc_plus t (backoff_secs a) = Some (t + secs (backoff_secs a))" for t a
    using backoff_bounds(2) [of a] by (intro utc_plus_far) auto
  have succ: "is_success st \<longleftrightarrow> st = Success" for st by (cases st) auto
  show ?thesis
    unfolding settle_job_def complete_job_def schedule_retry_def fail_job_def
    by (auto simp: triple_def run_simps at_db_def run_update_job b succ intro: process_effect.intros)
qed

lemma triple_attempt:
  assumes "refs_ok job d" and "\<And>n rq. int (snd (http_send E n rq)) \<le> far"
    and "decrypt (wx_crypto E) (wx_master_key E) (wj_tenant_id job) (wj_encrypted_secret job) \<noteq> None"
  shows "triple (at_db d far) (attempt_delivery E R cfg i s job)
    (\<lambda>r w. r = Finished \<and> process_effect job d (w_db w) \<and> acked s i w)"
proof -
  have ack: "triple (\<lambda>w. r = Finished \<and> process_effect job d (w_db w) \<and> at_db (w_db w) (2 * far) w)
      (case r of Finished \<Rightarrow> do { _ \<leftarrow> Queue.xack R s i; State_Monad.return Finished } | Panicked \<Rightarrow> State_Monad.return Panicked)
      (\<lambda>r w. r = Finished \<and> process_effect job d (w_db w) \<and> acked s i w)" for r
    using triple_xack [of _ "2 * far" s i]
    by (cases r) (auto simp: triple_def run_simps case_prod_beta at_db_def)
  have ins: "triple (at_db d (2 * far)) (insert_attempt (wj_job_id job) (wj_event_id job) (wj_endpoint_id job) (wj_attempt job + 1)
      (as_str (dr_status r)) (dr_http_status r) (dr_response_body r) (Some (dr_latency_ms r))) (\<lambda>_. at_db (log_attempt job r d) (2 * far))" for r
    using assms(1) by (intro triple_insert_attempt) (auto simp: refs_ok_def)
  show ?thesis
    unfolding attempt_delivery_def
    by (rule triple_bind [OF triple_deliver [OF assms(2,3)]], rule triple_pull, rule triple_case_option)
       (auto intro!: triple_bind_keeps at_db_note at_db_circuit triple_bind [OF ins] triple_bind [OF triple_settle] ack)
qed

lemma run_blocked: "no_faults w \<Longrightarrow> run_state (blocked_remaining_secs R ep) w =
    ((let t = TTL R (blocked_key ep) (w_now w) (w_ks w) in if 0 < t then Some t else None), w)"
  by (simp add: blocked_remaining_secs_def ttl_query_def run_simps Let_def)

lemma run_opened: "no_faults w \<Longrightarrow> run_state (open_remaining_secs R ep) w =
    ((let t = TTL R (open_key ep) (w_now w) (w_ks w) in if 0 < t then Some t else None), w)"
  by (simp add: open_remaining_secs_def ttl_query_def run_simps Let_def)

lemma process_one_found:
  assumes "no_faults w" and "first_row (deliverable_rows p (w_now w) (w_db w)) = Some job" and "calm E R job w"
  shows "case run_state (process_one E R cfg i p s) w of (r, w') \<Rightarrow>
    r = Finished \<and> process_effect job (w_db w) (w_db w') \<and> acked s i w'"
proof -
  let ?Q = "\<lambda>r w'. r = Finished \<and> process_effect job (w_db w) (w_db w') \<and> acked s i w'"
  have at: "at_db (w_db w) far w" "at_db (w_db w) (2 * far) w"
    using assms far_pos by (auto simp: at_db_def calm_def)
  have dfr: "n \<le> 1000000000 \<Longrightarrow> ?Q (fst (run_state (defer_and_ack R s i job n) w)) (snd (run_state (defer_and_ack R s i job n) w))" for n
    using triple_defer_and_ack at(2) by (rule tripleD)
  have rest: "triple (at_db (w_db w) far) (do { granted \<leftarrow> rate_granted R job;
      if granted then attempt_delivery E R cfg i s job
      else do { t \<leftarrow> now; defer_and_ack R s i job (secs_to_next_minute t) } }) ?Q"
  proof (intro triple_bind_keeps at_db_rate triple_if keeps_now)
    show "triple (at_db (w_db w) far) (attempt_delivery E R cfg i s job) ?Q"
      using assms(2,3) by (intro triple_attempt found_refs_ok) (auto simp: calm_def)
    fix t show "triple (at_db (w_db w) far) (defer_and_ack R s i job (secs_to_next_minute t)) ?Q"
      using secs_to_next_minute_bounds [of t] far_pos
      by (intro triple_weaken [OF triple_defer_and_ack]) (auto simp: at_db_def)
  qed
  show ?thesis
    using assms(1,2) assms(3) [unfolded calm_def] dfr tripleD [OF rest at(1)]
    by (simp add: process_one_def get_job_for_delivery_def run_simps case_prod_beta run_blocked run_opened Let_def)
qed

end

end
