(* ===== verification/Job_Lifecycle.thy ===== *)
theory Job_Lifecycle
  imports Consumer_Props
begin

text \<open>
  The life of a delivery job across the API, the workers, the outbox and the reclaimer, as a
  step relation over the world in which every external call may fail at any point, and the
  invariant of the job table that every reachable state has.
\<close>

section \<open>Invariant\<close>

definition job_statuses :: "string list" where
  "job_statuses = [''pending'', ''retrying'', ''success'', ''failed'']"

definition job_ok :: "job_row \<Rightarrow> bool" where
  "job_ok j \<longleftrightarrow> dj_status j \<in> set job_statuses \<and> 0 \<le> dj_attempt j \<and>
     (dj_status j = ''retrying'' \<longrightarrow> dj_retry_after j \<noteq> None) \<and> (dj_status j = ''success'' \<longrightarrow> 1 \<le> dj_attempt j)"

definition jobs_ok :: "db \<Rightarrow> bool" where
  "jobs_ok d \<longleftrightarrow> distinct (map dj_id (delivery_jobs d)) \<and> distinct (map dj_public_id (delivery_jobs d)) \<and>
     (\<forall>j\<in>set (delivery_jobs d). job_ok j) \<and>
     (\<forall>a\<in>set (delivery_attempts d). da_job_id a \<in> dj_id ` set (delivery_jobs d))"

abbreviation jobs_inv :: "world \<Rightarrow> bool" where
  "jobs_inv \<equiv> any_db jobs_ok"

text \<open>What holds of the job with an id; and a job that is settled, or that the outbox takes up
  from its retry time on.\<close>

definition every_job :: "(job_row \<Rightarrow> bool) \<Rightarrow> uuid \<Rightarrow> db \<Rightarrow> bool" where
  "every_job q i d \<longleftrightarrow> (\<forall>j\<in>set (delivery_jobs d). dj_id j = i \<longrightarrow> q j)"

definition taken_up :: "job_row \<Rightarrow> bool" where
  "taken_up j \<longleftrightarrow> dj_status j \<in> {''success'', ''failed''} \<or> (\<exists>r. dj_retry_after j = Some r \<and> (\<forall>t\<ge>r. unqueued t j))"

text \<open>An update that keeps the two keys.\<close>

definition same_keys :: "(job_row \<Rightarrow> job_row) \<Rightarrow> bool" where
  "same_keys f \<longleftrightarrow> (\<forall>j. dj_id (f j) = dj_id j \<and> dj_public_id (f j) = dj_public_id j)"

lemma jobs_ok_update:
  assumes "jobs_ok d" and "same_keys f" and "\<And>j. job_ok j \<Longrightarrow> q j \<Longrightarrow> job_ok (f j)"
  shows "jobs_ok (d\<lparr>delivery_jobs := update_where q f (delivery_jobs d)\<rparr>)"
proof -
  have ids: "map dj_id (update_where q f xs) = map dj_id xs" "map dj_public_id (update_where q f xs) = map dj_public_id xs" for xs
    using assms(2) by (auto simp: same_keys_def update_where_def)
  then have "dj_id ` set (update_where q f xs) = dj_id ` set xs" for xs by (metis set_map)
  with assms ids show ?thesis by (auto simp: jobs_ok_def set_update_where)
qed

lemma keeps_update_job:
  assumes "\<And>t. same_keys (f t)" and "\<And>t j. job_ok j \<Longrightarrow> job_ok (f t j)"
  shows "keeps jobs_inv (update_job i f)"
  unfolding update_job_def
  by (intro keeps_intros tables_only_stable) (auto simp: any_db_def intro!: jobs_ok_update assms)

lemma job_ok_updates:
  "job_ok j \<Longrightarrow> job_ok (j\<lparr>dj_enqueued_at := e\<rparr>)"
  "job_ok j \<Longrightarrow> job_ok (j\<lparr>dj_status := ''success'', dj_attempt := dj_attempt j + 1\<rparr>)"
  "job_ok j \<Longrightarrow> job_ok (j\<lparr>dj_status := ''failed'', dj_attempt := dj_attempt j + 1\<rparr>)"
  "job_ok j \<Longrightarrow> job_ok (j\<lparr>dj_status := ''retrying'', dj_retry_after := Some r, dj_enqueued_at := e\<rparr>)"
  "job_ok j \<Longrightarrow> job_ok (j\<lparr>dj_status := ''retrying'', dj_attempt := dj_attempt j + 1, dj_retry_after := Some r, dj_enqueued_at := e\<rparr>)"
  "job_ok j \<Longrightarrow> job_ok (j\<lparr>dj_status := ''pending'', dj_enqueued_at := e\<rparr>)"
  by (auto simp: job_ok_def job_statuses_def)

lemma keeps_job_updates [keeps_intros]:
  "keeps jobs_inv (mark_enqueued i)" "keeps jobs_inv (complete_job i)" "keeps jobs_inv (fail_job i)"
  "keeps jobs_inv (defer_job i r)" "keeps jobs_inv (schedule_retry i r)"
  unfolding mark_enqueued_def complete_job_def fail_job_def defer_job_def schedule_retry_def
  by (intro keeps_update_job; simp add: same_keys_def job_ok_updates)+

lemma jobs_ok_insert_attempt: "jobs_ok d \<Longrightarrow> insert_attempt_row a d = (Inr u, d') \<Longrightarrow> jobs_ok d'"
  by (auto simp: jobs_ok_def insert_attempt_row_def image_iff split: if_splits) metis

lemma keeps_insert_attempt [keeps_intros]: "keeps jobs_inv (insert_attempt i ev ep n st hs b l)"
  unfolding insert_attempt_def
  by (intro keeps_intros tables_only_stable) (auto simp: any_db_def jobs_ok_insert_attempt)

lemma jobs_ok_insert:
  assumes "jobs_ok d" and "job_ok j" and "insert_job j d = (Inr r, d')"
  shows "jobs_ok d'"
  using assms by (auto simp: jobs_ok_def insert_job_def split: if_splits) (metis+)

lemma new_job_ok: "job_ok (new_job_row i p ev ep og s t)"
  by (simp add: job_ok_def new_job_row_def job_statuses_def)

lemma keeps_create_job [keeps_intros]: "keeps jobs_inv (create_job G ev ep og s)"
  unfolding create_job_def new_job_public_id_def
  by (intro keeps_intros tables_only_stable)
    (auto simp: any_db_def jobs_ok_insert [OF _ new_job_ok])

lemma keeps_reset_for_retry [keeps_intros]: "keeps jobs_inv (reset_for_retry p)"
  unfolding reset_for_retry_def
  by (intro keeps_intros tables_only_stable)
    (auto simp: any_db_def reset_rows_def Let_def same_keys_def job_ok_updates intro!: jobs_ok_update)

section \<open>The programs keep the invariant\<close>

lemma keeps_job_exists [keeps_intros]: "tables_only P \<Longrightarrow> keeps P (job_exists p)"
  unfolding job_exists_def by (intro keeps_intros tables_only_stable)

lemma keeps_retry_delivery_job: "keeps jobs_inv (retry_delivery_job R p)"
  unfolding retry_delivery_job_def by (intro keeps_intros tables_only_with_db)

lemma keeps_defer_and_ack [keeps_intros]: "keeps jobs_inv (defer_and_ack R s i job n)"
  unfolding defer_and_ack_def by (intro keeps_intros tables_only_with_db)

lemma keeps_settle_job [keeps_intros]: "keeps jobs_inv (settle_job job r)"
  unfolding settle_job_def by (intro keeps_intros)

lemma keeps_case_task_end [keeps_intros]:
  "(x = Finished \<Longrightarrow> keeps P m) \<Longrightarrow> (x = Panicked \<Longrightarrow> keeps P n) \<Longrightarrow> keeps P (case x of Finished \<Rightarrow> m | Panicked \<Rightarrow> n)"
  by (cases x) simp_all

lemma keeps_attempt_delivery [keeps_intros]: "keeps jobs_inv (attempt_delivery E R cfg i s job)"
  unfolding attempt_delivery_def by (intro keeps_intros tables_only_with_db)

lemma keeps_process_one [keeps_intros]: "keeps jobs_inv (process_one E R cfg i p s)"
  unfolding process_one_def blocked_remaining_secs_def open_remaining_secs_def
  by (intro keeps_intros tables_only_with_db)

lemma keeps_outbox_one [keeps_intros]: "keeps jobs_inv (outbox_one R job)"
  unfolding outbox_one_def by (intro keeps_intros tables_only_with_db)

lemma keeps_list_unqueued [keeps_intros]: "tables_only P \<Longrightarrow> keeps P (list_unqueued n)"
  unfolding list_unqueued_def by (intro keeps_intros tables_only_stable)

lemma keeps_outbox_pass: "keeps jobs_inv (outbox_pass R)"
  unfolding outbox_pass_def by (intro keeps_intros tables_only_with_db)

lemma keeps_reclaim_messages [keeps_intros]: "keeps jobs_inv (reclaim_messages E R cfg s ms)"
  by (induction ms) (auto intro!: keeps_intros)

lemma keeps_list_streams [keeps_intros]: "tables_only P \<Longrightarrow> keeps P (list_scheduled_streams R)"
  unfolding list_scheduled_streams_def by (intro keeps_intros keeps_command_tables tables_only_stable)

lemma keeps_xautoclaim [keeps_intros]: "tables_only P \<Longrightarrow> keeps P (xautoclaim R s c n)"
  unfolding xautoclaim_def by (intro keeps_intros keeps_command_tables tables_only_stable)

lemma keeps_reclaim_streams [keeps_intros]: "keeps jobs_inv (reclaim_streams E R cfg ss)"
  by (induction ss) (auto intro!: keeps_intros)

lemma keeps_reclaim_pass: "keeps jobs_inv (reclaim_pass E R cfg)"
  unfolding reclaim_pass_def by (intro keeps_intros tables_only_with_db)

lemma keeps_safe_trim [keeps_intros]: "tables_only P \<Longrightarrow> keeps P (safe_trim_id R s)"
  unfolding safe_trim_id_def xinfo_last_delivered_def
  by (intro keeps_intros keeps_command_tables)
    (auto intro!: keeps_intros keeps_command_tables split: rvalue.splits list.splits sum.splits)

lemma keeps_xtrim [keeps_intros]: "tables_only P \<Longrightarrow> keeps P (xtrim_safe R s)"
  unfolding xtrim_safe_def by (intro keeps_intros keeps_command_tables tables_only_stable)

lemma keeps_trim_pass: "tables_only P \<Longrightarrow> keeps P (trim_pass R)"
  unfolding trim_pass_def by (intro keeps_intros)

lemma keeps_claim_batch: "tables_only P \<Longrightarrow> keeps P (claim_batch R cfg n)"
  unfolding claim_batch_def claim_next_stream_def xreadgroup_single_def remove_stream_if_empty_def
  by (intro keeps_intros keeps_command_tables tables_only_stable)

section \<open>The system\<close>

text \<open>What the processes do, one operation at a time, with the time passing and the outcomes
  of the external calls to come chosen freely in between.\<close>

inductive system_step :: "worker_ext \<Rightarrow> redis_cmds \<Rightarrow> worker_config \<Rightarrow> idgen \<Rightarrow> world \<Rightarrow> world \<Rightarrow> bool" for E R cfg G where
  environment: "w_now w \<le> t \<Longrightarrow> system_step E R cfg G w (w\<lparr>w_now := t, w_outcomes := os\<rparr>)"
| new_job: "system_step E R cfg G w (snd (run_state (create_job G ev ep og s) w))"
| retry_request: "system_step E R cfg G w (snd (run_state (retry_delivery_job R p) w))"
| claim: "system_step E R cfg G w (snd (run_state (claim_batch R cfg n) w))"
| message: "system_step E R cfg G w (snd (run_state (process_one E R cfg i p s) w))"
| outbox: "system_step E R cfg G w (snd (run_state (outbox_pass R) w))"
| reclaim: "system_step E R cfg G w (snd (run_state (reclaim_pass E R cfg) w))"
| trim: "system_step E R cfg G w (snd (run_state (trim_pass R) w))"

inductive_cases system_stepE: "system_step E R cfg G w w'"

lemma any_db_environment: "any_db Q (w\<lparr>w_now := t, w_outcomes := os\<rparr>) = any_db Q w"
  by (simp add: any_db_def)

lemma system_step_keeps: "system_step E R cfg G w w' \<Longrightarrow> jobs_inv w \<Longrightarrow> jobs_inv w'"
  by (erule system_stepE)
    (auto intro: keepsD [OF keeps_create_job] keepsD [OF keeps_retry_delivery_job] keepsD [OF keeps_process_one]
      keepsD [OF keeps_outbox_pass] keepsD [OF keeps_reclaim_pass] keepsD [OF keeps_trim_pass] keepsD [OF keeps_claim_batch]
      simp: any_db_environment)

lemma system_reachable: "(system_step E R cfg G)\<^sup>*\<^sup>* w w' \<Longrightarrow> jobs_inv w \<Longrightarrow> jobs_inv w'"
  by (induction rule: rtranclp_induct) (auto intro: system_step_keeps)

section \<open>A sample\<close>

text \<open>One job for one endpoint, and a client whose calls all succeed.\<close>

definition sample_ext :: worker_ext where
  "sample_ext = \<lparr>wx_crypto = sample_crypto, wx_master_key = ''key'',
     http_config_of = (\<lambda>_. Inr \<lparr>hc_url = ''https://a.example'', hc_method = ''POST'', hc_headers = []\<rparr>),
     json_to_string = (\<lambda>_. Inr ''null''), method_from_bytes = Some, trace_headers = [],
     http_send = (\<lambda>_ _. (HttpResponse 200 None (Some ''ok''), 5000))\<rparr>"

definition sample_secret :: string where
  "sample_secret = ''v1$'' @ hex_encode (replicate 12 (CHR ''r'')) @ ''$'' @ hex_encode (rev ''whsec_QUJD'')"

definition sample_job :: job_row where
  "sample_job = \<lparr>dj_id = ''j1'', dj_public_id = ''dj_1'', dj_event_id = ''e1'', dj_endpoint_id = ''p1'', dj_org_id = ''o1'',
     dj_status = ''pending'', dj_attempt = 0, dj_enqueued_at = Some 0, dj_retry_after = None, dj_max_attempts = 5,
     dj_stream_name = STREAM_DEFAULT, dj_created_at = 0\<rparr>"

definition sample_event :: event_row where
  "sample_event = \<lparr>ev_id = ''e1'', ev_public_id = ''evn_1'', ev_application_id = ''a1'', ev_event_type_id = ''t1'',
     ev_endpoint_id = Some ''p1'', ev_tenant_id = ''n1'', ev_org_id = ''o1'', ev_payload = JNull, ev_payload_type = ''json'',
     ev_idempotency_key = None, ev_body_hash = None, ev_tags = [], ev_request_id = ''r1'', ev_created_by = ''u1'',
     ev_created_at = 0, ev_schema_valid = True, ev_schema_errors = []\<rparr>"

definition sample_endpoint :: endpoint_row where
  "sample_endpoint = \<lparr>ep_id = ''p1'', ep_public_id = ''end_1'', ep_application_id = ''a1'', ep_tenant_id = ''n1'',
     ep_org_id = ''o1'', ep_config = JNull, ep_status = ''active'', ep_rate_limit = None, ep_deleted_at = None,
     ep_description = None, ep_type = ''http'', ep_event_types = [], ep_tags = [], ep_version = 0, ep_request_id = ''r0'', ep_created_by = ''u1'', ep_updated_by = ''u1'', ep_created_at = 0, ep_updated_at = 0\<rparr>"

definition sample_db :: db where
  "sample_db = empty_db\<lparr>delivery_jobs := [sample_job], events := [sample_event], endpoints := [sample_endpoint],
     endpoint_secrets := [\<lparr>es_endpoint_id = ''p1'', es_secret = sample_secret, es_is_active = True, es_expires_at = None,
       es_id = ''s1'', es_public_id = ''sec_1'', es_tenant_id = ''n1'', es_org_id = ''o1'', es_request_id = ''r0'', es_created_by = ''u1'', es_created_at = 0\<rparr>]\<rparr>"

definition sample_worker_job :: worker_job where
  "sample_worker_job = worker_job_of sample_job sample_event sample_endpoint sample_secret"

definition sample_config :: worker_config where
  "sample_config = worker_config_from_env (\<lambda>_. None) 1"

lemma sample_found: "first_row (deliverable_rows ''dj_1'' 0 sample_db) = Some sample_worker_job"
  by (simp add: deliverable_rows_def sample_db_def empty_db_def sample_job_def sample_event_def sample_endpoint_def
      deliverable_status_def current_secret_def usable_secrets_def first_row_def sample_worker_job_def)

lemma sample_decrypt: "decrypt sample_crypto mk t sample_secret = Some (Inr ''whsec_QUJD'')"
proof -
  have "b64url_encode sample_crypto = hex_encode" by (simp add: sample_crypto_def)
  then have eq: "sample_secret = ''v1$'' @ b64url_encode sample_crypto (replicate 12 (CHR ''r'')) @ ''$'' @ b64url_encode sample_crypto (rev ''whsec_QUJD'')"
    by (simp only: sample_secret_def)
  show ?thesis
    unfolding eq sample_library.decrypt_envelope by (simp add: sample_crypto_def from_utf8_def byte_in_def)
qed

lemma sample_calm: "calm sample_ext mem_redis sample_worker_job (start_world sample_db empty_keyspace 0)"
proof -
  have "TTL mem_redis k 0 empty_keyspace = - 2" for k
    by (rule mem_strings.ttl_absent) (simp add: str_at_def empty_keyspace_def)
  then show ?thesis
    by (simp add: calm_def sample_ext_def sample_worker_job_def worker_job_of_def sample_decrypt far_def secs_def)
qed

section \<open>Properties\<close>





text \<open>C2. The job table stays well formed in every reachable state of the system, whatever
  calls fail or lose their replies: job ids and public ids are unique, a status is one of the
  four, a retrying job has a retry time, a delivered one was tried, and every row of the
  attempt log belongs to a job.\<close>

theorem job_table_invariant:
  assumes "(system_step E R cfg G)\<^sup>*\<^sup>* w w'" and "jobs_ok (w_db w)"
  shows "jobs_ok (w_db w')"
  using system_reachable [OF assms(1)] assms(2) by (simp add: any_db_def)

theorem job_table_invariant_witness:
  "jobs_ok (w_db (snd (run_state (outbox_pass mem_redis) (start_world sample_db empty_keyspace 0))))"
proof (rule job_table_invariant)
  show "(system_step sample_ext mem_redis sample_config sample_idgen)\<^sup>*\<^sup>* (start_world sample_db empty_keyspace 0)
      (snd (run_state (outbox_pass mem_redis) (start_world sample_db empty_keyspace 0)))"
    by (rule r_into_rtranclp, rule outbox)
  show "jobs_ok (w_db (start_world sample_db empty_keyspace 0))"
    by (simp add: jobs_ok_def sample_db_def empty_db_def sample_job_def job_ok_def job_statuses_def)
qed

end
