(* ===== verification/Worker_Faults.thy ===== *)
theory Worker_Faults
  imports Job_Lifecycle
begin

text \<open>
  The worker at its edges: messages for jobs that are no longer deliverable, reads that fail,
  the outbox, and the sequences of events after which a job is delivered twice, reopened or
  never taken up again.
\<close>

section \<open>Lemmas\<close>

text \<open>A job that no outbox scan, now or later, will take up although it is not settled.\<close>

definition forgotten :: "job_row \<Rightarrow> bool" where
  "forgotten j \<longleftrightarrow> deliverable_status (dj_status j) \<and> (\<forall>t. \<not> unqueued t j)"

lemma forgotten_iff: "deliverable_status (dj_status j) \<Longrightarrow> dj_enqueued_at j \<noteq> None \<Longrightarrow> forgotten j"
  by (auto simp: forgotten_def unqueued_def)

lemma run_mark_enqueued:
  "no_faults w \<Longrightarrow> run_state (mark_enqueued i) w =
     (Inr (), w\<lparr>w_db := set_job i (\<lambda>j. j\<lparr>dj_enqueued_at := Some (w_now w)\<rparr>) (w_db w)\<rparr>)"
  by (simp add: mark_enqueued_def run_update_job)

lemma run_xack_ok: "no_faults w \<Longrightarrow> run_state (Queue.xack R s i) w = (Inr (), w\<lparr>w_ks := XACK R s GROUP i (w_ks w)\<rparr>)"
  by (simp add: Queue.xack_def run_simps)

lemma statement_refused:
  "w_outcomes w = Refused e # os \<Longrightarrow> run_state (statement q) w = (Inl (OtherSqlx e), w\<lparr>w_outcomes := os\<rparr>)"
  by (simp add: statement_def run_simps)

lemma update_job_refused:
  "w_outcomes w = Refused e # os \<Longrightarrow> run_state (update_job i f) w = (Inl (Database (OtherSqlx e)), w\<lparr>w_outcomes := os\<rparr>)"
  by (simp add: update_job_def run_simps statement_refused)

lemma set_job_cong: "delivery_jobs d = delivery_jobs d' \<Longrightarrow> delivery_jobs (set_job i f d) = delivery_jobs (set_job i f d')"
  by (simp add: set_job_def)

text \<open>Nothing the worker does makes calls fail.\<close>

lemma quiet_update_job [keeps_intros]: "keeps (with_db (\<lambda>_. True)) (update_job i f)"
  unfolding update_job_def by (intro keeps_intros tables_only_stable) (simp_all add: with_db_def)

lemma quiet_process_one: "keeps (with_db (\<lambda>_. True)) (process_one E R cfg i p s)"
  unfolding process_one_def defer_and_ack_def attempt_delivery_def settle_job_def insert_attempt_def
    complete_job_def fail_job_def defer_job_def schedule_retry_def blocked_remaining_secs_def open_remaining_secs_def
  by (intro keeps_intros tables_only_with_db tables_only_stable) (simp_all add: with_db_def)

lemma process_one_no_faults: "no_faults w \<Longrightarrow> no_faults (snd (run_state (process_one E R cfg i p s) w))"
  using keepsD [OF quiet_process_one, of w] by (simp add: with_db_def)

section \<open>The outbox\<close>

text \<open>The job has a message in its stream and the stream is scheduled.\<close>

definition published :: "keyspace \<Rightarrow> string \<Rightarrow> string \<Rightarrow> bool" where
  "published ks s p \<longleftrightarrow> (\<exists>i. (i, [(''j'', p)]) \<in> set (entries (stream_of ks s))) \<and> scheduled ks s"

context redis_server
begin

lemma run_enqueue:
  assumes "no_faults w"
  shows "\<exists>i. top_id (stream_of (w_ks w) s) < i \<and> run_state (enqueue R s p) w = (Inr (), w\<lparr>w_ks := put_stream s ((stream_of (w_ks w) s)
    \<lparr>entries := entries (stream_of (w_ks w) s) @ [(i, [(''j'', p)])], top_id := i\<rparr>) (w_ks w)\<rparr>)"
proof -
  obtain i where "top_id (stream_of (w_ks w) s) < i" and x: "XADD R s [(''j'', p)] (w_now w) (w_ks w) = (sid_str i, put_stream s
      ((stream_of (w_ks w) s)\<lparr>entries := entries (stream_of (w_ks w) s) @ [(i, [(''j'', p)])], top_id := i\<rparr>) (w_ks w))"
    using xadd [of "w_ks w" s "[(''j'', p)]" "w_now w"] by (elim exE conjE)
  with assms show ?thesis by (intro exI [of _ i]) (simp add: enqueue_def run_simps)
qed

lemma run_register:
  "no_faults w \<Longrightarrow> run_state (register_stream R s) w =
     (Inr (), w\<lparr>w_ks := put_zset STREAM_SET_KEY (z_add ZNx 0 s (zsets (w_ks w) STREAM_SET_KEY)) (w_ks w)\<rparr>)"
  by (simp add: register_stream_def run_simps zadd)

lemma outbox_one_effect:
  assumes "no_faults w" and "zset_ok (zsets (w_ks w) STREAM_SET_KEY)"
  shows "case run_state (outbox_one R u) w of (_, w') \<Rightarrow> no_faults w' \<and> zset_ok (zsets (w_ks w') STREAM_SET_KEY) \<and>
    w_now w' = w_now w \<and> published (w_ks w') (uj_stream_name u) (uj_public_id u) \<and>
    (\<forall>s p. published (w_ks w) s p \<longrightarrow> published (w_ks w') s p) \<and>
    w_db w' = set_job (uj_id u) (\<lambda>j. j\<lparr>dj_enqueued_at := Some (w_now w)\<rparr>) (w_db w)"
proof -
  let ?s = "uj_stream_name u" and ?z = "zsets (w_ks w) STREAM_SET_KEY"
  obtain i where enq: "run_state (enqueue R ?s (uj_public_id u)) w = (Inr (), w\<lparr>w_ks := put_stream ?s ((stream_of (w_ks w) ?s)
    \<lparr>entries := entries (stream_of (w_ks w) ?s) @ [(i, [(''j'', uj_public_id u)])], top_id := i\<rparr>) (w_ks w)\<rparr>)"
    using run_enqueue [OF assms(1)] by blast
  have sch: "z_score (z_add ZNx 0 ?s ?z) x = (if x = ?s \<and> z_score ?z x = None then Some 0 else z_score ?z x)" for x
    using assms(2) by auto
  show ?thesis
    using assms sch
    by (cases i) (auto simp: outbox_one_def run_simps enq run_register run_mark_enqueued published_def scheduled_def zset_ok_add
        simp del: z_add.simps)
qed

lemma outbox_each:
  assumes "no_faults w" and "zset_ok (zsets (w_ks w) STREAM_SET_KEY)"
  shows "case run_state (for_each us (outbox_one R)) w of (_, w') \<Rightarrow>
    (\<forall>s p. published (w_ks w) s p \<longrightarrow> published (w_ks w') s p) \<and>
    (\<forall>u\<in>set us. published (w_ks w') (uj_stream_name u) (uj_public_id u)) \<and>
    delivery_jobs (w_db w') = update_where (\<lambda>j. dj_id j \<in> uj_id ` set us) (\<lambda>j. j\<lparr>dj_enqueued_at := Some (w_now w)\<rparr>) (delivery_jobs (w_db w))"
  using assms
proof (induction us arbitrary: w)
  case Nil
  then show ?case by (simp add: run_simps update_where_none)
next
  case (Cons u us)
  let ?w = "snd (run_state (outbox_one R u) w)"
  have one: "no_faults ?w" "zset_ok (zsets (w_ks ?w) STREAM_SET_KEY)" "w_now ?w = w_now w"
      "published (w_ks ?w) (uj_stream_name u) (uj_public_id u)" "\<forall>s p. published (w_ks w) s p \<longrightarrow> published (w_ks ?w) s p"
      "delivery_jobs (w_db ?w) = update_where (\<lambda>j. dj_id j = uj_id u) (\<lambda>j. j\<lparr>dj_enqueued_at := Some (w_now w)\<rparr>) (delivery_jobs (w_db w))"
    using outbox_one_effect [OF Cons.prems, of u] by (auto simp: case_prod_beta set_job_def)
  have "update_where (\<lambda>j. dj_id j \<in> A) f (update_where (\<lambda>j. dj_id j = i) f xs) = update_where (\<lambda>j. dj_id j \<in> insert i A) f xs"
    if "f = (\<lambda>j. j\<lparr>dj_enqueued_at := Some t\<rparr>)" for A i f t and xs :: "job_row list"
    using that by (induction xs) auto
  with one Cons.IH [OF one(1,2)] show ?case
    by (simp add: run_simps case_prod_beta)
qed

end

section \<open>Properties\<close>

text \<open>The backoff is the capped exponential \<open>min (30 * 2^attempt) 3600\<close> for every attempt
  below 63, so it grows from 30 seconds to an hour and never shrinks; from attempt 63 on the
  64-bit product is zero and the retry is immediate.\<close>

theorem backoff_is_capped_exponential:
  assumes "0 \<le> a" and "a < 2 ^ 31"
  shows "backoff_secs a = (if a < 63 then min (30 * 2 ^ nat a) 3600 else 0)"
  using assms backoff_small [of a] backoff_wraps [of a] by simp

theorem backoff_is_capped_exponential_witness:
  "map backoff_secs [0, 1, 6, 7, 62, 63] = [30, 60, 1920, 3600, 3600, 0]"
  using backoff_is_capped_exponential [of 0] backoff_is_capped_exponential [of 1] backoff_is_capped_exponential [of 6]
    backoff_is_capped_exponential [of 7] backoff_is_capped_exponential [of 62] backoff_is_capped_exponential [of 63]
  by simp

text \<open>A message whose job is settled, unknown or has no active endpoint is acknowledged and
  changes no table; a message whose job could not be read is left pending with nothing
  changed, so that \<open>XAUTOCLAIM\<close> finds it again.\<close>

theorem process_one_without_job:
  assumes "redis_streams R"
  shows "(no_faults w \<and> first_row (deliverable_rows p (w_now w) (w_db w)) = None \<longrightarrow>
      (case run_state (process_one E R cfg i p s) w of (r, w') \<Rightarrow> r = Finished \<and> w_db w' = w_db w \<and> acked s i w'))
    \<and> (w_outcomes w = Refused e # os \<longrightarrow>
      run_state (process_one E R cfg i p s) w = (Finished, w\<lparr>w_outcomes := os\<rparr>))"
  using redis_streams.acked_XACK [OF assms]
  by (simp add: process_one_def get_job_for_delivery_def run_simps run_xack_ok query_def statement_refused)

theorem process_one_without_job_witness:
  "(case run_state (process_one sample_ext mem_redis sample_config ''1-0'' ''dj_9'' STREAM_DEFAULT)
      (start_world sample_db sample_keyspace 0) of (r, w') \<Rightarrow> r = Finished \<and> w_db w' = sample_db \<and> acked STREAM_DEFAULT ''1-0'' w')"
  using process_one_without_job [OF mem_streams.redis_streams_axioms, of "start_world sample_db sample_keyspace 0" "''dj_9''",
      THEN conjunct1]
  by (simp add: deliverable_rows_def sample_db_def empty_db_def sample_job_def first_row_def)



text \<open>A late \<open>mark_enqueued\<close> loses the job: a publisher adds the message first and marks the
  row afterwards; when a worker has processed the message in between and put the job back for
  a retry, the mark makes the row look enqueued although its message is acknowledged, and no
  scan of the outbox will ever take it up.\<close>

theorem late_mark_loses_job:
  assumes "redis_streams R" and "no_faults w" and "calm E R job w"
    and "first_row (deliverable_rows p (w_now w) (w_db w)) = Some job"
    and "run_state (process_one E R cfg i p s) w = (r, w1)"
  shows "acked s i w1 \<and> every_job (\<lambda>j. dj_status j \<in> {''success'', ''failed''} \<or> forgotten j) (wj_job_id job)
    (w_db (snd (run_state (mark_enqueued (wj_job_id job)) w1)))"
proof -
  have nf: "no_faults w1" using process_one_no_faults [OF assms(2), of E R cfg i p s] assms(5) by simp
  have "process_effect job (w_db w) (w_db w1)" and ack: "acked s i w1"
    using redis_streams.process_one_found [OF assms(1,2,4,3), where cfg = cfg and i = i and s = s] assms(5) by simp_all
  then have "every_job (\<lambda>j. dj_status j \<in> {''success'', ''failed'', ''retrying''} \<and> dj_enqueued_at j \<noteq> None) (wj_job_id job)
      (w_db (snd (run_state (mark_enqueued (wj_job_id job)) w1)))"
    using nf unfolding every_job_def
    by (elim process_effectE) (auto simp: run_mark_enqueued set_job_def log_attempt_def set_update_where split: if_splits)
  moreover have "dj_status j \<in> {''success'', ''failed''} \<or> forgotten j"
    if "dj_status j \<in> {''success'', ''failed'', ''retrying''} \<and> dj_enqueued_at j \<noteq> None" for j
    using that by (auto intro: forgotten_iff simp: deliverable_status_def)
  ultimately show ?thesis using ack unfolding every_job_def by blast
qed

text \<open>A stale worker reopens a delivered job: the statements that settle a job do not look
  at its status, so a worker that read the job before another one delivered it and whose own
  attempt fails puts the delivered job back to retrying, to be delivered again.\<close>

theorem stale_worker_reopens_delivered_job:
  assumes "no_faults w" and "utc_plus (w_now w) (backoff_secs (wj_attempt job)) \<noteq> None"
    and "dr_status result \<noteq> Success" and "wj_attempt job + 1 < wj_max_attempts job"
    and "j \<in> set (delivery_jobs (w_db w))" and "dj_id j = wj_job_id job" and "dj_status j = ''success''"
  shows "\<exists>j'\<in>set (delivery_jobs (w_db (snd (run_state (settle_job job result) w)))).
    dj_id j' = dj_id j \<and> dj_status j' = ''retrying'' \<and> (\<exists>t. unqueued t j')"
proof -
  obtain r where r: "utc_plus (w_now w) (backoff_secs (wj_attempt job)) = Some r" using assms(2) by blast
  let ?f = "\<lambda>j. j\<lparr>dj_status := ''retrying'', dj_attempt := dj_attempt j + 1, dj_retry_after := Some r, dj_enqueued_at := None\<rparr>"
  have "\<not> is_success (dr_status result)" using assms(3) by (cases "dr_status result") auto
  then have "w_db (snd (run_state (settle_job job result) w)) = set_job (wj_job_id job) ?f (w_db w)"
    using assms r by (simp add: settle_job_def schedule_retry_def run_simps run_update_job)
  moreover have "?f j \<in> set (delivery_jobs (set_job (wj_job_id job) ?f (w_db w)))"
    using assms(5,6) by (force simp: set_job_def set_update_where)
  moreover have "unqueued r (?f j)" by (simp add: unqueued_def)
  ultimately show ?thesis by (intro bexI [of _ "?f j"]) auto
qed

definition failing_ext :: worker_ext where
  "failing_ext = sample_ext\<lparr>http_send := (\<lambda>_ _. (HttpResponse 500 None None, 5000))\<rparr>"

lemma failing_calm: "calm failing_ext mem_redis sample_worker_job (start_world sample_db empty_keyspace 0)"
  using sample_calm by (simp add: calm_def failing_ext_def sample_ext_def)

theorem late_mark_loses_job_witness:
  "every_job (\<lambda>j. dj_status j \<in> {''success'', ''failed''} \<or> forgotten j) ''j1'' (w_db (snd (run_state (mark_enqueued ''j1'')
      (snd (run_state (process_one failing_ext mem_redis sample_config ''1-0'' ''dj_1'' STREAM_DEFAULT)
        (start_world sample_db empty_keyspace 0))))))"
proof -
  let ?m = "process_one failing_ext mem_redis sample_config ''1-0'' ''dj_1'' STREAM_DEFAULT"
  have i: "wj_job_id sample_worker_job = ''j1''" by (simp add: sample_worker_job_def worker_job_of_def sample_job_def)
  show ?thesis
    using late_mark_loses_job [OF mem_streams.redis_streams_axioms _ failing_calm, of "''dj_1''" sample_config "''1-0''" STREAM_DEFAULT
        "fst (run_state ?m (start_world sample_db empty_keyspace 0))" "snd (run_state ?m (start_world sample_db empty_keyspace 0))"] i
    by (simp add: sample_found)
qed

theorem stale_worker_reopens_delivered_job_witness:
  "\<exists>j'\<in>set (delivery_jobs (w_db (snd (run_state (settle_job sample_worker_job (classify (HttpResponse 500 None None) 5))
      (start_world (sample_db\<lparr>delivery_jobs := [sample_job\<lparr>dj_status := ''success''\<rparr>]\<rparr>) empty_keyspace 0))))).
    dj_id j' = ''j1'' \<and> dj_status j' = ''retrying'' \<and> (\<exists>t. unqueued t j')"
  using stale_worker_reopens_delivered_job [of "start_world (sample_db\<lparr>delivery_jobs := [sample_job\<lparr>dj_status := ''success''\<rparr>]\<rparr>) empty_keyspace 0"
      sample_worker_job "classify (HttpResponse 500 None None) 5" "sample_job\<lparr>dj_status := ''success''\<rparr>"]
  by (simp add: sample_worker_job_def worker_job_of_def sample_job_def utc_plus_def MAX_UTC_def secs_def backoff_small)

text \<open>C34. The outbox is complete: a pass without faults gives each of the up to five hundred
  oldest jobs that are due a message in its stream, leaves that stream scheduled, and stamps
  exactly those rows as enqueued.\<close>

theorem outbox_pass_publishes_due_jobs:
  assumes "redis_server R" and "no_faults w" and "zset_ok (zsets (w_ks w) STREAM_SET_KEY)"
    and "due = take 500 (sort_key dj_created_at (filter (unqueued (w_now w)) (delivery_jobs (w_db w))))"
  shows "case run_state (outbox_pass R) w of (_, w') \<Rightarrow>
    (\<forall>j\<in>set due. published (w_ks w') (dj_stream_name j) (dj_public_id j)) \<and>
    delivery_jobs (w_db w') = update_where (\<lambda>j. dj_id j \<in> dj_id ` set due)
      (\<lambda>j. j\<lparr>dj_enqueued_at := Some (w_now w)\<rparr>) (delivery_jobs (w_db w))"
proof -
  let ?u = "\<lambda>j. \<lparr>uj_id = dj_id j, uj_public_id = dj_public_id j, uj_stream_name = dj_stream_name j\<rparr>"
  have "run_state (list_unqueued 500) w = (Inr (map ?u due), w)"
    using assms(2,4) by (simp add: list_unqueued_def run_simps take_map)
  moreover have "uj_id ` ?u ` set due = dj_id ` set due" by (auto simp: image_iff)
  ultimately show ?thesis
    using redis_server.outbox_each [OF assms(1-3), of "map ?u due"]
    by (simp add: outbox_pass_def run_simps case_prod_beta)
qed

theorem outbox_pass_publishes_due_jobs_witness:
  "published (w_ks (snd (run_state (outbox_pass mem_redis)
     (start_world (sample_db\<lparr>delivery_jobs := [sample_job\<lparr>dj_enqueued_at := None\<rparr>]\<rparr>) empty_keyspace (secs 6))))) STREAM_DEFAULT ''dj_1''"
  using outbox_pass_publishes_due_jobs [OF mem_server.redis_server_axioms, of
      "start_world (sample_db\<lparr>delivery_jobs := [sample_job\<lparr>dj_enqueued_at := None\<rparr>]\<rparr>) empty_keyspace (secs 6)"
      "[sample_job\<lparr>dj_enqueued_at := None\<rparr>]"]
  by (simp add: empty_keyspace_def unqueued_def sample_job_def secs_def case_prod_beta)

text \<open>An oversized \<open>Retry-After\<close> poisons the worker: while an endpoint is blocked for longer
  than the date type can represent, processing any of its messages panics, with nothing
  recorded and the message left unacknowledged, and the reclaim loop, which awaits it, ends.\<close>

theorem oversized_block_panics:
  assumes "no_faults w" and "first_row (deliverable_rows p (w_now w) (w_db w)) = Some job"
    and "MAX_UTC < w_now w + secs (TTL R (blocked_key (wj_endpoint_id job)) (w_now w) (w_ks w))"
    and "0 < TTL R (blocked_key (wj_endpoint_id job)) (w_now w) (w_ks w)"
  shows "run_state (process_one E R cfg i p s) w = (Panicked, w) \<and>
    run_state (reclaim_messages E R cfg s ((i, p) # ms)) w = (Panicked, w)"
proof -
  have "run_state (blocked_remaining_secs R (wj_endpoint_id job)) w =
      (Some (TTL R (blocked_key (wj_endpoint_id job)) (w_now w) (w_ks w)), w)"
    using assms(1,4) by (simp add: blocked_remaining_secs_def ttl_query_def run_simps Let_def)
  moreover have "utc_plus (w_now w) (TTL R (blocked_key (wj_endpoint_id job)) (w_now w) (w_ks w)) = None"
    using assms(3) by (simp add: utc_plus_def)
  moreover have "max (TTL R (blocked_key (wj_endpoint_id job)) (w_now w) (w_ks w)) 1 =
      TTL R (blocked_key (wj_endpoint_id job)) (w_now w) (w_ks w)" using assms(4) by simp
  ultimately show ?thesis
    using assms(1,2) by (simp add: process_one_def get_job_for_delivery_def run_simps defer_and_ack_def)
qed

theorem oversized_block_panics_witness:
  "run_state (process_one sample_ext mem_redis sample_config ''1-0'' ''dj_1'' STREAM_DEFAULT)
     (start_world sample_db (put_str (blocked_key ''p1'') (''1'', Some (secs 8300000000000)) empty_keyspace) 0) =
   (Panicked, start_world sample_db (put_str (blocked_key ''p1'') (''1'', Some (secs 8300000000000)) empty_keyspace) 0)"
proof -
  let ?ks = "put_str (blocked_key ''p1'') (''1'', Some (secs 8300000000000)) empty_keyspace"
  have "secs 8300000000000 - 0 < secs (TTL mem_redis (blocked_key ''p1'') 0 ?ks) + secs 1"
    using mem_strings.ttl_remaining [of ?ks 0 "blocked_key ''p1''" "''1''" "secs 8300000000000"] by simp
  moreover have "wj_endpoint_id sample_worker_job = ''p1''"
    by (simp add: sample_worker_job_def worker_job_of_def sample_job_def)
  ultimately show ?thesis
    using oversized_block_panics [of "start_world sample_db ?ks 0" "''dj_1''" sample_worker_job mem_redis sample_ext sample_config
        "''1-0''" STREAM_DEFAULT "[]", THEN conjunct1]
    by (simp add: sample_found MAX_UTC_def secs_def)
qed

end
