(* ===== verification/Event_Props.thy ===== *)
theory Event_Props
  imports Events Worker_Faults
begin

text \<open>
  What publishing an event guarantees: one delivery job per active subscription, each with a
  message in a scheduled stream; idempotent replays; the accounting of bulk requests; paging.
\<close>

section \<open>Fan-out\<close>

definition tier_of :: "uuid \<Rightarrow> db \<Rightarrow> string" where
  "tier_of org d = (case select_tier org d of Inr (Some t) \<Rightarrow> t | _ \<Rightarrow> ''default'')"

definition job_name :: "idgen \<Rightarrow> time \<Rightarrow> nat \<Rightarrow> string" where
  "job_name G t n = ''dj_'' @ encode_ts (unix_millis t) @ rand_of G n 8"

text \<open>The identifiers still to be generated are new and all different.\<close>

definition ids_fresh :: "idgen \<Rightarrow> time \<Rightarrow> nat \<Rightarrow> db \<Rightarrow> bool" where
  "ids_fresh G t n d \<longleftrightarrow> inj_on (uuid_of G) {n..} \<and> inj_on (\<lambda>m. rand_of G m 8) {n..} \<and>
     (\<forall>m\<ge>n. uuid_of G m \<notin> dj_id ` set (delivery_jobs d) \<and> job_name G t m \<notin> dj_public_id ` set (delivery_jobs d))"

text \<open>The job made with the identifiers number \<open>n\<close> and \<open>n + 1\<close>, enqueued at once.\<close>

definition enqueued_job :: "idgen \<Rightarrow> time \<Rightarrow> nat \<Rightarrow> uuid \<Rightarrow> uuid \<Rightarrow> string \<Rightarrow> uuid \<Rightarrow> job_row" where
  "enqueued_job G t n ev org s ep = (new_job_row (uuid_of G (Suc n)) (job_name G t n) ev ep org s t)\<lparr>dj_enqueued_at := Some t\<rparr>"

fun enqueued_jobs :: "idgen \<Rightarrow> time \<Rightarrow> nat \<Rightarrow> uuid \<Rightarrow> uuid \<Rightarrow> string \<Rightarrow> uuid list \<Rightarrow> job_row list" where
  "enqueued_jobs G t n ev org s [] = []"
| "enqueued_jobs G t n ev org s (ep # eps) = enqueued_job G t n ev org s ep # enqueued_jobs G t (n + 2) ev org s eps"

lemma ids_freshD:
  assumes "ids_fresh G t n d" and "x \<in> set (delivery_jobs d)" and "n \<le> m"
  shows "dj_id x \<noteq> uuid_of G m" and "dj_public_id x \<noteq> job_name G t m"
  using assms unfolding ids_fresh_def by (metis imageI)+

lemma run_get_org_tier: "no_faults w \<Longrightarrow> run_state (get_org_tier org) w = (tier_of org (w_db w), w)"
  by (auto simp: get_org_tier_def run_simps tier_of_def split: sum.splits)

lemma run_create_job:
  fixes org :: uuid and s :: string
  assumes "no_faults w" and "ids_fresh G (w_now w) (w_ids w) (w_db w)"
    and "\<exists>e\<in>set (events (w_db w)). ev_id e = ev" and "\<exists>e\<in>set (endpoints (w_db w)). ep_id e = ep"
  defines "j \<equiv> new_job_row (uuid_of G (Suc (w_ids w))) (job_name G (w_now w) (w_ids w)) ev ep org s (w_now w)"
  shows "run_state (create_job G ev ep org s) w = (Inr j,
    w\<lparr>w_ids := w_ids w + 2, w_db := (w_db w)\<lparr>delivery_jobs := delivery_jobs (w_db w) @ [j]\<rparr>\<rparr>)"
proof -
  let ?d = "w_db w"
  have "\<not> (\<exists>x\<in>set (delivery_jobs ?d). dj_id x = dj_id j)" "\<not> (\<exists>x\<in>set (delivery_jobs ?d). dj_public_id x = dj_public_id j)"
    using ids_freshD [OF assms(2)] by (auto simp: j_def new_job_row_def)
  then have "insert_job j ?d = (Inr j, ?d\<lparr>delivery_jobs := delivery_jobs ?d @ [j]\<rparr>)"
    using assms(3,4) by (simp add: insert_job_def j_def new_job_row_def)
  with assms(1) show ?thesis
    by (simp add: create_job_def new_job_public_id_def nano_id_new_def generate_def run_simps Let_def j_def job_name_def)
qed

lemma ids_fresh_append:
  assumes "ids_fresh G t n d" and "dj_id j = uuid_of G (Suc n)" and "dj_public_id j = job_name G t n"
  shows "ids_fresh G t (n + 2) (d\<lparr>delivery_jobs := delivery_jobs d @ [j]\<rparr>)"
proof -
  have "inj_on (uuid_of G) {n..}" "inj_on (\<lambda>m. rand_of G m 8) {n..}" using assms(1) by (auto simp: ids_fresh_def)
  then have "m \<ge> n + 2 \<Longrightarrow> uuid_of G m \<noteq> uuid_of G (Suc n) \<and> job_name G t m \<noteq> job_name G t n" for m
    by (force simp: job_name_def dest: inj_onD)
  then show ?thesis using assms by (force simp: ids_fresh_def intro: inj_on_subset)
qed

context redis_server
begin

lemma enqueue_delivery_run:
  fixes org :: uuid
  assumes "no_faults w" and "zset_ok (zsets (w_ks w) STREAM_SET_KEY)" and "ids_fresh G (w_now w) (w_ids w) (w_db w)"
    and "\<exists>e\<in>set (events (w_db w)). ev_id e = ev" and "\<exists>e\<in>set (endpoints (w_db w)). ep_id e = ep"
  defines "s \<equiv> stream_for_tier (tier_of org (w_db w)) org"
  shows "\<exists>ks. run_state (enqueue_delivery R G ev ep org) w = ((), w\<lparr>w_ids := w_ids w + 2, w_ks := ks, w_db := (w_db w)
      \<lparr>delivery_jobs := delivery_jobs (w_db w) @ [enqueued_job G (w_now w) (w_ids w) ev org s ep]\<rparr>\<rparr>) \<and>
    zset_ok (zsets ks STREAM_SET_KEY) \<and> published ks s (job_name G (w_now w) (w_ids w)) \<and>
    (\<forall>x p. published (w_ks w) x p \<longrightarrow> published ks x p)"
proof -
  define j where "j = new_job_row (uuid_of G (Suc (w_ids w))) (job_name G (w_now w) (w_ids w)) ev ep org s (w_now w)"
  define d1 where "d1 = (w_db w)\<lparr>delivery_jobs := delivery_jobs (w_db w) @ [j]\<rparr>"
  define w1 where "w1 = w\<lparr>w_ids := w_ids w + 2, w_db := d1\<rparr>"
  have w1: "no_faults w1" "w_ks w1 = w_ks w" "w_db w1 = d1" "w_now w1 = w_now w"
    using assms(1) by (simp_all add: w1_def)
  have cj: "run_state (create_job G ev ep org s) w = (Inr j, w1)"
    unfolding j_def w1_def d1_def using assms by (intro run_create_job) auto
  obtain i where enq: "run_state (enqueue R s (dj_public_id j)) w1 = (Inr (), w1\<lparr>w_ks := put_stream s ((stream_of (w_ks w) s)
      \<lparr>entries := entries (stream_of (w_ks w) s) @ [(i, [(''j'', dj_public_id j)])], top_id := i\<rparr>) (w_ks w)\<rparr>)"
    using run_enqueue [of w1 s "dj_public_id j"] w1 by auto
  have "\<forall>x\<in>set (delivery_jobs (w_db w)). dj_id x \<noteq> dj_id j"
    using ids_freshD [OF assms(3)] by (auto simp: j_def new_job_row_def)
  then have mark: "set_job (dj_id j) (\<lambda>x. x\<lparr>dj_enqueued_at := Some (w_now w)\<rparr>) d1 =
      (w_db w)\<lparr>delivery_jobs := delivery_jobs (w_db w) @ [enqueued_job G (w_now w) (w_ids w) ev org s ep]\<rparr>"
    by (simp add: set_job_def update_where_none j_def enqueued_job_def d1_def)
  define ks where "ks = put_zset STREAM_SET_KEY (z_add ZNx 0 s (zsets (w_ks w) STREAM_SET_KEY)) (put_stream s ((stream_of (w_ks w) s)
      \<lparr>entries := entries (stream_of (w_ks w) s) @ [(i, [(''j'', dj_public_id j)])], top_id := i\<rparr>) (w_ks w))"
  have "run_state (enqueue_delivery R G ev ep org) w =
      ((), w1\<lparr>w_ks := ks, w_db := set_job (dj_id j) (\<lambda>x. x\<lparr>dj_enqueued_at := Some (w_now w)\<rparr>) d1\<rparr>)"
    using assms(1) w1
    by (simp add: enqueue_delivery_def Let_def run_simps run_get_org_tier s_def [symmetric] cj enq run_mark_enqueued run_register
        ks_def del: z_add.simps)
  moreover have "z_score (z_add ZNx 0 s z) x = (if x = s \<and> z_score z x = None then Some 0 else z_score z x)" if "zset_ok z" for x z
    using that by auto
  then have "zset_ok (zsets ks STREAM_SET_KEY) \<and> published ks s (dj_public_id j) \<and> (\<forall>x p. published (w_ks w) x p \<longrightarrow> published ks x p)"
    using assms(2) by (cases i) (auto simp: ks_def published_def scheduled_def simp del: z_add.simps)
  ultimately show ?thesis
    unfolding mark by (intro exI [of _ ks]) (simp add: w1_def j_def new_job_row_def)
qed

lemma fan_out_run:
  fixes org :: uuid
  assumes "no_faults w" and "zset_ok (zsets (w_ks w) STREAM_SET_KEY)" and "ids_fresh G (w_now w) (w_ids w) (w_db w)"
    and "\<exists>e\<in>set (events (w_db w)). ev_id e = ev" and "\<forall>ep\<in>set eps. \<exists>e\<in>set (endpoints (w_db w)). ep_id e = ep"
  defines "s \<equiv> stream_for_tier (tier_of org (w_db w)) org"
  shows "case run_state (for_each eps (\<lambda>ep. enqueue_delivery R G ev ep org)) w of (_, w') \<Rightarrow>
    w_db w' = (w_db w)\<lparr>delivery_jobs := delivery_jobs (w_db w) @ enqueued_jobs G (w_now w) (w_ids w) ev org s eps\<rparr> \<and>
    (\<forall>j\<in>set (enqueued_jobs G (w_now w) (w_ids w) ev org s eps). published (w_ks w') s (dj_public_id j)) \<and>
    (\<forall>x p. published (w_ks w) x p \<longrightarrow> published (w_ks w') x p)"
  using assms(1-5) unfolding s_def
proof (induction eps arbitrary: w)
  case Nil
  then show ?case by (simp add: run_simps)
next
  case (Cons ep eps)
  let ?s = "stream_for_tier (tier_of org (w_db w)) org"
  let ?j = "enqueued_job G (w_now w) (w_ids w) ev org ?s ep"
  obtain ks where ks: "run_state (enqueue_delivery R G ev ep org) w = ((), w\<lparr>w_ids := w_ids w + 2, w_ks := ks, w_db := (w_db w)
      \<lparr>delivery_jobs := delivery_jobs (w_db w) @ [?j]\<rparr>\<rparr>)" "zset_ok (zsets ks STREAM_SET_KEY)"
      "published ks ?s (job_name G (w_now w) (w_ids w))" "\<forall>x p. published (w_ks w) x p \<longrightarrow> published ks x p"
    using enqueue_delivery_run [OF Cons.prems(1-4), of ep org] Cons.prems(5) by auto
  let ?w = "w\<lparr>w_ids := w_ids w + 2, w_ks := ks, w_db := (w_db w)\<lparr>delivery_jobs := delivery_jobs (w_db w) @ [?j]\<rparr>\<rparr>"
  have t: "tier_of org (w_db ?w) = tier_of org (w_db w)" by (simp add: tier_of_def select_tier_def)
  have "ids_fresh G (w_now ?w) (w_ids ?w) (w_db ?w)"
    using ids_fresh_append [OF Cons.prems(3), of ?j] by (simp add: enqueued_job_def new_job_row_def)
  note IH = Cons.IH [of ?w, unfolded t, OF _ _ this]
  have "dj_public_id ?j = job_name G (w_now w) (w_ids w)" by (simp add: enqueued_job_def new_job_row_def)
  with IH ks Cons.prems show ?case by (simp add: run_simps case_prod_beta)
qed

end

lemma enqueued_jobs_endpoints: "map dj_endpoint_id (enqueued_jobs G t n ev org s eps) = eps"
  by (induction eps arbitrary: n) (auto simp: enqueued_job_def new_job_row_def)

lemma enqueued_jobs_sel: "j \<in> set (enqueued_jobs G t n ev org s eps) \<Longrightarrow>
    dj_event_id j = ev \<and> dj_status j = ''pending'' \<and> dj_enqueued_at j = Some t \<and> dj_stream_name j = s"
  by (induction eps arbitrary: n) (auto simp: enqueued_job_def new_job_row_def)

section \<open>Idempotency\<close>

lemma run_release_lock:
  assumes "redis_strings R" and "no_faults w"
  shows "\<exists>ks. run_state (release_lock R ns key tok) w = ((), w\<lparr>w_ks := ks\<rparr>) \<and> strs ks =
    (if holder (lock_key ns key) w = Some tok then (strs (w_ks w))(lock_key ns key := None) else strs (w_ks w))"
  using assms redis_strings.release_script_own [OF assms(1), of "w_ks w" "w_now w" "lock_key ns key" tok]
    redis_strings.release_script_other [OF assms(1), of "w_ks w" "w_now w" "lock_key ns key" tok]
  by (cases "holder (lock_key ns key) w = Some tok")
    (auto simp: release_lock_def run_simps case_prod_beta holder_def intro: exI [of _ "w_ks w"])

lemma replay_run:
  assumes "redis_strings R" and "no_faults w" and "holder (lock_key ''events'' key) w = None"
    and "first_row (List.map_filter (view_event (w_db w)) (filter (fresh_key (w_now w) (ar_id app) key) (events (w_db w)))) = Some v"
  shows "case run_state (publish_idempotent R V G req app et key checked ctx) w of (r, w') \<Rightarrow>
    r = (if ev_body_hash (vw_row v) = Some (body_hash_bytes (request_to_vec V) (sha256 V) req)
         then Inr (event_response_of v, False) else Inl key_conflict) \<and>
    w_db w' = w_db w \<and> holder (lock_key ''events'' key) w' = None"
proof -
  let ?k = "lock_key ''events'' key" and ?tok = "uuid_of G (w_ids w)"
  let ?w1 = "w\<lparr>w_ids := Suc (w_ids w), w_ks := put_str ?k (?tok, Some (w_now w + millis LOCK_TTL_MS)) (w_ks w)\<rparr>"
  have acq: "run_state (acquire_lock R G ''events'' key) w = (Inr ?tok, ?w1)"
    using redis_strings.run_acquire_lock [OF assms(1,2), of G "''events''" key] assms(3) by (simp add: Let_def)
  have "holder ?k ?w1 = Some ?tok"
    by (simp add: holder_def millis_def LOCK_TTL_MS_def)
  then obtain ks where rel: "run_state (release_lock R ''events'' key ?tok) ?w1 = ((), ?w1\<lparr>w_ks := ks\<rparr>)" "strs ks ?k = None"
    using run_release_lock [OF assms(1), of ?w1 "''events''" key ?tok] assms(2) by auto
  show ?thesis
    using assms(2,4) rel acq
    by (simp add: publish_idempotent_def Let_def run_simps find_event_by_idempotency_key_def holder_def str_at_def)
qed

section \<open>Bulk requests and paging\<close>

lemma bulk_loop_accounts:
  "case fst (run_state (bulk_loop R V G ctx n items rs s f) w) of (results, succeeded, failed) \<Rightarrow>
     map br_index results = map br_index rs @ [n..<n + length items] \<and> succeeded + failed = s + f + length items \<and>
     succeeded + length (filter (\<lambda>r. br_event r \<noteq> None) rs) = s + length (filter (\<lambda>r. br_event r \<noteq> None) results)"
proof (induction items arbitrary: n rs s f w)
  case Nil
  then show ?case by (simp add: run_simps)
next
  case (Cons it items)
  obtain req key where it: "it = (req, key)" by (cases it)
  obtain r w1 where r: "run_state (create_event R V G req ctx key) w = (r, w1)" by (cases "run_state (create_event R V G req ctx key) w")
  let ?rs = "rs @ [bulk_item n r]"
  let ?s = "case r of Inr _ \<Rightarrow> Suc s | Inl _ \<Rightarrow> s" and ?f = "case r of Inr _ \<Rightarrow> f | Inl _ \<Rightarrow> Suc f"
  have i: "br_index (bulk_item n r) = n" "(br_event (bulk_item n r) \<noteq> None) = (case r of Inr _ \<Rightarrow> True | Inl _ \<Rightarrow> False)"
    by (auto simp: bulk_item_def split: sum.splits prod.splits)
  show ?case
    using Cons.IH [where n = "Suc n" and rs = ?rs and s = ?s and f = ?f and w = w1] i
    by (auto simp: it run_simps r upt_conv_Cons simp del: upt_Suc split: sum.splits prod.splits)
qed

lemma page_of_items: "fst (page_of (Suc p) limit rows) = take (min limit 100) (drop (p * min limit 100) rows)"
  by (simp add: page_of_def page_within_def Let_def)

lemma pages_concat: "0 < l \<Longrightarrow> concat (map (\<lambda>p. take l (drop (p * l) rows)) [0..<n]) = take (n * l) rows"
proof (induction n)
  case (Suc n)
  have "take (Suc n * l) rows = take (n * l) rows @ take l (drop (n * l) rows)"
    by (metis add.commute mult_Suc take_add)
  with Suc show ?case by simp
qed simp

lemma create_event_row_any_tenant:
  "create_event_row G app et p pt tags key hash sv se (ctx\<lparr>rc_tenant_id := t, rc_org_id := og\<rparr>) =
   create_event_row G app et p pt tags key hash sv se ctx"
  unfolding create_event_row_def by simp

lemma publish_event_any_tenant:
  "publish_event R G req app et key hash checked (ctx\<lparr>rc_tenant_id := t, rc_org_id := og\<rparr>) =
   publish_event R G req app et key hash checked ctx"
  unfolding publish_event_def create_event_row_any_tenant ..

lemma publish_idempotent_any_tenant:
  "publish_idempotent R V G req app et key checked (ctx\<lparr>rc_tenant_id := t, rc_org_id := og\<rparr>) =
   publish_idempotent R V G req app et key checked ctx"
  unfolding publish_idempotent_def publish_event_any_tenant ..

section \<open>Properties\<close>


definition publish_db :: db where
  "publish_db = sample_db\<lparr>delivery_jobs := [],
     events := [sample_event\<lparr>ev_idempotency_key := Some ''k'', ev_body_hash := Some ''h''\<rparr>],
     applications := [\<lparr>ap_id = ''a1'', ap_public_id = ''app_1'', ap_tenant_id = ''n1'', ap_org_id = ''o1'', ap_deleted_at = None,
       ap_environment_id = None, ap_name = ''shop'', ap_description = [], ap_tags = [], ap_state = AppActive, ap_version = 0, ap_request_id = ''r0'', ap_created_by = ''u1'', ap_updated_by = ''u1'', ap_created_at = 0, ap_updated_at = 0\<rparr>],
     event_types := [\<lparr>et_id = ''t1'', et_public_id = ''evt_1'', et_tenant_id = ''n1'', et_name = ''order'', et_schema_version = ''1.0'',
       et_event_schema = JNull, et_archived = False, et_deleted_at = None, et_org_id = ''o1'', et_application_id = Some ''a1'', et_description = None,
       et_version = 0, et_request_id = ''r0'', et_created_by = ''u1'', et_updated_by = ''u1'', et_created_at = 0, et_updated_at = 0\<rparr>],
     subscriptions := [\<lparr>sb_id = ''s1'', sb_public_id = ''sub_1'', sb_endpoint_id = ''p1'', sb_event_type_id = ''t1'', sb_application_id = ''a1'',
       sb_tenant_id = ''n1'', sb_org_id = ''o1'', sb_status = ''active'', sb_created_at = 0, sb_deleted_at = None\<rparr>]\<rparr>"


text \<open>C35. A replay is recognised: when an event with the key exists in the application and is
  less than an hour old, a request with the same body hash gets that event back with nothing
  created, any other body gets the conflict, the tables are unchanged, and the lock is free
  again in either case.\<close>

theorem idempotent_replay_creates_nothing:
  assumes "redis_strings R" and "no_faults w" and "holder (lock_key ''events'' key) w = None"
    and "first_row (List.map_filter (view_event (w_db w)) (filter (fresh_key (w_now w) (ar_id app) key) (events (w_db w)))) = Some v"
  shows "case run_state (publish_idempotent R V G req app et key checked ctx) w of (r, w') \<Rightarrow>
    r = (if ev_body_hash (vw_row v) = Some (body_hash_bytes (request_to_vec V) (sha256 V) req)
         then Inr (event_response_of v, False) else Inl key_conflict) \<and>
    w_db w' = w_db w \<and> holder (lock_key ''events'' key) w' = None"
  using assms by (rule replay_run)

definition sample_event_ext :: event_ext where
  "sample_event_ext = \<lparr>json_len = (\<lambda>_. Some 2), request_to_vec = (\<lambda>_. Some ''h''), sha256 = id,
     property_def_of = (\<lambda>_. None), schema_check = (\<lambda>_ _. None)\<rparr>"

definition sample_event_request :: create_event_request where
  "sample_event_request = \<lparr>ce_application_id = ''app_1'', ce_event_type_id = ''evt_1'', ce_schema_version = None,
     ce_payload = JObject [], ce_payload_type = Json, ce_tags = []\<rparr>"

theorem idempotent_replay_creates_nothing_witness:
  "\<exists>ev. fst (run_state (publish_idempotent mem_redis sample_event_ext counting_idgen sample_event_request
      \<lparr>ar_id = ''a1'', ar_tenant_id = ''n1'', ar_org_id = ''o1''\<rparr> ''t1'' ''k'' (True, [])
      \<lparr>rc_request_id = ''r'', rc_created_by = ''u'', rc_org_id = ''o1'', rc_tenant_id = ''n1''\<rparr>)
    (start_world publish_db empty_keyspace 0)) = Inr (ev, False)"
proof -
  obtain v where v: "first_row (List.map_filter (view_event publish_db) (filter (fresh_key 0 ''a1'' ''k'') (events publish_db))) = Some v"
    "ev_body_hash (vw_row v) = Some ''h''"
    by (simp add: publish_db_def fresh_key_def sample_event_def view_event_def first_row_def secs_def List.map_filter_simps)
  have "body_hash_bytes (request_to_vec sample_event_ext) (sha256 sample_event_ext) sample_event_request = ''h''"
    by (simp add: body_hash_bytes_def sample_event_ext_def)
  with v show ?thesis
    using idempotent_replay_creates_nothing [OF mem_strings.redis_strings_axioms, where w = "start_world publish_db empty_keyspace 0"
        and key = "''k''" and app = "\<lparr>ar_id = ''a1'', ar_tenant_id = ''n1'', ar_org_id = ''o1''\<rparr>" and v = v and V = sample_event_ext
        and G = counting_idgen and req = sample_event_request and et = "''t1''" and checked = "(True, [])"
        and ctx = "\<lparr>rc_request_id = ''r'', rc_created_by = ''u'', rc_org_id = ''o1'', rc_tenant_id = ''n1''\<rparr>"]
    by (simp add: case_prod_beta holder_def str_at_def empty_keyspace_def)
qed

text \<open>A bulk request accounts for every item: whatever fails, there is one result per item,
  numbered from 0 in order, the successes and failures add up to the items, and the success
  count is the number of results that carry an event.\<close>

theorem create_bulk_accounts_for_every_item:
  "case fst (run_state (create_bulk R V G items ctx) w) of (results, succeeded, failed) \<Rightarrow>
     map br_index results = [0..<length items] \<and> succeeded + failed = length items \<and>
     succeeded = length (filter (\<lambda>r. br_event r \<noteq> None) results)"
  using bulk_loop_accounts [where n = 0 and rs = "[]" and s = 0 and f = 0] by (auto simp: create_bulk_def split: prod.splits)

text \<open>Pages tile the listing: for a positive limit the first \<open>n\<close> pages, put together, are the
  first rows of the listing, so no row is skipped or repeated; but a page past the end reports
  a total of 0.\<close>

theorem pages_tile_listing:
  assumes "0 < limit"
  shows "concat (map (\<lambda>p. fst (page_of (Suc p) limit rows)) [0..<n]) = take (n * min limit 100) rows \<and>
    (length rows \<le> n * min limit 100 \<longrightarrow> snd (page_of (Suc n) limit rows) = 0)"
  using assms pages_concat [of "min limit 100" rows n] by (simp add: page_of_items) (simp add: page_of_def page_within_def Let_def)

theorem pages_tile_listing_witness:
  "concat (map (\<lambda>p. fst (page_of (Suc p) 2 ''abcde'')) [0..<3]) = ''abcde'' \<and> snd (page_of (Suc 3) 2 ''abcde'') = 0"
  using pages_tile_listing [of 2 "''abcde''" 3] by simp

text \<open>Publishing does not look at who publishes: the tenant and the organisation of the
  request context have no influence on \<open>create_event\<close>, so a caller of any tenant creates
  events in, and triggers deliveries of, an application of any other.\<close>

theorem create_event_ignores_caller_tenant:
  "create_event R V G req (ctx\<lparr>rc_tenant_id := t, rc_org_id := og\<rparr>) key = create_event R V G req ctx key"
  unfolding create_event_def publish_event_any_tenant publish_idempotent_any_tenant ..

end
