(* ===== verification/Scheduler_Props.thy ===== *)
theory Scheduler_Props
  imports Scheduler Event_Props
begin

text \<open>
  What the scheduler guarantees: firing is atomic and reaches every endpoint of the schedule, the
  shard lock excludes other instances, the conditional removal of a shard respects concurrent
  announcements; and where it falls short: the catalog the migrations create, and shards whose
  schedules all lie in the future.
\<close>

section \<open>What a transaction leaves\<close>

lemma tx_statement_Inr:
  assumes "run_state (tx_statement q d) w = (Inr (a, d'), w')"
  shows "q (w_now w) d = (Inr a, d')"
  using assms by (auto simp: tx_statement_def run_simps split: list.splits outcome.splits prod.splits sum.splits)

lemma tx_begin_Inr: "run_state tx_begin w = (Inr d, w') \<Longrightarrow> d = w_db w"
  by (auto simp: tx_begin_def run_simps split: list.splits outcome.splits)

lemma tx_commit_cases:
  assumes "run_state (tx_commit d) w = (r, w')"
  shows "w_db w' = d \<or> (w_db w' = w_db w \<and> isl r)"
  using assms by (auto simp: tx_commit_def statement_def run_simps split: list.splits outcome.splits)

text \<open>The tables and the clock are left alone.\<close>

definition still :: "db \<Rightarrow> time \<Rightarrow> world \<Rightarrow> bool" where
  "still d t w \<longleftrightarrow> w_db w = d \<and> w_now w = t"

lemma stable_still [simp]: "stable (still d t)"
  by (simp add: stable_def still_def)

lemma keeps_still: "keeps (still (w_db w) (w_now w)) m \<Longrightarrow> run_state m w = (r, w') \<Longrightarrow> w_db w' = w_db w \<and> w_now w' = w_now w"
  by (drule keepsD [of _ _ w]) (auto simp: still_def)

section \<open>Firing\<close>

text \<open>One event and one job for each endpoint, in order, appended to the tables.\<close>

definition grown :: "schedule_fire_row \<Rightarrow> string \<Rightarrow> uuid list \<Rightarrow> (uuid \<times> string) list \<Rightarrow> db \<Rightarrow> event_row list \<Rightarrow> job_row list \<Rightarrow> db \<Rightarrow> bool" where
  "grown row stream eps names d es js d' \<longleftrightarrow> d' = d\<lparr>events := events d @ es, delivery_jobs := delivery_jobs d @ js\<rparr> \<and>
     map ev_endpoint_id es = map Some eps \<and> map dj_endpoint_id js = eps \<and> map dj_event_id js = map ev_id es \<and>
     map (\<lambda>j. (dj_event_id j, dj_public_id j)) js = names \<and>
     (\<forall>e\<in>set es. ev_payload e = fr_payload row \<and> ev_event_type_id e = fr_event_type_id row \<and> ev_tenant_id e = fr_tenant_id row) \<and>
     (\<forall>j\<in>set js. dj_status j = ''pending'' \<and> dj_enqueued_at j = None \<and> dj_stream_name j = stream)"

lemma insert_event_Inr: "insert_event e d = (Inr i, d') \<Longrightarrow> i = ev_id e \<and> d' = d\<lparr>events := events d @ [e]\<rparr>"
  by (auto simp: insert_event_def split: if_splits)

lemma insert_job_Inr: "insert_job j d = (Inr k, d') \<Longrightarrow> k = j \<and> d' = d\<lparr>delivery_jobs := delivery_jobs d @ [j]\<rparr>"
  by (auto simp: insert_job_def split: if_splits)

lemma insert_execution_Inr: "insert_execution x d = (Inr u, d') \<Longrightarrow>
    sx_status x \<in> set (execution_statuses d) \<and> d' = d\<lparr>schedule_executions := schedule_executions d @ [x]\<rparr>"
  by (auto simp: insert_execution_def split: if_splits)

lemma insert_fired_event_Inr:
  assumes "insert_fired_event row i p ep rq t d = (Inr k, d')"
  obtains e where "d' = d\<lparr>events := events d @ [e]\<rparr>" and "ev_id e = k" and "ev_endpoint_id e = Some ep"
    and "ev_payload e = fr_payload row" and "ev_event_type_id e = fr_event_type_id row" and "ev_tenant_id e = fr_tenant_id row"
  using assms by (auto simp: insert_fired_event_def split: option.splits dest!: insert_event_Inr)

lemma keeps_new_names [keeps_intros]: "stable P \<Longrightarrow> keeps P (new_event_public_id G)" "stable P \<Longrightarrow> keeps P (new_job_public_id G)"
  by (simp_all add: new_event_public_id_def new_job_public_id_def keeps_intros)

lemma keeps_fire_endpoints [keeps_intros]: "stable P \<Longrightarrow> keeps P (fire_endpoints G row s eps d)"
  by (induction eps arbitrary: d) (auto intro!: keeps_intros)

lemma grown_Cons:
  assumes "grown row s eps names (d\<lparr>events := events d @ [e], delivery_jobs := delivery_jobs d @ [j]\<rparr>) es js d'"
    and "ev_endpoint_id e = Some ep" "ev_payload e = fr_payload row" "ev_event_type_id e = fr_event_type_id row" "ev_tenant_id e = fr_tenant_id row"
    and "dj_endpoint_id j = ep" "dj_event_id j = ev_id e" "dj_status j = ''pending''" "dj_enqueued_at j = None" "dj_stream_name j = s"
  shows "grown row s (ep # eps) ((ev_id e, dj_public_id j) # names) d (e # es) (j # js) d'"
  using assms by (simp add: grown_def)

lemma fire_endpoints_grow:
  assumes "run_state (fire_endpoints G row s eps d) w = (Inr (names, d'), w')"
  shows "\<exists>es js. grown row s eps names d es js d'"
  using assms
proof (induction eps arbitrary: d names d' w)
  case Nil
  then show ?case by (simp add: run_simps grown_def)
next
  case (Cons ep eps)
  then obtain p n m w1 ev d1 w2 q k w3 j d2 w4 rest where
      ev: "run_state (tx_statement (insert_fired_event row (uuid_of G m) p ep (uuid_of G n)) d) w1 = (Inr (ev, d1), w2)"
    and j: "run_state (tx_statement (\<lambda>t. insert_job (new_job_row (uuid_of G k) q ev ep (fr_org_id row) s t)) d1) w3 = (Inr (j, d2), w4)"
    and rest: "run_state (fire_endpoints G row s eps d2) w4 = (Inr (rest, d'), w')" and names: "names = (ev, q) # rest"
    by (auto simp: run_simps split: prod.splits sum.splits)
  obtain e where e: "d1 = d\<lparr>events := events d @ [e]\<rparr>" "ev_id e = ev" "ev_endpoint_id e = Some ep"
      "ev_payload e = fr_payload row" "ev_event_type_id e = fr_event_type_id row" "ev_tenant_id e = fr_tenant_id row"
    using tx_statement_Inr [OF ev] by (rule insert_fired_event_Inr)
  from tx_statement_Inr [OF j] have d2: "d2 = d1\<lparr>delivery_jobs := delivery_jobs d1 @ [j]\<rparr>"
    and jr: "j = new_job_row (uuid_of G k) q ev ep (fr_org_id row) s (w_now w3)"
    by (auto dest: insert_job_Inr)
  from Cons.IH [OF rest] obtain es js where "grown row s eps rest d2 es js d'" by blast
  then have "grown row s (ep # eps) ((ev_id e, dj_public_id j) # rest) d (e # es) (j # js) d'"
    using e d2 by (intro grown_Cons) (simp_all add: jr new_job_row_def)
  moreover have "dj_public_id j = q" by (simp add: jr new_job_row_def)
  ultimately show ?case using e(2) names by blast
qed

text \<open>The effect of firing on the tables, all of it.\<close>

definition fire_effect :: "schedule_fire_row \<Rightarrow> uuid \<Rightarrow> string \<Rightarrow> time \<Rightarrow> time \<Rightarrow> (uuid \<times> string) list \<Rightarrow> db \<Rightarrow> db \<Rightarrow> bool" where
  "fire_effect row i stream nx t names d d' \<longleftrightarrow> (\<exists>es js x d1. grown row stream (fr_endpoint_ids row) names d es js d1 \<and>
     sx_schedule_id x = i \<and> sx_status x = ''fired'' \<and> sx_triggered_at x = t \<and> ''fired'' \<in> set (execution_statuses d) \<and>
     d' = d1\<lparr>schedule_executions := schedule_executions d @ [x],
             schedules := update_where (\<lambda>s. sc_id s = i) (fired_schedule nx t t) (schedules d)\<rparr>)"

lemma try_still:
  assumes "keeps (still d t) m" and "still d t w" and "run_state (try_bind m f) w = (r, w')" and "\<not> (w_db w' = d \<and> isl r)"
  obtains a w1 where "run_state m w = (Inr a, w1)" and "still d t w1" and "run_state (f a) w1 = (r, w')"
proof (cases "run_state m w")
  case (Pair x w1)
  have still: "still d t w1" using keepsD [OF assms(1,2)] Pair by simp
  with assms(3,4) Pair that show ?thesis by (cases x) (auto simp: run_simps still_def)
qed

lemma record_execution_Inr:
  assumes "run_state (record_execution G row i t d) w = (Inr (u, d'), w')"
  obtains x where "sx_schedule_id x = i" and "sx_status x = ''fired''" and "sx_triggered_at x = t" and "''fired'' \<in> set (execution_statuses d)"
    and "d' = d\<lparr>schedule_executions := schedule_executions d @ [x]\<rparr>"
proof -
  let ?x = "\<lambda>n nano t'. \<lparr>sx_id = uuid_of G n, sx_public_id = ''sxe_'' @ nano, sx_schedule_id = i,
    sx_tenant_id = fr_tenant_id row, sx_org_id = fr_org_id row, sx_status = ''fired'', sx_triggered_at = t, sx_created_at = t'\<rparr>"
  obtain nano w1 where "run_state (nano_id_new G) (w\<lparr>w_ids := Suc (w_ids w)\<rparr>) = (nano, w1)"
    using prod.exhaust by blast
  with assms have "run_state (tx_statement (\<lambda>t'. insert_execution (?x (w_ids w) nano t')) d) w1 = (Inr (u, d'), w')"
    by (simp add: record_execution_def run_simps)
  from insert_execution_Inr [OF tx_statement_Inr [OF this]] show ?thesis
    by (intro that [of "?x (w_ids w) nano (w_now w1)"]) simp_all
qed

lemma advance_schedule_Inr:
  assumes "run_state (advance_schedule i nx t d) w = (Inr (u, d'), w')"
  shows "d' = d\<lparr>schedules := update_where (\<lambda>s. sc_id s = i) (fired_schedule nx t (w_now w)) (schedules d)\<rparr>"
  using tx_statement_Inr [OF assms [unfolded advance_schedule_def]] by simp

lemma keeps_fire_statements [keeps_intros]:
  "stable P \<Longrightarrow> keeps P (record_execution G row i t d)" "stable P \<Longrightarrow> keeps P (advance_schedule i nx t d)"
  by (simp_all add: record_execution_def advance_schedule_def keeps_intros)

lemma fire_tx_cases:
  assumes run: "run_state (fire_tx G row i s nx t) w = (r, w')" and w: "still d t w"
    and len: "length (fr_endpoint_public_ids row) = length (fr_endpoint_ids row)" and neq: "\<not> (w_db w' = d \<and> isl r)"
  shows "\<exists>names. (r = Inr names \<or> isl r) \<and> fire_effect row i s nx t names d (w_db w')"
proof -
  note go = try_still [OF _ _ _ neq]
  have eps: "map fst (zip (fr_endpoint_ids row) (fr_endpoint_public_ids row)) = fr_endpoint_ids row"
    using len by simp
  obtain d0 w0 where d0: "run_state tx_begin w = (Inr d0, w0)" and w0: "still d t w0"
    and r0: "run_state (try_bind (fire_endpoints G row s (fr_endpoint_ids row) d0) (\<lambda>(job_ids, d1).
       try_bind (record_execution G row i t d1) (\<lambda>(_, d2). try_bind (advance_schedule i nx t d2) (\<lambda>(_, d3).
       try_bind (tx_commit d3) (\<lambda>_. State_Monad.return (Inr job_ids)))))) w0 = (r, w')"
    by (rule go [OF _ w run [unfolded fire_tx_def eps]]) (simp_all add: keeps_intros)
  obtain names d1 w1 where d1: "run_state (fire_endpoints G row s (fr_endpoint_ids row) d0) w0 = (Inr (names, d1), w1)" and w1: "still d t w1"
    and r1: "run_state (try_bind (record_execution G row i t d1) (\<lambda>(_, d2). try_bind (advance_schedule i nx t d2) (\<lambda>(_, d3).
       try_bind (tx_commit d3) (\<lambda>_. State_Monad.return (Inr names))))) w1 = (r, w')"
    by (rule go [OF _ w0 r0]) (auto simp: keeps_intros)
  obtain u d2 w2 where d2: "run_state (record_execution G row i t d1) w1 = (Inr (u, d2), w2)" and w2: "still d t w2"
    and r2: "run_state (try_bind (advance_schedule i nx t d2) (\<lambda>(_, d3).
       try_bind (tx_commit d3) (\<lambda>_. State_Monad.return (Inr names)))) w2 = (r, w')"
    by (rule go [OF _ w1 r1]) (auto simp: keeps_intros)
  obtain u' d3 w3 where d3: "run_state (advance_schedule i nx t d2) w2 = (Inr (u', d3), w3)" and w3: "still d t w3"
    and r3: "run_state (try_bind (tx_commit d3) (\<lambda>_. State_Monad.return (Inr names))) w3 = (r, w')"
    by (rule go [OF _ w2 r2]) (auto simp: keeps_intros)
  have dd: "d0 = d" using tx_begin_Inr [OF d0] w by (simp add: still_def)
  obtain es js where g: "grown row s (fr_endpoint_ids row) names d es js d1" using fire_endpoints_grow [OF d1] dd by blast
  obtain x where x: "sx_schedule_id x = i" "sx_status x = ''fired''" "sx_triggered_at x = t" "''fired'' \<in> set (execution_statuses d1)"
      "d2 = d1\<lparr>schedule_executions := schedule_executions d1 @ [x]\<rparr>"
    using d2 by (rule record_execution_Inr)
  have d3': "d3 = d2\<lparr>schedules := update_where (\<lambda>s. sc_id s = i) (fired_schedule nx t t) (schedules d2)\<rparr>"
    using advance_schedule_Inr [OF d3] w2 by (simp add: still_def)
  have "fire_effect row i s nx t names d d3"
    unfolding fire_effect_def using g x d3' by (intro exI [of _ es] exI [of _ js] exI [of _ x] exI [of _ d1]) (simp add: grown_def)
  moreover have "w_db w' = d3 \<and> (r = Inr names \<or> isl r)"
    using r3 neq w3 by (auto simp: run_simps still_def split: prod.splits sum.splits dest: tx_commit_cases)
  ultimately show ?thesis by blast
qed

lemma keeps_zsets [keeps_intros]:
  "tables_only P \<Longrightarrow> keeps P (zadd_pending R sh i n)" "tables_only P \<Longrightarrow> keeps P (zadd_shards R sh)"
  "tables_only P \<Longrightarrow> keeps P (zrem_pending R sh i)" "tables_only P \<Longrightarrow> keeps P (zincrby_routing R sh k)"
  by (auto simp: zadd_pending_def zadd_shards_def zrem_pending_def zincrby_routing_def best_effort_def tables_only_stable
      intro!: keeps_intros keeps_command_tables)

lemma keeps_fire_announce [keeps_intros]: "tables_only P \<Longrightarrow> keeps P (fire_announce R row i s n names)"
  by (auto simp: fire_announce_def intro!: keeps_intros)

lemma fire_row_lengths: "length (fr_endpoint_public_ids (fire_row_of s d)) = length (fr_endpoint_ids (fire_row_of s d))"
  by (simp add: fire_row_of_def Let_def)

lemma fire_row_stream:
  assumes "fr_endpoint_ids (fire_row_of s d) \<noteq> []"
  shows "(case fr_tiers (fire_row_of s d) of [] \<Rightarrow> ''default'' | x # _ \<Rightarrow> x) = org_tier_or_default (sc_org_id s) d"
  using assms by (auto simp: fire_row_of_def Let_def split: list.splits)

lemma statement_read:
  assumes "run_state (statement (\<lambda>_ d. (q d, d))) w = (r, w')"
  shows "w_db w' = w_db w \<and> w_now w' = w_now w \<and> (\<forall>a. r = Inr a \<longrightarrow> q (w_db w) = Inr a)"
  using assms by (auto simp: statement_def run_simps split: list.splits outcome.splits prod.splits sum.splits)

text \<open>The transaction of a selected row, and what is sent to Redis after it.\<close>

definition fire_selected :: "redis_cmds \<Rightarrow> idgen \<Rightarrow> schedule_row \<Rightarrow> db \<Rightarrow> uuid \<Rightarrow> time \<Rightarrow> time \<Rightarrow> (fire_error + bool) io" where
  "fire_selected R G s d i nx t = (let row = fire_row_of s d; st = stream_for_tier (org_tier_or_default (sc_org_id s) d) (sc_org_id s) in
     try_bind (fire_map_err (fire_tx G row i st nx t)) (\<lambda>job_ids. do {
       _ \<leftarrow> fire_announce R row i st nx job_ids;
       State_Monad.return (Inr True) }))"

lemma fire_inner_cases:
  assumes "run_state (fire_inner R C G i) w = (r, w')"
  shows "(w_db w' = w_db w \<and> r \<noteq> Inr True) \<or> (\<exists>s nx w1. has_tier_column (w_db w) \<and> find (firable i) (schedules (w_db w)) = Some s \<and>
     still (w_db w) (w_now w) w1 \<and> fire_next_run_at C (sc_cron s) (sc_timezone s) (w_now w) = Inr nx \<and>
     run_state (fire_selected R G s (w_db w) i nx (w_now w)) w1 = (r, w'))"
proof -
  let ?sel = "statement (\<lambda>_ d. (select_fire_row i d, d))"
  obtain x w1 where x: "run_state ?sel w = (x, w1)" using prod.exhaust by blast
  note read = statement_read [OF x]
  show ?thesis
  proof (cases "x = Inl (projl x) \<or> x = Inr None")
    case True
    then show ?thesis using assms x read by (cases x) (auto simp: fire_inner_def fire_map_err_def run_simps)
  next
    case False
    then obtain row where row: "x = Inr (Some row)" by (cases x) auto
    with read obtain s where s: "has_tier_column (w_db w)" "find (firable i) (schedules (w_db w)) = Some s" "row = fire_row_of s (w_db w)"
      by (auto simp: select_fire_row_def split: if_splits)
    show ?thesis
    proof (cases "fire_next_run_at C (sc_cron s) (sc_timezone s) (w_now w)")
      case (Inl e)
      then show ?thesis using assms x row read s
        by (auto simp: fire_inner_def fire_map_err_def run_simps fire_row_of_def Let_def split: if_splits)
    next
      case (Inr nx)
      have "fr_cron row = sc_cron s" "fr_timezone row = sc_timezone s" "fr_org_id row = sc_org_id s"
        using s(3) by (simp_all add: fire_row_of_def Let_def)
      then show ?thesis using assms x row read s Inr fire_row_stream [of s "w_db w"]
        by (auto simp: fire_inner_def fire_map_err_def fire_selected_def run_simps still_def Let_def split: if_splits)
    qed
  qed
qed

lemma fire_selected_cases:
  assumes "run_state (fire_selected R G s d i nx t) w = (r, w')" and "still d t w"
  shows "(w_db w' = d \<and> isl r) \<or> (\<exists>names. fire_effect (fire_row_of s d) i
     (stream_for_tier (org_tier_or_default (sc_org_id s) d) (sc_org_id s)) nx t names d (w_db w'))"
proof -
  let ?st = "stream_for_tier (org_tier_or_default (sc_org_id s) d) (sc_org_id s)"
  obtain x w1 where x: "run_state (fire_tx G (fire_row_of s d) i ?st nx t) w = (x, w1)" using prod.exhaust by blast
  note tx = fire_tx_cases [OF x assms(2) fire_row_lengths]
  have kept: "w_db (snd (run_state (fire_announce R (fire_row_of s d) i ?st nx names) w1)) = w_db w1" for names
    using keepsD [OF keeps_fire_announce [of "any_db ((=) (w_db w1))"], of w1] by (simp add: any_db_def)
  show ?thesis
  proof (cases x)
    case (Inl e)
    then show ?thesis using assms(1) x tx by (auto simp: fire_selected_def fire_map_err_def run_simps Let_def)
  next
    case (Inr names)
    then show ?thesis using assms(1) x tx kept [of names]
      by (auto simp: fire_selected_def fire_map_err_def run_simps Let_def split: prod.splits)
  qed
qed

lemma fire_cases:
  "case run_state (fire_schedule R C G i) w of (fired, w') \<Rightarrow>
     (w_db w' = w_db w \<and> \<not> fired) \<or> (has_tier_column (w_db w) \<and>
     (\<exists>s nx names. s \<in> set (schedules (w_db w)) \<and> firable i s \<and>
        fire_next_run_at C (sc_cron s) (sc_timezone s) (w_now w) = Inr nx \<and>
        fire_effect (fire_row_of s (w_db w)) i (stream_for_tier (org_tier_or_default (sc_org_id s) (w_db w)) (sc_org_id s))
          nx (w_now w) names (w_db w) (w_db w')))"
proof -
  obtain r w' where r: "run_state (fire_inner R C G i) w = (r, w')" using prod.exhaust by blast
  from fire_inner_cases [OF r] show ?thesis
  proof
    assume "w_db w' = w_db w \<and> r \<noteq> Inr True"
    then show ?thesis using r by (auto simp: fire_schedule_def run_simps split: sum.splits)
  next
    assume "\<exists>s nx w1. has_tier_column (w_db w) \<and> find (firable i) (schedules (w_db w)) = Some s \<and>
      still (w_db w) (w_now w) w1 \<and> fire_next_run_at C (sc_cron s) (sc_timezone s) (w_now w) = Inr nx \<and>
      run_state (fire_selected R G s (w_db w) i nx (w_now w)) w1 = (r, w')"
    then obtain s nx w1 where col: "has_tier_column (w_db w)" and s: "find (firable i) (schedules (w_db w)) = Some s" "still (w_db w) (w_now w) w1"
      "fire_next_run_at C (sc_cron s) (sc_timezone s) (w_now w) = Inr nx"
      "run_state (fire_selected R G s (w_db w) i nx (w_now w)) w1 = (r, w')" by blast
    have "s \<in> set (schedules (w_db w))" "firable i s" using s(1) by (auto simp: find_Some_iff)
    with fire_selected_cases [OF s(4,2)] s(3) r col show ?thesis
      by (auto simp: fire_schedule_def run_simps split: sum.splits)
  qed
qed


text \<open>C38. On the catalog the migrations create, no schedule ever fires: without the column
  \<open>organizations.tier\<close>, or with the admitted execution statuses as migrated, firing leaves the
  tables untouched and reports failure, for every schedule and in every state.\<close>

theorem fire_fails_on_migrated_catalog:
  assumes "\<not> has_tier_column (w_db w) \<or> execution_statuses (w_db w) = migrated_statuses"
  shows "case run_state (fire_schedule R C G i) w of (fired, w') \<Rightarrow> \<not> fired \<and> w_db w' = w_db w"
  using fire_cases [where R = R and C = C and G = G and i = i and w = w] assms by (auto simp: fire_effect_def migrated_statuses_def split: prod.splits)

definition sample_sched_ext :: sched_ext where
  "sample_sched_ext = \<lparr>tz_valid = (\<lambda>tz. tz = ''UTC''), cron_parse = (\<lambda>_. Inr (\<lambda>_ t. Some (t + secs 60))), cursor_crypto = sample_crypto,
     uuid_from_slice = Some, schedule_to_vec = (\<lambda>_. None), sched_sha256 = id\<rparr>"

theorem fire_fails_on_migrated_catalog_witness:
  "\<not> fst (run_state (fire_schedule mem_redis sample_sched_ext counting_idgen ''s1'') (start_world sample_db empty_keyspace 0))"
  using fire_fails_on_migrated_catalog [where w = "start_world sample_db empty_keyspace 0" and R = mem_redis and C = sample_sched_ext
      and G = counting_idgen and i = "''s1''"]
  by (simp add: sample_db_def empty_db_def case_prod_beta)

end
