(* ===== verification/Shard_Props.thy ===== *)
theory Shard_Props
  imports Scheduler_Props
begin

text \<open>
  The shards of the scheduler: the lock, the load balance of the routing set, the discovery set
  and the paging of schedules.
\<close>

section \<open>The shard lock\<close>

lemma run_reply_or [run_simps]: "run_state (reply_or x m) w = (case run_state m w of (r, w') \<Rightarrow> (case r of Inl _ \<Rightarrow> x | Inr a \<Rightarrow> a, w'))"
  by (simp add: reply_or_def run_simps)

lemma ttl_ok_shard: "ttl_ok (secs LOCK_TTL_SECS)"
  by (simp add: ttl_ok_def LOCK_TTL_SECS_def secs_def)

sublocale redis_strings \<subseteq> shard_lock: token_lock "shard_lock_key shard" "secs LOCK_TTL_SECS"
    "take_shard_lock R shard" "release_shard_lock R shard" for shard
proof unfold_locales
  show "0 < secs LOCK_TTL_SECS" by (simp add: secs_def LOCK_TTL_SECS_def)
next
  fix w tok assume "no_faults w" and "holder (shard_lock_key shard) w = None"
  then show "run_state (take_shard_lock R shard tok) w =
      (True, w\<lparr>w_ks := put_str (shard_lock_key shard) (tok, Some (w_now w + secs LOCK_TTL_SECS)) (w_ks w)\<rparr>)"
    by (simp add: take_shard_lock_def run_simps run_set_nx [OF ttl_ok_shard])
next
  fix w tok assume "no_faults w" and "holder (shard_lock_key shard) w \<noteq> None"
  then show "run_state (take_shard_lock R shard tok) w = (False, w)"
    by (simp add: take_shard_lock_def run_simps run_set_nx [OF ttl_ok_shard])
next
  fix w tok assume "no_faults w" and "holder (shard_lock_key shard) w = Some tok"
  then show "run_state (release_shard_lock R shard tok) w =
      ((), w\<lparr>w_ks := (w_ks w)\<lparr>strs := (strs (w_ks w))(shard_lock_key shard := None)\<rparr>\<rparr>)"
    by (simp add: release_shard_lock_def run_simps holder_def case_prod_beta release_script_own)
next
  fix w tok assume "no_faults w" and "holder (shard_lock_key shard) w \<noteq> Some tok"
  then show "run_state (release_shard_lock R shard tok) w = ((), w)"
    by (simp add: release_shard_lock_def run_simps holder_def case_prod_beta release_script_other)
qed

context redis_strings
begin

lemmas shard_exclusive = shard_lock.exclusive
lemmas shard_holder_take = shard_lock.holder_take
lemmas shard_drop_other = shard_lock.drop_keeps_other
lemmas shard_drop_own = shard_lock.drop_frees
lemmas shard_drop_own_run = shard_lock.drop_own
lemmas shard_take_held = shard_lock.take_held
lemmas shard_take_free = shard_lock.take_free

end

text \<open>The shard lock excludes by token: while an instance holds it, nobody takes it for thirty
  seconds, and a release frees it exactly when it carries the holder's token. All worker tasks
  of an instance use one token, so a sibling's release does free it.\<close>

theorem shard_lock_excludes:
  assumes "redis_strings R" and "no_faults w" and "fst (run_state (take_shard_lock R shard a) w)"
  defines "w1 \<equiv> snd (run_state (take_shard_lock R shard a) w)"
  shows "(\<forall>t < w_now w + secs 30. \<not> fst (run_state (at_time t (take_shard_lock R shard b)) w1))
    \<and> holder (shard_lock_key shard) (snd (run_state (release_shard_lock R shard b) w1)) = (if b = a then None else Some a)"
proof -
  have free: "holder (shard_lock_key shard) w = None"
    using assms(3) redis_strings.shard_take_held [OF assms(1,2), of shard a] by fastforce
  note held = redis_strings.shard_holder_take [OF assms(1,2) free, of a, folded w1_def]
  have nf: "no_faults w1" using redis_strings.shard_take_free [OF assms(1,2) free] assms(2) by (simp add: w1_def)
  show ?thesis
    using redis_strings.shard_exclusive [OF assms(1-3), of _ b, folded w1_def] redis_strings.shard_drop_own [OF assms(1) nf held]
      redis_strings.shard_drop_other [OF assms(1) nf held, of b] by (auto simp: LOCK_TTL_SECS_def)
qed

theorem shard_lock_excludes_witness:
  "\<not> fst (run_state (at_time (secs 29) (take_shard_lock mem_redis 3 ''b''))
     (snd (run_state (take_shard_lock mem_redis 3 ''a'') (start_world empty_db empty_keyspace 0))))"
proof -
  let ?w = "start_world empty_db empty_keyspace 0"
  have "fst (run_state (take_shard_lock mem_redis 3 ''a'') ?w)"
    by (simp add: mem_strings.shard_take_free holder_def str_at_def empty_keyspace_def)
  from shard_lock_excludes [OF mem_strings.redis_strings_axioms _ this, THEN conjunct1, rule_format, of "secs 29" "''b''"]
  show ?thesis by (simp add: secs_def)
qed

section \<open>Routing\<close>

text \<open>The loads of the shards differ by at most one.\<close>

definition balanced :: "zset \<Rightarrow> bool" where
  "balanced z \<longleftrightarrow> (\<forall>a\<in>set z. \<forall>b\<in>set z. fst a \<le> fst b + 1)"

lemma set_routing_pick:
  assumes "zset_ok ((n, m) # rest)"
  shows "set (z_put (n + 1) m ((n, m) # rest)) = insert (n + 1, m) (set rest)"
  using assms by (force simp: set_z_put zset_ok_def)

text \<open>A new schedule goes to a least loaded shard: for a tenant without a dedicated shard the
  first shard of the routing set is chosen, no shard has fewer schedules, its count goes up by
  one and no other changes, and balanced counts stay balanced.\<close>

theorem pick_shard_least_loaded:
  assumes "redis_zsets R" and "no_faults w" and "map_of (tenant_shard_affinity (w_db w)) tenant = None"
    and "zsets (w_ks w) ROUTING_KEY = (n, show_int shard) # rest" and "zset_ok (zsets (w_ks w) ROUTING_KEY)"
    and "0 \<le> shard" and "shard \<le> 32767"
  shows "case run_state (pick_shard R tenant) w of (r, w') \<Rightarrow> r = Inr shard \<and> (\<forall>p\<in>set rest. n \<le> fst p) \<and>
    set (zsets (w_ks w') ROUTING_KEY) = insert (n + 1, show_int shard) (set rest) \<and>
    (balanced (zsets (w_ks w) ROUTING_KEY) \<longrightarrow> balanced (zsets (w_ks w') ROUTING_KEY))"
proof -
  let ?m = "show_int shard"
  have ok: "zset_ok ((n, ?m) # rest)" using assms(4,5) by simp
  have least: "\<forall>p\<in>set rest. n \<le> fst p" using ok by (auto simp: zset_ok_def less_prod_def')
  have run: "run_state (pick_shard R tenant) w = (Inr shard, w\<lparr>w_ks := put_zset ROUTING_KEY (z_put (n + 1) ?m ((n, ?m) # rest)) (w_ks w)\<rparr>)"
    using assms by (simp add: pick_shard_def get_tenant_shard_affinity_def run_simps PICK_SHARD_LUA_def redis_zsets.zrange redis_zsets.zincrby
        z_range_def parse_i16_show z_score_def add.commute)
  have "balanced ((n, ?m) # rest) \<Longrightarrow> balanced (z_put (n + 1) ?m ((n, ?m) # rest))"
    using least by (auto simp: balanced_def set_routing_pick [OF ok])
  then show ?thesis using least assms(4) by (simp add: run put_zset_def set_routing_pick [OF ok])
qed

theorem pick_shard_least_loaded_witness:
  "fst (run_state (pick_shard mem_redis ''n1'') (start_world empty_db
     (put_zset ROUTING_KEY [(2, show_int 4), (3, show_int 1)] empty_keyspace) 0)) = Inr 4"
  using pick_shard_least_loaded [OF mem_zsets.redis_zsets_axioms, where tenant = "''n1''" and n = 2 and shard = 4 and rest = "[(3, show_int 1)]"
      and w = "start_world empty_db (put_zset ROUTING_KEY [(2, show_int 4), (3, show_int 1)] empty_keyspace) 0"]
  by (simp add: case_prod_beta empty_db_def put_zset_def zset_ok_def)

section \<open>The discovery set\<close>

text \<open>Removing an idle shard races safely with an announcement, up to the resolution of the
  clock: if a service announces the shard after the worker has read the score, the conditional
  removal keeps the shard exactly when the announcement is at a later millisecond than the
  score that was read; an announcement in the same millisecond is lost.\<close>

theorem removal_respects_announcement:
  assumes "redis_zsets R" and "no_faults w" and "zset_ok (zsets (w_ks w) SHARDS_KEY)"
    and "z_score (zsets (w_ks w) SHARDS_KEY) (show_int shard) = Some score"
  defines "w1 \<equiv> snd (run_state (zadd_shards R shard) w)"
  shows "z_score (zsets (snd (REMOVE_IF_SCORE_MATCHES R (show_int shard) score (w_ks w1))) SHARDS_KEY) (show_int shard) =
    (if score < timestamp_millis (w_now w) then Some (timestamp_millis (w_now w)) else None)"
  using assms by (auto simp: w1_def zadd_shards_def run_simps REMOVE_IF_SCORE_MATCHES_def redis_zsets.zadd redis_zsets.zscore
      redis_zsets.zrem put_zset_def)

theorem removal_respects_announcement_witness:
  "z_score (zsets (snd (REMOVE_IF_SCORE_MATCHES mem_redis (show_int 3) 5 (w_ks (snd (run_state (zadd_shards mem_redis 3)
     (start_world empty_db (put_zset SHARDS_KEY [(5, show_int 3)] empty_keyspace) (millis 6))))))) SHARDS_KEY) (show_int 3) = Some 6"
  using removal_respects_announcement [OF mem_zsets.redis_zsets_axioms, where shard = 3 and score = 5
      and w = "start_world empty_db (put_zset SHARDS_KEY [(5, show_int 3)] empty_keyspace) (millis 6)"]
  by (simp add: put_zset_def zset_ok_def z_score_def millis_def timestamp_millis_def)

text \<open>The moves of the scheduler: an iteration of a worker task, and a delta reconciliation.\<close>

datatype sched_move = Worker time string | Sync time time

fun run_move :: "redis_cmds \<Rightarrow> sched_ext \<Rightarrow> idgen \<Rightarrow> (string \<Rightarrow> uuid option) \<Rightarrow> sched_move \<Rightarrow> unit io" where
  "run_move R C G pu (Worker t instance_id) = at_time t (shard_process_one R C G pu instance_id)"
| "run_move R C G pu (Sync t since) = at_time t (do { _ \<leftarrow> reconcile R (Some since); State_Monad.return () })"

lemma run_put_str_zsets [simp]: "zsets (put_str k v ks) = zsets ks"
  by (simp add: put_str_def)

lemma process_no_shards:
  "redis_zsets R \<Longrightarrow> no_faults w \<Longrightarrow> zsets (w_ks w) SHARDS_KEY = [] \<Longrightarrow> run_state (shard_process_one R C G pu inst) w = ((), w)"
  by (simp add: shard_process_one_def run_simps redis_zsets.zrandmember_None)

lemma reconcile_nothing:
  "no_faults w \<Longrightarrow> reconcile_rows since (w_db w) = [] \<Longrightarrow> run_state (reconcile R since) w = (w_now w, w)"
  by (simp add: reconcile_def run_simps)

lemma idle_shard_removed:
  assumes R: "redis_zsets R" "redis_strings R" and w: "no_faults w" "zsets (w_ks w) SHARDS_KEY = [(score, show_int shard)]"
    and shard: "- 32768 \<le> shard" "shard \<le> 32767" and free: "holder (shard_lock_key shard) w = None"
    and later: "\<forall>p\<in>set (zsets (w_ks w) (pending_key shard)). timestamp (w_now w) < fst p"
  shows "\<exists>w'. run_state (shard_process_one R C G pu inst) w = ((), w') \<and> no_faults w' \<and> w_db w' = w_db w \<and>
    zsets (w_ks w') = (zsets (w_ks w))(SHARDS_KEY := [])"
proof -
  let ?w1 = "w\<lparr>w_ks := put_str (shard_lock_key shard) (inst, Some (w_now w + secs LOCK_TTL_SECS)) (w_ks w)\<rparr>"
  let ?w2 = "?w1\<lparr>w_ks := put_zset SHARDS_KEY [] (w_ks ?w1)\<rparr>"
  have rand: "ZRANDMEMBER R SHARDS_KEY (w_ks w) = Some (show_int shard)"
    using redis_zsets.zrandmember_Some [OF R(1), of "w_ks w" SHARDS_KEY] w(2) by auto
  have take: "run_state (take_shard_lock R shard inst) w = (True, ?w1)"
    using redis_strings.shard_take_free [OF R(2) w(1) free] by simp
  have due: "filter (\<lambda>p. 0 \<le> fst p \<and> fst p \<le> timestamp (w_now w)) (zsets (w_ks w) (pending_key shard)) = []"
    using later by (auto simp: filter_empty_conv)
  have nodue: "run_state (due_schedules R shard) ?w1 = ([], ?w1)"
    using w(1) by (simp add: due_schedules_def run_simps redis_zsets.zrangebyscore [OF R(1)] due)
  have rem: "REMOVE_IF_SCORE_MATCHES R (show_int shard) score (w_ks ?w1) = (1, put_zset SHARDS_KEY [] (w_ks ?w1))"
    using w(2) by (simp add: REMOVE_IF_SCORE_MATCHES_def redis_zsets.zscore [OF R(1)] redis_zsets.zrem [OF R(1)] z_score_def z_remove_def)
  have held: "holder (shard_lock_key shard) ?w2 = Some inst"
    by (simp add: holder_def str_at_def put_zset_def put_str_def secs_def LOCK_TTL_SECS_def)
  have run: "run_state (shard_process_one R C G pu inst) w = run_state (release_shard_lock R shard inst) ?w2"
    using w take nodue rem by (simp add: shard_process_one_def run_simps rand parse_i16_show shard redis_zsets.zscore [OF R(1)] z_score_def)
  show ?thesis
    using redis_strings.shard_drop_own_run [OF R(2) _ held] w(1) by (simp add: run put_zset_def)
qed

text \<open>A shard whose schedules all lie in the future is forgotten: the worker that looks at it
  removes it from the discovery set, and from then on, as long as no schedule is changed after
  the last reconciliation, no sequence of worker iterations and delta reconciliations at
  whatever times fires anything, although the schedules stay in the pending set and come due.\<close>

theorem idle_shard_is_forgotten:
  assumes "redis_zsets R" and "redis_strings R" and "no_faults w" and "zsets (w_ks w) SHARDS_KEY = [(score, show_int shard)]"
    and "- 32768 \<le> shard" and "shard \<le> 32767" and "holder (shard_lock_key shard) w = None"
    and "\<forall>p\<in>set (zsets (w_ks w) (pending_key shard)). timestamp (w_now w) < fst p"
    and "\<forall>t since. Sync t since \<in> set moves \<longrightarrow> reconcile_rows (Some since) (w_db w) = []"
  shows "case run_state (for_each moves (run_move R C G pu)) (snd (run_state (shard_process_one R C G pu inst) w)) of (_, w') \<Rightarrow>
    w_db w' = w_db w \<and> zsets (w_ks w') (pending_key shard) = zsets (w_ks w) (pending_key shard)"
proof -
  obtain w1 where w1: "run_state (shard_process_one R C G pu inst) w = ((), w1)" "no_faults w1" "w_db w1 = w_db w"
      "zsets (w_ks w1) = (zsets (w_ks w))(SHARDS_KEY := [])"
    using idle_shard_removed [OF assms(1-8)] by blast
  let ?P = "\<lambda>v. no_faults v \<and> w_db v = w_db w \<and> zsets (w_ks v) = (zsets (w_ks w))(SHARDS_KEY := [])"
  have "keeps ?P (run_move R C G pu m)" if "m \<in> set moves" for m
  proof (cases m)
    case (Worker t inst)
    then show ?thesis by (simp add: keeps_def run_simps process_no_shards [OF assms(1)])
  next
    case (Sync t since)
    with that assms(9) have "reconcile_rows (Some since) (w_db w) = []" by blast
    with Sync show ?thesis by (simp add: keeps_def run_simps reconcile_nothing)
  qed
  then have "keeps ?P (for_each moves (run_move R C G pu))" by (rule keeps_for_each)
  from keepsD [OF this, of w1] w1(2-4) have "?P (snd (run_state (for_each moves (run_move R C G pu)) w1))" by simp
  moreover have "pending_key shard \<noteq> SHARDS_KEY" by (simp add: pending_key_def SHARDS_KEY_def)
  ultimately show ?thesis using w1 by (simp add: case_prod_beta)
qed

definition future_db :: db where
  "future_db = sample_db\<lparr>schedules := [\<lparr>sc_id = ''s1'', sc_public_id = ''sch_1'', sc_name = ''daily'', sc_description = None,
     sc_application_id = Some ''a1'', sc_tenant_id = ''n1'', sc_org_id = ''o1'', sc_event_type_id = ''t1'', sc_payload = JNull,
     sc_cron = ''0 * * * * * *'', sc_timezone = ''UTC'', sc_status = ''active'', sc_next_run_at = Some (secs 60), sc_last_run_at = None,
     sc_last_run_status = None, sc_idempotency_key = None, sc_body_hash = None, sc_created_by = ''u'', sc_updated_by = ''u'',
     sc_request_id = ''r'', sc_version = 1, sc_created_at = 0, sc_updated_at = 0, sc_deleted_at = None, sc_assigned_shard = 3\<rparr>]\<rparr>"

theorem idle_shard_is_forgotten_witness:
  "let w = start_world future_db (put_zset (pending_key 3) [(60, ''s1'')] (put_zset SHARDS_KEY [(0, show_int 3)] empty_keyspace)) (secs 5);
       w' = snd (run_state (for_each [Sync (secs 50) (secs 10), Worker (secs 61) ''b''] (run_move mem_redis sample_sched_ext counting_idgen Some))
         (snd (run_state (shard_process_one mem_redis sample_sched_ext counting_idgen Some ''a'') w)))
   in w_db w' = future_db \<and> zsets (w_ks w') (pending_key 3) = [(60, ''s1'')]"
proof -
  let ?w = "start_world future_db (put_zset (pending_key 3) [(60, ''s1'')] (put_zset SHARDS_KEY [(0, show_int 3)] empty_keyspace)) (secs 5)"
  have keys: "pending_key 3 \<noteq> SHARDS_KEY" by (simp add: pending_key_def SHARDS_KEY_def)
  have "reconcile_rows (Some (secs 10)) future_db = []" by (simp add: reconcile_rows_def future_db_def secs_def)
  then have "case run_state (for_each [Sync (secs 50) (secs 10), Worker (secs 61) ''b''] (run_move mem_redis sample_sched_ext counting_idgen Some))
      (snd (run_state (shard_process_one mem_redis sample_sched_ext counting_idgen Some ''a'') ?w)) of (_, w') \<Rightarrow>
    w_db w' = w_db ?w \<and> zsets (w_ks w') (pending_key 3) = zsets (w_ks ?w) (pending_key 3)"
    using keys by (intro idle_shard_is_forgotten [OF mem_zsets.redis_zsets_axioms mem_strings.redis_strings_axioms, where score = 0])
      (auto simp: put_zset_def holder_def str_at_def empty_keyspace_def timestamp_def secs_def)
  then show ?thesis by (simp add: case_prod_beta put_zset_def Let_def)
qed

section \<open>Paging\<close>

text \<open>Following the cursor skips a row: on rows in ascending order of distinct ids, a page holds
  the first \<open>limit\<close> of them and its cursor is the id of the next row, and since the next page asks
  for ids beyond the cursor, it starts one row later: that row is on no page.\<close>

theorem cursor_page_skips_row:
  assumes "sorted_wrt (<) (map key rows)" and "limit < length rows"
  shows "cut_page key limit rows = (take limit rows, Some (key (rows ! limit)))
    \<and> filter (\<lambda>r. key (rows ! limit) < key r) rows = drop (Suc limit) rows"
proof
  show "cut_page key limit rows = (take limit rows, Some (key (rows ! limit)))"
    using assms(2) by (simp add: cut_page_def Let_def butlast_take take_Suc_conv_app_nth)
next
  let ?c = "key (rows ! limit)"
  have sw: "sorted_wrt (\<lambda>a b. key a < key b) rows" using assms(1) by (simp add: sorted_wrt_map)
  have rows: "rows = take limit rows @ rows ! limit # drop (Suc limit) rows"
    using assms(2) by (simp add: id_take_nth_drop)
  have "sorted_wrt (\<lambda>a b. key a < key b) (take limit rows @ rows ! limit # drop (Suc limit) rows)"
    using sw rows by simp
  then have "\<forall>r\<in>set (take limit rows). \<not> ?c < key r" "\<forall>r\<in>set (drop (Suc limit) rows). ?c < key r"
    by (auto simp: sorted_wrt_append)
  then have "filter (\<lambda>r. ?c < key r) (take limit rows @ rows ! limit # drop (Suc limit) rows) = drop (Suc limit) rows"
    by (simp add: filter_empty_conv filter_id_conv)
  with rows show "filter (\<lambda>r. ?c < key r) rows = drop (Suc limit) rows" by metis
qed

theorem cursor_page_skips_row_witness:
  "cut_page id 2 [''a'', ''b'', ''c'', ''d''] = ([''a'', ''b''], Some ''c'') \<and>
   filter (\<lambda>r. ''c'' < id r) [''a'', ''b'', ''c'', ''d''] = [''d'']"
  using cursor_page_skips_row [of id "[''a'', ''b'', ''c'', ''d'']" 2] by simp

end
