(* ===== verification/Deliver_Props.thy ===== *)
theory Deliver_Props
  imports Worker_Faults
begin

text \<open>
  What a delivery attempt reports, what is signed, and the answers of the manual retry.
\<close>

section \<open>Lemmas\<close>

lemma parse_signed_range: "parse_signed lo hi s = Some i \<Longrightarrow> lo \<le> i \<and> i \<le> hi"
  by (cases s) (auto simp: Let_def split: option.splits if_splits)

lemma parse_u64_range: "parse_u64 s = Some i \<Longrightarrow> 0 \<le> i \<and> i < 2 ^ 64"
  using parse_signed_range [of 0 "2 ^ 64 - 1" s i] by (auto simp: parse_u64_def split: if_splits)

lemma take_chars_prefix: "\<exists>r. s = take_chars n s @ r"
  by (induction n s rule: take_chars.induct) (auto split: nat.splits)

lemma count_take_chars: "count_chars (take_chars n s) = min n (count_chars s)"
  by (induction n s rule: take_chars.induct) (auto simp: count_chars_def split: nat.splits)

lemma take_chars_all: "count_chars s \<le> n \<Longrightarrow> take_chars n s = s"
  by (induction n s rule: take_chars.induct) (auto simp: count_chars_def split: nat.splits if_splits)

definition result_ok :: "delivery_result \<Rightarrow> bool" where
  "result_ok r \<longleftrightarrow> 0 \<le> dr_latency_ms r \<and> dr_latency_ms r < 2 ^ 31 \<and>
     (dr_status r = Success \<longleftrightarrow> (\<exists>s. dr_http_status r = Some s \<and> 200 \<le> s \<and> s < 300)) \<and>
     (dr_status r = Timeout \<longrightarrow> dr_http_status r = None) \<and>
     (dr_http_status r \<noteq> None \<longrightarrow> (\<forall>b. dr_response_body r = Some b \<longrightarrow> count_chars b \<le> 4096)) \<and>
     (\<forall>n. dr_retry_after_secs r = Some n \<longrightarrow> dr_http_status r = Some 429 \<and> 0 \<le> n \<and> n < 2 ^ 64)"

lemma latency_of_bounds: "0 \<le> latency_of n \<and> latency_of n < 2 ^ 31"
  by (simp add: latency_of_def min_def)

lemma classify_ok: "0 \<le> l \<and> l < 2 ^ 31 \<Longrightarrow> result_ok (classify rep l)"
  by (cases rep) (auto simp: result_ok_def count_take_chars bind_eq_Some_conv dest: parse_u64_range)

lemma classify_latency_ok: "result_ok (classify rep (latency_of n))"
  by (intro classify_ok latency_of_bounds)

lemma failed_ok: "result_ok (failed_before_send m)"
  by (simp add: result_ok_def failed_before_send_def)

lemma dot_free_prefix:
  assumes "a @ CHR ''.'' # b = c @ CHR ''.'' # d" and "CHR ''.'' \<notin> set a" and "CHR ''.'' \<notin> set c"
  shows "a = c \<and> b = d"
proof -
  have "Some (a, b) = Some (c, d)"
    unfolding split_once_append [OF assms(2), of b, symmetric] split_once_append [OF assms(3), of d, symmetric]
    using assms(1) by (rule arg_cong)
  then show ?thesis by simp
qed

lemma show_nat_no_dot: "CHR ''.'' \<notin> set (show_nat n)"
  using show_nat_digits [of n] by (auto simp: list_all_iff is_digit_def)

lemma show_int_no_dot: "CHR ''.'' \<notin> set (show_int i)"
  by (simp add: show_int_def show_nat_no_dot)

section \<open>Properties\<close>

text \<open>What is signed determines the delivery: two signed contents with event ids free of
  dots are equal only if event id, timestamp and payload are, so a signature for one delivery
  cannot be presented with another body, time or event.\<close>

theorem signed_content_unambiguous:
  assumes "CHR ''.'' \<notin> set e" and "CHR ''.'' \<notin> set e'" and "signed_content e t p = signed_content e' t' p'"
  shows "e = e' \<and> t = t' \<and> p = p'"
proof -
  have "e @ CHR ''.'' # (show_int t @ CHR ''.'' # p) = e' @ CHR ''.'' # (show_int t' @ CHR ''.'' # p')"
    using assms(3) by (simp add: signed_content_def)
  from dot_free_prefix [OF this assms(1,2)]
  have "e = e'" and "show_int t @ CHR ''.'' # p = show_int t' @ CHR ''.'' # p'" by simp_all
  with dot_free_prefix [OF this(2) show_int_no_dot show_int_no_dot] show ?thesis by simp
qed

theorem signed_content_unambiguous_witness:
  "signed_content ''evn_1'' 17 ''1.2'' \<noteq> signed_content ''evn_1'' 171 ''.2''"
  using signed_content_unambiguous [of "''evn_1''" "''evn_1''" 17 "''1.2''" 171 "''.2''"] by auto

text \<open>Every result of a delivery attempt is within bounds, whatever the client, the cipher
  and the JSON library return: the latency fits the 32-bit column, the body of an answer is
  cut at 4096 characters, success means a 2xx answer and nothing else, and a retry delay is
  reported for a 429 only and fits 64 bits.\<close>

theorem deliver_result_within_bounds:
  "case fst (run_state (deliver E job) w) of None \<Rightarrow> True | Some r \<Rightarrow> result_ok r"
  by (auto simp: deliver_def run_simps send_def case_prod_beta failed_ok classify_latency_ok
      split: sum.splits option.splits)

text \<open>Cutting the body keeps whole characters: the result is a prefix of the body with the
  first 4096 characters, and a body that is not longer is kept as it is.\<close>

theorem body_cut_keeps_whole_characters:
  "(\<exists>r. s = take_chars n s @ r) \<and> count_chars (take_chars n s) = min n (count_chars s) \<and>
   (count_chars s \<le> n \<longrightarrow> take_chars n s = s)"
  by (simp add: take_chars_prefix count_take_chars take_chars_all)

theorem body_cut_keeps_whole_characters_witness:
  "take_chars 2 [CHR ''a'', char_of (195::nat), char_of (169::nat), CHR ''b''] = [CHR ''a'', char_of (195::nat), char_of (169::nat)]
   \<and> take_chars 5 ''abc'' = ''abc''"
  using body_cut_keeps_whole_characters [of "''abc''" 5] by (simp add: byte_in_def count_chars_def numeral_2_eq_2)

text \<open>The manual retry answers by the state of the job: an unknown id is a 404, a job that
  is not failed a 409 with nothing changed; a failed job is put back to pending and published,
  its row is returned, and its attempt counter is kept.\<close>

theorem retry_delivery_job_outcomes:
  assumes "redis_server R" and "no_faults w" and "zset_ok (zsets (w_ks w) STREAM_SET_KEY)"
    and "distinct (map dj_public_id (delivery_jobs (w_db w)))"
  shows "case run_state (retry_delivery_job R p) w of (r, w') \<Rightarrow>
    (case find (\<lambda>j. dj_public_id j = p) (delivery_jobs (w_db w)) of
       None \<Rightarrow> (\<exists>m. r = Inl (NotFound m)) \<and> w' = w
     | Some j \<Rightarrow> if dj_status j = ''failed''
         then r = Inr (200, job_response_of (j\<lparr>dj_status := ''pending'', dj_enqueued_at := None\<rparr>)) \<and>
           published (w_ks w') (dj_stream_name j) p
         else (\<exists>m. r = Inl (Conflict m [])) \<and> w' = w)"
proof (cases "find (\<lambda>j. dj_public_id j = p) (delivery_jobs (w_db w))")
  case None
  then have none: "\<forall>j\<in>set (delivery_jobs (w_db w)). dj_public_id j \<noteq> p" by (auto simp: find_None_iff)
  then have "update_where (\<lambda>j. dj_public_id j = p \<and> dj_status j = ''failed'') f (delivery_jobs (w_db w)) = delivery_jobs (w_db w)" for f
    by (intro update_where_none) auto
  with None none assms(2) show ?thesis
    by (auto simp: retry_delivery_job_def reset_for_retry_def reset_rows_def job_exists_def run_simps Let_def first_row_def
        filter_empty_conv split: list.splits)
next
  case (Some j)
  then have j: "j \<in> set (delivery_jobs (w_db w))" "dj_public_id j = p" by (auto dest: find_SomeD)
  have uniq: "x \<in> set (delivery_jobs (w_db w)) \<Longrightarrow> dj_public_id x = p \<Longrightarrow> x = j" for x
    using j assms(4) by (auto simp: distinct_map inj_on_def)
  show ?thesis
  proof (cases "dj_status j = ''failed''")
    case False
    then have none: "\<And>x. x \<in> set (delivery_jobs (w_db w)) \<Longrightarrow> \<not> (dj_public_id x = p \<and> dj_status x = ''failed'')"
      using uniq by blast
    then have "update_where (\<lambda>j. dj_public_id j = p \<and> dj_status j = ''failed'') f (delivery_jobs (w_db w)) = delivery_jobs (w_db w)" for f
      by (rule update_where_none)
    moreover have "filter (\<lambda>j. dj_public_id j = p \<and> dj_status j = ''failed'') (delivery_jobs (w_db w)) = []"
      using none by (auto simp: filter_empty_conv)
    ultimately show ?thesis
      using Some False assms(2) j
      by (auto simp: retry_delivery_job_def reset_for_retry_def reset_rows_def job_exists_def run_simps Let_def first_row_def)
  next
    case True
    have "filter (\<lambda>x. dj_public_id x = p \<and> dj_status x = ''failed'') (delivery_jobs (w_db w)) = [j]"
      using filter_unique_key [OF assms(4) j] True by simp
    then have reset: "run_state (reset_for_retry p) w = (Inr (Some (j\<lparr>dj_status := ''pending'', dj_enqueued_at := None\<rparr>)),
        w\<lparr>w_db := snd (reset_rows p (w_db w))\<rparr>)"
      using assms(2) by (simp add: reset_for_retry_def reset_rows_def run_simps Let_def first_row_def)
    let ?w = "w\<lparr>w_db := snd (reset_rows p (w_db w))\<rparr>"
    let ?u = "\<lparr>uj_id = dj_id j, uj_public_id = p, uj_stream_name = dj_stream_name j\<rparr>"
    have "snd (run_state (retry_delivery_job R p) w) = snd (run_state (outbox_one R ?u) ?w)"
      and "fst (run_state (retry_delivery_job R p) w) = Inr (200, job_response_of (j\<lparr>dj_status := ''pending'', dj_enqueued_at := None\<rparr>))"
      using j by (auto simp: retry_delivery_job_def run_simps reset outbox_one_def case_prod_beta split: sum.splits)
    moreover have "published (w_ks (snd (run_state (outbox_one R ?u) ?w))) (dj_stream_name j) p"
      using redis_server.outbox_one_effect [OF assms(1), of ?w ?u] assms(2,3) by (auto simp: case_prod_beta)
    ultimately show ?thesis using Some True by (simp add: case_prod_beta)
  qed
qed

theorem retry_delivery_job_outcomes_witness:
  "\<exists>m. fst (run_state (retry_delivery_job mem_redis ''dj_1'') (start_world sample_db empty_keyspace 0)) = Inl (Conflict m [])"
  using retry_delivery_job_outcomes [OF mem_server.redis_server_axioms, of "start_world sample_db empty_keyspace 0" "''dj_1''"]
  by (simp add: sample_db_def sample_job_def empty_keyspace_def case_prod_beta)

end
