(* ===== verification/Api_Keys.thy ===== *)
theory Api_Keys
  imports Subscriptions Deliver Request_Checks
begin

text \<open>
  API keys (\<open>src/features/api_keys/\<close>): generation, hashing and the encrypted copy (\<open>crypto.rs\<close>), the
  statements (\<open>repository.rs\<close>), the operations with their audit records (\<open>service.rs\<close>) and the
  handlers. SHA-256 and the cipher are parameters. A panic is the value \<open>None\<close>.
\<close>

section \<open>Keys\<close>

record key_ext =
  kx_crypto :: crypto_ext
  kx_sha256 :: "string \<Rightarrow> string"
  kx_raw_key :: string

text \<open>\<open>key_length as usize\<close> sign-extends.\<close>

definition generate_api_key :: "idgen \<Rightarrow> string \<Rightarrow> int \<Rightarrow> (string \<times> string) io" where
  "generate_api_key G env_name key_length = do {
     random_part \<leftarrow> generate G (nat (key_length mod 2 ^ 64));
     let env_tag = take_chars 3 env_name;
     let random_hint = take_chars 3 random_part;
     State_Monad.return (''key_'' @ env_tag @ ''_'' @ random_part, env_tag @ ''_'' @ random_hint) }"

definition hash_key :: "key_ext \<Rightarrow> string \<Rightarrow> string" where
  "hash_key K key = b64url_encode (kx_crypto K) (kx_sha256 K key)"

definition encrypt_key :: "key_ext \<Rightarrow> string \<Rightarrow> (app_error + string) io" where
  "encrypt_key K plaintext = do {
     n \<leftarrow> fresh;
     let nonce = rand_bytes (kx_crypto K) n 12;
     State_Monad.return (case aes_encrypt (kx_crypto K) (kx_raw_key K) nonce plaintext of
         None \<Rightarrow> Inl (Internal ''api key encryption failed'')
       | Some ciphertext \<Rightarrow> Inr (''v1$'' @ b64url_encode (kx_crypto K) nonce @ ''$'' @ b64url_encode (kx_crypto K) ciphertext)) }"

definition decrypt_key :: "key_ext \<Rightarrow> string \<Rightarrow> (app_error + string) option" where
  "decrypt_key K envelope = (let parts = splitn3 (CHR ''$'') envelope in
     if length parts \<noteq> 3 \<or> parts ! 0 \<noteq> ''v1'' then Some (Inl (Internal ''invalid api key envelope format''))
     else (case b64url_decode (kx_crypto K) (parts ! 1) of
        None \<Rightarrow> Some (Inl (Internal ''invalid nonce encoding in api key envelope''))
      | Some nonce_bytes \<Rightarrow> (case b64url_decode (kx_crypto K) (parts ! 2) of
          None \<Rightarrow> Some (Inl (Internal ''invalid ciphertext encoding in api key envelope''))
        | Some ciphertext \<Rightarrow>
            if length nonce_bytes \<noteq> 12 then None
            else (case aes_decrypt (kx_crypto K) (kx_raw_key K) nonce_bytes ciphertext of
                None \<Rightarrow> Some (Inl (Internal ''api key decryption failed''))
              | Some plaintext \<Rightarrow> (case from_utf8 plaintext of
                  None \<Rightarrow> Some (Inl (Internal ''decrypted api key contains invalid UTF-8''))
                | Some s \<Rightarrow> Some (Inr s))))))"

section \<open>Requests\<close>

record create_api_key_request =
  ck_user_id :: uuid
  ck_name :: string
  ck_description :: "string option"
  ck_environment_id :: string
  ck_expires_at :: "time option"

definition trimmed_text :: "string option \<Rightarrow> string option" where
  "trimmed_text d = Option.bind d (\<lambda>x. if trim x = [] then None else Some (trim x))"

definition normalize_create_key :: "create_api_key_request \<Rightarrow> create_api_key_request" where
  "normalize_create_key r = r\<lparr>ck_name := trim (ck_name r), ck_description := trimmed_text (ck_description r)\<rparr>"

definition must_be_future :: "time \<Rightarrow> time option \<Rightarrow> app_error + unit" where
  "must_be_future t e = (case e of None \<Rightarrow> Inr () | Some x \<Rightarrow> if x \<le> t
     then Inl (Validation [field_error_new ''expires_at'' ''invalid_value'' ''expires_at must be in the future'']) else Inr ())"

definition validate_create_key :: "time \<Rightarrow> create_api_key_request \<Rightarrow> app_error + unit" where
  "validate_create_key t r = (case reject_errors
      [(''name'', validate_not_blank ''name is required'' (ck_name r) @ validate_max 64 ''name must be 64 characters or fewer'' (ck_name r)),
       (''description'', on_some (ck_description r) (validate_max 521 ''description must be 521 characters or fewer'')),
       (''environment_id'', validate_not_blank ''environment_id is required'' (ck_environment_id r))] of
      Inl e \<Rightarrow> Inl e | Inr _ \<Rightarrow> must_be_future t (ck_expires_at r))"

record update_api_key_request =
  uk_description :: "string option"
  uk_expires_at :: "time option"

definition normalize_update_key :: "update_api_key_request \<Rightarrow> update_api_key_request" where
  "normalize_update_key r = r\<lparr>uk_description := trimmed_text (uk_description r)\<rparr>"

definition validate_update_key :: "time \<Rightarrow> update_api_key_request \<Rightarrow> app_error + unit" where
  "validate_update_key t r = (if uk_description r = None \<and> uk_expires_at r = None
     then Inl (BadRequest ''at least one of description or expires_at must be provided'')
     else if (case uk_description r of None \<Rightarrow> False | Some d \<Rightarrow> 521 < length d)
     then Inl (Validation [field_error_new ''description'' ''max_length'' ''description must be 521 characters or fewer''])
     else must_be_future t (uk_expires_at r))"

text \<open>\<open>UpsertApiKeySettingsRequest\<close> and \<open>UpdateApiKeySettingsRequest\<close> have the same fields and checks.\<close>

record key_settings_request =
  sq_max_keys_per_user :: "int option"
  sq_key_length :: int
  sq_default_ttl_seconds :: "int option"
  sq_allow_view_later :: bool

definition validate_settings :: "key_settings_request \<Rightarrow> app_error + unit" where
  "validate_settings r = (if sq_key_length r < 16 \<or> 128 < sq_key_length r
     then Inl (Validation [field_error_new ''key_length'' ''invalid_value'' ''key_length must be between 16 and 128''])
     else if (case sq_max_keys_per_user r of None \<Rightarrow> False | Some m \<Rightarrow> m < 1)
     then Inl (Validation [field_error_new ''max_keys_per_user'' ''invalid_value'' ''max_keys_per_user must be at least 1''])
     else if (case sq_default_ttl_seconds r of None \<Rightarrow> False | Some m \<Rightarrow> m < 1)
     then Inl (Validation [field_error_new ''default_ttl_seconds'' ''invalid_value'' ''default_ttl_seconds must be at least 1''])
     else Inr ())"

record list_keys_query =
  lk_user_id :: "uuid option"
  lk_environment_id :: "string option"
  lk_status :: "api_key_status option"
  lk_limit :: "int option"
  lk_cursor :: "uuid option"
  lk_tags :: "(string \<times> string) list option"

section \<open>Rows with the public ids of what they refer to\<close>

record api_key =
  kv_row :: api_key_row
  kv_org_public_id :: string
  kv_tenant_public_id :: string
  kv_user_public_id :: string
  kv_created_by_public_id :: "string option"
  kv_updated_by_public_id :: "string option"

definition find_tenant :: "uuid \<Rightarrow> db \<Rightarrow> tenant_row option" where
  "find_tenant i d = find (\<lambda>t. tn_id t = i) (tenants (identity d))"

definition find_org :: "uuid \<Rightarrow> db \<Rightarrow> org_row option" where
  "find_org i d = find (\<lambda>g. og_id g = i) (organizations d)"

definition user_public :: "uuid \<Rightarrow> db \<Rightarrow> string option" where
  "user_public i d = map_option us_public_id (find (\<lambda>u. us_id u = i) (users (identity d)))"

definition view_api_key :: "db \<Rightarrow> api_key_row \<Rightarrow> api_key option" where
  "view_api_key d k = (case (find_org (ak_org_id k) d, find_tenant (ak_tenant_id k) d, user_public (ak_user_id k) d) of
      (Some g, Some t, Some u) \<Rightarrow> Some \<lparr>kv_row = k, kv_org_public_id = og_public_id g, kv_tenant_public_id = tn_public_id t,
        kv_user_public_id = u, kv_created_by_public_id = user_public (ak_created_by k) d, kv_updated_by_public_id = user_public (ak_updated_by k) d\<rparr>
    | _ \<Rightarrow> None)"

record api_key_settings_view =
  tv_row :: api_key_settings_row
  tv_org_public_id :: string
  tv_tenant_public_id :: string

definition view_settings :: "db \<Rightarrow> api_key_settings_row \<Rightarrow> api_key_settings_view option" where
  "view_settings d s = (case (find_org (ks_org_id s) d, find_tenant (ks_tenant_id s) d) of
      (Some g, Some t) \<Rightarrow> Some \<lparr>tv_row = s, tv_org_public_id = og_public_id g, tv_tenant_public_id = tn_public_id t\<rparr> | _ \<Rightarrow> None)"

definition update_identity :: "(identity_db \<Rightarrow> identity_db) \<Rightarrow> db \<Rightarrow> db" where
  "update_identity f d = d\<lparr>identity := f (identity d)\<rparr>"

section \<open>Statements\<close>

text \<open>\<open>fetch_one\<close>: the statement has run even when it gives no row.\<close>

definition fetch_one :: "(sqlx_error + 'a option) io \<Rightarrow> (sqlx_error + 'a) io" where
  "fetch_one m = try_bind m (\<lambda>r. State_Monad.return (case r of None \<Rightarrow> Inl RowNotFound | Some v \<Rightarrow> Inr v))"

definition insert_api_key :: "api_key_row \<Rightarrow> db \<Rightarrow> (sqlx_error + api_key option) \<times> db" where
  "insert_api_key k d = (let ks = api_keys (identity d) in
     if \<exists>x\<in>set ks. ak_id x = ak_id k then (Inl (duplicate_key ''api_keys'' ''api_keys_pkey'' ''id'' (ak_id k)), d)
     else if \<exists>x\<in>set ks. ak_public_id x = ak_public_id k then (Inl (duplicate_key ''api_keys'' ''api_keys_public_id_uq'' ''public_id'' (ak_public_id k)), d)
     else if \<exists>x\<in>set ks. ak_key_hash x = ak_key_hash k then (Inl (duplicate_key ''api_keys'' ''api_keys_key_hash_uq'' ''key_hash'' (ak_key_hash k)), d)
     else if \<exists>x\<in>set ks. ak_user_id x = ak_user_id k \<and> ak_name x = ak_name k \<and> ak_deleted_at x = None
       then (Inl (duplicate_key ''api_keys'' ''api_keys_user_name_uq'' ''user_id, name'' (ak_user_id k @ '', '' @ ak_name k)), d)
     else (Inr (view_api_key d k), update_identity (api_keys_update (\<lambda>_. ks @ [k])) d))"

definition create_api_key_row :: "idgen \<Rightarrow> uuid \<Rightarrow> uuid \<Rightarrow> uuid \<Rightarrow> string \<Rightarrow> string option \<Rightarrow> string \<Rightarrow> string option \<Rightarrow> string \<Rightarrow> string \<Rightarrow>
    time option \<Rightarrow> request_context \<Rightarrow> (app_error + api_key) io" where
  "create_api_key_row G org_id tenant_id user_id name description key_hash key_encrypted key_prefix environment_id expires_at ctx = do {
     n \<leftarrow> fresh;
     nano \<leftarrow> nano_id_new G;
     map_sqlx (fetch_one (statement (\<lambda>t. insert_api_key \<lparr>ak_id = uuid_of G n, ak_public_id = ''key_'' @ nano, ak_org_id = org_id,
       ak_tenant_id = tenant_id, ak_user_id = user_id, ak_name = name, ak_description = description, ak_key_hash = key_hash,
       ak_key_encrypted = key_encrypted, ak_key_prefix = key_prefix, ak_environment_id = environment_id, ak_status = KeyActive,
       ak_expires_at = expires_at, ak_last_used_at = None, ak_tags = [], ak_request_id = rc_request_id ctx, ak_version = 0,
       ak_created_by = rc_created_by ctx, ak_updated_by = rc_created_by ctx, ak_created_at = t, ak_updated_at = t, ak_deleted_at = None\<rparr>))) }"

definition select_api_keys :: "(api_key_row \<Rightarrow> bool) \<Rightarrow> db \<Rightarrow> api_key list" where
  "select_api_keys p d = List.map_filter (view_api_key d) (filter p (api_keys (identity d)))"

definition live_key :: "string \<Rightarrow> api_key_row \<Rightarrow> bool" where
  "live_key public_id k \<longleftrightarrow> ak_public_id k = public_id \<and> ak_deleted_at k = None"

definition get_key_by_public_id :: "string \<Rightarrow> (app_error + api_key option) io" where
  "get_key_by_public_id public_id = map_sqlx (query (\<lambda>_ d. first_row (select_api_keys (live_key public_id) d)))"

definition get_by_hash :: "string \<Rightarrow> (app_error + api_key option) io" where
  "get_by_hash key_hash = map_sqlx (query (\<lambda>_ d. first_row (select_api_keys (\<lambda>k. ak_key_hash k = key_hash) d)))"

definition list_key_rows :: "uuid \<Rightarrow> list_keys_query \<Rightarrow> nat \<Rightarrow> (string \<times> string) list option \<Rightarrow> (app_error + api_key list \<times> uuid option) io" where
  "list_key_rows tenant_id q limit tags = map_sqlx (query (\<lambda>_ d. cut_page (ak_id \<circ> kv_row) limit (sort_key (ak_id \<circ> kv_row)
     (select_api_keys (\<lambda>k. ak_tenant_id k = tenant_id \<and> ak_deleted_at k = None \<and>
       (case lk_user_id q of None \<Rightarrow> True | Some u \<Rightarrow> ak_user_id k = u) \<and>
       (case lk_environment_id q of None \<Rightarrow> True | Some e \<Rightarrow> ak_environment_id k = e) \<and>
       (case lk_status q of None \<Rightarrow> True | Some s \<Rightarrow> ak_status k = s) \<and>
       (case tags of None \<Rightarrow> True | Some ts \<Rightarrow> set ts \<subseteq> set (ak_tags k)) \<and>
       (case lk_cursor q of None \<Rightarrow> True | Some c \<Rightarrow> c < ak_id k)) d))))"

definition update_keys :: "(api_key_row \<Rightarrow> bool) \<Rightarrow> (api_key_row \<Rightarrow> api_key_row) \<Rightarrow> db \<Rightarrow> db" where
  "update_keys p f d = update_identity (api_keys_update (update_where p f)) d"

definition touch_key :: "request_context \<Rightarrow> time \<Rightarrow> api_key_row \<Rightarrow> api_key_row" where
  "touch_key ctx t k = k\<lparr>ak_updated_by := rc_created_by ctx, ak_request_id := rc_request_id ctx, ak_version := ak_version k + 1, ak_updated_at := t\<rparr>"

definition update_api_key_row :: "string \<Rightarrow> string option \<Rightarrow> time option \<Rightarrow> request_context \<Rightarrow> (app_error + api_key option) io" where
  "update_api_key_row public_id description expires_at ctx = map_sqlx (statement (\<lambda>t d.
     let f = (\<lambda>k. touch_key ctx t (k\<lparr>ak_description := (case description of None \<Rightarrow> ak_description k | Some x \<Rightarrow> Some x),
           ak_expires_at := (case expires_at of None \<Rightarrow> ak_expires_at k | Some x \<Rightarrow> Some x)\<rparr>)) in
     (Inr (first_row (List.map_filter (view_api_key d) (map f (filter (live_key public_id) (api_keys (identity d)))))),
      update_keys (live_key public_id) f d)))"

definition delete_api_key_row :: "string \<Rightarrow> request_context \<Rightarrow> (app_error + bool) io" where
  "delete_api_key_row public_id ctx = map_sqlx (statement (\<lambda>t d.
     (Inr (\<exists>k\<in>set (api_keys (identity d)). live_key public_id k),
      update_keys (live_key public_id) (\<lambda>k. touch_key ctx t (k\<lparr>ak_deleted_at := Some t\<rparr>)) d)))"

definition user_key :: "uuid \<Rightarrow> uuid \<Rightarrow> api_key_row \<Rightarrow> bool" where
  "user_key tenant_id user_id k \<longleftrightarrow> ak_tenant_id k = tenant_id \<and> ak_user_id k = user_id \<and> ak_deleted_at k = None \<and> ak_status k = KeyActive"

definition count_active_for_user :: "uuid \<Rightarrow> uuid \<Rightarrow> (app_error + int) io" where
  "count_active_for_user tenant_id user_id = map_sqlx (query (\<lambda>_ d. int (length (filter (user_key tenant_id user_id) (api_keys (identity d))))))"

definition select_settings :: "(api_key_settings_row \<Rightarrow> bool) \<Rightarrow> db \<Rightarrow> api_key_settings_view list" where
  "select_settings p d = List.map_filter (view_settings d) (filter p (api_key_settings (identity d)))"

definition get_settings_by_tenant :: "uuid \<Rightarrow> (app_error + api_key_settings_view option) io" where
  "get_settings_by_tenant tenant_id = map_sqlx (query (\<lambda>_ d. first_row (select_settings (\<lambda>s. ks_tenant_id s = tenant_id) d)))"

definition get_settings_by_public_id :: "string \<Rightarrow> (app_error + api_key_settings_view option) io" where
  "get_settings_by_public_id public_id = map_sqlx (query (\<lambda>_ d. first_row (select_settings (\<lambda>s. ks_public_id s = public_id) d)))"

definition apply_settings :: "key_settings_request \<Rightarrow> request_context \<Rightarrow> time \<Rightarrow> api_key_settings_row \<Rightarrow> api_key_settings_row" where
  "apply_settings req ctx t s = s\<lparr>ks_max_keys_per_user := sq_max_keys_per_user req, ks_key_length := sq_key_length req,
     ks_default_ttl_seconds := sq_default_ttl_seconds req, ks_allow_view_later := sq_allow_view_later req,
     ks_request_id := rc_request_id ctx, ks_version := ks_version s + 1, ks_updated_by := rc_created_by ctx, ks_updated_at := t\<rparr>"

text \<open>\<open>INSERT ... ON CONFLICT (organization_id, tenant_id) DO UPDATE\<close>.\<close>

definition upsert_settings_rows :: "api_key_settings_row \<Rightarrow> key_settings_request \<Rightarrow> request_context \<Rightarrow> time \<Rightarrow> db \<Rightarrow>
    (sqlx_error + api_key_settings_view option) \<times> db" where
  "upsert_settings_rows s req ctx t d = (let hit = (\<lambda>x. ks_org_id x = ks_org_id s \<and> ks_tenant_id x = ks_tenant_id s); rows = api_key_settings (identity d) in
     case find hit rows of
       Some x \<Rightarrow> (Inr (view_settings d (apply_settings req ctx t x)),
         update_identity (api_key_settings_update (update_where hit (apply_settings req ctx t))) d)
     | None \<Rightarrow> if \<exists>x\<in>set rows. ks_id x = ks_id s then (Inl (duplicate_key ''api_key_settings'' ''api_key_settings_pkey'' ''id'' (ks_id s)), d)
         else if \<exists>x\<in>set rows. ks_public_id x = ks_public_id s
           then (Inl (duplicate_key ''api_key_settings'' ''api_key_settings_public_id_uq'' ''public_id'' (ks_public_id s)), d)
         else (Inr (view_settings d s), update_identity (api_key_settings_update (\<lambda>_. rows @ [s])) d))"

definition upsert_settings :: "idgen \<Rightarrow> key_settings_request \<Rightarrow> request_context \<Rightarrow> (app_error + api_key_settings_view) io" where
  "upsert_settings G req ctx = do {
     n \<leftarrow> fresh;
     nano \<leftarrow> nano_id_new G;
     map_sqlx (fetch_one (statement (\<lambda>t. upsert_settings_rows \<lparr>ks_id = uuid_of G n, ks_public_id = ''aks_'' @ nano, ks_org_id = rc_org_id ctx,
       ks_tenant_id = rc_tenant_id ctx, ks_max_keys_per_user = sq_max_keys_per_user req, ks_key_length = sq_key_length req,
       ks_default_ttl_seconds = sq_default_ttl_seconds req, ks_allow_view_later = sq_allow_view_later req, ks_request_id = rc_request_id ctx,
       ks_version = 0, ks_created_by = rc_created_by ctx, ks_updated_by = rc_created_by ctx, ks_created_at = t, ks_updated_at = t\<rparr> req ctx t))) }"

definition update_settings_row :: "string \<Rightarrow> key_settings_request \<Rightarrow> request_context \<Rightarrow> (app_error + api_key_settings_view option) io" where
  "update_settings_row public_id req ctx = map_sqlx (statement (\<lambda>t d. let hit = (\<lambda>s. ks_public_id s = public_id) in
     (Inr (first_row (List.map_filter (view_settings d) (map (apply_settings req ctx t) (filter hit (api_key_settings (identity d)))))),
      update_identity (api_key_settings_update (update_where hit (apply_settings req ctx t))) d)))"

definition insert_audit :: "(time \<Rightarrow> api_key_audit_row) \<Rightarrow> (app_error + unit) io" where
  "insert_audit a = map_sqlx (statement (\<lambda>t d. (Inr (), update_identity (api_key_audits_update (\<lambda>as. as @ [a t])) d)))"

text \<open>\<open>EnvironmentRepository::get_by_public_id\<close>, an inner join with tenant and organization.\<close>

definition get_environment :: "string \<Rightarrow> (app_error + environment_row option) io" where
  "get_environment public_id = map_sqlx (query (\<lambda>_ d. first_row (filter (\<lambda>e. case find_tenant (en_tenant_id e) d of None \<Rightarrow> False
       | Some t \<Rightarrow> find_org (tn_org_id t) d \<noteq> None) (filter (\<lambda>e. en_public_id e = public_id) (environments (identity d))))))"

end
