(* ===== verification/Api_Key_Service.thy ===== *)
theory Api_Key_Service
  imports Api_Keys
begin

text \<open>
  The operations on API keys and their settings (\<open>src/features/api_keys/service.rs\<close>) with their audit
  records, which are written on a best-effort basis after the change, and the handlers
  (\<open>handlers.rs\<close>), whose value pairs the HTTP status with the body.
\<close>

section \<open>Creating a key\<close>

definition key_missing :: "string \<Rightarrow> string" where
  "key_missing public_id = ''api key not found: '' @ public_id"

definition audit_key :: "api_key_row \<Rightarrow> string \<Rightarrow> request_context \<Rightarrow> audit_change list option \<Rightarrow> unit io" where
  "audit_key k action ctx changes = do {
     _ \<leftarrow> insert_audit (\<lambda>t. \<lparr>aa_api_key_id = ak_id k, aa_api_key_public_id = ak_public_id k, aa_org_id = ak_org_id k,
       aa_tenant_id = ak_tenant_id k, aa_user_id = ak_user_id k, aa_action = action, aa_actor_id = Some (rc_created_by ctx),
       aa_request_id = rc_request_id ctx, aa_changes = changes, aa_created_at = t\<rparr>);
     State_Monad.return () }"

definition checked_environment :: "string \<Rightarrow> uuid \<Rightarrow> (app_error + environment_row) io" where
  "checked_environment environment_id tenant_id = try_bind (get_environment environment_id) (\<lambda>r. State_Monad.return (case r of
      None \<Rightarrow> Inl (BadRequest (''environment not found: '' @ environment_id))
    | Some env \<Rightarrow> if en_tenant_id env \<noteq> tenant_id then Inl (BadRequest ''environment does not belong to this tenant'')
        else if en_status env \<noteq> EnvActive then Inl (BadRequest ''environment is not active'') else Inr env))"

definition check_key_limit :: "int option \<Rightarrow> uuid \<Rightarrow> uuid \<Rightarrow> (app_error + unit) io" where
  "check_key_limit max_keys tenant_id user_id = (case max_keys of
      None \<Rightarrow> State_Monad.return (Inr ())
    | Some m \<Rightarrow> try_bind (count_active_for_user tenant_id user_id) (\<lambda>count. State_Monad.return
        (if m \<le> count then Inl (Conflict (''user has reached the maximum of '' @ show_int m @ '' api key(s) for this tenant'') [])
         else Inr ())))"

definition encrypted_copy :: "key_ext \<Rightarrow> bool \<Rightarrow> string \<Rightarrow> (app_error + string option) io" where
  "encrypted_copy K allow_view_later full_key = (if allow_view_later
     then try_bind (encrypt_key K full_key) (\<lambda>e. State_Monad.return (Inr (Some e)))
     else State_Monad.return (Inr None))"

text \<open>Generate the key, store it and record its creation.\<close>

definition issue_api_key :: "key_ext \<Rightarrow> idgen \<Rightarrow> create_api_key_request \<Rightarrow> request_context \<Rightarrow> environment_row \<Rightarrow> api_key_settings_row option \<Rightarrow>
    (app_error + api_key \<times> string) io" where
  "issue_api_key K G req ctx env settings = do {
     t \<leftarrow> now;
     let key_length = coalesce (map_option ks_key_length settings) 32;
     let allow_view_later = coalesce (map_option ks_allow_view_later settings) False;
     let default_ttl = Option.bind settings ks_default_ttl_seconds;
     let expires_at = (case ck_expires_at req of Some e \<Rightarrow> Some e | None \<Rightarrow> map_option (\<lambda>ttl. t + secs ttl) default_ttl);
     (full_key, key_prefix) \<leftarrow> generate_api_key G (en_name env) key_length;
     let key_hash = hash_key K full_key;
     try_bind (encrypted_copy K allow_view_later full_key) (\<lambda>key_encrypted.
     try_bind (create_api_key_row G (rc_org_id ctx) (rc_tenant_id ctx) (ck_user_id req) (ck_name req) (ck_description req)
       key_hash key_encrypted key_prefix (ck_environment_id req) expires_at ctx) (\<lambda>key. do {
         _ \<leftarrow> audit_key (kv_row key) ''created'' ctx None;
         State_Monad.return (Inr (key, full_key)) })) }"

definition create_api_key :: "key_ext \<Rightarrow> idgen \<Rightarrow> create_api_key_request \<Rightarrow> request_context \<Rightarrow> (app_error + api_key \<times> string) io" where
  "create_api_key K G req ctx =
     try_bind (checked_environment (ck_environment_id req) (rc_tenant_id ctx)) (\<lambda>env.
     try_bind (get_settings_by_tenant (rc_tenant_id ctx)) (\<lambda>found.
     let settings = map_option tv_row found in
     try_bind (check_key_limit (Option.bind settings ks_max_keys_per_user) (rc_tenant_id ctx) (ck_user_id req)) (\<lambda>_.
       issue_api_key K G req ctx env settings)))"

section \<open>Reading and changing a key\<close>

definition get_api_key :: "string \<Rightarrow> (app_error + api_key) io" where
  "get_api_key public_id = or_not_found (get_key_by_public_id public_id) (key_missing public_id)"

definition key_changes :: "api_key_row \<Rightarrow> update_api_key_request \<Rightarrow> audit_change list option" where
  "key_changes k req = (let changes = (case uk_description req of None \<Rightarrow> [] | Some d \<Rightarrow> [DescriptionChange (ak_description k) d]) @
       (case uk_expires_at req of None \<Rightarrow> [] | Some e \<Rightarrow> [ExpiresChange (ak_expires_at k) e]) in
     if changes = [] then None else Some changes)"

definition update_api_key :: "string \<Rightarrow> update_api_key_request \<Rightarrow> request_context \<Rightarrow> (app_error + api_key) io" where
  "update_api_key public_id req ctx =
     try_bind (or_not_found (get_key_by_public_id public_id) (key_missing public_id)) (\<lambda>existing.
     try_bind (or_not_found (update_api_key_row public_id (uk_description req) (uk_expires_at req) ctx) (key_missing public_id)) (\<lambda>updated. do {
       _ \<leftarrow> audit_key (kv_row updated) ''updated'' ctx (key_changes (kv_row existing) req);
       State_Monad.return (Inr updated) }))"

definition delete_api_key :: "string \<Rightarrow> request_context \<Rightarrow> (app_error + unit) io" where
  "delete_api_key public_id ctx =
     try_bind (or_not_found (get_key_by_public_id public_id) (key_missing public_id)) (\<lambda>existing.
     try_bind (delete_api_key_row public_id ctx) (\<lambda>deleted.
       if \<not> deleted then State_Monad.return (Inl (NotFound (key_missing public_id)))
       else do {
         _ \<leftarrow> audit_key (kv_row existing) ''deleted'' ctx None;
         State_Monad.return (Inr ()) }))"

record reveal_response =
  rv_id :: string
  rv_key :: string

text \<open>The envelope and the key it belongs to, or why it cannot be shown.\<close>

definition stored_envelope :: "string \<Rightarrow> (app_error + api_key_row \<times> string) io" where
  "stored_envelope public_id =
     try_bind (or_not_found (get_key_by_public_id public_id) (key_missing public_id)) (\<lambda>key.
     try_bind (get_settings_by_tenant (ak_tenant_id (kv_row key))) (\<lambda>settings. State_Monad.return
       (if \<not> coalesce (map_option (ks_allow_view_later \<circ> tv_row) settings) False
        then Inl (BadRequest ''view-later is not enabled for this tenant'')
        else (case ak_key_encrypted (kv_row key) of
            None \<Rightarrow> Inl (BadRequest ''this key was created before view-later was enabled and cannot be revealed'')
          | Some envelope \<Rightarrow> Inr (kv_row key, envelope)))))"

definition reveal_api_key :: "key_ext \<Rightarrow> string \<Rightarrow> request_context \<Rightarrow> (app_error + reveal_response) option io" where
  "reveal_api_key K public_id ctx = do {
     r \<leftarrow> stored_envelope public_id;
     case r of Inl e \<Rightarrow> State_Monad.return (Some (Inl e))
     | Inr (k, envelope) \<Rightarrow> (case decrypt_key K envelope of
         None \<Rightarrow> State_Monad.return None
       | Some (Inl e) \<Rightarrow> State_Monad.return (Some (Inl e))
       | Some (Inr plaintext) \<Rightarrow> do {
           _ \<leftarrow> audit_key k ''revealed'' ctx None;
           State_Monad.return (Some (Inr \<lparr>rv_id = ak_public_id k, rv_key = plaintext\<rparr>)) }) }"

section \<open>Responses\<close>

record api_key_response =
  kr_id :: string
  kr_organization_id :: string
  kr_tenant_id :: string
  kr_user_id :: string
  kr_name :: string
  kr_description :: "string option"
  kr_environment_id :: string
  kr_status :: api_key_status
  kr_key_hint :: string
  kr_key :: "string option"
  kr_expires_at :: "time option"
  kr_last_used_at :: "time option"
  kr_created_by :: string
  kr_updated_by :: string
  kr_created_at :: time
  kr_updated_at :: time

definition api_key_response_of :: "api_key \<Rightarrow> api_key_response" where
  "api_key_response_of v = (let k = kv_row v in \<lparr>kr_id = ak_public_id k, kr_organization_id = kv_org_public_id v,
     kr_tenant_id = kv_tenant_public_id v, kr_user_id = kv_user_public_id v, kr_name = ak_name k, kr_description = ak_description k,
     kr_environment_id = ak_environment_id k, kr_status = ak_status k, kr_key_hint = ''key_'' @ ak_key_prefix k @ ''***'',
     kr_key = None, kr_expires_at = ak_expires_at k, kr_last_used_at = ak_last_used_at k,
     kr_created_by = coalesce (kv_created_by_public_id v) (ak_created_by k), kr_updated_by = coalesce (kv_updated_by_public_id v) (ak_updated_by k),
     kr_created_at = ak_created_at k, kr_updated_at = ak_updated_at k\<rparr>)"

record list_keys_response =
  lr_items :: "api_key_response list"
  lr_next_cursor :: "uuid option"
  lr_limit :: nat

definition list_api_keys :: "uuid \<Rightarrow> list_keys_query \<Rightarrow> (app_error + list_keys_response) io" where
  "list_api_keys tenant_id q = (let limit = page_limit (lk_limit q);
       tags = Option.bind (lk_tags q) (\<lambda>ts. if ts = [] then None else Some ts) in
     try_bind (list_key_rows tenant_id q limit tags) (\<lambda>(rows, nxt). State_Monad.return
       (Inr \<lparr>lr_items = map api_key_response_of rows, lr_next_cursor = nxt, lr_limit = limit\<rparr>)))"

section \<open>Settings\<close>

definition settings_missing :: "string \<Rightarrow> string" where
  "settings_missing public_id = ''api key settings not found: '' @ public_id"

definition get_settings_by_id :: "string \<Rightarrow> (app_error + api_key_settings_view) io" where
  "get_settings_by_id public_id = or_not_found (get_settings_by_public_id public_id) (settings_missing public_id)"

definition update_settings :: "string \<Rightarrow> key_settings_request \<Rightarrow> request_context \<Rightarrow> (app_error + api_key_settings_view) io" where
  "update_settings public_id req ctx = or_not_found (update_settings_row public_id req ctx) (settings_missing public_id)"

section \<open>Handlers\<close>

text \<open>A check that has to pass before the service is called.\<close>

definition checked :: "app_error + unit \<Rightarrow> (app_error + 'a) io \<Rightarrow> (app_error + 'a) io" where
  "checked c m = (case c of Inl e \<Rightarrow> State_Monad.return (Inl e) | Inr _ \<Rightarrow> m)"

definition with_status :: "int \<Rightarrow> ('a \<Rightarrow> 'b) \<Rightarrow> (app_error + 'a) io \<Rightarrow> (app_error + int \<times> 'b) io" where
  "with_status code f m = try_bind m (\<lambda>a. State_Monad.return (Inr (code, f a)))"

definition create_api_key_handler :: "key_ext \<Rightarrow> idgen \<Rightarrow> request_context \<Rightarrow> create_api_key_request \<Rightarrow> (app_error + int \<times> api_key_response) io" where
  "create_api_key_handler K G ctx payload = do {
     let req = normalize_create_key payload;
     t \<leftarrow> now;
     checked (validate_create_key t req)
       (with_status 201 (\<lambda>(key, plaintext). (api_key_response_of key)\<lparr>kr_key := Some plaintext\<rparr>) (create_api_key K G req ctx)) }"

definition list_api_keys_handler :: "request_context \<Rightarrow> list_keys_query \<Rightarrow> (app_error + int \<times> list_keys_response) io" where
  "list_api_keys_handler ctx q = with_status 200 id (list_api_keys (rc_tenant_id ctx) q)"

definition get_api_key_handler :: "string \<Rightarrow> (app_error + int \<times> api_key_response) io" where
  "get_api_key_handler public_id = checked (validate_id_prefix public_id ''key_'' ''api key'')
     (with_status 200 api_key_response_of (get_api_key public_id))"

definition update_api_key_handler :: "request_context \<Rightarrow> string \<Rightarrow> update_api_key_request \<Rightarrow> (app_error + int \<times> api_key_response) io" where
  "update_api_key_handler ctx public_id payload = do {
     let req = normalize_update_key payload;
     t \<leftarrow> now;
     checked (validate_update_key t req) (with_status 200 api_key_response_of (update_api_key public_id req ctx)) }"

definition delete_api_key_handler :: "request_context \<Rightarrow> string \<Rightarrow> (app_error + int \<times> unit) io" where
  "delete_api_key_handler ctx public_id = with_status 204 id (delete_api_key public_id ctx)"

definition upsert_settings_handler :: "idgen \<Rightarrow> request_context \<Rightarrow> key_settings_request \<Rightarrow> (app_error + int \<times> api_key_settings_view) io" where
  "upsert_settings_handler G ctx payload = checked (validate_settings payload) (with_status 201 id (upsert_settings G payload ctx))"

definition get_settings_handler :: "string \<Rightarrow> (app_error + int \<times> api_key_settings_view) io" where
  "get_settings_handler public_id = with_status 200 id (get_settings_by_id public_id)"

definition update_settings_handler :: "request_context \<Rightarrow> string \<Rightarrow> key_settings_request \<Rightarrow> (app_error + int \<times> api_key_settings_view) io" where
  "update_settings_handler ctx public_id payload = checked (validate_settings payload) (with_status 200 id (update_settings public_id payload ctx))"

section \<open>Preservation\<close>

lemma keeps_fetch_one [keeps_intros]: "keeps P m \<Longrightarrow> keeps P (fetch_one m)"
  unfolding fetch_one_def by (intro keeps_intros)

lemma keeps_or_not_found [keeps_intros]: "keeps P m \<Longrightarrow> keeps P (or_not_found m msg)"
  unfolding or_not_found_def by (intro keeps_intros)

lemma keeps_checked [keeps_intros]: "keeps P m \<Longrightarrow> keeps P (checked c m)"
  unfolding checked_def by (intro keeps_intros)

lemma keeps_with_status [keeps_intros]: "keeps P m \<Longrightarrow> keeps P (with_status code f m)"
  unfolding with_status_def by (intro keeps_intros)

end
