(* ===== verification/Auth.thy ===== *)
theory Auth
  imports Api_Key_Service Idempotency Redis_Memory
begin

text \<open>
  The authentication of every protected request (\<open>src/features/api_keys/auth.rs\<close>): the bearer token is
  a JWT signed by a tenant's key or an API key. What is needed to decide comes from one query, and
  is kept in Redis for 60 seconds (API keys) or 300 seconds (JWT keys). \<open>serde_json\<close>, \<open>jsonwebtoken\<close>
  and the UUID parser are parameters.
\<close>

section \<open>Data\<close>

record principal =
  pr_api_key_public_id :: string
  pr_org_id :: uuid
  pr_tenant_id :: uuid
  pr_user_id :: uuid

text \<open>\<open>AuthCacheEntry\<close>; the row \<open>AuthRow\<close> of the query has the same fields.\<close>

record auth_entry =
  ae_api_key_public_id :: string
  ae_org_id :: uuid
  ae_tenant_id :: uuid
  ae_user_id :: uuid
  ae_expires_at :: "time option"
  ae_api_key_deleted :: bool
  ae_api_key_status :: string
  ae_org_status :: string
  ae_org_deleted :: bool
  ae_tenant_status :: string
  ae_tenant_deleted :: bool

record jwt_key_entry =
  je_public_key_pem :: string
  je_algorithm :: string
  je_tenant_id :: uuid
  je_org_id :: uuid
  je_org_status :: string
  je_org_deleted :: bool
  je_tenant_status :: string
  je_tenant_deleted :: bool

record jwt_claims =
  cl_sub :: string
  cl_org_id :: uuid
  cl_tenant_id :: uuid

datatype jwt_error = ExpiredSignature | OtherJwtError

text \<open>The libraries. \<open>ax_decode_header\<close> gives the \<open>kid\<close> of a well-formed header; \<open>ax_decode\<close> checks
  the signature with the key and the algorithm, and the expiry against the clock.\<close>

record auth_ext =
  ax_keys :: key_ext
  ax_entry_to_json :: "auth_entry \<Rightarrow> string option"
  ax_entry_from_json :: "string \<Rightarrow> auth_entry option"
  ax_jwt_to_json :: "jwt_key_entry \<Rightarrow> string option"
  ax_jwt_from_json :: "string \<Rightarrow> jwt_key_entry option"
  ax_decode_header :: "string \<Rightarrow> string option option"
  ax_from_rsa_pem :: "string \<Rightarrow> string option"
  ax_from_ec_pem :: "string \<Rightarrow> string option"
  ax_decode :: "string \<Rightarrow> string \<Rightarrow> jwt_algorithm \<Rightarrow> time \<Rightarrow> jwt_error + jwt_claims"
  ax_parse_uuid :: "string \<Rightarrow> uuid option"

definition AUTH_CACHE_TTL_SECS :: int where "AUTH_CACHE_TTL_SECS = 60"
definition JWT_KEY_CACHE_TTL_SECS :: int where "JWT_KEY_CACHE_TTL_SECS = 300"

section \<open>The token\<close>

definition extract_token :: "string option \<Rightarrow> app_error + string" where
  "extract_token header = (case Option.bind header header_to_str of
      None \<Rightarrow> Inl (Unauthorized ''missing Authorization header'')
    | Some auth \<Rightarrow> (case strip_prefix ''Bearer '' auth of
        None \<Rightarrow> Inl (Unauthorized ''Authorization header must be a Bearer token'')
      | Some token \<Rightarrow> if token = [] then Inl (Unauthorized ''Bearer token must not be empty'') else Inr token))"

text \<open>\<open>str::splitn\<close>: at most \<open>n\<close> pieces, the last one unsplit.\<close>

fun splitn :: "nat \<Rightarrow> char \<Rightarrow> string \<Rightarrow> string list" where
  "splitn 0 c s = []"
| "splitn (Suc 0) c s = [s]"
| "splitn (Suc (Suc n)) c s = (case split_once c s of None \<Rightarrow> [s] | Some (a, r) \<Rightarrow> a # splitn (Suc n) c r)"

definition is_jwt :: "string \<Rightarrow> bool" where
  "is_jwt token \<longleftrightarrow> length (splitn 4 (CHR ''.'') token) = 3"

section \<open>The cache\<close>

text \<open>A cached value that can be read and parsed; every failure counts as a miss.\<close>

definition cache_read :: "redis_cmds \<Rightarrow> (string \<Rightarrow> 'a option) \<Rightarrow> string \<Rightarrow> 'a option io" where
  "cache_read R parse key = do {
     c \<leftarrow> connect;
     case c of Inl _ \<Rightarrow> State_Monad.return None
     | Inr _ \<Rightarrow> do {
         r \<leftarrow> command (\<lambda>t ks. (Inr (GET R key t ks), ks));
         State_Monad.return (case r of Inl _ \<Rightarrow> None | Inr raw \<Rightarrow> Option.bind raw parse) } }"

definition cache_write :: "redis_cmds \<Rightarrow> string option \<Rightarrow> string \<Rightarrow> int \<Rightarrow> unit io" where
  "cache_write R json key ttl = (case json of None \<Rightarrow> State_Monad.return ()
     | Some v \<Rightarrow> do {
         c \<leftarrow> connect;
         case c of Inl _ \<Rightarrow> State_Monad.return ()
         | Inr _ \<Rightarrow> do { _ \<leftarrow> command (SET_EX R key v (secs ttl)); State_Monad.return () } })"

section \<open>API keys\<close>

definition auth_key :: "string \<Rightarrow> string" where
  "auth_key key_hash = ''auth:'' @ key_hash"

fun key_status_text :: "api_key_status \<Rightarrow> string" where
  "key_status_text KeyActive = ''active''"
| "key_status_text KeyExpired = ''expired''"

definition entry_of_key :: "db \<Rightarrow> api_key_row \<Rightarrow> auth_entry option" where
  "entry_of_key d k = (case (find_org (ak_org_id k) d, find_tenant (ak_tenant_id k) d) of
      (Some g, Some t) \<Rightarrow> Some \<lparr>ae_api_key_public_id = ak_public_id k, ae_org_id = ak_org_id k, ae_tenant_id = ak_tenant_id k,
        ae_user_id = ak_user_id k, ae_expires_at = ak_expires_at k, ae_api_key_deleted = (ak_deleted_at k \<noteq> None),
        ae_api_key_status = key_status_text (ak_status k), ae_org_status = og_status g, ae_org_deleted = (og_deleted_at g \<noteq> None),
        ae_tenant_status = tn_status t, ae_tenant_deleted = (tn_deleted_at t \<noteq> None)\<rparr>
    | _ \<Rightarrow> None)"

definition find_auth_row :: "string \<Rightarrow> db \<Rightarrow> auth_entry option" where
  "find_auth_row key_hash d = first_row (List.map_filter (entry_of_key d) (filter (\<lambda>k. ak_key_hash k = key_hash) (api_keys (identity d))))"

definition validate_entry :: "time \<Rightarrow> auth_entry \<Rightarrow> app_error + principal" where
  "validate_entry t e = (if ae_api_key_deleted e then Inl (Unauthorized ''invalid or revoked api key'')
     else if ae_api_key_status e = ''expired'' then Inl (Unauthorized ''api key has expired'')
     else if (case ae_expires_at e of None \<Rightarrow> False | Some x \<Rightarrow> x < t) then Inl (Unauthorized ''api key has expired'')
     else if ae_org_deleted e then Inl (Forbidden ''Organization has been deactivated'')
     else if ae_org_status e = ''suspended'' then Inl (Forbidden ''Organization has been suspended'')
     else if ae_tenant_deleted e then Inl (Forbidden ''Tenant has been deactivated'')
     else if ae_tenant_status e = ''suspended'' then Inl (Forbidden ''Tenant has been suspended'')
     else Inr \<lparr>pr_api_key_public_id = ae_api_key_public_id e, pr_org_id = ae_org_id e, pr_tenant_id = ae_tenant_id e, pr_user_id = ae_user_id e\<rparr>)"

text \<open>The request id is the one the middleware put in the task, a new one outside of it.\<close>

definition build_ctx :: "idgen \<Rightarrow> uuid option \<Rightarrow> principal \<Rightarrow> request_context io" where
  "build_ctx G request_id p = do {
     rid \<leftarrow> (case request_id of Some i \<Rightarrow> State_Monad.return i | None \<Rightarrow> do { n \<leftarrow> fresh; State_Monad.return (uuid_of G n) });
     State_Monad.return \<lparr>rc_request_id = rid, rc_created_by = pr_user_id p, rc_org_id = pr_org_id p, rc_tenant_id = pr_tenant_id p\<rparr> }"

definition with_ctx :: "idgen \<Rightarrow> uuid option \<Rightarrow> app_error + principal \<Rightarrow> (app_error + principal \<times> request_context) io" where
  "with_ctx G request_id r = (case r of Inl e \<Rightarrow> State_Monad.return (Inl e)
     | Inr p \<Rightarrow> do { ctx \<leftarrow> build_ctx G request_id p; State_Monad.return (Inr (p, ctx)) })"

text \<open>The spawned task that records the last use; its outcome is ignored.\<close>

definition touch_last_used :: "string \<Rightarrow> unit io" where
  "touch_last_used public_id = do {
     _ \<leftarrow> statement (\<lambda>t d. (Inr (), update_keys (\<lambda>k. ak_public_id k = public_id) (\<lambda>k. k\<lparr>ak_last_used_at := Some t\<rparr>) d));
     State_Monad.return () }"

text \<open>A cache miss: the query, the cache, the decision, the last use.\<close>

definition resolve_from_db :: "redis_cmds \<Rightarrow> auth_ext \<Rightarrow> idgen \<Rightarrow> uuid option \<Rightarrow> string \<Rightarrow> (app_error + principal \<times> request_context) io" where
  "resolve_from_db R A G request_id key_hash = do {
     r \<leftarrow> map_sqlx (query (\<lambda>_. find_auth_row key_hash));
     case r of Inl e \<Rightarrow> State_Monad.return (Inl e)
     | Inr None \<Rightarrow> State_Monad.return (Inl (Unauthorized ''invalid or revoked api key''))
     | Inr (Some entry) \<Rightarrow> do {
         _ \<leftarrow> cache_write R (ax_entry_to_json A entry) (auth_key key_hash) AUTH_CACHE_TTL_SECS;
         t \<leftarrow> now;
         case validate_entry t entry of Inl e \<Rightarrow> State_Monad.return (Inl e)
         | Inr p \<Rightarrow> do {
             _ \<leftarrow> touch_last_used (pr_api_key_public_id p);
             with_ctx G request_id (Inr p) } } }"

definition resolve_api_key :: "redis_cmds \<Rightarrow> auth_ext \<Rightarrow> idgen \<Rightarrow> uuid option \<Rightarrow> string \<Rightarrow> (app_error + principal \<times> request_context) io" where
  "resolve_api_key R A G request_id key_hash = do {
     cached \<leftarrow> cache_read R (ax_entry_from_json A) (auth_key key_hash);
     case cached of
       Some entry \<Rightarrow> do { t \<leftarrow> now; with_ctx G request_id (validate_entry t entry) }
     | None \<Rightarrow> resolve_from_db R A G request_id key_hash }"

section \<open>JWTs\<close>

fun algorithm_text :: "jwt_algorithm \<Rightarrow> string" where
  "algorithm_text RS256 = ''RS256''"
| "algorithm_text RS384 = ''RS384''"
| "algorithm_text RS512 = ''RS512''"
| "algorithm_text ES256 = ''ES256''"
| "algorithm_text ES384 = ''ES384''"
| "algorithm_text ES512 = ''ES512''"
| "algorithm_text HS256 = ''HS256''"
| "algorithm_text HS512 = ''HS512''"

definition jwt_cache_key :: "string \<Rightarrow> string" where
  "jwt_cache_key kid = ''jwt_pk:'' @ kid"

definition usable_jwt_key :: "string \<Rightarrow> time \<Rightarrow> jwt_key_row \<Rightarrow> bool" where
  "usable_jwt_key kid t k \<longleftrightarrow> jk_key_id k = kid \<and> jk_key_use k = Authentication \<and> jk_status k = JwtActive \<and> jk_deleted_at k = None \<and>
     (case jk_expires_at k of None \<Rightarrow> True | Some e \<Rightarrow> t < e)"

text \<open>The row of the query: the public key, which HMAC keys do not have, and the entry for it.\<close>

definition jwt_row_of :: "db \<Rightarrow> jwt_key_row \<Rightarrow> (string option \<times> jwt_key_entry) option" where
  "jwt_row_of d k = (case find_tenant (jk_tenant_id k) d of None \<Rightarrow> None
     | Some t \<Rightarrow> (case find_org (tn_org_id t) d of None \<Rightarrow> None
       | Some g \<Rightarrow> Some (jk_public_key k, \<lparr>je_public_key_pem = coalesce (jk_public_key k) [], je_algorithm = algorithm_text (jk_algorithm k),
           je_tenant_id = jk_tenant_id k, je_org_id = tn_org_id t, je_org_status = og_status g, je_org_deleted = (og_deleted_at g \<noteq> None),
           je_tenant_status = tn_status t, je_tenant_deleted = (tn_deleted_at t \<noteq> None)\<rparr>)))"

definition find_jwt_row :: "string \<Rightarrow> time \<Rightarrow> db \<Rightarrow> (string option \<times> jwt_key_entry) option" where
  "find_jwt_row kid t d = first_row (List.map_filter (jwt_row_of d) (filter (usable_jwt_key kid t) (jwt_keys (identity d))))"

definition load_jwt_key :: "redis_cmds \<Rightarrow> auth_ext \<Rightarrow> string \<Rightarrow> (app_error + jwt_key_entry) io" where
  "load_jwt_key R A kid = do {
     cached \<leftarrow> cache_read R (ax_jwt_from_json A) (jwt_cache_key kid);
     case cached of
       Some entry \<Rightarrow> State_Monad.return (Inr entry)
     | None \<Rightarrow> do {
         r \<leftarrow> map_sqlx (query (find_jwt_row kid));
         case r of Inl e \<Rightarrow> State_Monad.return (Inl e)
         | Inr None \<Rightarrow> State_Monad.return (Inl (Unauthorized ''unknown or inactive JWT signing key''))
         | Inr (Some (None, _)) \<Rightarrow> State_Monad.return (Inl (Unauthorized ''HMAC keys cannot be used for service authentication''))
         | Inr (Some (Some _, entry)) \<Rightarrow> do {
             _ \<leftarrow> cache_write R (ax_jwt_to_json A entry) (jwt_cache_key kid) JWT_KEY_CACHE_TTL_SECS;
             State_Monad.return (Inr entry) } } }"

definition parse_jwt_algorithm :: "string \<Rightarrow> app_error + jwt_algorithm" where
  "parse_jwt_algorithm alg = (if alg = ''RS256'' then Inr RS256 else if alg = ''RS384'' then Inr RS384
     else if alg = ''RS512'' then Inr RS512 else if alg = ''ES256'' then Inr ES256 else if alg = ''ES384'' then Inr ES384
     else Inl (Unauthorized (''unsupported JWT algorithm: '' @ alg)))"

definition make_decoding_key :: "auth_ext \<Rightarrow> string \<Rightarrow> jwt_algorithm \<Rightarrow> app_error + string" where
  "make_decoding_key A pem algorithm = (if algorithm \<in> {RS256, RS384, RS512}
     then (case ax_from_rsa_pem A pem of None \<Rightarrow> Inl (Internal ''invalid RSA public key in key record'') | Some k \<Rightarrow> Inr k)
     else if algorithm \<in> {ES256, ES384}
     then (case ax_from_ec_pem A pem of None \<Rightarrow> Inl (Internal ''invalid EC public key in key record'') | Some k \<Rightarrow> Inr k)
     else Inl (Unauthorized ''unsupported algorithm''))"

text \<open>The claims of a token whose signature the key of the entry confirms.\<close>

definition verified_claims :: "auth_ext \<Rightarrow> string \<Rightarrow> jwt_key_entry \<Rightarrow> time \<Rightarrow> app_error + jwt_claims" where
  "verified_claims A token entry t = (case parse_jwt_algorithm (je_algorithm entry) of Inl e \<Rightarrow> Inl e
     | Inr algorithm \<Rightarrow> (case make_decoding_key A (je_public_key_pem entry) algorithm of Inl e \<Rightarrow> Inl e
       | Inr key \<Rightarrow> (case ax_decode A token key algorithm t of
           Inl ExpiredSignature \<Rightarrow> Inl (Unauthorized ''JWT has expired'')
         | Inl OtherJwtError \<Rightarrow> Inl (Unauthorized ''invalid JWT signature or claims'')
         | Inr claims \<Rightarrow> Inr claims)))"

definition jwt_principal :: "auth_ext \<Rightarrow> string \<Rightarrow> jwt_key_entry \<Rightarrow> jwt_claims \<Rightarrow> app_error + principal" where
  "jwt_principal A kid entry claims = (if cl_tenant_id claims \<noteq> je_tenant_id entry then Inl (Unauthorized ''JWT tenant_id does not match key ownership'')
     else if cl_org_id claims \<noteq> je_org_id entry then Inl (Unauthorized ''JWT org_id does not match key ownership'')
     else (case ax_parse_uuid A (cl_sub claims) of
         None \<Rightarrow> Inl (Unauthorized ''JWT sub is not a valid UUID'')
       | Some user_id \<Rightarrow>
           if je_org_deleted entry then Inl (Forbidden ''Organization has been deactivated'')
           else if je_org_status entry = ''suspended'' then Inl (Forbidden ''Organization has been suspended'')
           else if je_tenant_deleted entry then Inl (Forbidden ''Tenant has been deactivated'')
           else if je_tenant_status entry = ''suspended'' then Inl (Forbidden ''Tenant has been suspended'')
           else Inr \<lparr>pr_api_key_public_id = kid, pr_org_id = je_org_id entry, pr_tenant_id = je_tenant_id entry, pr_user_id = user_id\<rparr>))"

definition resolve_jwt :: "redis_cmds \<Rightarrow> auth_ext \<Rightarrow> idgen \<Rightarrow> uuid option \<Rightarrow> string \<Rightarrow> (app_error + principal \<times> request_context) io" where
  "resolve_jwt R A G request_id token = (case ax_decode_header A token of
      None \<Rightarrow> State_Monad.return (Inl (Unauthorized ''invalid JWT header''))
    | Some None \<Rightarrow> State_Monad.return (Inl (Unauthorized ''JWT missing kid header''))
    | Some (Some kid) \<Rightarrow> try_bind (load_jwt_key R A kid) (\<lambda>entry. do {
        t \<leftarrow> now;
        case verified_claims A token entry t of Inl e \<Rightarrow> State_Monad.return (Inl e)
        | Inr claims \<Rightarrow> with_ctx G request_id (jwt_principal A kid entry claims) }))"

section \<open>The middleware\<close>

definition resolve_token :: "redis_cmds \<Rightarrow> auth_ext \<Rightarrow> idgen \<Rightarrow> uuid option \<Rightarrow> string \<Rightarrow> (app_error + principal \<times> request_context) io" where
  "resolve_token R A G request_id token = (if is_jwt token then resolve_jwt R A G request_id token
     else resolve_api_key R A G request_id (hash_key (ax_keys A) token))"

definition authenticate :: "redis_cmds \<Rightarrow> auth_ext \<Rightarrow> idgen \<Rightarrow> uuid option \<Rightarrow> string option \<Rightarrow> (principal \<Rightarrow> request_context \<Rightarrow> 'r io) \<Rightarrow>
    ((int \<times> error_body) + 'r) io" where
  "authenticate R A G request_id header next_handler = (case extract_token header of
      Inl e \<Rightarrow> State_Monad.return (Inl (into_response e))
    | Inr token \<Rightarrow> do {
        r \<leftarrow> resolve_token R A G request_id token;
        case r of Inl e \<Rightarrow> State_Monad.return (Inl (into_response e))
        | Inr (p, ctx) \<Rightarrow> do { out \<leftarrow> next_handler p ctx; State_Monad.return (Inr out) } })"

text \<open>\<open>FromRequestParts\<close> for the principal: the one in the extensions of the request.\<close>

definition principal_from_parts :: "principal option \<Rightarrow> app_error + principal" where
  "principal_from_parts extension = (case extension of None \<Rightarrow> Inl (Unauthorized ''not authenticated'') | Some p \<Rightarrow> Inr p)"

end
