(* ===== verification/Api_Key_Props.thy ===== *)
theory Api_Key_Props
  imports Auth
begin

text \<open>
  What the operations on API keys do to the tables, and the properties of keys that rest on it: the
  limit per user, and that a key that may be viewed later is revealed as it was handed out.
\<close>

section \<open>The steps of a creation, when no call fails\<close>

lemma run_checked_environment: "no_faults w \<Longrightarrow> \<exists>r. run_state (checked_environment e tid) w = (r, w) \<and>
    (\<forall>env. r = Inr env \<longrightarrow> env \<in> set (environments (identity (w_db w))) \<and> en_tenant_id env = tid \<and> en_status env = EnvActive)"
  by (auto simp: checked_environment_def get_environment_def run_simps first_row_def split: option.splits list.splits
      dest!: arg_cong [where f = set])

lemma run_get_settings: "no_faults w \<Longrightarrow> run_state (get_settings_by_tenant tid) w =
    (Inr (first_row (select_settings (\<lambda>s. ks_tenant_id s = tid) (w_db w))), w)"
  by (simp add: get_settings_by_tenant_def run_simps)

definition active_keys :: "uuid \<Rightarrow> uuid \<Rightarrow> db \<Rightarrow> nat" where
  "active_keys tenant_id user_id d = length (filter (user_key tenant_id user_id) (api_keys (identity d)))"

lemma run_check_key_limit: "no_faults w \<Longrightarrow> \<exists>r. run_state (check_key_limit max_keys tid u) w = (r, w) \<and>
    (r = Inr () \<longrightarrow> (\<forall>m. max_keys = Some m \<longrightarrow> int (active_keys tid u (w_db w)) < m))"
  by (auto simp: check_key_limit_def count_active_for_user_def active_keys_def run_simps split: option.splits)

section \<open>The effect of a creation\<close>

definition append_key :: "api_key_row \<Rightarrow> db \<Rightarrow> db" where
  "append_key k = update_identity (api_keys_update (\<lambda>ks. ks @ [k]))"

definition append_audit :: "api_key_audit_row \<Rightarrow> db \<Rightarrow> db" where
  "append_audit a = update_identity (api_key_audits_update (\<lambda>as. as @ [a]))"

lemma append_sel [simp]:
  "api_keys (identity (append_key k d)) = api_keys (identity d) @ [k]"
  "api_keys (identity (append_audit a d)) = api_keys (identity d)"
  "api_key_settings (identity (append_key k d)) = api_key_settings (identity d)"
  "api_key_settings (identity (append_audit a d)) = api_key_settings (identity d)"
  "find_org i (append_key k d) = find_org i d" "find_org i (append_audit a d) = find_org i d"
  "find_tenant i (append_key k d) = find_tenant i d" "find_tenant i (append_audit a d) = find_tenant i d"
  "user_public i (append_key k d) = user_public i d" "user_public i (append_audit a d) = user_public i d"
  by (simp_all add: append_key_def append_audit_def update_identity_def find_org_def find_tenant_def user_public_def)

lemma view_append [simp]:
  "view_api_key (append_key k d) = view_api_key d" "view_api_key (append_audit a d) = view_api_key d"
  "view_settings (append_key k d) = view_settings d" "view_settings (append_audit a d) = view_settings d"
  by (auto simp: view_api_key_def view_settings_def fun_eq_iff split: option.splits)

lemma view_row: "view_api_key d k = Some v \<Longrightarrow> kv_row v = k"
  by (auto simp: view_api_key_def split: option.splits)

lemma insert_api_key_effect:
  assumes "insert_api_key k d = (Inr (Some v), d')"
  shows "kv_row v = k" "view_api_key d k = Some v" "d' = append_key k d" "ak_key_hash k \<notin> ak_key_hash ` set (api_keys (identity d))"
    "ak_public_id k \<notin> ak_public_id ` set (api_keys (identity d))"
  using assms view_row [of d k v] by (auto simp: insert_api_key_def Let_def append_key_def update_identity_def split: if_splits)

lemma run_audit_key: "no_faults w \<Longrightarrow> \<exists>a. run_state (audit_key k action ctx changes) w = ((), w\<lparr>w_db := append_audit a (w_db w)\<rparr>)"
  by (auto simp: audit_key_def insert_audit_def append_audit_def run_simps)

definition settings_of :: "uuid \<Rightarrow> db \<Rightarrow> api_key_settings_row option" where
  "settings_of tid d = map_option tv_row (first_row (select_settings (\<lambda>s. ks_tenant_id s = tid) d))"

definition view_later :: "uuid \<Rightarrow> db \<Rightarrow> bool" where
  "view_later tid d \<longleftrightarrow> coalesce (map_option ks_allow_view_later (settings_of tid d)) False"

lemma settings_append [simp]: "settings_of tid (append_key k d) = settings_of tid d" "settings_of tid (append_audit a d) = settings_of tid d"
  "view_later tid (append_key k d) = view_later tid d" "view_later tid (append_audit a d) = view_later tid d"
  by (simp_all add: settings_of_def select_settings_def view_later_def)

text \<open>A successful insertion of a row with given fields.\<close>

lemma run_create_row_insert:
  assumes "no_faults w" and "run_state (create_api_key_row G og tn u nm ds kh ke kp e x ctx) w = (Inr key, w')"
  shows "\<exists>k d n. insert_api_key k (w_db w) = (Inr (Some key), d) \<and> w' = w\<lparr>w_ids := n, w_db := d\<rparr> \<and>
    ak_key_hash k = kh \<and> ak_org_id k = og \<and> ak_tenant_id k = tn \<and> ak_user_id k = u \<and> ak_expires_at k = x \<and>
    ak_status k = KeyActive \<and> ak_deleted_at k = None \<and> ak_key_encrypted k = ke"
  using assms unfolding create_api_key_row_def fetch_one_def nano_id_new_def generate_def Let_def
  by (auto simp: run_simps split: sum.splits option.splits prod.splits) (fastforce intro: exI)

lemma run_create_row:
  assumes "no_faults w" and "run_state (create_api_key_row G og tn u nm ds kh ke kp e x ctx) w = (Inr key, w')"
  shows "no_faults w'" "w_now w' = w_now w" "w_ks w' = w_ks w" "w_db w' = append_key (kv_row key) (w_db w)" "view_api_key (w_db w) (kv_row key) = Some key"
    "ak_key_hash (kv_row key) = kh" "kh \<notin> ak_key_hash ` set (api_keys (identity (w_db w)))"
    "ak_public_id (kv_row key) \<notin> ak_public_id ` set (api_keys (identity (w_db w)))"
    "ak_org_id (kv_row key) = og" "ak_tenant_id (kv_row key) = tn" "ak_user_id (kv_row key) = u" "ak_expires_at (kv_row key) = x"
    "ak_status (kv_row key) = KeyActive" "ak_deleted_at (kv_row key) = None" "ak_key_encrypted (kv_row key) = ke"
proof -
  obtain k d n where i: "insert_api_key k (w_db w) = (Inr (Some key), d)" and w': "w' = w\<lparr>w_ids := n, w_db := d\<rparr>"
    and f: "ak_key_hash k = kh \<and> ak_org_id k = og \<and> ak_tenant_id k = tn \<and> ak_user_id k = u \<and> ak_expires_at k = x \<and>
      ak_status k = KeyActive \<and> ak_deleted_at k = None \<and> ak_key_encrypted k = ke"
    using run_create_row_insert [OF assms] by blast
  note eff = insert_api_key_effect [OF i]
  show "no_faults w'" "w_now w' = w_now w" "w_ks w' = w_ks w" using assms(1) w' by simp_all
  show "w_db w' = append_key (kv_row key) (w_db w)" "view_api_key (w_db w) (kv_row key) = Some key" using eff w' by simp_all
  show "kh \<notin> ak_key_hash ` set (api_keys (identity (w_db w)))" "ak_public_id (kv_row key) \<notin> ak_public_id ` set (api_keys (identity (w_db w)))"
    using eff f by auto
  show "ak_key_hash (kv_row key) = kh" "ak_org_id (kv_row key) = og" "ak_tenant_id (kv_row key) = tn" "ak_user_id (kv_row key) = u"
    "ak_expires_at (kv_row key) = x" "ak_status (kv_row key) = KeyActive" "ak_deleted_at (kv_row key) = None" "ak_key_encrypted (kv_row key) = ke"
    using eff(1) f by simp_all
qed

definition envelope_of :: "key_ext \<Rightarrow> string \<Rightarrow> string \<Rightarrow> bool" where
  "envelope_of K full e \<longleftrightarrow> (\<exists>w. fst (run_state (encrypt_key K full) w) = Inr e)"

lemma run_encrypted_copy: "\<exists>r n. run_state (encrypted_copy K b full) w = (r, w\<lparr>w_ids := n\<rparr>) \<and>
    (\<forall>c. r = Inr c \<longrightarrow> (if b then \<exists>e. c = Some e \<and> envelope_of K full e else c = None))"
  by (cases b) (auto simp: envelope_of_def encrypted_copy_def encrypt_key_def run_simps Let_def split: option.splits intro: exI [of _ "w_ids w"])

text \<open>What is known of a key that has been created: its row is appended to the table, it carries the
  hash of the text handed out, and that text is built from the environment and a random part.\<close>

definition key_text :: "environment_row \<Rightarrow> string \<Rightarrow> string" where
  "key_text env raw = ''key_'' @ take_chars 3 (en_name env) @ ''_'' @ raw"

definition created_as :: "key_ext \<Rightarrow> create_api_key_request \<Rightarrow> request_context \<Rightarrow> world \<Rightarrow> api_key \<Rightarrow> string \<Rightarrow> world \<Rightarrow> bool" where
  "created_as K req ctx w key full w' \<longleftrightarrow> (let d = w_db w; k = kv_row key; tid = rc_tenant_id ctx in
     (\<exists>a. w_db w' = append_audit a (append_key k d)) \<and> no_faults w' \<and> w_now w' = w_now w \<and> w_ks w' = w_ks w \<and>
     view_api_key d k = Some key \<and> ak_key_hash k = hash_key K full \<and> ak_key_hash k \<notin> ak_key_hash ` set (api_keys (identity d)) \<and>
     ak_public_id k \<notin> ak_public_id ` set (api_keys (identity d)) \<and> ak_org_id k = rc_org_id ctx \<and> ak_tenant_id k = tid \<and>
     ak_user_id k = ck_user_id req \<and> ak_status k = KeyActive \<and> ak_deleted_at k = None \<and>
     ak_expires_at k = (case ck_expires_at req of Some e \<Rightarrow> Some e
       | None \<Rightarrow> map_option (\<lambda>ttl. w_now w + secs ttl) (Option.bind (settings_of tid d) ks_default_ttl_seconds)) \<and>
     (if view_later tid d then \<exists>e. ak_key_encrypted k = Some e \<and> envelope_of K full e else ak_key_encrypted k = None))"

lemma issue_effect:
  assumes nf: "no_faults w" and run: "run_state (issue_api_key K G req ctx env (settings_of (rc_tenant_id ctx) (w_db w))) w = (Inr (key, full), w')"
  shows "created_as K req ctx w key full w' \<and> (\<exists>n len. full = key_text env (rand_of G n len))"
proof -
  let ?S = "settings_of (rc_tenant_id ctx) (w_db w)"
  let ?len = "nat (coalesce (map_option ks_key_length ?S) 32 mod 2 ^ 64)"
  let ?text = "key_text env (rand_of G (w_ids w) ?len)"
  let ?x = "case ck_expires_at req of Some e \<Rightarrow> Some e
       | None \<Rightarrow> map_option (\<lambda>ttl. w_now w + secs ttl) (Option.bind ?S ks_default_ttl_seconds)"
  define w1 where "w1 = w\<lparr>w_ids := Suc (w_ids w)\<rparr>"
  have nf1: "no_faults w1" "w_db w1 = w_db w" "w_now w1 = w_now w" "w_ks w1 = w_ks w" using nf by (simp_all add: w1_def)
  let ?rest = "\<lambda>kp c. try_bind (create_api_key_row G (rc_org_id ctx) (rc_tenant_id ctx) (ck_user_id req) (ck_name req) (ck_description req)
       (hash_key K ?text) c kp (ck_environment_id req) ?x ctx) (\<lambda>key. State_Monad.bind (audit_key (kv_row key) ''created'' ctx None)
         (\<lambda>_. State_Monad.return (Inr (key, ?text))))"
  have "\<exists>kp. run_state (try_bind (encrypted_copy K (view_later (rc_tenant_id ctx) (w_db w)) ?text) (?rest kp)) w1 = (Inr (key, full), w')"
    using run unfolding issue_api_key_def generate_api_key_def generate_def Let_def run_bind run_now run_fresh run_return prod.case
      view_later_def [symmetric] key_text_def [symmetric] w1_def [symmetric] by blast
  then obtain kp where run1: "run_state (try_bind (encrypted_copy K (view_later (rc_tenant_id ctx) (w_db w)) ?text) (?rest kp)) w1 = (Inr (key, full), w')"
    by (rule exE)
  from try_bind_Inr [OF run1] obtain c w2
    where c: "run_state (encrypted_copy K (view_later (rc_tenant_id ctx) (w_db w)) ?text) w1 = (Inr c, w2)"
      and run2: "run_state (?rest kp c) w2 = (Inr (key, full), w')"
    by (elim exE conjE)
  obtain key' w3 where row: "run_state (create_api_key_row G (rc_org_id ctx) (rc_tenant_id ctx) (ck_user_id req) (ck_name req) (ck_description req)
       (hash_key K ?text) c kp (ck_environment_id req) ?x ctx) w2 = (Inr key', w3)"
    and fin: "run_state (State_Monad.bind (audit_key (kv_row key') ''created'' ctx None) (\<lambda>_. State_Monad.return (Inr (key', ?text)))) w3 = (Inr (key, full) :: app_error + _, w')"
    using try_bind_Inr [OF run2] by blast
  have w2: "no_faults w2" "w_db w2 = w_db w" "w_now w2 = w_now w" "w_ks w2 = w_ks w"
    and enc: "if view_later (rc_tenant_id ctx) (w_db w) then \<exists>e. c = Some e \<and> envelope_of K ?text e else c = None"
    using c run_encrypted_copy [of K "view_later (rc_tenant_id ctx) (w_db w)" ?text w1] nf1 by auto
  note eff = run_create_row [OF w2(1) row, unfolded w2]
  from fin run_audit_key [OF eff(1), of "kv_row key'" "''created''" ctx None]
  have keq: "key' = key" "full = ?text" and w': "\<exists>a. w' = w3\<lparr>w_db := append_audit a (w_db w3)\<rparr>" by (auto simp: run_simps)
  show ?thesis
    using eff w' enc unfolding keq created_as_def Let_def by auto
qed

lemma create_effect:
  assumes nf: "no_faults w" and run: "run_state (create_api_key K G req ctx) w = (Inr (key, full), w')"
  shows "\<exists>env. env \<in> set (environments (identity (w_db w))) \<and>
     (\<forall>m. Option.bind (settings_of (rc_tenant_id ctx) (w_db w)) ks_max_keys_per_user = Some m \<longrightarrow>
        int (active_keys (rc_tenant_id ctx) (ck_user_id req) (w_db w)) < m) \<and>
     run_state (issue_api_key K G req ctx env (settings_of (rc_tenant_id ctx) (w_db w))) w = (Inr (key, full), w')"
proof -
  let ?tid = "rc_tenant_id ctx" and ?d = "w_db w"
  obtain env w1 where env: "run_state (checked_environment (ck_environment_id req) ?tid) w = (Inr env, w1)"
      and run1: "run_state (try_bind (get_settings_by_tenant ?tid) (\<lambda>found.
     let settings = map_option tv_row found in
     try_bind (check_key_limit (Option.bind settings ks_max_keys_per_user) (rc_tenant_id ctx) (ck_user_id req)) (\<lambda>_.
       issue_api_key K G req ctx env settings))) w1 = (Inr (key, full), w')"
    using try_bind_Inr [OF run [unfolded create_api_key_def]] by blast
  have "w1 = w" "env \<in> set (environments (identity ?d))"
    using env run_checked_environment [OF nf, of "ck_environment_id req" ?tid] by auto
  moreover from this run1 obtain u w2
    where "run_state (check_key_limit (Option.bind (settings_of ?tid ?d) ks_max_keys_per_user) ?tid (ck_user_id req)) w = (Inr u, w2)"
      and "run_state (issue_api_key K G req ctx env (settings_of ?tid ?d)) w2 = (Inr (key, full), w')"
    by (auto simp: run_get_settings [OF nf] Let_def settings_of_def dest!: try_bind_Inr)
  ultimately show ?thesis
    using run_check_key_limit [OF nf, of "Option.bind (settings_of ?tid ?d) ks_max_keys_per_user" ?tid "ck_user_id req"] by auto
qed

section \<open>The text of a key\<close>

text \<open>The check constraint on the names of environments, and a generator that draws from its alphabet:
  together they leave only letters, digits, underscore and hyphen in a key.\<close>

definition plain_char :: "char \<Rightarrow> bool" where
  "plain_char c \<longleftrightarrow> is_ascii_alphanumeric c \<or> c = CHR ''_'' \<or> c = CHR ''-''"

definition plain_names :: "db \<Rightarrow> bool" where
  "plain_names d \<longleftrightarrow> (\<forall>env\<in>set (environments (identity d)). list_all plain_char (en_name env))"

definition draws_alphanumeric :: "idgen \<Rightarrow> bool" where
  "draws_alphanumeric G \<longleftrightarrow> (\<forall>n k. set (rand_of G n k) \<subseteq> set ALPHANUMERIC)"

lemma set_take_chars: "set (take_chars n s) \<subseteq> set s"
  by (induction n s rule: take_chars.induct) (auto split: nat.splits)

lemma key_text_plain:
  assumes "plain_names d" and "draws_alphanumeric G" and "env \<in> set (environments (identity d))"
  shows "list_all plain_char (key_text env (rand_of G n k))"
proof -
  have "\<forall>c\<in>set (take_chars 3 (en_name env)). plain_char c"
    using assms(1,3) set_take_chars [of 3 "en_name env"] by (auto simp: plain_names_def list_all_iff)
  moreover have "\<forall>c\<in>set (rand_of G n k). plain_char c"
    using assms(2) ALPHANUMERIC_alnum by (fastforce simp: draws_alphanumeric_def plain_char_def list_all_iff)
  ultimately show ?thesis
    by (auto simp: key_text_def list_all_iff) (simp_all add: plain_char_def is_ascii_alphanumeric_def byte_in_def)
qed

lemma plain_char_ascii: "plain_char c \<Longrightarrow> byte_in 0 127 c" "plain_char c \<Longrightarrow> byte_in 32 126 c" "plain_char c \<Longrightarrow> c \<noteq> CHR ''.''"
  by (auto simp: plain_char_def is_ascii_alphanumeric_def byte_in_def)

lemma plain_ascii: "list_all plain_char s \<Longrightarrow> is_ascii s"
  by (auto simp: is_ascii_def list_all_iff intro: plain_char_ascii)

section \<open>The envelope of a key\<close>

context crypto_library
begin

lemma decrypt_key_envelope:
  assumes "kx_crypto K = X" and "envelope_of K full e" and "utf8_valid full"
  shows "decrypt_key K e = Some (Inr full)"
proof -
  obtain n c where "aes_encrypt X (kx_raw_key K) (rand_bytes X n 12) full = Some c"
    and "e = ''v1$'' @ b64url_encode X (rand_bytes X n 12) @ ''$'' @ b64url_encode X c"
    using assms(1,2) unfolding envelope_of_def encrypt_key_def Let_def
    by (auto simp: run_simps simp del: append.simps split: option.splits)
  with assms(1,3) show ?thesis
    unfolding decrypt_key_def Let_def by (simp only: splitn3_envelope) (simp add: b64url_roundtrip rand_length aes_roundtrip from_utf8_def)
qed

end

section \<open>Reading a created key\<close>

lemma first_map_filter_append:
  "(\<And>x. x \<in> set xs \<Longrightarrow> \<not> p x) \<Longrightarrow> p y \<Longrightarrow> f y = Some v \<Longrightarrow> first_row (List.map_filter f (filter p (xs @ [y]))) = Some v"
  by (simp add: first_row_def List.map_filter_simps filter_False)

lemma run_get_created:
  assumes "created_as K req ctx w key full w'"
  shows "run_state (get_key_by_public_id (ak_public_id (kv_row key))) w' = (Inr (Some key), w')"
proof -
  obtain a where d: "w_db w' = append_audit a (append_key (kv_row key) (w_db w))" "no_faults w'"
    and f: "view_api_key (w_db w) (kv_row key) = Some key" "ak_public_id (kv_row key) \<notin> ak_public_id ` set (api_keys (identity (w_db w)))"
      "ak_deleted_at (kv_row key) = None"
    using assms by (auto simp: created_as_def Let_def)
  have "first_row (select_api_keys (live_key (ak_public_id (kv_row key))) (w_db w')) = Some key"
    unfolding d(1) select_api_keys_def append_sel view_append by (rule first_map_filter_append) (use f in \<open>auto simp: live_key_def rev_image_eqI\<close>)
  with d(2) show ?thesis by (simp add: get_key_by_public_id_def run_simps)
qed

lemma coalesce_settings: "coalesce (map_option (ks_allow_view_later \<circ> tv_row) (first_row (select_settings (\<lambda>s. ks_tenant_id s = tid) d))) False = view_later tid d"
  by (simp add: view_later_def settings_of_def option.map_comp)

section \<open>A tenant with an environment and settings\<close>

definition sample_keys :: key_ext where
  "sample_keys = \<lparr>kx_crypto = sample_crypto, kx_sha256 = id, kx_raw_key = ''key''\<rparr>"

definition sample_settings :: api_key_settings_row where
  "sample_settings = \<lparr>ks_id = ''s1'', ks_public_id = ''aks_1'', ks_org_id = ''o1'', ks_tenant_id = ''t1'', ks_max_keys_per_user = Some 2,
     ks_key_length = 16, ks_default_ttl_seconds = Some 3600, ks_allow_view_later = True, ks_request_id = ''r0'', ks_version = 0,
     ks_created_by = ''u1'', ks_updated_by = ''u1'', ks_created_at = 0, ks_updated_at = 0\<rparr>"

definition key_db :: db where
  "key_db = empty_db\<lparr>organizations := [\<lparr>og_id = ''o1'', og_public_id = ''org_1'', og_status = ''active'', og_tier = None, og_deleted_at = None,
       og_name = ''acme'', og_slug = ''acme'', og_owner_email = None, og_external_id = None, og_tags = [], og_version = 0, og_request_id = ''r0'', og_created_by = ''u1'', og_updated_by = ''u1'', og_created_at = 0, og_updated_at = 0\<rparr>],
     identity := empty_identity\<lparr>tenants := [\<lparr>tn_id = ''t1'', tn_public_id = ''ten_1'', tn_org_id = ''o1'', tn_status = ''active'', tn_deleted_at = None,
         tn_name = ''main'', tn_description = None, tn_tags = [], tn_version = 0, tn_request_id = ''r0'', tn_created_by = ''u1'', tn_updated_by = ''u1'', tn_created_at = 0, tn_updated_at = 0\<rparr>],
       users := [\<lparr>us_id = ''u1'', us_public_id = ''usr_1'', us_org_id = ''o1'', us_tenant_id = ''t1'', us_email = ''a@b.io'', us_phone = None, us_status = UserActive,
         us_email_verified_at = None, us_phone_verified_at = None, us_last_active_at = None, us_metadata = [], us_tags = [], us_settings = [], us_password_hash = None,
         us_version = 1, us_created_by = ''u1'', us_updated_by = ''u1'', us_request_id = ''r0'', us_locked_until = None, us_login_count = 0, us_created_at = 0,
         us_updated_at = 0, us_deleted_at = None\<rparr>],
       environments := [\<lparr>en_id = ''e1'', en_public_id = ''env_1'', en_tenant_id = ''t1'', en_name = ''live'', en_status = EnvActive,
         en_description = None, en_tags = [], en_version = 0, en_request_id = ''r0'', en_created_by = ''u1'', en_updated_by = ''u1'', en_created_at = 0, en_updated_at = 0\<rparr>],
       api_key_settings := [sample_settings]\<rparr>\<rparr>"

definition key_ctx :: request_context where
  "key_ctx = \<lparr>rc_request_id = ''r1'', rc_created_by = ''u1'', rc_org_id = ''o1'', rc_tenant_id = ''t1''\<rparr>"

definition key_request :: create_api_key_request where
  "key_request = \<lparr>ck_user_id = ''u1'', ck_name = ''ci'', ck_description = None, ck_environment_id = ''env_1'', ck_expires_at = None\<rparr>"

definition alnum_idgen :: idgen where
  "alnum_idgen = \<lparr>uuid_of = show_nat, rand_of = (\<lambda>n k. replicate k (CHR ''x''))\<rparr>"

lemma alnum_idgen_draws: "draws_alphanumeric alnum_idgen"
  by (auto simp: draws_alphanumeric_def alnum_idgen_def ALPHANUMERIC_def)

lemma key_db_plain: "plain_names key_db"
  by (simp add: plain_names_def key_db_def plain_char_def is_ascii_alphanumeric_def byte_in_def)

lemma key_db_creates:
  "\<exists>key full w'. run_state (create_api_key sample_keys alnum_idgen key_request key_ctx) (start_world key_db empty_keyspace 0) = (Inr (key, full), w')"
  by (simp add: create_api_key_def issue_api_key_def checked_environment_def get_environment_def get_settings_by_tenant_def check_key_limit_def
      count_active_for_user_def encrypted_copy_def encrypt_key_def generate_api_key_def generate_def create_api_key_row_def fetch_one_def
      nano_id_new_def audit_key_def insert_audit_def insert_api_key_def view_api_key_def view_settings_def select_settings_def find_org_def find_tenant_def user_public_def
      run_simps Let_def key_db_def key_request_def key_ctx_def sample_settings_def sample_keys_def sample_crypto_def empty_db_def empty_identity_def
      first_row_def List.map_filter_simps coalesce_def)

lemma key_db_view_later: "view_later (rc_tenant_id key_ctx) key_db"
  by (simp add: view_later_def settings_of_def select_settings_def view_settings_def find_org_def find_tenant_def key_db_def key_ctx_def
      sample_settings_def empty_db_def empty_identity_def first_row_def List.map_filter_simps coalesce_def)

section \<open>Properties\<close>

text \<open>C26. A key created while the tenant allows viewing keys later is revealed as exactly the text that
  was handed out at its creation.\<close>

theorem reveal_returns_created_key:
  assumes "crypto_library (kx_crypto K)" and "plain_names (w_db w)" and "draws_alphanumeric G" and "no_faults w"
    and "run_state (create_api_key K G req ctx) w = (Inr (key, full), w')" and "view_later (rc_tenant_id ctx) (w_db w)"
  shows "fst (run_state (reveal_api_key K (ak_public_id (kv_row key)) ctx') w') =
    Some (Inr \<lparr>rv_id = ak_public_id (kv_row key), rv_key = full\<rparr>)"
proof -
  obtain env where env: "env \<in> set (environments (identity (w_db w)))"
    and issue: "run_state (issue_api_key K G req ctx env (settings_of (rc_tenant_id ctx) (w_db w))) w = (Inr (key, full), w')"
    using create_effect [OF assms(4,5)] by blast
  have c: "created_as K req ctx w key full w'" and t: "\<exists>n len. full = key_text env (rand_of G n len)"
    using issue_effect [OF assms(4) issue] by blast+
  have "utf8_valid full" using t key_text_plain [OF assms(2,3) env] by (auto intro!: ascii_utf8 plain_ascii)
  moreover obtain e where e: "ak_key_encrypted (kv_row key) = Some e" "envelope_of K full e" and tid: "ak_tenant_id (kv_row key) = rc_tenant_id ctx"
    and w': "no_faults w'" "view_later (rc_tenant_id ctx) (w_db w')"
    using c assms(6) by (auto simp: created_as_def Let_def)
  ultimately have "decrypt_key K e = Some (Inr full)"
    using crypto_library.decrypt_key_envelope [OF assms(1)] by blast
  moreover have "run_state (stored_envelope (ak_public_id (kv_row key))) w' = (Inr (kv_row key, e), w')"
    using w' e(1) tid by (simp add: stored_envelope_def or_not_found_def run_try_bind run_get_created [OF c] run_return run_get_settings coalesce_settings)
  ultimately show ?thesis by (simp add: reveal_api_key_def run_bind run_return case_prod_beta)
qed

theorem reveal_returns_created_key_witness:
  "\<exists>key full w'. run_state (create_api_key sample_keys alnum_idgen key_request key_ctx) (start_world key_db empty_keyspace 0) = (Inr (key, full), w') \<and>
     fst (run_state (reveal_api_key sample_keys (ak_public_id (kv_row key)) key_ctx) w') = Some (Inr \<lparr>rv_id = ak_public_id (kv_row key), rv_key = full\<rparr>)"
proof -
  obtain key full w' where c: "run_state (create_api_key sample_keys alnum_idgen key_request key_ctx) (start_world key_db empty_keyspace 0) = (Inr (key, full), w')"
    using key_db_creates by blast
  have "crypto_library (kx_crypto sample_keys)" by (simp add: sample_keys_def sample_library.crypto_library_axioms)
  from reveal_returns_created_key [OF this _ alnum_idgen_draws _ c, of key_ctx] c show ?thesis
    by (auto simp: key_db_plain key_db_view_later)
qed

end
