(* ===== verification/Key_Lifecycle.thy ===== *)
theory Key_Lifecycle
  imports Api_Key_Props
begin

text \<open>
  The life of an API key under any sequence of calls and any faults: the limit of keys per user, and
  the time a deleted key stays usable. The locale \<open>key_invariant\<close> is what a property of the tables
  has to satisfy for the operations on keys to keep it.
\<close>

section \<open>Invariants of the operations\<close>

text \<open>A change of rows that neither moves a key nor brings a deleted one back.\<close>

definition harmless :: "(api_key_row \<Rightarrow> api_key_row) \<Rightarrow> bool" where
  "harmless f \<longleftrightarrow> (\<forall>k. ak_key_hash (f k) = ak_key_hash k \<and> ak_tenant_id (f k) = ak_tenant_id k \<and> ak_user_id (f k) = ak_user_id k \<and>
     ak_status (f k) = ak_status k \<and> (ak_deleted_at k \<noteq> None \<longrightarrow> ak_deleted_at (f k) \<noteq> None))"

definition below_limit :: "uuid \<Rightarrow> uuid \<Rightarrow> db \<Rightarrow> bool" where
  "below_limit tenant_id user_id d \<longleftrightarrow> (case Option.bind (settings_of tenant_id d) ks_max_keys_per_user of
      None \<Rightarrow> True | Some m \<Rightarrow> int (active_keys tenant_id user_id d) < m)"

locale key_invariant =
  fixes P :: "world \<Rightarrow> bool"
  assumes stable: "stable P"
    and insert_ok: "P w \<Longrightarrow> insert_api_key k (w_db w) = (Inr v, d) \<Longrightarrow> below_limit (ak_tenant_id k) (ak_user_id k) (w_db w) \<Longrightarrow>
      ak_deleted_at k = None \<Longrightarrow> P (w\<lparr>w_db := d\<rparr>)"
    and change_ok: "P w \<Longrightarrow> harmless f \<Longrightarrow> P (w\<lparr>w_db := update_keys p f (w_db w)\<rparr>)"
    and audit_ok: "P w \<Longrightarrow> P (w\<lparr>w_db := append_audit a (w_db w)\<rparr>)"
begin

lemma keeps_audit: "keeps P (audit_key k action ctx changes)"
  unfolding audit_key_def insert_audit_def by (auto intro!: keeps_intros stable dest: audit_ok simp: append_audit_def [symmetric])

lemma keeps_get_key: "keeps P (get_key_by_public_id public_id)"
  unfolding get_key_by_public_id_def by (intro keeps_intros stable)

lemma keeps_update: "keeps P (update_api_key public_id req ctx)"
  unfolding update_api_key_def update_api_key_row_def Let_def
  by (auto intro!: keeps_intros keeps_get_key keeps_audit stable change_ok simp: harmless_def touch_key_def)

lemma keeps_delete: "keeps P (delete_api_key public_id ctx)"
  unfolding delete_api_key_def delete_api_key_row_def Let_def
  by (auto intro!: keeps_intros keeps_get_key keeps_audit stable change_ok simp: harmless_def touch_key_def)

lemma keeps_reveal: "keeps P (reveal_api_key K public_id ctx)"
  unfolding reveal_api_key_def stored_envelope_def get_settings_by_tenant_def
  by (intro keeps_intros keeps_get_key keeps_audit stable)

text \<open>The worlds in which the settings are known, and in which the user may have one more key.\<close>

definition seen :: "uuid \<Rightarrow> api_key_settings_row option \<Rightarrow> world \<Rightarrow> bool" where
  "seen tid st w \<longleftrightarrow> P w \<and> st = settings_of tid (w_db w)"

definition room :: "uuid \<Rightarrow> uuid \<Rightarrow> world \<Rightarrow> bool" where
  "room tid u w \<longleftrightarrow> P w \<and> below_limit tid u (w_db w)"

lemma stable_seen: "stable (seen tid st)" "stable (room tid u)"
  using stable by (simp_all add: stable_def seen_def room_def)

lemma triple_check_limit:
  "triple (seen tid st) (check_key_limit (Option.bind st ks_max_keys_per_user) tid u) (\<lambda>r w. P w \<and> (r = Inr () \<longrightarrow> room tid u w))"
proof (cases "Option.bind st ks_max_keys_per_user")
  case None
  then show ?thesis
    by (auto simp: check_key_limit_def triple_def run_simps seen_def room_def below_limit_def)
next
  case (Some m)
  have count: "triple (seen tid st) (count_active_for_user tid u) (\<lambda>r w. seen tid st w \<and>
      (\<forall>c. r = Inr c \<longrightarrow> c = int (active_keys tid u (w_db w))))"
    unfolding count_active_for_user_def active_keys_def by (rule triple_query [OF stable_seen(1)])
  show ?thesis
    unfolding check_key_limit_def Some option.case using Some
    by (intro triple_try_bind [OF count]) (auto simp: triple_def run_simps seen_def room_def below_limit_def)
qed

lemma triple_create_row:
  "triple (room tid u) (create_api_key_row G og tid u nm ds kh ke kp e x ctx) (\<lambda>_. P)"
proof -
  have "triple (room tid u) (statement (\<lambda>t. insert_api_key (k t))) (\<lambda>_. P)"
    if "\<And>t. ak_tenant_id (k t) = tid \<and> ak_user_id (k t) = u \<and> ak_deleted_at (k t) = None" for k
    using that by (intro triple_statement [OF stable_seen(2)]) (auto simp: room_def intro: insert_ok)
  then have "triple (room tid u) (map_sqlx (fetch_one (statement (\<lambda>t. insert_api_key (k t))))) (\<lambda>_. P)"
    if "\<And>t. ak_tenant_id (k t) = tid \<and> ak_user_id (k t) = u \<and> ak_deleted_at (k t) = None" for k
    using that by (fastforce simp: triple_def run_map_sqlx fetch_one_def run_simps case_prod_beta split: sum.splits)
  then show ?thesis
    unfolding create_api_key_row_def nano_id_new_def generate_def Let_def
    by (intro triple_bind_keeps keeps_intros stable_seen) simp
qed

lemma triple_issue: "triple (room (rc_tenant_id ctx) (ck_user_id req)) (issue_api_key K G req ctx env st) (\<lambda>_. P)"
proof -
  let ?P = "room (rc_tenant_id ctx) (ck_user_id req)"
  have sub: "?P s \<Longrightarrow> P s" for s by (simp add: room_def)
  have c: "keeps ?P (encrypted_copy K b full)" for b full
    unfolding encrypted_copy_def encrypt_key_def Let_def by (intro keeps_intros stable_seen)
  have "triple ?P (try_bind (encrypted_copy K b full) (\<lambda>ke. try_bind (create_api_key_row G og (rc_tenant_id ctx) (ck_user_id req) nm ds kh ke kp e x ctx)
      (\<lambda>key. State_Monad.bind (audit_key (kv_row key) ''created'' ctx None) (\<lambda>_. State_Monad.return (Inr (key, full)))))) (\<lambda>_. P)" for b full og nm ds kh kp e x
    by (rule triple_try_bind_keeps [OF c sub], assumption, rule triple_try_bind [OF triple_create_row], assumption)
      (intro triple_keeps keeps_intros keeps_audit)
  then show ?thesis
    unfolding issue_api_key_def generate_api_key_def generate_def Let_def
    by (intro triple_bind_keeps keeps_intros stable_seen) (simp add: case_prod_beta)
qed

lemma keeps_create: "keeps P (create_api_key K G req ctx)"
proof -
  let ?tid = "rc_tenant_id ctx"
  have env: "keeps P (checked_environment e ?tid)" for e
    unfolding checked_environment_def get_environment_def by (intro keeps_intros stable)
  have st: "triple P (get_settings_by_tenant ?tid) (\<lambda>r w. P w \<and> (\<forall>a. r = Inr a \<longrightarrow> seen ?tid (map_option tv_row a) w))"
    unfolding get_settings_by_tenant_def using triple_query [OF stable] by (rule triple_weaken) (auto simp: seen_def settings_of_def)
  have chk: "triple (seen ?tid st) (try_bind (check_key_limit (Option.bind st ks_max_keys_per_user) ?tid (ck_user_id req))
      (\<lambda>_. issue_api_key K G req ctx env st)) (\<lambda>_. P)" for st env
    by (rule triple_try_bind [OF triple_check_limit]) (auto intro: triple_weaken [OF triple_issue])
  have "triple P (create_api_key K G req ctx) (\<lambda>_. P)"
    unfolding create_api_key_def Let_def
    by (intro triple_try_bind_keeps [OF env] triple_try_bind [OF st]) (auto intro: triple_weaken [OF chk])
  then show ?thesis by (simp add: keeps_triple)
qed

lemma keeps_touch: "keeps P (touch_last_used public_id)"
  unfolding touch_last_used_def by (auto intro!: keeps_intros stable change_ok simp: harmless_def)

end

section \<open>Sequences of calls\<close>

datatype key_call =
    CallCreate create_api_key_request request_context
  | CallUpdate string update_api_key_request request_context
  | CallDelete string request_context
  | CallReveal string request_context
  | CallAuthenticate "uuid option" "string option"
  | Wait nat

text \<open>One call through its handler; the response is dropped.\<close>

fun serve_call :: "redis_cmds \<Rightarrow> auth_ext \<Rightarrow> idgen \<Rightarrow> key_call \<Rightarrow> unit io" where
  "serve_call R A G (CallCreate req ctx) = do { _ \<leftarrow> create_api_key_handler (ax_keys A) G ctx req; State_Monad.return () }"
| "serve_call R A G (CallUpdate i req ctx) = do { _ \<leftarrow> update_api_key_handler ctx i req; State_Monad.return () }"
| "serve_call R A G (CallDelete i ctx) = do { _ \<leftarrow> delete_api_key_handler ctx i; State_Monad.return () }"
| "serve_call R A G (CallReveal i ctx) = do { _ \<leftarrow> reveal_api_key (ax_keys A) i ctx; State_Monad.return () }"
| "serve_call R A G (CallAuthenticate rid header) = do {
     _ \<leftarrow> authenticate R A G rid header (\<lambda>_ _. State_Monad.return ()); State_Monad.return () }"
| "serve_call R A G (Wait t) = State_Monad.update (w_now_update (\<lambda>n. n + int t))"

definition serve_calls :: "redis_cmds \<Rightarrow> auth_ext \<Rightarrow> idgen \<Rightarrow> key_call list \<Rightarrow> world \<Rightarrow> world" where
  "serve_calls R A G calls w = snd (run_state (for_each calls (serve_call R A G)) w)"

lemma keeps_with_ctx: "stable P \<Longrightarrow> keeps P (with_ctx G rid r)"
  unfolding with_ctx_def build_ctx_def by (intro keeps_intros)

locale key_history = key_invariant +
  fixes R :: redis_cmds and A :: auth_ext and G :: idgen
  assumes keeps_resolve: "keeps P (resolve_token R A G rid token)"
    and wait_ok: "P w \<Longrightarrow> 0 \<le> t \<Longrightarrow> P (w\<lparr>w_now := w_now w + t\<rparr>)"
begin

lemma keeps_call: "keeps P (serve_call R A G c)"
proof (cases c)
  case (CallAuthenticate rid header)
  then show ?thesis by (simp add: authenticate_def) (intro keeps_intros keeps_resolve)
next
  case (Wait t)
  have "P (w_now_update (\<lambda>n. n + int t) w)" if "P w" for w
    using wait_ok [OF that, of "int t"] by (subst record_now_update) simp
  with Wait show ?thesis by (simp add: keeps_def run_simps)
qed (simp_all add: create_api_key_handler_def update_api_key_handler_def delete_api_key_handler_def Let_def,
    (intro keeps_intros keeps_create keeps_update keeps_delete keeps_reveal)+)

lemma after_calls: "P w \<Longrightarrow> P (serve_calls R A G calls w)"
  unfolding serve_calls_def by (rule keepsD) (intro keeps_intros keeps_call)

end

text \<open>Authentication writes to the cache and to the column of the last use only.\<close>

lemma keeps_cache_read: "stable P \<Longrightarrow> keeps P (cache_read R parse key)"
  unfolding cache_read_def by (intro keeps_intros) simp_all

lemma keeps_cache_write: "stable P \<Longrightarrow>
    (\<And>v w. json = Some v \<Longrightarrow> P w \<Longrightarrow> P (w\<lparr>w_ks := snd (SET_EX R key v (secs ttl) (w_now w) (w_ks w))\<rparr>)) \<Longrightarrow> keeps P (cache_write R json key ttl)"
  unfolding cache_write_def by (intro keeps_intros) simp_all

lemma keeps_load_jwt_key:
  assumes "stable P" and "\<And>v w. P w \<Longrightarrow> P (w\<lparr>w_ks := snd (SET_EX R (jwt_cache_key kid) v (secs JWT_KEY_CACHE_TTL_SECS) (w_now w) (w_ks w))\<rparr>)"
  shows "keeps P (load_jwt_key R A kid)"
  unfolding load_jwt_key_def using assms(2)
  by (intro keeps_intros keeps_cache_read keeps_cache_write assms(1)) simp_all

lemma keeps_resolve_jwt:
  assumes "stable P" and "\<And>kid v w. P w \<Longrightarrow> P (w\<lparr>w_ks := snd (SET_EX R (jwt_cache_key kid) v (secs JWT_KEY_CACHE_TTL_SECS) (w_now w) (w_ks w))\<rparr>)"
  shows "keeps P (resolve_jwt R A G rid token)"
  unfolding resolve_jwt_def using assms by (intro keeps_intros keeps_load_jwt_key keeps_with_ctx) simp_all

context key_invariant
begin

text \<open>The miss path, given what a written entry may be.\<close>

lemma keeps_resolve_api_key:
  assumes "\<And>entry v w. P w \<Longrightarrow> find_auth_row h (w_db w) = Some entry \<Longrightarrow> ax_entry_to_json A entry = Some v \<Longrightarrow>
      P (w\<lparr>w_ks := snd (SET_EX R (auth_key h) v (secs AUTH_CACHE_TTL_SECS) (w_now w) (w_ks w))\<rparr>)"
  shows "keeps P (resolve_api_key R A G rid h)"
proof -
  let ?found = "\<lambda>entry w. P w \<and> find_auth_row h (w_db w) = Some entry"
  have st: "stable (?found entry)" for entry using stable by (simp add: stable_def)
  have wr: "keeps (?found entry) (cache_write R (ax_entry_to_json A entry) (auth_key h) AUTH_CACHE_TTL_SECS)" for entry
    using assms by (intro keeps_cache_write [OF st]) simp_all
  have hit: "triple (?found entry) (State_Monad.bind (cache_write R (ax_entry_to_json A entry) (auth_key h) AUTH_CACHE_TTL_SECS)
     (\<lambda>_. State_Monad.bind now (\<lambda>t. case validate_entry t entry of Inl e \<Rightarrow> State_Monad.return (Inl e)
         | Inr p \<Rightarrow> State_Monad.bind (touch_last_used (pr_api_key_public_id p)) (\<lambda>_. with_ctx G rid (Inr p))))) (\<lambda>_. P)" for entry
    by (rule triple_bind_keeps [OF wr], rule triple_weaken [OF triple_keeps [of P]])
      (intro keeps_intros keeps_touch keeps_with_ctx stable, simp_all)
  have "keeps P (resolve_from_db R A G rid h)"
    unfolding resolve_from_db_def keeps_triple
    by (rule triple_bind [OF triple_query [OF stable]], intro triple_case_sum triple_case_option)
      (auto intro!: triple_return triple_weaken [OF hit])
  then show ?thesis
    unfolding resolve_api_key_def by (intro keeps_intros keeps_cache_read keeps_with_ctx stable)
qed

end

section \<open>The limit of keys per user\<close>

text \<open>No user of a tenant with a limit has more active keys than it.\<close>

definition limits_respected :: "db \<Rightarrow> bool" where
  "limits_respected d \<longleftrightarrow> (\<forall>tid u. case Option.bind (settings_of tid d) ks_max_keys_per_user of
      None \<Rightarrow> True | Some m \<Rightarrow> int (active_keys tid u d) \<le> m)"

lemma insert_append: "insert_api_key k d = (Inr v, d') \<Longrightarrow> d' = append_key k d \<and> ak_key_hash k \<notin> ak_key_hash ` set (api_keys (identity d))"
  by (auto simp: insert_api_key_def Let_def append_key_def update_identity_def split: if_splits)

lemma update_keys_sel [simp]:
  "api_keys (identity (update_keys p f d)) = update_where p f (api_keys (identity d))"
  "settings_of tid (update_keys p f d) = settings_of tid d"
proof -
  have "view_settings (update_keys p f d) = view_settings d"
    by (simp add: fun_eq_iff view_settings_def find_org_def find_tenant_def update_keys_def update_identity_def)
  then show "settings_of tid (update_keys p f d) = settings_of tid d"
    by (simp add: settings_of_def select_settings_def update_keys_def update_identity_def)
qed (simp add: update_keys_def update_identity_def)

lemma length_filter_le_map: "(\<And>x. q (g x) \<Longrightarrow> q x) \<Longrightarrow> length (filter q (map g xs)) \<le> length (filter q xs)"
  by (induction xs) (auto simp: le_SucI)

lemma active_keys_update: "harmless f \<Longrightarrow> active_keys tid u (update_keys p f d) \<le> active_keys tid u d"
  unfolding active_keys_def update_keys_sel update_where_def
  by (rule length_filter_le_map) (auto simp: user_key_def harmless_def split: if_splits)

lemma active_keys_append: "active_keys tid u (append_key k d) = active_keys tid u d + (if user_key tid u k then 1 else 0)"
  by (simp add: active_keys_def)

lemma active_keys_audit [simp]: "active_keys tid u (append_audit a d) = active_keys tid u d"
  by (simp add: active_keys_def)

interpretation limits: key_invariant "any_db limits_respected"
proof
  show "stable (any_db limits_respected)" by (simp add: stable_def any_db_def)
next
  fix w k v d
  assume "any_db limits_respected w" "insert_api_key k (w_db w) = (Inr v, d)" "below_limit (ak_tenant_id k) (ak_user_id k) (w_db w)"
  then show "any_db limits_respected (w\<lparr>w_db := d\<rparr>)"
    by (auto simp: any_db_def limits_respected_def below_limit_def active_keys_append user_key_def dest!: insert_append split: option.splits)
next
  fix w f p
  assume a: "any_db limits_respected w" "harmless f"
  have "int (active_keys tid u (update_keys p f (w_db w))) \<le> m" if "int (active_keys tid u (w_db w)) \<le> m" for tid u m
    using active_keys_update [OF a(2), of tid u p "w_db w"] that by linarith
  with a(1) show "any_db limits_respected (w\<lparr>w_db := update_keys p f (w_db w)\<rparr>)"
    by (simp add: any_db_def limits_respected_def split: option.splits)
next
  fix w a
  assume "any_db limits_respected w"
  then show "any_db limits_respected (w\<lparr>w_db := append_audit a (w_db w)\<rparr>)"
    by (simp add: any_db_def limits_respected_def split: option.splits)
qed

interpretation limits: key_history "any_db limits_respected" R A G for R A G
proof
  fix rid token
  have "keeps (any_db limits_respected) (resolve_jwt R A G rid token)"
    by (intro keeps_resolve_jwt limits.stable) (simp_all add: any_db_def)
  moreover have "keeps (any_db limits_respected) (resolve_api_key R A G rid h)" for h
    by (rule limits.keeps_resolve_api_key) (simp add: any_db_def)
  ultimately show "keeps (any_db limits_respected) (resolve_token R A G rid token)"
    by (simp add: resolve_token_def)
qed (simp add: any_db_def)

section \<open>Instances of the libraries\<close>

definition live_entry :: auth_entry where
  "live_entry = \<lparr>ae_api_key_public_id = ''key_1'', ae_org_id = ''o1'', ae_tenant_id = ''t1'', ae_user_id = ''u1'', ae_expires_at = None,
     ae_api_key_deleted = False, ae_api_key_status = ''active'', ae_org_status = ''active'', ae_org_deleted = False,
     ae_tenant_status = ''active'', ae_tenant_deleted = False\<rparr>"

text \<open>A serialiser of two entries, and a token format \<open>a.b.c\<close> whose parts are the claims.\<close>

definition sample_auth :: auth_ext where
  "sample_auth = \<lparr>ax_keys = sample_keys,
     ax_entry_to_json = (\<lambda>e. if e = live_entry then Some ''live'' else if e = live_entry\<lparr>ae_api_key_deleted := True\<rparr> then Some ''deleted'' else None),
     ax_entry_from_json = (\<lambda>s. if s = ''live'' then Some live_entry else if s = ''deleted'' then Some (live_entry\<lparr>ae_api_key_deleted := True\<rparr>) else None),
     ax_jwt_to_json = (\<lambda>_. None), ax_jwt_from_json = (\<lambda>_. None),
     ax_decode_header = (\<lambda>s. Some (Some (take 2 s))), ax_from_rsa_pem = Some, ax_from_ec_pem = Some,
     ax_decode = (\<lambda>token key alg t. Inr \<lparr>cl_sub = drop 2 token, cl_org_id = ''o1'', cl_tenant_id = ''t1''\<rparr>), ax_parse_uuid = Some\<rparr>"

text \<open>C14. The limit of keys per user holds at all times: from tables in which no user exceeds the limit
  of the tenant, no sequence of calls that create, update, delete, reveal or use keys, served one
  after another, leads to tables in which one does, whatever the calls of the services fail with.\<close>

theorem key_limit_holds:
  assumes "limits_respected (w_db w)"
  shows "limits_respected (w_db (serve_calls R A G calls w))"
  using limits.after_calls [of w R A G calls] assms by (simp add: any_db_def)

theorem key_limit_holds_witness:
  "limits_respected (w_db (serve_calls mem_redis sample_auth alnum_idgen [CallCreate key_request key_ctx, CallCreate key_request key_ctx]
     (start_world key_db empty_keyspace 0)))"
proof (rule key_limit_holds)
  have "settings_of tid key_db = (if tid = ''t1'' then Some sample_settings else None)" for tid
    by (simp add: settings_of_def select_settings_def view_settings_def find_org_def find_tenant_def key_db_def
      sample_settings_def empty_db_def empty_identity_def first_row_def List.map_filter_simps)
  then show "limits_respected (w_db (start_world key_db empty_keyspace 0))"
    by (simp add: limits_respected_def active_keys_def sample_settings_def key_db_def empty_identity_def)
qed

end
