(* ===== verification/Key_Revocation.thy ===== *)
theory Key_Revocation
  imports Key_Lifecycle
begin

text \<open>
  How long an API key is still accepted after it is deleted or its tenant barred. The locale \<open>auth_cache\<close> is what the authentication
  relies on: the string commands of Redis, and a serialiser whose output parses back;
  \<open>withdrawn_key\<close> is what makes a key unusable for good, with the refusal proved once.
\<close>

section \<open>What the cache holds\<close>

text \<open>What the cache holds for the hash expires by \<open>T\<close>, or is an entry that is refused anyway.\<close>

definition cached_until :: "auth_ext \<Rightarrow> (auth_entry \<Rightarrow> bool) \<Rightarrow> time \<Rightarrow> string \<Rightarrow> keyspace \<Rightarrow> bool" where
  "cached_until A bad T h ks \<longleftrightarrow> (case strs ks (auth_key h) of None \<Rightarrow> True
     | Some (v, ex) \<Rightarrow> (case ex of None \<Rightarrow> False | Some e \<Rightarrow> e \<le> T) \<or>
         (case ax_entry_from_json A v of None \<Rightarrow> False | Some entry \<Rightarrow> bad entry))"

definition settled :: "auth_ext \<Rightarrow> (auth_entry \<Rightarrow> bool) \<Rightarrow> (db \<Rightarrow> bool) \<Rightarrow> time \<Rightarrow> string \<Rightarrow> world \<Rightarrow> bool" where
  "settled A bad gone T h w \<longleftrightarrow> gone (w_db w) \<and> cached_until A bad T h (w_ks w)"

definition auth_cache_bounded :: "world \<Rightarrow> bool" where
  "auth_cache_bounded w \<longleftrightarrow> (\<forall>h v ex. strs (w_ks w) (auth_key h) = Some (v, ex) \<longrightarrow> (\<exists>e. ex = Some e \<and> e \<le> w_now w + secs 60))"

lemma bounded_cached_until: "auth_cache_bounded w \<Longrightarrow> cached_until A bad (w_now w + secs 60) h (w_ks w)"
  by (auto simp: auth_cache_bounded_def cached_until_def split: option.splits)

lemma keys_differ [simp]: "jwt_cache_key kid \<noteq> auth_key h" "auth_key h \<noteq> jwt_cache_key kid" "auth_key h = auth_key h' \<longleftrightarrow> h = h'"
  by (simp_all add: jwt_cache_key_def auth_key_def)

interpretation bounded: key_invariant auth_cache_bounded
  by unfold_locales (auto simp: auth_cache_bounded_def stable_def)

locale auth_cache = redis_strings +
  fixes A :: auth_ext
  assumes entry_json: "ax_entry_to_json A e = Some v \<Longrightarrow> ax_entry_from_json A v = Some e"
begin

lemma set_ex_60: "SET_EX R k v (secs AUTH_CACHE_TTL_SECS) t ks = (Inr (), put_str k (v, Some (t + secs 60)) ks)"
  by (subst set_ex) (simp_all add: ttl_ok_def secs_def AUTH_CACHE_TTL_SECS_def)

lemma set_ex_300: "SET_EX R k v (secs JWT_KEY_CACHE_TTL_SECS) t ks = (Inr (), put_str k (v, Some (t + secs 300)) ks)"
  by (subst set_ex) (simp_all add: ttl_ok_def secs_def JWT_KEY_CACHE_TTL_SECS_def)

lemma put_str_same [simp]: "strs (put_str k v ks) k = Some v"
  by (simp add: put_str_def)

lemma put_str_other [simp]: "k \<noteq> k' \<Longrightarrow> strs (put_str k v ks) k' = strs ks k'"
  by (simp add: put_str_def)

end

sublocale auth_cache \<subseteq> bounded_history: key_history auth_cache_bounded R A G for G
proof
  fix rid token
  have "auth_cache_bounded (w\<lparr>w_ks := put_str (auth_key h) (v, Some (w_now w + secs 60)) (w_ks w)\<rparr>)" if "auth_cache_bounded w" for w h v
    using that by (auto simp: auth_cache_bounded_def put_str_def)
  then have "keeps auth_cache_bounded (resolve_api_key R A G rid h)" for h
    by (intro bounded.keeps_resolve_api_key) (simp add: set_ex_60)
  moreover have "keeps auth_cache_bounded (resolve_jwt R A G rid token)"
    by (intro keeps_resolve_jwt bounded.stable) (simp add: set_ex_300 auth_cache_bounded_def)
  ultimately show "keeps auth_cache_bounded (resolve_token R A G rid token)"
    by (simp add: resolve_token_def)
next
  fix w t
  assume "auth_cache_bounded w" and "(0::int) \<le> t"
  moreover have "e \<le> w_now w + t + secs 60" if "e \<le> w_now w + secs 60" for e
    using that calculation(2) by linarith
  ultimately show "auth_cache_bounded (w\<lparr>w_now := w_now w + t\<rparr>)"
    unfolding auth_cache_bounded_def by (simp, blast)
qed

context auth_cache
begin

lemma bounded_after_calls: "auth_cache_bounded w \<Longrightarrow> auth_cache_bounded (serve_calls R A G calls w)"
  by (rule bounded_history.after_calls)

end

section \<open>Keys that are withdrawn\<close>

text \<open>A condition on the tables under which the entry of a hash is refused, and which the calls on keys keep.\<close>

locale withdrawn_key = auth_cache +
  fixes h :: string and gone :: "db \<Rightarrow> bool" and bad :: "auth_entry \<Rightarrow> bool"
  assumes gone_row: "gone d \<Longrightarrow> find_auth_row h d = Some e \<Longrightarrow> bad e"
    and bad_refused: "bad e \<Longrightarrow> \<exists>x. validate_entry t e = Inl x"
    and gone_audit: "gone d \<Longrightarrow> gone (append_audit a d)"
    and gone_change: "gone d \<Longrightarrow> harmless f \<Longrightarrow> gone (update_keys p f d)"
    and gone_insert: "gone d \<Longrightarrow> insert_api_key k d = (Inr v, d') \<Longrightarrow> gone d'"
begin

abbreviation withdrawn :: "time \<Rightarrow> world \<Rightarrow> bool" where
  "withdrawn T \<equiv> settled A bad gone T h"

lemma stable_withdrawn: "stable (withdrawn T)"
  by (simp add: stable_def settled_def)

lemma withdrawn_write:
  assumes "withdrawn T w" and "find_auth_row h' (w_db w) = Some entry" and "ax_entry_to_json A entry = Some v"
  shows "withdrawn T (w\<lparr>w_ks := put_str (auth_key h') (v, ex) (w_ks w)\<rparr>)"
  using assms entry_json [OF assms(3)] gone_row [of "w_db w" entry]
  by (cases "h' = h") (simp_all add: settled_def cached_until_def)

end

sublocale withdrawn_key \<subseteq> gone_keys: key_invariant "settled A bad gone T h" for T
  by unfold_locales (auto simp: settled_def stable_def intro: gone_audit gone_change gone_insert)

sublocale withdrawn_key \<subseteq> gone_history: key_history "settled A bad gone T h" R A G for T G
proof
  fix rid token
  have "keeps (withdrawn T) (resolve_jwt R A G rid token)"
    by (intro keeps_resolve_jwt stable_withdrawn) (simp add: set_ex_300 settled_def cached_until_def)
  moreover have "keeps (withdrawn T) (resolve_api_key R A G rid h')" for h'
    by (rule gone_keys.keeps_resolve_api_key) (simp add: set_ex_60 withdrawn_write)
  ultimately show "keeps (withdrawn T) (resolve_token R A G rid token)"
    by (simp add: resolve_token_def)
qed (simp add: settled_def)

context withdrawn_key
begin

lemma withdrawn_after_calls: "withdrawn T w \<Longrightarrow> withdrawn T (serve_calls R A G calls w)"
  by (rule gone_history.after_calls)

text \<open>Once the time has passed, the cache does not vouch for the key any more.\<close>

definition overdue :: "time \<Rightarrow> world \<Rightarrow> bool" where
  "overdue T w \<longleftrightarrow> withdrawn T w \<and> T \<le> w_now w"

lemma stable_overdue: "stable (overdue T)"
  using stable_withdrawn [of T] by (simp add: stable_def overdue_def)

lemma overdue_get: "overdue T w \<Longrightarrow> GET R (auth_key h) (w_now w) (w_ks w) = Some v \<Longrightarrow> ax_entry_from_json A v = Some e \<Longrightarrow> bad e"
  by (auto simp: overdue_def settled_def cached_until_def get str_at_def split: option.splits if_splits)

lemma overdue_cache_read:
  "triple (overdue T) (cache_read R (ax_entry_from_json A) (auth_key h)) (\<lambda>r w. overdue T w \<and> (\<forall>e. r = Some e \<longrightarrow> bad e))"
proof -
  have "triple (overdue T) (case x of Served \<Rightarrow> serve_redis (\<lambda>t ks. (Inr (GET R (auth_key h) t ks), ks))
     | Refused e \<Rightarrow> State_Monad.return (Inl (RedisError e))
     | Lost e \<Rightarrow> State_Monad.bind (serve_redis (\<lambda>t ks. (Inr (GET R (auth_key h) t ks), ks))) (\<lambda>_. State_Monad.return (Inl (RedisError e))))
     (\<lambda>r w. overdue T w \<and> (\<forall>v e. r = Inr (Some v) \<longrightarrow> ax_entry_from_json A v = Some e \<longrightarrow> bad e))" for x
    by (cases x) (auto simp: triple_def run_simps dest: overdue_get)
  then have cmd: "triple (overdue T) (command (\<lambda>t ks. (Inr (GET R (auth_key h) t ks), ks)))
     (\<lambda>r w. overdue T w \<and> (\<forall>v e. r = Inr (Some v) \<longrightarrow> ax_entry_from_json A v = Some e \<longrightarrow> bad e))"
    unfolding command_def by (rule triple_bind [OF triple_next_outcome [OF stable_overdue]])
  show ?thesis
    unfolding cache_read_def
    by (rule triple_bind_keeps [OF keeps_connect [OF stable_overdue]], intro triple_case_sum triple_bind [OF cmd] triple_return)
      (auto split: sum.splits bind_splits)
qed

lemma overdue_refused: "triple (overdue T) (resolve_api_key R A G rid h) (\<lambda>r _. \<exists>e. r = Inl e)"
proof -
  have hit: "triple (\<lambda>_. True) (case validate_entry t e of Inl x \<Rightarrow> State_Monad.return (Inl x) | Inr p \<Rightarrow> m p) (\<lambda>r _. \<exists>x. r = Inl x)"
    if "bad e" for t e and m :: "principal \<Rightarrow> (app_error + principal \<times> request_context) io"
    using bad_refused [OF that, of t] by (auto simp: triple_def run_simps)
  have db: "triple (overdue T) (resolve_from_db R A G rid h) (\<lambda>r _. \<exists>e. r = Inl e)"
    unfolding resolve_from_db_def
  proof (rule triple_bind [OF triple_query [OF stable_overdue]], intro triple_case_sum triple_case_option)
    fix r :: "app_error + auth_entry option" and found entry
    assume eq: "r = Inr found" "found = Some entry"
    have "triple (\<lambda>_. bad entry \<and> True) (State_Monad.bind (cache_write R (ax_entry_to_json A entry) (auth_key h) AUTH_CACHE_TTL_SECS)
       (\<lambda>_. State_Monad.bind now (\<lambda>t. case validate_entry t entry of Inl e \<Rightarrow> State_Monad.return (Inl e)
         | Inr p \<Rightarrow> State_Monad.bind (touch_last_used (pr_api_key_public_id p)) (\<lambda>_. with_ctx G rid (Inr p))))) (\<lambda>r _. \<exists>e. r = Inl e)"
      by (intro triple_pull triple_any hit)
    then show "triple (\<lambda>w. overdue T w \<and> (\<forall>a. r = Inr a \<longrightarrow> a = find_auth_row h (w_db w)))
       (State_Monad.bind (cache_write R (ax_entry_to_json A entry) (auth_key h) AUTH_CACHE_TTL_SECS)
       (\<lambda>_. State_Monad.bind now (\<lambda>t. case validate_entry t entry of Inl e \<Rightarrow> State_Monad.return (Inl e)
         | Inr p \<Rightarrow> State_Monad.bind (touch_last_used (pr_api_key_public_id p)) (\<lambda>_. with_ctx G rid (Inr p))))) (\<lambda>r _. \<exists>e. r = Inl e)"
      by (rule triple_weaken) (use eq in \<open>auto simp: overdue_def settled_def intro: gone_row [OF _ sym]\<close>)
  qed (auto intro: triple_return)
  have "triple (\<lambda>w. overdue T w \<and> (\<forall>e. Some entry = Some e \<longrightarrow> bad e))
      (State_Monad.bind now (\<lambda>t. with_ctx G rid (validate_entry t entry))) (\<lambda>r _. \<exists>e. r = Inl e)" for entry
  proof (rule triple_weaken)
    show "triple (\<lambda>_. bad entry \<and> True) (State_Monad.bind now (\<lambda>t. with_ctx G rid (validate_entry t entry))) (\<lambda>r _. \<exists>e. r = Inl e)"
      unfolding with_ctx_def by (intro triple_pull triple_any hit)
  qed auto
  with db show ?thesis
    unfolding resolve_api_key_def
    by (intro triple_bind [OF overdue_cache_read] triple_case_option) (auto elim: triple_weaken)
qed

lemma refused_later:
  assumes "withdrawn T w" "T \<le> w_now (serve_calls R A G calls w)"
  shows "\<exists>e. fst (run_state (resolve_api_key R A G rid h) (serve_calls R A G calls w)) = Inl e"
proof -
  have "overdue T (serve_calls R A G calls w)" using withdrawn_after_calls assms by (simp add: overdue_def)
  then show ?thesis by (rule tripleD [OF overdue_refused])
qed

end

section \<open>Deleted keys\<close>

text \<open>The hash belongs to deleted keys only.\<close>

definition revoked :: "string \<Rightarrow> db \<Rightarrow> bool" where
  "revoked h d \<longleftrightarrow> h \<in> ak_key_hash ` set (api_keys (identity d)) \<and>
     (\<forall>k\<in>set (api_keys (identity d)). ak_key_hash k = h \<longrightarrow> ak_deleted_at k \<noteq> None)"

lemma first_row_map_filter: "first_row (List.map_filter f (filter p xs)) = Some e \<Longrightarrow> \<exists>x\<in>set xs. p x \<and> f x = Some e"
  by (induction xs) (auto simp: first_row_def List.map_filter_simps split: if_splits option.splits)

lemma find_auth_rowD: "find_auth_row h d = Some e \<Longrightarrow> \<exists>k\<in>set (api_keys (identity d)). ak_key_hash k = h \<and> entry_of_key d k = Some e"
  unfolding find_auth_row_def by (drule first_row_map_filter) blast

lemma entry_of_key_deleted: "entry_of_key d k = Some e \<Longrightarrow> ae_api_key_deleted e \<longleftrightarrow> ak_deleted_at k \<noteq> None"
  by (cases "find_org (ak_org_id k) d"; cases "find_tenant (ak_tenant_id k) d") (auto simp: entry_of_key_def)

lemma find_auth_row_deleted: "revoked h d \<Longrightarrow> find_auth_row h d = Some e \<Longrightarrow> ae_api_key_deleted e"
  unfolding revoked_def by (drule find_auth_rowD) (metis entry_of_key_deleted)

text \<open>A condition on the tenant of every key with the hash outlives changes of keys.\<close>

lemma keys_of_hash_change:
  assumes "harmless f" and "\<And>k. Q k \<Longrightarrow> Q (f k)"
    and "h \<in> ak_key_hash ` set (api_keys (identity d)) \<and> (\<forall>k\<in>set (api_keys (identity d)). ak_key_hash k = h \<longrightarrow> Q k)"
  shows "h \<in> ak_key_hash ` set (api_keys (identity (update_keys p f d))) \<and> (\<forall>k\<in>set (api_keys (identity (update_keys p f d))). ak_key_hash k = h \<longrightarrow> Q k)"
proof -
  have "ak_key_hash (if p k then f k else k) = ak_key_hash k" "Q k \<longrightarrow> Q (if p k then f k else k)" for k
    using assms(1,2) by (auto simp: harmless_def)
  with assms(3) show ?thesis
    unfolding update_keys_sel set_update_where image_image ball_simps by (simp only:) blast
qed

lemma revoked_change: "revoked h d \<Longrightarrow> harmless f \<Longrightarrow> revoked h (update_keys p f d)"
  unfolding revoked_def by (rule keys_of_hash_change) (auto simp: harmless_def)

lemma revoked_insert: "revoked h d \<Longrightarrow> insert_api_key k d = (Inr v, d') \<Longrightarrow> revoked h d'"
  by (auto simp: revoked_def dest!: insert_append)

lemma revoked_append_audit [simp]: "revoked h (append_audit a d) = revoked h d"
  by (simp add: revoked_def)

interpretation revoked: key_invariant "settled A ae_api_key_deleted (revoked h) T h" for A T h
  by unfold_locales (auto simp: settled_def stable_def intro: revoked_change revoked_insert)

lemma deleted_key_withdrawn: "auth_cache R A \<Longrightarrow> withdrawn_key R A h (revoked h) ae_api_key_deleted"
  by (intro withdrawn_key.intro withdrawn_key_axioms.intro)
    (auto simp: find_auth_row_deleted validate_entry_def revoked_change intro: revoked_insert)

text \<open>The hash belongs to keys of one tenant, which is suspended or deleted.\<close>

definition barred_tenant :: "uuid \<Rightarrow> db \<Rightarrow> bool" where
  "barred_tenant tid d \<longleftrightarrow> (case find_tenant tid d of None \<Rightarrow> True | Some t \<Rightarrow> tn_status t = ''suspended'' \<or> tn_deleted_at t \<noteq> None)"

definition keys_in_tenant :: "uuid \<Rightarrow> string \<Rightarrow> db \<Rightarrow> bool" where
  "keys_in_tenant tid h d \<longleftrightarrow> h \<in> ak_key_hash ` set (api_keys (identity d)) \<and>
     (\<forall>k\<in>set (api_keys (identity d)). ak_key_hash k = h \<longrightarrow> ak_tenant_id k = tid)"

definition tenant_entry_barred :: "auth_entry \<Rightarrow> bool" where
  "tenant_entry_barred e \<longleftrightarrow> ae_tenant_status e = ''suspended'' \<or> ae_tenant_deleted e"

lemma entry_of_key_tenant: "entry_of_key d k = Some e \<Longrightarrow> barred_tenant (ak_tenant_id k) d \<Longrightarrow> tenant_entry_barred e"
  by (cases "find_org (ak_org_id k) d"; cases "find_tenant (ak_tenant_id k) d") (auto simp: entry_of_key_def barred_tenant_def tenant_entry_barred_def)

lemma find_auth_row_barred: "keys_in_tenant tid h d \<Longrightarrow> barred_tenant tid d \<Longrightarrow> find_auth_row h d = Some e \<Longrightarrow> tenant_entry_barred e"
  unfolding keys_in_tenant_def by (drule find_auth_rowD) (metis entry_of_key_tenant)

lemma barred_tenant_keys [simp]: "barred_tenant tid (update_keys p f d) = barred_tenant tid d" "barred_tenant tid (append_audit a d) = barred_tenant tid d"
  "barred_tenant tid (append_key k d) = barred_tenant tid d"
  by (simp_all add: barred_tenant_def find_tenant_def update_keys_def append_audit_def append_key_def update_identity_def)

lemma keys_in_tenant_audit [simp]: "keys_in_tenant tid h (append_audit a d) = keys_in_tenant tid h d"
  by (simp add: keys_in_tenant_def)

lemma keys_in_tenant_change: "keys_in_tenant tid h d \<Longrightarrow> harmless f \<Longrightarrow> keys_in_tenant tid h (update_keys p f d)"
  unfolding keys_in_tenant_def by (rule keys_of_hash_change) (auto simp: harmless_def)

lemma keys_in_tenant_insert: "keys_in_tenant tid h d \<Longrightarrow> insert_api_key k d = (Inr v, d') \<Longrightarrow> keys_in_tenant tid h d'"
  by (auto simp: keys_in_tenant_def dest!: insert_append)

lemma tenant_entry_refused: "tenant_entry_barred e \<Longrightarrow> \<exists>x. validate_entry t e = Inl x"
  by (auto simp: validate_entry_def tenant_entry_barred_def)

lemma barred_tenant_withdrawn:
  "auth_cache R A \<Longrightarrow> withdrawn_key R A h (\<lambda>d. keys_in_tenant tid h d \<and> barred_tenant tid d) tenant_entry_barred"
  by (intro withdrawn_key.intro withdrawn_key_axioms.intro)
    (auto simp: find_auth_row_barred keys_in_tenant_change keys_in_tenant_insert tenant_entry_refused dest: insert_append)

section \<open>The deletion\<close>

text \<open>The hash belongs to the key with the public id, and to no other.\<close>

definition owns_hash :: "string \<Rightarrow> string \<Rightarrow> db \<Rightarrow> bool" where
  "owns_hash public_id h d \<longleftrightarrow> h \<in> ak_key_hash ` set (api_keys (identity d)) \<and>
     (\<forall>k\<in>set (api_keys (identity d)). ak_key_hash k = h \<longrightarrow> ak_public_id k = public_id)"

lemma delete_rows_revokes:
  assumes "owns_hash public_id h d"
  shows "revoked h (update_keys (live_key public_id) (\<lambda>k. touch_key ctx t (k\<lparr>ak_deleted_at := Some t\<rparr>)) d)"
proof -
  let ?g = "\<lambda>k. if live_key public_id k then touch_key ctx t (k\<lparr>ak_deleted_at := Some t\<rparr>) else k"
  have "ak_key_hash (?g k) = ak_key_hash k" "ak_public_id k = public_id \<longrightarrow> ak_deleted_at (?g k) \<noteq> None" for k
    by (simp_all add: live_key_def touch_key_def)
  with assms show ?thesis
    unfolding owns_hash_def revoked_def update_keys_sel set_update_where image_image ball_simps by (simp only:) blast
qed

definition deletable :: "auth_ext \<Rightarrow> time \<Rightarrow> string \<Rightarrow> string \<Rightarrow> world \<Rightarrow> bool" where
  "deletable A T public_id h w \<longleftrightarrow> owns_hash public_id h (w_db w) \<and> cached_until A ae_api_key_deleted T h (w_ks w)"

lemma delete_settles: "triple (deletable A T public_id h) (delete_api_key public_id ctx) (\<lambda>r w. r = Inr () \<longrightarrow> settled A ae_api_key_deleted (revoked h) T h w)"
proof -
  let ?P = "deletable A T public_id h"
  have st: "stable ?P" by (simp add: stable_def deletable_def)
  have get: "keeps ?P (or_not_found (get_key_by_public_id public_id) (key_missing public_id))"
    unfolding get_key_by_public_id_def by (intro keeps_intros st)
  have del: "triple ?P (delete_api_key_row public_id ctx) (\<lambda>r w. \<forall>b. r = Inr b \<longrightarrow> settled A ae_api_key_deleted (revoked h) T h w)"
    unfolding delete_api_key_row_def
    by (rule triple_statement_result [OF st]) (auto simp: deletable_def settled_def intro: delete_rows_revokes)
  have fin: "triple (settled A ae_api_key_deleted (revoked h) T h) (if \<not> deleted then State_Monad.return (Inl (NotFound (key_missing public_id)))
      else State_Monad.bind (audit_key k ''deleted'' ctx None) (\<lambda>_. State_Monad.return (Inr ()))) (\<lambda>r w. r = Inr () \<longrightarrow> settled A ae_api_key_deleted (revoked h) T h w)" for deleted k
    by (rule triple_weaken [OF triple_keeps [of "settled A ae_api_key_deleted (revoked h) T h"]]) (intro keeps_intros revoked.keeps_audit, simp_all)
  show ?thesis
    unfolding delete_api_key_def
    by (intro triple_try_bind_keeps [OF get] triple_try_bind [OF del]) (simp, simp, rule triple_weaken [OF fin], simp_all)
qed

section \<open>A deleted key that is still cached\<close>

definition ci_key :: api_key_row where
  "ci_key = \<lparr>ak_id = ''k1'', ak_public_id = ''key_1'', ak_org_id = ''o1'', ak_tenant_id = ''t1'', ak_user_id = ''u1'', ak_name = ''ci'',
     ak_description = None, ak_key_hash = ''hash'', ak_key_encrypted = None, ak_key_prefix = ''liv_xxx'', ak_environment_id = ''env_1'',
     ak_status = KeyActive, ak_expires_at = None, ak_last_used_at = None, ak_tags = [], ak_request_id = ''r0'', ak_version = 0,
     ak_created_by = ''u1'', ak_updated_by = ''u1'', ak_created_at = 0, ak_updated_at = 0, ak_deleted_at = None\<rparr>"

definition used_world :: world where
  "used_world = start_world (append_key ci_key key_db) (put_str (auth_key ''hash'') (''live'', Some (secs 60)) empty_keyspace) 0"

interpretation mem_auth: auth_cache mem_redis sample_auth
proof (rule auth_cache.intro)
  show "redis_strings mem_redis" by (rule mem_strings.redis_strings_axioms)
  show "auth_cache_axioms sample_auth" by unfold_locales (auto simp: sample_auth_def split: if_splits)
qed

interpretation mem_deleted: withdrawn_key mem_redis sample_auth h "revoked h" ae_api_key_deleted for h
  by (rule deleted_key_withdrawn [OF mem_auth.auth_cache_axioms])

interpretation mem_barred: withdrawn_key mem_redis sample_auth h "\<lambda>d. keys_in_tenant tid h d \<and> barred_tenant tid d" tenant_entry_barred for tid h
  by (rule barred_tenant_withdrawn [OF mem_auth.auth_cache_axioms])

lemma used_world_bounded: "auth_cache_bounded used_world"
  by (auto simp: auth_cache_bounded_def used_world_def put_str_def empty_keyspace_def split: if_splits)

lemma used_world_owns: "owns_hash ''key_1'' ''hash'' (w_db used_world)"
  by (simp add: owns_hash_def used_world_def key_db_def empty_identity_def ci_key_def)

lemma used_world_deletes:
  "\<exists>w2. run_state (delete_api_key ''key_1'' key_ctx) used_world = (Inr (), w2) \<and> w_now w2 = 0 \<and> no_faults w2 \<and> w_ks w2 = w_ks used_world"
  by (simp add: delete_api_key_def or_not_found_def get_key_by_public_id_def delete_api_key_row_def audit_key_def insert_audit_def run_simps
      used_world_def select_api_keys_def live_key_def view_api_key_def find_org_def find_tenant_def user_public_def first_row_def
      List.map_filter_simps append_key_def update_identity_def key_db_def empty_db_def empty_identity_def ci_key_def)

section \<open>Properties\<close>

text \<open>C9. Deleting a key takes effect within a minute: after a successful deletion, and after any
  sequence of calls that follow it, a request that arrives 60 seconds later with the key is refused,
  whatever the calls to Redis and the database fail with. Before the deletion any calls may have been
  served since the cache was empty of entries that live longer.\<close>

theorem deleted_key_refused_after_a_minute:
  assumes "auth_cache R A" and "auth_cache_bounded w0" and "w1 = serve_calls R A G earlier w0" and "owns_hash public_id h (w_db w1)"
    and "run_state (delete_api_key public_id ctx) w1 = (Inr (), w2)" and "w3 = serve_calls R A G later w2" and "w_now w1 + secs 60 \<le> w_now w3"
  shows "\<exists>e. fst (run_state (resolve_api_key R A G rid h) w3) = Inl e"
proof -
  have "auth_cache_bounded w1"
    unfolding assms(3) using assms(1,2) by (rule auth_cache.bounded_after_calls)
  then have "deletable A (w_now w1 + secs 60) public_id h w1"
    using assms(4) bounded_cached_until by (simp add: deletable_def)
  then have "settled A ae_api_key_deleted (revoked h) (w_now w1 + secs 60) h w2"
    using tripleD [OF delete_settles, of A "w_now w1 + secs 60" public_id h w1 ctx] assms(5) by simp
  then show ?thesis
    using withdrawn_key.refused_later [OF deleted_key_withdrawn [OF assms(1)]] assms(6,7) by blast
qed

theorem deleted_key_refused_after_a_minute_witness:
  "\<exists>w2 e. run_state (delete_api_key ''key_1'' key_ctx) used_world = (Inr (), w2) \<and>
     fst (run_state (resolve_api_key mem_redis sample_auth alnum_idgen None ''hash'')
       (serve_calls mem_redis sample_auth alnum_idgen [Wait (nat (secs 60))] w2)) = Inl e"
proof -
  obtain w2 where w2: "run_state (delete_api_key ''key_1'' key_ctx) used_world = (Inr (), w2)" "w_now w2 = 0"
    using used_world_deletes by blast
  have "w_now (serve_calls mem_redis sample_auth alnum_idgen [Wait (nat (secs 60))] w2) = secs 60"
    using w2(2) by (simp add: serve_calls_def run_simps secs_def)
  moreover have "w_now used_world = 0" by (simp add: used_world_def)
  moreover have "used_world = serve_calls mem_redis sample_auth alnum_idgen [] used_world"
    by (simp add: serve_calls_def run_simps)
  ultimately show ?thesis
    using deleted_key_refused_after_a_minute [OF mem_auth.auth_cache_axioms used_world_bounded _ used_world_owns w2(1) refl] w2(1) by simp
qed

text \<open>Until then the cache decides: while an entry for the hash is cached, the request is accepted as
  the entry says, whatever the tables hold by then, so deleting a key, suspending its organization
  or its tenant has no effect on it.\<close>

theorem cached_entry_decides:
  assumes "redis_strings R" and "no_faults w" and "str_at (w_ks w) (w_now w) (auth_key h) = Some (v, ex)"
    and "ax_entry_from_json A v = Some entry" and "validate_entry (w_now w) entry = Inr p"
  shows "\<exists>ctx. fst (run_state (resolve_api_key R A G rid h) (w\<lparr>w_db := d\<rparr>)) = Inr (p, ctx)"
  using assms by (auto simp: resolve_api_key_def cache_read_def with_ctx_def build_ctx_def run_simps redis_strings.get split: option.splits)

theorem cached_entry_decides_witness:
  "\<exists>w2 ctx. run_state (delete_api_key ''key_1'' key_ctx) used_world = (Inr (), w2) \<and>
     fst (run_state (resolve_api_key mem_redis sample_auth alnum_idgen None ''hash'') w2) =
       Inr (\<lparr>pr_api_key_public_id = ''key_1'', pr_org_id = ''o1'', pr_tenant_id = ''t1'', pr_user_id = ''u1''\<rparr>, ctx)"
proof -
  obtain w2 where w2: "run_state (delete_api_key ''key_1'' key_ctx) used_world = (Inr (), w2)" "w_now w2 = 0" "no_faults w2" "w_ks w2 = w_ks used_world"
    using used_world_deletes by blast
  have "str_at (w_ks w2) (w_now w2) (auth_key ''hash'') = Some (''live'', Some (secs 60))"
    by (simp add: w2 used_world_def str_at_def put_str_def secs_def)
  moreover have "ax_entry_from_json sample_auth ''live'' = Some live_entry" by (simp add: sample_auth_def)
  moreover have "validate_entry (w_now w2) live_entry = Inr \<lparr>pr_api_key_public_id = ''key_1'', pr_org_id = ''o1'', pr_tenant_id = ''t1'', pr_user_id = ''u1''\<rparr>"
    by (simp add: validate_entry_def live_entry_def)
  ultimately show ?thesis
    using cached_entry_decides [OF mem_strings.redis_strings_axioms w2(3), where d = "w_db w2"] w2(1) by simp
qed

end
