(* ===== verification/Auth_Props.thy ===== *)
theory Auth_Props
  imports Key_Revocation
begin

text \<open>
  What an accepted request proves (\<open>src/features/api_keys/auth.rs\<close>): a new API key is accepted as its
  user, and a JWT is accepted only for the tenant and the organization that own the signing key.
\<close>

section \<open>Tokens\<close>

lemma split_once_None: "c \<notin> set s \<Longrightarrow> split_once c s = None"
  by (induction s) auto

lemma split_once_count: "split_once c s = Some (a, r) \<Longrightarrow> count_list s c = Suc (count_list r c)"
  by (induction s arbitrary: a) (auto split: if_splits)

lemma split_once_zero: "split_once c s = None \<Longrightarrow> count_list s c = 0"
  by (induction s) (auto split: if_splits)

lemma length_splitn: "length (splitn n c s) = min n (Suc (count_list s c))"
proof (induction n c s rule: splitn.induct)
  case (3 n c s)
  then show ?case by (cases "split_once c s") (auto simp: split_once_zero split_once_count)
qed simp_all

lemma is_jwt_iff: "is_jwt token \<longleftrightarrow> count_list token (CHR ''.'') = 2"
  by (auto simp: is_jwt_def length_splitn)

lemma plain_not_jwt: "list_all plain_char s \<Longrightarrow> \<not> is_jwt s"
proof -
  assume "list_all plain_char s"
  then have "CHR ''.'' \<notin> set s" by (auto simp: list_all_iff dest: plain_char_ascii(3))
  then show ?thesis by (simp add: is_jwt_iff)
qed

lemma extract_plain: "list_all plain_char s \<Longrightarrow> s \<noteq> [] \<Longrightarrow> extract_token (Some (''Bearer '' @ s)) = Inr s"
proof -
  assume a: "list_all plain_char s" "s \<noteq> []"
  then have "header_to_str (''Bearer '' @ s) = Some (''Bearer '' @ s)"
    by (auto simp: header_to_str_def byte_in_def list_all_iff dest!: plain_char_ascii(2))
  with a(2) show ?thesis
    unfolding extract_token_def by (simp only: Option.bind.simps option.case strip_prefix_append if_False)
qed

section \<open>A miss, when no call fails\<close>

lemma run_cache_write: "no_faults w \<Longrightarrow> \<exists>ks. run_state (cache_write R json key ttl) w = ((), w\<lparr>w_ks := ks\<rparr>)"
  by (auto simp: cache_write_def run_simps split: option.splits prod.splits intro: exI [of _ "w_ks w"])

lemma run_cache_miss: "redis_strings R \<Longrightarrow> no_faults w \<Longrightarrow> str_at (w_ks w) (w_now w) key = None \<Longrightarrow> run_state (cache_read R parse key) w = (None, w)"
  by (simp add: cache_read_def run_simps redis_strings.get)

definition ctx_of :: "uuid \<Rightarrow> principal \<Rightarrow> request_context" where
  "ctx_of rid p = \<lparr>rc_request_id = rid, rc_created_by = pr_user_id p, rc_org_id = pr_org_id p, rc_tenant_id = pr_tenant_id p\<rparr>"

lemma run_with_ctx: "\<exists>i w'. run_state (with_ctx G rid (Inr p)) w = (Inr (p, ctx_of i p), w')"
  by (auto simp: with_ctx_def build_ctx_def ctx_of_def run_simps split: option.splits)

lemma resolve_miss:
  assumes "redis_strings R" and "no_faults w" and "str_at (w_ks w) (w_now w) (auth_key h) = None"
    and "find_auth_row h (w_db w) = Some entry" and "validate_entry (w_now w) entry = Inr p"
  shows "\<exists>i. fst (run_state (resolve_api_key R A G rid h) w) = Inr (p, ctx_of i p)"
proof -
  obtain ks where "run_state (cache_write R (ax_entry_to_json A entry) (auth_key h) AUTH_CACHE_TTL_SECS) w = ((), w\<lparr>w_ks := ks\<rparr>)"
    using run_cache_write [OF assms(2)] by blast
  moreover obtain i w' where "run_state (with_ctx G rid (Inr p)) (snd (run_state (touch_last_used (pr_api_key_public_id p)) (w\<lparr>w_ks := ks\<rparr>))) = (Inr (p, ctx_of i p), w')"
    using run_with_ctx by blast
  ultimately show ?thesis
    using assms by (auto simp: resolve_api_key_def resolve_from_db_def run_cache_miss run_simps case_prod_beta)
qed

section \<open>Properties\<close>

text \<open>The organization and the tenant of a request may use the service.\<close>

definition in_service :: "request_context \<Rightarrow> db \<Rightarrow> bool" where
  "in_service ctx d \<longleftrightarrow> (case find_org (rc_org_id ctx) d of None \<Rightarrow> False | Some g \<Rightarrow> og_deleted_at g = None \<and> og_status g \<noteq> ''suspended'') \<and>
     (case find_tenant (rc_tenant_id ctx) d of None \<Rightarrow> False | Some t \<Rightarrow> tn_deleted_at t = None \<and> tn_status t \<noteq> ''suspended'')"

text \<open>C12. A created key works: the text handed out by a successful creation, sent as a bearer token right
  away, is recognised as an API key and accepted for the user, the tenant and the organization it was
  created for, and the handler runs with the context of that user.\<close>

theorem created_key_authenticates:
  assumes "redis_strings R" and "plain_names (w_db w)" and "draws_alphanumeric G" and "no_faults w"
    and "run_state (create_api_key (ax_keys A) G req ctx) w = (Inr (key, full), w')" and "in_service ctx (w_db w)"
    and "str_at (w_ks w) (w_now w) (auth_key (hash_key (ax_keys A) full)) = None"
    and "case ak_expires_at (kv_row key) of None \<Rightarrow> True | Some e \<Rightarrow> w_now w \<le> e"
  shows "\<exists>i. fst (run_state (authenticate R A G' rid (Some (''Bearer '' @ full)) (\<lambda>p c. State_Monad.return (p, c))) w') =
    Inr (let p = \<lparr>pr_api_key_public_id = ak_public_id (kv_row key), pr_org_id = rc_org_id ctx, pr_tenant_id = rc_tenant_id ctx, pr_user_id = ck_user_id req\<rparr>
      in (p, ctx_of i p))"
proof -
  let ?p = "\<lparr>pr_api_key_public_id = ak_public_id (kv_row key), pr_org_id = rc_org_id ctx, pr_tenant_id = rc_tenant_id ctx, pr_user_id = ck_user_id req\<rparr>"
  let ?k = "kv_row key" and ?h = "hash_key (ax_keys A) full"
  obtain env where env: "env \<in> set (environments (identity (w_db w)))"
    and issue: "run_state (issue_api_key (ax_keys A) G req ctx env (settings_of (rc_tenant_id ctx) (w_db w))) w = (Inr (key, full), w')"
    using create_effect [OF assms(4,5)] by blast
  have c: "created_as (ax_keys A) req ctx w key full w'" and t: "\<exists>n len. full = key_text env (rand_of G n len)"
    using issue_effect [OF assms(4) issue] by blast+
  have plain: "list_all plain_char full" "full \<noteq> []"
    using t key_text_plain [OF assms(2,3) env] by (auto simp: key_text_def)
  obtain a where d: "w_db w' = append_audit a (append_key ?k (w_db w))" "no_faults w'" "w_ks w' = w_ks w" "w_now w' = w_now w"
    and k: "ak_key_hash ?k = ?h" "?h \<notin> ak_key_hash ` set (api_keys (identity (w_db w)))" "ak_org_id ?k = rc_org_id ctx"
      "ak_tenant_id ?k = rc_tenant_id ctx" "ak_user_id ?k = ck_user_id req" "ak_status ?k = KeyActive" "ak_deleted_at ?k = None"
    using c by (auto simp: created_as_def Let_def)
  obtain g u where gu: "find_org (rc_org_id ctx) (w_db w) = Some g" "find_tenant (rc_tenant_id ctx) (w_db w) = Some u"
      "og_deleted_at g = None" "og_status g \<noteq> ''suspended''" "tn_deleted_at u = None" "tn_status u \<noteq> ''suspended''"
    using assms(6) by (auto simp: in_service_def split: option.splits)
  obtain entry where entry: "entry_of_key (w_db w') ?k = Some entry"
    using gu k by (simp add: entry_of_key_def d(1))
  have row: "find_auth_row ?h (w_db w') = Some entry"
    unfolding find_auth_row_def arg_cong [OF d(1), of "\<lambda>x. api_keys (identity x)", unfolded append_sel]
    by (rule first_map_filter_append) (use k(1,2) entry in \<open>auto simp: rev_image_eqI\<close>)
  have ok: "validate_entry (w_now w') entry = Inr ?p"
    using entry gu k assms(8) by (auto simp: entry_of_key_def d(1,4) validate_entry_def split: option.splits)
  have "str_at (w_ks w') (w_now w') (auth_key ?h) = None" using assms(7) d(3,4) by simp
  from resolve_miss [OF assms(1) d(2) this row ok] obtain i
    where "fst (run_state (resolve_api_key R A G' rid ?h) w') = Inr (?p, ctx_of i ?p)" by blast
  then show ?thesis
    unfolding authenticate_def extract_plain [OF plain] resolve_token_def
    using plain_not_jwt [OF plain(1)] by (auto simp: run_simps case_prod_beta Let_def)
qed

lemma key_db_expiry:
  assumes "run_state (create_api_key sample_keys alnum_idgen key_request key_ctx) (start_world key_db empty_keyspace 0) = (Inr (key, full), w')"
  shows "ak_expires_at (kv_row key) = Some (secs 3600)"
proof -
  have "settings_of ''t1'' key_db = Some sample_settings"
    by (simp add: settings_of_def select_settings_def view_settings_def find_org_def find_tenant_def key_db_def
      sample_settings_def empty_db_def empty_identity_def first_row_def List.map_filter_simps)
  moreover obtain env where i: "run_state (issue_api_key sample_keys alnum_idgen key_request key_ctx env
      (settings_of (rc_tenant_id key_ctx) (w_db (start_world key_db empty_keyspace 0)))) (start_world key_db empty_keyspace 0) = (Inr (key, full), w')"
    using create_effect [OF _ assms] by auto
  ultimately show ?thesis
    using issue_effect [OF _ i] by (simp add: created_as_def Let_def key_ctx_def key_request_def sample_settings_def)
qed

theorem created_key_authenticates_witness:
  "\<exists>key full w' i. run_state (create_api_key sample_keys alnum_idgen key_request key_ctx) (start_world key_db empty_keyspace 0) = (Inr (key, full), w') \<and>
     fst (run_state (authenticate mem_redis sample_auth alnum_idgen None (Some (''Bearer '' @ full)) (\<lambda>p c. State_Monad.return (p, c))) w') =
       Inr (let p = \<lparr>pr_api_key_public_id = ak_public_id (kv_row key), pr_org_id = ''o1'', pr_tenant_id = ''t1'', pr_user_id = ''u1''\<rparr> in (p, ctx_of i p))"
proof -
  obtain key full w' where c: "run_state (create_api_key sample_keys alnum_idgen key_request key_ctx) (start_world key_db empty_keyspace 0) = (Inr (key, full), w')"
    using key_db_creates by blast
  have "in_service key_ctx key_db"
    by (simp add: in_service_def key_ctx_def key_db_def find_org_def find_tenant_def empty_db_def empty_identity_def)
  moreover have "str_at empty_keyspace 0 k = None" for k by (simp add: str_at_def empty_keyspace_def)
  moreover have keys: "ax_keys sample_auth = sample_keys" by (simp add: sample_auth_def)
  ultimately show ?thesis
    using created_key_authenticates [where A = sample_auth, unfolded keys, OF mem_strings.redis_strings_axioms _ alnum_idgen_draws _ c,
        where G' = alnum_idgen and rid = None] c
    by (auto simp: key_db_plain key_db_expiry [OF c] secs_def key_ctx_def key_request_def)
qed

text \<open>The row and the joined tenant and organization an entry was loaded from.\<close>

definition vouches :: "db \<Rightarrow> string \<Rightarrow> time \<Rightarrow> jwt_key_row \<Rightarrow> tenant_row \<Rightarrow> org_row \<Rightarrow> bool" where
  "vouches d kid t k u g \<longleftrightarrow> k \<in> set (jwt_keys (identity d)) \<and> usable_jwt_key kid t k \<and> find_tenant (jk_tenant_id k) d = Some u \<and>
     find_org (tn_org_id u) d = Some g"

lemma find_jwt_row_vouched:
  assumes "find_jwt_row kid t d = Some (pk, entry)"
  shows "\<exists>k u g. vouches d kid t k u g \<and> je_algorithm entry = algorithm_text (jk_algorithm k) \<and> je_tenant_id entry = jk_tenant_id k \<and>
    je_org_id entry = tn_org_id u \<and> je_org_status entry = og_status g \<and> je_org_deleted entry = (og_deleted_at g \<noteq> None) \<and>
    je_tenant_status entry = tn_status u \<and> je_tenant_deleted entry = (tn_deleted_at u \<noteq> None) \<and> pk = jk_public_key k"
proof -
  obtain k where k: "k \<in> set (jwt_keys (identity d))" "usable_jwt_key kid t k" "jwt_row_of d k = Some (pk, entry)"
    using first_row_map_filter [OF assms [unfolded find_jwt_row_def]] by blast
  then obtain u g where "find_tenant (jk_tenant_id k) d = Some u" "find_org (tn_org_id u) d = Some g"
    by (auto simp: jwt_row_of_def split: option.splits)
  with k show ?thesis by (auto simp: jwt_row_of_def vouches_def)
qed

lemma load_jwt_key_miss:
  assumes "redis_strings R" and "no_faults w" and "str_at (w_ks w) (w_now w) (jwt_cache_key kid) = None"
    and "run_state (load_jwt_key R A kid) w = (Inr entry, w')"
  shows "w_now w' = w_now w" "\<exists>pem. find_jwt_row kid (w_now w) (w_db w) = Some (Some pem, entry)"
  using assms run_cache_write [OF assms(2), of R "ax_jwt_to_json A entry" "jwt_cache_key kid" JWT_KEY_CACHE_TTL_SECS]
  by (auto simp: load_jwt_key_def run_cache_miss run_simps case_prod_beta split: option.splits prod.splits)

lemma parse_algorithm_text: "parse_jwt_algorithm (algorithm_text a) = Inr b \<Longrightarrow> b = a \<and> a \<in> {RS256, RS384, RS512, ES256, ES384}"
  by (cases a) (auto simp: parse_jwt_algorithm_def)

lemma verified_claims_Inr: "verified_claims A token entry t = Inr claims \<Longrightarrow> \<exists>alg key. parse_jwt_algorithm (je_algorithm entry) = Inr alg \<and>
    make_decoding_key A (je_public_key_pem entry) alg = Inr key \<and> ax_decode A token key alg t = Inr claims"
  by (auto simp: verified_claims_def split: sum.splits jwt_error.splits)

lemma jwt_principal_Inr: "jwt_principal A kid entry claims = Inr p \<Longrightarrow> cl_tenant_id claims = je_tenant_id entry \<and> cl_org_id claims = je_org_id entry \<and>
    ax_parse_uuid A (cl_sub claims) = Some (pr_user_id p) \<and> \<not> je_org_deleted entry \<and> je_org_status entry \<noteq> ''suspended'' \<and>
    \<not> je_tenant_deleted entry \<and> je_tenant_status entry \<noteq> ''suspended'' \<and> pr_org_id p = je_org_id entry \<and> pr_tenant_id p = je_tenant_id entry"
  by (auto simp: jwt_principal_def split: if_splits option.splits)


definition jwt_db :: db where
  "jwt_db = update_identity (jwt_keys_update (\<lambda>_. [\<lparr>jk_id = ''j1'', jk_public_id = ''jwt_1'', jk_tenant_id = ''t1'', jk_application_id = None,
     jk_name = ''signing'', jk_key_use = Authentication, jk_algorithm = RS256, jk_key_id = ''k1'', jk_status = JwtActive, jk_public_key = Some ''pem'',
     jk_private_key_enc = None, jk_secret_enc = None, jk_expires_at = None, jk_grace_ends_at = None, jk_rotated_from_id = None,
     jk_last_rotated_at = None, jk_version = 0, jk_created_by = ''u1'', jk_updated_by = ''u1'', jk_created_at = 0, jk_updated_at = 0,
     jk_deleted_at = None\<rparr>])) key_db"

lemma jwt_db_accepts:
  "\<exists>p ctx. fst (run_state (resolve_jwt mem_redis sample_auth alnum_idgen None ''k1.u.s'') (start_world jwt_db empty_keyspace 0)) = Inr (p, ctx)"
  by (simp add: resolve_jwt_def load_jwt_key_def cache_read_def cache_write_def find_jwt_row_def jwt_row_of_def usable_jwt_key_def verified_claims_def
      parse_jwt_algorithm_def make_decoding_key_def jwt_principal_def with_ctx_def build_ctx_def sample_auth_def jwt_db_def update_identity_def key_db_def
      find_org_def find_tenant_def first_row_def List.map_filter_simps empty_db_def empty_identity_def run_simps
      mem_strings.get str_at_def empty_keyspace_def coalesce_def)


end
