(* ===== verification/Jwt_Keys.thy ===== *)
theory Jwt_Keys
  imports Auth
begin

text \<open>
  The signing keys of tenants (\<open>src/features/jwt_keys/\<close>): generation, storage with the private part
  encrypted, rotation with a grace period, and the public key set. The curves, RSA and their encodings
  are parameters.
\<close>

section \<open>Key pairs\<close>

text \<open>\<open>jx_p256 n\<close> is the \<open>n\<close>-th random key with its PEM texts, \<open>None\<close> where the encoding fails; an RSA key
  may also fail to be generated. The decoders give the coordinates of a point and the parts of an RSA
  key.\<close>

record jwt_ext =
  jx_crypto :: crypto_ext
  jx_master_key :: string
  jx_p256 :: "nat \<Rightarrow> string option \<times> string option"
  jx_p384 :: "nat \<Rightarrow> string option \<times> string option"
  jx_rsa :: "nat \<Rightarrow> (string option \<times> string option) option"
  jx_p256_point :: "string \<Rightarrow> (string option \<times> string option) option"
  jx_p384_point :: "string \<Rightarrow> (string option \<times> string option) option"
  jx_rsa_parts :: "string \<Rightarrow> (string \<times> string) option"

record key_pair =
  kp_public_key_pem :: "string option"
  kp_private_key_pem :: "string option"
  kp_hmac_secret :: "string option"

definition pem_pair :: "string \<Rightarrow> string option \<times> string option \<Rightarrow> app_error + key_pair" where
  "pem_pair what p = (case p of
      (None, _) \<Rightarrow> Inl (Internal (''failed to encode '' @ what @ '' private key''))
    | (Some _, None) \<Rightarrow> Inl (Internal (''failed to encode '' @ what @ '' public key''))
    | (Some private_pem, Some public_pem) \<Rightarrow> Inr \<lparr>kp_public_key_pem = Some public_pem, kp_private_key_pem = Some private_pem, kp_hmac_secret = None\<rparr>)"

definition generate_p256 :: "jwt_ext \<Rightarrow> (app_error + key_pair) io" where
  "generate_p256 J = do { n \<leftarrow> fresh; State_Monad.return (pem_pair ''P-256'' (jx_p256 J n)) }"

definition generate_p384 :: "jwt_ext \<Rightarrow> (app_error + key_pair) io" where
  "generate_p384 J = do { n \<leftarrow> fresh; State_Monad.return (pem_pair ''P-384'' (jx_p384 J n)) }"

definition generate_rsa :: "jwt_ext \<Rightarrow> (app_error + key_pair) io" where
  "generate_rsa J = do {
     n \<leftarrow> fresh;
     State_Monad.return (case jx_rsa J n of None \<Rightarrow> Inl (Internal ''failed to generate RSA key'') | Some p \<Rightarrow> pem_pair ''RSA'' p) }"

definition generate_hmac :: "jwt_ext \<Rightarrow> nat \<Rightarrow> (app_error + key_pair) io" where
  "generate_hmac J bytes = do {
     n \<leftarrow> fresh;
     State_Monad.return (Inr \<lparr>kp_public_key_pem = None, kp_private_key_pem = None,
       kp_hmac_secret = Some (b64url_encode (jx_crypto J) (rand_bytes (jx_crypto J) n bytes))\<rparr>) }"

fun generate_key_pair :: "jwt_ext \<Rightarrow> jwt_algorithm \<Rightarrow> (app_error + key_pair) io" where
  "generate_key_pair J ES256 = generate_p256 J"
| "generate_key_pair J ES384 = generate_p384 J"
| "generate_key_pair J ES512 = State_Monad.return (Inl (BadRequest ''ES512 (P-521) is not supported; use ES256 or ES384''))"
| "generate_key_pair J RS256 = generate_rsa J"
| "generate_key_pair J RS384 = generate_rsa J"
| "generate_key_pair J RS512 = generate_rsa J"
| "generate_key_pair J HS256 = generate_hmac J 32"
| "generate_key_pair J HS512 = generate_hmac J 64"

definition ec_jwk :: "crypto_ext \<Rightarrow> string \<Rightarrow> string \<Rightarrow> string \<Rightarrow> (string option \<times> string option) option \<Rightarrow> app_error + json" where
  "ec_jwk X alg crv kid pk = (case pk of
      None \<Rightarrow> Inl (Internal (''invalid '' @ crv @ '' public key PEM''))
    | Some (None, _) \<Rightarrow> Inl (Internal ''missing x coordinate'')
    | Some (Some _, None) \<Rightarrow> Inl (Internal ''missing y coordinate'')
    | Some (Some x, Some y) \<Rightarrow> Inr (JObject [(''kty'', JString ''EC''), (''use'', JString ''sig''), (''kid'', JString kid), (''alg'', JString alg),
        (''crv'', JString crv), (''x'', JString (b64url_encode X x)), (''y'', JString (b64url_encode X y))]))"

definition p256_pem_to_jwk :: "jwt_ext \<Rightarrow> string \<Rightarrow> string \<Rightarrow> app_error + json" where
  "p256_pem_to_jwk J pem kid = ec_jwk (jx_crypto J) ''ES256'' ''P-256'' kid (jx_p256_point J pem)"

definition p384_pem_to_jwk :: "jwt_ext \<Rightarrow> string \<Rightarrow> string \<Rightarrow> app_error + json" where
  "p384_pem_to_jwk J pem kid = ec_jwk (jx_crypto J) ''ES384'' ''P-384'' kid (jx_p384_point J pem)"

definition rsa_pem_to_jwk :: "jwt_ext \<Rightarrow> string \<Rightarrow> string \<Rightarrow> string \<Rightarrow> app_error + json" where
  "rsa_pem_to_jwk J pem kid alg = (case jx_rsa_parts J pem of
      None \<Rightarrow> Inl (Internal ''invalid RSA public key PEM'')
    | Some (n, e) \<Rightarrow> Inr (JObject [(''kty'', JString ''RSA''), (''use'', JString ''sig''), (''kid'', JString kid), (''alg'', JString alg),
        (''n'', JString (b64url_encode (jx_crypto J) n)), (''e'', JString (b64url_encode (jx_crypto J) e))]))"

fun public_key_to_jwk :: "jwt_ext \<Rightarrow> jwt_algorithm \<Rightarrow> string \<Rightarrow> string \<Rightarrow> app_error + json option" where
  "public_key_to_jwk J ES256 kid pem = map_sum id Some (p256_pem_to_jwk J pem kid)"
| "public_key_to_jwk J ES384 kid pem = map_sum id Some (p384_pem_to_jwk J pem kid)"
| "public_key_to_jwk J ES512 kid pem = Inr None"
| "public_key_to_jwk J RS256 kid pem = map_sum id Some (rsa_pem_to_jwk J pem kid ''RS256'')"
| "public_key_to_jwk J RS384 kid pem = map_sum id Some (rsa_pem_to_jwk J pem kid ''RS384'')"
| "public_key_to_jwk J RS512 kid pem = map_sum id Some (rsa_pem_to_jwk J pem kid ''RS512'')"
| "public_key_to_jwk J HS256 kid pem = Inr None"
| "public_key_to_jwk J HS512 kid pem = Inr None"

section \<open>Requests and responses\<close>

record create_jwt_key_request =
  jc_application_id :: "string option"
  jc_name :: string
  jc_key_use :: jwt_key_use
  jc_algorithm :: jwt_algorithm
  jc_expires_at :: "time option"

definition normalize_create_jwt :: "create_jwt_key_request \<Rightarrow> create_jwt_key_request" where
  "normalize_create_jwt r = r\<lparr>jc_name := trim (jc_name r)\<rparr>"

definition validate_create_jwt :: "create_jwt_key_request \<Rightarrow> app_error + unit" where
  "validate_create_jwt r = (let errors =
       (if jc_name r = [] then [field_error_new ''name'' ''required'' ''name is required'']
        else if 128 < length (jc_name r) then [field_error_new ''name'' ''max_length'' ''name must be 128 characters or fewer''] else []) @
       (if jc_key_use r = WebhookSignature \<and> jc_application_id r = None
        then [field_error_new ''application_id'' ''required'' ''application_id is required for webhook_signature keys''] else [])
     in if errors \<noteq> [] then Inl (Validation errors) else Inr ())"

record update_jwt_key_request =
  ju_name :: "string option"
  ju_expires_at :: "time option"

definition normalize_update_jwt :: "update_jwt_key_request \<Rightarrow> update_jwt_key_request" where
  "normalize_update_jwt r = r\<lparr>ju_name := trimmed_text (ju_name r)\<rparr>"

record list_jwt_keys_query =
  jl_application_id :: "string option"
  jl_key_use :: "jwt_key_use option"
  jl_status :: "jwt_key_status option"
  jl_limit :: "int option"
  jl_cursor :: "string option"

text \<open>\<open>JwtKeyResponse\<close>: the row without the encrypted columns, and the private key when it is new.\<close>

record jwt_key_response =
  jr_id :: string
  jr_tenant_id :: uuid
  jr_application_id :: "string option"
  jr_name :: string
  jr_key_use :: jwt_key_use
  jr_algorithm :: jwt_algorithm
  jr_key_id :: string
  jr_status :: jwt_key_status
  jr_public_key :: "string option"
  jr_private_key :: "string option"
  jr_expires_at :: "time option"
  jr_grace_period_ends_at :: "time option"
  jr_rotated_from_id :: "string option"
  jr_last_rotated_at :: "time option"
  jr_created_by :: uuid
  jr_updated_by :: uuid
  jr_created_at :: time
  jr_updated_at :: time

definition from_key :: "jwt_key_row \<Rightarrow> jwt_key_response" where
  "from_key k = \<lparr>jr_id = jk_public_id k, jr_tenant_id = jk_tenant_id k, jr_application_id = jk_application_id k, jr_name = jk_name k,
     jr_key_use = jk_key_use k, jr_algorithm = jk_algorithm k, jr_key_id = jk_key_id k, jr_status = jk_status k, jr_public_key = jk_public_key k,
     jr_private_key = None, jr_expires_at = jk_expires_at k, jr_grace_period_ends_at = jk_grace_ends_at k, jr_rotated_from_id = jk_rotated_from_id k,
     jr_last_rotated_at = jk_last_rotated_at k, jr_created_by = jk_created_by k, jr_updated_by = jk_updated_by k,
     jr_created_at = jk_created_at k, jr_updated_at = jk_updated_at k\<rparr>"

definition with_private_key :: "string \<Rightarrow> jwt_key_response \<Rightarrow> jwt_key_response" where
  "with_private_key private_key r = r\<lparr>jr_private_key := Some private_key\<rparr>"

text \<open>The raw private key, or the secret, is returned once.\<close>

definition with_pair :: "key_pair \<Rightarrow> jwt_key_response \<Rightarrow> jwt_key_response" where
  "with_pair pair r = (case kp_private_key_pem pair of Some pem \<Rightarrow> with_private_key pem r
     | None \<Rightarrow> (case kp_hmac_secret pair of Some secret \<Rightarrow> with_private_key secret r | None \<Rightarrow> r))"

section \<open>Statements\<close>

definition new_jwt_row :: "uuid \<Rightarrow> string \<Rightarrow> string \<Rightarrow> uuid \<Rightarrow> string option \<Rightarrow> string \<Rightarrow> jwt_key_use \<Rightarrow> jwt_algorithm \<Rightarrow> string option \<Rightarrow> string option \<Rightarrow>
    string option \<Rightarrow> time option \<Rightarrow> string option \<Rightarrow> time option \<Rightarrow> request_context \<Rightarrow> time \<Rightarrow> jwt_key_row" where
  "new_jwt_row i public_id key_id tenant_id application_id name key_use algorithm public_key private_key_enc secret_enc expires_at rotated_from rotated_at ctx t =
     \<lparr>jk_id = i, jk_public_id = public_id, jk_tenant_id = tenant_id, jk_application_id = application_id, jk_name = name, jk_key_use = key_use,
      jk_algorithm = algorithm, jk_key_id = key_id, jk_status = JwtActive, jk_public_key = public_key, jk_private_key_enc = private_key_enc,
      jk_secret_enc = secret_enc, jk_expires_at = expires_at, jk_grace_ends_at = None, jk_rotated_from_id = rotated_from,
      jk_last_rotated_at = rotated_at, jk_version = 0, jk_created_by = rc_created_by ctx, jk_updated_by = rc_created_by ctx,
      jk_created_at = t, jk_updated_at = t, jk_deleted_at = None\<rparr>"

definition insert_jwt_key :: "jwt_key_row \<Rightarrow> db \<Rightarrow> (sqlx_error + jwt_key_row) \<times> db" where
  "insert_jwt_key k d = (let ks = jwt_keys (identity d) in
     if \<exists>x\<in>set ks. jk_id x = jk_id k then (Inl (duplicate_key ''jwt_keys'' ''jwt_keys_pkey'' ''id'' (jk_id k)), d)
     else if \<exists>x\<in>set ks. jk_public_id x = jk_public_id k then (Inl (duplicate_key ''jwt_keys'' ''jwt_keys_public_id_uq'' ''public_id'' (jk_public_id k)), d)
     else if \<exists>x\<in>set ks. jk_key_id x = jk_key_id k then (Inl (duplicate_key ''jwt_keys'' ''jwt_keys_key_id_uq'' ''key_id'' (jk_key_id k)), d)
     else (Inr k, update_identity (jwt_keys_update (\<lambda>_. ks @ [k])) d))"

definition update_jwt_keys :: "(jwt_key_row \<Rightarrow> bool) \<Rightarrow> (jwt_key_row \<Rightarrow> jwt_key_row) \<Rightarrow> db \<Rightarrow> db" where
  "update_jwt_keys p f d = update_identity (jwt_keys_update (update_where p f)) d"

definition live_jwt :: "string \<Rightarrow> jwt_key_row \<Rightarrow> bool" where
  "live_jwt public_id k \<longleftrightarrow> jk_public_id k = public_id \<and> jk_deleted_at k = None"

definition touch_jwt :: "request_context \<Rightarrow> time \<Rightarrow> jwt_key_row \<Rightarrow> jwt_key_row" where
  "touch_jwt ctx t k = k\<lparr>jk_updated_by := rc_created_by ctx, jk_version := jk_version k + 1, jk_updated_at := t\<rparr>"

text \<open>\<open>UPDATE ... WHERE public_id = ... RETURNING\<close>.\<close>

definition update_jwt_returning :: "string \<Rightarrow> (time \<Rightarrow> jwt_key_row \<Rightarrow> jwt_key_row) \<Rightarrow> (app_error + jwt_key_row option) io" where
  "update_jwt_returning public_id f = map_sqlx (statement (\<lambda>t d.
     (Inr (first_row (map (f t) (filter (live_jwt public_id) (jwt_keys (identity d))))), update_jwt_keys (live_jwt public_id) (f t) d)))"

definition create_jwt_row :: "idgen \<Rightarrow> uuid \<Rightarrow> string option \<Rightarrow> string \<Rightarrow> jwt_key_use \<Rightarrow> jwt_algorithm \<Rightarrow> string option \<Rightarrow> string option \<Rightarrow> string option \<Rightarrow>
    time option \<Rightarrow> request_context \<Rightarrow> (app_error + jwt_key_row) io" where
  "create_jwt_row G tenant_id application_id name key_use algorithm public_key private_key_enc secret_enc expires_at ctx = do {
     n \<leftarrow> fresh;
     pub \<leftarrow> nano_id_new G;
     kid \<leftarrow> nano_id_new G;
     map_sqlx (statement (\<lambda>t. insert_jwt_key (new_jwt_row (uuid_of G n) (''jwk_'' @ pub) (''kid_'' @ kid) tenant_id application_id name key_use algorithm
       public_key private_key_enc secret_enc expires_at None None ctx t))) }"

definition get_jwt_row :: "string \<Rightarrow> (app_error + jwt_key_row option) io" where
  "get_jwt_row public_id = map_sqlx (query (\<lambda>_ d. first_row (filter (live_jwt public_id) (jwt_keys (identity d)))))"

definition list_jwt_rows :: "uuid option \<Rightarrow> list_jwt_keys_query \<Rightarrow> nat \<Rightarrow> (app_error + jwt_key_row list \<times> string option) io" where
  "list_jwt_rows tenant_id q limit = map_sqlx (query (\<lambda>_ d. cut_page jk_public_id limit (sort_key jk_public_id (filter (\<lambda>k. jk_deleted_at k = None \<and>
       (case tenant_id of None \<Rightarrow> True | Some t \<Rightarrow> jk_tenant_id k = t) \<and>
       (case jl_application_id q of None \<Rightarrow> True | Some a \<Rightarrow> jk_application_id k = Some a) \<and>
       (case jl_key_use q of None \<Rightarrow> True | Some u \<Rightarrow> jk_key_use k = u) \<and>
       (case jl_status q of None \<Rightarrow> True | Some s \<Rightarrow> jk_status k = s) \<and>
       (case jl_cursor q of None \<Rightarrow> True | Some c \<Rightarrow> c < jk_public_id k)) (jwt_keys (identity d))))))"

definition update_jwt_row :: "string \<Rightarrow> string option \<Rightarrow> time option \<Rightarrow> request_context \<Rightarrow> (app_error + jwt_key_row option) io" where
  "update_jwt_row public_id name expires_at ctx = update_jwt_returning public_id (\<lambda>t k. touch_jwt ctx t
     (k\<lparr>jk_name := coalesce name (jk_name k), jk_expires_at := (case expires_at of None \<Rightarrow> jk_expires_at k | Some e \<Rightarrow> Some e)\<rparr>))"

definition set_jwt_status :: "string \<Rightarrow> jwt_key_status \<Rightarrow> request_context \<Rightarrow> (app_error + jwt_key_row option) io" where
  "set_jwt_status public_id s ctx = update_jwt_returning public_id (\<lambda>t k. touch_jwt ctx t (k\<lparr>jk_status := s\<rparr>))"

definition soft_delete_jwt :: "string \<Rightarrow> request_context \<Rightarrow> (app_error + bool) io" where
  "soft_delete_jwt public_id ctx = map_sqlx (statement (\<lambda>t d. (Inr (\<exists>k\<in>set (jwt_keys (identity d)). live_jwt public_id k),
     update_jwt_keys (live_jwt public_id) (\<lambda>k. k\<lparr>jk_deleted_at := Some t, jk_updated_by := rc_created_by ctx\<rparr>) d)))"

definition hours :: "int \<Rightarrow> time" where
  "hours h = secs (3600 * h)"

text \<open>Two statements, each in its own transaction.\<close>

definition begin_grace :: "string \<Rightarrow> time \<Rightarrow> request_context \<Rightarrow> (app_error + unit) io" where
  "begin_grace old_public_id grace_ends ctx = map_sqlx (statement (\<lambda>t d. (Inr (), update_jwt_keys (live_jwt old_public_id)
     (\<lambda>k. touch_jwt ctx t (k\<lparr>jk_grace_ends_at := Some grace_ends, jk_last_rotated_at := Some t\<rparr>)) d)))"

definition rotate_rows :: "idgen \<Rightarrow> jwt_key_row \<Rightarrow> string \<Rightarrow> string option \<Rightarrow> string option \<Rightarrow> string option \<Rightarrow> int \<Rightarrow> request_context \<Rightarrow>
    (app_error + jwt_key_row) io" where
  "rotate_rows G old old_public_id public_key private_key_enc secret_enc grace_period_hours ctx = do {
     t0 \<leftarrow> now;
     try_bind (begin_grace old_public_id (t0 + hours grace_period_hours) ctx) (\<lambda>_. do {
       n \<leftarrow> fresh;
       pub \<leftarrow> nano_id_new G;
       kid \<leftarrow> nano_id_new G;
       map_sqlx (statement (\<lambda>t. insert_jwt_key (new_jwt_row (uuid_of G n) (''jwk_'' @ pub) (''kid_'' @ kid) (jk_tenant_id old) (jk_application_id old)
         (jk_name old) (jk_key_use old) (jk_algorithm old) public_key private_key_enc secret_enc (jk_expires_at old) (Some old_public_id) (Some t) ctx t))) }) }"

definition jwks_key :: "uuid \<Rightarrow> time \<Rightarrow> jwt_key_row \<Rightarrow> bool" where
  "jwks_key tenant_id t k \<longleftrightarrow> jk_tenant_id k = tenant_id \<and> jk_key_use k = Authentication \<and> jk_status k = JwtActive \<and> jk_deleted_at k = None \<and>
     (case jk_expires_at k of None \<Rightarrow> True | Some e \<Rightarrow> t < e)"

definition list_active_for_jwks :: "uuid \<Rightarrow> (app_error + jwt_key_row list) io" where
  "list_active_for_jwks tenant_id = map_sqlx (query (\<lambda>t d. sort_key (\<lambda>k. - jk_created_at k) (filter (jwks_key tenant_id t) (jwt_keys (identity d)))))"

definition grace_over :: "time \<Rightarrow> jwt_key_row \<Rightarrow> bool" where
  "grace_over t k \<longleftrightarrow> jk_status k = JwtActive \<and> (case jk_grace_ends_at k of None \<Rightarrow> False | Some g \<Rightarrow> g < t) \<and> jk_deleted_at k = None"

definition expire_grace_period_keys :: "(app_error + nat) io" where
  "expire_grace_period_keys = map_sqlx (statement (\<lambda>t d. (Inr (length (filter (grace_over t) (jwt_keys (identity d)))),
     update_jwt_keys (grace_over t) (\<lambda>k. k\<lparr>jk_status := JwtDisabled, jk_updated_at := t\<rparr>) d)))"

section \<open>Operations\<close>

definition jwt_missing :: "string \<Rightarrow> string" where
  "jwt_missing public_id = ''jwt key not found: '' @ public_id"

definition encrypt_part :: "jwt_ext \<Rightarrow> uuid \<Rightarrow> string option \<Rightarrow> (app_error + string option) io" where
  "encrypt_part J tenant_id part = (case part of None \<Rightarrow> State_Monad.return (Inr None)
     | Some s \<Rightarrow> try_bind (encrypt (jx_crypto J) (jx_master_key J) tenant_id s) (\<lambda>e. State_Monad.return (Inr (Some e))))"

definition create_jwt_key :: "jwt_ext \<Rightarrow> idgen \<Rightarrow> create_jwt_key_request \<Rightarrow> request_context \<Rightarrow> (app_error + jwt_key_response) io" where
  "create_jwt_key J G req ctx = try_bind (generate_key_pair J (jc_algorithm req)) (\<lambda>pair.
     try_bind (encrypt_part J (rc_tenant_id ctx) (kp_private_key_pem pair)) (\<lambda>private_key_enc.
     try_bind (encrypt_part J (rc_tenant_id ctx) (kp_hmac_secret pair)) (\<lambda>secret_enc.
     try_bind (create_jwt_row G (rc_tenant_id ctx) (jc_application_id req) (jc_name req) (jc_key_use req) (jc_algorithm req)
       (kp_public_key_pem pair) private_key_enc secret_enc (jc_expires_at req) ctx) (\<lambda>key.
     State_Monad.return (Inr (with_pair pair (from_key key)))))))"

definition get_jwt_key :: "string \<Rightarrow> (app_error + jwt_key_row) io" where
  "get_jwt_key public_id = or_not_found (get_jwt_row public_id) (jwt_missing public_id)"

definition list_jwt_keys :: "list_jwt_keys_query \<Rightarrow> request_context \<Rightarrow> (app_error + jwt_key_response list \<times> string option \<times> nat) io" where
  "list_jwt_keys q ctx = (let limit = page_limit (jl_limit q) in try_bind (list_jwt_rows (Some (rc_tenant_id ctx)) q limit)
     (\<lambda>(keys, next_cursor). State_Monad.return (Inr (map from_key keys, next_cursor, limit))))"

definition update_jwt_key :: "string \<Rightarrow> update_jwt_key_request \<Rightarrow> request_context \<Rightarrow> (app_error + jwt_key_response) io" where
  "update_jwt_key public_id req ctx = try_bind (or_not_found (update_jwt_row public_id (ju_name req) (ju_expires_at req) ctx) (jwt_missing public_id))
     (\<lambda>k. State_Monad.return (Inr (from_key k)))"

definition grace_hours :: "int option \<Rightarrow> int" where
  "grace_hours h = min 720 (max 1 (coalesce h 24))"

definition rotate_jwt_key :: "jwt_ext \<Rightarrow> idgen \<Rightarrow> string \<Rightarrow> int option \<Rightarrow> request_context \<Rightarrow> (app_error + jwt_key_response) io" where
  "rotate_jwt_key J G public_id grace_period_hours ctx = try_bind (get_jwt_key public_id) (\<lambda>old_key.
     try_bind (generate_key_pair J (jk_algorithm old_key)) (\<lambda>pair.
     try_bind (encrypt_part J (jk_tenant_id old_key) (kp_private_key_pem pair)) (\<lambda>private_key_enc.
     try_bind (encrypt_part J (jk_tenant_id old_key) (kp_hmac_secret pair)) (\<lambda>secret_enc.
     try_bind (rotate_rows G old_key public_id (kp_public_key_pem pair) private_key_enc secret_enc (grace_hours grace_period_hours) ctx) (\<lambda>new_key.
     State_Monad.return (Inr (with_pair pair (from_key new_key))))))))"

definition change_jwt_status :: "jwt_key_status \<Rightarrow> string \<Rightarrow> request_context \<Rightarrow> (app_error + jwt_key_response) io" where
  "change_jwt_status s public_id ctx = try_bind (or_not_found (set_jwt_status public_id s ctx) (jwt_missing public_id))
     (\<lambda>k. State_Monad.return (Inr (from_key k)))"

definition enable_jwt_key :: "string \<Rightarrow> request_context \<Rightarrow> (app_error + jwt_key_response) io" where
  "enable_jwt_key = change_jwt_status JwtActive"

definition disable_jwt_key :: "string \<Rightarrow> request_context \<Rightarrow> (app_error + jwt_key_response) io" where
  "disable_jwt_key = change_jwt_status JwtDisabled"

definition delete_jwt_key :: "string \<Rightarrow> request_context \<Rightarrow> (app_error + unit) io" where
  "delete_jwt_key public_id ctx = try_bind (soft_delete_jwt public_id ctx) (\<lambda>deleted.
     State_Monad.return (if deleted then Inr () else Inl (NotFound (jwt_missing public_id))))"

fun jwk_list :: "jwt_ext \<Rightarrow> jwt_key_row list \<Rightarrow> app_error + json list" where
  "jwk_list J [] = Inr []"
| "jwk_list J (k # ks) = (case (case jk_public_key k of None \<Rightarrow> Inr None | Some pem \<Rightarrow> public_key_to_jwk J (jk_algorithm k) (jk_key_id k) pem) of
      Inl e \<Rightarrow> Inl e
    | Inr jwk \<Rightarrow> (case jwk_list J ks of Inl e \<Rightarrow> Inl e | Inr js \<Rightarrow> Inr (case jwk of None \<Rightarrow> js | Some j \<Rightarrow> j # js)))"

definition get_jwks :: "jwt_ext \<Rightarrow> uuid \<Rightarrow> (app_error + json list) io" where
  "get_jwks J tenant_id = try_bind (list_active_for_jwks tenant_id) (\<lambda>keys. State_Monad.return (jwk_list J keys))"

definition generate_ephemeral :: "jwt_ext \<Rightarrow> jwt_algorithm \<Rightarrow> (app_error + jwt_algorithm \<times> key_pair) io" where
  "generate_ephemeral J algorithm = try_bind (generate_key_pair J algorithm) (\<lambda>pair. State_Monad.return (Inr (algorithm, pair)))"

section \<open>Handlers\<close>

definition create_jwt_key_handler :: "jwt_ext \<Rightarrow> idgen \<Rightarrow> request_context \<Rightarrow> create_jwt_key_request \<Rightarrow> (app_error + int \<times> jwt_key_response) io" where
  "create_jwt_key_handler J G ctx payload = (let req = normalize_create_jwt payload in
     checked (validate_create_jwt req) (with_status 201 id (create_jwt_key J G req ctx)))"

definition get_jwt_key_handler :: "string \<Rightarrow> (app_error + jwt_key_response) io" where
  "get_jwt_key_handler public_id = checked (validate_id_prefix public_id ''jwk_'' ''jwt key'')
     (try_bind (get_jwt_key public_id) (\<lambda>k. State_Monad.return (Inr (from_key k))))"

definition update_jwt_key_handler :: "request_context \<Rightarrow> string \<Rightarrow> update_jwt_key_request \<Rightarrow> (app_error + jwt_key_response) io" where
  "update_jwt_key_handler ctx public_id payload = update_jwt_key public_id (normalize_update_jwt payload) ctx"

definition get_public_key :: "string \<Rightarrow> (app_error + string) io" where
  "get_public_key public_id = try_bind (get_jwt_key public_id) (\<lambda>k. State_Monad.return (case jk_public_key k of
      None \<Rightarrow> Inl (BadRequest ''this key has no public key (HMAC algorithm)'') | Some pem \<Rightarrow> Inr pem))"

end
