(* ===== verification/Jwt_Key_Props.thy ===== *)
theory Jwt_Key_Props
  imports Jwt_Keys Auth_Props
begin

text \<open>
  Rotation of signing keys: while the grace period lasts both keys verify tokens, afterwards the
  hourly task takes the old one out of use, and only that one.
\<close>

text \<open>The unique indexes of the table.\<close>

definition jwt_keys_distinct :: "db \<Rightarrow> bool" where
  "jwt_keys_distinct d \<longleftrightarrow> distinct (map jk_public_id (jwt_keys (identity d))) \<and> distinct (map jk_key_id (jwt_keys (identity d)))"

definition kid_usable :: "string \<Rightarrow> time \<Rightarrow> db \<Rightarrow> bool" where
  "kid_usable kid t d \<longleftrightarrow> (\<exists>k\<in>set (jwt_keys (identity d)). usable_jwt_key kid t k)"

text \<open>The tables after a run of the hourly task at a time.\<close>

definition expired_at :: "time \<Rightarrow> world \<Rightarrow> db" where
  "expired_at t w = w_db (snd (run_state expire_grace_period_keys (w\<lparr>w_now := t\<rparr>)))"

lemma jwt_keys_update_sel [simp]: "jwt_keys (identity (update_jwt_keys p f d)) = update_where p f (jwt_keys (identity d))"
  by (simp add: update_jwt_keys_def update_identity_def)

lemma expired_keys: "no_faults w \<Longrightarrow> jwt_keys (identity (expired_at t w)) =
    update_where (grace_over t) (\<lambda>k. k\<lparr>jk_status := JwtDisabled, jk_updated_at := t\<rparr>) (jwt_keys (identity (w_db w)))"
  by (simp add: expired_at_def expire_grace_period_keys_def run_simps)

lemma usable_after_expiry:
  assumes "no_faults w" and "jwt_keys_distinct (w_db w)" and "k \<in> set (jwt_keys (identity (w_db w)))"
  shows "kid_usable (jk_key_id k) t (expired_at t w) \<longleftrightarrow> usable_jwt_key (jk_key_id k) t k \<and> \<not> grace_over t k"
proof -
  have same: "x = k" if "x \<in> set (jwt_keys (identity (w_db w)))" "jk_key_id x = jk_key_id k" for x
    using that assms(2,3) by (auto simp: jwt_keys_distinct_def distinct_map inj_on_def)
  let ?f = "\<lambda>x. if grace_over t x then x\<lparr>jk_status := JwtDisabled, jk_updated_at := t\<rparr> else x"
  have "usable_jwt_key (jk_key_id k) t (?f x) \<longleftrightarrow> usable_jwt_key (jk_key_id k) t x \<and> \<not> grace_over t x" for x
    by (auto simp: usable_jwt_key_def)
  then have "kid_usable (jk_key_id k) t (expired_at t w) \<longleftrightarrow>
      (\<exists>x\<in>set (jwt_keys (identity (w_db w))). usable_jwt_key (jk_key_id k) t x \<and> \<not> grace_over t x)"
    unfolding kid_usable_def expired_keys [OF assms(1)] set_update_where bex_simps(7) by simp
  moreover have "jk_key_id x = jk_key_id k" if "usable_jwt_key (jk_key_id k) t x" for x
    using that by (simp add: usable_jwt_key_def)
  ultimately show ?thesis using same assms(3) by blast
qed

section \<open>The effect of a rotation\<close>

lemma try_bind_still:
  assumes "run_state (try_bind m f) w = (Inr b, w')" and "\<And>r v. run_state m w = (r, v) \<Longrightarrow> P v"
  shows "\<exists>a v. run_state m w = (Inr a, v) \<and> P v \<and> run_state (f a) v = (Inr b, w')"
  using try_bind_Inr [OF assms(1)] assms(2) by blast

definition same_but_ids :: "world \<Rightarrow> world \<Rightarrow> bool" where
  "same_but_ids w v \<longleftrightarrow> (\<exists>n. v = w\<lparr>w_ids := n\<rparr>)"

lemma run_generate_pair: "run_state (generate_key_pair J a) w = (r, v) \<Longrightarrow> same_but_ids w v"
  by (cases a) (auto simp: same_but_ids_def generate_p256_def generate_p384_def generate_rsa_def generate_hmac_def run_simps
      intro: exI [of _ "w_ids w"])

lemma run_encrypt_part: "run_state (encrypt_part J t p) w = (r, v) \<Longrightarrow> same_but_ids w v"
  by (cases p) (auto simp: same_but_ids_def encrypt_part_def encrypt_def run_simps Let_def split: option.splits intro: exI [of _ "w_ids w"])

lemma same_but_ids_trans: "same_but_ids u v \<Longrightarrow> same_but_ids v w \<Longrightarrow> same_but_ids u w"
  by (auto simp: same_but_ids_def)

definition graced :: "request_context \<Rightarrow> time \<Rightarrow> time \<Rightarrow> jwt_key_row \<Rightarrow> jwt_key_row" where
  "graced ctx t g k = touch_jwt ctx t (k\<lparr>jk_grace_ends_at := Some g, jk_last_rotated_at := Some t\<rparr>)"

lemma graced_ids: "map jk_key_id (update_where p (graced ctx t g) ks) = map jk_key_id ks" "map jk_public_id (update_where p (graced ctx t g) ks) = map jk_public_id ks"
  by (simp_all add: map_update_where graced_def touch_jwt_def)

lemma insert_jwt_effect:
  assumes "insert_jwt_key k d = (Inr r, d')"
  shows "r = k \<and> jwt_keys (identity d') = jwt_keys (identity d) @ [k] \<and> jk_key_id k \<notin> set (map jk_key_id (jwt_keys (identity d))) \<and>
    jk_public_id k \<notin> set (map jk_public_id (jwt_keys (identity d)))"
  using assms by (auto simp: insert_jwt_key_def Let_def update_identity_def split: if_splits)

lemma run_rotate_rows:
  assumes "no_faults w" and "run_state (rotate_rows G old public_id pk pe se h ctx) w = (Inr new, w')"
  shows "no_faults w'"
    "jwt_keys (identity (w_db w')) = update_where (live_jwt public_id) (graced ctx (w_now w) (w_now w + hours h)) (jwt_keys (identity (w_db w))) @ [new]"
    "jk_tenant_id new = jk_tenant_id old" "jk_key_use new = jk_key_use old" "jk_status new = JwtActive" "jk_deleted_at new = None"
    "jk_expires_at new = jk_expires_at old" "jk_grace_ends_at new = None"
    "jk_key_id new \<notin> set (map jk_key_id (jwt_keys (identity (w_db w))))" "jk_public_id new \<notin> set (map jk_public_id (jwt_keys (identity (w_db w))))"
proof -
  let ?d = "update_jwt_keys (live_jwt public_id) (graced ctx (w_now w) (w_now w + hours h)) (w_db w)"
  obtain k d n where ins: "insert_jwt_key k ?d = (Inr new, d)" and w': "w' = w\<lparr>w_ids := n, w_db := d\<rparr>"
    and k: "jk_tenant_id k = jk_tenant_id old" "jk_key_use k = jk_key_use old" "jk_status k = JwtActive" "jk_deleted_at k = None"
      "jk_expires_at k = jk_expires_at old" "jk_grace_ends_at k = None"
    using assms by (auto simp: rotate_rows_def begin_grace_def nano_id_new_def generate_def run_simps Let_def new_jwt_row_def graced_def [abs_def]
        split: prod.splits sum.splits)
  note eff = insert_jwt_effect [OF ins]
  show "no_faults w'" using assms(1) w' by simp
  show "jk_tenant_id new = jk_tenant_id old" "jk_key_use new = jk_key_use old" "jk_status new = JwtActive" "jk_deleted_at new = None"
    "jk_expires_at new = jk_expires_at old" "jk_grace_ends_at new = None" using eff k by simp_all
  show "jwt_keys (identity (w_db w')) = update_where (live_jwt public_id) (graced ctx (w_now w) (w_now w + hours h)) (jwt_keys (identity (w_db w))) @ [new]"
    using eff w' by simp
  show "jk_key_id new \<notin> set (map jk_key_id (jwt_keys (identity (w_db w))))" "jk_public_id new \<notin> set (map jk_public_id (jwt_keys (identity (w_db w))))"
    using eff unfolding jwt_keys_update_sel graced_ids by simp_all
qed

lemma rotate_effect:
  assumes nf: "no_faults w" and run: "run_state (rotate_jwt_key J G public_id h ctx) w = (Inr resp, w')"
  shows "\<exists>old new v pk pe se. first_row (filter (live_jwt public_id) (jwt_keys (identity (w_db w)))) = Some old \<and> same_but_ids w v \<and>
    run_state (rotate_rows G old public_id pk pe se (grace_hours h) ctx) v = (Inr new, w') \<and> jr_key_id resp = jk_key_id new"
proof -
  have get: "run_state (get_jwt_key public_id) w = (case first_row (filter (live_jwt public_id) (jwt_keys (identity (w_db w)))) of
      None \<Rightarrow> Inl (NotFound (jwt_missing public_id)) | Some k \<Rightarrow> Inr k, w)"
    using nf by (simp add: get_jwt_key_def get_jwt_row_def or_not_found_def run_simps)
  obtain old where old: "first_row (filter (live_jwt public_id) (jwt_keys (identity (w_db w)))) = Some old"
    using run unfolding rotate_jwt_key_def by (auto simp: run_try_bind get split: option.splits)
  from run obtain pair v1 pe v2 se v3 new where v: "run_state (generate_key_pair J (jk_algorithm old)) w = (Inr pair, v1)"
      "run_state (encrypt_part J (jk_tenant_id old) (kp_private_key_pem pair)) v1 = (Inr pe, v2)"
      "run_state (encrypt_part J (jk_tenant_id old) (kp_hmac_secret pair)) v2 = (Inr se, v3)"
    and rot: "run_state (rotate_rows G old public_id (kp_public_key_pem pair) pe se (grace_hours h) ctx) v3 = (Inr new, w')"
      "resp = with_pair pair (from_key new)"
    unfolding rotate_jwt_key_def using old get by (auto simp: run_try_bind [of "get_jwt_key public_id"] run_return dest!: try_bind_Inr)
  have "same_but_ids w v3"
    using run_generate_pair [OF v(1)] run_encrypt_part [OF v(2)] run_encrypt_part [OF v(3)] by (blast intro: same_but_ids_trans)
  moreover have "jr_key_id resp = jk_key_id new"
    by (simp add: rot(2) with_pair_def with_private_key_def from_key_def split: option.splits)
  ultimately show ?thesis using old rot(1) by blast
qed

section \<open>Properties\<close>

text \<open>C24. Rotation overlaps: after the rotation of a key that can be used for authentication, its successor
  can be used as long as the key itself could, and the key itself too, until the first run of the
  hourly task after the grace period of one to 720 hours has ended, which disables it and leaves the
  successor alone.\<close>

theorem rotation_overlaps_for_grace_period:
  assumes "no_faults w" and "jwt_keys_distinct (w_db w)" and "k \<in> set (jwt_keys (identity (w_db w)))" and "live_jwt public_id k"
    and "jk_key_use k = Authentication" and "jk_status k = JwtActive"
    and "run_state (rotate_jwt_key J G public_id h ctx) w = (Inr resp, w')"
  shows "(kid_usable (jr_key_id resp) t (expired_at t w') \<longleftrightarrow> (case jk_expires_at k of None \<Rightarrow> True | Some e \<Rightarrow> t < e)) \<and>
    (kid_usable (jk_key_id k) t (expired_at t w') \<longleftrightarrow> (case jk_expires_at k of None \<Rightarrow> True | Some e \<Rightarrow> t < e) \<and> t \<le> w_now w + hours (grace_hours h)) \<and>
    hours 1 \<le> hours (grace_hours h) \<and> hours (grace_hours h) \<le> hours 720"
proof -
  let ?ks = "jwt_keys (identity (w_db w))" and ?g = "w_now w + hours (grace_hours h)"
  obtain old new v pk pe se where e: "first_row (filter (live_jwt public_id) ?ks) = Some old" "same_but_ids w v"
      "run_state (rotate_rows G old public_id pk pe se (grace_hours h) ctx) v = (Inr new, w')" "jr_key_id resp = jk_key_id new"
    using rotate_effect [OF assms(1,7)] by blast
  have "old \<in> set (filter (live_jwt public_id) ?ks)" 
    using e(1) by (cases "filter (live_jwt public_id) ?ks") (simp_all add: first_row_def del: set_filter)
  then have old: "old = k"
    using assms(2,3,4) by (auto simp: jwt_keys_distinct_def distinct_map inj_on_def live_jwt_def)
  have v: "no_faults v" "w_now v = w_now w" "w_db v = w_db w" using e(2) assms(1) by (auto simp: same_but_ids_def)
  note r = run_rotate_rows [OF v(1) e(3), unfolded v(2,3) old]
  have d: "jwt_keys_distinct (w_db w')"
    using assms(2) r(9,10) unfolding jwt_keys_distinct_def r(2) map_append graced_ids by simp
  let ?k = "graced ctx (w_now w) ?g k"
  have k: "?k \<in> set (jwt_keys (identity (w_db w')))" "new \<in> set (jwt_keys (identity (w_db w')))"
    using assms(3,4) by (force simp: r(2) set_update_where)+
  have "jk_key_id ?k = jk_key_id k" by (simp add: graced_def touch_jwt_def)
  then have "kid_usable (jk_key_id k) t (expired_at t w') \<longleftrightarrow> (case jk_expires_at k of None \<Rightarrow> True | Some e \<Rightarrow> t < e) \<and> t \<le> ?g"
    using usable_after_expiry [OF r(1) d k(1), of t] assms(4,5,6)
    by (auto simp: usable_jwt_key_def grace_over_def graced_def touch_jwt_def live_jwt_def)
  moreover have "kid_usable (jr_key_id resp) t (expired_at t w') \<longleftrightarrow> (case jk_expires_at k of None \<Rightarrow> True | Some e \<Rightarrow> t < e)"
    using usable_after_expiry [OF r(1) d k(2), of t] assms(5) r(4-8) e(4) by (auto simp: usable_jwt_key_def grace_over_def)
  moreover have "hours 1 \<le> hours (grace_hours h)" "hours (grace_hours h) \<le> hours 720"
    by (auto simp: hours_def secs_def grace_hours_def)
  ultimately show ?thesis by blast
qed

definition sample_jwt_ext :: jwt_ext where
  "sample_jwt_ext = \<lparr>jx_crypto = sample_crypto, jx_master_key = ''key'', jx_p256 = (\<lambda>_. (Some ''priv'', Some ''pub'')), jx_p384 = (\<lambda>_. (Some ''priv'', Some ''pub'')),
     jx_rsa = (\<lambda>_. Some (Some ''priv'', Some ''pub'')), jx_p256_point = (\<lambda>_. Some (Some ''x'', Some ''y'')), jx_p384_point = (\<lambda>_. Some (Some ''x'', Some ''y'')),
     jx_rsa_parts = (\<lambda>_. Some (''n'', ''e''))\<rparr>"

lemma jwt_db_keys: "\<exists>k. jwt_keys (identity jwt_db) = [k] \<and> jk_public_id k = ''jwt_1'' \<and> jk_key_id k = ''k1'' \<and> jk_key_use k = Authentication \<and>
    jk_status k = JwtActive \<and> jk_expires_at k = None \<and> jk_deleted_at k = None"
  by (simp add: jwt_db_def update_identity_def)

lemma jwt_db_rotates:
  "\<exists>resp w'. run_state (rotate_jwt_key sample_jwt_ext alnum_idgen ''jwt_1'' (Some 2) key_ctx) (start_world jwt_db empty_keyspace 0) = (Inr resp, w')"
  by (simp add: rotate_jwt_key_def get_jwt_key_def get_jwt_row_def or_not_found_def rotate_rows_def begin_grace_def insert_jwt_key_def new_jwt_row_def
      generate_rsa_def pem_pair_def encrypt_part_def encrypt_def nano_id_new_def generate_def update_jwt_keys_def update_identity_def touch_jwt_def live_jwt_def
      first_row_def jwt_db_def sample_jwt_ext_def sample_crypto_def alnum_idgen_def run_simps Let_def show_nat.simps)

theorem rotation_overlaps_for_grace_period_witness:
  "\<exists>resp w'. run_state (rotate_jwt_key sample_jwt_ext alnum_idgen ''jwt_1'' (Some 2) key_ctx) (start_world jwt_db empty_keyspace 0) = (Inr resp, w') \<and>
     kid_usable ''k1'' (hours 2) (expired_at (hours 2) w') \<and> \<not> kid_usable ''k1'' (hours 3) (expired_at (hours 3) w') \<and>
     kid_usable (jr_key_id resp) (hours 3) (expired_at (hours 3) w')"
proof -
  obtain k where k: "jwt_keys (identity jwt_db) = [k]" "jk_public_id k = ''jwt_1''" "jk_key_id k = ''k1''" "jk_key_use k = Authentication"
    "jk_status k = JwtActive" "jk_expires_at k = None" "jk_deleted_at k = None" using jwt_db_keys by blast
  obtain resp w' where r: "run_state (rotate_jwt_key sample_jwt_ext alnum_idgen ''jwt_1'' (Some 2) key_ctx) (start_world jwt_db empty_keyspace 0) = (Inr resp, w')"
    using jwt_db_rotates by blast
  have "jwt_keys_distinct jwt_db" by (simp add: jwt_keys_distinct_def k(1))
  then have "kid_usable ''k1'' t (expired_at t w') \<longleftrightarrow> t \<le> hours 2" "kid_usable (jr_key_id resp) t (expired_at t w')" for t
    using rotation_overlaps_for_grace_period [OF _ _ _ _ k(4,5) r, of t] k by (simp_all add: live_jwt_def grace_hours_def coalesce_def)
  then show ?thesis using r by (auto simp: hours_def secs_def)
qed

end
