(* ===== verification/Queue_Scan.thy ===== *)
theory Queue_Scan
  imports Queue_Props
begin

text \<open>
  The loop over the cursor of \<open>SCAN\<close> (\<open>scan_streams\<close> in \<open>src/queue/mod.rs\<close>): it ends as soon as the
  iteration of the server does.
\<close>

section \<open>The cursor loop\<close>

text \<open>A full iteration of \<open>SCAN\<close> from a cursor, as the documentation describes it: every call returns a
  batch and the next cursor, and the iteration is over when the cursor is 0 again.\<close>

fun scan_iteration :: "redis_cmds \<Rightarrow> string \<Rightarrow> keyspace \<Rightarrow> int \<Rightarrow> string list list \<Rightarrow> bool" where
  "scan_iteration R pat ks c [] \<longleftrightarrow> False"
| "scan_iteration R pat ks c (b # bs) \<longleftrightarrow> snd (SCAN R c pat ks) = b \<and>
     (if fst (SCAN R c pat ks) = 0 then bs = [] else scan_iteration R pat ks (fst (SCAN R c pat ks)) bs)"

lemma run_scan_command:
  "\<exists>r. run_state (command (\<lambda>_ ks. (Inr (SCAN R c pat ks), ks))) w = (r, w\<lparr>w_outcomes := tl (w_outcomes w)\<rparr>) \<and>
     (r = Inr (SCAN R c pat (w_ks w)) \<or> (\<exists>e. r = Inl e) \<and> \<not> no_faults w)"
  by (cases "w_outcomes w"; cases "hd (w_outcomes w)") (auto simp: command_def run_simps)

lemma scan_loop_ends:
  assumes "scan_iteration R pat (w_ks w) c batches" and "length batches \<le> fuel"
  shows "\<exists>more. fst (run_state (scan_loop R fuel pat c found) w) = Some (found @ more) \<and> set more \<subseteq> set (concat batches) \<and>
    (no_faults w \<longrightarrow> more = concat batches)"
  using assms
proof (induction batches arbitrary: fuel c found w)
  case Nil
  then show ?case by simp
next
  case (Cons b bs)
  obtain n where fuel: "fuel = Suc n" using Cons.prems(2) by (cases fuel) simp_all
  let ?w = "w\<lparr>w_outcomes := tl (w_outcomes w)\<rparr>"
  obtain r where r: "run_state (command (\<lambda>_ ks. (Inr (SCAN R c pat ks), ks))) w = (r, ?w)"
      "r = Inr (SCAN R c pat (w_ks w)) \<or> (\<exists>e. r = Inl e) \<and> \<not> no_faults w"
    using run_scan_command by blast
  from r(2) show ?case
  proof (elim disjE exE conjE)
    assume ok: "r = Inr (SCAN R c pat (w_ks w))"
    show ?thesis
    proof (cases "fst (SCAN R c pat (w_ks w)) = 0")
      case True
      then show ?thesis using Cons.prems(1) by (auto simp: fuel run_simps r(1) ok case_prod_beta)
    next
      case False
      then have "scan_iteration R pat (w_ks ?w) (fst (SCAN R c pat (w_ks w))) bs" "length bs \<le> n"
        using Cons.prems by (simp_all add: fuel)
      from Cons.IH [OF this, of "found @ b"] show ?thesis
        using Cons.prems(1) False by (auto simp: fuel run_simps r(1) ok case_prod_beta)
    qed
  next
    fix e
    assume "r = Inl e" and "\<not> no_faults w"
    then show ?thesis by (simp add: fuel run_simps r(1))
  qed
qed

text \<open>C25. The cursor loop ends: when the server's iteration over the keyspace takes some number of calls,
  a loop with that much fuel returns, also when calls to the server fail. It returns nothing the
  server did not report, and without failures everything it reported, in order.\<close>

theorem scan_streams_terminates:
  assumes "scan_iteration R pat (w_ks w) 0 batches" and "length batches \<le> fuel"
  shows "\<exists>found. fst (run_state (scan_streams R fuel pat) w) = Some found \<and> set found \<subseteq> set (concat batches) \<and>
    (no_faults w \<longrightarrow> found = concat batches)"
proof -
  obtain c where c: "run_state connect w = (c, w\<lparr>w_outcomes := tl (w_outcomes w)\<rparr>)" "no_faults w \<longrightarrow> c = Inr ()"
    by (cases "w_outcomes w") (auto simp: connect_def run_simps)
  show ?thesis
  proof (cases c)
    case (Inl e)
    with c show ?thesis by (auto simp: scan_streams_def run_simps)
  next
    case (Inr u)
    with c scan_loop_ends [of R pat "w\<lparr>w_outcomes := tl (w_outcomes w)\<rparr>" 0 batches fuel "[]"] assms show ?thesis
      by (auto simp: scan_streams_def run_simps)
  qed
qed

theorem scan_streams_terminates_witness:
  "fst (run_state (scan_streams (mem_redis\<lparr>SCAN := (\<lambda>c _ _. if c = 0 then (7, [''s1'']) else (0, [''s2'']))\<rparr>) 2 ''s*'')
     (start_world empty_db empty_keyspace 0)) = Some [''s1'', ''s2'']"
  using scan_streams_terminates [of "mem_redis\<lparr>SCAN := (\<lambda>c _ _. if c = 0 then (7, [''s1'']) else (0, [''s2'']))\<rparr>" "''s*''"
      "start_world empty_db empty_keyspace 0" "[[''s1''], [''s2'']]" 2]
  by simp

end
