(* ===== verification/Access_Links.thy ===== *)
theory Access_Links
  imports Api_Key_Service
begin

text \<open>
  The statements on the five link tables of access control (\<open>role_permissions\<close>, \<open>user_roles\<close>,
  \<open>user_permissions\<close>, \<open>api_key_roles\<close>, \<open>api_key_permissions\<close>): insertion that ignores a pair already
  present, deletion of a pair, and the loop that links a batch. The repositories write the same SQL for
  each table; here the table is an argument. The locale states what reading and replacing a table
  promise, and the facts about batches are proved in it once.
\<close>

section \<open>Statements\<close>

definition access_of :: "db \<Rightarrow> access_db" where
  "access_of d = access (identity d)"

definition update_access :: "(access_db \<Rightarrow> access_db) \<Rightarrow> db \<Rightarrow> db" where
  "update_access f d = update_identity (access_update f) d"

definition link_key :: "'a link_row_scheme \<Rightarrow> string \<times> uuid" where
  "link_key r = (ln_subject r, ln_target r)"

text \<open>\<open>INSERT ... ON CONFLICT DO NOTHING\<close>, with whether a row was affected.\<close>

definition insert_link :: "(access_db \<Rightarrow> 'a link_row_scheme list) \<Rightarrow> (('a link_row_scheme list \<Rightarrow> 'a link_row_scheme list) \<Rightarrow> access_db \<Rightarrow> access_db) \<Rightarrow>
    'a link_row_scheme \<Rightarrow> db \<Rightarrow> (sqlx_error + bool) \<times> db" where
  "insert_link get upd r d = (if link_key r \<in> link_key ` set (get (access_of d)) then (Inr False, d)
     else (Inr True, update_access (upd (\<lambda>rs. rs @ [r])) d))"

text \<open>\<open>DELETE\<close> of a pair whose target is the value of a subquery, \<open>None\<close> when it gives no row.\<close>

definition delete_link :: "(access_db \<Rightarrow> 'a link_row_scheme list) \<Rightarrow> (('a link_row_scheme list \<Rightarrow> 'a link_row_scheme list) \<Rightarrow> access_db \<Rightarrow> access_db) \<Rightarrow>
    string option \<Rightarrow> uuid option \<Rightarrow> db \<Rightarrow> (sqlx_error + bool) \<times> db" where
  "delete_link get upd subject target d = (let hit = (\<lambda>r. subject = Some (ln_subject r) \<and> target = Some (ln_target r)) in
     (Inr (\<exists>r\<in>set (get (access_of d)). hit r), update_access (upd (filter (\<lambda>r. \<not> hit r))) d))"

text \<open>One statement per target, each in its own transaction: the public ids of the targets linked now, and of
  those that were linked already.\<close>

fun assign_links :: "(access_db \<Rightarrow> 'a link_row_scheme list) \<Rightarrow> (('a link_row_scheme list \<Rightarrow> 'a link_row_scheme list) \<Rightarrow> access_db \<Rightarrow> access_db) \<Rightarrow>
    (time \<Rightarrow> uuid \<Rightarrow> 'a link_row_scheme) \<Rightarrow> (uuid \<times> string) list \<Rightarrow> string list \<times> string list \<Rightarrow> (app_error + string list \<times> string list) io" where
  "assign_links get upd mk [] acc = State_Monad.return (Inr acc)"
| "assign_links get upd mk ((i, public_id) # ids) (assigned, already_present) =
     try_bind (map_sqlx (statement (\<lambda>t. insert_link get upd (mk t i)))) (\<lambda>affected.
       assign_links get upd mk ids (if affected then (assigned @ [public_id], already_present) else (assigned, already_present @ [public_id])))"

text \<open>A loop that resolves each id of a request and stops at the first error.\<close>

fun try_map :: "('a \<Rightarrow> ('e + 'b) io) \<Rightarrow> 'a list \<Rightarrow> ('e + 'b list) io" where
  "try_map f [] = State_Monad.return (Inr [])"
| "try_map f (x # xs) = try_bind (f x) (\<lambda>y. try_bind (try_map f xs) (\<lambda>ys. State_Monad.return (Inr (y # ys))))"

definition unexpired :: "time \<Rightarrow> 'a link_row_scheme \<Rightarrow> bool" where
  "unexpired t r \<longleftrightarrow> (case ln_expires_at r of None \<Rightarrow> True | Some e \<Rightarrow> t < e)"

section \<open>The rows a batch leaves behind\<close>

lemma access_of_update [simp]: "access_of (update_access f d) = f (access_of d)"
  by (simp add: access_of_def update_access_def update_identity_def)

lemma update_access_simps [simp]:
  "update_access f (update_access g d) = update_access (f \<circ> g) d" "update_access (\<lambda>a. a) d = d"
  by (simp_all add: update_access_def update_identity_def comp_def)

lemma update_access_self: "f (access_of d) = access_of d \<Longrightarrow> update_access f d = d"
  by (simp add: update_access_def update_identity_def access_of_def)

lemma keeps_try_map [keeps_intros]: "(\<And>x. keeps P (f x)) \<Longrightarrow> keeps P (try_map f xs)"
  by (induction xs) (auto intro!: keeps_intros)

definition distinct_links :: "'a link_row_scheme list \<Rightarrow> bool" where
  "distinct_links rs \<longleftrightarrow> distinct (map link_key rs)"

definition add_link :: "'a link_row_scheme list \<Rightarrow> 'a link_row_scheme \<Rightarrow> 'a link_row_scheme list" where
  "add_link rs r = (if link_key r \<in> link_key ` set rs then rs else rs @ [r])"

lemma distinct_add_link [simp]: "distinct_links rs \<Longrightarrow> distinct_links (add_link rs r)"
  by (auto simp: distinct_links_def add_link_def)

lemma distinct_links_filter [simp]: "distinct_links rs \<Longrightarrow> distinct_links (filter p rs)"
  by (auto simp: distinct_links_def distinct_map inj_on_def)

lemma distinct_links_Nil [simp]: "distinct_links []"
  by (simp add: distinct_links_def)

text \<open>The rows after a batch, whatever was linked before: those that were there, and the new ones whose pair was
  not.\<close>

lemma distinct_link_batch: "distinct_links rs \<Longrightarrow> distinct_links (foldl add_link rs new)"
  by (induction new arbitrary: rs) simp_all

lemma set_link_batch: "inj_on link_key (set new) \<Longrightarrow>
    set (foldl add_link rs new) = set rs \<union> {r \<in> set new. link_key r \<notin> link_key ` set rs}"
proof (induction new arbitrary: rs)
  case (Cons r new)
  then have "set (foldl add_link (add_link rs r) new) =
      set (add_link rs r) \<union> {r' \<in> set new. link_key r' \<notin> link_key ` set (add_link rs r)}"
    by simp
  moreover have "set (add_link rs r) = set rs \<union> {r' \<in> {r}. link_key r' \<notin> link_key ` set rs}"
    by (auto simp: add_link_def)
  ultimately show ?case
    using Cons.prems by (auto simp: inj_on_def)
qed simp

lemma fresh_first:
  assumes "\<And>a b. k a = k b \<Longrightarrow> a = b" "inj_on fst (insert (i, p) X)"
  shows "snd ` {y \<in> insert (i, p) X. k (fst y) \<notin> K} =
    (if k i \<in> K then snd ` {y \<in> X. k (fst y) \<notin> K} else insert p (snd ` {y \<in> X. k (fst y) \<notin> insert (k i) K}))"
proof (cases "k i \<in> K")
  case True
  then have "{y \<in> insert (i, p) X. k (fst y) \<notin> K} = {y \<in> X. k (fst y) \<notin> K}" by auto
  with True show ?thesis by simp
next
  case False
  have "y = (i, p)" if "y \<in> X" "fst y = i" for y using assms(2) that by (auto simp: inj_on_def)
  then have "{y \<in> insert (i, p) X. k (fst y) \<notin> K} = insert (i, p) {y \<in> X. k (fst y) \<notin> insert (k i) K}"
    using False assms(1) by auto
  with False show ?thesis by simp
qed

section \<open>The interface\<close>

text \<open>A link table of the database: its rows can be read and replaced.\<close>

locale link_table =
  fixes get :: "access_db \<Rightarrow> 'a link_row_scheme list"
    and upd :: "('a link_row_scheme list \<Rightarrow> 'a link_row_scheme list) \<Rightarrow> access_db \<Rightarrow> access_db"
  assumes get_upd [simp]: "get (upd f a) = f (get a)"
    and upd_upd [simp]: "upd f (upd g a) = upd (f \<circ> g) a"
    and upd_same: "f (get a) = get a \<Longrightarrow> upd f a = a"
    and upd_cong: "f (get a) = g (get a) \<Longrightarrow> upd f a = upd g a"
begin

lemma insert_link_add: "insert_link get upd r d =
    (Inr (link_key r \<notin> link_key ` set (get (access_of d))), update_access (upd (\<lambda>rs. add_link rs r)) d)"
proof (cases "link_key r \<in> link_key ` set (get (access_of d))")
  case True
  then have "upd (\<lambda>rs. add_link rs r) (access_of d) = access_of d"
    by (intro upd_same) (simp add: add_link_def)
  with True show ?thesis by (simp add: insert_link_def update_access_self)
next
  case False
  then have "upd (\<lambda>rs. add_link rs r) (access_of d) = upd (\<lambda>rs. rs @ [r]) (access_of d)"
    by (intro upd_cong) (simp add: add_link_def)
  with False show ?thesis by (simp add: insert_link_def update_access_def update_identity_def access_of_def)
qed

lemma run_insert_link: "no_faults w \<Longrightarrow> run_state (map_sqlx (statement (\<lambda>t. insert_link get upd (mk t i)))) w =
    (Inr (link_key (mk (w_now w) i) \<notin> link_key ` set (get (access_of (w_db w)))),
     w\<lparr>w_db := update_access (upd (\<lambda>rs. add_link rs (mk (w_now w) i))) (w_db w)\<rparr>)"
  by (simp add: run_simps insert_link_add)

lemma run_assign_links:
  "no_faults w \<Longrightarrow> snd (run_state (assign_links get upd mk ids acc) w) =
     w\<lparr>w_db := update_access (upd (\<lambda>rs. foldl add_link rs (map (mk (w_now w) \<circ> fst) ids))) (w_db w)\<rparr>"
proof (induction ids arbitrary: w acc)
  case Nil
  then show ?case by (cases acc) (simp add: run_simps update_access_self upd_same)
next
  case (Cons x ids)
  then show ?case
    by (cases x; cases acc) (simp add: run_try_bind run_insert_link comp_def)
qed

lemma assign_links_succeeds: "no_faults w \<Longrightarrow> \<exists>r. fst (run_state (assign_links get upd mk ids acc) w) = Inr r"
  by (induction ids arbitrary: w acc) (auto simp: run_simps run_insert_link [unfolded run_simps] insert_link_add)

lemma assigned_links:
  assumes "no_faults w" "fst (run_state (assign_links get upd mk ids (as, ps)) w) = Inr (assigned, present)"
    and "\<And>i j. link_key (mk (w_now w) i) = link_key (mk (w_now w) j) \<Longrightarrow> i = j" and "inj_on fst (set ids)"
  shows "set assigned = set as \<union> snd ` {x \<in> set ids. link_key (mk (w_now w) (fst x)) \<notin> link_key ` set (get (access_of (w_db w)))}"
  using assms
proof (induction ids arbitrary: w as ps)
  case Nil
  then show ?case by (simp add: run_simps)
next
  case (Cons x ids)
  obtain i p where x: "x = (i, p)" by (cases x)
  let ?new = "link_key (mk (w_now w) i) \<notin> link_key ` set (get (access_of (w_db w)))"
  let ?w = "w\<lparr>w_db := update_access (upd (\<lambda>rs. add_link rs (mk (w_now w) i))) (w_db w)\<rparr>"
  have "fst (run_state (assign_links get upd mk ids (if ?new then (as @ [p], ps) else (as, ps @ [p]))) ?w) = Inr (assigned, present)"
    using Cons.prems(1,2) by (simp add: x run_try_bind run_insert_link)
  then have "set assigned = (if ?new then insert p (set as) else set as) \<union>
      snd ` {y \<in> set ids. link_key (mk (w_now w) (fst y)) \<notin> link_key ` set (get (access_of (w_db ?w)))}"
    using Cons.IH [of ?w "if ?new then as @ [p] else as" "if ?new then ps else ps @ [p]"] Cons.prems(1,3,4)
    by (auto split: if_splits)
  moreover have "link_key ` set (get (access_of (w_db ?w))) = (if ?new then insert (link_key (mk (w_now w) i)) (link_key ` set (get (access_of (w_db w))))
      else link_key ` set (get (access_of (w_db w))))"
    by (auto simp: add_link_def)
  moreover have "snd ` {y \<in> set (x # ids). link_key (mk (w_now w) (fst y)) \<notin> link_key ` set (get (access_of (w_db w)))} =
      (if \<not> ?new then snd ` {y \<in> set ids. link_key (mk (w_now w) (fst y)) \<notin> link_key ` set (get (access_of (w_db w)))}
       else insert p (snd ` {y \<in> set ids. link_key (mk (w_now w) (fst y)) \<notin>
         insert (link_key (mk (w_now w) i)) (link_key ` set (get (access_of (w_db w))))}))"
    using fresh_first [of "\<lambda>i. link_key (mk (w_now w) i)" i p "set ids"] Cons.prems(3,4) by (simp add: x)
  ultimately show ?case by (simp split: if_splits)
qed

text \<open>Linking a pair and deleting it again gives back the tables.\<close>

lemma delete_undoes_insert:
  assumes "insert_link get upd r d = (Inr True, d')"
  shows "delete_link get upd (Some (ln_subject r)) (Some (ln_target r)) d' = (Inr True, d)"
proof -
  from assms have new: "link_key r \<notin> link_key ` set (get (access_of d))"
    and d': "d' = update_access (upd (\<lambda>rs. rs @ [r])) d"
    by (auto simp: insert_link_def split: if_splits)
  then have "filter (\<lambda>x. \<not> (ln_subject r = ln_subject x \<and> ln_target r = ln_target x)) (get (access_of d)) = get (access_of d)"
    by (auto simp: link_key_def filter_id_conv)
  then have "(upd (filter (\<lambda>x. \<not> (ln_subject r = ln_subject x \<and> ln_target r = ln_target x))) \<circ> upd (\<lambda>rs. rs @ [r])) (access_of d) = access_of d"
    by (simp add: upd_same)
  then show ?thesis by (simp add: delete_link_def d' update_access_self)
qed

end

section \<open>The five tables\<close>

interpretation lrp: link_table role_permissions role_permissions_update
  by unfold_locales (simp_all add: comp_def)

interpretation lur: link_table user_roles user_roles_update
  by unfold_locales (simp_all add: comp_def)

interpretation lup: link_table user_permissions user_permissions_update
  by unfold_locales (simp_all add: comp_def)

interpretation lkr: link_table api_key_roles api_key_roles_update
  by unfold_locales (simp_all add: comp_def)

interpretation lkp: link_table api_key_permissions api_key_permissions_update
  by unfold_locales (simp_all add: comp_def)

end
