(* ===== verification/Roles.thy ===== *)
theory Roles
  imports Access_Links
begin

text \<open>
  Permissions and roles (\<open>src/features/permissions/\<close>, \<open>src/features/roles/\<close>): requests and their checks, the
  statements with the constraints of the migrations, the operations, the roles every new tenant gets,
  and the handlers. \<open>str::to_lowercase\<close>, which follows the Unicode tables, is the argument \<open>lower\<close>.
\<close>

section \<open>Permissions\<close>

record create_permission_request =
  cp_tenant_id :: uuid
  cp_name :: string
  cp_description :: "string option"
  cp_resource :: string
  cp_action :: string

definition normalize_permission :: "(string \<Rightarrow> string) \<Rightarrow> create_permission_request \<Rightarrow> create_permission_request" where
  "normalize_permission lower r = r\<lparr>cp_name := lower (trim (cp_name r)), cp_description := trimmed_text (cp_description r),
     cp_resource := lower (trim (cp_resource r)), cp_action := lower (trim (cp_action r))\<rparr>"

definition name_part_char :: "char \<Rightarrow> bool" where
  "name_part_char c \<longleftrightarrow> byte_in 48 57 c \<or> byte_in 65 90 c \<or> byte_in 97 122 c \<or> c \<in> {CHR ''_'', CHR ''-'', CHR ''*''}"

definition validate_name_part :: "string \<Rightarrow> string \<Rightarrow> field_error option" where
  "validate_name_part field s = (if s = [] then Some (field_error_new field ''required'' (field @ '' is required''))
     else if 64 < length s then Some (field_error_new field ''max_length'' (field @ '' must be 64 characters or fewer''))
     else if \<not> list_all name_part_char s
       then Some (field_error_new field ''invalid_format'' (field @ '' may only contain letters, digits, hyphens, underscores, or *''))
     else None)"

definition validate_permission :: "create_permission_request \<Rightarrow> app_error + unit" where
  "validate_permission r = (let errors = on_some (validate_name_part ''resource'' (cp_resource r)) (\<lambda>e. [e]) @
       on_some (validate_name_part ''action'' (cp_action r)) (\<lambda>e. [e]) in
     if errors \<noteq> [] then Inl (Validation errors) else Inr ())"

record list_permissions_query =
  lp_perm_type :: "permission_type option"
  lp_resource :: "string option"
  lp_limit :: "int option"
  lp_cursor :: "string option"

record permission_response =
  pr_id :: string
  pr_tenant_id :: "uuid option"
  pr_name :: string
  pr_description :: "string option"
  pr_perm_type :: permission_type
  pr_resource :: string
  pr_action :: string
  pr_created_at :: time
  pr_updated_at :: time

definition permission_response_of :: "permission_row \<Rightarrow> permission_response" where
  "permission_response_of p = \<lparr>pr_id = pm_public_id p, pr_tenant_id = pm_tenant_id p, pr_name = pm_name p, pr_description = pm_description p,
     pr_perm_type = pm_perm_type p, pr_resource = pm_resource p, pr_action = pm_action p, pr_created_at = pm_created_at p, pr_updated_at = pm_updated_at p\<rparr>"

definition insert_permission :: "permission_row \<Rightarrow> db \<Rightarrow> (sqlx_error + permission_row) \<times> db" where
  "insert_permission p d = (let ps = permissions (access_of d) in
     if \<exists>x\<in>set ps. pm_id x = pm_id p then (Inl (duplicate_key ''permissions'' ''permissions_pkey'' ''id'' (pm_id p)), d)
     else if \<exists>x\<in>set ps. pm_public_id x = pm_public_id p then (Inl (duplicate_key ''permissions'' ''permissions_public_id_uq'' ''public_id'' (pm_public_id p)), d)
     else case pm_tenant_id p of
        None \<Rightarrow> if \<exists>x\<in>set ps. pm_tenant_id x = None \<and> pm_name x = pm_name p
          then (Inl (duplicate_key ''permissions'' ''permissions_system_name_uq'' ''name'' (pm_name p)), d)
          else (Inr p, update_access (permissions_update (\<lambda>ps. ps @ [p])) d)
      | Some tenant_id \<Rightarrow> if \<exists>x\<in>set ps. pm_tenant_id x = Some tenant_id \<and> pm_name x = pm_name p
          then (Inl (duplicate_key ''permissions'' ''permissions_tenant_name_uq'' ''tenant_id, name'' (tenant_id @ '', '' @ pm_name p)), d)
          else (Inr p, update_access (permissions_update (\<lambda>ps. ps @ [p])) d))"

definition create_permission_row :: "idgen \<Rightarrow> uuid \<Rightarrow> string \<Rightarrow> string option \<Rightarrow> string \<Rightarrow> string \<Rightarrow> (app_error + permission_row) io" where
  "create_permission_row G tenant_id name description resource action = do {
     n \<leftarrow> fresh;
     nano \<leftarrow> nano_id_new G;
     map_sqlx (statement (\<lambda>t. insert_permission \<lparr>pm_id = uuid_of G n, pm_public_id = ''per_'' @ nano, pm_tenant_id = Some tenant_id, pm_name = name,
       pm_description = description, pm_perm_type = CustomPermission, pm_resource = resource, pm_action = action, pm_created_at = t, pm_updated_at = t\<rparr>)) }"

definition get_permission_row :: "string \<Rightarrow> (app_error + permission_row option) io" where
  "get_permission_row public_id = map_sqlx (query (\<lambda>_ d. find (\<lambda>p. pm_public_id p = public_id) (permissions (access_of d))))"

definition list_permission_rows :: "uuid option \<Rightarrow> list_permissions_query \<Rightarrow> nat \<Rightarrow> (app_error + permission_row list \<times> string option) io" where
  "list_permission_rows tenant_id q limit = map_sqlx (query (\<lambda>_ d. cut_page pm_public_id limit (sort_key pm_public_id (filter (\<lambda>p.
       (case tenant_id of Some t \<Rightarrow> pm_tenant_id p = Some t \<or> pm_tenant_id p = None | None \<Rightarrow> pm_tenant_id p = None) \<and>
       (case lp_perm_type q of None \<Rightarrow> True | Some pt \<Rightarrow> pm_perm_type p = pt) \<and>
       (case lp_resource q of None \<Rightarrow> True | Some r \<Rightarrow> pm_resource p = r) \<and>
       (case lp_cursor q of None \<Rightarrow> True | Some c \<Rightarrow> c < pm_public_id p)) (permissions (access_of d))))))"

definition custom_permission :: "string \<Rightarrow> permission_row \<Rightarrow> bool" where
  "custom_permission public_id p \<longleftrightarrow> pm_public_id p = public_id \<and> pm_perm_type p = CustomPermission"

definition update_description :: "string \<Rightarrow> string option \<Rightarrow> (app_error + permission_row option) io" where
  "update_description public_id description = map_sqlx (statement (\<lambda>t d. let f = (\<lambda>p. p\<lparr>pm_description := description, pm_updated_at := t\<rparr>) in
     (Inr (first_row (map f (filter (custom_permission public_id) (permissions (access_of d))))),
      update_access (permissions_update (update_where (custom_permission public_id) f)) d)))"

definition delete_permission_row :: "string \<Rightarrow> (app_error + bool) io" where
  "delete_permission_row public_id = map_sqlx (statement (\<lambda>_ d. (Inr (\<exists>p\<in>set (permissions (access_of d)). custom_permission public_id p),
     update_access (permissions_update (filter (\<lambda>p. \<not> custom_permission public_id p))) d)))"

definition list_system :: "(app_error + permission_row list) io" where
  "list_system = map_sqlx (query (\<lambda>_ d. sort_key pm_name (filter (\<lambda>p. pm_tenant_id p = None) (permissions (access_of d)))))"

definition create_permission :: "idgen \<Rightarrow> create_permission_request \<Rightarrow> (app_error + permission_row) io" where
  "create_permission G req = create_permission_row G (cp_tenant_id req) (cp_name req) (cp_description req) (cp_resource req) (cp_action req)"

definition get_permission :: "string \<Rightarrow> (app_error + permission_row) io" where
  "get_permission public_id = or_not_found (get_permission_row public_id) (''permission not found: '' @ public_id)"

definition list_permissions :: "uuid option \<Rightarrow> list_permissions_query \<Rightarrow> (app_error + permission_response list \<times> string option \<times> nat) io" where
  "list_permissions tenant_id q = (let limit = nat (min 200 (max 1 (coalesce (lp_limit q) 50))) in
     try_bind (list_permission_rows tenant_id q limit) (\<lambda>(perms, next_cursor).
       State_Monad.return (Inr (map permission_response_of perms, next_cursor, limit))))"

definition update_permission :: "string \<Rightarrow> string option \<Rightarrow> (app_error + permission_row) io" where
  "update_permission public_id description = or_not_found (update_description public_id description) (''custom permission not found: '' @ public_id)"

definition delete_permission :: "string \<Rightarrow> (app_error + unit) io" where
  "delete_permission public_id = try_bind (delete_permission_row public_id) (\<lambda>deleted.
     State_Monad.return (if deleted then Inr () else Inl (NotFound (''custom permission not found: '' @ public_id))))"

definition create_permission_handler :: "(string \<Rightarrow> string) \<Rightarrow> idgen \<Rightarrow> create_permission_request \<Rightarrow> (app_error + int \<times> permission_response) io" where
  "create_permission_handler lower G payload = (let req = normalize_permission lower payload in
     checked (validate_permission req) (with_status 201 permission_response_of (create_permission G req)))"

definition get_permission_handler :: "string \<Rightarrow> (app_error + int \<times> permission_response) io" where
  "get_permission_handler public_id = checked (validate_id_prefix public_id ''per_'' ''permission'')
     (with_status 200 permission_response_of (get_permission public_id))"

definition update_permission_handler :: "string \<Rightarrow> string option \<Rightarrow> (app_error + int \<times> permission_response) io" where
  "update_permission_handler public_id description = with_status 200 permission_response_of (update_permission public_id (trimmed_text description))"

definition delete_permission_handler :: "string \<Rightarrow> (app_error + int \<times> unit) io" where
  "delete_permission_handler public_id = with_status 204 id (delete_permission public_id)"

section \<open>Roles\<close>

record create_role_request =
  cr_tenant_id :: uuid
  cr_name :: string
  cr_description :: "string option"

definition normalize_role :: "create_role_request \<Rightarrow> create_role_request" where
  "normalize_role r = r\<lparr>cr_name := trim (cr_name r), cr_description := trimmed_text (cr_description r)\<rparr>"

definition validate_role :: "create_role_request \<Rightarrow> app_error + unit" where
  "validate_role r = (if cr_name r = [] then Inl (Validation [field_error_new ''name'' ''required'' ''name is required''])
     else if 128 < length (cr_name r) then Inl (Validation [field_error_new ''name'' ''max_length'' ''name must be 128 characters or fewer''])
     else Inr ())"

record update_role_request =
  uo_name :: "string option"
  uo_description :: "string option"

definition normalize_update_role :: "update_role_request \<Rightarrow> update_role_request" where
  "normalize_update_role r = r\<lparr>uo_name := trimmed_text (uo_name r), uo_description := trimmed_text (uo_description r)\<rparr>"

record list_roles_query =
  lo_is_system :: "bool option"
  lo_limit :: "int option"
  lo_cursor :: "string option"

record role_response =
  ro_id :: string
  ro_tenant_id :: uuid
  ro_name :: string
  ro_description :: "string option"
  ro_is_system :: bool
  ro_created_by :: uuid
  ro_updated_by :: uuid
  ro_created_at :: time
  ro_updated_at :: time

definition role_response_of :: "role_row \<Rightarrow> role_response" where
  "role_response_of r = \<lparr>ro_id = rl_public_id r, ro_tenant_id = rl_tenant_id r, ro_name = rl_name r, ro_description = rl_description r,
     ro_is_system = rl_is_system r, ro_created_by = rl_created_by r, ro_updated_by = rl_updated_by r, ro_created_at = rl_created_at r, ro_updated_at = rl_updated_at r\<rparr>"

definition role_name_taken :: "uuid \<Rightarrow> uuid \<Rightarrow> string \<Rightarrow> role_row list \<Rightarrow> bool" where
  "role_name_taken i tenant_id name rs \<longleftrightarrow> (\<exists>x\<in>set rs. rl_id x \<noteq> i \<and> rl_deleted_at x = None \<and> rl_tenant_id x = tenant_id \<and> rl_name x = name)"

definition role_name_error :: "uuid \<Rightarrow> string \<Rightarrow> sqlx_error" where
  "role_name_error tenant_id name = duplicate_key ''roles'' ''roles_tenant_name_uq'' ''tenant_id, name'' (tenant_id @ '', '' @ name)"

definition insert_role :: "role_row \<Rightarrow> db \<Rightarrow> (sqlx_error + role_row) \<times> db" where
  "insert_role r d = (let rs = roles (access_of d) in
     if \<exists>x\<in>set rs. rl_id x = rl_id r then (Inl (duplicate_key ''roles'' ''roles_pkey'' ''id'' (rl_id r)), d)
     else if \<exists>x\<in>set rs. rl_public_id x = rl_public_id r then (Inl (duplicate_key ''roles'' ''roles_public_id_uq'' ''public_id'' (rl_public_id r)), d)
     else if role_name_taken (rl_id r) (rl_tenant_id r) (rl_name r) rs then (Inl (role_name_error (rl_tenant_id r) (rl_name r)), d)
     else (Inr r, update_access (roles_update (\<lambda>rs. rs @ [r])) d))"

definition create_role_row :: "idgen \<Rightarrow> uuid \<Rightarrow> string \<Rightarrow> string option \<Rightarrow> bool \<Rightarrow> request_context \<Rightarrow> (app_error + role_row) io" where
  "create_role_row G tenant_id name description is_system ctx = do {
     n \<leftarrow> fresh;
     nano \<leftarrow> nano_id_new G;
     map_sqlx (statement (\<lambda>t. insert_role \<lparr>rl_id = uuid_of G n, rl_public_id = ''rol_'' @ nano, rl_tenant_id = tenant_id, rl_name = name,
       rl_description = description, rl_is_system = is_system, rl_version = 0, rl_created_by = rc_created_by ctx, rl_updated_by = rc_created_by ctx,
       rl_created_at = t, rl_updated_at = t, rl_deleted_at = None\<rparr>)) }"

definition live_role :: "string \<Rightarrow> role_row \<Rightarrow> bool" where
  "live_role public_id r \<longleftrightarrow> rl_public_id r = public_id \<and> rl_deleted_at r = None"

definition find_role :: "string \<Rightarrow> db \<Rightarrow> role_row option" where
  "find_role public_id d = find (live_role public_id) (roles (access_of d))"

definition get_role_row :: "string \<Rightarrow> (app_error + role_row option) io" where
  "get_role_row public_id = map_sqlx (query (\<lambda>_ d. find_role public_id d))"

definition get_role_id :: "string \<Rightarrow> (app_error + uuid option) io" where
  "get_role_id public_id = map_sqlx (query (\<lambda>_ d. map_option rl_id (find_role public_id d)))"

definition list_role_rows :: "uuid option \<Rightarrow> list_roles_query \<Rightarrow> nat \<Rightarrow> (app_error + role_row list \<times> string option) io" where
  "list_role_rows tenant_id q limit = map_sqlx (query (\<lambda>_ d. cut_page rl_public_id limit (sort_key rl_public_id (filter (\<lambda>r. rl_deleted_at r = None \<and>
       (case tenant_id of None \<Rightarrow> True | Some t \<Rightarrow> rl_tenant_id r = t) \<and>
       (case lo_is_system q of None \<Rightarrow> True | Some s \<Rightarrow> rl_is_system r = s) \<and>
       (case lo_cursor q of None \<Rightarrow> True | Some c \<Rightarrow> c < rl_public_id r)) (roles (access_of d))))))"

definition custom_role :: "string \<Rightarrow> role_row \<Rightarrow> bool" where
  "custom_role public_id r \<longleftrightarrow> live_role public_id r \<and> \<not> rl_is_system r"

definition update_role_rows :: "string \<Rightarrow> string option \<Rightarrow> string option \<Rightarrow> request_context \<Rightarrow> time \<Rightarrow> db \<Rightarrow> (sqlx_error + role_row option) \<times> db" where
  "update_role_rows public_id name description ctx t d = (let f = (\<lambda>r. r\<lparr>rl_name := coalesce name (rl_name r),
        rl_description := (case description of None \<Rightarrow> rl_description r | Some x \<Rightarrow> Some x),
        rl_updated_by := rc_created_by ctx, rl_version := rl_version r + 1, rl_updated_at := t\<rparr>) in
     case find (custom_role public_id) (roles (access_of d)) of
       None \<Rightarrow> (Inr None, d)
     | Some r \<Rightarrow> if role_name_taken (rl_id r) (rl_tenant_id r) (rl_name (f r)) (roles (access_of d))
         then (Inl (role_name_error (rl_tenant_id r) (rl_name (f r))), d)
         else (Inr (Some (f r)), update_access (roles_update (update_where (custom_role public_id) f)) d))"

definition update_role_row :: "string \<Rightarrow> string option \<Rightarrow> string option \<Rightarrow> request_context \<Rightarrow> (app_error + role_row option) io" where
  "update_role_row public_id name description ctx = map_sqlx (statement (update_role_rows public_id name description ctx))"

definition delete_role_row :: "string \<Rightarrow> request_context \<Rightarrow> (app_error + bool) io" where
  "delete_role_row public_id ctx = map_sqlx (statement (\<lambda>t d. (Inr (\<exists>r\<in>set (roles (access_of d)). custom_role public_id r),
     update_access (roles_update (update_where (custom_role public_id) (\<lambda>r. r\<lparr>rl_deleted_at := Some t, rl_updated_by := rc_created_by ctx\<rparr>))) d)))"

section \<open>The permissions of a role\<close>

record role_permission_view =
  rq_permission_public_id :: string
  rq_permission_name :: string
  rq_resource :: string
  rq_action :: string

definition permissions_of_role :: "uuid \<Rightarrow> db \<Rightarrow> permission_row list" where
  "permissions_of_role role_id d = [p. rp \<leftarrow> role_permissions (access_of d), ln_subject rp = role_id, p \<leftarrow> permissions (access_of d), pm_id p = ln_target rp]"

definition list_role_permission_rows :: "string \<Rightarrow> (app_error + role_permission_view list) io" where
  "list_role_permission_rows role_public_id = map_sqlx (query (\<lambda>_ d. sort_key rq_permission_name
     [\<lparr>rq_permission_public_id = pm_public_id p, rq_permission_name = pm_name p, rq_resource = pm_resource p, rq_action = pm_action p\<rparr>.
       r \<leftarrow> roles (access_of d), live_role role_public_id r, p \<leftarrow> permissions_of_role (rl_id r) d]))"

definition role_permission_link :: "uuid \<Rightarrow> request_context \<Rightarrow> time \<Rightarrow> uuid \<Rightarrow> link_row" where
  "role_permission_link role_id ctx t permission_id =
     \<lparr>ln_subject = role_id, ln_target = permission_id, ln_expires_at = None, ln_created_at = t, ln_created_by = rc_created_by ctx\<rparr>"

definition assign_permission_rows :: "uuid \<Rightarrow> (uuid \<times> string) list \<Rightarrow> request_context \<Rightarrow> (app_error + string list \<times> string list) io" where
  "assign_permission_rows role_id permission_ids ctx = (if permission_ids = [] then State_Monad.return (Inr ([], []))
     else assign_links role_permissions role_permissions_update (role_permission_link role_id ctx) permission_ids ([], []))"

definition permission_id_of :: "string \<Rightarrow> db \<Rightarrow> uuid option" where
  "permission_id_of public_id d = map_option pm_id (find (\<lambda>p. pm_public_id p = public_id) (permissions (access_of d)))"

definition role_id_of :: "string \<Rightarrow> db \<Rightarrow> uuid option" where
  "role_id_of public_id d = map_option rl_id (find_role public_id d)"

definition remove_permission_row :: "string \<Rightarrow> string \<Rightarrow> (app_error + bool) io" where
  "remove_permission_row role_public_id perm_public_id = map_sqlx (statement (\<lambda>_ d.
     delete_link role_permissions role_permissions_update (role_id_of role_public_id d) (permission_id_of perm_public_id d) d))"

section \<open>Default roles\<close>

definition role_definitions :: "(string \<times> string list) list" where
  "role_definitions = [
     (''owner'', [''*:*'']),
     (''admin'', [''applications:read'', ''applications:write'', ''applications:delete'', ''endpoints:read'', ''endpoints:write'', ''endpoints:delete'',
       ''event_types:read'', ''event_types:write'', ''event_types:delete'', ''events:read'', ''events:send'', ''events:delete'',
       ''schedules:read'', ''schedules:write'', ''schedules:delete'', ''environments:read'', ''environments:write'',
       ''api_keys:read'', ''api_keys:write'', ''api_keys:delete'', ''jwt_keys:read'', ''jwt_keys:write'', ''jwt_keys:delete'', ''jwt_keys:rotate'',
       ''users:read'', ''users:write'', ''teams:read'', ''teams:write'', ''teams:delete'', ''roles:read'', ''roles:write'', ''roles:delete'',
       ''permissions:read'', ''permissions:write'', ''permissions:delete'', ''invites:read'', ''invites:write'', ''tenant:read'']),
     (''developer'', [''applications:read'', ''applications:write'', ''endpoints:read'', ''endpoints:write'', ''event_types:read'', ''event_types:write'',
       ''events:read'', ''events:send'', ''schedules:read'', ''schedules:write'', ''environments:read'', ''environments:write'',
       ''api_keys:read'', ''api_keys:write'', ''jwt_keys:read'']),
     (''viewer'', [''applications:read'', ''endpoints:read'', ''event_types:read'', ''events:read'', ''schedules:read'', ''environments:read'',
       ''api_keys:read'', ''jwt_keys:read'', ''users:read'', ''teams:read'', ''roles:read'', ''permissions:read'', ''tenant:read''])]"

fun seed_roles :: "idgen \<Rightarrow> uuid \<Rightarrow> permission_row list \<Rightarrow> request_context \<Rightarrow> (string \<times> string list) list \<Rightarrow> (app_error + unit) io" where
  "seed_roles G tenant_id system_permissions ctx [] = State_Monad.return (Inr ())"
| "seed_roles G tenant_id system_permissions ctx ((role_name, perm_names) # defs) =
     try_bind (create_role_row G tenant_id role_name None True ctx) (\<lambda>role.
     try_bind (assign_permission_rows (rl_id role) (map (\<lambda>p. (pm_id p, [])) (filter (\<lambda>p. pm_name p \<in> set perm_names) system_permissions)) ctx) (\<lambda>_.
       seed_roles G tenant_id system_permissions ctx defs))"

definition seed_default_roles :: "idgen \<Rightarrow> uuid \<Rightarrow> permission_row list \<Rightarrow> request_context \<Rightarrow> (app_error + unit) io" where
  "seed_default_roles G tenant_id system_permissions ctx = seed_roles G tenant_id system_permissions ctx role_definitions"

section \<open>Operations on roles\<close>

definition create_role :: "idgen \<Rightarrow> create_role_request \<Rightarrow> request_context \<Rightarrow> (app_error + role_row) io" where
  "create_role G req ctx = create_role_row G (cr_tenant_id req) (cr_name req) (cr_description req) False ctx"

definition role_missing :: "string \<Rightarrow> string" where
  "role_missing public_id = ''role not found: '' @ public_id"

definition get_role :: "string \<Rightarrow> (app_error + role_row) io" where
  "get_role public_id = or_not_found (get_role_row public_id) (role_missing public_id)"

definition list_roles :: "uuid option \<Rightarrow> list_roles_query \<Rightarrow> (app_error + role_response list \<times> string option \<times> nat) io" where
  "list_roles tenant_id q = (let limit = page_limit (lo_limit q) in try_bind (list_role_rows tenant_id q limit) (\<lambda>(rs, next_cursor).
     State_Monad.return (Inr (map role_response_of rs, next_cursor, limit))))"

definition update_role :: "string \<Rightarrow> update_role_request \<Rightarrow> request_context \<Rightarrow> (app_error + role_row) io" where
  "update_role public_id req ctx = or_not_found (update_role_row public_id (uo_name req) (uo_description req) ctx) (''custom role not found: '' @ public_id)"

definition delete_role :: "string \<Rightarrow> request_context \<Rightarrow> (app_error + unit) io" where
  "delete_role public_id ctx = try_bind (delete_role_row public_id ctx) (\<lambda>deleted.
     State_Monad.return (if deleted then Inr () else Inl (NotFound (''custom role not found: '' @ public_id))))"

definition list_role_permissions :: "string \<Rightarrow> (app_error + string \<times> role_permission_view list) io" where
  "list_role_permissions role_public_id = try_bind (get_role role_public_id) (\<lambda>_. try_bind (list_role_permission_rows role_public_id) (\<lambda>items.
     State_Monad.return (Inr (role_public_id, items))))"

text \<open>The internal id of a permission with its public id.\<close>

definition resolve_permission :: "string \<Rightarrow> (app_error + uuid \<times> string) io" where
  "resolve_permission perm_public_id = try_bind (get_permission perm_public_id) (\<lambda>perm. State_Monad.return (Inr (pm_id perm, pm_public_id perm)))"

record bulk_assign_response =
  ba_assigned :: "string list"
  ba_already_present :: "string list"

definition bulk_response :: "(app_error + string list \<times> string list) io \<Rightarrow> (app_error + bulk_assign_response) io" where
  "bulk_response m = try_bind m (\<lambda>(assigned, already_present). State_Monad.return (Inr \<lparr>ba_assigned = assigned, ba_already_present = already_present\<rparr>))"

definition assign_role_permissions :: "string \<Rightarrow> string list \<Rightarrow> request_context \<Rightarrow> (app_error + bulk_assign_response) io" where
  "assign_role_permissions role_public_id perm_public_ids ctx =
     try_bind (or_not_found (get_role_id role_public_id) (role_missing role_public_id)) (\<lambda>role_id.
     try_bind (try_map resolve_permission perm_public_ids) (\<lambda>permission_ids.
       bulk_response (assign_permission_rows role_id permission_ids ctx)))"

definition remove_role_permission :: "string \<Rightarrow> string \<Rightarrow> (app_error + unit) io" where
  "remove_role_permission role_public_id perm_public_id = try_bind (remove_permission_row role_public_id perm_public_id) (\<lambda>removed.
     State_Monad.return (if removed then Inr () else Inl (NotFound (''permission '' @ perm_public_id @ '' not found on role '' @ role_public_id))))"

definition create_role_handler :: "idgen \<Rightarrow> request_context \<Rightarrow> create_role_request \<Rightarrow> (app_error + int \<times> role_response) io" where
  "create_role_handler G ctx payload = (let req = normalize_role payload in
     checked (validate_role req) (with_status 201 role_response_of (create_role G req ctx)))"

definition get_role_handler :: "string \<Rightarrow> (app_error + int \<times> role_response) io" where
  "get_role_handler public_id = checked (validate_id_prefix public_id ''rol_'' ''role'') (with_status 200 role_response_of (get_role public_id))"

definition update_role_handler :: "request_context \<Rightarrow> string \<Rightarrow> update_role_request \<Rightarrow> (app_error + int \<times> role_response) io" where
  "update_role_handler ctx public_id payload = with_status 200 role_response_of (update_role public_id (normalize_update_role payload) ctx)"

definition delete_role_handler :: "request_context \<Rightarrow> string \<Rightarrow> (app_error + int \<times> unit) io" where
  "delete_role_handler ctx public_id = with_status 204 id (delete_role public_id ctx)"

definition remove_role_permission_handler :: "string \<Rightarrow> string \<Rightarrow> (app_error + int \<times> unit) io" where
  "remove_role_permission_handler role_id perm_id = with_status 204 id (remove_role_permission role_id perm_id)"

end
