(* ===== verification/Assignments.thy ===== *)
theory Assignments
  imports Roles
begin

text \<open>
  Who holds which roles and permissions (\<open>src/features/assignments/\<close>): assignment to users, within a tenant
  and up to an expiry time, and to API keys; removal; and the query that computes the permissions a
  user has in a tenant.
\<close>

section \<open>Rows\<close>

record assigned_role =
  as_role_id :: string
  as_role_name :: string
  as_tenant_id :: uuid
  as_expires_at :: "time option"
  as_created_at :: time

record assigned_permission =
  at_permission_id :: string
  at_permission_name :: string
  at_resource :: string
  at_action :: string
  at_expires_at :: "time option"
  at_created_at :: time

record effective_permission =
  ef_permission_id :: string
  ef_name :: string
  ef_resource :: string
  ef_action :: string
  ef_source :: string
  ef_from_role :: "string option"
  ef_expires_at :: "time option"

record assign_roles_request =
  rr_role_ids :: "string list"
  rr_expires_at :: "time option"

record assign_permissions_request =
  rp_permission_ids :: "string list"
  rp_expires_at :: "time option"

section \<open>Statements for users\<close>

definition roles_with_id :: "uuid \<Rightarrow> db \<Rightarrow> role_row list" where
  "roles_with_id i d = filter (\<lambda>r. rl_id r = i \<and> rl_deleted_at r = None) (roles (access_of d))"

definition permissions_with_id :: "uuid \<Rightarrow> db \<Rightarrow> permission_row list" where
  "permissions_with_id i d = filter (\<lambda>p. pm_id p = i) (permissions (access_of d))"

definition list_user_role_rows :: "string \<Rightarrow> (app_error + assigned_role list) io" where
  "list_user_role_rows user_public_id = map_sqlx (query (\<lambda>t d. sort_key as_role_name
     [\<lparr>as_role_id = rl_public_id r, as_role_name = rl_name r, as_tenant_id = ul_tenant_id ur, as_expires_at = ln_expires_at ur, as_created_at = ln_created_at ur\<rparr>.
       ur \<leftarrow> user_roles (access_of d), ln_subject ur = user_public_id \<and> unexpired t ur, r \<leftarrow> roles_with_id (ln_target ur) d]))"

definition user_link :: "string \<Rightarrow> uuid \<Rightarrow> time option \<Rightarrow> uuid \<Rightarrow> time \<Rightarrow> uuid \<Rightarrow> user_link_row" where
  "user_link user_public_id tenant_id expires_at created_by t target =
     \<lparr>ln_subject = user_public_id, ln_target = target, ln_expires_at = expires_at, ln_created_at = t, ln_created_by = created_by, ul_tenant_id = tenant_id\<rparr>"

definition assign_user_role_rows :: "string \<Rightarrow> (uuid \<times> string) list \<Rightarrow> uuid \<Rightarrow> time option \<Rightarrow> uuid \<Rightarrow> (app_error + string list \<times> string list) io" where
  "assign_user_role_rows user_public_id role_ids tenant_id expires_at created_by =
     assign_links user_roles user_roles_update (user_link user_public_id tenant_id expires_at created_by) role_ids ([], [])"

definition remove_user_role_row :: "string \<Rightarrow> string \<Rightarrow> (app_error + bool) io" where
  "remove_user_role_row user_public_id role_public_id = map_sqlx (statement (\<lambda>_ d.
     delete_link user_roles user_roles_update (Some user_public_id) (role_id_of role_public_id d) d))"

definition assigned_permission_of :: "'a link_row_scheme \<Rightarrow> permission_row \<Rightarrow> assigned_permission" where
  "assigned_permission_of l p = \<lparr>at_permission_id = pm_public_id p, at_permission_name = pm_name p, at_resource = pm_resource p, at_action = pm_action p,
     at_expires_at = ln_expires_at l, at_created_at = ln_created_at l\<rparr>"

definition list_user_permission_rows :: "string \<Rightarrow> (app_error + assigned_permission list) io" where
  "list_user_permission_rows user_public_id = map_sqlx (query (\<lambda>t d. sort_key at_permission_name
     [assigned_permission_of up p. up \<leftarrow> user_permissions (access_of d), ln_subject up = user_public_id \<and> unexpired t up,
       p \<leftarrow> permissions_with_id (ln_target up) d]))"

definition assign_user_permission_rows :: "string \<Rightarrow> (uuid \<times> string) list \<Rightarrow> uuid \<Rightarrow> time option \<Rightarrow> uuid \<Rightarrow> (app_error + string list \<times> string list) io" where
  "assign_user_permission_rows user_public_id permission_ids tenant_id expires_at created_by =
     assign_links user_permissions user_permissions_update (user_link user_public_id tenant_id expires_at created_by) permission_ids ([], [])"

definition remove_user_permission_row :: "string \<Rightarrow> string \<Rightarrow> (app_error + bool) io" where
  "remove_user_permission_row user_public_id perm_public_id = map_sqlx (statement (\<lambda>_ d.
     delete_link user_permissions user_permissions_update (Some user_public_id) (permission_id_of perm_public_id d) d))"

text \<open>The two halves of the \<open>UNION ALL\<close>.\<close>

definition held_by_user :: "string \<Rightarrow> uuid \<Rightarrow> time \<Rightarrow> user_link_row \<Rightarrow> bool" where
  "held_by_user user_public_id tenant_id t l \<longleftrightarrow> ln_subject l = user_public_id \<and> ul_tenant_id l = tenant_id \<and> unexpired t l"

definition effective_of :: "permission_row \<Rightarrow> string \<Rightarrow> string option \<Rightarrow> time option \<Rightarrow> effective_permission" where
  "effective_of p source from_role expires_at = \<lparr>ef_permission_id = pm_public_id p, ef_name = pm_name p, ef_resource = pm_resource p, ef_action = pm_action p,
     ef_source = source, ef_from_role = from_role, ef_expires_at = expires_at\<rparr>"

definition role_grants :: "string \<Rightarrow> uuid \<Rightarrow> time \<Rightarrow> db \<Rightarrow> effective_permission list" where
  "role_grants user_public_id tenant_id t d = [effective_of p ''role'' (Some (rl_public_id r)) (ln_expires_at ur).
     ur \<leftarrow> user_roles (access_of d), held_by_user user_public_id tenant_id t ur,
     r \<leftarrow> roles_with_id (ln_target ur) d, p \<leftarrow> permissions_of_role (ln_target ur) d]"

definition direct_grants :: "string \<Rightarrow> uuid \<Rightarrow> time \<Rightarrow> db \<Rightarrow> effective_permission list" where
  "direct_grants user_public_id tenant_id t d = [effective_of p ''direct'' None (ln_expires_at up).
     up \<leftarrow> user_permissions (access_of d), held_by_user user_public_id tenant_id t up, p \<leftarrow> permissions_with_id (ln_target up) d]"

definition effective_rows :: "string \<Rightarrow> uuid \<Rightarrow> (app_error + effective_permission list) io" where
  "effective_rows user_public_id tenant_id = map_sqlx (query (\<lambda>t d. sort_key (\<lambda>e. (ef_name e, ef_source e))
     (role_grants user_public_id tenant_id t d @ direct_grants user_public_id tenant_id t d)))"

section \<open>Statements for API keys\<close>

definition list_key_role_rows :: "string \<Rightarrow> (app_error + assigned_role list) io" where
  "list_key_role_rows api_key_public_id = map_sqlx (query (\<lambda>_ d. sort_key as_role_name
     [\<lparr>as_role_id = rl_public_id r, as_role_name = rl_name r, as_tenant_id = rl_tenant_id r, as_expires_at = None, as_created_at = ln_created_at akr\<rparr>.
       akr \<leftarrow> api_key_roles (access_of d), ln_subject akr = api_key_public_id, r \<leftarrow> roles_with_id (ln_target akr) d]))"

definition key_link :: "string \<Rightarrow> time option \<Rightarrow> uuid \<Rightarrow> time \<Rightarrow> uuid \<Rightarrow> link_row" where
  "key_link api_key_public_id expires_at created_by t target =
     \<lparr>ln_subject = api_key_public_id, ln_target = target, ln_expires_at = expires_at, ln_created_at = t, ln_created_by = created_by\<rparr>"

definition assign_key_role_rows :: "string \<Rightarrow> (uuid \<times> string) list \<Rightarrow> uuid \<Rightarrow> (app_error + string list \<times> string list) io" where
  "assign_key_role_rows api_key_public_id role_ids created_by =
     assign_links api_key_roles api_key_roles_update (key_link api_key_public_id None created_by) role_ids ([], [])"

definition remove_key_role_row :: "string \<Rightarrow> string \<Rightarrow> (app_error + bool) io" where
  "remove_key_role_row api_key_public_id role_public_id = map_sqlx (statement (\<lambda>_ d.
     delete_link api_key_roles api_key_roles_update (Some api_key_public_id) (role_id_of role_public_id d) d))"

definition list_key_permission_rows :: "string \<Rightarrow> (app_error + assigned_permission list) io" where
  "list_key_permission_rows api_key_public_id = map_sqlx (query (\<lambda>t d. sort_key at_permission_name
     [assigned_permission_of akp p. akp \<leftarrow> api_key_permissions (access_of d), ln_subject akp = api_key_public_id \<and> unexpired t akp,
       p \<leftarrow> permissions_with_id (ln_target akp) d]))"

definition assign_key_permission_rows :: "string \<Rightarrow> (uuid \<times> string) list \<Rightarrow> time option \<Rightarrow> uuid \<Rightarrow> (app_error + string list \<times> string list) io" where
  "assign_key_permission_rows api_key_public_id permission_ids expires_at created_by =
     assign_links api_key_permissions api_key_permissions_update (key_link api_key_public_id expires_at created_by) permission_ids ([], [])"

definition remove_key_permission_row :: "string \<Rightarrow> string \<Rightarrow> (app_error + bool) io" where
  "remove_key_permission_row api_key_public_id perm_public_id = map_sqlx (statement (\<lambda>_ d.
     delete_link api_key_permissions api_key_permissions_update (Some api_key_public_id) (permission_id_of perm_public_id d) d))"

section \<open>Operations\<close>

definition resolve_role :: "string \<Rightarrow> (app_error + uuid \<times> string) io" where
  "resolve_role role_public_id = try_bind (or_not_found (get_role_id role_public_id) (role_missing role_public_id)) (\<lambda>i.
     State_Monad.return (Inr (i, role_public_id)))"

definition assign_user_roles :: "string \<Rightarrow> uuid \<Rightarrow> assign_roles_request \<Rightarrow> request_context \<Rightarrow> (app_error + bulk_assign_response) io" where
  "assign_user_roles user_public_id tenant_id req ctx = try_bind (try_map resolve_role (rr_role_ids req)) (\<lambda>role_ids.
     bulk_response (assign_user_role_rows user_public_id role_ids tenant_id (rr_expires_at req) (rc_created_by ctx)))"

text \<open>A removal that found nothing is an error.\<close>

definition removed_or :: "string \<Rightarrow> (app_error + bool) io \<Rightarrow> (app_error + unit) io" where
  "removed_or message m = try_bind m (\<lambda>removed. State_Monad.return (if removed then Inr () else Inl (NotFound message)))"

definition remove_user_role :: "string \<Rightarrow> string \<Rightarrow> (app_error + unit) io" where
  "remove_user_role user_public_id role_public_id =
     removed_or (''role '' @ role_public_id @ '' not assigned to user '' @ user_public_id) (remove_user_role_row user_public_id role_public_id)"

definition assign_user_permissions :: "string \<Rightarrow> uuid \<Rightarrow> assign_permissions_request \<Rightarrow> request_context \<Rightarrow> (app_error + bulk_assign_response) io" where
  "assign_user_permissions user_public_id tenant_id req ctx = try_bind (try_map resolve_permission (rp_permission_ids req)) (\<lambda>perm_ids.
     bulk_response (assign_user_permission_rows user_public_id perm_ids tenant_id (rp_expires_at req) (rc_created_by ctx)))"

definition remove_user_permission :: "string \<Rightarrow> string \<Rightarrow> (app_error + unit) io" where
  "remove_user_permission user_public_id perm_public_id =
     removed_or (''permission '' @ perm_public_id @ '' not assigned to user '' @ user_public_id) (remove_user_permission_row user_public_id perm_public_id)"

definition get_user_effective_permissions :: "string \<Rightarrow> uuid \<Rightarrow> (app_error + string \<times> uuid \<times> effective_permission list) io" where
  "get_user_effective_permissions user_public_id tenant_id = try_bind (effective_rows user_public_id tenant_id) (\<lambda>permissions.
     State_Monad.return (Inr (user_public_id, tenant_id, permissions)))"

definition assign_api_key_roles :: "string \<Rightarrow> assign_roles_request \<Rightarrow> request_context \<Rightarrow> (app_error + bulk_assign_response) io" where
  "assign_api_key_roles api_key_public_id req ctx = try_bind (try_map resolve_role (rr_role_ids req)) (\<lambda>role_ids.
     bulk_response (assign_key_role_rows api_key_public_id role_ids (rc_created_by ctx)))"

definition remove_api_key_role :: "string \<Rightarrow> string \<Rightarrow> (app_error + unit) io" where
  "remove_api_key_role api_key_public_id role_public_id =
     removed_or (''role '' @ role_public_id @ '' not assigned to api key '' @ api_key_public_id) (remove_key_role_row api_key_public_id role_public_id)"

definition assign_api_key_permissions :: "string \<Rightarrow> assign_permissions_request \<Rightarrow> request_context \<Rightarrow> (app_error + bulk_assign_response) io" where
  "assign_api_key_permissions api_key_public_id req ctx = try_bind (try_map resolve_permission (rp_permission_ids req)) (\<lambda>perm_ids.
     bulk_response (assign_key_permission_rows api_key_public_id perm_ids (rp_expires_at req) (rc_created_by ctx)))"

definition remove_api_key_permission :: "string \<Rightarrow> string \<Rightarrow> (app_error + unit) io" where
  "remove_api_key_permission api_key_public_id perm_public_id =
     removed_or (''permission '' @ perm_public_id @ '' not assigned to api key '' @ api_key_public_id) (remove_key_permission_row api_key_public_id perm_public_id)"

end
