(* ===== verification/Access_State.thy ===== *)
theory Access_State
  imports Assignments Api_Key_Props
begin

text \<open>
  The invariant of the access control tables: ids, names and links are unique. Every operation keeps it,
  whatever fails, and so does every sequence of calls.
\<close>

section \<open>The invariant\<close>

definition unique_role_names :: "role_row list \<Rightarrow> bool" where
  "unique_role_names rs \<longleftrightarrow> (\<forall>x\<in>set rs. \<forall>y\<in>set rs. rl_deleted_at x = None \<longrightarrow> rl_deleted_at y = None \<longrightarrow>
     rl_tenant_id x = rl_tenant_id y \<longrightarrow> rl_name x = rl_name y \<longrightarrow> rl_id x = rl_id y)"

definition permissions_ok :: "permission_row list \<Rightarrow> bool" where
  "permissions_ok ps \<longleftrightarrow> distinct (map pm_id ps) \<and> distinct (map pm_public_id ps) \<and> distinct (map (\<lambda>p. (pm_tenant_id p, pm_name p)) ps)"

definition roles_ok :: "role_row list \<Rightarrow> bool" where
  "roles_ok rs \<longleftrightarrow> distinct (map rl_id rs) \<and> distinct (map rl_public_id rs) \<and> unique_role_names rs"

definition links_ok :: "access_db \<Rightarrow> bool" where
  "links_ok a \<longleftrightarrow> distinct_links (role_permissions a) \<and> distinct_links (user_roles a) \<and> distinct_links (user_permissions a) \<and>
     distinct_links (api_key_roles a) \<and> distinct_links (api_key_permissions a)"

definition access_ok :: "db \<Rightarrow> bool" where
  "access_ok d \<longleftrightarrow> permissions_ok (permissions (access_of d)) \<and> roles_ok (roles (access_of d)) \<and> links_ok (access_of d)"

section \<open>Statements\<close>

lemma unique_role_namesI: "(\<And>x y. x \<in> set rs \<Longrightarrow> y \<in> set rs \<Longrightarrow> rl_deleted_at x = None \<Longrightarrow> rl_deleted_at y = None \<Longrightarrow>
    rl_tenant_id x = rl_tenant_id y \<Longrightarrow> rl_name x = rl_name y \<Longrightarrow> rl_id x = rl_id y) \<Longrightarrow> unique_role_names rs"
  unfolding unique_role_names_def by blast

lemma unique_role_namesD: "unique_role_names rs \<Longrightarrow> x \<in> set rs \<Longrightarrow> y \<in> set rs \<Longrightarrow> rl_deleted_at x = None \<Longrightarrow> rl_deleted_at y = None \<Longrightarrow>
    rl_tenant_id x = rl_tenant_id y \<Longrightarrow> rl_name x = rl_name y \<Longrightarrow> rl_id x = rl_id y"
  unfolding unique_role_names_def by blast

lemma permissions_ok_changes:
  "permissions_ok ps \<Longrightarrow> permissions_ok (filter p ps)"
  "permissions_ok ps \<Longrightarrow> permissions_ok (update_where p (\<lambda>x. x\<lparr>pm_description := v, pm_updated_at := t\<rparr>) ps)"
  by (simp_all add: permissions_ok_def distinct_map_filter map_update_where)

lemma insert_permission_ok:
  assumes "access_ok d" "insert_permission p d = (Inr x, d')"
  shows "access_ok d'"
proof -
  have "\<not> (\<exists>y\<in>set (permissions (access_of d)). pm_tenant_id y = pm_tenant_id p \<and> pm_name y = pm_name p)"
    using assms(2) by (auto simp: insert_permission_def Let_def split: if_splits option.splits)
  moreover have "\<not> (\<exists>y\<in>set (permissions (access_of d)). pm_id y = pm_id p)" "\<not> (\<exists>y\<in>set (permissions (access_of d)). pm_public_id y = pm_public_id p)"
    "d' = update_access (permissions_update (\<lambda>ps. ps @ [p])) d"
    using assms(2) by (auto simp: insert_permission_def Let_def split: if_splits option.splits)
  ultimately show ?thesis
    using assms(1) by (auto simp: access_ok_def permissions_ok_def links_ok_def)
qed

lemma insert_role_ok:
  assumes "access_ok d" "insert_role r d = (Inr x, d')"
  shows "access_ok d'"
proof -
  from assms(2) have "\<not> (\<exists>y\<in>set (roles (access_of d)). rl_id y = rl_id r)" "\<not> (\<exists>y\<in>set (roles (access_of d)). rl_public_id y = rl_public_id r)"
    "\<not> role_name_taken (rl_id r) (rl_tenant_id r) (rl_name r) (roles (access_of d))" "d' = update_access (roles_update (\<lambda>rs. rs @ [r])) d"
    by (auto simp: insert_role_def Let_def split: if_splits)
  moreover from this assms(1) have "unique_role_names (roles (access_of d) @ [r])"
    by (intro unique_role_namesI) (auto simp: access_ok_def roles_ok_def role_name_taken_def dest: unique_role_namesD)
  ultimately show ?thesis
    using assms(1) by (auto simp: access_ok_def roles_ok_def links_ok_def)
qed

lemma roles_ok_delete: "roles_ok rs \<Longrightarrow> roles_ok (update_where p (\<lambda>r. r\<lparr>rl_deleted_at := Some t, rl_updated_by := u\<rparr>) rs)"
proof -
  assume "roles_ok rs"
  moreover from this have "unique_role_names (update_where p (\<lambda>r. r\<lparr>rl_deleted_at := Some t, rl_updated_by := u\<rparr>) rs)"
    by (intro unique_role_namesI) (auto simp: roles_ok_def set_update_where dest: unique_role_namesD split: if_splits)
  ultimately show ?thesis by (simp add: roles_ok_def map_update_where)
qed

lemma update_role_rows_ok:
  assumes ok: "access_ok d" and run: "update_role_rows public_id name description ctx t d = (Inr x, d')"
  shows "access_ok d'"
proof (cases "find (custom_role public_id) (roles (access_of d))")
  case None
  with run ok show ?thesis by (simp add: update_role_rows_def)
next
  case (Some r)
  let ?rs = "roles (access_of d)"
  define f :: "role_row \<Rightarrow> role_row" where "f = (\<lambda>r. r\<lparr>rl_name := coalesce name (rl_name r),
        rl_description := (case description of None \<Rightarrow> rl_description r | Some x \<Rightarrow> Some x),
        rl_updated_by := rc_created_by ctx, rl_version := rl_version r + 1, rl_updated_at := t\<rparr>)"
  from Some have r: "custom_role public_id r" "r \<in> set ?rs"
    by (auto simp: find_Some_iff)
  have only: "y = r" if "y \<in> set ?rs" "custom_role public_id y" for y
    using ok r that by (auto simp: access_ok_def roles_ok_def custom_role_def live_role_def distinct_map intro: inj_onD [of rl_public_id "set ?rs"])
  from run Some have d': "d' = update_access (roles_update (update_where (custom_role public_id) f)) d"
    and name: "\<not> role_name_taken (rl_id r) (rl_tenant_id r) (rl_name (f r)) ?rs"
    by (simp_all add: update_role_rows_def Let_def f_def split: if_splits)
  have mem: "z = f r \<or> z \<in> set ?rs" if "z \<in> set (update_where (custom_role public_id) f ?rs)" for z
    using that by (auto simp: set_update_where split: if_splits dest: only)
  have "unique_role_names (update_where (custom_role public_id) f ?rs)"
  proof (rule unique_role_namesI)
    fix x y
    assume "x \<in> set (update_where (custom_role public_id) f ?rs)" "y \<in> set (update_where (custom_role public_id) f ?rs)"
    then have xy: "x = f r \<or> x \<in> set ?rs" "y = f r \<or> y \<in> set ?rs" by (auto dest: mem)
    assume live: "rl_deleted_at x = None" "rl_deleted_at y = None" and same: "rl_tenant_id x = rl_tenant_id y" "rl_name x = rl_name y"
    have fr: "rl_id (f r) = rl_id r" "rl_tenant_id (f r) = rl_tenant_id r" and u: "unique_role_names ?rs"
      using ok by (simp_all add: f_def access_ok_def roles_ok_def)
    have taken: "rl_id z = rl_id (f r)" if "z \<in> set ?rs" "rl_deleted_at z = None" "rl_tenant_id z = rl_tenant_id (f r)" "rl_name z = rl_name (f r)" for z
      using name that fr by (auto simp: role_name_taken_def)
    from xy consider "x = y" | "x = f r" "y \<in> set ?rs" | "y = f r" "x \<in> set ?rs" | "x \<in> set ?rs" "y \<in> set ?rs" by blast
    then show "rl_id x = rl_id y"
    proof cases
      case 2
      then show ?thesis using taken [of y] live(2) same by simp
    next
      case 3
      then show ?thesis using taken [of x] live(1) same by simp
    next
      case 4
      then show ?thesis by (rule unique_role_namesD [OF u _ _ live same])
    qed simp
  qed
  then show ?thesis
    using ok by (simp add: d' access_ok_def roles_ok_def links_ok_def map_update_where f_def)
qed

text \<open>A table on which single insertions and filters are harmless: then batches and deletions are.\<close>

locale guarded_links = link_table +
  assumes harmless_change: "access_ok d \<Longrightarrow> distinct_links (f (get (access_of d))) \<Longrightarrow> access_ok (update_access (upd f) d)"
    and distinct_now: "access_ok d \<Longrightarrow> distinct_links (get (access_of d))"
begin

lemma insert_ok: "access_ok d \<Longrightarrow> insert_link get upd r d = (Inr b, d') \<Longrightarrow> access_ok d'"
  by (auto simp: insert_link_add intro!: harmless_change distinct_add_link distinct_now)

lemma delete_ok: "access_ok d \<Longrightarrow> delete_link get upd s i d = (Inr b, d') \<Longrightarrow> access_ok d'"
  by (auto simp: delete_link_def Let_def intro!: harmless_change distinct_links_filter distinct_now)

lemma keeps_assign: "keeps (any_db access_ok) (assign_links get upd mk ids acc)"
proof (induction ids arbitrary: acc)
  case Nil
  show ?case by (cases acc) (auto intro: keeps_intros)
next
  case (Cons x ids)
  then show ?case
    by (cases x; cases acc) (simp, (rule keeps_intros tables_only_stable tables_only_with_db | simp add: any_db_def insert_ok)+)
qed

lemma keeps_delete: "keeps (any_db access_ok) (map_sqlx (statement (\<lambda>t d. delete_link get upd (s t d) (i t d) d)))"
  by (rule keeps_intros tables_only_stable tables_only_with_db | simp add: any_db_def delete_ok)+

end

interpretation grp: guarded_links role_permissions role_permissions_update
  by unfold_locales (simp_all add: access_ok_def links_ok_def)

interpretation gur: guarded_links user_roles user_roles_update
  by unfold_locales (simp_all add: access_ok_def links_ok_def)

interpretation gup: guarded_links user_permissions user_permissions_update
  by unfold_locales (simp_all add: access_ok_def links_ok_def)

interpretation gkr: guarded_links api_key_roles api_key_roles_update
  by unfold_locales (simp_all add: access_ok_def links_ok_def)

interpretation gkp: guarded_links api_key_permissions api_key_permissions_update
  by unfold_locales (simp_all add: access_ok_def links_ok_def)

section \<open>Operations\<close>

lemma keeps_lookups [keeps_intros]:
  "stable P \<Longrightarrow> keeps P (get_permission public_id)" "stable P \<Longrightarrow> keeps P (resolve_permission public_id)"
  "stable P \<Longrightarrow> keeps P (resolve_role public_id)" "stable P \<Longrightarrow> keeps P (get_role_id public_id)"
  unfolding get_permission_def get_permission_row_def resolve_permission_def resolve_role_def get_role_id_def
  by (intro keeps_intros; simp)+

lemma keeps_bulk_response [keeps_intros]: "keeps P m \<Longrightarrow> keeps P (bulk_response m)"
  unfolding bulk_response_def by (intro keeps_intros)

lemma keeps_removed_or [keeps_intros]: "keeps P m \<Longrightarrow> keeps P (removed_or msg m)"
  unfolding removed_or_def by (intro keeps_intros)

lemma keeps_create_permission: "keeps (any_db access_ok) (create_permission G req)"
  unfolding create_permission_def create_permission_row_def
  by (intro keeps_intros tables_only_stable) (auto simp: any_db_def dest: insert_permission_ok)

lemma keeps_update_permission: "keeps (any_db access_ok) (update_permission public_id description)"
  unfolding update_permission_def update_description_def Let_def
  by (intro keeps_intros tables_only_stable) (auto simp: any_db_def access_ok_def links_ok_def permissions_ok_changes)

lemma keeps_delete_permission: "keeps (any_db access_ok) (delete_permission public_id)"
  unfolding delete_permission_def delete_permission_row_def
  by (intro keeps_intros tables_only_stable) (auto simp: any_db_def access_ok_def links_ok_def permissions_ok_changes)

lemma keeps_create_role_row: "keeps (any_db access_ok) (create_role_row G tenant_id name description is_system ctx)"
  unfolding create_role_row_def
  by (intro keeps_intros tables_only_stable) (auto simp: any_db_def dest: insert_role_ok)

lemma keeps_update_role: "keeps (any_db access_ok) (update_role public_id req ctx)"
  unfolding update_role_def update_role_row_def
  by (intro keeps_intros tables_only_stable) (auto simp: any_db_def dest: update_role_rows_ok)

lemma keeps_delete_role: "keeps (any_db access_ok) (delete_role public_id ctx)"
  unfolding delete_role_def delete_role_row_def
  by (intro keeps_intros tables_only_stable) (auto simp: any_db_def access_ok_def links_ok_def roles_ok_delete)

lemma keeps_assign_permission_rows: "keeps (any_db access_ok) (assign_permission_rows role_id ids ctx)"
  unfolding assign_permission_rows_def by (intro keeps_intros grp.keeps_assign)

lemma keeps_seed_roles: "keeps (any_db access_ok) (seed_roles G tenant_id perms ctx defs)"
  by (induction defs rule: seed_roles.induct [of _ G tenant_id perms ctx])
    (auto intro!: keeps_intros keeps_create_role_row keeps_assign_permission_rows)

lemmas access_operations = keeps_create_permission keeps_update_permission keeps_delete_permission keeps_create_role_row keeps_update_role
  keeps_delete_role keeps_assign_permission_rows keeps_seed_roles grp.keeps_delete gur.keeps_assign gur.keeps_delete gup.keeps_assign
  gup.keeps_delete gkr.keeps_assign gkr.keeps_delete gkp.keeps_assign gkp.keeps_delete

section \<open>Sequences of calls\<close>

datatype access_call =
    CreatePermission create_permission_request
  | UpdatePermission string "string option"
  | DeletePermission string
  | CreateRole create_role_request
  | UpdateRole string update_role_request
  | DeleteRole string
  | SeedRoles uuid
  | AssignRolePermissions string "string list"
  | RemoveRolePermission string string
  | AssignUserRoles string uuid assign_roles_request
  | RemoveUserRole string string
  | AssignUserPermissions string uuid assign_permissions_request
  | RemoveUserPermission string string
  | AssignKeyRoles string assign_roles_request
  | RemoveKeyRole string string
  | AssignKeyPermissions string assign_permissions_request
  | RemoveKeyPermission string string
  | AccessWait time

definition ignore :: "'a io \<Rightarrow> unit io" where
  "ignore m = do { _ \<leftarrow> m; State_Monad.return () }"

fun serve_access :: "(string \<Rightarrow> string) \<Rightarrow> idgen \<Rightarrow> request_context \<Rightarrow> access_call \<Rightarrow> unit io" where
  "serve_access lower G ctx (CreatePermission req) = ignore (create_permission_handler lower G req)"
| "serve_access lower G ctx (UpdatePermission i description) = ignore (update_permission_handler i description)"
| "serve_access lower G ctx (DeletePermission i) = ignore (delete_permission_handler i)"
| "serve_access lower G ctx (CreateRole req) = ignore (create_role_handler G ctx req)"
| "serve_access lower G ctx (UpdateRole i req) = ignore (update_role_handler ctx i req)"
| "serve_access lower G ctx (DeleteRole i) = ignore (delete_role_handler ctx i)"
| "serve_access lower G ctx (SeedRoles tenant_id) = ignore (try_bind list_system (\<lambda>perms. seed_default_roles G tenant_id perms ctx))"
| "serve_access lower G ctx (AssignRolePermissions i ids) = ignore (assign_role_permissions i ids ctx)"
| "serve_access lower G ctx (RemoveRolePermission i p) = ignore (remove_role_permission_handler i p)"
| "serve_access lower G ctx (AssignUserRoles u tenant_id req) = ignore (assign_user_roles u tenant_id req ctx)"
| "serve_access lower G ctx (RemoveUserRole u r) = ignore (remove_user_role u r)"
| "serve_access lower G ctx (AssignUserPermissions u tenant_id req) = ignore (assign_user_permissions u tenant_id req ctx)"
| "serve_access lower G ctx (RemoveUserPermission u p) = ignore (remove_user_permission u p)"
| "serve_access lower G ctx (AssignKeyRoles k req) = ignore (assign_api_key_roles k req ctx)"
| "serve_access lower G ctx (RemoveKeyRole k r) = ignore (remove_api_key_role k r)"
| "serve_access lower G ctx (AssignKeyPermissions k req) = ignore (assign_api_key_permissions k req ctx)"
| "serve_access lower G ctx (RemoveKeyPermission k p) = ignore (remove_api_key_permission k p)"
| "serve_access lower G ctx (AccessWait t) = State_Monad.update (w_now_update (\<lambda>n. n + t))"

lemma keeps_ignore [keeps_intros]: "keeps P m \<Longrightarrow> keeps P (ignore m)"
  unfolding ignore_def by (intro keeps_intros)

lemma keeps_serve_access: "keeps (any_db access_ok) (serve_access lower G ctx c)"
proof (cases c)
  case (AccessWait t)
  then show ?thesis by (simp add: keeps_now_update)
qed (auto simp: create_permission_handler_def update_permission_handler_def delete_permission_handler_def create_role_handler_def
    update_role_handler_def delete_role_handler_def remove_role_permission_handler_def create_role_def seed_default_roles_def
    list_system_def assign_role_permissions_def remove_role_permission_def remove_permission_row_def assign_user_roles_def assign_user_role_rows_def
    remove_user_role_def remove_user_role_row_def assign_user_permissions_def assign_user_permission_rows_def remove_user_permission_def
    remove_user_permission_row_def assign_api_key_roles_def assign_key_role_rows_def remove_api_key_role_def remove_key_role_row_def
    assign_api_key_permissions_def assign_key_permission_rows_def remove_api_key_permission_def remove_key_permission_row_def Let_def
    intro!: keeps_intros access_operations tables_only_stable)



end
