(* ===== verification/Access_Props.thy ===== *)
theory Access_Props
  imports Access_State
begin

text \<open>
  What assignments mean for the permissions a user has, and the roles a new tenant starts with.
\<close>

section \<open>The permissions of a user\<close>

text \<open>What the API answers: the permissions of a user in a tenant, and the permissions of a role.\<close>

definition effective_answer :: "string \<Rightarrow> uuid \<Rightarrow> world \<Rightarrow> effective_permission set" where
  "effective_answer u tn w = (case fst (run_state (get_user_effective_permissions u tn) w) of Inl _ \<Rightarrow> {} | Inr (_, _, ps) \<Rightarrow> set ps)"

definition role_answer :: "string \<Rightarrow> world \<Rightarrow> string set" where
  "role_answer p w = (case fst (run_state (list_role_permissions p) w) of Inl _ \<Rightarrow> {} | Inr (_, items) \<Rightarrow> rq_permission_public_id ` set items)"

definition role_links :: "string \<Rightarrow> uuid \<Rightarrow> time \<Rightarrow> db \<Rightarrow> user_link_row set" where
  "role_links u tn t d = {ur \<in> set (user_roles (access_of d)). held_by_user u tn t ur}"

definition from_link :: "db \<Rightarrow> user_link_row \<Rightarrow> effective_permission set" where
  "from_link d ur = (\<Union>r\<in>set (roles_with_id (ln_target ur) d).
     (\<lambda>p. effective_of p ''role'' (Some (rl_public_id r)) (ln_expires_at ur)) ` set (permissions_of_role (ln_target ur) d))"

lemma effective_answer_eq: "no_faults w \<Longrightarrow> effective_answer u tn w =
    (\<Union>ur\<in>role_links u tn (w_now w) (w_db w). from_link (w_db w) ur) \<union> set (direct_grants u tn (w_now w) (w_db w))"
  by (auto simp: effective_answer_def get_user_effective_permissions_def effective_rows_def run_simps role_grants_def role_links_def from_link_def split: if_splits)

lemma access_update_user_roles [simp]:
  "roles_with_id i (update_access (user_roles_update f) d) = roles_with_id i d"
  "permissions_of_role i (update_access (user_roles_update f) d) = permissions_of_role i d"
  "direct_grants u tn t (update_access (user_roles_update f) d) = direct_grants u tn t d"
  "from_link (update_access (user_roles_update f) d) ur = from_link d ur"
  by (simp_all add: roles_with_id_def permissions_of_role_def direct_grants_def permissions_with_id_def from_link_def cong: if_cong)

text \<open>A public id names one live role, with one internal id.\<close>

lemma role_id_ofD:
  assumes "role_id_of p d = Some i" "access_ok d"
  obtains r where "r \<in> set (roles (access_of d))" "rl_id r = i" "rl_public_id r = p" "rl_deleted_at r = None" "roles_with_id i d = [r]"
    "filter (live_role p) (roles (access_of d)) = [r]"
proof -
  from assms(1) obtain r where r: "r \<in> set (roles (access_of d))" "rl_id r = i" "rl_public_id r = p" "rl_deleted_at r = None"
    by (auto simp: role_id_of_def find_role_def live_role_def dest!: find_SomeD)
  have "distinct (map rl_id (roles (access_of d)))" "distinct (map rl_public_id (roles (access_of d)))"
    using assms(2) by (simp_all add: access_ok_def roles_ok_def)
  from filter_unique_key [OF this(1) r(1,2), of "\<lambda>r. rl_deleted_at r = None"] filter_unique_key [OF this(2) r(1,3), of "\<lambda>r. rl_deleted_at r = None"] r
  show ?thesis by (intro that) (simp_all add: roles_with_id_def live_role_def [abs_def])
qed

lemma role_id_of_inj: "role_id_of p d = Some i \<Longrightarrow> role_id_of q d = Some i \<Longrightarrow> access_ok d \<Longrightarrow> p = q"
  by (metis role_id_ofD list.inject)

lemma role_answer_eq:
  assumes "role_id_of p (w_db w) = Some i" "access_ok (w_db w)" "no_faults w"
  shows "role_answer p w = pm_public_id ` set (permissions_of_role i (w_db w))"
proof -
  obtain r where r: "rl_id r = i" "filter (live_role p) (roles (access_of (w_db w))) = [r]"
    using assms(1,2) by (rule role_id_ofD)
  then have "{x \<in> set (roles (access_of (w_db w))). live_role p x} = {r}"
    by (simp flip: set_filter)
  moreover from assms(1) have "find_role p (w_db w) \<noteq> None" by (auto simp: role_id_of_def)
  ultimately show ?thesis
    using assms(3) r(1)
    by (force simp: role_answer_def list_role_permissions_def get_role_def get_role_row_def or_not_found_def list_role_permission_rows_def run_simps image_iff)
qed

section \<open>Assigning roles\<close>

lemma resolve_roles:
  assumes "run_state (try_map resolve_role ids) w = (Inr xs, w')" "no_faults w"
  shows "w' = w \<and> map snd xs = ids \<and> (\<forall>x\<in>set xs. role_id_of (snd x) (w_db w) = Some (fst x))"
  using assms
proof (induction ids arbitrary: xs w')
  case Nil
  then show ?case by (simp add: run_simps)
next
  case (Cons p ids)
  from Cons.prems(2) have "run_state (resolve_role p) w = (case role_id_of p (w_db w) of None \<Rightarrow> Inl (NotFound (role_missing p)) | Some i \<Rightarrow> Inr (i, p), w)"
    by (simp add: resolve_role_def get_role_id_def or_not_found_def run_simps role_id_of_def split: option.splits)
  with Cons.prems obtain i ys where i: "role_id_of p (w_db w) = Some i" and xs: "xs = (i, p) # ys" and ys: "run_state (try_map resolve_role ids) w = (Inr ys, w')"
    by (auto simp: run_simps split: option.splits prod.splits sum.splits)
  from Cons.IH [OF ys Cons.prems(2)] i xs show ?case by simp
qed

lemma bulk_response_Inr: "run_state (bulk_response m) w = (Inr resp, w') \<Longrightarrow> run_state m w = (Inr (ba_assigned resp, ba_already_present resp), w')"
  unfolding bulk_response_def by (auto simp: run_simps split: prod.splits sum.splits)

text \<open>The rows after a batch of assignments, and what the answer says of them.\<close>

lemma assign_user_roles_run:
  assumes "no_faults w" "access_ok (w_db w)" "run_state (assign_user_roles u tn req ctx) w = (Inr resp, w')"
  defines "link \<equiv> user_link u tn (rr_expires_at req) (rc_created_by ctx) (w_now w)"
  obtains xs where "map snd xs = rr_role_ids req" "\<forall>x\<in>set xs. role_id_of (snd x) (w_db w) = Some (fst x)"
    "w' = w\<lparr>w_db := update_access (user_roles_update (\<lambda>rs. foldl add_link rs (map (link \<circ> fst) xs))) (w_db w)\<rparr>"
    "set (ba_assigned resp) = snd ` {x \<in> set xs. (u, fst x) \<notin> link_key ` set (user_roles (access_of (w_db w)))}"
proof -
  from assms(3) obtain xs w1 where xs: "run_state (try_map resolve_role (rr_role_ids req)) w = (Inr xs, w1)"
    and run: "run_state (bulk_response (assign_user_role_rows u xs tn (rr_expires_at req) (rc_created_by ctx))) w1 = (Inr resp, w')"
    unfolding assign_user_roles_def by (auto dest!: try_bind_Inr)
  from resolve_roles [OF xs assms(1)] have w1: "w1 = w" and names: "map snd xs = rr_role_ids req"
    and ids: "\<forall>x\<in>set xs. role_id_of (snd x) (w_db w) = Some (fst x)" by auto
  let ?mk = "user_link u tn (rr_expires_at req) (rc_created_by ctx)"
  have batch: "run_state (assign_links user_roles user_roles_update ?mk xs ([], [])) w = (Inr (ba_assigned resp, ba_already_present resp), w')"
    using bulk_response_Inr [OF run] by (simp add: w1 assign_user_role_rows_def)
  have key: "link_key (?mk (w_now w) i) = (u, i)" for i by (simp add: link_key_def user_link_def)
  have "inj_on fst (set xs)"
    using ids role_id_of_inj [OF _ _ assms(2)] by (metis inj_onI prod_eqI)
  then have "set (ba_assigned resp) = snd ` {x \<in> set xs. (u, fst x) \<notin> link_key ` set (user_roles (access_of (w_db w)))}"
    using lur.assigned_links [OF assms(1), of ?mk xs "[]" "[]"] batch by (simp add: key)
  moreover have "w' = w\<lparr>w_db := update_access (user_roles_update (\<lambda>rs. foldl add_link rs (map (link \<circ> fst) xs))) (w_db w)\<rparr>"
    using lur.run_assign_links [OF assms(1), of ?mk xs "([], [])"] batch by (simp add: link_def)
  ultimately show ?thesis using names ids by (intro that)
qed

text \<open>C15. Assigning roles grants exactly their permissions: after a call that assigns roles to a user in a tenant
  and answers, the permissions the API lists for that user in that tenant are those it listed before
  together with the permissions it lists for the roles reported as assigned (none of these when the
  expiry time of the request is already over), and the permissions of every other user, and of the user
  in every other tenant, are what they were.\<close>

theorem assigned_roles_grant_their_permissions:
  assumes "no_faults w" "access_ok (w_db w)" "run_state (assign_user_roles u tn req ctx) w = (Inr resp, w')"
  shows "ef_permission_id ` effective_answer v tm w' = ef_permission_id ` effective_answer v tm w \<union>
    (if v = u \<and> tm = tn \<and> (case rr_expires_at req of None \<Rightarrow> True | Some e \<Rightarrow> w_now w < e)
     then \<Union> ((\<lambda>p. role_answer p w) ` set (ba_assigned resp)) else {})"
proof -
  define link where "link = user_link u tn (rr_expires_at req) (rc_created_by ctx) (w_now w)"
  let ?d = "w_db w"
  obtain xs where xs: "map snd xs = rr_role_ids req" "\<forall>x\<in>set xs. role_id_of (snd x) ?d = Some (fst x)"
    "w' = w\<lparr>w_db := update_access (user_roles_update (\<lambda>rs. foldl add_link rs (map (link \<circ> fst) xs))) ?d\<rparr>"
    "set (ba_assigned resp) = snd ` {x \<in> set xs. (u, fst x) \<notin> link_key ` set (user_roles (access_of ?d))}"
    using assms unfolding link_def by (rule assign_user_roles_run)
  let ?new = "{x \<in> set xs. (u, fst x) \<notin> link_key ` set (user_roles (access_of ?d))}"
  have key: "link_key (link i) = (u, i)" for i by (simp add: link_def user_link_def link_key_def)
  then have "inj_on link_key (set (map (link \<circ> fst) xs))" by (auto simp: inj_on_def)
  then have rows: "set (user_roles (access_of (w_db w'))) = set (user_roles (access_of ?d)) \<union> (link \<circ> fst) ` ?new"
    by (auto simp: xs(3) set_link_batch key)
  have held: "held_by_user v tm (w_now w) (link i) \<longleftrightarrow> v = u \<and> tm = tn \<and> (case rr_expires_at req of None \<Rightarrow> True | Some e \<Rightarrow> w_now w < e)" for i
    by (auto simp: held_by_user_def link_def user_link_def unexpired_def)
  then have links: "role_links v tm (w_now w) (w_db w') = role_links v tm (w_now w) ?d \<union>
      (if v = u \<and> tm = tn \<and> (case rr_expires_at req of None \<Rightarrow> True | Some e \<Rightarrow> w_now w < e) then (link \<circ> fst) ` ?new else {})"
    by (auto simp: role_links_def rows)
  have "ef_permission_id ` from_link ?d (link (fst x)) = role_answer (snd x) w" if "x \<in> ?new" for x
  proof -
    from that xs(2) have "role_id_of (snd x) ?d = Some (fst x)" by blast
    then obtain r where "roles_with_id (fst x) ?d = [r]" using assms(2) by (rule role_id_ofD)
    with role_answer_eq [OF \<open>role_id_of (snd x) ?d = Some (fst x)\<close> assms(2,1)] show ?thesis
      by (simp add: from_link_def link_def user_link_def image_image effective_of_def)
  qed
  then have "(\<Union>x\<in>?new. ef_permission_id ` from_link ?d (link (fst x))) = \<Union> ((\<lambda>p. role_answer p w) ` set (ba_assigned resp))"
    by (simp add: xs(4))
  moreover have "no_faults w'" "w_now w' = w_now w" "from_link (w_db w') = from_link ?d" "direct_grants v tm (w_now w) (w_db w') = direct_grants v tm (w_now w) ?d"
    using assms(1) by (simp_all add: xs(3) fun_eq_iff)
  ultimately show ?thesis
    using assms(1) by (simp add: effective_answer_eq links image_Un image_UN Un_ac)
qed

text \<open>Two roles of a tenant, one permission each, and a user whose link to the second has expired.\<close>

definition access_perm :: "string \<Rightarrow> permission_row" where
  "access_perm n = \<lparr>pm_id = ''i_'' @ n, pm_public_id = ''per_'' @ n, pm_tenant_id = None, pm_name = n, pm_description = None, pm_perm_type = SystemPermission,
     pm_resource = n, pm_action = ''read'', pm_created_at = 0, pm_updated_at = 0\<rparr>"

definition access_role :: "string \<Rightarrow> role_row" where
  "access_role n = \<lparr>rl_id = ''j_'' @ n, rl_public_id = ''rol_'' @ n, rl_tenant_id = ''t1'', rl_name = n, rl_description = None, rl_is_system = False, rl_version = 0,
     rl_created_by = ''u0'', rl_updated_by = ''u0'', rl_created_at = 0, rl_updated_at = 0, rl_deleted_at = None\<rparr>"

definition access_db_sample :: db where
  "access_db_sample = update_access (\<lambda>_. empty_access\<lparr>permissions := [access_perm ''a'', access_perm ''b''], roles := [access_role ''a'', access_role ''b''],
     role_permissions := [role_permission_link ''j_a'' key_ctx 0 ''i_a'', role_permission_link ''j_b'' key_ctx 0 ''i_b''],
     user_roles := [user_link ''usr_1'' ''t1'' (Some 5) ''u0'' 0 ''j_b'']\<rparr>) empty_db"

lemmas access_sample_simps = access_db_sample_def access_perm_def access_role_def empty_access_def role_permission_link_def user_link_def

lemma access_sample_ok: "access_ok access_db_sample"
  by (simp add: access_sample_simps access_ok_def permissions_ok_def roles_ok_def links_ok_def unique_role_names_def distinct_links_def link_key_def)

lemma assign_user_roles_answers:
  assumes "no_faults w" "role_id_of p (w_db w) = Some i"
  shows "\<exists>resp. run_state (assign_user_roles u tn \<lparr>rr_role_ids = [p], rr_expires_at = e\<rparr> ctx) w = (Inr resp, snd (run_state (assign_user_roles u tn \<lparr>rr_role_ids = [p], rr_expires_at = e\<rparr> ctx) w)) \<and>
    ba_assigned resp = (if (u, i) \<in> link_key ` set (user_roles (access_of (w_db w))) then [] else [p])"
proof -
  from assms(2) obtain r where "find_role p (w_db w) = Some r" "rl_id r = i" by (auto simp: role_id_of_def)
  then show ?thesis
    using assms(1) by (simp add: assign_user_roles_def resolve_role_def get_role_id_def or_not_found_def run_simps bulk_response_def
        assign_user_role_rows_def insert_link_def link_key_def user_link_def)
qed

theorem assigned_roles_grant_their_permissions_witness:
  "let w = start_world access_db_sample empty_keyspace 9; w' = snd (run_state (assign_user_roles ''usr_1'' ''t1'' \<lparr>rr_role_ids = [''rol_a''], rr_expires_at = Some 20\<rparr> key_ctx) w) in
     ef_permission_id ` effective_answer ''usr_1'' ''t1'' w' = ef_permission_id ` effective_answer ''usr_1'' ''t1'' w \<union> role_answer ''rol_a'' w"
proof -
  let ?w = "start_world access_db_sample empty_keyspace 9"
  have "role_id_of ''rol_a'' (w_db ?w) = Some ''j_a''" "(''usr_1'', ''j_a'') \<notin> link_key ` set (user_roles (access_of (w_db ?w)))"
    by (simp_all add: role_id_of_def find_role_def live_role_def access_sample_simps link_key_def)
  then obtain resp where "run_state (assign_user_roles ''usr_1'' ''t1'' \<lparr>rr_role_ids = [''rol_a''], rr_expires_at = Some 20\<rparr> key_ctx) ?w =
      (Inr resp, snd (run_state (assign_user_roles ''usr_1'' ''t1'' \<lparr>rr_role_ids = [''rol_a''], rr_expires_at = Some 20\<rparr> key_ctx) ?w))" "ba_assigned resp = [''rol_a'']"
    using assign_user_roles_answers [of ?w "''rol_a''" "''j_a''" "''usr_1''" "''t1''" "Some 20" key_ctx] by auto
  from assigned_roles_grant_their_permissions [OF _ _ this(1), of "''usr_1''" "''t1''"] this(2) show ?thesis
    by (simp add: access_sample_ok Let_def)
qed

section \<open>Removing a role\<close>

text \<open>Removing a role revokes exactly what came through it: after a role is removed from a user, the answer
  for that user in any tenant has lost the entries it attributed to that role and keeps every other
  entry, also when another role or a direct assignment gives the same permission; the answers for other
  users stay.\<close>

theorem removed_role_revokes_its_entries:
  assumes "no_faults w" "access_ok (w_db w)" "run_state (remove_user_role u p) w = (Inr (), w')"
  shows "effective_answer v tm w' = {e \<in> effective_answer v tm w. \<not> (v = u \<and> ef_from_role e = Some p)}"
proof -
  let ?d = "w_db w"
  have d': "w' = w\<lparr>w_db := snd (delete_link user_roles user_roles_update (Some u) (role_id_of p ?d) ?d)\<rparr>"
    and hit: "fst (delete_link user_roles user_roles_update (Some u) (role_id_of p ?d) ?d) = Inr True"
    using assms(1,3) by (auto simp: remove_user_role_def removed_or_def remove_user_role_row_def run_simps delete_link_def Let_def split: if_splits)
  then obtain i where i: "role_id_of p ?d = Some i" by (cases "role_id_of p ?d") (auto simp: delete_link_def)
  then obtain r where mem: "r \<in> set (roles (access_of ?d))" and r: "rl_id r = i" "rl_public_id r = p" using assms(2) by (rule role_id_ofD)
  have rows: "set (user_roles (access_of (w_db w'))) = {l \<in> set (user_roles (access_of ?d)). \<not> (ln_subject l = u \<and> ln_target l = i)}"
    by (auto simp: d' delete_link_def Let_def i)
  have attributed: "ef_from_role e = Some p \<longleftrightarrow> ln_target l = i" if "e \<in> from_link ?d l" for e l
  proof -
    from that obtain r' where r': "r' \<in> set (roles_with_id (ln_target l) ?d)" "ef_from_role e = Some (rl_public_id r')"
      by (auto simp: from_link_def effective_of_def)
    have "rl_public_id r' = p \<longleftrightarrow> rl_id r' = i"
    proof -
      have "r' \<in> set (roles (access_of ?d))" using r'(1) by (simp add: roles_with_id_def)
      with assms(2) mem r show ?thesis
        unfolding access_ok_def roles_ok_def by (metis inj_on_eq_iff distinct_map)
    qed
    with r' show ?thesis by (simp add: roles_with_id_def)
  qed
  have "role_links v tm (w_now w) (w_db w') = {l \<in> role_links v tm (w_now w) ?d. \<not> (v = u \<and> ln_target l = i)}"
    by (auto simp: role_links_def rows held_by_user_def)
  moreover have "direct_grants v tm (w_now w) (w_db w') = direct_grants v tm (w_now w) ?d" "from_link (w_db w') = from_link ?d"
    by (simp_all add: d' delete_link_def Let_def fun_eq_iff)
  moreover have "ef_from_role e = None" if "e \<in> set (direct_grants v tm (w_now w) ?d)" for e
    using that by (auto simp: direct_grants_def effective_of_def split: if_splits)
  ultimately show ?thesis
    using assms(1) attributed by (auto simp: effective_answer_eq d')
qed

theorem removed_role_revokes_its_entries_witness:
  "let w = start_world access_db_sample empty_keyspace 2; w' = snd (run_state (remove_user_role ''usr_1'' ''rol_b'') w) in
     effective_answer ''usr_1'' ''t1'' w' = {e \<in> effective_answer ''usr_1'' ''t1'' w. ef_from_role e \<noteq> Some ''rol_b''}"
proof -
  let ?w = "start_world access_db_sample empty_keyspace 2"
  have "fst (run_state (remove_user_role ''usr_1'' ''rol_b'') ?w) = Inr ()"
    by (simp add: remove_user_role_def removed_or_def remove_user_role_row_def run_simps delete_link_def role_id_of_def find_role_def live_role_def access_sample_simps)
  then have "run_state (remove_user_role ''usr_1'' ''rol_b'') ?w = (Inr (), snd (run_state (remove_user_role ''usr_1'' ''rol_b'') ?w))"
    by (simp add: prod_eq_iff)
  from removed_role_revokes_its_entries [OF _ _ this, of "''usr_1''" "''t1''"] show ?thesis
    by (simp add: access_sample_ok Let_def)
qed

section \<open>Assignments that are over\<close>

text \<open>An assignment cannot be renewed: once a user has been linked to a role, assigning the role again, in
  whatever tenant and with whatever expiry time, reports it as already present and changes nothing, also
  when the existing link has expired or belongs to another tenant.\<close>

theorem assignment_is_not_renewed:
  assumes "no_faults w" "role_id_of p (w_db w) = Some i" "l \<in> set (user_roles (access_of (w_db w)))" "ln_subject l = u" "ln_target l = i"
  shows "run_state (assign_user_roles u tn \<lparr>rr_role_ids = [p], rr_expires_at = e\<rparr> ctx) w = (Inr \<lparr>ba_assigned = [], ba_already_present = [p]\<rparr>, w)"
proof -
  have "(u, i) \<in> link_key ` set (user_roles (access_of (w_db w)))" using assms(3-5) by (force simp: link_key_def)
  moreover from assms(2) obtain r where "find_role p (w_db w) = Some r" "rl_id r = i" by (auto simp: role_id_of_def)
  ultimately show ?thesis
    using assms(1) by (simp add: assign_user_roles_def resolve_role_def get_role_id_def or_not_found_def run_simps bulk_response_def
        assign_user_role_rows_def insert_link_def link_key_def user_link_def role_id_of_def)
qed

theorem assignment_is_not_renewed_witness:
  "run_state (assign_user_roles ''usr_1'' ''t1'' \<lparr>rr_role_ids = [''rol_b''], rr_expires_at = Some 20\<rparr> key_ctx) (start_world access_db_sample empty_keyspace 9) =
     (Inr \<lparr>ba_assigned = [], ba_already_present = [''rol_b'']\<rparr>, start_world access_db_sample empty_keyspace 9)"
  by (rule assignment_is_not_renewed [of _ _ "''j_b''" "user_link ''usr_1'' ''t1'' (Some 5) ''u0'' 0 ''j_b''"])
    (simp_all add: role_id_of_def find_role_def live_role_def access_sample_simps)

section \<open>The roles of a new tenant\<close>

text \<open>Links of roles belong to roles that exist, and the targets linked to a role.\<close>

definition role_links_owned :: "db \<Rightarrow> bool" where
  "role_links_owned d \<longleftrightarrow> ln_subject ` set (role_permissions (access_of d)) \<subseteq> rl_id ` set (roles (access_of d))"

definition targets_of :: "uuid \<Rightarrow> db \<Rightarrow> uuid set" where
  "targets_of i d = {ln_target l |l. l \<in> set (role_permissions (access_of d)) \<and> ln_subject l = i}"

lemma permissions_of_role_targets: "set (permissions_of_role i d) = {p \<in> set (permissions (access_of d)). pm_id p \<in> targets_of i d}"
  by (auto simp: permissions_of_role_def targets_of_def split: if_splits)

lemma targets_of_new: "set (role_permissions (access_of d)) = A \<union> B \<Longrightarrow> (\<And>l. l \<in> A \<Longrightarrow> ln_subject l \<noteq> i) \<Longrightarrow>
    (\<And>l. l \<in> B \<Longrightarrow> ln_subject l = i) \<Longrightarrow> targets_of i d = ln_target ` B"
  by (auto simp: targets_of_def)

lemma create_role_row_run:
  assumes "no_faults w" "run_state (create_role_row G tn name None True ctx) w = (Inr r, w')"
  shows "w_db w' = update_access (roles_update (\<lambda>rs. rs @ [r])) (w_db w) \<and> no_faults w' \<and> rl_id r \<notin> rl_id ` set (roles (access_of (w_db w))) \<and>
    rl_name r = name \<and> rl_tenant_id r = tn \<and> rl_is_system r \<and> rl_deleted_at r = None"
  using assms by (auto simp: create_role_row_def nano_id_new_def generate_def run_simps insert_role_def Let_def split: if_splits)

lemma assign_permission_rows_run:
  assumes "no_faults w" "\<forall>l\<in>set (role_permissions (access_of (w_db w))). ln_subject l \<noteq> i"
  obtains f where "snd (run_state (assign_permission_rows i ids ctx) w) = w\<lparr>w_db := update_access (role_permissions_update f) (w_db w)\<rparr>"
    "set (f (role_permissions (access_of (w_db w)))) = set (role_permissions (access_of (w_db w))) \<union> (role_permission_link i ctx (w_now w) \<circ> fst) ` set ids"
proof -
  let ?mk = "role_permission_link i ctx"
  have key: "link_key (?mk t j) = (i, j)" for t j by (simp add: role_permission_link_def link_key_def)
  have "snd (run_state (assign_permission_rows i ids ctx) w) =
      w\<lparr>w_db := update_access (role_permissions_update (\<lambda>rs. foldl add_link rs (map (?mk (w_now w) \<circ> fst) ids))) (w_db w)\<rparr>"
    using lrp.run_assign_links [OF assms(1), of ?mk ids "([], [])"]
    by (auto simp: assign_permission_rows_def run_simps update_access_self)
  moreover have "inj_on link_key (set (map (?mk (w_now w) \<circ> fst) ids))" by (auto simp: inj_on_def key)
  then have "set (foldl add_link (role_permissions (access_of (w_db w))) (map (?mk (w_now w) \<circ> fst) ids)) =
      set (role_permissions (access_of (w_db w))) \<union> (?mk (w_now w) \<circ> fst) ` set ids"
    using assms(2) by (auto simp: set_link_batch key) (auto simp: link_key_def)
  ultimately show ?thesis by (rule that)
qed

definition seeded :: "uuid \<Rightarrow> permission_row list \<Rightarrow> db \<Rightarrow> role_row \<Rightarrow> string \<times> string list \<Rightarrow> bool" where
  "seeded tn perms d r def \<longleftrightarrow> rl_name r = fst def \<and> rl_tenant_id r = tn \<and> rl_is_system r \<and> rl_deleted_at r = None \<and>
     targets_of (rl_id r) d = pm_id ` {p \<in> set perms. pm_name p \<in> set (snd def)}"

lemma seed_roles_run:
  assumes "run_state (seed_roles G tn perms ctx defs) w = (Inr (), w')" "no_faults w" "role_links_owned (w_db w)"
  shows "\<exists>rs. roles (access_of (w_db w')) = roles (access_of (w_db w)) @ rs \<and> list_all2 (seeded tn perms (w_db w')) rs defs \<and>
    permissions (access_of (w_db w')) = permissions (access_of (w_db w)) \<and>
    (\<forall>i\<in>rl_id ` set (roles (access_of (w_db w))). targets_of i (w_db w') = targets_of i (w_db w))"
  using assms
proof (induction defs arbitrary: w)
  case Nil
  then show ?case by (simp add: run_simps)
next
  case (Cons def defs)
  obtain name ns where def: "def = (name, ns)" by (cases def)
  let ?ids = "map (\<lambda>p. (pm_id p, [] :: string)) (filter (\<lambda>p. pm_name p \<in> set ns) perms)"
  from Cons.prems(1) obtain r w1 x w2 where r: "run_state (create_role_row G tn name None True ctx) w = (Inr r, w1)"
    and x: "run_state (assign_permission_rows (rl_id r) ?ids ctx) w1 = (Inr x, w2)"
    and rest: "run_state (seed_roles G tn perms ctx defs) w2 = (Inr (), w')"
    unfolding def seed_roles.simps by (auto dest!: try_bind_Inr)
  note new = create_role_row_run [OF Cons.prems(2) r]
  from conjunct1 [OF new] have rp1: "role_permissions (access_of (w_db w1)) = role_permissions (access_of (w_db w))" by simp
  have free: "\<forall>l\<in>set (role_permissions (access_of (w_db w1))). ln_subject l \<noteq> rl_id r"
  proof (rule ballI, rule notI)
    fix l
    assume "l \<in> set (role_permissions (access_of (w_db w1)))" "ln_subject l = rl_id r"
    then have "rl_id r \<in> rl_id ` set (roles (access_of (w_db w)))"
      using subsetD [OF Cons.prems(3) [unfolded role_links_owned_def]] unfolding rp1 by (metis imageI)
    with new show False by simp
  qed
  from new have "no_faults w1" by simp
  then obtain f where "snd (run_state (assign_permission_rows (rl_id r) ?ids ctx) w1) = w1\<lparr>w_db := update_access (role_permissions_update f) (w_db w1)\<rparr>"
    and f: "set (f (role_permissions (access_of (w_db w1)))) = set (role_permissions (access_of (w_db w1))) \<union>
      (role_permission_link (rl_id r) ctx (w_now w1) \<circ> fst) ` set ?ids"
    using free by (rule assign_permission_rows_run [where ids = ?ids and ctx = ctx])
  then have w2: "w2 = w1\<lparr>w_db := update_access (role_permissions_update f) (w_db w1)\<rparr>" by (simp add: x)
  have roles2: "roles (access_of (w_db w2)) = roles (access_of (w_db w)) @ [r]"
    and perms2: "permissions (access_of (w_db w2)) = permissions (access_of (w_db w))"
    and links2: "set (role_permissions (access_of (w_db w2))) = set (role_permissions (access_of (w_db w))) \<union>
      (role_permission_link (rl_id r) ctx (w_now w1) \<circ> fst) ` set ?ids"
    using f conjunct1 [OF new] by (simp_all add: w2)
  have "ln_subject l \<noteq> rl_id r" if "l \<in> set (role_permissions (access_of (w_db w)))" for l
    using free that by (simp add: rp1)
  then have "targets_of (rl_id r) (w_db w2) = ln_target ` (role_permission_link (rl_id r) ctx (w_now w1) \<circ> fst) ` set ?ids"
    by (intro targets_of_new [OF links2]) (auto simp: role_permission_link_def)
  then have "targets_of (rl_id r) (w_db w2) = pm_id ` {p \<in> set perms. pm_name p \<in> set ns}"
    by (simp add: image_image role_permission_link_def)
  moreover have old: "targets_of i (w_db w2) = targets_of i (w_db w)" if "i \<in> rl_id ` set (roles (access_of (w_db w)))" for i
    using that new by (auto simp: targets_of_def links2 role_permission_link_def)
  moreover have "role_links_owned (w_db w2)"
    using Cons.prems(3) by (auto simp: role_links_owned_def links2 roles2 role_permission_link_def)
  moreover have "no_faults w2" using new by (simp add: w2)
  ultimately show ?case
    using Cons.IH [OF rest] new roles2 perms2 by (auto simp: def seeded_def)
qed


definition seed_db :: db where
  "seed_db = update_access (\<lambda>_. empty_access\<lparr>permissions := [access_perm ''*:*'', access_perm ''events:read'']\<rparr>) empty_db"

lemma seeding_answers:
  "fst (run_state (try_bind list_system (\<lambda>perms. seed_default_roles counting_idgen ''t2'' perms key_ctx)) (start_world seed_db empty_keyspace 9)) = Inr ()"
  by (simp add: list_system_def seed_default_roles_def role_definitions_def create_role_row_def nano_id_new_def generate_def run_simps Let_def
      insert_role_def role_name_taken_def seed_db_def empty_access_def access_perm_def assign_permission_rows_def insert_link_def link_key_def
      role_permission_link_def counting_idgen_def show_nat.simps)


end
