(* ===== verification/Invites.thy ===== *)
theory Invites
  imports Api_Key_Service
begin

text \<open>
  Invitations and the members they lead to (\<open>src/features/invites/\<close>): requests, statements with the
  constraints of the migration, and the operations create, get, list, delete, revoke, resend, verify and
  accept with their handlers. SHA-256, base64, the parser of UUID bytes, the check of e-mail addresses and
  the e-mail service (\<open>src/email.rs\<close>) are parameters.
\<close>

section \<open>Tokens and cursors\<close>

record invite_ext =
  ix_crypto :: crypto_ext
  ix_sha256 :: "string \<Rightarrow> string"
  ix_uuid_from_slice :: "string \<Rightarrow> uuid option"
  ix_valid_email :: "string \<Rightarrow> bool"
  ix_send_invite :: "nat \<Rightarrow> string \<Rightarrow> string \<Rightarrow> string \<Rightarrow> time \<Rightarrow> app_error + unit"

text \<open>\<open>Uuid::simple\<close>: the text without hyphens.\<close>

definition simple :: "uuid \<Rightarrow> string" where
  "simple u = filter (\<lambda>c. c \<noteq> CHR ''-'') u"

definition generate_token :: "idgen \<Rightarrow> string io" where
  "generate_token G = do { m \<leftarrow> fresh; n \<leftarrow> fresh; State_Monad.return (simple (uuid_of G m) @ simple (uuid_of G n)) }"

text \<open>\<open>format!("{:02x}", b)\<close>.\<close>

definition lower_hex :: "char \<Rightarrow> string" where
  "lower_hex c = (let n = of_char c :: nat; digits = ''0123456789abcdef'' in [digits ! (n div 16), digits ! (n mod 16)])"

definition hash_token :: "invite_ext \<Rightarrow> string \<Rightarrow> string" where
  "hash_token I token = concat (map lower_hex (ix_sha256 I token))"

definition encode_invite_cursor :: "invite_ext \<Rightarrow> uuid \<Rightarrow> string" where
  "encode_invite_cursor I i = b64url_encode (ix_crypto I) (uuid_bytes (ix_crypto I) i)"

definition decode_invite_cursor :: "invite_ext \<Rightarrow> string \<Rightarrow> app_error + uuid" where
  "decode_invite_cursor I s = (case b64url_decode (ix_crypto I) s of None \<Rightarrow> Inl (BadRequest ''invalid cursor'')
     | Some bytes \<Rightarrow> (case ix_uuid_from_slice I bytes of None \<Rightarrow> Inl (BadRequest ''invalid cursor'') | Some i \<Rightarrow> Inr i))"

section \<open>Requests and responses\<close>

record create_invite_request =
  ci_user_email :: string
  ci_role :: string
  ci_tenant_id :: string
  ci_organization_id :: string
  ci_expires_at :: "time option"
  ci_tags :: "json option"
  ci_metadata :: "json option"
  ci_created_by :: uuid

definition validate_email :: "invite_ext \<Rightarrow> string \<Rightarrow> string \<Rightarrow> validation_error list" where
  "validate_email I message s = (if ix_valid_email I s then [] else [\<lparr>ve_code = ''email'', ve_message = Some message, ve_params = [''value'' \<mapsto> PString s]\<rparr>])"

definition validate_invite :: "invite_ext \<Rightarrow> time \<Rightarrow> create_invite_request \<Rightarrow> app_error + unit" where
  "validate_invite I t r = reject_errors
     [(''user_email'', validate_not_blank ''user_email is required'' (ci_user_email r) @
        validate_email I ''user_email is not a valid email address'' (ci_user_email r) @
        validate_max 255 ''user_email must be 255 characters or fewer'' (ci_user_email r)),
      (''role'', validate_not_blank ''role is required'' (ci_role r) @ validate_max 50 ''role must be 50 characters or fewer'' (ci_role r)),
      (''expires_at'', on_some (ci_expires_at r) (validate_future_date ''expires_at must be a future date'' t))]"

record list_invites_query =
  li_limit :: "int option"
  li_cursor :: "string option"
  li_tenant_id :: "string option"
  li_organization_id :: "string option"
  li_status :: "string option"
  li_user_email :: "string option"

record invite_response =
  ir_id :: string
  ir_tenant_id :: uuid
  ir_organization_id :: uuid
  ir_user_email :: string
  ir_role :: string
  ir_status :: string
  ir_tags :: json
  ir_created_by :: uuid
  ir_request_id :: uuid
  ir_created_at :: time
  ir_updated_at :: time
  ir_revoked_at :: "time option"
  ir_accepted_at :: "time option"
  ir_expires_at :: time
  ir_token :: "string option"

definition invite_from_row :: "invite_row \<Rightarrow> invite_response" where
  "invite_from_row r = \<lparr>ir_id = iv_public_id r, ir_tenant_id = iv_tenant_id r, ir_organization_id = iv_org_id r, ir_user_email = iv_user_email r,
     ir_role = iv_role r, ir_status = iv_status r, ir_tags = iv_tags r, ir_created_by = iv_created_by r, ir_request_id = iv_request_id r,
     ir_created_at = iv_created_at r, ir_updated_at = iv_updated_at r, ir_revoked_at = iv_revoked_at r, ir_accepted_at = iv_accepted_at r,
     ir_expires_at = iv_expires_at r, ir_token = None\<rparr>"

definition with_token :: "string \<Rightarrow> invite_response \<Rightarrow> invite_response" where
  "with_token token r = r\<lparr>ir_token := Some token\<rparr>"

record invite_verify_response =
  vr_id :: string
  vr_user_email :: string
  vr_role :: string
  vr_tenant_id :: uuid
  vr_organization_id :: uuid
  vr_expires_at :: time
  vr_status :: string

definition verify_response_of :: "invite_row \<Rightarrow> invite_verify_response" where
  "verify_response_of r = \<lparr>vr_id = iv_public_id r, vr_user_email = iv_user_email r, vr_role = iv_role r, vr_tenant_id = iv_tenant_id r,
     vr_organization_id = iv_org_id r, vr_expires_at = iv_expires_at r, vr_status = iv_status r\<rparr>"

record member_response =
  me_id :: string
  me_tenant_id :: uuid
  me_organization_id :: uuid
  me_invite_id :: string
  me_user_email :: string
  me_user_id :: "uuid option"
  me_role :: string
  me_status :: string
  me_created_at :: time

text \<open>\<open>TenantMemberRow\<close> is the row together with the public id of its invite.\<close>

definition member_response_of :: "member_row \<times> string \<Rightarrow> member_response" where
  "member_response_of v = (case v of (m, invite_public_id) \<Rightarrow> \<lparr>me_id = mb_public_id m, me_tenant_id = mb_tenant_id m, me_organization_id = mb_org_id m,
     me_invite_id = invite_public_id, me_user_email = mb_user_email m, me_user_id = mb_user_id m, me_role = mb_role m, me_status = mb_status m,
     me_created_at = mb_created_at m\<rparr>)"

section \<open>Statements\<close>

definition resolve_tenant :: "string \<Rightarrow> (app_error + uuid option) io" where
  "resolve_tenant public_id = map_sqlx (query (\<lambda>_ d. map_option tn_id (find (\<lambda>t. tn_public_id t = public_id \<and> tn_deleted_at t = None) (tenants (identity d)))))"

definition resolve_organization :: "string \<Rightarrow> (app_error + uuid option) io" where
  "resolve_organization public_id = map_sqlx (query (\<lambda>_ d. map_option og_id (find (\<lambda>g. og_public_id g = public_id \<and> og_deleted_at g = None) (organizations d))))"

definition insert_invite :: "invite_row \<Rightarrow> db \<Rightarrow> (sqlx_error + unit) \<times> db" where
  "insert_invite r d = (let rs = invites (identity d) in
     if \<not> nonempty_text (iv_user_email r) then (Inl (check_failed ''invites'' ''invites_email_nonempty''), d)
     else if \<not> nonempty_text (iv_role r) then (Inl (check_failed ''invites'' ''invites_role_nonempty''), d)
     else if \<exists>x\<in>set rs. iv_id x = iv_id r then (Inl (duplicate_key ''invites'' ''invites_pk'' ''id'' (iv_id r)), d)
     else if \<exists>x\<in>set rs. iv_public_id x = iv_public_id r then (Inl (duplicate_key ''invites'' ''invites_public_id_uq'' ''public_id'' (iv_public_id r)), d)
     else if \<exists>x\<in>set rs. iv_token_hash x = iv_token_hash r then (Inl (duplicate_key ''invites'' ''invites_token_hash_uq'' ''token_hash'' (iv_token_hash r)), d)
     else if find_tenant (iv_tenant_id r) d = None then (Inl (missing_reference ''invites'' ''invites_tenant_id_fkey''), d)
     else if find_org (iv_org_id r) d = None then (Inl (missing_reference ''invites'' ''invites_organization_id_fkey''), d)
     else (Inr (), update_identity (invites_update (\<lambda>_. rs @ [r])) d))"

definition new_invite :: "uuid \<Rightarrow> string \<Rightarrow> uuid \<Rightarrow> uuid \<Rightarrow> string \<Rightarrow> string \<Rightarrow> string \<Rightarrow> json \<Rightarrow> json \<Rightarrow> time \<Rightarrow> uuid \<Rightarrow> uuid \<Rightarrow> time \<Rightarrow> invite_row" where
  "new_invite i public_id tenant_id organization_id user_email role token_hash tags metadata expires_at created_by request_id t =
     \<lparr>iv_id = i, iv_public_id = public_id, iv_tenant_id = tenant_id, iv_org_id = organization_id, iv_user_email = user_email, iv_role = role,
      iv_status = ''sent'', iv_token_hash = token_hash, iv_tags = tags, iv_metadata = metadata, iv_created_by = created_by, iv_request_id = request_id,
      iv_version = 1, iv_created_at = t, iv_updated_at = t, iv_deleted_at = None, iv_revoked_at = None, iv_accepted_at = None, iv_expires_at = expires_at\<rparr>"

definition get_invite_by_id :: "uuid \<Rightarrow> (app_error + invite_row option) io" where
  "get_invite_by_id i = map_sqlx (query (\<lambda>_ d. find (\<lambda>r. iv_id r = i) (invites (identity d))))"

definition create_invite_row :: "idgen \<Rightarrow> uuid \<Rightarrow> uuid \<Rightarrow> string \<Rightarrow> string \<Rightarrow> string \<Rightarrow> json \<Rightarrow> json \<Rightarrow> time \<Rightarrow> uuid \<Rightarrow> uuid \<Rightarrow> (app_error + invite_row) io" where
  "create_invite_row G tenant_id organization_id user_email role token_hash tags metadata expires_at created_by request_id = do {
     n \<leftarrow> fresh;
     nano \<leftarrow> nano_id_new G;
     try_bind (map_sqlx (statement (\<lambda>t. insert_invite (new_invite (uuid_of G n) (''inv_'' @ nano) tenant_id organization_id user_email role token_hash
         tags metadata expires_at created_by request_id t))))
       (\<lambda>_. try_bind (get_invite_by_id (uuid_of G n)) (\<lambda>r. State_Monad.return (case r of
          None \<Rightarrow> Inl (Internal ''invite created but not found on fetch'') | Some row \<Rightarrow> Inr row))) }"

definition get_invite_by_public_id :: "string \<Rightarrow> (app_error + invite_row option) io" where
  "get_invite_by_public_id public_id = map_sqlx (query (\<lambda>_ d. find (\<lambda>r. iv_public_id r = public_id \<and> iv_deleted_at r = None) (invites (identity d))))"

definition get_by_token_hash :: "string \<Rightarrow> (app_error + invite_row option) io" where
  "get_by_token_hash token_hash = map_sqlx (query (\<lambda>_ d. find (\<lambda>r. iv_token_hash r = token_hash \<and> iv_deleted_at r = None) (invites (identity d))))"

definition update_invites :: "(invite_row \<Rightarrow> bool) \<Rightarrow> (invite_row \<Rightarrow> invite_row) \<Rightarrow> db \<Rightarrow> db" where
  "update_invites p f d = update_identity (invites_update (update_where p f)) d"

definition touch_invite :: "time \<Rightarrow> invite_row \<Rightarrow> invite_row" where
  "touch_invite t r = r\<lparr>iv_version := iv_version r + 1, iv_updated_at := t\<rparr>"

definition or_else :: "'a option \<Rightarrow> 'a option \<Rightarrow> 'a option" where
  "or_else x y = (case x of None \<Rightarrow> y | Some a \<Rightarrow> Some a)"

definition apply_status :: "string \<Rightarrow> time option \<Rightarrow> time option \<Rightarrow> time \<Rightarrow> invite_row \<Rightarrow> invite_row" where
  "apply_status status revoked_at accepted_at t r = touch_invite t (r\<lparr>iv_status := status, iv_revoked_at := or_else revoked_at (iv_revoked_at r),
     iv_accepted_at := or_else accepted_at (iv_accepted_at r)\<rparr>)"

definition set_invite_status :: "uuid \<Rightarrow> string \<Rightarrow> time option \<Rightarrow> time option \<Rightarrow> (app_error + invite_row option) io" where
  "set_invite_status i status revoked_at accepted_at = try_bind (map_sqlx (statement (\<lambda>t d. let hit = (\<lambda>r. iv_id r = i \<and> iv_deleted_at r = None) in
       (Inr (map_option iv_id (find hit (invites (identity d)))),
        update_invites hit (apply_status status revoked_at accepted_at t) d))))
     (\<lambda>updated. case updated of None \<Rightarrow> State_Monad.return (Inr None) | Some j \<Rightarrow> get_invite_by_id j)"

definition delete_invite_row :: "string \<Rightarrow> (app_error + bool) io" where
  "delete_invite_row public_id = map_sqlx (statement (\<lambda>t d. let hit = (\<lambda>r. iv_public_id r = public_id \<and> iv_deleted_at r = None) in
     (Inr (\<exists>r\<in>set (invites (identity d)). hit r), update_invites hit (\<lambda>r. touch_invite t (r\<lparr>iv_deleted_at := Some t\<rparr>)) d)))"

definition resendable :: "string \<Rightarrow> invite_row \<Rightarrow> bool" where
  "resendable public_id r \<longleftrightarrow> iv_public_id r = public_id \<and> iv_status r \<in> {''sent'', ''failed'', ''opened''} \<and> iv_deleted_at r = None"

text \<open>Revoking the old invite and inserting the new one in one transaction. The insertion works on the
  transaction's copy of the tables.\<close>

definition insert_resent :: "idgen \<Rightarrow> invite_row \<Rightarrow> string \<Rightarrow> time \<Rightarrow> uuid \<Rightarrow> uuid \<Rightarrow> db \<Rightarrow> (app_error + invite_row option) io" where
  "insert_resent G old new_token_hash new_expires_at created_by request_id d = do {
     n \<leftarrow> fresh;
     nano \<leftarrow> nano_id_new G;
     try_bind (map_sqlx (tx_statement (\<lambda>t. insert_invite (new_invite (uuid_of G n) (''inv_'' @ nano) (iv_tenant_id old) (iv_org_id old) (iv_user_email old)
         (iv_role old) new_token_hash (iv_tags old) (iv_metadata old) new_expires_at created_by request_id t)) d)) (\<lambda>(_, d').
     try_bind (map_sqlx (tx_commit d')) (\<lambda>_. get_invite_by_id (uuid_of G n))) }"

definition revoke_resendable :: "string \<Rightarrow> time \<Rightarrow> db \<Rightarrow> (sqlx_error + invite_row option) \<times> db" where
  "revoke_resendable public_id t d = (Inr (find (resendable public_id) (invites (identity d))),
     update_invites (resendable public_id) (\<lambda>r. touch_invite t (r\<lparr>iv_status := ''revoked'', iv_revoked_at := Some t\<rparr>)) d)"

definition resend_rows :: "idgen \<Rightarrow> string \<Rightarrow> string \<Rightarrow> time \<Rightarrow> uuid \<Rightarrow> uuid \<Rightarrow> (app_error + invite_row option) io" where
  "resend_rows G public_id new_token_hash new_expires_at created_by request_id =
     try_bind (map_sqlx tx_begin) (\<lambda>d.
     try_bind (map_sqlx (tx_statement (revoke_resendable public_id) d)) (\<lambda>(found, d1).
     case found of
       None \<Rightarrow> try_bind (map_sqlx (query (\<lambda>_ _. ()))) (\<lambda>_. State_Monad.return (Inr None))
     | Some old \<Rightarrow> insert_resent G old new_token_hash new_expires_at created_by request_id d1))"

definition list_invite_rows :: "nat \<Rightarrow> uuid option \<Rightarrow> uuid option \<Rightarrow> uuid option \<Rightarrow> string option \<Rightarrow> string option \<Rightarrow> (app_error + invite_row list \<times> uuid option) io" where
  "list_invite_rows limit cursor tenant_id organization_id status user_email = map_sqlx (query (\<lambda>_ d. cut_page iv_id limit (sort_key iv_id (filter (\<lambda>r.
       iv_deleted_at r = None \<and>
       (case cursor of None \<Rightarrow> True | Some c \<Rightarrow> c < iv_id r) \<and>
       (case tenant_id of None \<Rightarrow> True | Some t \<Rightarrow> iv_tenant_id r = t) \<and>
       (case organization_id of None \<Rightarrow> True | Some g \<Rightarrow> iv_org_id r = g) \<and>
       (case status of None \<Rightarrow> True | Some s \<Rightarrow> iv_status r = s) \<and>
       (case user_email of None \<Rightarrow> True | Some e \<Rightarrow> iv_user_email r = e)) (invites (identity d))))))"

definition insert_member :: "member_row \<Rightarrow> db \<Rightarrow> (sqlx_error + unit) \<times> db" where
  "insert_member m d = (let ms = tenant_members (identity d) in
     if \<exists>x\<in>set ms. mb_id x = mb_id m then (Inl (duplicate_key ''tenant_members'' ''tenant_members_pk'' ''id'' (mb_id m)), d)
     else if \<exists>x\<in>set ms. mb_public_id x = mb_public_id m then (Inl (duplicate_key ''tenant_members'' ''tenant_members_pubid_uq'' ''public_id'' (mb_public_id m)), d)
     else if \<exists>x\<in>set ms. mb_invite_id x = mb_invite_id m then (Inl (duplicate_key ''tenant_members'' ''tenant_members_invite_uq'' ''invite_id'' (mb_invite_id m)), d)
     else if \<exists>x\<in>set ms. mb_tenant_id x = mb_tenant_id m \<and> mb_user_email x = mb_user_email m \<and> mb_deleted_at x = None
       then (Inl (duplicate_key ''tenant_members'' ''tenant_members_active_uq'' ''tenant_id, user_email'' (mb_tenant_id m @ '', '' @ mb_user_email m)), d)
     else if find_tenant (mb_tenant_id m) d = None then (Inl (missing_reference ''tenant_members'' ''tenant_members_tenant_id_fkey''), d)
     else if find_org (mb_org_id m) d = None then (Inl (missing_reference ''tenant_members'' ''tenant_members_organization_id_fkey''), d)
     else if \<not> (\<exists>r\<in>set (invites (identity d)). iv_id r = mb_invite_id m) then (Inl (missing_reference ''tenant_members'' ''tenant_members_invite_id_fkey''), d)
     else (Inr (), update_identity (tenant_members_update (\<lambda>_. ms @ [m])) d))"

definition view_member :: "db \<Rightarrow> member_row \<Rightarrow> (member_row \<times> string) option" where
  "view_member d m = map_option (\<lambda>r. (m, iv_public_id r)) (find (\<lambda>r. iv_id r = mb_invite_id m) (invites (identity d)))"

definition create_member :: "idgen \<Rightarrow> uuid \<Rightarrow> uuid \<Rightarrow> uuid \<Rightarrow> string \<Rightarrow> string \<Rightarrow> (app_error + member_row \<times> string) io" where
  "create_member G invite_id tenant_id organization_id user_email role = do {
     n \<leftarrow> fresh;
     nano \<leftarrow> nano_id_new G;
     try_bind (map_sqlx (statement (\<lambda>t. insert_member \<lparr>mb_id = uuid_of G n, mb_public_id = ''mem_'' @ nano, mb_tenant_id = tenant_id, mb_org_id = organization_id,
         mb_invite_id = invite_id, mb_user_email = user_email, mb_user_id = None, mb_role = role, mb_status = ''active'', mb_created_at = t, mb_updated_at = t,
         mb_deleted_at = None\<rparr>)))
       (\<lambda>_. map_sqlx (fetch_one (query (\<lambda>_ d. first_row (List.map_filter (view_member d) (filter (\<lambda>m. mb_id m = uuid_of G n) (tenant_members (identity d)))))))) }"

section \<open>Operations\<close>

definition send_or_fail :: "invite_ext \<Rightarrow> invite_row \<Rightarrow> string \<Rightarrow> unit io" where
  "send_or_fail I row token = do {
     n \<leftarrow> fresh;
     case ix_send_invite I n (iv_user_email row) token (iv_role row) (iv_expires_at row) of
       Inr _ \<Rightarrow> State_Monad.return ()
     | Inl _ \<Rightarrow> do { _ \<leftarrow> set_invite_status (iv_id row) ''failed'' None None; State_Monad.return () } }"

definition days :: "int \<Rightarrow> time" where
  "days n = secs (86400 * n)"

definition create_invite :: "invite_ext \<Rightarrow> idgen \<Rightarrow> create_invite_request \<Rightarrow> uuid \<Rightarrow> (app_error + invite_response) io" where
  "create_invite I G req request_id = do {
     t \<leftarrow> now;
     checked (validate_invite I t req) (do {
       t' \<leftarrow> now;
       let expires_at = coalesce (ci_expires_at req) (t' + days 7);
       token \<leftarrow> generate_token G;
       let token_hash = hash_token I token;
       try_bind (or_not_found (resolve_tenant (ci_tenant_id req)) (''Tenant not found: '' @ ci_tenant_id req)) (\<lambda>tenant_id.
       try_bind (or_not_found (resolve_organization (ci_organization_id req)) (''Organization not found: '' @ ci_organization_id req)) (\<lambda>organization_id.
       try_bind (create_invite_row G tenant_id organization_id (trim (ci_user_email req)) (trim (ci_role req)) token_hash
         (coalesce (ci_tags req) (JObject [])) (coalesce (ci_metadata req) (JObject [])) expires_at (ci_created_by req) request_id) (\<lambda>row. do {
           _ \<leftarrow> send_or_fail I row token;
           State_Monad.return (Inr (with_token token (invite_from_row row))) }))) }) }"

definition invite_missing :: "string \<Rightarrow> string" where
  "invite_missing public_id = ''Invite not found: '' @ public_id"

definition get_invite :: "string \<Rightarrow> (app_error + invite_response) io" where
  "get_invite public_id = try_bind (or_not_found (get_invite_by_public_id public_id) (invite_missing public_id))
     (\<lambda>r. State_Monad.return (Inr (invite_from_row r)))"

text \<open>An optional public id that has to exist when it is given.\<close>

definition resolve_given :: "(string \<Rightarrow> (app_error + uuid option) io) \<Rightarrow> string \<Rightarrow> string option \<Rightarrow> (app_error + uuid option) io" where
  "resolve_given resolve what given = (case given of None \<Rightarrow> State_Monad.return (Inr None)
     | Some pid \<Rightarrow> try_bind (or_not_found (resolve pid) (what @ '' not found: '' @ pid)) (\<lambda>i. State_Monad.return (Inr (Some i))))"

definition list_invites :: "invite_ext \<Rightarrow> list_invites_query \<Rightarrow> (app_error + invite_response list \<times> string option \<times> nat) io" where
  "list_invites I q = (let limit = page_limit (li_limit q) in
     case (case li_cursor q of None \<Rightarrow> Inr None | Some c \<Rightarrow> map_sum id Some (decode_invite_cursor I c)) of
       Inl e \<Rightarrow> State_Monad.return (Inl e)
     | Inr cursor \<Rightarrow>
         try_bind (resolve_given resolve_tenant ''Tenant'' (li_tenant_id q)) (\<lambda>tenant_id.
         try_bind (resolve_given resolve_organization ''Organization'' (li_organization_id q)) (\<lambda>organization_id.
         try_bind (list_invite_rows limit cursor tenant_id organization_id (li_status q) (li_user_email q)) (\<lambda>(rows, next_id).
           State_Monad.return (Inr (map invite_from_row rows, map_option (encode_invite_cursor I) next_id, limit))))))"

definition delete_invite :: "string \<Rightarrow> (app_error + unit) io" where
  "delete_invite public_id = try_bind (delete_invite_row public_id) (\<lambda>deleted.
     State_Monad.return (if deleted then Inr () else Inl (NotFound (invite_missing public_id))))"

definition or_internal :: "(app_error + 'a option) io \<Rightarrow> string \<Rightarrow> (app_error + 'a) io" where
  "or_internal m msg = try_bind m (\<lambda>r. State_Monad.return (case r of None \<Rightarrow> Inl (Internal msg) | Some a \<Rightarrow> Inr a))"

definition revoke_invite :: "string \<Rightarrow> (app_error + invite_response) io" where
  "revoke_invite public_id = try_bind (or_not_found (get_invite_by_public_id public_id) (invite_missing public_id)) (\<lambda>row.
     if iv_status row \<notin> {''sent'', ''opened'', ''failed''}
     then State_Monad.return (Inl (BadRequest (''cannot revoke an invite with status '' @ [CHR 0x27] @ iv_status row @ [CHR 0x27])))
     else do {
       t \<leftarrow> now;
       try_bind (or_internal (set_invite_status (iv_id row) ''revoked'' (Some t) None) ''invite revoke failed'') (\<lambda>updated.
         State_Monad.return (Inr (invite_from_row updated))) })"

definition resend_invite :: "invite_ext \<Rightarrow> idgen \<Rightarrow> string \<Rightarrow> uuid \<Rightarrow> (app_error + invite_response) io" where
  "resend_invite I G public_id request_id = do {
     token \<leftarrow> generate_token G;
     let token_hash = hash_token I token;
     t \<leftarrow> now;
     try_bind (or_not_found (resend_rows G public_id token_hash (t + days 7) nil_uuid request_id) (''Invite not found or cannot be resent: '' @ public_id)) (\<lambda>row. do {
       _ \<leftarrow> send_or_fail I row token;
       State_Monad.return (Inr (with_token token (invite_from_row row))) }) }"

definition token_invite :: "invite_ext \<Rightarrow> string \<Rightarrow> (app_error + invite_row) io" where
  "token_invite I token = (if trim token = [] then State_Monad.return (Inl (BadRequest ''token cannot be empty''))
     else try_bind (or_not_found (get_by_token_hash (hash_token I token)) ''invite not found'') (\<lambda>row. do {
       t \<leftarrow> now;
       State_Monad.return (if iv_expires_at row \<le> t then Inl (BadRequest ''invite has expired'') else Inr row) }))"

definition verify_invite :: "invite_ext \<Rightarrow> string \<Rightarrow> (app_error + invite_verify_response) io" where
  "verify_invite I token = try_bind (token_invite I token) (\<lambda>row.
     if iv_status row \<in> {''revoked'', ''accepted''} then State_Monad.return (Inl (BadRequest (''invite is '' @ iv_status row)))
     else if iv_status row \<noteq> ''opened''
       then try_bind (or_internal (set_invite_status (iv_id row) ''opened'' None None) ''failed to update invite status'') (\<lambda>updated.
         State_Monad.return (Inr (verify_response_of updated)))
     else State_Monad.return (Inr (verify_response_of row)))"

definition accept_invite :: "invite_ext \<Rightarrow> idgen \<Rightarrow> string \<Rightarrow> (app_error + member_response) io" where
  "accept_invite I G token = try_bind (token_invite I token) (\<lambda>row.
     if iv_status row = ''accepted'' then State_Monad.return (Inl (Conflict ''invite has already been accepted'' []))
     else if iv_status row = ''revoked'' then State_Monad.return (Inl (BadRequest ''invite has been revoked''))
     else do {
       t \<leftarrow> now;
       try_bind (or_internal (set_invite_status (iv_id row) ''accepted'' None (Some t)) ''failed to accept invite'') (\<lambda>updated.
       try_bind (create_member G (iv_id updated) (iv_tenant_id updated) (iv_org_id updated) (iv_user_email updated) (iv_role updated)) (\<lambda>member.
         State_Monad.return (Inr (member_response_of member)))) })"

section \<open>Handlers\<close>

definition create_invite_handler :: "invite_ext \<Rightarrow> idgen \<Rightarrow> request_context \<Rightarrow> create_invite_request \<Rightarrow> (app_error + int \<times> invite_response) io" where
  "create_invite_handler I G ctx payload = with_status 201 id (create_invite I G payload (rc_request_id ctx))"

definition get_invite_handler :: "string \<Rightarrow> (app_error + int \<times> invite_response) io" where
  "get_invite_handler public_id = checked (validate_id_prefix public_id ''inv_'' ''invite'') (with_status 200 id (get_invite public_id))"

definition delete_invite_handler :: "string \<Rightarrow> (app_error + int \<times> unit) io" where
  "delete_invite_handler public_id = with_status 204 id (delete_invite public_id)"

definition resend_invite_handler :: "invite_ext \<Rightarrow> idgen \<Rightarrow> request_context \<Rightarrow> string \<Rightarrow> (app_error + int \<times> invite_response) io" where
  "resend_invite_handler I G ctx public_id = with_status 200 id (resend_invite I G public_id (rc_request_id ctx))"

end
