(* ===== verification/Invite_State.thy ===== *)
theory Invite_State
  imports Invites Api_Key_Props
begin

text \<open>
  The life of an invite under any sequence of calls and any faults. The status follows an automaton in
  which accepted and revoked are final, and members come from accepted invites. Both facts are instances
  of one locale: what a property of the tables has to satisfy for the operations to keep it.
\<close>

section \<open>The automaton\<close>

inductive invite_move :: "string \<Rightarrow> string \<Rightarrow> bool" where
  opened: "s \<notin> {''revoked'', ''accepted'', ''opened''} \<Longrightarrow> invite_move s ''opened''"
| accepted: "s \<notin> {''revoked'', ''accepted''} \<Longrightarrow> invite_move s ''accepted''"
| revoked: "s \<in> {''sent'', ''opened'', ''failed''} \<Longrightarrow> invite_move s ''revoked''"
| failed: "invite_move ''sent'' ''failed''"

inductive_cases invite_moveE: "invite_move s s'"

lemma closed_final: "invite_move\<^sup>*\<^sup>* s s' \<Longrightarrow> s \<in> {''accepted'', ''revoked''} \<Longrightarrow> s' = s"
  by (induction rule: converse_rtranclp_induct) (auto elim!: invite_moveE)

text \<open>A change of rows that moves the status along the automaton and keeps who is invited to what.\<close>

definition same_invite :: "invite_row \<Rightarrow> invite_row \<Rightarrow> bool" where
  "same_invite r r' \<longleftrightarrow> iv_id r' = iv_id r \<and> iv_public_id r' = iv_public_id r \<and> iv_tenant_id r' = iv_tenant_id r \<and> iv_org_id r' = iv_org_id r \<and>
     iv_user_email r' = iv_user_email r \<and> iv_role r' = iv_role r \<and> iv_token_hash r' = iv_token_hash r"

definition invite_step :: "invite_row \<Rightarrow> invite_row \<Rightarrow> bool" where
  "invite_step r r' \<longleftrightarrow> same_invite r r' \<and> (iv_status r' = iv_status r \<or> invite_move (iv_status r) (iv_status r'))"

section \<open>What the operations keep\<close>

locale invite_invariant =
  fixes P :: "world \<Rightarrow> bool"
  assumes stable: "stable P"
    and distinct_ids: "P w \<Longrightarrow> distinct (map iv_id (invites (identity (w_db w))))"
    and insert_ok: "P w \<Longrightarrow> insert_invite r (w_db w) = (Inr (), d) \<Longrightarrow> P (w\<lparr>w_db := d\<rparr>)"
    and update_ok: "P w \<Longrightarrow> (\<And>r. r \<in> set (invites (identity (w_db w))) \<Longrightarrow> p r \<Longrightarrow> invite_step r (f r)) \<Longrightarrow>
      P (w\<lparr>w_db := update_invites p f (w_db w)\<rparr>)"
    and member_ok: "P w \<Longrightarrow> insert_member m (w_db w) = (Inr (), d) \<Longrightarrow> r \<in> set (invites (identity (w_db w))) \<Longrightarrow> iv_status r = ''accepted'' \<Longrightarrow>
      mb_invite_id m = iv_id r \<Longrightarrow> mb_tenant_id m = iv_tenant_id r \<Longrightarrow> mb_user_email m = iv_user_email r \<Longrightarrow> mb_role m = iv_role r \<Longrightarrow> P (w\<lparr>w_db := d\<rparr>)"
begin

text \<open>The worlds in which a row is stored.\<close>

definition stored :: "invite_row \<Rightarrow> world \<Rightarrow> bool" where
  "stored r w \<longleftrightarrow> P w \<and> r \<in> set (invites (identity (w_db w)))"

lemma stable_stored: "stable (stored r)"
  using stable by (auto simp: stable_def stored_def)

lemma keeps_lookup: "keeps P (get_invite_by_id i)" "keeps P (get_invite_by_public_id public_id)" "keeps P (resolve_tenant public_id)"
  "keeps P (resolve_organization public_id)"
  unfolding get_invite_by_id_def get_invite_by_public_id_def resolve_tenant_def resolve_organization_def by (intro keeps_intros stable)+

text \<open>A row that a lookup returns is stored.\<close>

lemma triple_find: "triple P (map_sqlx (query (\<lambda>_ d. find p (invites (identity d))))) (found_post (\<lambda>row w. stored row w \<and> p row) P)"
  by (rule triple_weaken [OF triple_query [OF stable]])
    (auto simp: stored_def found_post_def result_post_def split: sum.splits option.splits dest!: find_SomeD [OF sym])

lemma only_row: "stored row w \<Longrightarrow> r \<in> set (invites (identity (w_db w))) \<Longrightarrow> iv_id r = iv_id row \<Longrightarrow> r = row"
  using distinct_ids [of w] by (auto simp: stored_def distinct_map dest: inj_onD)

lemma triple_get_stored: "triple (\<lambda>w. \<exists>t. stored (u t) w) (get_invite_by_id i) (found_post (\<lambda>v w. stored v w \<and> (\<exists>t. v = u t)) P)"
  if "\<And>t. iv_id (u t) = i" for u :: "time \<Rightarrow> invite_row"
proof -
  have get: "triple (stored r) (get_invite_by_id i) (found_post (\<lambda>v w. stored v w \<and> v = r) P)" if "iv_id r = i" for r
    unfolding get_invite_by_id_def that [symmetric]
    by (rule triple_weaken [OF triple_query [OF stable_stored]])
      (auto simp: stored_def [of r] found_post_def result_post_def split: sum.splits option.splits dest!: find_SomeD [OF sym] dest: only_row)
  show ?thesis
    using get [OF that] unfolding triple_def by (fastforce simp: found_post_def result_post_def split: sum.splits option.splits)
qed

lemma triple_set_status:
  assumes "invite_move (iv_status row) s"
  shows "triple (stored row) (set_invite_status (iv_id row) s a b) (found_post (\<lambda>u w. stored u w \<and> iv_status u = s \<and> same_invite row u) P)"
proof -
  let ?f = "apply_status s a b"
  let ?hit = "\<lambda>r. iv_id r = iv_id row \<and> iv_deleted_at r = None"
  let ?Q = "\<lambda>j w. P w \<and> (\<forall>i. j = Some i \<longrightarrow> i = iv_id row \<and> (\<exists>t. stored (?f t row) w))"
  have step: "invite_step r (?f t r)" if "stored row w" "r \<in> set (invites (identity (w_db w)))" "?hit r" for w r t
    using that only_row [OF that(1,2)] assms by (simp add: invite_step_def same_invite_def apply_status_def touch_invite_def)
  have upd: "P (w\<lparr>w_db := update_invites ?hit (?f t) (w_db w)\<rparr>)" if "stored row w" for w t
    using that by (intro update_ok step [OF that]) (simp_all add: stored_def)
  have new: "stored (?f t row) (w\<lparr>w_db := update_invites ?hit (?f t) (w_db w)\<rparr>)" if "stored row w" "iv_deleted_at row = None" for w t
    using upd [OF that(1)] that by (auto simp: stored_def update_invites_def update_identity_def set_update_where)
  have found: "i = iv_id row \<and> iv_deleted_at row = None" if "stored row w" "map_option iv_id (find ?hit (invites (identity (w_db w)))) = Some i" for w i
    using that only_row by (force dest!: find_SomeD)
  have first: "triple (stored row) (map_sqlx (statement (\<lambda>t d. (Inr (map_option iv_id (find ?hit (invites (identity d)))), update_invites ?hit (?f t) d)))) (result_post ?Q P)"
  proof (rule triple_statement_split [OF stable_stored])
    fix w j d
    assume w: "stored row w" and q: "(Inr (map_option iv_id (find ?hit (invites (identity (w_db w))))), update_invites ?hit (?f (w_now w)) (w_db w)) = (Inr j, d)"
    have "\<exists>t. stored (?f t row) (w\<lparr>w_db := d\<rparr>)" if "j = Some i" for i
      using new [OF w, of "w_now w"] found [OF w, of i] that q by auto
    then show "P (w\<lparr>w_db := d\<rparr>) \<and> ?Q j (w\<lparr>w_db := d\<rparr>)"
      using upd [OF w, of "w_now w"] found [OF w] q by auto
  qed (simp add: stored_def)
  have "triple (\<lambda>w. \<exists>t. stored (?f t row) w) (get_invite_by_id (iv_id row)) (found_post (\<lambda>u w. stored u w \<and> iv_status u = s \<and> same_invite row u) P)"
    by (rule triple_weaken [OF triple_get_stored [of "\<lambda>t. ?f t row"]])
      (auto simp: apply_status_def touch_invite_def same_invite_def found_post_def result_post_def split: sum.splits option.splits)
  then show ?thesis
    unfolding set_invite_status_def Let_def
    by (intro triple_try [OF first]) (auto simp: triple_def run_simps split: option.splits)
qed

lemma triple_or_not_found: "triple R m (found_post Q E) \<Longrightarrow> triple R (or_not_found m msg) (result_post Q E)"
  unfolding or_not_found_def by (rule triple_try [of _ _ "\<lambda>x w. case x of None \<Rightarrow> E w | Some a \<Rightarrow> Q a w" E])
    (auto simp: triple_def run_simps found_post_def split: option.splits)

lemma triple_or_internal: "triple R m (found_post Q E) \<Longrightarrow> triple R (or_internal m msg) (result_post Q E)"
  unfolding or_internal_def by (rule triple_try [of _ _ "\<lambda>x w. case x of None \<Rightarrow> E w | Some a \<Rightarrow> Q a w" E])
    (auto simp: triple_def run_simps found_post_def split: option.splits)

lemma triple_token_invite: "triple P (token_invite I token) (result_post stored P)"
proof -
  have found: "triple P (or_not_found (get_by_token_hash h) ''invite not found'') (result_post stored P)" for h
    unfolding get_by_token_hash_def
    by (rule triple_weaken [OF triple_or_not_found [OF triple_find]]) (auto simp: result_post_def split: sum.splits)
  show ?thesis
    unfolding token_invite_def
    by (intro triple_if triple_return triple_try [OF found]) (auto simp: triple_def run_simps stored_def)
qed

lemma insert_invite_stores: "insert_invite r d = (Inr a, d') \<Longrightarrow> r \<in> set (invites (identity d'))"
  by (auto simp: insert_invite_def Let_def update_identity_def split: if_splits)

lemma triple_new_invite:
  assumes "\<And>t. iv_status (r t) = ''sent''" "\<And>t. iv_id (r t) = i"
  shows "triple P (try_bind (map_sqlx (statement (\<lambda>t. insert_invite (r t)))) (\<lambda>_. get_invite_by_id i)) (found_post (\<lambda>row w. stored row w \<and> iv_status row = ''sent'') P)"
proof (rule triple_try)
  show "triple P (map_sqlx (statement (\<lambda>t. insert_invite (r t)))) (result_post (\<lambda>_ w. \<exists>t. stored (r t) w) P)"
  proof (rule triple_statement_split [OF stable])
    fix w a d
    assume w: "P w" and q: "insert_invite (r (w_now w)) (w_db w) = (Inr a, d)"
    then have "P (w\<lparr>w_db := d\<rparr>)" by (auto intro: insert_ok)
    moreover from q have "r (w_now w) \<in> set (invites (identity d))" by (rule insert_invite_stores)
    ultimately show "P (w\<lparr>w_db := d\<rparr>) \<and> (\<exists>t. stored (r t) (w\<lparr>w_db := d\<rparr>))" by (auto simp: stored_def)
  qed
  show "triple (\<lambda>w. \<exists>t. stored (r t) w) (get_invite_by_id i) (found_post (\<lambda>row w. stored row w \<and> iv_status row = ''sent'') P)"
    by (rule triple_weaken [OF triple_get_stored [of r]]) (auto simp: assms found_post_def result_post_def split: sum.splits option.splits)
qed simp

lemma triple_send_mail: "iv_status row = ''sent'' \<Longrightarrow> triple (stored row) (send_or_fail I row token) (\<lambda>_. P)"
proof -
  assume "iv_status row = ''sent''"
  then have "invite_move (iv_status row) ''failed''" by (simp add: invite_move.failed)
  from triple_set_status [OF this, of None None]
  have "triple (stored row) (set_invite_status (iv_id row) ''failed'' None None) (\<lambda>_. P)"
    by (rule triple_weaken) (auto simp: found_post_def result_post_def stored_def split: sum.splits option.splits)
  then have "triple (stored row) (case x of Inr _ \<Rightarrow> State_Monad.return ()
      | Inl _ \<Rightarrow> State_Monad.bind (set_invite_status (iv_id row) ''failed'' None None) (\<lambda>_. State_Monad.return ())) (\<lambda>_. P)" for x :: "app_error + unit"
    by (cases x) (auto intro: triple_return triple_bind simp: stored_def)
  then show ?thesis
    unfolding send_or_fail_def by (intro triple_bind_keeps keeps_fresh stable_stored)
qed

lemma triple_send_return: "triple (\<lambda>w. stored row w \<and> iv_status row = ''sent'') (State_Monad.bind (send_or_fail I row token) (\<lambda>_. State_Monad.return x)) (\<lambda>_. P)"
proof (cases "iv_status row = ''sent''")
  case True
  then show ?thesis using triple_send_mail [OF True] by (auto intro: triple_bind triple_return)
qed (simp add: triple_def)

lemma keeps_resolve: "keeps P (or_not_found (resolve_tenant x) msg)" "keeps P (or_not_found (resolve_organization x) msg)"
  by (intro keeps_or_not_found keeps_lookup)+

lemma triple_create_row: "triple P (create_invite_row G tid oid em ro h ta me ex cb ri) (result_post (\<lambda>row w. stored row w \<and> iv_status row = ''sent'') P)"
  unfolding create_invite_row_def
proof (intro triple_bind_keeps keeps_fresh keeps_nano_id_new stable)
  fix n nano
  let ?r = "\<lambda>t. new_invite (uuid_of G n) (''inv_'' @ nano) tid oid em ro h ta me ex cb ri t"
  have "triple P (try_bind (map_sqlx (statement (\<lambda>t. insert_invite (?r t)))) (\<lambda>_. get_invite_by_id (uuid_of G n)))
      (found_post (\<lambda>row w. stored row w \<and> iv_status row = ''sent'') P)"
    by (rule triple_new_invite) (simp_all add: new_invite_def)
  from triple_or_internal [OF this]
  show "triple P (try_bind (map_sqlx (statement (\<lambda>t. insert_invite (?r t)))) (\<lambda>_. try_bind (get_invite_by_id (uuid_of G n)) (\<lambda>r.
      State_Monad.return (case r of None \<Rightarrow> Inl (Internal ''invite created but not found on fetch'') | Some row \<Rightarrow> Inr row))))
      (result_post (\<lambda>row w. stored row w \<and> iv_status row = ''sent'') P)"
    by (simp only: or_internal_def try_bind_assoc)
qed

lemma keeps_create: "keeps P (create_invite I G req request_id)"
proof -
  have body: "keeps P (try_bind (create_invite_row G tid oid em ro h ta me ex cb ri) (\<lambda>row. do { _ \<leftarrow> send_or_fail I row token; State_Monad.return (y row) }))"
    for tid oid em ro h ta me ex cb ri token and y :: "invite_row \<Rightarrow> app_error + invite_response"
    unfolding keeps_triple by (rule triple_try [OF triple_create_row _ triple_send_return]) simp
  show ?thesis
    unfolding create_invite_def generate_token_def Let_def by (intro keeps_intros keeps_resolve body stable)
qed

lemma keeps_delete_invite: "keeps P (delete_invite public_id)"
  unfolding delete_invite_def delete_invite_row_def Let_def
  by (intro keeps_intros stable) (auto intro!: update_ok simp: invite_step_def same_invite_def touch_invite_def)

lemma triple_move:
  "invite_move (iv_status row) s \<Longrightarrow> triple (stored row) (or_internal (set_invite_status (iv_id row) s a b) msg)
     (result_post (\<lambda>u w. stored u w \<and> iv_status u = s \<and> same_invite row u) P)"
  by (rule triple_or_internal [OF triple_set_status])

lemma keeps_revoke: "keeps P (revoke_invite public_id)"
proof -
  have found: "triple P (or_not_found (get_invite_by_public_id public_id) (invite_missing public_id)) (result_post stored P)"
    unfolding get_invite_by_public_id_def
    by (rule triple_weaken [OF triple_or_not_found [OF triple_find]]) (auto simp: result_post_def split: sum.splits)
  show ?thesis
    unfolding revoke_invite_def keeps_triple
  proof (rule triple_try [OF found])
    fix row
    show "triple (stored row) (if iv_status row \<notin> {''sent'', ''opened'', ''failed''}
         then State_Monad.return (Inl (BadRequest (''cannot revoke an invite with status '' @ [CHR 0x27] @ iv_status row @ [CHR 0x27])))
         else State_Monad.bind now (\<lambda>t. try_bind (or_internal (set_invite_status (iv_id row) ''revoked'' (Some t) None) ''invite revoke failed'') (\<lambda>updated.
           State_Monad.return (Inr (invite_from_row updated))))) (\<lambda>_. P)"
      by (intro triple_if triple_bind_keeps keeps_now triple_return triple_try [OF triple_move]) (auto simp: stored_def intro: invite_move.revoked)
  qed simp
qed

lemma keeps_verify: "keeps P (verify_invite I token)"
  unfolding verify_invite_def keeps_triple
proof (rule triple_try [OF triple_token_invite])
  fix row
  show "triple (stored row) (if iv_status row \<in> {''revoked'', ''accepted''} then State_Monad.return (Inl (BadRequest (''invite is '' @ iv_status row)))
     else if iv_status row \<noteq> ''opened''
       then try_bind (or_internal (set_invite_status (iv_id row) ''opened'' None None) ''failed to update invite status'') (\<lambda>updated.
         State_Monad.return (Inr (verify_response_of updated)))
     else State_Monad.return (Inr (verify_response_of row))) (\<lambda>_. P)"
    by (intro triple_if triple_return triple_try [OF triple_move]) (auto simp: stored_def intro: invite_move.opened)
qed simp

lemma triple_create_member:
  assumes "iv_status u = ''accepted''"
  shows "triple (stored u) (create_member G (iv_id u) (iv_tenant_id u) (iv_org_id u) (iv_user_email u) (iv_role u)) (\<lambda>_. P)"
  unfolding create_member_def
proof (intro triple_bind_keeps keeps_fresh keeps_nano_id_new stable_stored, rule triple_try)
  fix n nano
  let ?m = "\<lambda>t. \<lparr>mb_id = uuid_of G n, mb_public_id = ''mem_'' @ nano, mb_tenant_id = iv_tenant_id u, mb_org_id = iv_org_id u,
         mb_invite_id = iv_id u, mb_user_email = iv_user_email u, mb_user_id = None, mb_role = iv_role u, mb_status = ''active'', mb_created_at = t, mb_updated_at = t,
         mb_deleted_at = None\<rparr>"
  show "triple (stored u) (map_sqlx (statement (\<lambda>t. insert_member (?m t)))) (result_post (\<lambda>_. P) P)"
    by (rule triple_statement_split [OF stable_stored]) (auto simp: stored_def intro: member_ok [OF _ _ _ assms])
  show "triple P (map_sqlx (fetch_one (query (\<lambda>_ d. first_row (List.map_filter (view_member d) (filter (\<lambda>m. mb_id m = uuid_of G n) (tenant_members (identity d)))))))) (\<lambda>_. P)"
    by (intro triple_keeps keeps_intros stable)
qed simp

lemma keeps_accept: "keeps P (accept_invite I G token)"
  unfolding accept_invite_def keeps_triple
proof (rule triple_try [OF triple_token_invite])
  fix row
  have member: "triple (\<lambda>w. stored u w \<and> iv_status u = ''accepted'' \<and> same_invite row u)
      (try_bind (create_member G (iv_id u) (iv_tenant_id u) (iv_org_id u) (iv_user_email u) (iv_role u)) (\<lambda>m. State_Monad.return (Inr (member_response_of m) :: app_error + _))) (\<lambda>_. P)" for u
  proof (cases "iv_status u = ''accepted''")
    case True
    have "triple (stored u) (try_bind (create_member G (iv_id u) (iv_tenant_id u) (iv_org_id u) (iv_user_email u) (iv_role u)) (\<lambda>m. State_Monad.return (Inr (member_response_of m) :: app_error + _))) (\<lambda>_. P)"
      by (rule triple_try_bind [OF triple_create_member [OF True]]) (auto intro: triple_return)
    then show ?thesis by (rule triple_weaken) simp_all
  qed (simp add: triple_def)
  show "triple (stored row) (if iv_status row = ''accepted'' then State_Monad.return (Inl (Conflict ''invite has already been accepted'' []))
     else if iv_status row = ''revoked'' then State_Monad.return (Inl (BadRequest ''invite has been revoked''))
     else State_Monad.bind now (\<lambda>t.
       try_bind (or_internal (set_invite_status (iv_id row) ''accepted'' None (Some t)) ''failed to accept invite'') (\<lambda>updated.
       try_bind (create_member G (iv_id updated) (iv_tenant_id updated) (iv_org_id updated) (iv_user_email updated) (iv_role updated)) (\<lambda>member.
         State_Monad.return (Inr (member_response_of member)))))) (\<lambda>_. P)"
    by (intro triple_if triple_return triple_bind_keeps keeps_now triple_try [OF triple_move _ member]) (auto simp: stored_def intro: invite_move.accepted)
qed simp

text \<open>The transaction: at its end either nothing has happened or the old invite is revoked and the new one is
  stored.\<close>

lemma triple_insert_resent:
  "triple (\<lambda>w. P w \<and> P (w\<lparr>w_db := d\<rparr>)) (insert_resent G old h ex cb ri d) (found_post (\<lambda>row w. stored row w \<and> iv_status row = ''sent'') P)"
  (is "triple ?R _ ?post")
  unfolding insert_resent_def
proof (intro triple_bind_keeps keeps_fresh keeps_nano_id_new stable_conj [OF stable stable_at [OF stable]])
  fix n nano
  let ?r = "new_invite (uuid_of G n) (''inv_'' @ nano) (iv_tenant_id old) (iv_org_id old) (iv_user_email old) (iv_role old) h (iv_tags old) (iv_metadata old) ex cb ri"
  show "triple ?R (try_bind (map_sqlx (tx_statement (\<lambda>t. insert_invite (?r t)) d)) (\<lambda>(_, d'). try_bind (map_sqlx (tx_commit d')) (\<lambda>_. get_invite_by_id (uuid_of G n)))) ?post"
  proof (rule triple_try [OF triple_tx_statement])
    show "World.stable ?R" by (rule stable_conj [OF stable stable_at [OF stable]])
  next
    fix x :: "unit \<times> db"
    let ?S = "\<lambda>t w. stored (?r t) (w\<lparr>w_db := snd x\<rparr>)"
    have "P w \<and> ?S (w_now w) w" if "?R w" "insert_invite (?r (w_now w)) d = (Inr (fst x), snd x)" for w
      using insert_ok [of "w\<lparr>w_db := d\<rparr>" "?r (w_now w)" "snd x"] insert_invite_stores [OF that(2)] that by (simp add: stored_def)
    moreover have "triple (\<lambda>w. P w \<and> (\<exists>t. ?S t w)) (try_bind (map_sqlx (tx_commit (snd x))) (\<lambda>_. get_invite_by_id (uuid_of G n))) ?post"
    proof (rule triple_try)
      show "triple (\<lambda>w. P w \<and> (\<exists>t. ?S t w)) (map_sqlx (tx_commit (snd x))) (result_post (\<lambda>_ w. \<exists>t. stored (?r t) w) P)"
        unfolding tx_commit_def
        by (rule triple_statement_split [OF stable_conj [OF stable stable_ex [OF stable_at [OF stable_stored]]]]) (auto simp: stored_def)
      show "triple (\<lambda>w. \<exists>t. stored (?r t) w) (get_invite_by_id (uuid_of G n)) ?post"
        by (rule triple_weaken [OF triple_get_stored [of ?r]]) (auto simp: new_invite_def found_post_def result_post_def split: sum.splits option.splits)
    qed simp
    ultimately show "triple (\<lambda>w. ?R w \<and> insert_invite (?r (w_now w)) d = (Inr (fst x), snd x))
        (case x of (_, d') \<Rightarrow> try_bind (map_sqlx (tx_commit d')) (\<lambda>_. get_invite_by_id (uuid_of G n))) ?post"
      by (cases x) (auto simp: triple_def)
  qed simp
qed

lemma triple_resend_rows: "triple P (resend_rows G public_id h ex cb ri) (found_post (\<lambda>row w. stored row w \<and> iv_status row = ''sent'') P)"
  (is "triple P _ ?post")
  unfolding resend_rows_def
proof (rule triple_try [OF triple_tx_begin [OF stable]])
  fix d
  have step: "P (w\<lparr>w_db := snd (revoke_resendable public_id t (w_db w))\<rparr>)" if "P w" for w t
    using that unfolding revoke_resendable_def snd_conv
    by (intro update_ok) (auto simp: resendable_def invite_step_def same_invite_def touch_invite_def intro: invite_move.revoked)
  have st: "stable (\<lambda>w. P w \<and> w_db w = d)" using stable by (auto simp: stable_def)
  show "triple (\<lambda>w. P w \<and> w_db w = d) (try_bind (map_sqlx (tx_statement (revoke_resendable public_id) d)) (\<lambda>(found, d1). case found of
       None \<Rightarrow> try_bind (map_sqlx (query (\<lambda>_ _. ()))) (\<lambda>_. State_Monad.return (Inr None)) | Some old \<Rightarrow> insert_resent G old h ex cb ri d1)) ?post"
  proof (rule triple_try [OF triple_tx_statement [OF st]])
    fix x :: "invite_row option \<times> db"
    have "triple P (try_bind (map_sqlx (query (\<lambda>_ _. ()))) (\<lambda>_. State_Monad.return (Inr None :: app_error + _))) ?post"
      by (rule triple_try_bind_keeps) (auto intro!: keeps_intros stable triple_return)
    then have "triple (\<lambda>w. P w \<and> P (w\<lparr>w_db := snd x\<rparr>)) (case fst x of
       None \<Rightarrow> try_bind (map_sqlx (query (\<lambda>_ _. ()))) (\<lambda>_. State_Monad.return (Inr None)) | Some old \<Rightarrow> insert_resent G old h ex cb ri (snd x)) ?post"
      using triple_insert_resent [of "snd x" G _ h ex cb ri] by (auto simp: triple_def split: option.splits)
    then show "triple (\<lambda>w. (P w \<and> w_db w = d) \<and> revoke_resendable public_id (w_now w) d = (Inr (fst x), snd x)) (case x of (found, d1) \<Rightarrow> case found of
       None \<Rightarrow> try_bind (map_sqlx (query (\<lambda>_ _. ()))) (\<lambda>_. State_Monad.return (Inr None)) | Some old \<Rightarrow> insert_resent G old h ex cb ri d1) ?post"
      unfolding case_prod_beta by (rule triple_weaken) (auto dest: step [of w "w_now w" for w])
  qed simp
qed simp

lemma keeps_resend: "keeps P (resend_invite I G public_id request_id)"
  unfolding resend_invite_def keeps_triple generate_token_def Let_def
  by (intro triple_bind_keeps keeps_intros stable triple_try [OF triple_or_not_found [OF triple_resend_rows] _ triple_send_return]) simp

end

section \<open>Sequences of calls\<close>

datatype invite_call =
    CreateInvite create_invite_request
  | DeleteInvite string
  | RevokeInvite string
  | ResendInvite string
  | VerifyInvite string
  | AcceptInvite string
  | InviteWait time

fun serve_invite :: "invite_ext \<Rightarrow> idgen \<Rightarrow> request_context \<Rightarrow> invite_call \<Rightarrow> unit io" where
  "serve_invite I G ctx (CreateInvite req) = State_Monad.bind (create_invite_handler I G ctx req) (\<lambda>_. State_Monad.return ())"
| "serve_invite I G ctx (DeleteInvite i) = State_Monad.bind (delete_invite_handler i) (\<lambda>_. State_Monad.return ())"
| "serve_invite I G ctx (RevokeInvite i) = State_Monad.bind (revoke_invite i) (\<lambda>_. State_Monad.return ())"
| "serve_invite I G ctx (ResendInvite i) = State_Monad.bind (resend_invite_handler I G ctx i) (\<lambda>_. State_Monad.return ())"
| "serve_invite I G ctx (VerifyInvite token) = State_Monad.bind (verify_invite I token) (\<lambda>_. State_Monad.return ())"
| "serve_invite I G ctx (AcceptInvite token) = State_Monad.bind (accept_invite I G token) (\<lambda>_. State_Monad.return ())"
| "serve_invite I G ctx (InviteWait t) = State_Monad.update (w_now_update (\<lambda>n. n + t))"

context invite_invariant
begin

lemma keeps_calls:
  assumes "tables_only P"
  shows "keeps P (for_each calls (serve_invite I G ctx))"
proof (rule keeps_for_each)
  fix c
  show "keeps P (serve_invite I G ctx c)"
    by (cases c) (auto simp: create_invite_handler_def delete_invite_handler_def resend_invite_handler_def
        intro!: keeps_intros keeps_create keeps_delete_invite keeps_revoke keeps_resend keeps_verify keeps_accept keeps_now_update assms)
qed

end

section \<open>The status of an invite\<close>

text \<open>Every row of the start is still there, moved along the automaton.\<close>

definition moved_from :: "invite_row list \<Rightarrow> db \<Rightarrow> bool" where
  "moved_from rs d \<longleftrightarrow> distinct (map iv_id (invites (identity d))) \<and>
     (\<forall>r\<in>set rs. \<exists>r'\<in>set (invites (identity d)). same_invite r r' \<and> invite_move\<^sup>*\<^sup>* (iv_status r) (iv_status r'))"

lemma same_invite_trans: "same_invite r r' \<Longrightarrow> same_invite r' r'' \<Longrightarrow> same_invite r r''"
  by (simp add: same_invite_def)

lemma insert_invite_rows: "insert_invite r d = (Inr (), d') \<Longrightarrow>
    invites (identity d') = invites (identity d) @ [r] \<and> iv_id r \<notin> iv_id ` set (invites (identity d)) \<and> tenant_members (identity d') = tenant_members (identity d)"
  by (auto simp: insert_invite_def Let_def update_identity_def split: if_splits)

lemma insert_member_rows: "insert_member m d = (Inr (), d') \<Longrightarrow>
    tenant_members (identity d') = tenant_members (identity d) @ [m] \<and> mb_invite_id m \<notin> mb_invite_id ` set (tenant_members (identity d)) \<and>
    invites (identity d') = invites (identity d)"
  by (auto simp: insert_member_def Let_def update_identity_def split: if_splits)

lemma update_invites_rows:
  "invites (identity (update_invites p f d)) = update_where p f (invites (identity d))"
  "tenant_members (identity (update_invites p f d)) = tenant_members (identity d)"
  by (simp_all add: update_invites_def update_identity_def)

lemma distinct_ids_update:
  assumes "distinct (map iv_id rs)" "\<And>r. r \<in> set rs \<Longrightarrow> p r \<Longrightarrow> invite_step r (f r)"
  shows "distinct (map iv_id (update_where p f rs))"
proof -
  have "map iv_id (update_where p f rs) = map iv_id rs"
    using assms(2) by (induction rs) (auto simp: invite_step_def same_invite_def)
  with assms(1) show ?thesis by simp
qed

interpretation moved: invite_invariant "any_db (moved_from rs)" for rs
proof (unfold_locales, goal_cases)
  case (4 w p f)
  have "\<exists>r'\<in>set (update_where p f (invites (identity (w_db w)))). same_invite r r' \<and> invite_move\<^sup>*\<^sup>* (iv_status r) (iv_status r')" if "r \<in> set rs" for r
  proof -
    from that 4(1) obtain r1 where r1: "r1 \<in> set (invites (identity (w_db w)))" "same_invite r r1" "invite_move\<^sup>*\<^sup>* (iv_status r) (iv_status r1)"
      by (auto simp: any_db_def moved_from_def)
    show ?thesis
    proof (cases "p r1")
      case True
      with 4(2) r1 have "invite_step r1 (f r1)" by blast
      with r1 have "same_invite r (f r1) \<and> invite_move\<^sup>*\<^sup>* (iv_status r) (iv_status (f r1))"
        by (auto simp: invite_step_def intro: same_invite_trans rtranclp.rtrancl_into_rtrancl)
      with r1(1) True show ?thesis by (force simp: set_update_where)
    next
      case False
      with r1 show ?thesis by (force simp: set_update_where)
    qed
  qed
  with 4 show ?case by (auto simp: any_db_def moved_from_def update_invites_rows distinct_ids_update)
qed (auto simp: any_db_def moved_from_def tables_only_stable stable_def dest!: insert_invite_rows insert_member_rows)

section \<open>Members\<close>

definition members_invited :: "db \<Rightarrow> bool" where
  "members_invited d \<longleftrightarrow> distinct (map iv_id (invites (identity d))) \<and> distinct (map mb_invite_id (tenant_members (identity d))) \<and>
     (\<forall>m\<in>set (tenant_members (identity d)). \<exists>r\<in>set (invites (identity d)). iv_id r = mb_invite_id m \<and> iv_status r = ''accepted'' \<and>
        iv_tenant_id r = mb_tenant_id m \<and> iv_user_email r = mb_user_email m \<and> iv_role r = mb_role m)"

interpretation invited: invite_invariant "any_db members_invited"
proof (unfold_locales, goal_cases)
  case (4 w p f)
  have "\<exists>r'\<in>set (update_where p f (invites (identity (w_db w)))). iv_id r' = mb_invite_id m \<and> iv_status r' = ''accepted'' \<and>
      iv_tenant_id r' = mb_tenant_id m \<and> iv_user_email r' = mb_user_email m \<and> iv_role r' = mb_role m"
    if "m \<in> set (tenant_members (identity (w_db w)))" for m
  proof -
    from that 4(1) obtain r where r: "r \<in> set (invites (identity (w_db w)))" "iv_id r = mb_invite_id m" "iv_status r = ''accepted''"
      "iv_tenant_id r = mb_tenant_id m" "iv_user_email r = mb_user_email m" "iv_role r = mb_role m" by (auto simp: any_db_def members_invited_def)
    have "iv_status (f r) = ''accepted'' \<and> same_invite r (f r)" if "p r"
      using 4(2) [OF r(1) that] r(3) by (auto simp: invite_step_def elim: invite_moveE)
    with r show ?thesis by (cases "p r") (force simp: set_update_where same_invite_def)+
  qed
  with 4 show ?case by (auto simp: any_db_def members_invited_def update_invites_rows distinct_ids_update)
next
  case (5 w m d r)
  then show ?case by (force simp: any_db_def members_invited_def dest!: insert_member_rows)
qed (auto simp: any_db_def members_invited_def stable_def dest!: insert_invite_rows)

section \<open>Properties\<close>

text \<open>C19. Invites follow their automaton: whatever calls are served one after the other (creating, deleting,
  revoking, resending, verifying, accepting), whichever statements fail or lose their reply, and however
  time passes, every invite is still stored with the same ids, tenant, address, role and token hash, and
  its status has moved along the automaton; an invite that was accepted or revoked still is.\<close>

theorem invites_follow_automaton:
  assumes "distinct (map iv_id (invites (identity (w_db w))))" "r \<in> set (invites (identity (w_db w)))"
  shows "\<exists>r'\<in>set (invites (identity (w_db (snd (run_state (for_each calls (serve_invite I G ctx)) w))))).
    same_invite r r' \<and> invite_move\<^sup>*\<^sup>* (iv_status r) (iv_status r') \<and> (iv_status r \<in> {''accepted'', ''revoked''} \<longrightarrow> iv_status r' = iv_status r)"
proof -
  let ?rs = "invites (identity (w_db w))"
  have "any_db (moved_from ?rs) w"
    using assms(1) by (auto simp: any_db_def moved_from_def same_invite_def)
  with moved.keeps_calls [of ?rs calls I G ctx] have "any_db (moved_from ?rs) (snd (run_state (for_each calls (serve_invite I G ctx)) w))"
    by (simp add: keeps_def)
  with assms(2) closed_final show ?thesis unfolding any_db_def moved_from_def by blast
qed

text \<open>C20. Members come from accepted invites: under any sequence of calls and any faults, every member belongs to an
  invite that is accepted and has the member's tenant, address and role, and no invite has two members.\<close>

theorem members_come_from_accepted_invites:
  assumes "members_invited (w_db w)"
  shows "members_invited (w_db (snd (run_state (for_each calls (serve_invite I G ctx)) w)))"
  using invited.keeps_calls [of calls I G ctx] assms by (simp add: keeps_def any_db_def)

section \<open>A sample\<close>

definition sample_invite_ext :: invite_ext where
  "sample_invite_ext = \<lparr>ix_crypto = sample_crypto, ix_sha256 = id, ix_uuid_from_slice = Some, ix_valid_email = (\<lambda>s. CHR ''@'' \<in> set s),
     ix_send_invite = (\<lambda>_ _ _ _ _. Inr ())\<rparr>"

definition sample_invite :: "string \<Rightarrow> invite_row" where
  "sample_invite token = new_invite ''i1'' ''inv_1'' ''t1'' ''o1'' ''a@b.c'' ''viewer'' (hash_token sample_invite_ext token) (JObject []) (JObject []) (secs 100) ''u1'' ''q1'' 0"

text \<open>The organization and tenant of the sample tables, with one invite.\<close>

definition invite_db :: db where
  "invite_db = update_identity (invites_update (\<lambda>_. [sample_invite ''tok''])) key_db"

theorem invites_follow_automaton_witness:
  "\<exists>r'\<in>set (invites (identity (w_db (snd (run_state (for_each [AcceptInvite ''tok'', RevokeInvite ''inv_1'', InviteWait 5, VerifyInvite ''tok'']
       (serve_invite sample_invite_ext alnum_idgen key_ctx)) (start_world invite_db empty_keyspace 0)))))).
     iv_user_email r' = ''a@b.c'' \<and> invite_move\<^sup>*\<^sup>* ''sent'' (iv_status r')"
proof -
  let ?w = "start_world invite_db empty_keyspace 0"
  have "distinct (map iv_id (invites (identity (w_db ?w))))" "sample_invite ''tok'' \<in> set (invites (identity (w_db ?w)))"
    by (simp_all add: invite_db_def update_identity_def)
  from invites_follow_automaton [OF this, of "[AcceptInvite ''tok'', RevokeInvite ''inv_1'', InviteWait 5, VerifyInvite ''tok'']" sample_invite_ext alnum_idgen key_ctx]
  show ?thesis by (auto simp: sample_invite_def new_invite_def same_invite_def)
qed

theorem members_come_from_accepted_invites_witness:
  "members_invited (w_db (snd (run_state (for_each [AcceptInvite ''tok'', RevokeInvite ''inv_1''] (serve_invite sample_invite_ext alnum_idgen key_ctx))
     (start_world invite_db empty_keyspace 0))))"
  by (rule members_come_from_accepted_invites) (simp add: members_invited_def invite_db_def update_identity_def key_db_def empty_db_def empty_identity_def)

end
