(* ===== verification/Invite_Props.thy ===== *)
theory Invite_Props
  imports Invite_State
begin

text \<open>
  What a token is good for: the token of a created or resent invite is accepted once, the token of the
  invite that was resent is not; and what happens when a call stops half way or two calls overlap.
\<close>

section \<open>Accepting\<close>

text \<open>The constraints of the invites table, as far as the lookups rely on them.\<close>

definition invites_ok :: "db \<Rightarrow> bool" where
  "invites_ok d \<longleftrightarrow> distinct (map iv_id (invites (identity d))) \<and> distinct (map iv_token_hash (invites (identity d))) \<and>
     distinct (map iv_public_id (invites (identity d)))"

lemma find_invite:
  assumes "row \<in> set (invites (identity d))" "iv_deleted_at row = None" "invites_ok d"
  shows "find (\<lambda>r. iv_token_hash r = iv_token_hash row \<and> iv_deleted_at r = None) (invites (identity d)) = Some row"
    and "find (\<lambda>r. iv_id r = iv_id row \<and> iv_deleted_at r = None) (invites (identity d)) = Some row"
    and "find (\<lambda>r. iv_id r = iv_id row) (invites (identity d)) = Some row"
    and "find (\<lambda>r. iv_public_id r = iv_public_id row \<and> iv_deleted_at r = None) (invites (identity d)) = Some row"
proof -
  note find_row = find_unique_key [where x = row and xs = "invites (identity d)" and Q = "\<lambda>r. iv_deleted_at r = None"]
  from assms(3) have d: "distinct (map iv_id (invites (identity d)))" "distinct (map iv_token_hash (invites (identity d)))"
    "distinct (map iv_public_id (invites (identity d)))" by (simp_all add: invites_ok_def)
  show "find (\<lambda>r. iv_token_hash r = iv_token_hash row \<and> iv_deleted_at r = None) (invites (identity d)) = Some row"
    by (rule find_row [OF d(2) assms(1,2)])
  show "find (\<lambda>r. iv_id r = iv_id row \<and> iv_deleted_at r = None) (invites (identity d)) = Some row"
    by (rule find_row [OF d(1) assms(1,2)])
  show "find (\<lambda>r. iv_id r = iv_id row) (invites (identity d)) = Some row"
    by (rule find_distinct_key [OF d(1) assms(1)])
  show "find (\<lambda>r. iv_public_id r = iv_public_id row \<and> iv_deleted_at r = None) (invites (identity d)) = Some row"
    by (rule find_row [OF d(3) assms(1,2)])
qed

text \<open>The member an invite leads to can be stored.\<close>

definition member_fits :: "idgen \<Rightarrow> world \<Rightarrow> invite_row \<Rightarrow> bool" where
  "member_fits G w row \<longleftrightarrow> (let ms = tenant_members (identity (w_db w)) in
     uuid_of G (w_ids w) \<notin> mb_id ` set ms \<and>
     ''mem_'' @ encode_ts (unix_millis (w_now w)) @ rand_of G (Suc (w_ids w)) 8 \<notin> mb_public_id ` set ms \<and>
     iv_id row \<notin> mb_invite_id ` set ms \<and>
     (\<forall>m\<in>set ms. mb_deleted_at m = None \<longrightarrow> (mb_tenant_id m, mb_user_email m) \<noteq> (iv_tenant_id row, iv_user_email row)) \<and>
     find_tenant (iv_tenant_id row) (w_db w) \<noteq> None \<and> find_org (iv_org_id row) (w_db w) \<noteq> None)"

lemma token_invite_run:
  assumes "no_faults w" "invites_ok (w_db w)" "row \<in> set (invites (identity (w_db w)))" "iv_deleted_at row = None"
    "iv_token_hash row = hash_token I token" "trim token \<noteq> []"
  shows "run_state (token_invite I token) w = (if iv_expires_at row \<le> w_now w then Inl (BadRequest ''invite has expired'') else Inr row, w)"
  using assms(1,6) find_invite(1) [OF assms(3,4,2)]
  by (simp add: token_invite_def get_by_token_hash_def or_not_found_def run_simps assms(5) flip: assms(5))

lemma find_after_update:
  assumes "distinct (map k xs)" "x \<in> set xs" "p x" "\<And>y. k (f y) = k y"
  shows "find (\<lambda>y. k y = k x) (update_where p f xs) = Some (f x)"
proof -
  have "distinct (map k (update_where p f xs))" using assms(1,4) by (simp add: map_update_where)
  moreover have "f x \<in> set (update_where p f xs)" using assms(2,3) by (force simp: set_update_where)
  ultimately show ?thesis using find_distinct_key [of k _ "f x"] assms(4) by simp
qed

lemma set_invite_status_run:
  assumes "no_faults w" "invites_ok (w_db w)" "row \<in> set (invites (identity (w_db w)))" "iv_deleted_at row = None"
  shows "run_state (set_invite_status (iv_id row) s a b) w = (Inr (Some (apply_status s a b (w_now w) row)),
    w\<lparr>w_db := update_invites (\<lambda>r. iv_id r = iv_id row \<and> iv_deleted_at r = None) (apply_status s a b (w_now w)) (w_db w)\<rparr>)"
proof -
  have "find (\<lambda>r. iv_id r = iv_id row) (update_where (\<lambda>r. iv_id r = iv_id row \<and> iv_deleted_at r = None) (apply_status s a b (w_now w)) (invites (identity (w_db w)))) =
      Some (apply_status s a b (w_now w) row)"
    using assms(2-4) by (intro find_after_update) (simp_all add: invites_ok_def apply_status_def touch_invite_def)
  then show ?thesis
    using assms(1) find_invite(2) [OF assms(3,4,2)]
    by (simp add: set_invite_status_def get_invite_by_id_def run_simps Let_def update_invites_rows)
qed

definition member_for :: "idgen \<Rightarrow> world \<Rightarrow> invite_row \<Rightarrow> member_row" where
  "member_for G w row = \<lparr>mb_id = uuid_of G (w_ids w), mb_public_id = ''mem_'' @ encode_ts (unix_millis (w_now w)) @ rand_of G (Suc (w_ids w)) 8,
     mb_tenant_id = iv_tenant_id row, mb_org_id = iv_org_id row, mb_invite_id = iv_id row, mb_user_email = iv_user_email row, mb_user_id = None,
     mb_role = iv_role row, mb_status = ''active'', mb_created_at = w_now w, mb_updated_at = w_now w, mb_deleted_at = None\<rparr>"

lemma insert_member_for:
  assumes "member_fits G w row" "\<exists>r\<in>set (invites (identity (w_db w))). iv_id r = iv_id row"
  shows "insert_member (member_for G w row) (w_db w) =
    (Inr (), update_identity (tenant_members_update (\<lambda>_. tenant_members (identity (w_db w)) @ [member_for G w row])) (w_db w))"
  using assms unfolding insert_member_def Let_def member_fits_def by (auto simp: member_for_def image_iff)

lemma create_member_run:
  assumes "no_faults w" "member_fits G w row" "row' \<in> set (invites (identity (w_db w)))" "iv_id row' = iv_id row" "invites_ok (w_db w)"
  shows "run_state (create_member G (iv_id row) (iv_tenant_id row) (iv_org_id row) (iv_user_email row) (iv_role row)) w =
      (Inr (member_for G w row, iv_public_id row'),
       w\<lparr>w_ids := Suc (Suc (w_ids w)), w_db := update_identity (tenant_members_update (\<lambda>_. tenant_members (identity (w_db w)) @ [member_for G w row])) (w_db w)\<rparr>)"
proof -
  let ?ms = "tenant_members (identity (w_db w))"
  have inv: "find (\<lambda>r. iv_id r = iv_id row) (invites (identity (w_db w))) = Some row'"
    using find_distinct_key [of iv_id "invites (identity (w_db w))" row'] assms(3-5) by (simp add: invites_ok_def)
  have "filter (\<lambda>m. mb_id m = uuid_of G (w_ids w)) ?ms = []"
    using assms(2) by (force simp: member_fits_def Let_def filter_empty_conv)
  then have rows: "first_row (List.map_filter (view_member (update_identity (tenant_members_update (\<lambda>_. ?ms @ [member_for G w row])) (w_db w)))
      (filter (\<lambda>m. mb_id m = uuid_of G (w_ids w)) (?ms @ [member_for G w row]))) = Some (member_for G w row, iv_public_id row')"
    by (simp add: member_for_def view_member_def update_identity_def inv List.map_filter_simps first_row_def)
  have "insert_member (member_for G w row) (w_db w) = (Inr (), update_identity (tenant_members_update (\<lambda>_. ?ms @ [member_for G w row])) (w_db w))"
    using assms(2-4) by (intro insert_member_for) auto
  with assms(1) rows show ?thesis
    unfolding create_member_def nano_id_new_def generate_def
    by (simp add: run_simps Let_def fetch_one_def update_identity_def member_for_def)
qed

definition hit_invite :: "invite_row \<Rightarrow> invite_row \<Rightarrow> bool" where
  "hit_invite row r \<longleftrightarrow> iv_id r = iv_id row \<and> iv_deleted_at r = None"

lemma accept_invite_run:
  assumes "no_faults w" "invites_ok (w_db w)" "row \<in> set (invites (identity (w_db w)))" "iv_deleted_at row = None"
    "iv_token_hash row = hash_token I token" "trim token \<noteq> []" "w_now w < iv_expires_at row" "iv_status row \<notin> {''accepted'', ''revoked''}" "member_fits G w row"
  shows "\<exists>m w'. run_state (accept_invite I G token) w = (Inr (member_response_of (m, iv_public_id row)), w') \<and>
    tenant_members (identity (w_db w')) = tenant_members (identity (w_db w)) @ [m] \<and>
    mb_tenant_id m = iv_tenant_id row \<and> mb_user_email m = iv_user_email row \<and> mb_role m = iv_role row \<and> mb_invite_id m = iv_id row \<and>
    invites (identity (w_db w')) = update_where (hit_invite row) (apply_status ''accepted'' None (Some (w_now w)) (w_now w)) (invites (identity (w_db w))) \<and>
    no_faults w' \<and> w_now w' = w_now w"
proof -
  let ?f = "apply_status ''accepted'' None (Some (w_now w)) (w_now w)"
  let ?w = "w\<lparr>w_db := update_invites (hit_invite row) ?f (w_db w)\<rparr>"
  have status: "run_state (set_invite_status (iv_id row) ''accepted'' None (Some (w_now w))) w = (Inr (Some (?f row)), ?w)"
    using set_invite_status_run [OF assms(1-4)] by (simp add: hit_invite_def [abs_def])
  have same: "iv_id (?f r) = iv_id r" "iv_public_id (?f r) = iv_public_id r" "iv_token_hash (?f r) = iv_token_hash r" "iv_tenant_id (?f r) = iv_tenant_id r"
    "iv_org_id (?f r) = iv_org_id r" "iv_user_email (?f r) = iv_user_email r" "iv_role (?f r) = iv_role r" for r
    by (simp_all add: apply_status_def touch_invite_def)
  have "invites_ok (w_db ?w)" using assms(2) by (simp add: invites_ok_def update_invites_rows map_update_where same)
  moreover have "?f row \<in> set (invites (identity (w_db ?w)))" using assms(3,4) by (force simp: update_invites_rows set_update_where hit_invite_def)
  moreover have "member_fits G ?w (?f row)"
    using assms(9) by (simp add: member_fits_def Let_def update_invites_rows same find_tenant_def find_org_def) (simp add: update_invites_def update_identity_def)
  ultimately have member: "run_state (create_member G (iv_id (?f row)) (iv_tenant_id (?f row)) (iv_org_id (?f row)) (iv_user_email (?f row)) (iv_role (?f row))) ?w =
      (Inr (member_for G ?w (?f row), iv_public_id (?f row)), ?w\<lparr>w_ids := Suc (Suc (w_ids w)),
        w_db := update_identity (tenant_members_update (\<lambda>_. tenant_members (identity (w_db ?w)) @ [member_for G ?w (?f row)])) (w_db ?w)\<rparr>)"
    using create_member_run [of ?w G "?f row" "?f row"] assms(1) by simp
  have "run_state (accept_invite I G token) w = (Inr (member_response_of (member_for G ?w (?f row), iv_public_id row)), ?w\<lparr>w_ids := Suc (Suc (w_ids w)),
        w_db := update_identity (tenant_members_update (\<lambda>_. tenant_members (identity (w_db ?w)) @ [member_for G ?w (?f row)])) (w_db ?w)\<rparr>)"
    using assms(7,8) token_invite_run [OF assms(1-6)]
    by (simp add: accept_invite_def run_simps or_internal_def status member [unfolded same] same)
  then show ?thesis
    using assms(1) by (simp add: update_invites_rows member_for_def same) (simp add: update_identity_def update_invites_def)
qed

lemma apply_status_sel [simp]:
  "iv_id (apply_status s a b t r) = iv_id r" "iv_public_id (apply_status s a b t r) = iv_public_id r" "iv_token_hash (apply_status s a b t r) = iv_token_hash r"
  "iv_tenant_id (apply_status s a b t r) = iv_tenant_id r" "iv_org_id (apply_status s a b t r) = iv_org_id r" "iv_user_email (apply_status s a b t r) = iv_user_email r"
  "iv_role (apply_status s a b t r) = iv_role r" "iv_status (apply_status s a b t r) = s" "iv_deleted_at (apply_status s a b t r) = iv_deleted_at r"
  "iv_expires_at (apply_status s a b t r) = iv_expires_at r" "iv_revoked_at (apply_status s a b t r) = or_else a (iv_revoked_at r)"
  by (simp_all add: apply_status_def touch_invite_def)

lemma stored_after_status:
  assumes "invites_ok d" "row \<in> set (invites (identity d))" "iv_deleted_at row = None"
    and rows: "invites (identity d') = update_where (hit_invite row) (apply_status s a b t) (invites (identity d))"
  shows "invites_ok d'" "apply_status s a b t row \<in> set (invites (identity d'))"
  using assms(1-3) unfolding invites_ok_def rows
  by (simp_all add: map_update_where) (force simp: set_update_where hit_invite_def)

lemma accept_closed_run:
  assumes "no_faults w" "invites_ok (w_db w)" "row \<in> set (invites (identity (w_db w)))" "iv_deleted_at row = None"
    "iv_token_hash row = hash_token I token" "trim token \<noteq> []" "w_now w < iv_expires_at row" "iv_status row \<in> {''accepted'', ''revoked''}"
  shows "run_state (accept_invite I G token) w =
    (Inl (if iv_status row = ''accepted'' then Conflict ''invite has already been accepted'' [] else BadRequest ''invite has been revoked''), w)"
  using assms(7,8) token_invite_run [OF assms(1-6)] by (auto simp: accept_invite_def run_simps)


section \<open>Where the two steps of a call come apart\<close>

lemma insert_member_taken:
  assumes "m \<in> set (tenant_members (identity d))" "mb_deleted_at m = None" "mb_tenant_id m = mb_tenant_id x" "mb_user_email m = mb_user_email x"
  obtains e where "insert_member x d = (Inl e, d)"
proof -
  have "\<exists>x'\<in>set (tenant_members (identity d)). mb_tenant_id x' = mb_tenant_id x \<and> mb_user_email x' = mb_user_email x \<and> mb_deleted_at x' = None"
    using assms by blast
  then have "\<exists>e. insert_member x d = (Inl e, d)" by (simp add: insert_member_def Let_def)
  then show ?thesis using that by blast
qed

lemma create_member_refused:
  assumes "no_faults w" "m \<in> set (tenant_members (identity (w_db w)))" "mb_deleted_at m = None"
  obtains e w' where "run_state (create_member G i (mb_tenant_id m) oid (mb_user_email m) role) w = (Inl e, w')" "w_db w' = w_db w" "no_faults w'" "w_now w' = w_now w"
proof -
  let ?x = "\<lparr>mb_id = uuid_of G (w_ids w), mb_public_id = ''mem_'' @ encode_ts (unix_millis (w_now w)) @ rand_of G (Suc (w_ids w)) 8, mb_tenant_id = mb_tenant_id m, mb_org_id = oid,
         mb_invite_id = i, mb_user_email = mb_user_email m, mb_user_id = None, mb_role = role, mb_status = ''active'', mb_created_at = w_now w, mb_updated_at = w_now w,
         mb_deleted_at = None\<rparr>"
  from insert_member_taken [OF assms(2,3), of ?x] obtain e where "insert_member ?x (w_db w) = (Inl e, w_db w)" by auto
  with assms(1) show ?thesis
    by (intro that [of "from_sqlx e" "w\<lparr>w_ids := Suc (Suc (w_ids w))\<rparr>"])
      (simp_all add: create_member_def nano_id_new_def generate_def run_simps Let_def)
qed

text \<open>An acceptance that cannot be completed uses up the invite: when the invited address already has a live
  membership of the tenant, accepting the invite is answered with an error and stores no member, but the
  invite is marked accepted, since the status is written before the member; the token cannot be used again.\<close>

theorem refused_member_uses_up_invite:
  assumes "no_faults w" "invites_ok (w_db w)" "row \<in> set (invites (identity (w_db w)))" "iv_deleted_at row = None"
    "iv_token_hash row = hash_token I token" "trim token \<noteq> []" "w_now w < iv_expires_at row" "iv_status row \<notin> {''accepted'', ''revoked''}"
    "m \<in> set (tenant_members (identity (w_db w)))" "mb_deleted_at m = None" "mb_tenant_id m = iv_tenant_id row" "mb_user_email m = iv_user_email row"
  shows "\<exists>e w'. run_state (accept_invite I G token) w = (Inl e, w') \<and> tenant_members (identity (w_db w')) = tenant_members (identity (w_db w)) \<and>
    run_state (accept_invite I G token) w' = (Inl (Conflict ''invite has already been accepted'' []), w')"
proof -
  let ?f = "apply_status ''accepted'' None (Some (w_now w)) (w_now w)"
  let ?w = "w\<lparr>w_db := update_invites (hit_invite row) ?f (w_db w)\<rparr>"
  have status: "run_state (set_invite_status (iv_id row) ''accepted'' None (Some (w_now w))) w = (Inr (Some (?f row)), ?w)"
    using set_invite_status_run [OF assms(1-4)] by (simp add: hit_invite_def [abs_def])
  have "m \<in> set (tenant_members (identity (w_db ?w)))" using assms(9) by (simp add: update_invites_rows)
  then obtain e w' where member: "run_state (create_member G (iv_id row) (iv_tenant_id row) (iv_org_id row) (iv_user_email row) (iv_role row)) ?w = (Inl e, w')"
    "w_db w' = w_db ?w" "no_faults w'" "w_now w' = w_now w"
    using create_member_refused [of ?w m G "iv_id row" "iv_org_id row" "iv_role row"] assms(1,10-12) by auto
  have run: "run_state (accept_invite I G token) w = (Inl e, w')"
    using assms(7,8) token_invite_run [OF assms(1-6)] by (simp add: accept_invite_def run_simps or_internal_def status member(1))
  have "run_state (accept_invite I G token) w' = (Inl (Conflict ''invite has already been accepted'' []), w')"
    using accept_closed_run [of w' "?f row" I token G] stored_after_status [OF assms(2-4), of "w_db w'"] member(2-4) assms(4-7)
    by (simp add: update_invites_rows)
  with run member(2) show ?thesis by (simp add: update_invites_rows)
qed

text \<open>Verifying a token can reopen a revoked invite: if the invite is revoked between the lookup and the status
  update of a verification, the update, which does not look at the status, stores \<^emph>\<open>opened\<close> over \<^emph>\<open>revoked\<close>, and
  the token is accepted as a membership afterwards.\<close>

theorem late_verification_reopens_invite:
  assumes "no_faults w" "invites_ok (w_db w)" "row \<in> set (invites (identity (w_db w)))" "iv_deleted_at row = None"
    "iv_token_hash row = hash_token I token" "trim token \<noteq> []" "w_now w < iv_expires_at row" "iv_status row \<in> {''sent'', ''failed''}" "member_fits G w row"
  shows "\<exists>w1 w2 resp m w3. run_state (token_invite I token) w = (Inr row, w) \<and>
    run_state (revoke_invite (iv_public_id row)) w = (Inr resp, w1) \<and> ir_status resp = ''revoked'' \<and>
    run_state (or_internal (set_invite_status (iv_id row) ''opened'' None None) ''failed to update invite status'') w1 =
      (Inr (apply_status ''opened'' None None (w_now w) (apply_status ''revoked'' (Some (w_now w)) None (w_now w) row)), w2) \<and>
    run_state (accept_invite I G token) w2 = (Inr (member_response_of (m, iv_public_id row)), w3) \<and> m \<in> set (tenant_members (identity (w_db w3)))"
proof -
  let ?r1 = "apply_status ''revoked'' (Some (w_now w)) None (w_now w) row"
  let ?r2 = "apply_status ''opened'' None None (w_now w) ?r1"
  let ?w1 = "w\<lparr>w_db := update_invites (hit_invite row) (apply_status ''revoked'' (Some (w_now w)) None (w_now w)) (w_db w)\<rparr>"
  let ?w2 = "?w1\<lparr>w_db := update_invites (hit_invite ?r1) (apply_status ''opened'' None None (w_now w)) (w_db ?w1)\<rparr>"
  have lookup: "run_state (token_invite I token) w = (Inr row, w)" using token_invite_run [OF assms(1-6)] assms(7) by simp
  have revoke: "run_state (revoke_invite (iv_public_id row)) w = (Inr (invite_from_row ?r1), ?w1)"
    using assms(1,8) find_invite(4) [OF assms(3,4,2)] set_invite_status_run [OF assms(1-4), of "''revoked''" "Some (w_now w)" None]
    by (auto simp: revoke_invite_def get_invite_by_public_id_def or_not_found_def or_internal_def run_simps hit_invite_def [abs_def])
  have ok1: "invites_ok (w_db ?w1)" "?r1 \<in> set (invites (identity (w_db ?w1)))"
    using stored_after_status [OF assms(2-4), of "w_db ?w1"] by (simp_all add: update_invites_rows)
  have opened: "run_state (or_internal (set_invite_status (iv_id row) ''opened'' None None) ''failed to update invite status'') ?w1 = (Inr ?r2, ?w2)"
    using set_invite_status_run [of ?w1 ?r1 "''opened''" None None] ok1 assms(1,4) by (simp add: or_internal_def run_simps hit_invite_def [abs_def])
  have ok2: "invites_ok (w_db ?w2)" "?r2 \<in> set (invites (identity (w_db ?w2)))"
    using stored_after_status [OF ok1, of "w_db ?w2"] assms(4) by (simp_all add: update_invites_rows)
  have "member_fits G ?w2 ?r2"
    using assms(9) by (simp add: member_fits_def Let_def update_invites_rows find_tenant_def find_org_def) (simp add: update_invites_def update_identity_def)
  then obtain m w3 where "run_state (accept_invite I G token) ?w2 = (Inr (member_response_of (m, iv_public_id row)), w3)"
    "tenant_members (identity (w_db w3)) = tenant_members (identity (w_db ?w2)) @ [m]"
    using accept_invite_run [of ?w2 ?r2 I token G] ok2 assms(1,4-7) by auto
  with lookup revoke opened show ?thesis by (force simp: invite_from_row_def)
qed

section \<open>Resending\<close>

definition revoke_row :: "time \<Rightarrow> invite_row \<Rightarrow> invite_row" where
  "revoke_row t r = touch_invite t (r\<lparr>iv_status := ''revoked'', iv_revoked_at := Some t\<rparr>)"

lemma revoke_row_sel [simp]:
  "iv_id (revoke_row t r) = iv_id r" "iv_public_id (revoke_row t r) = iv_public_id r" "iv_token_hash (revoke_row t r) = iv_token_hash r"
  "iv_status (revoke_row t r) = ''revoked''" "iv_deleted_at (revoke_row t r) = iv_deleted_at r" "iv_expires_at (revoke_row t r) = iv_expires_at r"
  by (simp_all add: revoke_row_def touch_invite_def)

lemma insert_invite_ok:
  assumes "insert_invite r d = (Inr u, d')" "invites_ok d"
  shows "invites_ok d'" "set (invites (identity d')) = insert r (set (invites (identity d)))" "iv_id r \<notin> iv_id ` set (invites (identity d))"
proof -
  have "invites (identity d') = invites (identity d) @ [r] \<and> iv_id r \<notin> iv_id ` set (invites (identity d)) \<and>
      iv_public_id r \<notin> iv_public_id ` set (invites (identity d)) \<and> iv_token_hash r \<notin> iv_token_hash ` set (invites (identity d))"
    using assms(1) by (auto simp: insert_invite_def Let_def update_identity_def split: if_splits)
  with assms(2) show "invites_ok d'" "set (invites (identity d')) = insert r (set (invites (identity d)))" "iv_id r \<notin> iv_id ` set (invites (identity d))"
    by (simp_all add: invites_ok_def)
qed

lemma resend_rows_run:
  assumes "no_faults w" "invites_ok (w_db w)" "row \<in> set (invites (identity (w_db w)))" "resendable (iv_public_id row) row"
    and run: "run_state (resend_rows G (iv_public_id row) h ex cb ri) w = (Inr (Some r), w')"
  obtains "invites_ok (w_db w')" "revoke_row (w_now w) row \<in> set (invites (identity (w_db w')))" "r \<in> set (invites (identity (w_db w')))" "iv_id r \<noteq> iv_id row"
    "no_faults w'" "w_now w' = w_now w" "\<exists>i p. r = new_invite i p (iv_tenant_id row) (iv_org_id row) (iv_user_email row) (iv_role row) h (iv_tags row) (iv_metadata row) ex cb ri (w_now w)"
proof -
  let ?n = "new_invite (uuid_of G (w_ids w)) (''inv_'' @ encode_ts (unix_millis (w_now w)) @ rand_of G (Suc (w_ids w)) 8) (iv_tenant_id row) (iv_org_id row)
    (iv_user_email row) (iv_role row) h (iv_tags row) (iv_metadata row) ex cb ri (w_now w)"
  let ?d1 = "update_invites (resendable (iv_public_id row)) (revoke_row (w_now w)) (w_db w)"
  have hit: "find (resendable (iv_public_id row)) (invites (identity (w_db w))) = Some row"
  proof -
    have "(\<lambda>r. iv_public_id r = iv_public_id row \<and> resendable (iv_public_id row) r) = resendable (iv_public_id row)"
      by (auto simp: resendable_def fun_eq_iff)
    moreover have "find (\<lambda>r. iv_public_id r = iv_public_id row \<and> resendable (iv_public_id row) r) (invites (identity (w_db w))) = Some row"
      using assms(2-4) by (intro find_unique_key) (simp_all add: invites_ok_def)
    ultimately show ?thesis by (simp only:)
  qed
  have ok1: "invites_ok ?d1" "revoke_row (w_now w) row \<in> set (invites (identity ?d1))" "iv_id row \<in> iv_id ` set (invites (identity ?d1))"
  proof -
    show "invites_ok ?d1" using assms(2) by (simp add: invites_ok_def update_invites_rows map_update_where)
    show old: "revoke_row (w_now w) row \<in> set (invites (identity ?d1))" using assms(3,4) by (simp add: update_invites_rows set_update_where)
    from imageI [OF old, of iv_id] show "iv_id row \<in> iv_id ` set (invites (identity ?d1))" by simp
  qed
  obtain res d2 where ins: "insert_invite ?n ?d1 = (res, d2)" by fastforce
  show ?thesis
  proof (cases res)
    case (Inr u)
    note new = insert_invite_ok [OF ins [unfolded Inr] ok1(1)]
    have "find (\<lambda>x. iv_id x = iv_id ?n) (invites (identity d2)) = Some ?n"
      using new(1,2) by (intro find_distinct_key) (simp_all add: invites_ok_def)
    then have "r = ?n \<and> w_db w' = d2 \<and> no_faults w' \<and> w_now w' = w_now w"
      using run assms(1) ins Inr hit
      by (auto simp: resend_rows_def revoke_resendable_def insert_resent_def nano_id_new_def generate_def get_invite_by_id_def run_simps Let_def revoke_row_def [abs_def] new_invite_def)
    then show ?thesis using new ok1 by (intro that) auto
  next
    case (Inl e)
    then show ?thesis using run assms(1) ins hit
      by (simp add: resend_rows_def revoke_resendable_def insert_resent_def nano_id_new_def generate_def run_simps Let_def revoke_row_def [abs_def])
  qed
qed

lemma send_run:
  assumes "no_faults w" "invites_ok (w_db w)" "r \<in> set (invites (identity (w_db w)))" "iv_deleted_at r = None"
  obtains w' where "run_state (send_or_fail I r token) w = ((), w')" "no_faults w'" "w_now w' = w_now w" "invites_ok (w_db w')"
    "\<And>x. x \<in> set (invites (identity (w_db w))) \<Longrightarrow> iv_id x \<noteq> iv_id r \<Longrightarrow> x \<in> set (invites (identity (w_db w')))"
    "r \<in> set (invites (identity (w_db w'))) \<or> apply_status ''failed'' None None (w_now w) r \<in> set (invites (identity (w_db w')))"
proof -
  let ?w = "w\<lparr>w_ids := Suc (w_ids w)\<rparr>"
  let ?d = "update_invites (hit_invite r) (apply_status ''failed'' None None (w_now w)) (w_db w)"
  have ok: "invites_ok ?d" "apply_status ''failed'' None None (w_now w) r \<in> set (invites (identity ?d))"
    using stored_after_status [OF assms(2-4), of ?d] by (simp_all add: update_invites_rows)
  have other: "x \<in> set (invites (identity ?d))" if "x \<in> set (invites (identity (w_db w)))" "iv_id x \<noteq> iv_id r" for x
    using that by (force simp: update_invites_rows set_update_where hit_invite_def)
  have failed: "run_state (set_invite_status (iv_id r) ''failed'' None None) ?w = (Inr (Some (apply_status ''failed'' None None (w_now w) r)), ?w\<lparr>w_db := ?d\<rparr>)"
    using set_invite_status_run [of ?w r "''failed''" None None] assms by (simp add: hit_invite_def [abs_def])
  show ?thesis
  proof (cases "ix_send_invite I (w_ids w) (iv_user_email r) token (iv_role r) (iv_expires_at r)")
    case (Inl e)
    with assms(1) ok other show ?thesis
      by (intro that [of "?w\<lparr>w_db := ?d\<rparr>"]) (simp_all add: send_or_fail_def run_simps failed)
  next
    case (Inr u)
    with assms show ?thesis by (intro that [of ?w]) (simp_all add: send_or_fail_def run_simps)
  qed
qed

text \<open>Resending replaces the token: after an invite has been resent, its old token is refused as revoked, and the token
  of the answer belongs to a stored invite of the same tenant, organization, address and role that is
  valid for seven days.\<close>

theorem resending_replaces_token:
  assumes "no_faults w" "invites_ok (w_db w)" "row \<in> set (invites (identity (w_db w)))" "resendable (iv_public_id row) row"
    "iv_token_hash row = hash_token I token" "trim token \<noteq> []" "w_now w < iv_expires_at row"
    and run: "run_state (resend_invite I G (iv_public_id row) q) w = (Inr resp, w')"
  shows "run_state (accept_invite I G token) w' = (Inl (BadRequest ''invite has been revoked''), w') \<and>
    (\<exists>token' r. ir_token resp = Some token' \<and> r \<in> set (invites (identity (w_db w'))) \<and> iv_token_hash r = hash_token I token' \<and>
       iv_status r \<in> {''sent'', ''failed''} \<and> iv_tenant_id r = iv_tenant_id row \<and> iv_org_id r = iv_org_id row \<and> iv_user_email r = iv_user_email row \<and>
       iv_role r = iv_role row \<and> iv_expires_at r = w_now w + days 7 \<and> iv_deleted_at r = None)"
proof -
  let ?t = "simple (uuid_of G (w_ids w)) @ simple (uuid_of G (Suc (w_ids w)))"
  let ?w = "w\<lparr>w_ids := Suc (Suc (w_ids w))\<rparr>"
  obtain x w1 where rows: "run_state (resend_rows G (iv_public_id row) (hash_token I ?t) (w_now w + days 7) nil_uuid q) ?w = (x, w1)" by fastforce
  from run rows obtain r where x: "x = Inr (Some r)"
    by (cases x) (auto simp: resend_invite_def generate_token_def run_simps Let_def or_not_found_def split: option.splits)
  obtain ok: "invites_ok (w_db w1)" "revoke_row (w_now w) row \<in> set (invites (identity (w_db w1)))" "r \<in> set (invites (identity (w_db w1)))" "iv_id r \<noteq> iv_id row"
    "no_faults w1" "w_now w1 = w_now w" "\<exists>i p. r = new_invite i p (iv_tenant_id row) (iv_org_id row) (iv_user_email row) (iv_role row) (hash_token I ?t)
       (iv_tags row) (iv_metadata row) (w_now w + days 7) nil_uuid q (w_now w)"
    using resend_rows_run [OF _ _ _ assms(4) rows [unfolded x]] assms(1-3) by auto
  then have r: "iv_deleted_at r = None" "iv_status r = ''sent''" "iv_token_hash r = hash_token I ?t" "iv_tenant_id r = iv_tenant_id row" "iv_org_id r = iv_org_id row"
    "iv_user_email r = iv_user_email row" "iv_role r = iv_role row" "iv_expires_at r = w_now w + days 7" by (auto simp: new_invite_def)
  from ok(1,3,5) r(1) obtain w2 where send: "run_state (send_or_fail I r ?t) w1 = ((), w2)" "no_faults w2" "w_now w2 = w_now w1" "invites_ok (w_db w2)"
    "\<And>x. x \<in> set (invites (identity (w_db w1))) \<Longrightarrow> iv_id x \<noteq> iv_id r \<Longrightarrow> x \<in> set (invites (identity (w_db w2)))"
    "r \<in> set (invites (identity (w_db w2))) \<or> apply_status ''failed'' None None (w_now w1) r \<in> set (invites (identity (w_db w2)))"
    using send_run [of w1 r I ?t thesis] by blast
  have w': "w' = w2" "ir_token resp = Some ?t"
    using run rows send(1) unfolding x by (auto simp: resend_invite_def generate_token_def run_simps Let_def or_not_found_def with_token_def)
  have "revoke_row (w_now w) row \<in> set (invites (identity (w_db w2)))" using send(5) [OF ok(2)] ok(4) by simp
  with send(2-4) ok(6) assms(4-7) have "run_state (accept_invite I G token) w2 = (Inl (BadRequest ''invite has been revoked''), w2)"
    using accept_closed_run [of w2 "revoke_row (w_now w) row" I token G] by (simp add: resendable_def)
  moreover have "\<exists>r'\<in>{r, apply_status ''failed'' None None (w_now w1) r}. r' \<in> set (invites (identity (w_db w2)))" using send(6) by blast
  ultimately show ?thesis using r w' by auto
qed

section \<open>Samples\<close>

lemma invite_db_ok:
  "invites_ok invite_db" "sample_invite ''tok'' \<in> set (invites (identity invite_db))" "member_fits alnum_idgen (start_world invite_db empty_keyspace 0) (sample_invite ''tok'')"
  by (simp_all add: invites_ok_def invite_db_def update_identity_def member_fits_def Let_def key_db_def sample_invite_def new_invite_def empty_db_def empty_identity_def
      find_tenant_def find_org_def)

lemma sample_invite_sel [simp]:
  "iv_deleted_at (sample_invite token) = None" "iv_token_hash (sample_invite token) = hash_token sample_invite_ext token" "iv_status (sample_invite token) = ''sent''"
  "iv_expires_at (sample_invite token) = secs 100" "iv_public_id (sample_invite token) = ''inv_1''" "iv_tenant_id (sample_invite token) = ''t1''"
  "iv_user_email (sample_invite token) = ''a@b.c''"
  by (simp_all add: sample_invite_def new_invite_def)

lemma tok_trim: "trim ''tok'' \<noteq> []"
  by (simp add: trim_def trim_start_def trim_end_def trim_with.simps [of _ "''tok''"] trim_with.simps [of _ "''kot''"] white_space_def upt_rec char_of_def bit_simps)


definition taken_db :: db where
  "taken_db = update_identity (tenant_members_update (\<lambda>_. [member_for alnum_idgen (start_world invite_db empty_keyspace 0) (sample_invite ''old'')])) invite_db"

theorem refused_member_uses_up_invite_witness:
  "\<exists>e w'. run_state (accept_invite sample_invite_ext alnum_idgen ''tok'') (start_world taken_db empty_keyspace 0) = (Inl e, w') \<and>
     run_state (accept_invite sample_invite_ext alnum_idgen ''tok'') w' = (Inl (Conflict ''invite has already been accepted'' []), w')"
proof -
  have "invites_ok taken_db" "sample_invite ''tok'' \<in> set (invites (identity taken_db))" "0 < secs 100"
    using invite_db_ok by (simp_all add: invites_ok_def taken_db_def update_identity_def secs_def)
  then show ?thesis
    using refused_member_uses_up_invite [of "start_world taken_db empty_keyspace 0" "sample_invite ''tok''" sample_invite_ext "''tok''"
        "member_for alnum_idgen (start_world invite_db empty_keyspace 0) (sample_invite ''old'')" alnum_idgen] tok_trim
    by (auto simp: taken_db_def update_identity_def member_for_def)
qed

theorem late_verification_reopens_invite_witness:
  "\<exists>w1 w2 row resp m w3. run_state (revoke_invite ''inv_1'') (start_world invite_db empty_keyspace 0) = (Inr resp, w1) \<and> ir_status resp = ''revoked'' \<and>
     run_state (or_internal (set_invite_status (iv_id (sample_invite ''tok'')) ''opened'' None None) ''failed to update invite status'') w1 = (Inr row, w2) \<and>
     run_state (accept_invite sample_invite_ext alnum_idgen ''tok'') w2 = (Inr (member_response_of (m, ''inv_1'')), w3)"
  using late_verification_reopens_invite [of "start_world invite_db empty_keyspace 0" "sample_invite ''tok''" sample_invite_ext "''tok''" alnum_idgen] invite_db_ok tok_trim
  by (force simp: secs_def)

lemma show_nat_small: "show_nat 0 = ''0''" "show_nat (Suc 0) = ''1''" "show_nat (Suc (Suc 0)) = ''2''"
  by (simp_all add: show_nat.simps [of 0] show_nat.simps [of "Suc 0"] show_nat.simps [of "Suc (Suc 0)"] char_of_def bit_simps)

theorem resending_replaces_token_witness:
  "\<exists>resp w'. run_state (resend_invite sample_invite_ext alnum_idgen ''inv_1'' ''q2'') (start_world invite_db empty_keyspace 0) = (Inr resp, w') \<and>
     run_state (accept_invite sample_invite_ext alnum_idgen ''tok'') w' = (Inl (BadRequest ''invite has been revoked''), w')"
proof -
  let ?w = "start_world invite_db empty_keyspace 0"
  have "encode_ts x @ replicate 8 (CHR ''x'') \<noteq> ''1''" "''1'' \<noteq> encode_ts x @ replicate 8 (CHR ''x'')" for x by (auto simp: append_eq_Cons_conv numeral_eq_Suc)
  then obtain resp w' where run: "run_state (resend_invite sample_invite_ext alnum_idgen ''inv_1'' ''q2'') ?w = (Inr resp, w')"
    by (simp add: resend_invite_def generate_token_def or_not_found_def resend_rows_def revoke_resendable_def insert_resent_def insert_invite_def resendable_def
        nano_id_new_def generate_def get_invite_by_id_def send_or_fail_def sample_invite_ext_def hash_token_def lower_hex_def simple_def alnum_idgen_def run_simps Let_def
        invite_db_def key_db_def sample_invite_def new_invite_def update_identity_def update_invites_def empty_db_def empty_identity_def touch_invite_def
        find_tenant_def find_org_def nonempty_text_def show_nat_small)
  then show ?thesis
    using resending_replaces_token [of ?w "sample_invite ''tok''" sample_invite_ext "''tok''" alnum_idgen "''q2''" resp w'] invite_db_ok tok_trim
    by (simp add: resendable_def secs_def)
qed

end
