(* ===== verification/Endpoints.thy ===== *)
theory Endpoints
  imports Api_Key_Service Events
begin

text \<open>
  Endpoints and their signing secrets (\<open>src/features/endpoints/\<close>): requests with their checks, statements
  with the constraints of the migration, and the operations create, list, get, update with optimistic
  locking, delete, pause, resume, reading the secret and rotating it. The parser of the HTTP configuration and Unicode
  upper case are parameters.
\<close>

section \<open>Requests and responses\<close>

record endpoint_ext =
  ee_crypto :: crypto_ext
  ee_master_key :: string
  ee_http_config_of :: "json \<Rightarrow> string + http_config"
  ee_to_uppercase :: "string \<Rightarrow> string"

datatype endpoint_type = Http

fun endpoint_type_str :: "endpoint_type \<Rightarrow> string" where
  "endpoint_type_str Http = ''http''"

record create_endpoint_request =
  cp_application_id :: string
  cp_description :: "string option"
  cp_endpoint_type :: endpoint_type
  cp_config :: json
  cp_event_types :: "string list"
  cp_rate_limit :: "int option"
  cp_tags :: "(string \<times> string) list"

text \<open>A rate limit that is absent, cleared, or set.\<close>

record update_endpoint_request =
  up_description :: "string option"
  up_config :: "json option"
  up_event_types :: "string list option"
  up_rate_limit :: "int option option"
  up_tags :: "(string \<times> string) list option"
  up_version :: int

record list_endpoints_query =
  lp_application_id :: string
  lp_page :: nat
  lp_limit :: nat
  lp_status :: "string option"
  lp_endpoint_type :: "string option"

record endpoint_response =
  er_id :: string
  er_application_id :: string
  er_description :: "string option"
  er_endpoint_type :: string
  er_config :: json
  er_event_types :: "string list"
  er_status :: string
  er_rate_limit :: "int option"
  er_tags :: "(string \<times> string) list"
  er_created_by :: uuid
  er_updated_by :: uuid
  er_created_at :: time
  er_updated_at :: time

record secret_response =
  sc_id :: string
  sc_secret :: string
  sc_created_at :: time

text \<open>\<open>EndpointRow\<close> is the row together with the public id of its application.\<close>

definition endpoint_response_of :: "endpoint_row \<times> string \<Rightarrow> endpoint_response" where
  "endpoint_response_of v = (case v of (r, application_public_id) \<Rightarrow> \<lparr>er_id = ep_public_id r, er_application_id = application_public_id,
     er_description = ep_description r, er_endpoint_type = ep_type r, er_config = ep_config r, er_event_types = ep_event_types r, er_status = ep_status r,
     er_rate_limit = ep_rate_limit r, er_tags = ep_tags r, er_created_by = ep_created_by r, er_updated_by = ep_updated_by r, er_created_at = ep_created_at r,
     er_updated_at = ep_updated_at r\<rparr>)"

section \<open>Checks\<close>

definition validate_headers :: "(string \<times> string) list \<Rightarrow> app_error + unit" where
  "validate_headers headers = (if 10 < length headers then Inl (BadRequest ''config.headers: max 10 entries'')
     else (case find (\<lambda>(k, v). 256 < length k \<or> 1024 < length v) headers of
         None \<Rightarrow> Inr ()
       | Some (k, v) \<Rightarrow> Inl (BadRequest (if 256 < length k then ''config.headers: key exceeds 256 chars'' else ''config.headers: value exceeds 1024 chars''))))"

definition validate_http_config :: "endpoint_ext \<Rightarrow> json \<Rightarrow> app_error + unit" where
  "validate_http_config X config = (case ee_http_config_of X config of
       Inl e \<Rightarrow> Inl (BadRequest (''invalid http config: '' @ e))
     | Inr http \<Rightarrow>
         if hc_url http = [] then Inl (BadRequest ''config.url is required'')
         else if 2048 < length (hc_url http) then Inl (BadRequest ''config.url exceeds 2048 chars'')
         else if \<not> starts_with (hc_url http) ''http://'' \<and> \<not> starts_with (hc_url http) ''https://''
           then Inl (BadRequest ''config.url must start with http:// or https://'')
         else if ee_to_uppercase X (hc_method http) \<notin> {''POST'', ''PUT''} then Inl (BadRequest ''config.method must be POST or PUT'')
         else validate_headers (hc_headers http))"

definition validate_event_types :: "string list \<Rightarrow> app_error + unit" where
  "validate_event_types ets = (if 100 < length ets then Inl (BadRequest ''event_types: max 100 entries'')
     else (case find (\<lambda>et. \<not> starts_with et ''evt_'' \<or> length et \<noteq> 20) ets of
         None \<Rightarrow> Inr ()
       | Some et \<Rightarrow> Inl (BadRequest (''event_types: invalid id '' @ quote et @ '' (expected evt_<16 chars>)''))))"

definition validate_rate_limit :: "int \<Rightarrow> app_error + unit" where
  "validate_rate_limit rl = (if 1 \<le> rl \<and> rl \<le> 100000 then Inr () else Inl (BadRequest ''rate_limit_per_minute must be between 1 and 100000''))"

text \<open>\<open>check(&x)?\<close> one after the other, and a check of a value that may be absent.\<close>

fun all_checks :: "(app_error + unit) list \<Rightarrow> app_error + unit" where
  "all_checks [] = Inr ()"
| "all_checks (c # cs) = (case c of Inl e \<Rightarrow> Inl e | Inr _ \<Rightarrow> all_checks cs)"

definition if_given :: "'a option \<Rightarrow> ('a \<Rightarrow> app_error + unit) \<Rightarrow> app_error + unit" where
  "if_given x c = (case x of None \<Rightarrow> Inr () | Some a \<Rightarrow> c a)"

section \<open>Statements\<close>

text \<open>The column type of the description and the check constraints of the table.\<close>

definition endpoint_violation :: "endpoint_row \<Rightarrow> sqlx_error option" where
  "endpoint_violation r =
     (if (case ep_description r of None \<Rightarrow> False | Some s \<Rightarrow> 512 < char_length s) then Some value_too_long
      else if ep_status r \<notin> {''active'', ''paused''} then Some (check_failed ''endpoints'' ''endpoints_status_check'')
      else if ep_type r \<noteq> ''http'' then Some (check_failed ''endpoints'' ''endpoints_type_check'')
      else if (case ep_rate_limit r of None \<Rightarrow> False | Some l \<Rightarrow> \<not> (1 \<le> l \<and> l \<le> 100000)) then Some (check_failed ''endpoints'' ''endpoints_rate_limit_check'')
      else None)"

definition insert_endpoint :: "endpoint_row \<Rightarrow> db \<Rightarrow> (sqlx_error + unit) \<times> db" where
  "insert_endpoint r d = (case endpoint_violation r of Some e \<Rightarrow> (Inl e, d)
     | None \<Rightarrow>
       if \<exists>x\<in>set (endpoints d). ep_id x = ep_id r then (Inl (duplicate_key ''endpoints'' ''endpoints_pkey'' ''id'' (ep_id r)), d)
       else if \<exists>x\<in>set (endpoints d). ep_public_id x = ep_public_id r
         then (Inl (duplicate_key ''endpoints'' ''idx_endpoints_public_id'' ''public_id'' (ep_public_id r)), d)
       else if \<not> (\<exists>a\<in>set (applications d). ap_id a = ep_application_id r) then (Inl (missing_reference ''endpoints'' ''endpoints_application_id_fkey''), d)
       else (Inr (), d\<lparr>endpoints := endpoints d @ [r]\<rparr>))"

definition insert_secret :: "secret_row \<Rightarrow> db \<Rightarrow> (sqlx_error + secret_row) \<times> db" where
  "insert_secret s d =
     (if \<exists>x\<in>set (endpoint_secrets d). es_id x = es_id s then (Inl (duplicate_key ''endpoint_secrets'' ''endpoint_secrets_pkey'' ''id'' (es_id s)), d)
      else if \<exists>x\<in>set (endpoint_secrets d). es_public_id x = es_public_id s
        then (Inl (duplicate_key ''endpoint_secrets'' ''idx_endpoint_secrets_public_id'' ''public_id'' (es_public_id s)), d)
      else if \<not> (\<exists>e\<in>set (endpoints d). ep_id e = es_endpoint_id s) then (Inl (missing_reference ''endpoint_secrets'' ''endpoint_secrets_endpoint_id_fkey''), d)
      else (Inr s, d\<lparr>endpoint_secrets := endpoint_secrets d @ [s]\<rparr>))"

definition new_secret :: "uuid \<Rightarrow> string \<Rightarrow> uuid \<Rightarrow> uuid \<Rightarrow> uuid \<Rightarrow> string \<Rightarrow> request_context \<Rightarrow> time \<Rightarrow> secret_row" where
  "new_secret i public_id endpoint_id tenant_id organization_id secret ctx t =
     \<lparr>es_endpoint_id = endpoint_id, es_secret = secret, es_is_active = True, es_expires_at = None, es_id = i, es_public_id = public_id,
      es_tenant_id = tenant_id, es_org_id = organization_id, es_request_id = rc_request_id ctx, es_created_by = rc_created_by ctx, es_created_at = t\<rparr>"

definition new_endpoint :: "uuid \<Rightarrow> string \<Rightarrow> application_ref \<Rightarrow> create_endpoint_request \<Rightarrow> request_context \<Rightarrow> time \<Rightarrow> endpoint_row" where
  "new_endpoint i public_id app req ctx t =
     \<lparr>ep_id = i, ep_public_id = public_id, ep_application_id = ar_id app, ep_tenant_id = ar_tenant_id app, ep_org_id = ar_org_id app, ep_config = cp_config req,
      ep_status = ''active'', ep_rate_limit = cp_rate_limit req, ep_deleted_at = None, ep_description = cp_description req,
      ep_type = endpoint_type_str (cp_endpoint_type req), ep_event_types = cp_event_types req, ep_tags = cp_tags req, ep_version = 0,
      ep_request_id = rc_request_id ctx, ep_created_by = rc_created_by ctx, ep_updated_by = rc_created_by ctx, ep_created_at = t, ep_updated_at = t\<rparr>"

text \<open>The first secret, for the endpoint with the given public id.\<close>

definition insert_first_secret :: "uuid \<Rightarrow> string \<Rightarrow> string \<Rightarrow> application_ref \<Rightarrow> string \<Rightarrow> request_context \<Rightarrow> time \<Rightarrow> db \<Rightarrow> (sqlx_error + unit) \<times> db" where
  "insert_first_secret i sec_public_id ep_pid app encrypted ctx t d = (case find (\<lambda>e. ep_public_id e = ep_pid) (endpoints d) of
       None \<Rightarrow> (Inr (), d)
     | Some e \<Rightarrow> (case insert_secret (new_secret i sec_public_id (ep_id e) (ar_tenant_id app) (ar_org_id app) encrypted ctx t) d of
         (r, d') \<Rightarrow> (map_sum id (\<lambda>_. ()) r, d')))"

definition view_endpoint :: "db \<Rightarrow> endpoint_row \<Rightarrow> (endpoint_row \<times> string) option" where
  "view_endpoint d e = map_option (\<lambda>a. (e, ap_public_id a)) (find (\<lambda>a. ap_id a = ep_application_id e) (applications d))"

definition live_endpoint :: "string \<Rightarrow> endpoint_row \<Rightarrow> bool" where
  "live_endpoint public_id e \<longleftrightarrow> ep_public_id e = public_id \<and> ep_deleted_at e = None"

definition get_endpoint_row :: "string \<Rightarrow> (app_error + (endpoint_row \<times> string) option) io" where
  "get_endpoint_row public_id = map_sqlx (query (\<lambda>_ d. first_row (List.map_filter (view_endpoint d) (filter (live_endpoint public_id) (endpoints d)))))"

definition get_meta :: "string \<Rightarrow> (app_error + endpoint_row option) io" where
  "get_meta public_id = map_sqlx (query (\<lambda>_ d. find (live_endpoint public_id) (endpoints d)))"

definition create_endpoint_rows :: "idgen \<Rightarrow> application_ref \<Rightarrow> create_endpoint_request \<Rightarrow> string \<Rightarrow> request_context \<Rightarrow> (app_error + endpoint_row \<times> string) io" where
  "create_endpoint_rows G app req encrypted ctx = do {
     ep_nano \<leftarrow> nano_id_new G;
     sec_nano \<leftarrow> nano_id_new G;
     i \<leftarrow> fresh;
     j \<leftarrow> fresh;
     let public_id = ''ep_'' @ ep_nano;
     try_bind (map_sqlx tx_begin) (\<lambda>d.
     try_bind (map_sqlx (tx_statement (\<lambda>t. insert_endpoint (new_endpoint (uuid_of G i) public_id app req ctx t)) d)) (\<lambda>(_, d1).
     try_bind (map_sqlx (tx_statement (insert_first_secret (uuid_of G j) (''sec_'' @ sec_nano) public_id app encrypted ctx) d1)) (\<lambda>(_, d2).
     try_bind (map_sqlx (tx_commit d2)) (\<lambda>_.
     try_bind (get_endpoint_row public_id) (\<lambda>r. State_Monad.return (case r of
         None \<Rightarrow> Inl (Internal ''endpoint created but not found on fetch'') | Some v \<Rightarrow> Inr v)))))) }"

definition list_endpoint_rows :: "list_endpoints_query \<Rightarrow> (app_error + (endpoint_row \<times> string) list \<times> int) io" where
  "list_endpoint_rows f = map_sqlx (query (\<lambda>_ d.
     let app = map_option ap_id (find (\<lambda>a. ap_public_id a = lp_application_id f \<and> ap_deleted_at a = None) (applications d));
         hits = List.map_filter (view_endpoint d) (filter (\<lambda>e. Some (ep_application_id e) = app \<and> ep_deleted_at e = None \<and>
             (lp_status f = None \<or> lp_status f = Some (ep_status e)) \<and> (lp_endpoint_type f = None \<or> lp_endpoint_type f = Some (ep_type e))) (endpoints d))
     in page_within 250 (lp_page f) (lp_limit f) (sort_key (\<lambda>v. - ep_created_at (fst v)) hits)))"

text \<open>\<open>UPDATE endpoints ... RETURNING id\<close>: refused as a whole when a new row violates a constraint.\<close>

definition update_endpoints :: "(endpoint_row \<Rightarrow> bool) \<Rightarrow> (endpoint_row \<Rightarrow> endpoint_row) \<Rightarrow> db \<Rightarrow> (sqlx_error + uuid option) \<times> db" where
  "update_endpoints hit f d = (case List.map_filter endpoint_violation (map f (filter hit (endpoints d))) of
       e # _ \<Rightarrow> (Inl e, d)
     | [] \<Rightarrow> (Inr (map_option ep_id (find hit (endpoints d))), d\<lparr>endpoints := update_where hit f (endpoints d)\<rparr>))"

definition touch_endpoint :: "request_context \<Rightarrow> time \<Rightarrow> endpoint_row \<Rightarrow> endpoint_row" where
  "touch_endpoint ctx t e = e\<lparr>ep_updated_by := rc_created_by ctx, ep_request_id := rc_request_id ctx, ep_updated_at := t, ep_version := ep_version e + 1\<rparr>"

definition apply_endpoint_update :: "update_endpoint_request \<Rightarrow> endpoint_row \<Rightarrow> endpoint_row" where
  "apply_endpoint_update req e = e\<lparr>
     ep_description := (case up_description req of None \<Rightarrow> ep_description e | Some s \<Rightarrow> Some s),
     ep_config := coalesce (up_config req) (ep_config e),
     ep_event_types := coalesce (up_event_types req) (ep_event_types e),
     ep_rate_limit := coalesce (up_rate_limit req) (ep_rate_limit e),
     ep_tags := coalesce (up_tags req) (ep_tags e)\<rparr>"

definition update_returning :: "(endpoint_row \<Rightarrow> bool) \<Rightarrow> (time \<Rightarrow> endpoint_row \<Rightarrow> endpoint_row) \<Rightarrow> string \<Rightarrow> (app_error + (endpoint_row \<times> string) option) io" where
  "update_returning hit f public_id = try_bind (map_sqlx (statement (\<lambda>t. update_endpoints hit (f t)))) (\<lambda>i.
     case i of None \<Rightarrow> State_Monad.return (Inr None) | Some _ \<Rightarrow> get_endpoint_row public_id)"

definition update_endpoint_row :: "string \<Rightarrow> update_endpoint_request \<Rightarrow> request_context \<Rightarrow> (app_error + (endpoint_row \<times> string) option) io" where
  "update_endpoint_row public_id req ctx = update_returning (\<lambda>e. ep_public_id e = public_id \<and> ep_version e = up_version req \<and> ep_deleted_at e = None)
     (\<lambda>t e. touch_endpoint ctx t (apply_endpoint_update req e)) public_id"

definition delete_endpoint_row :: "string \<Rightarrow> request_context \<Rightarrow> (app_error + unit) io" where
  "delete_endpoint_row public_id ctx = try_bind (map_sqlx (statement (\<lambda>t. update_endpoints (live_endpoint public_id)
     (\<lambda>e. touch_endpoint ctx t (e\<lparr>ep_deleted_at := Some t\<rparr>))))) (\<lambda>_. State_Monad.return (Inr ()))"

definition set_endpoint_status :: "string \<Rightarrow> string \<Rightarrow> request_context \<Rightarrow> (app_error + (endpoint_row \<times> string) option) io" where
  "set_endpoint_status public_id status ctx = update_returning (live_endpoint public_id) (\<lambda>t e. touch_endpoint ctx t (e\<lparr>ep_status := status\<rparr>)) public_id"

text \<open>The youngest of the usable secrets.\<close>

definition get_active_secret :: "string \<Rightarrow> (app_error + secret_row option) io" where
  "get_active_secret ep_pid = map_sqlx (query (\<lambda>t d. first_row (sort_key (\<lambda>s. - es_created_at s)
     (concat (map (\<lambda>e. usable_secrets t (ep_id e) d) (filter (live_endpoint ep_pid) (endpoints d)))))))"

definition retire_secret :: "nat \<Rightarrow> time \<Rightarrow> secret_row \<Rightarrow> secret_row" where
  "retire_secret expiry t s = s\<lparr>es_is_active := (if expiry = 0 then False else es_is_active s),
     es_expires_at := (if 0 < expiry then Some (t + secs (int expiry)) else es_expires_at s)\<rparr>"

definition unretired :: "uuid \<Rightarrow> time \<Rightarrow> secret_row \<Rightarrow> bool" where
  "unretired endpoint_id t s \<longleftrightarrow> es_endpoint_id s = endpoint_id \<and> es_is_active s \<and> (case es_expires_at s of None \<Rightarrow> True | Some x \<Rightarrow> t < x)"

definition retire_secrets :: "uuid \<Rightarrow> nat \<Rightarrow> time \<Rightarrow> db \<Rightarrow> (sqlx_error + unit) \<times> db" where
  "retire_secrets endpoint_id expiry t d =
     (Inr (), d\<lparr>endpoint_secrets := update_where (unretired endpoint_id t) (retire_secret expiry t) (endpoint_secrets d)\<rparr>)"

definition replace_secret :: "idgen \<Rightarrow> endpoint_row \<Rightarrow> string \<Rightarrow> nat \<Rightarrow> request_context \<Rightarrow> db \<Rightarrow> (app_error + secret_row option) io" where
  "replace_secret G meta encrypted expiry ctx d =
     try_bind (map_sqlx (tx_statement (retire_secrets (ep_id meta) expiry) d)) (\<lambda>(_, d1). do {
       nano \<leftarrow> nano_id_new G;
       i \<leftarrow> fresh;
       try_bind (map_sqlx (tx_statement (\<lambda>t. insert_secret (new_secret (uuid_of G i) (''sec_'' @ nano) (ep_id meta) (ep_tenant_id meta) (ep_org_id meta)
           encrypted ctx t)) d1)) (\<lambda>(s, d2).
       try_bind (map_sqlx (tx_commit d2)) (\<lambda>_. State_Monad.return (Inr (Some s)))) })"

definition rotate_secret_rows :: "idgen \<Rightarrow> string \<Rightarrow> string \<Rightarrow> nat \<Rightarrow> request_context \<Rightarrow> (app_error + secret_row option) io" where
  "rotate_secret_rows G ep_pid encrypted expiry ctx =
     try_bind (map_sqlx tx_begin) (\<lambda>d.
     try_bind (map_sqlx (tx_statement (\<lambda>_ d. (Inr (find (live_endpoint ep_pid) (endpoints d)), d)) d)) (\<lambda>(meta, d1).
     case meta of
       None \<Rightarrow> do { _ \<leftarrow> query (\<lambda>_ _. ()); State_Monad.return (Inr None) }
     | Some m \<Rightarrow> replace_secret G m encrypted expiry ctx d1))"

section \<open>Operations\<close>

definition endpoint_missing :: "string \<Rightarrow> string" where
  "endpoint_missing public_id = ''Endpoint not found: '' @ public_id"

definition create_endpoint :: "endpoint_ext \<Rightarrow> idgen \<Rightarrow> create_endpoint_request \<Rightarrow> request_context \<Rightarrow> (app_error + endpoint_response) io" where
  "create_endpoint X G req ctx = checked (all_checks [validate_http_config X (cp_config req), validate_event_types (cp_event_types req), validate_tags (cp_tags req),
       if_given (cp_rate_limit req) validate_rate_limit])
     (try_bind (or_not_found (get_application (cp_application_id req)) (''Application not found: '' @ cp_application_id req)) (\<lambda>app. do {
        plaintext \<leftarrow> generate_webhook_secret (ee_crypto X);
        try_bind (encrypt (ee_crypto X) (ee_master_key X) (ar_tenant_id app) plaintext) (\<lambda>encrypted.
        try_bind (create_endpoint_rows G app req encrypted ctx) (\<lambda>ep. State_Monad.return (Inr (endpoint_response_of ep)))) }))"

definition list_endpoints :: "list_endpoints_query \<Rightarrow> (app_error + endpoint_response paginated) io" where
  "list_endpoints f = try_bind (list_endpoint_rows f) (\<lambda>(items, total). State_Monad.return (Inr
     \<lparr>pg_items = map endpoint_response_of items, pg_total = total, pg_page = as_i32 (lp_page f), pg_limit = as_i32 (lp_limit f)\<rparr>))"

definition get_endpoint :: "string \<Rightarrow> (app_error + endpoint_response) io" where
  "get_endpoint public_id = try_bind (or_not_found (get_endpoint_row public_id) (endpoint_missing public_id)) (\<lambda>v. State_Monad.return (Inr (endpoint_response_of v)))"

definition version_mismatch :: app_error where
  "version_mismatch = Conflict (''version mismatch '' @ map char_of [226, 128, 148 :: nat] @ '' fetch the latest version and retry'') []"

definition update_endpoint :: "endpoint_ext \<Rightarrow> string \<Rightarrow> update_endpoint_request \<Rightarrow> request_context \<Rightarrow> (app_error + endpoint_response) io" where
  "update_endpoint X public_id req ctx = checked (all_checks [if_given (up_config req) (validate_http_config X), if_given (up_event_types req) validate_event_types,
       if_given (up_tags req) validate_tags, if_given (Option.bind (up_rate_limit req) id) validate_rate_limit])
     (try_bind (update_endpoint_row public_id req ctx) (\<lambda>r. case r of
        Some ep \<Rightarrow> State_Monad.return (Inr (endpoint_response_of ep))
      | None \<Rightarrow> try_bind (get_endpoint_row public_id) (\<lambda>x. State_Monad.return (Inl (if x = None then NotFound (endpoint_missing public_id) else version_mismatch)))))"

definition delete_endpoint :: "string \<Rightarrow> request_context \<Rightarrow> (app_error + unit) io" where
  "delete_endpoint public_id ctx = delete_endpoint_row public_id ctx"

definition change_endpoint_status :: "string \<Rightarrow> string \<Rightarrow> request_context \<Rightarrow> (app_error + endpoint_response) io" where
  "change_endpoint_status public_id status ctx = try_bind (or_not_found (set_endpoint_status public_id status ctx) (endpoint_missing public_id))
     (\<lambda>v. State_Monad.return (Inr (endpoint_response_of v)))"

definition pause_endpoint :: "string \<Rightarrow> request_context \<Rightarrow> (app_error + endpoint_response) io" where
  "pause_endpoint public_id ctx = change_endpoint_status public_id ''paused'' ctx"

definition resume_endpoint :: "string \<Rightarrow> request_context \<Rightarrow> (app_error + endpoint_response) io" where
  "resume_endpoint public_id ctx = change_endpoint_status public_id ''active'' ctx"

text \<open>The outer option is None when decryption panics.\<close>

definition get_secret :: "endpoint_ext \<Rightarrow> string \<Rightarrow> (app_error + secret_response) option io" where
  "get_secret X public_id = do {
     r \<leftarrow> or_not_found (get_active_secret public_id) (endpoint_missing public_id);
     State_Monad.return (case r of
       Inl e \<Rightarrow> Some (Inl e)
     | Inr row \<Rightarrow> map_option (map_sum id (\<lambda>p. \<lparr>sc_id = es_public_id row, sc_secret = p, sc_created_at = es_created_at row\<rparr>))
         (decrypt (ee_crypto X) (ee_master_key X) (es_tenant_id row) (es_secret row))) }"

definition rotate_secret :: "endpoint_ext \<Rightarrow> idgen \<Rightarrow> string \<Rightarrow> nat option \<Rightarrow> request_context \<Rightarrow> (app_error + secret_response) io" where
  "rotate_secret X G public_id expiry_seconds ctx = try_bind (or_not_found (get_meta public_id) (endpoint_missing public_id)) (\<lambda>meta.
     let expiry = coalesce expiry_seconds 0 in
     if 86400 < expiry then State_Monad.return (Inl (BadRequest ''expiry_seconds must be between 0 and 86400''))
     else do {
       plaintext \<leftarrow> generate_webhook_secret (ee_crypto X);
       try_bind (encrypt (ee_crypto X) (ee_master_key X) (ep_tenant_id meta) plaintext) (\<lambda>encrypted.
       try_bind (or_not_found (rotate_secret_rows G public_id encrypted expiry ctx) (endpoint_missing public_id)) (\<lambda>row.
         State_Monad.return (Inr \<lparr>sc_id = es_public_id row, sc_secret = plaintext, sc_created_at = es_created_at row\<rparr>))) })"

section \<open>Handlers\<close>

definition create_endpoint_handler :: "endpoint_ext \<Rightarrow> idgen \<Rightarrow> request_context \<Rightarrow> create_endpoint_request \<Rightarrow> (app_error + int \<times> endpoint_response) io" where
  "create_endpoint_handler X G ctx payload = with_status 201 id (create_endpoint X G payload ctx)"

definition get_endpoint_handler :: "string \<Rightarrow> (app_error + int \<times> endpoint_response) io" where
  "get_endpoint_handler public_id = checked (validate_id_prefix public_id ''ep_'' ''endpoint'') (with_status 200 id (get_endpoint public_id))"

definition delete_endpoint_handler :: "request_context \<Rightarrow> string \<Rightarrow> (app_error + int \<times> unit) io" where
  "delete_endpoint_handler ctx public_id = with_status 204 id (delete_endpoint public_id ctx)"

end
