(* ===== verification/Endpoint_State.thy ===== *)
theory Endpoint_State
  imports Endpoints
begin

text \<open>
  Signing secrets under any sequence of calls and any faults: every endpoint always has exactly one
  permanent secret, and every stored secret can be decrypted for the tenant of its endpoint.
\<close>

section \<open>Readable secrets\<close>

text \<open>The URL-safe alphabet is ASCII, so the text of a generated secret survives the UTF-8 check of decryption.\<close>

locale url_safe_library = crypto_library +
  assumes b64url_ascii: "is_ascii (b64url_encode X b)"
begin

lemma generated_secret_utf8: "fst (run_state (generate_webhook_secret X) w) = p \<Longrightarrow> utf8_valid p"
  using b64url_ascii by (auto simp: generate_webhook_secret_def run_simps is_ascii_def byte_in_def intro!: ascii_utf8)

end

interpretation sample_url_safe: url_safe_library sample_crypto
proof
  have digit: "(65 + n :: nat) mod 256 \<le> 127" if "n < 16" for n using that by simp
  have "is_ascii (hex_encode s)" for s
    using digit [OF of_char_div] by (induction s) (auto simp: hex_encode_def is_ascii_def byte_in_def)
  then show "is_ascii (b64url_encode sample_crypto b)" for b by (simp add: sample_crypto_def)
qed

definition readable :: "endpoint_ext \<Rightarrow> uuid \<Rightarrow> string \<Rightarrow> bool" where
  "readable X tenant enc \<longleftrightarrow> (\<exists>p. decrypt (ee_crypto X) (ee_master_key X) tenant enc = Some (Inr p))"

definition permanent :: "uuid \<Rightarrow> secret_row \<Rightarrow> bool" where
  "permanent i s \<longleftrightarrow> es_endpoint_id s = i \<and> es_is_active s \<and> es_expires_at s = None"

definition signing_ok :: "endpoint_ext \<Rightarrow> db \<Rightarrow> bool" where
  "signing_ok X d \<longleftrightarrow> distinct (map ep_id (endpoints d)) \<and> distinct (map ep_public_id (endpoints d)) \<and>
     (\<forall>s\<in>set (endpoint_secrets d). es_endpoint_id s \<in> ep_id ` set (endpoints d)) \<and>
     (\<forall>e\<in>set (endpoints d). length (filter (permanent (ep_id e)) (endpoint_secrets d)) = 1 \<and>
        (\<forall>s\<in>set (endpoint_secrets d). es_endpoint_id s = ep_id e \<longrightarrow> readable X (ep_tenant_id e) (es_secret s)))"

text \<open>What the worker needs: a usable secret at any time.\<close>

lemma signing_ok_current:
  assumes "signing_ok X d" "e \<in> set (endpoints d)"
  shows "\<exists>enc. current_secret t (ep_id e) d = Some enc \<and> readable X (ep_tenant_id e) enc"
proof -
  from assms have "filter (permanent (ep_id e)) (endpoint_secrets d) \<noteq> []" by (force simp: signing_ok_def)
  then obtain p where "p \<in> set (usable_secrets t (ep_id e) d)"
    by (force simp: filter_empty_conv usable_secrets_def permanent_def)
  then obtain s ss where ss: "sort_key (\<lambda>s. case es_expires_at s of None \<Rightarrow> (0, 0) | Some e \<Rightarrow> (1::nat, e)) (usable_secrets t (ep_id e) d) = s # ss"
    by (metis list.exhaust list.set(1) empty_iff set_sort)
  then have "s \<in> set (usable_secrets t (ep_id e) d)" by (metis list.set_intros(1) set_sort)
  with assms have "readable X (ep_tenant_id e) (es_secret s)" by (auto simp: signing_ok_def usable_secrets_def)
  with ss show ?thesis by (simp add: current_secret_def)
qed

section \<open>Steps on the tables\<close>

lemma signing_ok_update:
  assumes "signing_ok X d" "\<And>e. ep_id (f e) = ep_id e \<and> ep_public_id (f e) = ep_public_id e \<and> ep_tenant_id (f e) = ep_tenant_id e"
    "update_endpoints hit f d = (Inr i, d')"
  shows "signing_ok X d'"
proof -
  from assms(3) have d': "d' = d\<lparr>endpoints := update_where hit f (endpoints d)\<rparr>" by (auto simp: update_endpoints_def split: list.splits)
  have keys: "map ep_id (update_where hit f xs) = map ep_id xs" "map ep_public_id (update_where hit f xs) = map ep_public_id xs" for xs
    using assms(2) by (auto simp: map_update_where)
  then have "ep_id ` set (update_where hit f xs) = ep_id ` set xs" for xs by (metis set_map)
  moreover have "\<exists>e'\<in>set xs. ep_id e = ep_id e' \<and> ep_tenant_id e = ep_tenant_id e'" if "e \<in> set (update_where hit f xs)" for e xs
    using that assms(2) by (force simp: set_update_where)
  ultimately show ?thesis using assms(1) unfolding signing_ok_def d' by (simp add: keys) metis
qed

lemma insert_secret_Inr: "insert_secret s d = (Inr r, d') \<Longrightarrow> r = s \<and> d' = d\<lparr>endpoint_secrets := endpoint_secrets d @ [s]\<rparr> \<and> es_endpoint_id s \<in> ep_id ` set (endpoints d)"
  by (auto simp: insert_secret_def image_iff split: if_splits) metis

lemma insert_endpoint_Inr: "insert_endpoint e d = (Inr r, d') \<Longrightarrow> d' = d\<lparr>endpoints := endpoints d @ [e]\<rparr> \<and>
    ep_id e \<notin> ep_id ` set (endpoints d) \<and> ep_public_id e \<notin> ep_public_id ` set (endpoints d)"
  by (auto simp: insert_endpoint_def split: if_splits option.splits)

lemma new_secret_sel [simp]: "es_endpoint_id (new_secret j sid i tid oid enc ctx t) = i" "es_secret (new_secret j sid i tid oid enc ctx t) = enc"
  "permanent k (new_secret j sid i tid oid enc ctx t) \<longleftrightarrow> k = i"
  by (auto simp: new_secret_def permanent_def)

text \<open>The two insertions of a new endpoint.\<close>

lemma signing_ok_create:
  assumes "signing_ok X d" "insert_endpoint (new_endpoint i pid app req ctx t) d = (Inr r1, d1)"
    "insert_first_secret j sid pid app enc ctx t' d1 = (Inr r2, d2)" "readable X (ar_tenant_id app) enc"
  shows "signing_ok X d2"
proof -
  let ?e = "new_endpoint i pid app req ctx t"
  let ?s = "new_secret j sid i (ar_tenant_id app) (ar_org_id app) enc ctx t'"
  have e: "ep_id ?e = i" "ep_public_id ?e = pid" "ep_tenant_id ?e = ar_tenant_id app" by (simp_all add: new_endpoint_def)
  from insert_endpoint_Inr [OF assms(2)] have d1: "d1 = d\<lparr>endpoints := endpoints d @ [?e]\<rparr>" and new: "i \<notin> ep_id ` set (endpoints d)" "pid \<notin> ep_public_id ` set (endpoints d)"
    by (simp_all add: e)
  have "find (\<lambda>x. ep_public_id x = pid) (endpoints d1) = Some ?e"
    using find_distinct_key [of ep_public_id "endpoints d1" ?e] assms(1) new by (simp add: d1 e signing_ok_def)
  with assms(3) obtain r where "insert_secret ?s d1 = (Inr r, d2)"
    by (cases "insert_secret ?s d1"; cases "fst (insert_secret ?s d1)") (auto simp: insert_first_secret_def e)
  then have d2: "d2 = d\<lparr>endpoints := endpoints d @ [?e], endpoint_secrets := endpoint_secrets d @ [?s]\<rparr>"
    by (auto dest!: insert_secret_Inr simp: d1)
  have "filter (permanent i) (endpoint_secrets d) = []" using assms(1) new by (auto simp: signing_ok_def filter_empty_conv permanent_def)
  then show ?thesis
    using assms(1,4) new e by (auto simp: signing_ok_def d2)
qed

text \<open>Retiring the secrets of an endpoint leaves no permanent one; the other endpoints keep theirs.\<close>

lemma retire_permanent:
  "filter (permanent k) (update_where (unretired i t) (retire_secret expiry t) ss) =
     (if k = i then [] else filter (permanent k) ss)"
proof -
  have "\<not> permanent i (retire_secret expiry t s)" "permanent i s \<Longrightarrow> unretired i t s" "k \<noteq> i \<Longrightarrow> unretired i t s \<Longrightarrow> \<not> permanent k s \<and> \<not> permanent k (retire_secret expiry t s)" for s
    by (auto simp: permanent_def retire_secret_def unretired_def)
  then show ?thesis by (induction ss) auto
qed

lemma retire_secret_sel [simp]: "es_endpoint_id (retire_secret n t s) = es_endpoint_id s" "es_secret (retire_secret n t s) = es_secret s"
  by (simp_all add: retire_secret_def)

lemma signing_ok_replace:
  assumes "signing_ok X d" "e \<in> set (endpoints d)" "retire_secrets (ep_id e) n t d = (Inr r1, d1)"
    "insert_secret (new_secret j sid (ep_id e) tid oid enc ctx t') d1 = (Inr r2, d2)" "readable X (ep_tenant_id e) enc"
  shows "signing_ok X d2" "endpoints d2 = endpoints d"
proof -
  let ?s = "new_secret j sid (ep_id e) tid oid enc ctx t'"
  let ?ss = "update_where (unretired (ep_id e) t) (retire_secret n t) (endpoint_secrets d)"
  have d2: "d2 = d\<lparr>endpoint_secrets := ?ss @ [?s]\<rparr>" using assms(3,4) by (auto simp: retire_secrets_def dest!: insert_secret_Inr)
  have old: "\<exists>s'\<in>set (endpoint_secrets d). es_endpoint_id s = es_endpoint_id s' \<and> es_secret s = es_secret s'" if "s \<in> set ?ss" for s
    using that by (force simp: set_update_where)
  have same: "x = e" if "x \<in> set (endpoints d)" "ep_id x = ep_id e" for x
    using that assms(1,2) by (auto simp: signing_ok_def distinct_map dest: inj_onD)
  have refs: "\<forall>s\<in>set ?ss. es_endpoint_id s \<in> ep_id ` set (endpoints d)" using assms(1) old unfolding signing_ok_def by metis
  have read: "\<forall>x\<in>set (endpoints d). \<forall>s\<in>set ?ss. es_endpoint_id s = ep_id x \<longrightarrow> readable X (ep_tenant_id x) (es_secret s)"
    using assms(1) old unfolding signing_ok_def by metis
  have count: "length (filter (permanent (ep_id x)) (?ss @ [?s])) = 1" if "x \<in> set (endpoints d)" for x
    using assms(1) that by (auto simp: signing_ok_def retire_permanent)
  have "readable X (ep_tenant_id x) enc" if "x \<in> set (endpoints d)" "ep_id e = ep_id x" for x using same [OF that(1)] that(2) assms(5) by simp
  with read have "\<forall>x\<in>set (endpoints d). \<forall>s\<in>set (?ss @ [?s]). es_endpoint_id s = ep_id x \<longrightarrow> readable X (ep_tenant_id x) (es_secret s)"
    by simp
  moreover have "\<forall>s\<in>set (?ss @ [?s]). es_endpoint_id s \<in> ep_id ` set (endpoints d)" using refs assms(2) by simp
  moreover have "distinct (map ep_id (endpoints d))" "distinct (map ep_public_id (endpoints d))" using assms(1) by (simp_all add: signing_ok_def)
  ultimately show "signing_ok X d2" using count unfolding signing_ok_def d2 by simp
  show "endpoints d2 = endpoints d" by (simp add: d2)
qed

section \<open>Sequences of calls\<close>

datatype endpoint_call =
    CreateEndpoint create_endpoint_request
  | UpdateEndpoint string update_endpoint_request
  | DeleteEndpoint string
  | PauseEndpoint string
  | ResumeEndpoint string
  | RotateSecret string "nat option"
  | EndpointWait time

fun serve_endpoint :: "endpoint_ext \<Rightarrow> idgen \<Rightarrow> request_context \<Rightarrow> endpoint_call \<Rightarrow> unit io" where
  "serve_endpoint X G ctx (CreateEndpoint req) = State_Monad.bind (create_endpoint_handler X G ctx req) (\<lambda>_. State_Monad.return ())"
| "serve_endpoint X G ctx (UpdateEndpoint i req) = State_Monad.bind (update_endpoint X i req ctx) (\<lambda>_. State_Monad.return ())"
| "serve_endpoint X G ctx (DeleteEndpoint i) = State_Monad.bind (delete_endpoint_handler ctx i) (\<lambda>_. State_Monad.return ())"
| "serve_endpoint X G ctx (PauseEndpoint i) = State_Monad.bind (pause_endpoint i ctx) (\<lambda>_. State_Monad.return ())"
| "serve_endpoint X G ctx (ResumeEndpoint i) = State_Monad.bind (resume_endpoint i ctx) (\<lambda>_. State_Monad.return ())"
| "serve_endpoint X G ctx (RotateSecret i expiry) = State_Monad.bind (rotate_secret X G i expiry ctx) (\<lambda>_. State_Monad.return ())"
| "serve_endpoint X G ctx (EndpointWait t) = State_Monad.update (w_now_update (\<lambda>n. n + t))"

abbreviation signing :: "endpoint_ext \<Rightarrow> world \<Rightarrow> bool" where
  "signing X \<equiv> any_db (signing_ok X)"

lemma stable_signing: "stable (signing X)"
  by (simp add: tables_only_stable)

lemma keeps_update_endpoints:
  assumes "\<And>t e. ep_id (f t e) = ep_id e \<and> ep_public_id (f t e) = ep_public_id e \<and> ep_tenant_id (f t e) = ep_tenant_id e"
  shows "keeps (signing X) (map_sqlx (statement (\<lambda>t. update_endpoints hit (f t))))"
  by (intro keeps_intros stable_signing) (auto simp: any_db_def intro: signing_ok_update [OF _ assms])

lemma keeps_get_endpoint_row: "keeps (signing X) (get_endpoint_row i)"
  unfolding get_endpoint_row_def by (intro keeps_intros stable_signing)

lemma keeps_update_returning:
  assumes "\<And>t e. ep_id (f t e) = ep_id e \<and> ep_public_id (f t e) = ep_public_id e \<and> ep_tenant_id (f t e) = ep_tenant_id e"
  shows "keeps (signing X) (update_returning hit f i)"
  unfolding update_returning_def by (intro keeps_intros keeps_update_endpoints keeps_get_endpoint_row assms)

lemma keeps_update_endpoint: "keeps (signing X) (update_endpoint Y i req ctx)"
  unfolding update_endpoint_def update_endpoint_row_def
  by (intro keeps_checked keeps_intros keeps_update_returning keeps_get_endpoint_row) (simp add: touch_endpoint_def apply_endpoint_update_def)

lemma keeps_change_status: "keeps (signing X) (change_endpoint_status i s ctx)"
  unfolding change_endpoint_status_def set_endpoint_status_def
  by (intro keeps_intros keeps_or_not_found keeps_update_returning) (simp add: touch_endpoint_def)

lemma keeps_delete_endpoint: "keeps (signing X) (delete_endpoint i ctx)"
  unfolding delete_endpoint_def delete_endpoint_row_def by (intro keeps_intros keeps_update_endpoints) (simp add: touch_endpoint_def)

lemma keeps_encrypt: "stable P \<Longrightarrow> keeps P (encrypt Y mk t p)"
  unfolding encrypt_def Let_def by (intro keeps_intros)

text \<open>Between the lookup of the tenant and the transaction the endpoint keeps its tenant.\<close>

definition known_endpoint :: "endpoint_ext \<Rightarrow> string \<Rightarrow> uuid \<Rightarrow> db \<Rightarrow> bool" where
  "known_endpoint Y pid tenant d \<longleftrightarrow> signing_ok Y d \<and> (\<exists>e\<in>set (endpoints d). ep_public_id e = pid \<and> ep_tenant_id e = tenant)"

lemma known_endpointI: "Some m = find (live_endpoint pid) (endpoints d) \<Longrightarrow> signing_ok Y d \<Longrightarrow> known_endpoint Y pid (ep_tenant_id m) d"
  by (force simp: known_endpoint_def live_endpoint_def dest: find_SomeD [OF sym])

lemma known_endpointD:
  assumes "known_endpoint Y pid tenant d" "find (live_endpoint pid) (endpoints d) = Some m"
  shows "m \<in> set (endpoints d) \<and> ep_tenant_id m = tenant \<and> signing_ok Y d"
proof -
  from assms(2) have m: "m \<in> set (endpoints d)" "ep_public_id m = pid" by (auto dest!: find_SomeD simp: live_endpoint_def)
  from assms(1) obtain e where e: "e \<in> set (endpoints d)" "ep_public_id e = pid" "ep_tenant_id e = tenant" by (auto simp: known_endpoint_def)
  have "e = m" using assms(1) e m by (auto simp: known_endpoint_def signing_ok_def distinct_map dest: inj_onD)
  with assms(1) e m show ?thesis by (simp add: known_endpoint_def)
qed

lemma keeps_rotate_rows:
  assumes "readable Y tenant enc"
  shows "keeps (any_db (known_endpoint Y pid tenant)) (rotate_secret_rows G pid enc n ctx)"
proof -
  have st: "stable (any_db (known_endpoint Y pid tenant))" by (simp add: tables_only_stable)
  have body: "keeps (any_db (known_endpoint Y pid tenant)) (replace_secret G m enc n ctx d)"
    if "known_endpoint Y pid tenant d" "find (live_endpoint pid) (endpoints d) = Some m" for m d
    unfolding replace_secret_def case_prod_beta
  proof (intro keeps_tx_statement_try keeps_bind keeps_nano_id_new keeps_fresh st, goal_cases)
    case (1 t r1 d1 nano i t' r2 d2)
    from known_endpointD [OF that] have m: "m \<in> set (endpoints d)" "ep_tenant_id m = tenant" "signing_ok Y d" by simp_all
    have "readable Y (ep_tenant_id m) enc" using assms m(2) by simp
    from signing_ok_replace [OF m(3,1) 1(1) 1(2) [unfolded snd_conv] this] that(1) have "known_endpoint Y pid tenant d2" by (simp add: known_endpoint_def)
    then show ?case by (intro keeps_try_bind keeps_tx_commit_map keeps_return) simp
  qed
  show ?thesis
    unfolding rotate_secret_rows_def case_prod_beta
  proof (intro keeps_tx_begin_try keeps_tx_statement_try st, goal_cases)
    case (1 d t meta d1)
    then show ?case using body by (auto intro!: keeps_case_option keeps_bind keeps_query keeps_return st)
  qed
qed

context url_safe_library
begin

lemma encrypted_readable:
  assumes "ee_crypto Y = X" "fst (run_state (generate_webhook_secret X) w) = p" "fst (run_state (encrypt X (ee_master_key Y) t p) w') = Inr enc"
  shows "readable Y t enc"
  using decrypt_encrypt [OF assms(3) generated_secret_utf8 [OF assms(2)]] by (auto simp: readable_def assms(1))

lemma keeps_create_rows:
  assumes "ee_crypto Y = X" "readable Y (ar_tenant_id app) enc"
  shows "keeps (signing Y) (create_endpoint_rows G app req enc ctx)"
  unfolding create_endpoint_rows_def Let_def case_prod_beta
proof (intro keeps_bind keeps_nano_id_new keeps_fresh stable_signing keeps_tx_begin_try keeps_tx_statement_try, goal_cases)
  case (1 ep_nano sec_nano i j d t r1 d1 t' r2 d2)
  then have "signing_ok Y d2" using signing_ok_create assms(2) by simp
  then show ?case by (intro keeps_try_bind keeps_tx_commit_map keeps_get_endpoint_row keeps_return) simp
qed

lemma keeps_generate_then:
  assumes "stable P" "\<And>p. utf8_valid p \<Longrightarrow> keeps P (f p)"
  shows "keeps P (State_Monad.bind (generate_webhook_secret X) f)"
proof -
  have "P (snd (run_state (generate_webhook_secret X) w))" if "P w" for w
    using assms(1) that by (simp add: generate_webhook_secret_def run_simps stable_def)
  with assms(2) generated_secret_utf8 show ?thesis by (auto simp: keeps_def run_bind case_prod_beta)
qed

lemma keeps_create_endpoint:
  assumes "ee_crypto Y = X"
  shows "keeps (signing Y) (create_endpoint Y G req ctx)"
  unfolding create_endpoint_def get_application_def assms
proof (intro keeps_checked keeps_or_not_found keeps_map_sqlx keeps_query stable_signing keeps_generate_then keeps_try_result [OF keeps_encrypt]
    keeps_try_bind [OF keeps_or_not_found [OF keeps_map_sqlx [OF keeps_query [OF stable_signing]]]], goal_cases)
  case (1 app p w enc)
  then have "readable Y (ar_tenant_id app) enc" using decrypt_encrypt by (auto simp: readable_def assms)
  then show ?case by (intro keeps_try_bind keeps_return keeps_create_rows [OF assms])
qed

lemma keeps_rotate_secret:
  assumes "ee_crypto Y = X"
  shows "keeps (signing Y) (rotate_secret Y G pid expiry ctx)"
proof -
  let ?K = "\<lambda>meta. any_db (known_endpoint Y pid (ep_tenant_id meta))"
  have st: "stable (?K meta)" for meta :: endpoint_row by (simp add: tables_only_stable)
  have found: "triple (signing Y) (or_not_found (get_meta pid) (endpoint_missing pid)) (result_post ?K (signing Y))"
  proof -
    have "triple (signing Y) (get_meta pid) (found_post ?K (signing Y))"
      unfolding get_meta_def
      by (rule triple_weaken [OF triple_query [OF stable_signing]])
        (auto simp: found_post_def result_post_def any_db_def known_endpointI split: sum.splits option.splits)
    then show ?thesis
      unfolding or_not_found_def
      by (rule triple_try [of _ _ "\<lambda>x w. case x of None \<Rightarrow> signing Y w | Some a \<Rightarrow> ?K a w" "signing Y", folded found_post_def])
        (auto simp: triple_def run_simps split: option.splits)
  qed
  have rest: "keeps (?K meta) (try_bind (encrypt X (ee_master_key Y) (ep_tenant_id meta) p) (\<lambda>encrypted.
       try_bind (or_not_found (rotate_secret_rows G pid encrypted n ctx) (endpoint_missing pid)) (\<lambda>row. State_Monad.return (f row))))"
    if "utf8_valid p" for meta :: endpoint_row and p n and f :: "secret_row \<Rightarrow> app_error + secret_response"
  proof (rule keeps_try_result [OF keeps_encrypt [OF st]])
    fix w enc
    assume "fst (run_state (encrypt X (ee_master_key Y) (ep_tenant_id meta) p) w) = Inr enc"
    then have "readable Y (ep_tenant_id meta) enc" using decrypt_encrypt that by (auto simp: readable_def assms)
    then show "keeps (?K meta) (try_bind (or_not_found (rotate_secret_rows G pid enc n ctx) (endpoint_missing pid)) (\<lambda>row. State_Monad.return (f row)))"
      by (intro keeps_try_bind keeps_or_not_found keeps_rotate_rows keeps_return)
  qed
  show ?thesis
    unfolding rotate_secret_def Let_def keeps_triple assms
  proof (rule triple_try [OF found])
    fix meta :: endpoint_row
    have "keeps (?K meta) (if 86400 < coalesce expiry 0 then State_Monad.return (Inl (BadRequest ''expiry_seconds must be between 0 and 86400''))
       else State_Monad.bind (generate_webhook_secret X) (\<lambda>plaintext. try_bind (encrypt X (ee_master_key Y) (ep_tenant_id meta) plaintext) (\<lambda>encrypted.
         try_bind (or_not_found (rotate_secret_rows G pid encrypted (coalesce expiry 0) ctx) (endpoint_missing pid)) (\<lambda>row.
           State_Monad.return (Inr \<lparr>sc_id = es_public_id row, sc_secret = plaintext, sc_created_at = es_created_at row\<rparr>)))))"
      by (intro keeps_if keeps_return keeps_generate_then st rest)
    then show "triple (?K meta) (if 86400 < coalesce expiry 0 then State_Monad.return (Inl (BadRequest ''expiry_seconds must be between 0 and 86400''))
       else State_Monad.bind (generate_webhook_secret X) (\<lambda>plaintext. try_bind (encrypt X (ee_master_key Y) (ep_tenant_id meta) plaintext) (\<lambda>encrypted.
         try_bind (or_not_found (rotate_secret_rows G pid encrypted (coalesce expiry 0) ctx) (endpoint_missing pid)) (\<lambda>row.
           State_Monad.return (Inr \<lparr>sc_id = es_public_id row, sc_secret = plaintext, sc_created_at = es_created_at row\<rparr>))))) (\<lambda>_. signing Y)"
      by (auto simp: keeps_triple any_db_def known_endpoint_def intro: triple_weaken)
  qed simp
qed

lemma keeps_endpoint_calls:
  assumes "ee_crypto Y = X"
  shows "keeps (signing Y) (for_each calls (serve_endpoint Y G ctx))"
proof (rule keeps_for_each)
  fix c
  show "keeps (signing Y) (serve_endpoint Y G ctx c)"
    by (cases c) (auto simp: create_endpoint_handler_def delete_endpoint_handler_def pause_endpoint_def resume_endpoint_def
        intro!: keeps_intros keeps_create_endpoint keeps_update_endpoint keeps_delete_endpoint keeps_change_status keeps_rotate_secret keeps_now_update assms)
qed

end

text \<open>C5. Deliveries can always be signed: whatever calls create, change, pause, delete endpoints and rotate their
  secrets, whichever statements fail or lose their reply, and however time passes, every endpoint has exactly
  one permanent secret, and the secret the worker picks for it at any time decrypts for its tenant.\<close>

theorem every_endpoint_can_sign:
  assumes "url_safe_library (ee_crypto X)" "signing_ok X (w_db w)"
    and "d = w_db (snd (run_state (for_each calls (serve_endpoint X G ctx)) w))"
    and "e \<in> set (endpoints d)"
  shows "length (filter (permanent (ep_id e)) (endpoint_secrets d)) = 1 \<and>
    (\<exists>enc p. current_secret t (ep_id e) d = Some enc \<and> decrypt (ee_crypto X) (ee_master_key X) (ep_tenant_id e) enc = Some (Inr p))"
proof -
  have "signing_ok X d"
    using url_safe_library.keeps_endpoint_calls [OF assms(1) refl] assms(2,3) by (simp add: keeps_def any_db_def)
  with signing_ok_current [OF this assms(4), of t] assms(4) show ?thesis by (auto simp: signing_ok_def readable_def)
qed

section \<open>A sample\<close>

definition sample_endpoint_ext :: endpoint_ext where
  "sample_endpoint_ext = \<lparr>ee_crypto = sample_crypto, ee_master_key = ''key'', ee_http_config_of = (\<lambda>_. Inr \<lparr>hc_url = ''http://a'', hc_method = ''POST'', hc_headers = []\<rparr>),
     ee_to_uppercase = id\<rparr>"

definition app_db :: db where
  "app_db = empty_db\<lparr>applications := [\<lparr>ap_id = ''a1'', ap_public_id = ''app_1'', ap_tenant_id = ''n1'', ap_org_id = ''o1'', ap_deleted_at = None,
     ap_environment_id = None, ap_name = ''shop'', ap_description = [], ap_tags = [], ap_state = AppActive, ap_version = 0, ap_request_id = ''r0'',
     ap_created_by = ''u1'', ap_updated_by = ''u1'', ap_created_at = 0, ap_updated_at = 0\<rparr>]\<rparr>"

definition endpoint_ctx :: request_context where
  "endpoint_ctx = \<lparr>rc_request_id = ''r1'', rc_created_by = ''u1'', rc_org_id = ''o1'', rc_tenant_id = ''n1''\<rparr>"

definition sample_create :: create_endpoint_request where
  "sample_create = \<lparr>cp_application_id = ''app_1'', cp_description = None, cp_endpoint_type = Http, cp_config = JNull, cp_event_types = [], cp_rate_limit = None, cp_tags = []\<rparr>"

lemma sample_create_runs:
  "\<exists>e. e \<in> set (endpoints (w_db (snd (run_state (for_each [CreateEndpoint sample_create] (serve_endpoint sample_endpoint_ext counting_idgen endpoint_ctx))
     (start_world app_db empty_keyspace 0)))))"
  by (simp add: create_endpoint_handler_def create_endpoint_def with_status_def checked_def validate_http_config_def validate_headers_def validate_event_types_def
      validate_tags_def if_given_def sample_endpoint_ext_def sample_create_def app_db_def endpoint_ctx_def or_not_found_def get_application_def
      generate_webhook_secret_def encrypt_def create_endpoint_rows_def insert_endpoint_def insert_first_secret_def insert_secret_def new_endpoint_def new_secret_def
      endpoint_violation_def nano_id_new_def generate_def counting_idgen_def app_ref_of_def sample_crypto_def get_endpoint_row_def
      run_simps Let_def empty_db_def case_prod_beta live_endpoint_def view_endpoint_def first_row_def List.map_filter_simps)

theorem every_endpoint_can_sign_witness:
  "\<exists>e enc p. e \<in> set (endpoints (w_db (snd (run_state (for_each [CreateEndpoint sample_create] (serve_endpoint sample_endpoint_ext counting_idgen endpoint_ctx))
     (start_world app_db empty_keyspace 0))))) \<and>
     current_secret 5 (ep_id e) (w_db (snd (run_state (for_each [CreateEndpoint sample_create] (serve_endpoint sample_endpoint_ext counting_idgen endpoint_ctx))
     (start_world app_db empty_keyspace 0)))) = Some enc \<and> decrypt sample_crypto ''key'' (ep_tenant_id e) enc = Some (Inr p)"
proof -
  obtain e where e: "e \<in> set (endpoints (w_db (snd (run_state (for_each [CreateEndpoint sample_create] (serve_endpoint sample_endpoint_ext counting_idgen endpoint_ctx))
     (start_world app_db empty_keyspace 0)))))" using sample_create_runs by blast
  have "url_safe_library (ee_crypto sample_endpoint_ext)" "signing_ok sample_endpoint_ext (w_db (start_world app_db empty_keyspace 0))"
    using sample_url_safe.url_safe_library_axioms by (simp_all add: sample_endpoint_ext_def signing_ok_def app_db_def empty_db_def)
  from every_endpoint_can_sign [OF this refl e, of 5] e show ?thesis by (auto simp: sample_endpoint_ext_def)
qed

end
