(* ===== verification/Endpoint_Props.thy ===== *)
theory Endpoint_Props
  imports Endpoint_State Job_Lifecycle
begin

text \<open>
  Endpoints and the deliveries that depend on them: which secret signs after a rotation, which of two
  concurrent updates wins, and what pausing an endpoint does to jobs that are queued for it.
\<close>

section \<open>Rotation\<close>

lemma find_live:
  assumes "signing_ok X d" "e \<in> set (endpoints d)" "ep_deleted_at e = None"
  shows "find (live_endpoint (ep_public_id e)) (endpoints d) = Some e"
proof -
  have "live_endpoint (ep_public_id e) = (\<lambda>x. ep_public_id x = ep_public_id e \<and> ep_deleted_at x = None)" by (simp add: live_endpoint_def fun_eq_iff)
  moreover have "find (\<lambda>x. ep_public_id x = ep_public_id e \<and> ep_deleted_at x = None) (endpoints d) = Some e"
    using assms by (intro find_unique_key) (simp_all add: signing_ok_def)
  ultimately show ?thesis by simp
qed

lemma replace_secret_run:
  assumes "no_faults w" "run_state (replace_secret G m enc n ctx d) w = (Inr (Some s), w')"
  obtains sid j d1 where "retire_secrets (ep_id m) n (w_now w) d = (Inr (), d1)"
    "insert_secret (new_secret j sid (ep_id m) (ep_tenant_id m) (ep_org_id m) enc ctx (w_now w)) d1 = (Inr s, w_db w')"
proof -
  let ?s = "new_secret (uuid_of G (Suc (w_ids w))) (''sec_'' @ encode_ts (unix_millis (w_now w)) @ rand_of G (w_ids w) 8) (ep_id m) (ep_tenant_id m) (ep_org_id m) enc ctx (w_now w)"
  obtain d1 where d1: "retire_secrets (ep_id m) n (w_now w) d = (Inr (), d1)" by (simp add: retire_secrets_def)
  obtain r d2 where ins: "insert_secret ?s d1 = (r, d2)" by fastforce
  from assms ins have "r = Inr s \<and> w_db w' = d2"
    by (cases r) (auto simp: replace_secret_def d1 nano_id_new_def generate_def run_simps Let_def)
  with d1 ins that show ?thesis by metis
qed

lemma rotate_secret_run:
  assumes "no_faults w" "signing_ok X (w_db w)" "e \<in> set (endpoints (w_db w))" "ep_deleted_at e = None"
    and run: "run_state (rotate_secret X G (ep_public_id e) expiry ctx) w = (Inr resp, w')"
  obtains n enc sid j d1 s w1 where "n = coalesce expiry 0" "n \<le> 86400" "\<exists>v. fst (run_state (generate_webhook_secret (ee_crypto X)) v) = sc_secret resp"
    "fst (run_state (encrypt (ee_crypto X) (ee_master_key X) (ep_tenant_id e) (sc_secret resp)) w1) = Inr enc"
    "retire_secrets (ep_id e) n (w_now w) (w_db w) = (Inr (), d1)"
    "insert_secret (new_secret j sid (ep_id e) (ep_tenant_id e) (ep_org_id e) enc ctx (w_now w)) d1 = (Inr s, w_db w')"
proof -
  note live = find_live [OF assms(2-4)]
  obtain p wp where p: "run_state (generate_webhook_secret (ee_crypto X)) w = (p, wp)" by fastforce
  then have wp: "w_db wp = w_db w" "no_faults wp" "w_now wp = w_now w" using assms(1) by (auto simp: generate_webhook_secret_def run_simps)
  obtain r we where r: "run_state (encrypt (ee_crypto X) (ee_master_key X) (ep_tenant_id e) p) wp = (r, we)" by fastforce
  then have we: "w_db we = w_db w" "no_faults we" "w_now we = w_now w" using wp by (auto simp: encrypt_def run_simps Let_def split: option.splits)
  have n: "coalesce expiry 0 \<le> 86400" using run assms(1) live by (auto simp: rotate_secret_def or_not_found_def get_meta_def run_simps Let_def split: if_splits)
  with run assms(1) live obtain enc where enc: "r = Inr enc"
    by (cases r) (auto simp: rotate_secret_def or_not_found_def get_meta_def run_simps Let_def p r)
  obtain x wx where x: "run_state (replace_secret G e enc (coalesce expiry 0) ctx (w_db w)) we = (x, wx)" by fastforce
  have rows: "run_state (rotate_secret_rows G (ep_public_id e) enc (coalesce expiry 0) ctx) we = (x, wx)"
    using we live x by (simp add: rotate_secret_rows_def run_simps)
  from run assms(1) live n obtain s where s: "x = Inr (Some s)" "wx = w'" "sc_secret resp = p"
    by (auto simp: rotate_secret_def or_not_found_def get_meta_def run_simps Let_def p r enc rows split: sum.splits option.splits)
  from replace_secret_run [OF we(2) x [unfolded s]] obtain sid j d1 where "retire_secrets (ep_id e) (coalesce expiry 0) (w_now w) (w_db w) = (Inr (), d1)"
    "insert_secret (new_secret j sid (ep_id e) (ep_tenant_id e) (ep_org_id e) enc ctx (w_now w)) d1 = (Inr s, w_db w')" using we(3) by metis
  moreover have "\<exists>v. fst (run_state (generate_webhook_secret (ee_crypto X)) v) = sc_secret resp" using p s(3) by (metis fst_conv)
  moreover have "fst (run_state (encrypt (ee_crypto X) (ee_master_key X) (ep_tenant_id e) (sc_secret resp)) wp) = Inr enc" using r enc s(3) by simp
  ultimately show ?thesis using n that by metis
qed

text \<open>A permanent secret comes first when there is one.\<close>

lemma current_permanent:
  assumes "filter (permanent i) (endpoint_secrets d) = [s]"
  shows "current_secret t i d = Some (es_secret s)"
proof -
  let ?k = "\<lambda>s :: secret_row. case es_expires_at s of None \<Rightarrow> (0, 0) | Some e \<Rightarrow> (1::nat, e)"
  have mem: "x \<in> set (endpoint_secrets d) \<and> permanent i x \<longleftrightarrow> x = s" for x
    using arg_cong [OF assms, of "\<lambda>xs. x \<in> set xs"] by simp
  have all: "x = s" if "x \<in> set (endpoint_secrets d)" "permanent i x" for x using mem [of x] that by (rule iffD1 [OF _ conjI])
  have s: "s \<in> set (endpoint_secrets d)" "permanent i s" using mem [of s] by simp_all
  then have "s \<in> set (usable_secrets t i d)" by (auto simp: usable_secrets_def permanent_def)
  then obtain x xs where x: "sort_key ?k (usable_secrets t i d) = x # xs" by (metis list.exhaust list.set(1) empty_iff set_sort)
  have "sorted (map ?k (x # xs))" using sorted_sort_key [of ?k "usable_secrets t i d"] by (simp add: x)
  moreover have "s \<in> set (x # xs)" "x \<in> set (usable_secrets t i d)" using \<open>s \<in> set (usable_secrets t i d)\<close> x by (metis set_sort list.set_intros(1))+
  ultimately have first: "?k x \<le> ?k s" "x \<in> set (endpoint_secrets d)" "es_endpoint_id x = i" "es_is_active x" by (auto simp: usable_secrets_def)
  moreover have "?k s = (0, 0)" using s(2) by (simp add: permanent_def)
  ultimately have "permanent i x" by (auto simp: permanent_def split: option.splits)
  with all first(2) x show ?thesis by (simp add: current_secret_def)
qed

text \<open>C6. Rotation switches the signature at once: from the moment a rotation has answered, the secret the worker
  picks for the endpoint at any time is the returned one, and once the grace period is over it is the only
  usable one.\<close>

theorem rotation_switches_signature:
  assumes "url_safe_library (ee_crypto X)" "no_faults w" "signing_ok X (w_db w)" "e \<in> set (endpoints (w_db w))" "ep_deleted_at e = None"
    and run: "run_state (rotate_secret X G (ep_public_id e) expiry ctx) w = (Inr resp, w')"
  shows "\<exists>enc. (\<forall>t. current_secret t (ep_id e) (w_db w') = Some enc) \<and>
    decrypt (ee_crypto X) (ee_master_key X) (ep_tenant_id e) enc = Some (Inr (sc_secret resp)) \<and>
    (\<forall>t. w_now w + secs (int (coalesce expiry 0)) \<le> t \<longrightarrow> (\<forall>s\<in>set (usable_secrets t (ep_id e) (w_db w')). es_secret s = enc))"
proof -
  from rotate_secret_run [OF assms(2-5) run] obtain n enc sid j d1 s w1 where r: "n = coalesce expiry 0" "n \<le> 86400"
    "\<exists>v. fst (run_state (generate_webhook_secret (ee_crypto X)) v) = sc_secret resp"
    "fst (run_state (encrypt (ee_crypto X) (ee_master_key X) (ep_tenant_id e) (sc_secret resp)) w1) = Inr enc"
    "retire_secrets (ep_id e) n (w_now w) (w_db w) = (Inr (), d1)"
    "insert_secret (new_secret j sid (ep_id e) (ep_tenant_id e) (ep_org_id e) enc ctx (w_now w)) d1 = (Inr s, w_db w')" by metis
  let ?s = "new_secret j sid (ep_id e) (ep_tenant_id e) (ep_org_id e) enc ctx (w_now w)"
  have db: "endpoint_secrets (w_db w') = update_where (unretired (ep_id e) (w_now w)) (retire_secret n (w_now w)) (endpoint_secrets (w_db w)) @ [?s]"
    using r(5) insert_secret_Inr [OF r(6)] by (auto simp: retire_secrets_def)
  have "filter (permanent (ep_id e)) (endpoint_secrets (w_db w')) = [?s]" by (simp add: db retire_permanent)
  then have "current_secret t (ep_id e) (w_db w') = Some enc" for t using current_permanent by fastforce
  moreover have "decrypt (ee_crypto X) (ee_master_key X) (ep_tenant_id e) enc = Some (Inr (sc_secret resp))"
    using crypto_library.decrypt_encrypt [OF _ r(4)] url_safe_library.generated_secret_utf8 [OF assms(1)] r(3) assms(1) by (metis url_safe_library.axioms(1))
  moreover have "es_secret x = enc" if "w_now w + secs (int n) \<le> t" "x \<in> set (usable_secrets t (ep_id e) (w_db w'))" for t x
  proof -
    have "w_now w \<le> t" using that(1) by (simp add: secs_def)
    with that show ?thesis
      by (auto simp: usable_secrets_def db set_update_where retire_secret_def unretired_def split: option.splits if_splits)
  qed
  ultimately show ?thesis using r(1) by blast
qed

section \<open>Updates\<close>

lemma run_update_returning:
  assumes "no_faults w"
  shows "run_state (update_returning hit f pid) w = (case update_endpoints hit (f (w_now w)) (w_db w) of
      (Inl e, _) \<Rightarrow> (Inl (from_sqlx e), w)
    | (Inr None, d) \<Rightarrow> (Inr None, w\<lparr>w_db := d\<rparr>)
    | (Inr (Some _), d) \<Rightarrow> run_state (get_endpoint_row pid) (w\<lparr>w_db := d\<rparr>))"
  using assms by (simp add: update_returning_def run_simps split: sum.splits option.splits prod.splits)

lemma update_no_endpoint: "(\<And>x. x \<in> set (endpoints d) \<Longrightarrow> \<not> hit x) \<Longrightarrow> update_endpoints hit g d = (Inr None, d)"
proof -
  assume none: "\<And>x. x \<in> set (endpoints d) \<Longrightarrow> \<not> hit x"
  then have "filter hit (endpoints d) = []" "find hit (endpoints d) = None" by (simp_all add: filter_empty_conv find_None_iff)
  moreover have "update_where hit g (endpoints d) = endpoints d" using none by (rule update_where_none)
  ultimately show ?thesis by (simp add: update_endpoints_def List.map_filter_simps)
qed

text \<open>C23. Optimistic locking: when an update has answered, a second update that carries the same version is refused with the
  version conflict and changes nothing, so it cannot overwrite what the first one wrote.\<close>

theorem stale_update_is_refused:
  assumes "no_faults w" "run_state (update_endpoint X pid req ctx) w = (Inr resp, w')" "distinct (map ep_public_id (endpoints (w_db w)))"
    and "up_version req' = up_version req" "all_checks [if_given (up_config req') (validate_http_config X), if_given (up_event_types req') validate_event_types,
      if_given (up_tags req') validate_tags, if_given (Option.bind (up_rate_limit req') id) validate_rate_limit] = Inr ()"
  shows "run_state (update_endpoint X pid req' ctx') w' = (Inl version_mismatch, w')"
proof -
  let ?hit = "\<lambda>e. ep_public_id e = pid \<and> ep_version e = up_version req \<and> ep_deleted_at e = None"
  let ?f = "\<lambda>t e. touch_endpoint ctx t (apply_endpoint_update req e)"
  have f: "ep_public_id (?f t e) = ep_public_id e" "ep_version (?f t e) = ep_version e + 1" "ep_deleted_at (?f t e) = ep_deleted_at e" for t e
    by (simp_all add: touch_endpoint_def apply_endpoint_update_def)
  obtain v w1 where upd: "run_state (update_endpoint_row pid req ctx) w = (v, w1)" by fastforce
  from assms(2) obtain ep where v: "v = Inr (Some ep)" "w' = w1"
    by (auto simp: update_endpoint_def checked_def run_simps upd split: sum.splits option.splits prod.splits)
  then obtain i d where d: "update_endpoints ?hit (?f (w_now w)) (w_db w) = (Inr (Some i), d)" and get: "run_state (get_endpoint_row pid) (w\<lparr>w_db := d\<rparr>) = (v, w1)"
    using upd assms(1) by (auto simp: update_endpoint_row_def run_update_returning split: sum.splits option.splits prod.splits)
  from get assms(1) have w1: "w1 = w\<lparr>w_db := d\<rparr>" by (auto simp: get_endpoint_row_def run_simps)
  from d have rows: "endpoints d = update_where ?hit (?f (w_now w)) (endpoints (w_db w))" and "find ?hit (endpoints (w_db w)) \<noteq> None"
    by (auto simp: update_endpoints_def split: list.splits)
  then obtain e where e: "e \<in> set (endpoints (w_db w))" "?hit e" by (auto simp: find_None_iff)
  have "\<not> ?hit x" if "x \<in> set (endpoints d)" for x
  proof
    assume "?hit x"
    from that obtain y where y: "y \<in> set (endpoints (w_db w))" "x = (if ?hit y then ?f (w_now w) y else y)" by (auto simp: rows set_update_where)
    show False
    proof (cases "?hit y")
      case True
      with y(2) \<open>?hit x\<close> f(2) [of "w_now w" y] show False by simp
    next
      case False
      with y(2) \<open>?hit x\<close> e(2) have "ep_public_id y = ep_public_id e" by simp
      with y(1) e(1) assms(3) have "y = e" by (auto simp: distinct_map dest: inj_onD)
      with False e(2) show False by simp
    qed
  qed
  then have "update_endpoints ?hit g d = (Inr None, d)" for g by (rule update_no_endpoint)
  then have "run_state (update_endpoint_row pid req' ctx') w1 = (Inr None, w1)"
    using assms(1,4) by (simp add: update_endpoint_row_def run_update_returning w1)
  moreover have "run_state (get_endpoint_row pid) w1 = (Inr (Some ep), w1)"
    using get v w1 assms(1) by (simp add: get_endpoint_row_def run_simps)
  ultimately show ?thesis using assms(5) v(2) by (simp add: update_endpoint_def checked_def run_simps)
qed

section \<open>Pausing\<close>

lemma set_status_run:
  assumes "no_faults w" "e \<in> set (endpoints (w_db w))" "distinct (map ep_public_id (endpoints (w_db w)))" "ep_deleted_at e = None" "s \<in> {''active'', ''paused''}"
    and "run_state (change_endpoint_status (ep_public_id e) s ctx) w = (Inr r, w')"
  shows "w' = w\<lparr>w_db := (w_db w)\<lparr>endpoints := update_where (live_endpoint (ep_public_id e)) (\<lambda>x. touch_endpoint ctx (w_now w) (x\<lparr>ep_status := s\<rparr>)) (endpoints (w_db w))\<rparr>\<rparr>"
  using assms(1,6)
  by (auto simp: change_endpoint_status_def or_not_found_def set_endpoint_status_def run_try_bind run_update_returning update_endpoints_def get_endpoint_row_def run_simps
      split: sum.splits option.splits prod.splits list.splits)

text \<open>A job whose endpoint is paused is not handed to the worker.\<close>

lemma paused_not_deliverable:
  assumes "distinct (map dj_public_id (delivery_jobs d))" "j \<in> set (delivery_jobs d)" "\<And>e. e \<in> set (endpoints d) \<Longrightarrow> ep_id e = dj_endpoint_id j \<Longrightarrow> ep_status e = ''paused''"
  shows "first_row (deliverable_rows (dj_public_id j) t d) = None"
proof -
  have "filter (\<lambda>e. ep_id e = dj_endpoint_id j \<and> ep_status e = ''active'' \<and> ep_deleted_at e = None \<and> current_secret t (ep_id e) d \<noteq> None) (endpoints d) = []"
    using assms(3) by (auto simp: filter_empty_conv)
  moreover have "x = j" if "x \<in> set (delivery_jobs d)" "dj_public_id x = dj_public_id j" for x
    using that assms(1,2) by (auto simp: distinct_map dest: inj_onD)
  ultimately have "deliverable_rows (dj_public_id j) t d = []" by (auto simp: deliverable_rows_def)
  then show ?thesis by (simp add: first_row_def)
qed

lemma process_undeliverable:
  assumes "no_faults w" "first_row (deliverable_rows pid (w_now w) (w_db w)) = None"
  shows "run_state (process_one E R cfg msg pid stream) w = (Finished, w\<lparr>w_ks := XACK R stream GROUP msg (w_ks w)\<rparr>)"
  using assms by (simp add: process_one_def get_job_for_delivery_def Queue.xack_def run_simps)

lemma retry_not_failed:
  assumes "no_faults w" "distinct (map dj_public_id (delivery_jobs (w_db w)))" "j \<in> set (delivery_jobs (w_db w))" "dj_status j \<noteq> ''failed''"
  shows "run_state (retry_delivery_job R (dj_public_id j)) w = (Inl (Conflict ''delivery job is not in a retryable state'' []), w)"
proof -
  have none: "\<not> (dj_public_id x = dj_public_id j \<and> dj_status x = ''failed'')" if "x \<in> set (delivery_jobs (w_db w))" for x
    using that assms(2-4) by (auto simp: distinct_map dest: inj_onD)
  then have "filter (\<lambda>x. dj_public_id x = dj_public_id j \<and> dj_status x = ''failed'') (delivery_jobs (w_db w)) = []" by (simp add: filter_empty_conv)
  moreover have "update_where (\<lambda>x. dj_public_id x = dj_public_id j \<and> dj_status x = ''failed'') f (delivery_jobs (w_db w)) = delivery_jobs (w_db w)" for f
    using none by (rule update_where_none)
  ultimately have "reset_rows (dj_public_id j) (w_db w) = ([], w_db w)" by (simp add: reset_rows_def)
  with assms(1,3) show ?thesis by (auto simp: retry_delivery_job_def reset_for_retry_def job_exists_def first_row_def run_simps)
qed

text \<open>C39. Pausing an endpoint loses the jobs that are queued for it: a worker that reads the message of such a job while the
  endpoint is paused acknowledges it and leaves the job as it is; after the endpoint is resumed the outbox
  never selects the job, and the manual retry refuses it.\<close>

theorem pausing_loses_queued_job:
  assumes "no_faults w" "distinct (map ep_id (endpoints (w_db w)))" "distinct (map ep_public_id (endpoints (w_db w)))" "distinct (map dj_public_id (delivery_jobs (w_db w)))"
    and "e \<in> set (endpoints (w_db w))" "ep_deleted_at e = None" "j \<in> set (delivery_jobs (w_db w))" "dj_endpoint_id j = ep_id e" "deliverable_status (dj_status j)" "dj_enqueued_at j \<noteq> None"
    and "run_state (pause_endpoint (ep_public_id e) ctx) w = (Inr r, w1)"
    and "run_state (process_one E R cfg msg (dj_public_id j) stream) w1 = (x, w2)"
    and "run_state (resume_endpoint (ep_public_id e) ctx) w2 = (Inr r', w3)"
  shows "x = Finished \<and> w_ks w2 = XACK R stream GROUP msg (w_ks w1) \<and> j \<in> set (delivery_jobs (w_db w3)) \<and> (\<forall>t. \<not> unqueued t j) \<and>
    run_state (retry_delivery_job R (dj_public_id j)) w3 = (Inl (Conflict ''delivery job is not in a retryable state'' []), w3)"
proof -
  let ?f = "\<lambda>s x. touch_endpoint ctx (w_now w) (x\<lparr>ep_status := s\<rparr>)"
  let ?es = "update_where (live_endpoint (ep_public_id e)) (?f ''paused'') (endpoints (w_db w))"
  have w1: "w1 = w\<lparr>w_db := (w_db w)\<lparr>endpoints := ?es\<rparr>\<rparr>"
    using set_status_run [OF assms(1,5,3,6)] assms(11) by (simp add: pause_endpoint_def)
  have keys: "ep_id (?f s y) = ep_id y" "ep_public_id (?f s y) = ep_public_id y" "ep_status (?f s y) = s" "ep_deleted_at (?f s y) = ep_deleted_at y" for s y
    by (simp_all add: touch_endpoint_def)
  have one: "y = e" if "y \<in> set (endpoints (w_db w))" "ep_id y = ep_id e" for y using that assms(2,5) by (auto simp: distinct_map dest: inj_onD)
  have paused: "ep_status y = ''paused''" if "y \<in> set ?es" "ep_id y = dj_endpoint_id j" for y
  proof -
    from that(1) obtain z where z: "z \<in> set (endpoints (w_db w))" "y = (if live_endpoint (ep_public_id e) z then ?f ''paused'' z else z)" by (auto simp: set_update_where)
    with that(2) assms(8) keys(1) have "z = e" by (intro one) (auto split: if_splits)
    with z assms(6) keys(3) show ?thesis by (simp add: live_endpoint_def)
  qed
  have "first_row (deliverable_rows (dj_public_id j) (w_now w1) (w_db w1)) = None"
    using assms(4,7) paused by (intro paused_not_deliverable) (auto simp: w1)
  then have w2: "x = Finished" "w2 = w1\<lparr>w_ks := XACK R stream GROUP msg (w_ks w1)\<rparr>"
    using process_undeliverable [of w1 "dj_public_id j" E R cfg msg stream] assms(1,12) by (simp_all add: w1)
  have e2: "?f ''paused'' e \<in> set (endpoints (w_db w2))" using assms(5,6) by (auto simp: w2 w1 set_update_where live_endpoint_def)
  have "distinct (map ep_public_id (endpoints (w_db w2)))" using assms(3) keys(2) by (simp add: w2 w1 map_update_where)
  then have w3: "delivery_jobs (w_db w3) = delivery_jobs (w_db w)" "no_faults w3"
    using set_status_run [of w2 "?f ''paused'' e" "''active''" ctx r' w3] e2 assms(1,6,13) keys by (simp_all add: resume_endpoint_def w2 w1)
  have "\<forall>t. \<not> unqueued t j" using assms(10) by (auto simp: unqueued_def)
  moreover have "dj_status j \<noteq> ''failed''" using assms(9) by (auto simp: deliverable_status_def)
  ultimately show ?thesis using retry_not_failed [of w3 j R] w2 w3 assms(4,7) by simp
qed

section \<open>Samples\<close>

text \<open>The tables with a queued job, its endpoint and the endpoint's application.\<close>

definition ep_db :: db where
  "ep_db = sample_db\<lparr>applications := applications app_db\<rparr>"

lemma ep_db_tables: "endpoints ep_db = [sample_endpoint]" "delivery_jobs ep_db = [sample_job]" "applications ep_db = applications app_db"
  by (simp_all add: ep_db_def sample_db_def)

lemma ep_db_signs: "signing_ok sample_endpoint_ext ep_db"
  using sample_decrypt by (simp add: signing_ok_def ep_db_def sample_db_def sample_endpoint_def permanent_def readable_def sample_endpoint_ext_def)

lemma ep_db_rotates:
  "\<exists>resp w'. run_state (rotate_secret sample_endpoint_ext sample_idgen (ep_public_id sample_endpoint) (Some 60) endpoint_ctx) (start_world ep_db empty_keyspace 0) = (Inr resp, w')"
proof -
  have "encode_ts x @ replicate 8 (CHR ''a'') \<noteq> ''1''" "''1'' \<noteq> encode_ts x @ replicate 8 (CHR ''a'')" for x by (auto simp: append_eq_Cons_conv numeral_eq_Suc)
  moreover have "''s1'' \<noteq> show_nat n" for n
  proof
    assume "''s1'' = show_nat n"
    with show_nat_digits [of n] have "list_all is_digit ''s1''" by simp
    then show False by (simp add: is_digit_def byte_in_def)
  qed
  ultimately show ?thesis
    by (simp add: rotate_secret_def or_not_found_def get_meta_def live_endpoint_def coalesce_def generate_webhook_secret_def encrypt_def rotate_secret_rows_def
        replace_secret_def retire_secrets_def insert_secret_def new_secret_def nano_id_new_def generate_def sample_idgen_def sample_endpoint_ext_def sample_crypto_def
        ep_db_def sample_db_def sample_endpoint_def endpoint_ctx_def run_simps Let_def unretired_def retire_secret_def)
qed

theorem rotation_switches_signature_witness:
  "\<exists>resp w' enc. run_state (rotate_secret sample_endpoint_ext sample_idgen (ep_public_id sample_endpoint) (Some 60) endpoint_ctx) (start_world ep_db empty_keyspace 0) = (Inr resp, w') \<and>
     current_secret 5 ''p1'' (w_db w') = Some enc \<and> decrypt sample_crypto ''key'' ''n1'' enc = Some (Inr (sc_secret resp))"
proof -
  obtain resp w' where run: "run_state (rotate_secret sample_endpoint_ext sample_idgen (ep_public_id sample_endpoint) (Some 60) endpoint_ctx) (start_world ep_db empty_keyspace 0) = (Inr resp, w')"
    using ep_db_rotates by blast
  have "url_safe_library (ee_crypto sample_endpoint_ext)" using sample_url_safe.url_safe_library_axioms by (simp add: sample_endpoint_ext_def)
  moreover have "ep_deleted_at sample_endpoint = None" "ep_id sample_endpoint = ''p1''" "ep_tenant_id sample_endpoint = ''n1''" by (simp_all add: sample_endpoint_def)
  ultimately show ?thesis
    using rotation_switches_signature [OF _ _ _ _ _ run] run ep_db_signs by (fastforce simp: ep_db_tables sample_endpoint_ext_def)
qed

definition sample_update :: update_endpoint_request where
  "sample_update = \<lparr>up_description = None, up_config = None, up_event_types = Some [], up_rate_limit = None, up_tags = None, up_version = 0\<rparr>"

lemmas endpoint_evals = or_not_found_def get_endpoint_row_def live_endpoint_def view_endpoint_def update_endpoints_def endpoint_violation_def touch_endpoint_def
  first_row_def List.map_filter_simps char_length_def app_db_def sample_endpoint_def ep_db_tables

theorem stale_update_is_refused_witness:
  "\<exists>resp w'. run_state (update_endpoint sample_endpoint_ext ''end_1'' sample_update endpoint_ctx) (start_world ep_db empty_keyspace 0) = (Inr resp, w') \<and>
     run_state (update_endpoint sample_endpoint_ext ''end_1'' (sample_update\<lparr>up_tags := Some []\<rparr>) endpoint_ctx) w' = (Inl version_mismatch, w')"
proof -
  have checks: "all_checks [if_given (up_config r) (validate_http_config sample_endpoint_ext), if_given (up_event_types r) validate_event_types,
      if_given (up_tags r) validate_tags, if_given (Option.bind (up_rate_limit r) id) validate_rate_limit] = Inr ()" if "r = sample_update\<lparr>up_tags := Some []\<rparr>" for r
    by (simp add: that sample_update_def if_given_def validate_event_types_def validate_tags_def)
  obtain resp w' where run: "run_state (update_endpoint sample_endpoint_ext ''end_1'' sample_update endpoint_ctx) (start_world ep_db empty_keyspace 0) = (Inr resp, w')"
    by (simp add: update_endpoint_def checked_def if_given_def validate_event_types_def update_endpoint_row_def run_update_returning apply_endpoint_update_def coalesce_def sample_update_def run_simps endpoint_evals)
  then show ?thesis
    using stale_update_is_refused [OF _ run _ _ checks [OF refl]] by (auto simp: ep_db_tables sample_update_def)
qed

lemma status_runs:
  "endpoints (w_db w) = [e] \<Longrightarrow> applications (w_db w) = applications app_db \<Longrightarrow> no_faults w \<Longrightarrow> ep_application_id e = ''a1'' \<Longrightarrow> ep_deleted_at e = None \<Longrightarrow>
    s \<in> {''active'', ''paused''} \<Longrightarrow> ep_description e = None \<Longrightarrow> ep_type e = ''http'' \<Longrightarrow> ep_rate_limit e = None \<Longrightarrow>
    \<exists>r w'. run_state (change_endpoint_status (ep_public_id e) s ctx) w = (Inr r, w')"
  by (auto simp: change_endpoint_status_def set_endpoint_status_def run_try_bind run_update_returning or_not_found_def get_endpoint_row_def live_endpoint_def view_endpoint_def
      update_endpoints_def endpoint_violation_def touch_endpoint_def first_row_def List.map_filter_simps app_db_def run_simps)

theorem pausing_loses_queued_job_witness:
  "\<exists>r r' w1 w2 w3. run_state (pause_endpoint ''end_1'' endpoint_ctx) (start_world ep_db empty_keyspace 0) = (Inr r, w1) \<and>
     run_state (process_one sample_ext mem_redis sample_config ''1-0'' ''dj_1'' STREAM_DEFAULT) w1 = (Finished, w2) \<and>
     run_state (resume_endpoint ''end_1'' endpoint_ctx) w2 = (Inr r', w3) \<and>
     sample_job \<in> set (delivery_jobs (w_db w3)) \<and> \<not> unqueued (secs 1000) sample_job"
proof -
  let ?w = "start_world ep_db empty_keyspace 0"
  have e: "ep_public_id sample_endpoint = ''end_1''" "ep_deleted_at sample_endpoint = None" "dj_public_id sample_job = ''dj_1''" "dj_endpoint_id sample_job = ep_id sample_endpoint"
    by (simp_all add: sample_endpoint_def sample_job_def)
  obtain r w1 where p: "run_state (pause_endpoint ''end_1'' endpoint_ctx) ?w = (Inr r, w1)"
    using status_runs [of ?w sample_endpoint "''paused''" endpoint_ctx] by (auto simp: pause_endpoint_def ep_db_tables sample_endpoint_def)
  let ?e = "touch_endpoint endpoint_ctx 0 (sample_endpoint\<lparr>ep_status := ''paused''\<rparr>)"
  have w1: "w1 = ?w\<lparr>w_db := ep_db\<lparr>endpoints := [?e]\<rparr>\<rparr>"
    using set_status_run [of ?w sample_endpoint "''paused''" endpoint_ctx r w1] p e by (simp add: pause_endpoint_def ep_db_tables live_endpoint_def)
  have "first_row (deliverable_rows (dj_public_id sample_job) (w_now w1) (w_db w1)) = None"
    by (rule paused_not_deliverable) (auto simp: w1 ep_db_tables touch_endpoint_def)
  from process_undeliverable [OF _ this, of sample_ext mem_redis sample_config "''1-0''" STREAM_DEFAULT]
  obtain w2 where q: "run_state (process_one sample_ext mem_redis sample_config ''1-0'' (dj_public_id sample_job) STREAM_DEFAULT) w1 = (Finished, w2)"
      "w2 = w1\<lparr>w_ks := XACK mem_redis STREAM_DEFAULT GROUP ''1-0'' (w_ks w1)\<rparr>" by (simp add: w1)
  have pe: "ep_public_id ?e = ''end_1''" by (simp add: touch_endpoint_def e)
  obtain r' w3 where v: "run_state (resume_endpoint ''end_1'' endpoint_ctx) w2 = (Inr r', w3)"
    using status_runs [of w2 ?e "''active''" endpoint_ctx] unfolding pe by (auto simp: resume_endpoint_def ep_db_tables q(2) w1 touch_endpoint_def sample_endpoint_def)
  have "deliverable_status (dj_status sample_job)" "dj_enqueued_at sample_job \<noteq> None" by (simp_all add: sample_job_def deliverable_status_def)
  with pausing_loses_queued_job [of ?w sample_endpoint sample_job endpoint_ctx r w1 sample_ext mem_redis sample_config "''1-0''" STREAM_DEFAULT Finished w2 r' w3] p q(1) v e
  show ?thesis by (simp add: ep_db_tables)
qed

end
