(* ===== verification/Tenancy.thy ===== *)
theory Tenancy
  imports Roles Events
begin

text \<open>
  Organizations and their tenants (\<open>src/features/organizations/\<close>,
  \<open>src/features/tenants/\<close>). Requests with their checks, the tables with the
  constraints of the migrations, and every operation. Base64, the parser of UUID bytes, the check of addresses and
  Unicode lower case are parameters.
\<close>

section \<open>Tables with constraints\<close>

text \<open>Inserting a row, and changing the row a condition selects; either is refused when the new row violates a constraint
  together with the other rows.\<close>

definition checked_insert :: "('r \<Rightarrow> 'r list \<Rightarrow> sqlx_error option) \<Rightarrow> 'r \<Rightarrow> 'r list \<Rightarrow> (sqlx_error + 'r) \<times> 'r list" where
  "checked_insert violation r rs = (case violation r rs of Some e \<Rightarrow> (Inl e, rs) | None \<Rightarrow> (Inr r, rs @ [r]))"

definition checked_update :: "('r \<Rightarrow> 'r list \<Rightarrow> sqlx_error option) \<Rightarrow> ('r \<Rightarrow> bool) \<Rightarrow> ('r \<Rightarrow> 'r) \<Rightarrow> 'r list \<Rightarrow> (sqlx_error + 'r option) \<times> 'r list" where
  "checked_update violation hit f rs = (case find hit rs of None \<Rightarrow> (Inr None, rs)
     | Some r \<Rightarrow> (case violation (f r) (filter (\<lambda>x. \<not> hit x) rs) of Some e \<Rightarrow> (Inl e, rs) | None \<Rightarrow> (Inr (Some (f r)), update_where hit f rs)))"

text \<open>The same as statements on one table of the database, answering with the row joined to other tables.\<close>

definition on_table :: "(db \<Rightarrow> 'r list) \<Rightarrow> ('r list \<Rightarrow> db \<Rightarrow> db) \<Rightarrow> ('r list \<Rightarrow> (sqlx_error + 'a) \<times> 'r list) \<Rightarrow> (db \<Rightarrow> 'a \<Rightarrow> 'b) \<Rightarrow> db \<Rightarrow> (sqlx_error + 'b) \<times> db" where
  "on_table sel upd q view d = (case q (sel d) of (Inl e, _) \<Rightarrow> (Inl e, d) | (Inr a, rs) \<Rightarrow> (Inr (view (upd rs d) a), upd rs d))"

record tenancy_ext =
  tx_crypto :: crypto_ext
  tx_uuid_from_slice :: "string \<Rightarrow> uuid option"
  tx_valid_email :: "string \<Rightarrow> bool"
  tx_to_lowercase :: "string \<Rightarrow> string"

definition encode_id_cursor :: "tenancy_ext \<Rightarrow> uuid \<Rightarrow> string" where
  "encode_id_cursor X i = b64url_encode (tx_crypto X) (uuid_bytes (tx_crypto X) i)"

definition decode_id_cursor :: "tenancy_ext \<Rightarrow> string \<Rightarrow> app_error + uuid" where
  "decode_id_cursor X s = (case b64url_decode (tx_crypto X) s of None \<Rightarrow> Inl (BadRequest ''invalid cursor'')
     | Some bytes \<Rightarrow> (case tx_uuid_from_slice X bytes of None \<Rightarrow> Inl (BadRequest ''invalid cursor'') | Some i \<Rightarrow> Inr i))"

text \<open>\<open>created_by_public_id.unwrap_or_else(|| created_by.to_string())\<close> after a left join with the users.\<close>

definition user_name :: "db \<Rightarrow> uuid \<Rightarrow> string" where
  "user_name d i = coalesce (user_public i d) i"

definition validate_length :: "nat option \<Rightarrow> nat \<Rightarrow> string \<Rightarrow> string \<Rightarrow> validation_error list" where
  "validate_length lo hi message s = (let n = length (filter (\<lambda>c. \<not> byte_in 128 191 c) s) in
     if hi < n \<or> (case lo of None \<Rightarrow> False | Some l \<Rightarrow> n < l)
     then [\<lparr>ve_code = ''length'', ve_message = Some message,
        ve_params = (case lo of None \<Rightarrow> [''max'' \<mapsto> PNumber (int hi), ''value'' \<mapsto> PString s]
          | Some l \<Rightarrow> [''min'' \<mapsto> PNumber (int l), ''max'' \<mapsto> PNumber (int hi), ''value'' \<mapsto> PString s])\<rparr>] else [])"

definition validate_slug_text :: "string \<Rightarrow> string \<Rightarrow> validation_error list" where
  "validate_slug_text message s = (if validate_slug s then [] else [\<lparr>ve_code = ''invalid_format'', ve_message = Some message, ve_params = (\<lambda>_. None)\<rparr>])"

definition validate_email_text :: "tenancy_ext \<Rightarrow> string \<Rightarrow> string \<Rightarrow> validation_error list" where
  "validate_email_text X message s = (if tx_valid_email X s then [] else [\<lparr>ve_code = ''email'', ve_message = Some message, ve_params = [''value'' \<mapsto> PString s]\<rparr>])"

definition check_tags :: "(string \<times> string) list option \<Rightarrow> app_error + unit" where
  "check_tags tags = (case tags of None \<Rightarrow> Inr () | Some t \<Rightarrow> validate_tags t)"

section \<open>Organizations\<close>

record create_organization_request =
  cg_name :: string
  cg_slug :: string
  cg_owner_email :: string
  cg_external_id :: "string option"
  cg_tags :: "(string \<times> string) list option"

definition slug_message :: string where
  "slug_message = ''slug must be lowercase alphanumeric and hyphens, not starting or ending with a hyphen''"

definition validate_organization :: "tenancy_ext \<Rightarrow> create_organization_request \<Rightarrow> app_error + unit" where
  "validate_organization X r = reject_errors
     [(''name'', validate_not_blank ''name is required'' (cg_name r) @ validate_length (Some 5) 255 ''name must be 255 characters or fewer'' (cg_name r)),
      (''slug'', validate_not_blank ''slug is required'' (cg_slug r) @ validate_length (Some 3) 64 ''slug must be 64 characters or fewer'' (cg_slug r) @
         validate_slug_text slug_message (cg_slug r)),
      (''owner_email'', validate_not_blank ''owner_email is required'' (cg_owner_email r) @
         validate_email_text X ''owner_email is not a valid email address'' (cg_owner_email r) @
         validate_length None 64 ''owner_email must be 64 characters or fewer'' (cg_owner_email r)),
      (''external_id'', on_some (cg_external_id r) (validate_length None 64 ''external_id must be 64 characters or fewer''))]"

record update_organization_request =
  ug_name :: "string option"
  ug_slug :: "string option"
  ug_owner_email :: "string option"
  ug_external_id :: "string option"
  ug_tags :: "(string \<times> string) list option"

definition validate_update_organization :: "tenancy_ext \<Rightarrow> update_organization_request \<Rightarrow> app_error + unit" where
  "validate_update_organization X r = reject_errors
     [(''name'', on_some (ug_name r) (\<lambda>s. validate_not_blank ''name cannot be empty'' s @ validate_length None 255 ''name must be 255 characters or fewer'' s)),
      (''slug'', on_some (ug_slug r) (\<lambda>s. validate_not_blank ''slug cannot be empty'' s @ validate_length None 64 ''slug must be 64 characters or fewer'' s @
         validate_slug_text slug_message s)),
      (''owner_email'', on_some (ug_owner_email r) (\<lambda>s. validate_email_text X ''owner_email is not a valid email address'' s @
         validate_length None 64 ''owner_email must be 64 characters or fewer'' s)),
      (''external_id'', on_some (ug_external_id r) (validate_length None 64 ''external_id must be 64 characters or fewer''))]"

record organization_response =
  gr_id :: string
  gr_name :: string
  gr_slug :: string
  gr_status :: string
  gr_owner_email :: "string option"
  gr_external_id :: "string option"
  gr_tags :: "(string \<times> string) list"
  gr_created_by :: string
  gr_updated_by :: string
  gr_created_at :: time
  gr_updated_at :: time

definition organization_response_of :: "db \<Rightarrow> org_row \<Rightarrow> organization_response" where
  "organization_response_of d g = \<lparr>gr_id = og_public_id g, gr_name = og_name g, gr_slug = og_slug g, gr_status = og_status g, gr_owner_email = og_owner_email g,
     gr_external_id = og_external_id g, gr_tags = og_tags g, gr_created_by = user_name d (og_created_by g), gr_updated_by = user_name d (og_updated_by g),
     gr_created_at = og_created_at g, gr_updated_at = og_updated_at g\<rparr>"

text \<open>The check constraint \<open>slug ~ '^[a-z0-9][a-z0-9-]*[a-z0-9]$'\<close>, or a single such character.\<close>

definition slug_format :: "string \<Rightarrow> bool" where
  "slug_format s \<longleftrightarrow> s \<noteq> [] \<and> validate_slug s"

definition longer_than :: "nat \<Rightarrow> string option \<Rightarrow> bool" where
  "longer_than n s \<longleftrightarrow> (case s of None \<Rightarrow> False | Some x \<Rightarrow> n < char_length x)"

definition org_violation :: "org_row \<Rightarrow> org_row list \<Rightarrow> sqlx_error option" where
  "org_violation r rs =
     (if 255 < char_length (og_name r) \<or> 64 < char_length (og_slug r) \<or> longer_than 64 (og_owner_email r) \<or> longer_than 64 (og_external_id r)
        then Some value_too_long
      else if \<not> nonempty_text (og_name r) then Some (check_failed ''organizations'' ''organizations_name_nonempty'')
      else if \<not> slug_format (og_slug r) then Some (check_failed ''organizations'' ''organizations_slug_format'')
      else if \<exists>x\<in>set rs. og_id x = og_id r then Some (duplicate_key ''organizations'' ''organizations_pk'' ''id'' (og_id r))
      else if \<exists>x\<in>set rs. og_public_id x = og_public_id r then Some (duplicate_key ''organizations'' ''organizations_public_id_uq'' ''public_id'' (og_public_id r))
      else if \<exists>x\<in>set rs. og_slug x = og_slug r then Some (duplicate_key ''organizations'' ''organizations_slug_uq'' ''slug'' (og_slug r))
      else None)"

abbreviation on_orgs :: "(org_row list \<Rightarrow> (sqlx_error + 'a) \<times> org_row list) \<Rightarrow> (db \<Rightarrow> 'a \<Rightarrow> 'b) \<Rightarrow> db \<Rightarrow> (sqlx_error + 'b) \<times> db" where
  "on_orgs \<equiv> on_table organizations (\<lambda>rs d. d\<lparr>organizations := rs\<rparr>)"

definition live_org :: "string \<Rightarrow> org_row \<Rightarrow> bool" where
  "live_org public_id g \<longleftrightarrow> og_public_id g = public_id \<and> og_deleted_at g = None"

definition touch_org :: "request_context \<Rightarrow> time \<Rightarrow> org_row \<Rightarrow> org_row" where
  "touch_org ctx t g = g\<lparr>og_updated_by := rc_created_by ctx, og_request_id := rc_request_id ctx, og_version := og_version g + 1, og_updated_at := t\<rparr>"

definition create_org_row :: "tenancy_ext \<Rightarrow> idgen \<Rightarrow> create_organization_request \<Rightarrow> request_context \<Rightarrow> (app_error + organization_response) io" where
  "create_org_row X G req ctx = do {
     n \<leftarrow> fresh;
     nano \<leftarrow> nano_id_new G;
     map_sqlx (statement (\<lambda>t. on_orgs (checked_insert org_violation \<lparr>og_id = uuid_of G n, og_public_id = ''org_'' @ nano, og_status = ''active'', og_tier = None,
       og_deleted_at = None, og_name = trim (cg_name req), og_slug = trim (tx_to_lowercase X (cg_slug req)), og_owner_email = Some (cg_owner_email req),
       og_external_id = cg_external_id req, og_tags = coalesce (cg_tags req) [], og_version = 0, og_request_id = rc_request_id ctx, og_created_by = rc_created_by ctx,
       og_updated_by = rc_created_by ctx, og_created_at = t, og_updated_at = t\<rparr>) organization_response_of)) }"

definition get_org_row :: "string \<Rightarrow> (app_error + organization_response option) io" where
  "get_org_row public_id = map_sqlx (query (\<lambda>_ d. map_option (organization_response_of d) (find (\<lambda>g. og_public_id g = public_id) (organizations d))))"

text \<open>\<open>UPDATE organizations ... RETURNING ...\<close> of the row a condition selects.\<close>

definition update_org :: "(org_row \<Rightarrow> bool) \<Rightarrow> (org_row \<Rightarrow> org_row) \<Rightarrow> request_context \<Rightarrow> (app_error + organization_response option) io" where
  "update_org hit f ctx = map_sqlx (statement (\<lambda>t. on_orgs (checked_update org_violation hit (\<lambda>g. touch_org ctx t (f g))) (\<lambda>d. map_option (organization_response_of d))))"

definition update_org_row :: "string \<Rightarrow> update_organization_request \<Rightarrow> request_context \<Rightarrow> (app_error + organization_response option) io" where
  "update_org_row public_id req ctx = update_org (live_org public_id) (\<lambda>g. g\<lparr>og_name := coalesce (ug_name req) (og_name g), og_slug := coalesce (ug_slug req) (og_slug g),
     og_owner_email := (case ug_owner_email req of None \<Rightarrow> og_owner_email g | Some e \<Rightarrow> Some e),
     og_external_id := (case ug_external_id req of None \<Rightarrow> og_external_id g | Some e \<Rightarrow> Some e), og_tags := coalesce (ug_tags req) (og_tags g)\<rparr>) ctx"

definition delete_org_row :: "string \<Rightarrow> request_context \<Rightarrow> (app_error + bool) io" where
  "delete_org_row public_id ctx = map_sqlx (statement (\<lambda>t. on_orgs (checked_update org_violation (live_org public_id)
     (\<lambda>g. touch_org ctx t (g\<lparr>og_deleted_at := Some t, og_status := ''inactive''\<rparr>))) (\<lambda>_ r. r \<noteq> None)))"

definition suspend_org_row :: "string \<Rightarrow> uuid option \<Rightarrow> request_context \<Rightarrow> (app_error + organization_response option) io" where
  "suspend_org_row public_id caller ctx = update_org (\<lambda>g. live_org public_id g \<and> og_status g = ''active'' \<and> (caller = None \<or> caller = Some (og_id g)))
     (og_status_update (\<lambda>_. ''suspended'')) ctx"

definition restore_org_row :: "string \<Rightarrow> request_context \<Rightarrow> (app_error + organization_response option) io" where
  "restore_org_row public_id ctx = update_org (\<lambda>g. og_public_id g = public_id) (\<lambda>g. g\<lparr>og_deleted_at := None, og_status := ''active''\<rparr>) ctx"

definition list_org_rows :: "nat \<Rightarrow> uuid option \<Rightarrow> string option \<Rightarrow> (app_error + organization_response list \<times> uuid option) io" where
  "list_org_rows limit cursor status = map_sqlx (query (\<lambda>_ d. case cut_page og_id limit (sort_key og_id (filter (\<lambda>g. og_deleted_at g = None \<and>
       (case cursor of None \<Rightarrow> True | Some c \<Rightarrow> c < og_id g) \<and> (case status of None \<Rightarrow> True | Some s \<Rightarrow> og_status g = s)) (organizations d))) of
     (rows, next_id) \<Rightarrow> (map (organization_response_of d) rows, next_id)))"

definition org_missing :: "string \<Rightarrow> string" where
  "org_missing public_id = ''Organization not found: '' @ public_id"

definition create_organization :: "tenancy_ext \<Rightarrow> idgen \<Rightarrow> create_organization_request \<Rightarrow> request_context \<Rightarrow> (app_error + organization_response) io" where
  "create_organization X G req ctx = checked (validate_organization X req) (checked (check_tags (cg_tags req)) (create_org_row X G req ctx))"

definition get_organization :: "string \<Rightarrow> (app_error + organization_response) io" where
  "get_organization public_id = or_not_found (get_org_row public_id) (org_missing public_id)"

definition update_organization :: "tenancy_ext \<Rightarrow> string \<Rightarrow> update_organization_request \<Rightarrow> request_context \<Rightarrow> (app_error + organization_response) io" where
  "update_organization X public_id req ctx = checked (validate_update_organization X req) (checked (check_tags (ug_tags req))
     (or_not_found (update_org_row public_id req ctx) (org_missing public_id)))"

text \<open>A soft deletion that affected no row is not found.\<close>

definition deleted_or :: "(app_error + bool) io \<Rightarrow> string \<Rightarrow> (app_error + unit) io" where
  "deleted_or m msg = try_bind m (\<lambda>deleted. State_Monad.return (if deleted then Inr () else Inl (NotFound msg)))"

definition delete_organization :: "string \<Rightarrow> request_context \<Rightarrow> (app_error + unit) io" where
  "delete_organization public_id ctx = deleted_or (delete_org_row public_id ctx) (org_missing public_id)"

definition suspend_organization :: "string \<Rightarrow> uuid option \<Rightarrow> request_context \<Rightarrow> (app_error + organization_response) io" where
  "suspend_organization public_id caller ctx = or_not_found (suspend_org_row public_id caller ctx) (''Organization not found or not in active state: '' @ public_id)"

definition restore_organization :: "string \<Rightarrow> request_context \<Rightarrow> (app_error + organization_response) io" where
  "restore_organization public_id ctx = or_not_found (restore_org_row public_id ctx) (org_missing public_id)"

text \<open>A cursor is decoded before anything else.\<close>

definition with_cursor :: "tenancy_ext \<Rightarrow> string option \<Rightarrow> (uuid option \<Rightarrow> (app_error + 'a) io) \<Rightarrow> (app_error + 'a) io" where
  "with_cursor X cursor m = (case (case cursor of None \<Rightarrow> Inr None | Some c \<Rightarrow> map_sum id Some (decode_id_cursor X c)) of
     Inl e \<Rightarrow> State_Monad.return (Inl e) | Inr c \<Rightarrow> m c)"

definition list_organizations :: "tenancy_ext \<Rightarrow> int option \<Rightarrow> string option \<Rightarrow> string option \<Rightarrow> (app_error + organization_response list \<times> string option \<times> nat) io" where
  "list_organizations X limit cursor status = with_cursor X cursor (\<lambda>c. try_bind (list_org_rows (page_limit limit) c status) (\<lambda>(items, next_id).
     State_Monad.return (Inr (items, map_option (encode_id_cursor X) next_id, page_limit limit))))"

definition get_organization_handler :: "string \<Rightarrow> (app_error + int \<times> organization_response) io" where
  "get_organization_handler public_id = checked (validate_id_prefix public_id ''org_'' ''organization'') (with_status 200 id (get_organization public_id))"

definition suspend_organization_handler :: "request_context \<Rightarrow> string \<Rightarrow> (app_error + int \<times> organization_response) io" where
  "suspend_organization_handler ctx public_id = checked (validate_id_prefix public_id ''org_'' ''organization'')
     (with_status 200 id (suspend_organization public_id (Some (rc_org_id ctx)) ctx))"

definition delete_organization_handler :: "request_context \<Rightarrow> string \<Rightarrow> (app_error + int \<times> unit) io" where
  "delete_organization_handler ctx public_id = with_status 204 id (delete_organization public_id ctx)"

section \<open>Tenants\<close>

record create_tenant_request =
  ct_name :: string
  ct_description :: "string option"
  ct_tags :: "(string \<times> string) list option"

definition validate_tenant :: "create_tenant_request \<Rightarrow> app_error + unit" where
  "validate_tenant r = reject_errors
     [(''name'', validate_not_blank ''name is required'' (ct_name r) @ validate_length None 255 ''name must be 255 characters or fewer'' (ct_name r))]"

record update_tenant_request =
  ut_name :: "string option"
  ut_description :: "string option"
  ut_tags :: "(string \<times> string) list option"

definition validate_update_tenant :: "update_tenant_request \<Rightarrow> app_error + unit" where
  "validate_update_tenant r = reject_errors
     [(''name'', on_some (ut_name r) (\<lambda>s. validate_not_blank ''name cannot be empty'' s @ validate_length None 255 ''name must be 255 characters or fewer'' s))]"

record tenant_response =
  te_id :: string
  te_organization_id :: string
  te_name :: string
  te_description :: "string option"
  te_status :: string
  te_tags :: "(string \<times> string) list"
  te_created_by :: string
  te_updated_by :: string
  te_created_at :: time
  te_updated_at :: time

text \<open>A tenant joined with its organization.\<close>

definition tenant_response_of :: "db \<Rightarrow> tenant_row \<Rightarrow> tenant_response option" where
  "tenant_response_of d t = map_option (\<lambda>g. \<lparr>te_id = tn_public_id t, te_organization_id = og_public_id g, te_name = tn_name t, te_description = tn_description t,
     te_status = tn_status t, te_tags = tn_tags t, te_created_by = user_name d (tn_created_by t), te_updated_by = user_name d (tn_updated_by t),
     te_created_at = tn_created_at t, te_updated_at = tn_updated_at t\<rparr>) (find_org (tn_org_id t) d)"

definition tenant_violation :: "tenant_row \<Rightarrow> tenant_row list \<Rightarrow> sqlx_error option" where
  "tenant_violation r rs =
     (if 255 < char_length (tn_name r) then Some value_too_long
      else if \<not> nonempty_text (tn_name r) then Some (check_failed ''tenants'' ''tenants_name_nonempty'')
      else if \<exists>x\<in>set rs. tn_id x = tn_id r then Some (duplicate_key ''tenants'' ''tenants_pk'' ''id'' (tn_id r))
      else if \<exists>x\<in>set rs. tn_public_id x = tn_public_id r then Some (duplicate_key ''tenants'' ''tenants_public_id_uq'' ''public_id'' (tn_public_id r))
      else if tn_deleted_at r = None \<and> (\<exists>x\<in>set rs. tn_org_id x = tn_org_id r \<and> tn_name x = tn_name r \<and> tn_deleted_at x = None)
        then Some (duplicate_key ''tenants'' ''idx_tenants_name_uq'' ''organization_id, name'' (tn_org_id r @ '', '' @ tn_name r))
      else None)"

abbreviation on_tenants :: "(tenant_row list \<Rightarrow> (sqlx_error + 'a) \<times> tenant_row list) \<Rightarrow> (db \<Rightarrow> 'a \<Rightarrow> 'b) \<Rightarrow> db \<Rightarrow> (sqlx_error + 'b) \<times> db" where
  "on_tenants \<equiv> on_table (\<lambda>d. tenants (identity d)) (\<lambda>rs. update_identity (tenants_update (\<lambda>_. rs)))"

definition live_tenant :: "string \<Rightarrow> tenant_row \<Rightarrow> bool" where
  "live_tenant public_id t \<longleftrightarrow> tn_public_id t = public_id \<and> tn_deleted_at t = None"

definition touch_tenant :: "request_context \<Rightarrow> time \<Rightarrow> tenant_row \<Rightarrow> tenant_row" where
  "touch_tenant ctx t n = n\<lparr>tn_updated_by := rc_created_by ctx, tn_request_id := rc_request_id ctx, tn_version := tn_version n + 1, tn_updated_at := t\<rparr>"

text \<open>The row is stored also when its organization is missing and the joined query answers with no row.\<close>

definition create_tenant_row :: "idgen \<Rightarrow> create_tenant_request \<Rightarrow> uuid \<Rightarrow> request_context \<Rightarrow> (app_error + uuid \<times> tenant_response) io" where
  "create_tenant_row G req organization_id ctx = do {
     n \<leftarrow> fresh;
     nano \<leftarrow> nano_id_new G;
     map_sqlx (fetch_one (statement (\<lambda>t. on_tenants (checked_insert tenant_violation \<lparr>tn_id = uuid_of G n, tn_public_id = ''ten_'' @ nano, tn_org_id = organization_id,
       tn_status = ''active'', tn_deleted_at = None, tn_name = ct_name req, tn_description = ct_description req, tn_tags = coalesce (ct_tags req) [], tn_version = 0,
       tn_request_id = rc_request_id ctx, tn_created_by = rc_created_by ctx, tn_updated_by = rc_created_by ctx, tn_created_at = t, tn_updated_at = t\<rparr>)
       (\<lambda>d r. map_option (Pair (tn_id r)) (tenant_response_of d r))))) }"

definition get_tenant_row :: "string \<Rightarrow> (app_error + tenant_response option) io" where
  "get_tenant_row public_id = map_sqlx (query (\<lambda>_ d. first_row (List.map_filter (tenant_response_of d) (filter (\<lambda>t. tn_public_id t = public_id) (tenants (identity d))))))"

definition update_tenant_rows :: "(tenant_row \<Rightarrow> bool) \<Rightarrow> (tenant_row \<Rightarrow> tenant_row) \<Rightarrow> request_context \<Rightarrow> (app_error + tenant_response option) io" where
  "update_tenant_rows hit f ctx = map_sqlx (statement (\<lambda>t. on_tenants (checked_update tenant_violation hit (\<lambda>n. touch_tenant ctx t (f n)))
     (\<lambda>d r. Option.bind r (tenant_response_of d))))"

definition update_tenant_row :: "string \<Rightarrow> update_tenant_request \<Rightarrow> request_context \<Rightarrow> (app_error + tenant_response option) io" where
  "update_tenant_row public_id req ctx = update_tenant_rows (live_tenant public_id) (\<lambda>n. n\<lparr>tn_name := coalesce (ut_name req) (tn_name n),
     tn_description := (case ut_description req of None \<Rightarrow> tn_description n | Some s \<Rightarrow> Some s), tn_tags := coalesce (ut_tags req) (tn_tags n)\<rparr>) ctx"

definition delete_tenant_row :: "string \<Rightarrow> request_context \<Rightarrow> (app_error + bool) io" where
  "delete_tenant_row public_id ctx = map_sqlx (statement (\<lambda>t. on_tenants (checked_update tenant_violation (live_tenant public_id)
     (\<lambda>n. touch_tenant ctx t (n\<lparr>tn_deleted_at := Some t, tn_status := ''inactive''\<rparr>))) (\<lambda>_ r. r \<noteq> None)))"

definition owned_tenant :: "string \<Rightarrow> uuid option \<Rightarrow> string \<Rightarrow> tenant_row \<Rightarrow> bool" where
  "owned_tenant public_id caller status n \<longleftrightarrow> live_tenant public_id n \<and> tn_status n = status \<and> (caller = None \<or> caller = Some (tn_org_id n))"

definition suspend_tenant_row :: "string \<Rightarrow> uuid option \<Rightarrow> request_context \<Rightarrow> (app_error + tenant_response option) io" where
  "suspend_tenant_row public_id caller ctx = update_tenant_rows (owned_tenant public_id caller ''active'') (tn_status_update (\<lambda>_. ''suspended'')) ctx"

definition reactivate_tenant_row :: "string \<Rightarrow> uuid option \<Rightarrow> request_context \<Rightarrow> (app_error + tenant_response option) io" where
  "reactivate_tenant_row public_id caller ctx = update_tenant_rows (owned_tenant public_id caller ''suspended'') (tn_status_update (\<lambda>_. ''active'')) ctx"

definition list_tenant_rows :: "nat \<Rightarrow> uuid option \<Rightarrow> string option \<Rightarrow> uuid option \<Rightarrow> (app_error + tenant_response list \<times> uuid option) io" where
  "list_tenant_rows limit cursor status organization_id = map_sqlx (query (\<lambda>_ d. case cut_page fst limit (List.map_filter (\<lambda>n. map_option (Pair (tn_id n)) (tenant_response_of d n))
       (sort_key tn_id (filter (\<lambda>n. tn_deleted_at n = None \<and> (case cursor of None \<Rightarrow> True | Some c \<Rightarrow> c < tn_id n) \<and>
         (case status of None \<Rightarrow> True | Some s \<Rightarrow> tn_status n = s) \<and> (case organization_id of None \<Rightarrow> True | Some g \<Rightarrow> tn_org_id n = g)) (tenants (identity d))))) of
     (rows, next_id) \<Rightarrow> (map snd rows, next_id)))"

definition tenant_missing :: "string \<Rightarrow> string" where
  "tenant_missing public_id = ''Tenant not found: '' @ public_id"

text \<open>A failure to seed the default roles is only logged.\<close>

definition create_tenant :: "idgen \<Rightarrow> create_tenant_request \<Rightarrow> request_context \<Rightarrow> (app_error + tenant_response) io" where
  "create_tenant G req ctx = checked (validate_tenant req) (checked (check_tags (ct_tags req))
     (try_bind (create_tenant_row G req (rc_org_id ctx) ctx) (\<lambda>(tenant_id, tenant).
      try_bind list_system (\<lambda>system_perms. do {
        _ \<leftarrow> seed_default_roles G tenant_id system_perms ctx;
        State_Monad.return (Inr tenant) }))))"

definition get_tenant :: "string \<Rightarrow> (app_error + tenant_response) io" where
  "get_tenant public_id = or_not_found (get_tenant_row public_id) (tenant_missing public_id)"

definition update_tenant :: "string \<Rightarrow> update_tenant_request \<Rightarrow> request_context \<Rightarrow> (app_error + tenant_response) io" where
  "update_tenant public_id req ctx = checked (validate_update_tenant req) (checked (check_tags (ut_tags req))
     (or_not_found (update_tenant_row public_id req ctx) (tenant_missing public_id)))"

definition delete_tenant :: "string \<Rightarrow> request_context \<Rightarrow> (app_error + unit) io" where
  "delete_tenant public_id ctx = deleted_or (delete_tenant_row public_id ctx) (tenant_missing public_id)"

definition suspend_tenant :: "string \<Rightarrow> uuid option \<Rightarrow> request_context \<Rightarrow> (app_error + tenant_response) io" where
  "suspend_tenant public_id caller ctx = or_not_found (suspend_tenant_row public_id caller ctx) (''Tenant not found or not in active state: '' @ public_id)"

definition reactivate_tenant :: "string \<Rightarrow> uuid option \<Rightarrow> request_context \<Rightarrow> (app_error + tenant_response) io" where
  "reactivate_tenant public_id caller ctx = or_not_found (reactivate_tenant_row public_id caller ctx) (''Tenant not found or not in suspended state: '' @ public_id)"

definition list_tenants :: "tenancy_ext \<Rightarrow> int option \<Rightarrow> string option \<Rightarrow> string option \<Rightarrow> request_context \<Rightarrow> (app_error + tenant_response list \<times> string option \<times> nat) io" where
  "list_tenants X limit cursor status ctx = with_cursor X cursor (\<lambda>c. try_bind (list_tenant_rows (page_limit limit) c status (Some (rc_org_id ctx))) (\<lambda>(items, next_id).
     State_Monad.return (Inr (items, map_option (encode_id_cursor X) next_id, page_limit limit))))"

definition create_tenant_handler :: "idgen \<Rightarrow> request_context \<Rightarrow> create_tenant_request \<Rightarrow> (app_error + int \<times> tenant_response) io" where
  "create_tenant_handler G ctx payload = with_status 201 id (create_tenant G payload ctx)"

definition get_tenant_handler :: "string \<Rightarrow> (app_error + int \<times> tenant_response) io" where
  "get_tenant_handler public_id = checked (validate_id_prefix public_id ''ten_'' ''tenant'') (with_status 200 id (get_tenant public_id))"

definition delete_tenant_handler :: "request_context \<Rightarrow> string \<Rightarrow> (app_error + int \<times> unit) io" where
  "delete_tenant_handler ctx public_id = with_status 204 id (delete_tenant public_id ctx)"

definition suspend_tenant_handler :: "request_context \<Rightarrow> string \<Rightarrow> (app_error + int \<times> tenant_response) io" where
  "suspend_tenant_handler ctx public_id = checked (validate_id_prefix public_id ''ten_'' ''tenant'') (with_status 200 id (suspend_tenant public_id (Some (rc_org_id ctx)) ctx))"

definition reactivate_tenant_handler :: "request_context \<Rightarrow> string \<Rightarrow> (app_error + int \<times> tenant_response) io" where
  "reactivate_tenant_handler ctx public_id = checked (validate_id_prefix public_id ''ten_'' ''tenant'') (with_status 200 id (reactivate_tenant public_id (Some (rc_org_id ctx)) ctx))"

end
