(* ===== verification/Applications.thy ===== *)
theory Applications
  imports Tenancy
begin

text \<open>
  Environments and applications (\<open>src/features/environments/\<close>, \<open>src/features/applications/\<close>): requests with
  their checks, the tables with the constraints of the migrations, and every operation.
\<close>

section \<open>Environments\<close>

record create_environment_request =
  cn_name :: string
  cn_description :: "string option"
  cn_tags :: "(string \<times> string) list option"

definition normalize_environment :: "tenancy_ext \<Rightarrow> create_environment_request \<Rightarrow> create_environment_request" where
  "normalize_environment X r = r\<lparr>cn_name := tx_to_lowercase X (trim (cn_name r))\<rparr>"

definition name_error :: "string \<Rightarrow> string \<Rightarrow> app_error + unit" where
  "name_error code message = Inl (Validation [field_error_new ''name'' code message])"

definition environment_char :: "char \<Rightarrow> bool" where
  "environment_char c \<longleftrightarrow> byte_in 97 122 c \<or> byte_in 48 57 c \<or> c = CHR ''_'' \<or> c = CHR ''-''"

definition validate_environment :: "create_environment_request \<Rightarrow> app_error + unit" where
  "validate_environment r = (let name = trim (cn_name r) in
     if length name < 3 then name_error ''min_length'' ''name must be at least 3 characters''
     else if 64 < length name then name_error ''max_length'' ''name must be 64 characters or fewer''
     else if \<not> byte_in 97 122 (hd name) then name_error ''invalid_format'' ''name must start with a lowercase letter''
     else if \<not> list_all environment_char name then name_error ''invalid_format'' ''name may only contain lowercase letters, digits, hyphens, and underscores''
     else Inr ())"

record environment_response =
  nr_id :: string
  nr_organization_id :: string
  nr_tenant_id :: string
  nr_name :: string
  nr_description :: "string option"
  nr_status :: environment_status
  nr_tags :: "(string \<times> string) list"
  nr_created_by :: string
  nr_updated_by :: string
  nr_created_at :: time
  nr_updated_at :: time

text \<open>An environment joined with its tenant and organization; the handlers turn the row into the response.\<close>

definition environment_response_of :: "db \<Rightarrow> environment_row \<Rightarrow> environment_response option" where
  "environment_response_of d e = (case find_tenant (en_tenant_id e) d of None \<Rightarrow> None
     | Some t \<Rightarrow> map_option (\<lambda>g. \<lparr>nr_id = en_public_id e, nr_organization_id = og_public_id g, nr_tenant_id = tn_public_id t, nr_name = en_name e,
         nr_description = en_description e, nr_status = en_status e, nr_tags = en_tags e, nr_created_by = user_name d (en_created_by e),
         nr_updated_by = user_name d (en_updated_by e), nr_created_at = en_created_at e, nr_updated_at = en_updated_at e\<rparr>) (find_org (tn_org_id t) d))"

text \<open>The check constraint \<open>name ~ '^[a-z][a-z0-9_-]{2,63}$'\<close>.\<close>

definition environment_name :: "string \<Rightarrow> bool" where
  "environment_name s \<longleftrightarrow> 3 \<le> length s \<and> length s \<le> 64 \<and> byte_in 97 122 (hd s) \<and> list_all environment_char s"

definition environment_violation :: "environment_row \<Rightarrow> environment_row list \<Rightarrow> sqlx_error option" where
  "environment_violation r rs =
     (if (case en_description r of None \<Rightarrow> False | Some s \<Rightarrow> 521 < char_length s) then Some (value_too_long)
      else if \<not> environment_name (en_name r) then Some (check_failed ''environments'' ''environments_name_format'')
      else if \<exists>x\<in>set rs. en_id x = en_id r then Some (duplicate_key ''environments'' ''environments_pkey'' ''id'' (en_id r))
      else if \<exists>x\<in>set rs. en_public_id x = en_public_id r then Some (duplicate_key ''environments'' ''environments_public_id_uq'' ''public_id'' (en_public_id r))
      else if \<exists>x\<in>set rs. en_tenant_id x = en_tenant_id r \<and> en_name x = en_name r
        then Some (duplicate_key ''environments'' ''environments_tenant_name_uq'' ''tenant_id, name'' (en_tenant_id r @ '', '' @ en_name r))
      else None)"

abbreviation on_environments :: "(environment_row list \<Rightarrow> (sqlx_error + 'a) \<times> environment_row list) \<Rightarrow> (db \<Rightarrow> 'a \<Rightarrow> 'b) \<Rightarrow> db \<Rightarrow> (sqlx_error + 'b) \<times> db" where
  "on_environments \<equiv> on_table (\<lambda>d. environments (identity d)) (\<lambda>rs. update_identity (environments_update (\<lambda>_. rs)))"

definition create_environment_row :: "idgen \<Rightarrow> uuid \<Rightarrow> create_environment_request \<Rightarrow> request_context \<Rightarrow> (app_error + environment_response) io" where
  "create_environment_row G tenant_id req ctx = do {
     n \<leftarrow> fresh;
     nano \<leftarrow> nano_id_new G;
     map_sqlx (fetch_one (statement (\<lambda>t. on_environments (checked_insert environment_violation \<lparr>en_id = uuid_of G n, en_public_id = ''env_'' @ nano, en_tenant_id = tenant_id,
       en_name = cn_name req, en_status = EnvActive, en_description = cn_description req, en_tags = coalesce (cn_tags req) [], en_version = 0,
       en_request_id = rc_request_id ctx, en_created_by = rc_created_by ctx, en_updated_by = rc_created_by ctx, en_created_at = t, en_updated_at = t\<rparr>)
       environment_response_of))) }"

definition get_environment_row :: "string \<Rightarrow> (app_error + environment_response option) io" where
  "get_environment_row public_id = map_sqlx (query (\<lambda>_ d. first_row (List.map_filter (environment_response_of d)
     (filter (\<lambda>e. en_public_id e = public_id) (environments (identity d))))))"

text \<open>\<open>tags @> $1\<close> on objects of strings.\<close>

definition contains_tags :: "(string \<times> string) list \<Rightarrow> (string \<times> string) list \<Rightarrow> bool" where
  "contains_tags tags wanted \<longleftrightarrow> (\<forall>(k, v)\<in>set wanted. map_of tags k = Some v)"

definition list_environment_rows :: "uuid \<Rightarrow> environment_status option \<Rightarrow> nat \<Rightarrow> string option \<Rightarrow> (string \<times> string) list option \<Rightarrow> (app_error + environment_response list \<times> string option) io" where
  "list_environment_rows tenant_id status limit cursor tags = map_sqlx (query (\<lambda>_ d. cut_page nr_id limit (List.map_filter (environment_response_of d)
     (sort_key en_public_id (filter (\<lambda>e. en_tenant_id e = tenant_id \<and> (case status of None \<Rightarrow> True | Some s \<Rightarrow> en_status e = s) \<and>
       (case tags of None \<Rightarrow> True | Some t \<Rightarrow> contains_tags (en_tags e) t) \<and> (case cursor of None \<Rightarrow> True | Some c \<Rightarrow> c < en_public_id e)) (environments (identity d)))))))"

definition touch_environment :: "request_context \<Rightarrow> time \<Rightarrow> environment_row \<Rightarrow> environment_row" where
  "touch_environment ctx t e = e\<lparr>en_updated_by := rc_created_by ctx, en_request_id := rc_request_id ctx, en_version := en_version e + 1, en_updated_at := t\<rparr>"

definition update_environment_rows :: "string \<Rightarrow> (environment_row \<Rightarrow> environment_row) \<Rightarrow> request_context \<Rightarrow> (app_error + environment_response option) io" where
  "update_environment_rows public_id f ctx = map_sqlx (statement (\<lambda>t. on_environments (checked_update environment_violation (\<lambda>e. en_public_id e = public_id)
     (\<lambda>e. touch_environment ctx t (f e))) (\<lambda>d r. Option.bind r (environment_response_of d))))"

definition update_tags :: "string \<Rightarrow> (string \<times> string) list \<Rightarrow> request_context \<Rightarrow> (app_error + environment_response option) io" where
  "update_tags public_id tags ctx = update_environment_rows public_id (en_tags_update (\<lambda>_. tags)) ctx"

definition set_environment_status :: "string \<Rightarrow> environment_status \<Rightarrow> request_context \<Rightarrow> (app_error + environment_response option) io" where
  "set_environment_status public_id status ctx = update_environment_rows public_id (en_status_update (\<lambda>_. status)) ctx"

definition environment_missing :: "string \<Rightarrow> string" where
  "environment_missing public_id = ''environment not found: '' @ public_id"

definition create_environment :: "idgen \<Rightarrow> create_environment_request \<Rightarrow> request_context \<Rightarrow> (app_error + environment_response) io" where
  "create_environment G req ctx = checked (check_tags (cn_tags req)) (create_environment_row G (rc_tenant_id ctx) req ctx)"

definition get_environment_by_id :: "string \<Rightarrow> (app_error + environment_response) io" where
  "get_environment_by_id public_id = or_not_found (get_environment_row public_id) (environment_missing public_id)"

definition list_environments :: "uuid \<Rightarrow> environment_status option \<Rightarrow> int option \<Rightarrow> string option \<Rightarrow> (string \<times> string) list option \<Rightarrow> (app_error + environment_response list \<times> string option \<times> nat) io" where
  "list_environments tenant_id status limit cursor tags = try_bind (list_environment_rows tenant_id status (page_limit limit) cursor (if tags = Some [] then None else tags))
     (\<lambda>(items, next_cursor). State_Monad.return (Inr (items, next_cursor, page_limit limit)))"

text \<open>A request without tags stores the empty tags.\<close>

definition update_environment :: "string \<Rightarrow> (string \<times> string) list option \<Rightarrow> request_context \<Rightarrow> (app_error + environment_response) io" where
  "update_environment public_id tags ctx = checked (check_tags tags) (or_not_found (update_tags public_id (coalesce tags []) ctx) (environment_missing public_id))"

definition enable_environment :: "string \<Rightarrow> request_context \<Rightarrow> (app_error + environment_response) io" where
  "enable_environment public_id ctx = or_not_found (set_environment_status public_id EnvActive ctx) (environment_missing public_id)"

definition disable_environment :: "string \<Rightarrow> request_context \<Rightarrow> (app_error + environment_response) io" where
  "disable_environment public_id ctx = or_not_found (set_environment_status public_id EnvDisabled ctx) (environment_missing public_id)"

definition create_environment_handler :: "tenancy_ext \<Rightarrow> idgen \<Rightarrow> request_context \<Rightarrow> create_environment_request \<Rightarrow> (app_error + int \<times> environment_response) io" where
  "create_environment_handler X G ctx payload = (let payload = normalize_environment X payload in
     checked (validate_environment payload) (with_status 201 id (create_environment G payload ctx)))"

definition get_environment_handler :: "string \<Rightarrow> (app_error + int \<times> environment_response) io" where
  "get_environment_handler public_id = checked (validate_id_prefix public_id ''env_'' ''environment'') (with_status 200 id (get_environment_by_id public_id))"

section \<open>Applications\<close>

record create_application_request =
  ca_environment_id :: string
  ca_name :: string
  ca_description :: string
  ca_tags :: "(string \<times> string) list"

text \<open>\<open>CreateApplicationResponse\<close> and \<open>GetApplicationResponse\<close> have the same fields.\<close>

record application_response =
  al_id :: string
  al_tenant_id :: string
  al_organization_id :: string
  al_environment_id :: string
  al_name :: string
  al_description :: string
  al_tags :: "(string \<times> string) list"
  al_state :: application_state
  al_created_by :: uuid
  al_updated_by :: uuid
  al_created_at :: time
  al_updated_at :: time

definition environment_public :: "uuid option \<Rightarrow> db \<Rightarrow> string option" where
  "environment_public i d = map_option en_public_id (Option.bind i (\<lambda>j. find (\<lambda>e. en_id e = j) (environments (identity d))))"

definition application_response_of :: "db \<Rightarrow> application_row \<Rightarrow> application_response option" where
  "application_response_of d a = (case (find_tenant (ap_tenant_id a) d, find_org (ap_org_id a) d) of
       (Some t, Some g) \<Rightarrow> Some \<lparr>al_id = ap_public_id a, al_tenant_id = tn_public_id t, al_organization_id = og_public_id g,
         al_environment_id = coalesce (environment_public (ap_environment_id a) d) [], al_name = ap_name a, al_description = ap_description a, al_tags = ap_tags a,
         al_state = ap_state a, al_created_by = ap_created_by a, al_updated_by = ap_updated_by a, al_created_at = ap_created_at a, al_updated_at = ap_updated_at a\<rparr>
     | _ \<Rightarrow> None)"

definition application_violation :: "application_row \<Rightarrow> application_row list \<Rightarrow> sqlx_error option" where
  "application_violation r rs =
     (if 64 < char_length (ap_name r) \<or> 255 < char_length (ap_description r)
        then Some (value_too_long)
      else if \<exists>x\<in>set rs. ap_id x = ap_id r then Some (duplicate_key ''applications'' ''applications_pkey'' ''id'' (ap_id r))
      else if \<exists>x\<in>set rs. ap_public_id x = ap_public_id r then Some (duplicate_key ''applications'' ''idx_applications_public_id'' ''public_id'' (ap_public_id r))
      else if \<exists>x\<in>set rs. ap_tenant_id x = ap_tenant_id r \<and> ap_name x = ap_name r
        then Some (duplicate_key ''applications'' ''idx_applications_tenant_name'' ''tenant_id, name'' (ap_tenant_id r @ '', '' @ ap_name r))
      else None)"

abbreviation on_applications :: "(application_row list \<Rightarrow> (sqlx_error + 'a) \<times> application_row list) \<Rightarrow> (db \<Rightarrow> 'a \<Rightarrow> 'b) \<Rightarrow> db \<Rightarrow> (sqlx_error + 'b) \<times> db" where
  "on_applications \<equiv> on_table applications (\<lambda>rs d. d\<lparr>applications := rs\<rparr>)"

definition resolve_environment :: "string \<Rightarrow> (app_error + uuid option) io" where
  "resolve_environment public_id = map_sqlx (query (\<lambda>_ d. map_option en_id (find (\<lambda>e. en_public_id e = public_id) (environments (identity d)))))"

text \<open>The foreign key of the environment is checked after the constraints of the table.\<close>

definition insert_application :: "application_row \<Rightarrow> db \<Rightarrow> (sqlx_error + application_response option) \<times> db" where
  "insert_application r d = (if (case ap_environment_id r of None \<Rightarrow> False | Some i \<Rightarrow> \<not> (\<exists>e\<in>set (environments (identity d)). en_id e = i)) \<and>
       application_violation r (applications d) = None then (Inl (missing_reference ''applications'' ''applications_environment_id_fkey''), d)
     else on_applications (checked_insert application_violation r) application_response_of d)"

definition create_application_row :: "idgen \<Rightarrow> create_application_request \<Rightarrow> uuid \<Rightarrow> uuid \<Rightarrow> uuid \<Rightarrow> request_context \<Rightarrow> (app_error + application_response) io" where
  "create_application_row G req tenant_id organization_id environment_id ctx = do {
     n \<leftarrow> fresh;
     nano \<leftarrow> nano_id_new G;
     t' \<leftarrow> now;
     map_sqlx (fetch_one (statement (\<lambda>_. insert_application \<lparr>ap_id = uuid_of G n, ap_public_id = ''app_'' @ nano, ap_tenant_id = tenant_id, ap_org_id = organization_id,
       ap_deleted_at = None, ap_environment_id = Some environment_id, ap_name = ca_name req, ap_description = ca_description req, ap_tags = ca_tags req, ap_state = AppActive,
       ap_version = 0, ap_request_id = rc_request_id ctx, ap_created_by = rc_created_by ctx, ap_updated_by = rc_created_by ctx, ap_created_at = t', ap_updated_at = t'\<rparr>))) }"

definition get_application_row :: "string \<Rightarrow> (app_error + application_response option) io" where
  "get_application_row public_id = map_sqlx (query (\<lambda>_ d. first_row (List.map_filter (application_response_of d) (filter (\<lambda>a. ap_public_id a = public_id) (applications d)))))"

definition touch_application :: "request_context \<Rightarrow> time \<Rightarrow> application_row \<Rightarrow> application_row" where
  "touch_application ctx t a = a\<lparr>ap_updated_by := rc_created_by ctx, ap_request_id := rc_request_id ctx, ap_updated_at := t\<rparr>"

definition delete_application_row :: "string \<Rightarrow> request_context \<Rightarrow> (app_error + unit) io" where
  "delete_application_row public_id ctx = map_sqlx (statement (\<lambda>t. on_applications (checked_update application_violation (\<lambda>a. ap_public_id a = public_id \<and> ap_deleted_at a = None)
     (\<lambda>a. touch_application ctx t (a\<lparr>ap_deleted_at := Some t, ap_state := AppInactive\<rparr>))) (\<lambda>_ _. ())))"

definition restore_application_row :: "string \<Rightarrow> request_context \<Rightarrow> (app_error + application_response option) io" where
  "restore_application_row public_id ctx = map_sqlx (statement (\<lambda>t. on_applications (checked_update application_violation (\<lambda>a. ap_public_id a = public_id)
     (\<lambda>a. touch_application ctx t (a\<lparr>ap_deleted_at := None, ap_state := AppActive\<rparr>))) (\<lambda>d r. Option.bind r (application_response_of d))))"

definition application_missing :: "string \<Rightarrow> string" where
  "application_missing public_id = ''Application not found: '' @ public_id"

definition create_application :: "idgen \<Rightarrow> create_application_request \<Rightarrow> request_context \<Rightarrow> (app_error + application_response) io" where
  "create_application G req ctx = checked (validate_tags (ca_tags req))
     (try_bind (or_not_found (resolve_environment (ca_environment_id req)) (''Environment not found: '' @ ca_environment_id req)) (\<lambda>environment_id.
        create_application_row G req (rc_tenant_id ctx) (rc_org_id ctx) environment_id ctx))"

definition get_application_by_id :: "string \<Rightarrow> (app_error + application_response) io" where
  "get_application_by_id public_id = or_not_found (get_application_row public_id) (application_missing public_id)"

definition delete_application :: "string \<Rightarrow> request_context \<Rightarrow> (app_error + unit) io" where
  "delete_application public_id ctx = delete_application_row public_id ctx"

definition restore_application :: "string \<Rightarrow> request_context \<Rightarrow> (app_error + application_response) io" where
  "restore_application public_id ctx = or_not_found (restore_application_row public_id ctx) (application_missing public_id)"

definition create_application_handler :: "idgen \<Rightarrow> request_context \<Rightarrow> create_application_request \<Rightarrow> (app_error + int \<times> application_response) io" where
  "create_application_handler G ctx payload = with_status 201 id (create_application G payload ctx)"

definition get_application_handler :: "string \<Rightarrow> (app_error + int \<times> application_response) io" where
  "get_application_handler public_id = checked (validate_id_prefix public_id ''app_'' ''application'') (with_status 200 id (get_application_by_id public_id))"

definition delete_application_handler :: "request_context \<Rightarrow> string \<Rightarrow> (app_error + int \<times> unit) io" where
  "delete_application_handler ctx public_id = with_status 204 id (delete_application public_id ctx)"

end
