(* ===== verification/Users.thy ===== *)
theory Users
  imports Tenancy Invites
begin

text \<open>
  Users and teams (\<open>src/features/users/\<close>, \<open>src/features/teams/\<close>): requests with their checks, the tables with the
  constraints of the migrations, and every operation. The lookups of a tenant and an organization are the same
  statements as for invites.
\<close>

section \<open>Users\<close>

record create_user_request =
  cu_organization_id :: string
  cu_tenant_id :: string
  cu_email :: string
  cu_phone :: "string option"
  cu_metadata :: "(string \<times> string) list option"
  cu_tags :: "(string \<times> string) list option"
  cu_settings :: "(string \<times> string) list option"
  cu_password_hash :: "string option"

definition validate_user :: "tenancy_ext \<Rightarrow> create_user_request \<Rightarrow> app_error + unit" where
  "validate_user X r = reject_errors
     [(''email'', validate_not_blank ''email is required'' (cu_email r) @ validate_email_text X ''email is not a valid email address'' (cu_email r) @
         validate_length None 64 ''email must be 64 characters or fewer'' (cu_email r)),
      (''phone'', on_some (cu_phone r) (validate_length None 13 ''phone must be 13 characters or fewer''))]"

record update_user_request =
  uu_phone :: "string option"
  uu_metadata :: "(string \<times> string) list option"
  uu_tags :: "(string \<times> string) list option"
  uu_settings :: "(string \<times> string) list option"

definition validate_update_user :: "update_user_request \<Rightarrow> app_error + unit" where
  "validate_update_user r = reject_errors [(''phone'', on_some (uu_phone r) (validate_length None 13 ''phone must be 13 characters or fewer''))]"

record user_response =
  ur_id :: string
  ur_organization_id :: string
  ur_tenant_id :: string
  ur_email :: string
  ur_phone :: "string option"
  ur_status :: user_status
  ur_email_verified_at :: "time option"
  ur_phone_verified_at :: "time option"
  ur_last_active_at :: "time option"
  ur_tags :: "(string \<times> string) list"
  ur_locked_until :: "time option"
  ur_login_count :: int
  ur_created_by :: string
  ur_updated_by :: string
  ur_created_at :: time
  ur_updated_at :: time

text \<open>A user joined with the organization and the tenant. The main query of a statement that changes the table sees
  the table as it was before.\<close>

definition user_response_of :: "db \<Rightarrow> user_row \<Rightarrow> user_response option" where
  "user_response_of d u = (case (find_org (us_org_id u) d, find_tenant (us_tenant_id u) d) of
       (Some g, Some t) \<Rightarrow> Some \<lparr>ur_id = us_public_id u, ur_organization_id = og_public_id g, ur_tenant_id = tn_public_id t, ur_email = us_email u, ur_phone = us_phone u,
         ur_status = us_status u, ur_email_verified_at = us_email_verified_at u, ur_phone_verified_at = us_phone_verified_at u, ur_last_active_at = us_last_active_at u,
         ur_tags = us_tags u, ur_locked_until = us_locked_until u, ur_login_count = us_login_count u, ur_created_by = user_name d (us_created_by u),
         ur_updated_by = user_name d (us_updated_by u), ur_created_at = us_created_at u, ur_updated_at = us_updated_at u\<rparr>
     | _ \<Rightarrow> None)"

text \<open>The check constraint \<open>email ~* '^[A-Za-z0-9._%+\-]+@[A-Za-z0-9.\-]+\.[A-Za-z]{2,}$'\<close>: neither part can contain an at
  sign, and the last label has no dot.\<close>

definition email_letter :: "char \<Rightarrow> bool" where
  "email_letter c \<longleftrightarrow> byte_in 65 90 c \<or> byte_in 97 122 c"

definition domain_char :: "char \<Rightarrow> bool" where
  "domain_char c \<longleftrightarrow> email_letter c \<or> byte_in 48 57 c \<or> c \<in> {CHR ''.'', CHR ''-''}"

definition local_char :: "char \<Rightarrow> bool" where
  "local_char c \<longleftrightarrow> domain_char c \<or> c \<in> {CHR ''_'', CHR ''%'', CHR ''+''}"

definition email_format :: "string \<Rightarrow> bool" where
  "email_format s \<longleftrightarrow> (let local = takeWhile (\<lambda>c. c \<noteq> CHR ''@'') s; domain = drop 1 (dropWhile (\<lambda>c. c \<noteq> CHR ''@'') s);
       label = takeWhile (\<lambda>c. c \<noteq> CHR ''.'') (rev domain) in
     local \<noteq> [] \<and> list_all local_char local \<and> list_all domain_char domain \<and> 2 \<le> length label \<and> list_all email_letter label \<and> length label + 2 \<le> length domain)"

definition user_violation :: "user_row \<Rightarrow> user_row list \<Rightarrow> sqlx_error option" where
  "user_violation r rs =
     (if 64 < char_length (us_email r) \<or> (case us_phone r of None \<Rightarrow> False | Some p \<Rightarrow> 13 < char_length p) \<or>
         (case us_password_hash r of None \<Rightarrow> False | Some p \<Rightarrow> 255 < char_length p) then Some value_too_long
      else if \<not> email_format (us_email r) then Some (check_failed ''users'' ''users_email_format'')
      else if us_login_count r < 0 then Some (check_failed ''users'' ''users_login_count_nonneg'')
      else if us_version r \<le> 0 then Some (check_failed ''users'' ''users_version_positive'')
      else if \<exists>x\<in>set rs. us_id x = us_id r then Some (duplicate_key ''users'' ''users_pk'' ''id'' (us_id r))
      else if \<exists>x\<in>set rs. us_public_id x = us_public_id r then Some (duplicate_key ''users'' ''users_public_id_uq'' ''public_id'' (us_public_id r))
      else if \<exists>x\<in>set rs. us_org_id x = us_org_id r \<and> us_email x = us_email r
        then Some (duplicate_key ''users'' ''users_email_org_uq'' ''organization_id, email'' (us_org_id r @ '', '' @ us_email r))
      else None)"

abbreviation on_users :: "(user_row list \<Rightarrow> (sqlx_error + 'a) \<times> user_row list) \<Rightarrow> (db \<Rightarrow> 'a \<Rightarrow> 'b) \<Rightarrow> db \<Rightarrow> (sqlx_error + 'b) \<times> db" where
  "on_users q view d \<equiv> on_table (\<lambda>d. users (identity d)) (\<lambda>rs. update_identity (users_update (\<lambda>_. rs))) q (\<lambda>_. view d) d"

definition create_user_row :: "idgen \<Rightarrow> create_user_request \<Rightarrow> uuid \<Rightarrow> uuid \<Rightarrow> request_context \<Rightarrow> (app_error + user_response) io" where
  "create_user_row G req tenant_id organization_id ctx = do {
     n \<leftarrow> fresh;
     nano \<leftarrow> nano_id_new G;
     map_sqlx (fetch_one (statement (\<lambda>t d. on_users (checked_insert user_violation \<lparr>us_id = uuid_of G n, us_public_id = ''usr_'' @ nano, us_org_id = organization_id,
       us_tenant_id = tenant_id, us_email = cu_email req, us_phone = cu_phone req, us_status = UserActive, us_email_verified_at = None, us_phone_verified_at = None,
       us_last_active_at = None, us_metadata = coalesce (cu_metadata req) [], us_tags = coalesce (cu_tags req) [], us_settings = coalesce (cu_settings req) [],
       us_password_hash = cu_password_hash req, us_version = 1, us_created_by = rc_created_by ctx, us_updated_by = rc_created_by ctx, us_request_id = rc_request_id ctx,
       us_locked_until = None, us_login_count = 0, us_created_at = t, us_updated_at = t, us_deleted_at = None\<rparr>) user_response_of d))) }"

definition live_user :: "string \<Rightarrow> user_row \<Rightarrow> bool" where
  "live_user public_id u \<longleftrightarrow> us_public_id u = public_id \<and> us_deleted_at u = None"

definition get_user_row :: "string \<Rightarrow> (app_error + user_response option) io" where
  "get_user_row public_id = map_sqlx (query (\<lambda>_ d. first_row (List.map_filter (user_response_of d) (filter (live_user public_id) (users (identity d))))))"

definition touch_user :: "request_context \<Rightarrow> time \<Rightarrow> user_row \<Rightarrow> user_row" where
  "touch_user ctx t u = u\<lparr>us_updated_by := rc_created_by ctx, us_request_id := rc_request_id ctx, us_version := us_version u + 1, us_updated_at := t\<rparr>"

definition update_user_rows :: "(user_row \<Rightarrow> bool) \<Rightarrow> (user_row \<Rightarrow> user_row) \<Rightarrow> request_context \<Rightarrow> (app_error + user_response option) io" where
  "update_user_rows hit f ctx = map_sqlx (statement (\<lambda>t d. on_users (checked_update user_violation hit (\<lambda>u. touch_user ctx t (f u)))
     (\<lambda>d r. Option.bind r (user_response_of d)) d))"

definition update_user_row :: "string \<Rightarrow> update_user_request \<Rightarrow> request_context \<Rightarrow> (app_error + user_response option) io" where
  "update_user_row public_id req ctx = update_user_rows (live_user public_id) (\<lambda>u. u\<lparr>us_phone := (case uu_phone req of None \<Rightarrow> us_phone u | Some p \<Rightarrow> Some p),
     us_metadata := coalesce (uu_metadata req) (us_metadata u), us_tags := coalesce (uu_tags req) (us_tags u), us_settings := coalesce (uu_settings req) (us_settings u)\<rparr>) ctx"

definition delete_user_row :: "string \<Rightarrow> request_context \<Rightarrow> (app_error + bool) io" where
  "delete_user_row public_id ctx = map_sqlx (statement (\<lambda>t d. on_users (checked_update user_violation (live_user public_id)
     (\<lambda>u. touch_user ctx t (u\<lparr>us_deleted_at := Some t, us_status := UserInactive\<rparr>))) (\<lambda>_ r. r \<noteq> None) d))"

definition user_in :: "string \<Rightarrow> user_status \<Rightarrow> user_row \<Rightarrow> bool" where
  "user_in public_id status u \<longleftrightarrow> live_user public_id u \<and> us_status u = status"

definition suspend_user_row :: "string \<Rightarrow> request_context \<Rightarrow> (app_error + user_response option) io" where
  "suspend_user_row public_id ctx = update_user_rows (user_in public_id UserActive) (us_status_update (\<lambda>_. UserSuspended)) ctx"

definition reactivate_user_row :: "string \<Rightarrow> request_context \<Rightarrow> (app_error + user_response option) io" where
  "reactivate_user_row public_id ctx = update_user_rows (user_in public_id UserSuspended) (us_status_update (\<lambda>_. UserActive)) ctx"

definition lock_user_row :: "string \<Rightarrow> time \<Rightarrow> request_context \<Rightarrow> (app_error + user_response option) io" where
  "lock_user_row public_id locked_until ctx = update_user_rows (user_in public_id UserActive)
     (\<lambda>u. u\<lparr>us_status := UserLocked, us_locked_until := Some locked_until\<rparr>) ctx"

definition unlock_user_row :: "string \<Rightarrow> request_context \<Rightarrow> (app_error + user_response option) io" where
  "unlock_user_row public_id ctx = update_user_rows (user_in public_id UserLocked) (\<lambda>u. u\<lparr>us_status := UserActive, us_locked_until := None\<rparr>) ctx"

definition list_user_rows :: "nat \<Rightarrow> uuid option \<Rightarrow> user_status option \<Rightarrow> uuid option \<Rightarrow> uuid option \<Rightarrow> (app_error + user_response list \<times> uuid option) io" where
  "list_user_rows limit cursor status organization_id tenant_id = map_sqlx (query (\<lambda>_ d. case cut_page fst limit (List.map_filter (\<lambda>u. map_option (Pair (us_id u)) (user_response_of d u))
       (sort_key us_id (filter (\<lambda>u. us_deleted_at u = None \<and> (case cursor of None \<Rightarrow> True | Some c \<Rightarrow> c < us_id u) \<and>
         (case status of None \<Rightarrow> True | Some s \<Rightarrow> us_status u = s) \<and> (case organization_id of None \<Rightarrow> True | Some g \<Rightarrow> us_org_id u = g) \<and>
         (case tenant_id of None \<Rightarrow> True | Some n \<Rightarrow> us_tenant_id u = n)) (users (identity d))))) of
     (rows, next_id) \<Rightarrow> (map snd rows, next_id)))"

definition user_missing :: "string \<Rightarrow> string" where
  "user_missing public_id = ''User not found: '' @ public_id"

definition create_user :: "tenancy_ext \<Rightarrow> idgen \<Rightarrow> create_user_request \<Rightarrow> request_context \<Rightarrow> (app_error + user_response) io" where
  "create_user X G req ctx = checked (validate_user X req) (checked (check_tags (cu_tags req))
     (try_bind (or_not_found (resolve_tenant (cu_tenant_id req)) (''Tenant not found: '' @ cu_tenant_id req)) (\<lambda>tenant_id.
      try_bind (or_not_found (resolve_organization (cu_organization_id req)) (''Organization not found: '' @ cu_organization_id req)) (\<lambda>organization_id.
        create_user_row G req tenant_id organization_id ctx))))"

definition get_user :: "string \<Rightarrow> (app_error + user_response) io" where
  "get_user public_id = or_not_found (get_user_row public_id) (user_missing public_id)"

definition update_user :: "string \<Rightarrow> update_user_request \<Rightarrow> request_context \<Rightarrow> (app_error + user_response) io" where
  "update_user public_id req ctx = checked (validate_update_user req) (checked (check_tags (uu_tags req))
     (or_not_found (update_user_row public_id req ctx) (user_missing public_id)))"

definition delete_user :: "string \<Rightarrow> request_context \<Rightarrow> (app_error + unit) io" where
  "delete_user public_id ctx = deleted_or (delete_user_row public_id ctx) (user_missing public_id)"

definition user_not_in :: "string \<Rightarrow> string \<Rightarrow> string" where
  "user_not_in status public_id = ''User not found or not in '' @ status @ '' state: '' @ public_id"

definition suspend_user :: "string \<Rightarrow> request_context \<Rightarrow> (app_error + user_response) io" where
  "suspend_user public_id ctx = or_not_found (suspend_user_row public_id ctx) (user_not_in ''active'' public_id)"

definition reactivate_user :: "string \<Rightarrow> request_context \<Rightarrow> (app_error + user_response) io" where
  "reactivate_user public_id ctx = or_not_found (reactivate_user_row public_id ctx) (user_not_in ''suspended'' public_id)"

definition lock_user :: "string \<Rightarrow> time \<Rightarrow> request_context \<Rightarrow> (app_error + user_response) io" where
  "lock_user public_id locked_until ctx = or_not_found (lock_user_row public_id locked_until ctx) (user_not_in ''active'' public_id)"

definition unlock_user :: "string \<Rightarrow> request_context \<Rightarrow> (app_error + user_response) io" where
  "unlock_user public_id ctx = or_not_found (unlock_user_row public_id ctx) (user_not_in ''locked'' public_id)"

text \<open>The tags of the query are not used.\<close>

definition list_users :: "tenancy_ext \<Rightarrow> int option \<Rightarrow> string option \<Rightarrow> user_status option \<Rightarrow> string option \<Rightarrow> string option \<Rightarrow> (app_error + user_response list \<times> string option \<times> nat) io" where
  "list_users X limit cursor status organization tenant = with_cursor X cursor (\<lambda>c.
     try_bind (resolve_given resolve_organization ''Organization'' organization) (\<lambda>organization_id.
     try_bind (resolve_given resolve_tenant ''Tenant'' tenant) (\<lambda>tenant_id.
     try_bind (list_user_rows (page_limit limit) c status organization_id tenant_id) (\<lambda>(items, next_id).
       State_Monad.return (Inr (items, map_option (encode_id_cursor X) next_id, page_limit limit))))))"

definition create_user_handler :: "tenancy_ext \<Rightarrow> idgen \<Rightarrow> request_context \<Rightarrow> create_user_request \<Rightarrow> (app_error + int \<times> user_response) io" where
  "create_user_handler X G ctx payload = with_status 201 id (create_user X G payload ctx)"

definition get_user_handler :: "string \<Rightarrow> (app_error + int \<times> user_response) io" where
  "get_user_handler public_id = checked (validate_id_prefix public_id ''usr_'' ''user'') (with_status 200 id (get_user public_id))"

definition delete_user_handler :: "request_context \<Rightarrow> string \<Rightarrow> (app_error + int \<times> unit) io" where
  "delete_user_handler ctx public_id = with_status 204 id (delete_user public_id ctx)"

section \<open>Teams\<close>

record create_team_request =
  cm_name :: string
  cm_tenant_id :: string
  cm_organization_id :: string
  cm_description :: "string option"
  cm_tags :: "(string \<times> string) list option"
  cm_metadata :: "(string \<times> string) list option"
  cm_settings :: "(string \<times> string) list option"

definition validate_team :: "create_team_request \<Rightarrow> app_error + unit" where
  "validate_team r = reject_errors
     [(''name'', validate_not_blank ''name is required'' (cm_name r) @ validate_length None 255 ''name must be 255 characters or fewer'' (cm_name r))]"

record update_team_request =
  um_name :: "string option"
  um_description :: "string option"
  um_tags :: "(string \<times> string) list option"
  um_metadata :: "(string \<times> string) list option"
  um_settings :: "(string \<times> string) list option"

definition validate_update_team :: "update_team_request \<Rightarrow> app_error + unit" where
  "validate_update_team r = reject_errors
     [(''name'', on_some (um_name r) (\<lambda>s. validate_not_blank ''name cannot be empty'' s @ validate_length None 255 ''name must be 255 characters or fewer'' s))]"

definition validate_user_ids :: "string list \<Rightarrow> app_error + unit" where
  "validate_user_ids ids = reject_errors [(''user_ids'', if ids = [] then [\<lparr>ve_code = ''length'', ve_message = Some ''user_ids must contain at least one entry'',
     ve_params = [''min'' \<mapsto> PNumber 1, ''value'' \<mapsto> PArray (length ids)]\<rparr>] else [])]"

text \<open>\<open>TeamResponse\<close> and \<open>TeamMemberResponse\<close> show the row without the internal id, version and deletion.\<close>

record team_response =
  to_id :: string
  to_name :: string
  to_tenant_id :: uuid
  to_organization_id :: uuid
  to_description :: "string option"
  to_tags :: "(string \<times> string) list"
  to_metadata :: "(string \<times> string) list"
  to_settings :: "(string \<times> string) list"
  to_created_by :: uuid
  to_updated_by :: uuid
  to_request_id :: uuid
  to_created_at :: time
  to_updated_at :: time

definition team_response_of :: "team_row \<Rightarrow> team_response" where
  "team_response_of m = \<lparr>to_id = tm_public_id m, to_name = tm_name m, to_tenant_id = tm_tenant_id m, to_organization_id = tm_org_id m, to_description = tm_description m,
     to_tags = tm_tags m, to_metadata = tm_metadata m, to_settings = tm_settings m, to_created_by = tm_created_by m, to_updated_by = tm_updated_by m,
     to_request_id = tm_request_id m, to_created_at = tm_created_at m, to_updated_at = tm_updated_at m\<rparr>"

record team_member_response =
  tp_id :: string
  tp_tenant_id :: uuid
  tp_organization_id :: uuid
  tp_team_id :: uuid
  tp_user_id :: uuid
  tp_created_by :: uuid
  tp_updated_by :: uuid
  tp_request_id :: uuid
  tp_created_at :: time
  tp_updated_at :: time

definition team_member_response_of :: "team_member_row \<Rightarrow> team_member_response" where
  "team_member_response_of m = \<lparr>tp_id = tk_public_id m, tp_tenant_id = tk_tenant_id m, tp_organization_id = tk_org_id m, tp_team_id = tk_team_id m, tp_user_id = tk_user_id m,
     tp_created_by = tk_created_by m, tp_updated_by = tk_updated_by m, tp_request_id = tk_request_id m, tp_created_at = tk_created_at m, tp_updated_at = tk_updated_at m\<rparr>"

fun join_with :: "string \<Rightarrow> string list \<Rightarrow> string" where
  "join_with sep [] = []"
| "join_with sep [s] = s"
| "join_with sep (s # ss) = s @ sep @ join_with sep ss"

definition live_users_among :: "string list \<Rightarrow> db \<Rightarrow> user_row list" where
  "live_users_among public_ids d = filter (\<lambda>u. us_public_id u \<in> set public_ids \<and> us_deleted_at u = None) (users (identity d))"

text \<open>Ids that name no user are reported in the order of the request; the rest come back in the order of the table.\<close>

definition resolve_users :: "string list \<Rightarrow> (app_error + uuid list) io" where
  "resolve_users public_ids = (if public_ids = [] then State_Monad.return (Inr [])
     else try_bind (map_sqlx (query (\<lambda>_. live_users_among public_ids))) (\<lambda>rows.
       let missing = filter (\<lambda>pid. \<not> (\<exists>u\<in>set rows. us_public_id u = pid)) public_ids in
       State_Monad.return (if missing \<noteq> [] then Inl (NotFound (''Users not found: '' @ join_with '', '' missing)) else Inr (map us_id rows))))"

definition team_violation :: "team_row \<Rightarrow> team_row list \<Rightarrow> sqlx_error option" where
  "team_violation r rs =
     (if 255 < char_length (tm_name r) then Some value_too_long
      else if \<not> nonempty_text (tm_name r) then Some (check_failed ''teams'' ''teams_name_nonempty'')
      else if tm_version r \<le> 0 then Some (check_failed ''teams'' ''teams_version_pos'')
      else if \<exists>x\<in>set rs. tm_id x = tm_id r then Some (duplicate_key ''teams'' ''teams_pk'' ''id'' (tm_id r))
      else if \<exists>x\<in>set rs. tm_public_id x = tm_public_id r then Some (duplicate_key ''teams'' ''teams_public_id_uq'' ''public_id'' (tm_public_id r))
      else None)"

abbreviation on_teams :: "(team_row list \<Rightarrow> (sqlx_error + 'a) \<times> team_row list) \<Rightarrow> (db \<Rightarrow> 'a \<Rightarrow> 'b) \<Rightarrow> db \<Rightarrow> (sqlx_error + 'b) \<times> db" where
  "on_teams \<equiv> on_table (\<lambda>d. teams (identity d)) (\<lambda>rs. update_identity (teams_update (\<lambda>_. rs)))"

definition create_team_row :: "idgen \<Rightarrow> create_team_request \<Rightarrow> uuid \<Rightarrow> uuid \<Rightarrow> request_context \<Rightarrow> (app_error + team_row) io" where
  "create_team_row G req tenant_id organization_id ctx = do {
     n \<leftarrow> fresh;
     nano \<leftarrow> nano_id_new G;
     map_sqlx (statement (\<lambda>t. on_teams (checked_insert team_violation \<lparr>tm_id = uuid_of G n, tm_public_id = ''tea_'' @ nano, tm_name = cm_name req, tm_tenant_id = tenant_id,
       tm_org_id = organization_id, tm_description = cm_description req, tm_tags = coalesce (cm_tags req) [], tm_metadata = coalesce (cm_metadata req) [],
       tm_settings = coalesce (cm_settings req) [], tm_created_by = rc_created_by ctx, tm_updated_by = rc_created_by ctx, tm_request_id = rc_request_id ctx, tm_version = 1,
       tm_created_at = t, tm_updated_at = t, tm_deleted_at = None\<rparr>) (\<lambda>_. id))) }"

definition live_team :: "string \<Rightarrow> team_row \<Rightarrow> bool" where
  "live_team public_id m \<longleftrightarrow> tm_public_id m = public_id \<and> tm_deleted_at m = None"

definition get_team_row :: "string \<Rightarrow> (app_error + team_row option) io" where
  "get_team_row public_id = map_sqlx (query (\<lambda>_ d. find (live_team public_id) (teams (identity d))))"

definition touch_team :: "request_context \<Rightarrow> time \<Rightarrow> team_row \<Rightarrow> team_row" where
  "touch_team ctx t m = m\<lparr>tm_updated_by := rc_created_by ctx, tm_request_id := rc_request_id ctx, tm_version := tm_version m + 1, tm_updated_at := t\<rparr>"

definition update_team_rows :: "(team_row \<Rightarrow> bool) \<Rightarrow> (time \<Rightarrow> team_row \<Rightarrow> team_row) \<Rightarrow> request_context \<Rightarrow> (app_error + team_row option) io" where
  "update_team_rows hit f ctx = map_sqlx (statement (\<lambda>t. on_teams (checked_update team_violation hit (\<lambda>m. touch_team ctx t (f t m))) (\<lambda>_. id)))"

definition update_team_row :: "string \<Rightarrow> update_team_request \<Rightarrow> request_context \<Rightarrow> (app_error + team_row option) io" where
  "update_team_row public_id req ctx = update_team_rows (live_team public_id) (\<lambda>_ m. m\<lparr>tm_name := coalesce (um_name req) (tm_name m),
     tm_description := (case um_description req of None \<Rightarrow> tm_description m | Some s \<Rightarrow> Some s), tm_tags := coalesce (um_tags req) (tm_tags m),
     tm_metadata := coalesce (um_metadata req) (tm_metadata m), tm_settings := coalesce (um_settings req) (tm_settings m)\<rparr>) ctx"

definition delete_team_row :: "string \<Rightarrow> request_context \<Rightarrow> (app_error + bool) io" where
  "delete_team_row public_id ctx = try_bind (update_team_rows (live_team public_id) (\<lambda>t. tm_deleted_at_update (\<lambda>_. Some t)) ctx) (\<lambda>r. State_Monad.return (Inr (r \<noteq> None)))"

definition restore_team_row :: "string \<Rightarrow> request_context \<Rightarrow> (app_error + team_row option) io" where
  "restore_team_row public_id ctx = update_team_rows (\<lambda>m. tm_public_id m = public_id) (\<lambda>_. tm_deleted_at_update (\<lambda>_. None)) ctx"

definition list_team_rows :: "nat \<Rightarrow> uuid option \<Rightarrow> uuid option \<Rightarrow> uuid option \<Rightarrow> (app_error + team_row list \<times> uuid option) io" where
  "list_team_rows limit cursor organization_id tenant_id = map_sqlx (query (\<lambda>_ d. cut_page tm_id limit (sort_key tm_id (filter (\<lambda>m. tm_deleted_at m = None \<and>
     (case cursor of None \<Rightarrow> True | Some c \<Rightarrow> c < tm_id m) \<and> (case organization_id of None \<Rightarrow> True | Some g \<Rightarrow> tm_org_id m = g) \<and>
     (case tenant_id of None \<Rightarrow> True | Some n \<Rightarrow> tm_tenant_id m = n)) (teams (identity d))))))"

text \<open>\<open>INSERT ... ON CONFLICT (team_id, user_id) DO UPDATE\<close>: the membership of a pair is one row, revived when it was removed.\<close>

definition membership :: "uuid \<Rightarrow> uuid \<Rightarrow> team_member_row \<Rightarrow> bool" where
  "membership team_id user_id m \<longleftrightarrow> tk_team_id m = team_id \<and> tk_user_id m = user_id"

definition touch_team_member :: "request_context \<Rightarrow> time \<Rightarrow> team_member_row \<Rightarrow> team_member_row" where
  "touch_team_member ctx t m = m\<lparr>tk_updated_by := rc_created_by ctx, tk_request_id := rc_request_id ctx, tk_version := tk_version m + 1, tk_updated_at := t\<rparr>"

definition team_member_violation :: "team_member_row \<Rightarrow> team_member_row list \<Rightarrow> sqlx_error option" where
  "team_member_violation r rs =
     (if tk_version r \<le> 0 then Some (check_failed ''team_members'' ''team_members_version_pos'')
      else if \<exists>x\<in>set rs. tk_id x = tk_id r then Some (duplicate_key ''team_members'' ''team_members_pk'' ''id'' (tk_id r))
      else if \<exists>x\<in>set rs. tk_public_id x = tk_public_id r then Some (duplicate_key ''team_members'' ''team_members_public_id_uq'' ''public_id'' (tk_public_id r))
      else if \<exists>x\<in>set rs. tk_team_id x = tk_team_id r \<and> tk_user_id x = tk_user_id r
        then Some (duplicate_key ''team_members'' ''team_members_team_user_uq'' ''team_id, user_id'' (tk_team_id r @ '', '' @ tk_user_id r))
      else None)"

definition upsert_member :: "request_context \<Rightarrow> time \<Rightarrow> team_member_row \<Rightarrow> team_member_row list \<Rightarrow> (sqlx_error + team_member_row) \<times> team_member_row list" where
  "upsert_member ctx t r rs = (if \<exists>x\<in>set rs. membership (tk_team_id r) (tk_user_id r) x
     then (case checked_update team_member_violation (membership (tk_team_id r) (tk_user_id r)) (\<lambda>m. touch_team_member ctx t (m\<lparr>tk_deleted_at := None\<rparr>)) rs of
         (Inl e, rs') \<Rightarrow> (Inl e, rs') | (Inr x, rs') \<Rightarrow> (Inr (coalesce x r), rs'))
     else checked_insert team_member_violation r rs)"

abbreviation on_team_members :: "(team_member_row list \<Rightarrow> (sqlx_error + 'a) \<times> team_member_row list) \<Rightarrow> (db \<Rightarrow> 'a \<Rightarrow> 'b) \<Rightarrow> db \<Rightarrow> (sqlx_error + 'b) \<times> db" where
  "on_team_members \<equiv> on_table (\<lambda>d. team_members (identity d)) (\<lambda>rs. update_identity (team_members_update (\<lambda>_. rs)))"

definition insert_team_member :: "request_context \<Rightarrow> time \<Rightarrow> team_member_row \<Rightarrow> db \<Rightarrow> (sqlx_error + team_member_row) \<times> db" where
  "insert_team_member ctx t r d = (case on_team_members (upsert_member ctx t r) (\<lambda>_. id) d of
       (Inr m, d') \<Rightarrow> if \<exists>x\<in>set (teams (identity d)). tm_id x = tk_team_id r then (Inr m, d')
         else (Inl (missing_reference ''team_members'' ''team_members_team_id_fkey''), d)
     | (Inl e, d') \<Rightarrow> (Inl e, d'))"

definition new_team_member :: "idgen \<Rightarrow> nat \<Rightarrow> string \<Rightarrow> team_row \<Rightarrow> uuid \<Rightarrow> request_context \<Rightarrow> time \<Rightarrow> team_member_row" where
  "new_team_member G n nano team user_id ctx t = \<lparr>tk_id = uuid_of G n, tk_public_id = ''mem_'' @ nano, tk_tenant_id = tm_tenant_id team, tk_org_id = tm_org_id team,
     tk_team_id = tm_id team, tk_user_id = user_id, tk_created_by = rc_created_by ctx, tk_updated_by = rc_created_by ctx, tk_request_id = rc_request_id ctx, tk_version = 1,
     tk_created_at = t, tk_updated_at = t, tk_deleted_at = None\<rparr>"

text \<open>One statement per user; an error ends the loop and keeps the members added before.\<close>

fun add_member_rows :: "idgen \<Rightarrow> team_row \<Rightarrow> request_context \<Rightarrow> uuid list \<Rightarrow> (app_error + team_member_row list) io" where
  "add_member_rows G team ctx [] = State_Monad.return (Inr [])"
| "add_member_rows G team ctx (user_id # user_ids) = do {
     n \<leftarrow> fresh;
     nano \<leftarrow> nano_id_new G;
     try_bind (map_sqlx (statement (\<lambda>t. insert_team_member ctx t (new_team_member G n nano team user_id ctx t)))) (\<lambda>member.
     try_bind (add_member_rows G team ctx user_ids) (\<lambda>members. State_Monad.return (Inr (member # members)))) }"

definition remove_member_row :: "uuid \<Rightarrow> string \<Rightarrow> request_context \<Rightarrow> (app_error + bool) io" where
  "remove_member_row team_id member_public_id ctx = map_sqlx (statement (\<lambda>t. on_team_members (checked_update team_member_violation
     (\<lambda>m. tk_public_id m = member_public_id \<and> tk_team_id m = team_id \<and> tk_deleted_at m = None) (\<lambda>m. touch_team_member ctx t (m\<lparr>tk_deleted_at := Some t\<rparr>))) (\<lambda>_ r. r \<noteq> None)))"

definition team_missing :: "string \<Rightarrow> string" where
  "team_missing public_id = ''Team not found: '' @ public_id"

definition team_answer :: "(app_error + team_row) io \<Rightarrow> (app_error + team_response) io" where
  "team_answer m = try_bind m (\<lambda>row. State_Monad.return (Inr (team_response_of row)))"

definition create_team :: "idgen \<Rightarrow> create_team_request \<Rightarrow> request_context \<Rightarrow> (app_error + team_response) io" where
  "create_team G req ctx = checked (validate_team req) (checked (check_tags (cm_tags req))
     (try_bind (or_not_found (resolve_tenant (cm_tenant_id req)) (''Tenant not found: '' @ cm_tenant_id req)) (\<lambda>tenant_id.
      try_bind (or_not_found (resolve_organization (cm_organization_id req)) (''Organization not found: '' @ cm_organization_id req)) (\<lambda>organization_id.
        team_answer (create_team_row G req tenant_id organization_id ctx)))))"

definition get_team :: "string \<Rightarrow> (app_error + team_response) io" where
  "get_team public_id = team_answer (or_not_found (get_team_row public_id) (team_missing public_id))"

definition update_team :: "string \<Rightarrow> update_team_request \<Rightarrow> request_context \<Rightarrow> (app_error + team_response) io" where
  "update_team public_id req ctx = checked (validate_update_team req) (checked (check_tags (um_tags req))
     (team_answer (or_not_found (update_team_row public_id req ctx) (team_missing public_id))))"

definition delete_team :: "string \<Rightarrow> request_context \<Rightarrow> (app_error + unit) io" where
  "delete_team public_id ctx = deleted_or (delete_team_row public_id ctx) (team_missing public_id)"

definition restore_team :: "string \<Rightarrow> request_context \<Rightarrow> (app_error + team_response) io" where
  "restore_team public_id ctx = team_answer (or_not_found (restore_team_row public_id ctx) (team_missing public_id))"

definition list_teams :: "tenancy_ext \<Rightarrow> int option \<Rightarrow> string option \<Rightarrow> string option \<Rightarrow> string option \<Rightarrow> (app_error + team_response list \<times> string option \<times> nat) io" where
  "list_teams X limit cursor organization tenant = with_cursor X cursor (\<lambda>c.
     try_bind (resolve_given resolve_organization ''Organization'' organization) (\<lambda>organization_id.
     try_bind (resolve_given resolve_tenant ''Tenant'' tenant) (\<lambda>tenant_id.
     try_bind (list_team_rows (page_limit limit) c organization_id tenant_id) (\<lambda>(rows, next_id).
       State_Monad.return (Inr (map team_response_of rows, map_option (encode_id_cursor X) next_id, page_limit limit))))))"

definition add_members :: "idgen \<Rightarrow> string \<Rightarrow> string list \<Rightarrow> request_context \<Rightarrow> (app_error + team_member_response list) io" where
  "add_members G team_public_id user_ids ctx = checked (validate_user_ids user_ids)
     (try_bind (or_not_found (get_team_row team_public_id) (team_missing team_public_id)) (\<lambda>team.
      try_bind (resolve_users user_ids) (\<lambda>ids.
      try_bind (add_member_rows G team ctx ids) (\<lambda>members. State_Monad.return (Inr (map team_member_response_of members))))))"

definition remove_member :: "string \<Rightarrow> string \<Rightarrow> request_context \<Rightarrow> (app_error + unit) io" where
  "remove_member team_public_id member_public_id ctx = try_bind (or_not_found (get_team_row team_public_id) (team_missing team_public_id)) (\<lambda>team.
     deleted_or (remove_member_row (tm_id team) member_public_id ctx) (''Team member not found: '' @ member_public_id))"

definition create_team_handler :: "idgen \<Rightarrow> request_context \<Rightarrow> create_team_request \<Rightarrow> (app_error + int \<times> team_response) io" where
  "create_team_handler G ctx payload = with_status 201 id (create_team G payload ctx)"

definition get_team_handler :: "string \<Rightarrow> (app_error + int \<times> team_response) io" where
  "get_team_handler public_id = checked (validate_id_prefix public_id ''tea_'' ''team'') (with_status 200 id (get_team public_id))"

definition delete_team_handler :: "request_context \<Rightarrow> string \<Rightarrow> (app_error + int \<times> unit) io" where
  "delete_team_handler ctx public_id = with_status 204 id (delete_team public_id ctx)"

definition remove_member_handler :: "request_context \<Rightarrow> string \<Rightarrow> string \<Rightarrow> (app_error + int \<times> unit) io" where
  "remove_member_handler ctx team_public_id member_public_id = with_status 204 id (remove_member team_public_id member_public_id ctx)"

end
