(* ===== verification/Tenancy_State.thy ===== *)
theory Tenancy_State
  imports Applications Access_State Users
begin

text \<open>
  The tables of organizations, tenants, environments, applications, users and teams keep their constraints, whatever
  calls are served. One locale says what a table needs for that; each of the seven tables is an interpretation.
\<close>

section \<open>Tables with constraints\<close>

text \<open>Every row is sound by itself and no two rows clash.\<close>

definition table_ok :: "('r \<Rightarrow> bool) \<Rightarrow> ('r \<Rightarrow> 'r \<Rightarrow> bool) \<Rightarrow> 'r list \<Rightarrow> bool" where
  "table_ok sound clash rs \<longleftrightarrow> (\<forall>r\<in>set rs. sound r) \<and> sorted_wrt (\<lambda>x y. \<not> clash x y) rs"

text \<open>What the database refuses is an unsound row or a clash; equal public ids clash. The life of a row is a
  condition the statements keep by themselves.\<close>

locale constrained_table =
  fixes violation :: "'r \<Rightarrow> 'r list \<Rightarrow> sqlx_error option" and sound :: "'r \<Rightarrow> bool" and clash :: "'r \<Rightarrow> 'r \<Rightarrow> bool" and public :: "'r \<Rightarrow> string"
    and life :: "'r \<Rightarrow> bool"
  assumes violation_None: "violation r rs = None \<Longrightarrow> sound r \<and> (\<forall>x\<in>set rs. \<not> clash x r)"
    and clash_sym: "clash x y \<Longrightarrow> clash y x"
    and clash_public: "public x = public y \<Longrightarrow> clash x y"
begin

abbreviation rows_ok :: "'r list \<Rightarrow> bool" where
  "rows_ok \<equiv> table_ok (\<lambda>r. sound r \<and> life r) clash"

lemma insert_rows_ok: "rows_ok rs \<Longrightarrow> life r \<Longrightarrow> checked_insert violation r rs = (Inr a, rs') \<Longrightarrow> rows_ok rs'"
  using violation_None by (auto simp: checked_insert_def table_ok_def sorted_wrt_append split: option.splits)

lemma clash_same:
  assumes "sorted_wrt (\<lambda>x y. \<not> clash x y) rs" "x \<in> set rs" "y \<in> set rs" "clash x y"
  shows "x = y"
  using assms(1-3) by (induction rs) (use assms(4) clash_sym in auto)

text \<open>A public id names one row.\<close>

lemma same_row: "sorted_wrt (\<lambda>x y. \<not> clash x y) rs \<Longrightarrow> x \<in> set rs \<Longrightarrow> y \<in> set rs \<Longrightarrow> public x = public y \<Longrightarrow> x = y"
  by (rule clash_same [OF _ _ _ clash_public])

text \<open>A condition that clashing rows share selects at most one row.\<close>

lemma update_no_clash:
  assumes "sorted_wrt (\<lambda>x y. \<not> clash x y) rs" "\<And>x y. hit x \<Longrightarrow> hit y \<Longrightarrow> clash x y" "\<And>x. x \<in> set rs \<Longrightarrow> \<not> hit x \<Longrightarrow> \<not> clash x (f r)" "hit r" "r \<in> set rs"
  shows "sorted_wrt (\<lambda>x y. \<not> clash x y) (update_where hit f rs)"
  using assms(1,3,5)
proof (induction rs)
  case (Cons y ys)
  have rest: "\<forall>z\<in>set ys. \<not> clash y z" "sorted_wrt (\<lambda>x y. \<not> clash x y) ys" using Cons.prems(1) by auto
  have one: "z = r" if "z \<in> set (y # ys)" "hit z" for z
    using clash_same [OF Cons.prems(1) that(1) Cons.prems(3)] assms(2) [OF that(2) assms(4)] by blast
  show ?case
  proof (cases "hit y")
    case True
    have "\<not> hit z" if "z \<in> set ys" for z using rest(1) assms(2) [OF True] that by auto
    then show ?thesis using one [of y] True rest(2) Cons.prems(2) clash_sym by (auto simp: update_where_none)
  next
    case False
    then have r: "r \<in> set ys" using Cons.prems(3) assms(4) by auto
    have "\<not> clash y z" if "z \<in> set (update_where hit f ys)" for z
      using that rest(1) Cons.prems(2) [of y] False one by (auto simp: set_update_where)
    then show ?thesis using False Cons.IH [OF rest(2) _ r] Cons.prems(2) by simp
  qed
qed simp

lemma update_one_ok:
  assumes "rows_ok rs" "checked_update violation hit f rs = (Inr a, rs')" "\<And>x y. hit x \<Longrightarrow> hit y \<Longrightarrow> clash x y" "\<And>x. hit x \<Longrightarrow> life x \<Longrightarrow> life (f x)"
  shows "rows_ok rs'"
proof (cases "find hit rs")
  case None
  with assms show ?thesis by (simp add: checked_update_def)
next
  case (Some r)
  then have r: "r \<in> set rs" "hit r" by (auto dest: find_SomeD)
  from Some assms(2) have v: "violation (f r) (filter (\<lambda>x. \<not> hit x) rs) = None" and rs': "rs' = update_where hit f rs"
    by (auto simp: checked_update_def split: option.splits)
  have one: "x = r" if "x \<in> set rs" "hit x" for x
    using clash_same [OF _ that(1) r(1)] assms(1) assms(3) [OF that(2) r(2)] unfolding table_ok_def by blast
  have "sorted_wrt (\<lambda>x y. \<not> clash x y) rs'"
    unfolding rs' using assms(1,3) r violation_None [OF v] by (intro update_no_clash) (auto simp: table_ok_def)
  then show ?thesis
    using assms(1,4) violation_None [OF v] r by (auto simp: table_ok_def rs' set_update_where dest: one)
qed

lemma update_rows_ok:
  assumes "rows_ok rs" "checked_update violation hit f rs = (Inr a, rs')" "\<And>x. hit x \<Longrightarrow> public x = p" "\<And>x. hit x \<Longrightarrow> life x \<Longrightarrow> life (f x)"
  shows "rows_ok rs'"
  using assms by (intro update_one_ok [OF assms(1,2) clash_public]) simp_all

end

section \<open>The tables\<close>

text \<open>Soft deletion goes with a status of its own.\<close>

definition org_life :: "org_row \<Rightarrow> bool" where
  "org_life g \<longleftrightarrow> og_status g \<in> {''active'', ''suspended'', ''inactive''} \<and> (og_deleted_at g \<noteq> None \<longleftrightarrow> og_status g = ''inactive'')"

definition tenant_life :: "tenant_row \<Rightarrow> bool" where
  "tenant_life n \<longleftrightarrow> tn_status n \<in> {''active'', ''suspended'', ''inactive''} \<and> (tn_deleted_at n \<noteq> None \<longleftrightarrow> tn_status n = ''inactive'')"

definition application_life :: "application_row \<Rightarrow> bool" where
  "application_life a \<longleftrightarrow> (ap_deleted_at a \<noteq> None \<longleftrightarrow> ap_state a = AppInactive)"

definition org_sound :: "org_row \<Rightarrow> bool" where
  "org_sound g \<longleftrightarrow> nonempty_text (og_name g) \<and> slug_format (og_slug g)"

definition org_clash :: "org_row \<Rightarrow> org_row \<Rightarrow> bool" where
  "org_clash x y \<longleftrightarrow> og_id x = og_id y \<or> og_public_id x = og_public_id y \<or> og_slug x = og_slug y"

definition tenant_sound :: "tenant_row \<Rightarrow> bool" where
  "tenant_sound n \<longleftrightarrow> nonempty_text (tn_name n) \<and> char_length (tn_name n) \<le> 255"

definition tenant_clash :: "tenant_row \<Rightarrow> tenant_row \<Rightarrow> bool" where
  "tenant_clash x y \<longleftrightarrow> tn_id x = tn_id y \<or> tn_public_id x = tn_public_id y \<or>
     tn_deleted_at x = None \<and> tn_deleted_at y = None \<and> tn_org_id x = tn_org_id y \<and> tn_name x = tn_name y"

definition environment_sound :: "environment_row \<Rightarrow> bool" where
  "environment_sound e \<longleftrightarrow> environment_name (en_name e) \<and> (case en_description e of None \<Rightarrow> True | Some s \<Rightarrow> char_length s \<le> 521)"

definition environment_clash :: "environment_row \<Rightarrow> environment_row \<Rightarrow> bool" where
  "environment_clash x y \<longleftrightarrow> en_id x = en_id y \<or> en_public_id x = en_public_id y \<or> en_tenant_id x = en_tenant_id y \<and> en_name x = en_name y"

definition application_sound :: "application_row \<Rightarrow> bool" where
  "application_sound a \<longleftrightarrow> char_length (ap_name a) \<le> 64 \<and> char_length (ap_description a) \<le> 255"

definition application_clash :: "application_row \<Rightarrow> application_row \<Rightarrow> bool" where
  "application_clash x y \<longleftrightarrow> ap_id x = ap_id y \<or> ap_public_id x = ap_public_id y \<or> ap_tenant_id x = ap_tenant_id y \<and> ap_name x = ap_name y"

text \<open>A locked user has a time to be locked until; deletion leaves it.\<close>

definition user_life :: "user_row \<Rightarrow> bool" where
  "user_life u \<longleftrightarrow> (us_deleted_at u \<noteq> None \<longleftrightarrow> us_status u = UserInactive) \<and> (us_status u = UserLocked \<longrightarrow> us_locked_until u \<noteq> None)"

definition user_sound :: "user_row \<Rightarrow> bool" where
  "user_sound u \<longleftrightarrow> char_length (us_email u) \<le> 64 \<and> email_format (us_email u) \<and> 0 < us_version u"

definition user_clash :: "user_row \<Rightarrow> user_row \<Rightarrow> bool" where
  "user_clash x y \<longleftrightarrow> us_id x = us_id y \<or> us_public_id x = us_public_id y \<or> us_org_id x = us_org_id y \<and> us_email x = us_email y"

definition team_sound :: "team_row \<Rightarrow> bool" where
  "team_sound m \<longleftrightarrow> nonempty_text (tm_name m) \<and> char_length (tm_name m) \<le> 255"

definition team_clash :: "team_row \<Rightarrow> team_row \<Rightarrow> bool" where
  "team_clash x y \<longleftrightarrow> tm_id x = tm_id y \<or> tm_public_id x = tm_public_id y"

definition member_clash :: "team_member_row \<Rightarrow> team_member_row \<Rightarrow> bool" where
  "member_clash x y \<longleftrightarrow> tk_id x = tk_id y \<or> tk_public_id x = tk_public_id y \<or> tk_team_id x = tk_team_id y \<and> tk_user_id x = tk_user_id y"

interpretation usrs: constrained_table user_violation user_sound user_clash us_public_id user_life
  by unfold_locales (auto simp: user_violation_def user_sound_def user_clash_def split: if_splits)

interpretation tms: constrained_table team_violation team_sound team_clash tm_public_id "\<lambda>_. True"
  by unfold_locales (auto simp: team_violation_def team_sound_def team_clash_def split: if_splits)

interpretation mems: constrained_table team_member_violation "\<lambda>m. 0 < tk_version m" member_clash tk_public_id "\<lambda>_. True"
  by unfold_locales (auto simp: team_member_violation_def member_clash_def split: if_splits)

interpretation orgs: constrained_table org_violation org_sound org_clash og_public_id org_life
  by unfold_locales (auto simp: org_violation_def org_sound_def org_clash_def split: if_splits)

interpretation tens: constrained_table tenant_violation tenant_sound tenant_clash tn_public_id tenant_life
  by unfold_locales (auto simp: tenant_violation_def tenant_sound_def tenant_clash_def split: if_splits)

interpretation envs: constrained_table environment_violation environment_sound environment_clash en_public_id "\<lambda>_. True"
  by unfold_locales (auto simp: environment_violation_def environment_sound_def environment_clash_def split: if_splits option.splits)

interpretation apps: constrained_table application_violation application_sound application_clash ap_public_id application_life
  by unfold_locales (auto simp: application_violation_def application_sound_def application_clash_def split: if_splits)

definition tenancy_ok :: "db \<Rightarrow> bool" where
  "tenancy_ok d \<longleftrightarrow> table_ok (\<lambda>g. org_sound g \<and> org_life g) org_clash (organizations d) \<and>
     table_ok (\<lambda>n. tenant_sound n \<and> tenant_life n) tenant_clash (tenants (identity d)) \<and>
     table_ok (\<lambda>e. environment_sound e \<and> True) environment_clash (environments (identity d)) \<and>
     table_ok (\<lambda>a. application_sound a \<and> application_life a) application_clash (applications d) \<and>
     table_ok (\<lambda>u. user_sound u \<and> user_life u) user_clash (users (identity d)) \<and>
     table_ok (\<lambda>m. team_sound m \<and> True) team_clash (teams (identity d)) \<and>
     table_ok (\<lambda>m. 0 < tk_version m \<and> True) member_clash (team_members (identity d))"

lemma tenancy_ok_access [simp]: "tenancy_ok (update_access f d) \<longleftrightarrow> tenancy_ok d"
  by (simp add: tenancy_ok_def update_access_def update_identity_def)

lemma on_table_Inr:
  assumes "on_table sel upd q view d = (Inr b, d')"
  obtains a rs where "q (sel d) = (Inr a, rs)" "d' = upd rs d"
  using assms by (auto simp: on_table_def split: prod.splits sum.splits)

abbreviation tenancy :: "world \<Rightarrow> bool" where
  "tenancy \<equiv> any_db tenancy_ok"

lemma stable_tenancy: "stable tenancy"
  by (simp add: tables_only_stable)

lemma keeps_on_table_at:
  assumes "\<And>t d a rs. tenancy_ok d \<Longrightarrow> q t (sel d) = (Inr a, rs) \<Longrightarrow> tenancy_ok (upd rs d)"
  shows "keeps tenancy (statement (\<lambda>t d. on_table sel upd (q t) (view t d) d))"
  by (rule keeps_statement [OF stable_tenancy]) (auto simp: any_db_def dest: assms elim!: on_table_Inr)

lemma keeps_on_table:
  assumes "\<And>t d a rs. tenancy_ok d \<Longrightarrow> q t (sel d) = (Inr a, rs) \<Longrightarrow> tenancy_ok (upd rs d)"
  shows "keeps tenancy (statement (\<lambda>t. on_table sel upd (q t) view))"
  by (rule keeps_on_table_at [OF assms])

section \<open>The operations\<close>

lemma keeps_update_org:
  assumes "\<And>g. hit g \<Longrightarrow> og_public_id g = p" "\<And>t g. hit g \<Longrightarrow> org_life g \<Longrightarrow> org_life (f t g)"
  shows "keeps tenancy (statement (\<lambda>t. on_orgs (checked_update org_violation hit (f t)) view))"
  by (rule keeps_on_table) (auto simp: tenancy_ok_def intro: orgs.update_rows_ok [OF _ _ assms])

lemma keeps_update_tenant:
  assumes "\<And>n. hit n \<Longrightarrow> tn_public_id n = p" "\<And>t n. hit n \<Longrightarrow> tenant_life n \<Longrightarrow> tenant_life (f t n)"
  shows "keeps tenancy (statement (\<lambda>t. on_tenants (checked_update tenant_violation hit (f t)) view))"
  by (rule keeps_on_table) (auto simp: tenancy_ok_def update_identity_def intro: tens.update_rows_ok [OF _ _ assms])

lemma keeps_update_environment:
  assumes "\<And>e. hit e \<Longrightarrow> en_public_id e = p"
  shows "keeps tenancy (statement (\<lambda>t. on_environments (checked_update environment_violation hit (f t)) view))"
  by (rule keeps_on_table) (auto simp: tenancy_ok_def update_identity_def intro: envs.update_rows_ok [OF _ _ assms, unfolded simp_thms])

lemma keeps_update_application:
  assumes "\<And>a. hit a \<Longrightarrow> ap_public_id a = p" "\<And>t a. hit a \<Longrightarrow> application_life a \<Longrightarrow> application_life (f t a)"
  shows "keeps tenancy (statement (\<lambda>t. on_applications (checked_update application_violation hit (f t)) view))"
  by (rule keeps_on_table) (auto simp: tenancy_ok_def intro: apps.update_rows_ok [OF _ _ assms])

lemma keeps_update_user:
  assumes "\<And>u. hit u \<Longrightarrow> us_public_id u = p" "\<And>t u. hit u \<Longrightarrow> user_life u \<Longrightarrow> user_life (f t u)"
  shows "keeps tenancy (statement (\<lambda>t d. on_users (checked_update user_violation hit (f t)) (view t) d))"
  by (rule keeps_on_table_at) (auto simp: tenancy_ok_def update_identity_def intro: usrs.update_rows_ok [OF _ _ assms])

lemma keeps_update_team:
  assumes "\<And>m. hit m \<Longrightarrow> tm_public_id m = p"
  shows "keeps tenancy (statement (\<lambda>t. on_teams (checked_update team_violation hit (f t)) view))"
  by (rule keeps_on_table) (auto simp: tenancy_ok_def update_identity_def intro: tms.update_rows_ok [OF _ _ assms, unfolded simp_thms])

lemma keeps_update_member:
  assumes "\<And>m. hit m \<Longrightarrow> tk_public_id m = p"
  shows "keeps tenancy (statement (\<lambda>t. on_team_members (checked_update team_member_violation hit (f t)) view))"
  by (rule keeps_on_table) (auto simp: tenancy_ok_def update_identity_def intro: mems.update_rows_ok [OF _ _ assms, unfolded simp_thms])

lemma keeps_insert_user: "(\<And>t. user_life (r t)) \<Longrightarrow> keeps tenancy (statement (\<lambda>t d. on_users (checked_insert user_violation (r t)) (view t) d))"
  by (rule keeps_on_table_at) (auto simp: tenancy_ok_def update_identity_def intro: usrs.insert_rows_ok)

lemma keeps_insert_team: "keeps tenancy (statement (\<lambda>t. on_teams (checked_insert team_violation (r t)) view))"
  by (rule keeps_on_table) (auto simp: tenancy_ok_def update_identity_def intro: tms.insert_rows_ok [unfolded simp_thms])

lemma upsert_member_ok:
  assumes "table_ok (\<lambda>m. 0 < tk_version m) member_clash rs" "upsert_member ctx t r rs = (Inr a, rs')"
  shows "table_ok (\<lambda>m. 0 < tk_version m) member_clash rs'"
  using assms
  by (auto simp: upsert_member_def membership_def member_clash_def split: if_splits prod.splits sum.splits
      intro: mems.insert_rows_ok [unfolded simp_thms] mems.update_one_ok [unfolded simp_thms])

lemma keeps_insert_member: "keeps tenancy (map_sqlx (statement (\<lambda>t. insert_team_member ctx t (r t))))"
  by (intro keeps_map_sqlx keeps_statement [OF stable_tenancy])
    (auto simp: any_db_def insert_team_member_def tenancy_ok_def update_identity_def elim!: on_table_Inr intro: upsert_member_ok split: prod.splits sum.splits if_splits)

lemma keeps_insert_org: "(\<And>t. org_life (r t)) \<Longrightarrow> keeps tenancy (statement (\<lambda>t. on_orgs (checked_insert org_violation (r t)) view))"
  by (rule keeps_on_table) (auto simp: tenancy_ok_def intro: orgs.insert_rows_ok)

lemma keeps_insert_tenant: "(\<And>t. tenant_life (r t)) \<Longrightarrow> keeps tenancy (statement (\<lambda>t. on_tenants (checked_insert tenant_violation (r t)) view))"
  by (rule keeps_on_table) (auto simp: tenancy_ok_def update_identity_def intro: tens.insert_rows_ok)

lemma keeps_insert_environment: "keeps tenancy (statement (\<lambda>t. on_environments (checked_insert environment_violation (r t)) view))"
  by (rule keeps_on_table) (auto simp: tenancy_ok_def update_identity_def intro: envs.insert_rows_ok [unfolded simp_thms])

lemma keeps_insert_application:
  assumes "\<And>t. application_life (r t)"
  shows "keeps tenancy (statement (\<lambda>t. insert_application (r t)))"
  by (rule keeps_statement [OF stable_tenancy])
    (auto simp: any_db_def insert_application_def tenancy_ok_def elim!: on_table_Inr intro: apps.insert_rows_ok [OF _ assms] split: if_splits option.splits)

lemma keeps_organizations:
  "keeps tenancy (create_organization X G req ctx)" "keeps tenancy (update_organization X p ureq ctx)" "keeps tenancy (delete_organization p ctx)"
  "keeps tenancy (suspend_organization p c ctx)" "keeps tenancy (restore_organization p ctx)"
  unfolding create_organization_def create_org_row_def update_organization_def update_org_row_def delete_organization_def deleted_or_def delete_org_row_def
    suspend_organization_def suspend_org_row_def restore_organization_def restore_org_row_def update_org_def
  by (intro keeps_checked keeps_or_not_found keeps_try_bind keeps_return keeps_bind keeps_fresh keeps_nano_id_new stable_tenancy keeps_map_sqlx keeps_insert_org
      keeps_update_org [where p = p]; force simp: org_life_def touch_org_def live_org_def)+

text \<open>Seeding the roles of a tenant leaves alone what does not depend on the access tables.\<close>

definition access_free :: "(world \<Rightarrow> bool) \<Rightarrow> bool" where
  "access_free P \<longleftrightarrow> stable P \<and> (\<forall>f w. P w \<longrightarrow> P (w\<lparr>w_db := update_access f (w_db w)\<rparr>))"

lemma keeps_assign_links: "access_free P \<Longrightarrow> keeps P (assign_links get upd mk ids acc)"
proof (induction ids arbitrary: acc)
  case Nil
  show ?case by (cases acc) (auto intro: keeps_intros)
next
  case (Cons x ids)
  then show ?case
    by (cases x; cases acc) (simp, (rule keeps_intros | force simp: access_free_def insert_link_def split: if_splits)+)
qed

lemma keeps_create_role: "access_free P \<Longrightarrow> keeps P (create_role_row G i n d s ctx)"
  unfolding create_role_row_def
  by (intro keeps_intros) (auto simp: access_free_def insert_role_def Let_def split: if_splits)

lemma keeps_seeding: "access_free P \<Longrightarrow> keeps P (seed_roles G i perms ctx defs)"
  by (induction defs rule: seed_roles.induct [of _ G i perms ctx])
    (auto simp: assign_permission_rows_def intro!: keeps_intros keeps_create_role keeps_assign_links)

lemma keeps_listing_and_seeding: "access_free P \<Longrightarrow> keeps P list_system" "access_free P \<Longrightarrow> keeps P (seed_default_roles G i perms ctx)"
  unfolding list_system_def seed_default_roles_def
  by (intro keeps_map_sqlx keeps_query, simp add: access_free_def) (rule keeps_seeding)

lemma access_free_tenancy: "access_free tenancy"
  by (simp add: access_free_def stable_tenancy) (simp add: any_db_def)

lemma keeps_tenants:
  "keeps tenancy (create_tenant G req ctx)" "keeps tenancy (update_tenant p ureq ctx)" "keeps tenancy (delete_tenant p ctx)"
  "keeps tenancy (suspend_tenant p c ctx)" "keeps tenancy (reactivate_tenant p c ctx)"
  unfolding create_tenant_def create_tenant_row_def case_prod_beta update_tenant_def update_tenant_row_def delete_tenant_def
    deleted_or_def delete_tenant_row_def suspend_tenant_def suspend_tenant_row_def reactivate_tenant_def reactivate_tenant_row_def update_tenant_rows_def
  by (intro keeps_checked keeps_or_not_found keeps_try_bind keeps_return keeps_bind keeps_fresh keeps_nano_id_new stable_tenancy keeps_map_sqlx keeps_fetch_one
      keeps_listing_and_seeding [OF access_free_tenancy] keeps_insert_tenant keeps_update_tenant [where p = p]; force simp: tenant_life_def touch_tenant_def live_tenant_def owned_tenant_def)+

lemma keeps_environments:
  "keeps tenancy (create_environment G req ctx)" "keeps tenancy (update_environment p tags ctx)" "keeps tenancy (set_environment_status p s ctx)"
  unfolding create_environment_def create_environment_row_def update_environment_def update_tags_def set_environment_status_def update_environment_rows_def
  by (intro keeps_checked keeps_or_not_found keeps_bind keeps_fresh keeps_nano_id_new stable_tenancy keeps_map_sqlx keeps_fetch_one
      keeps_insert_environment keeps_update_environment [where p = p]; simp)+

lemma keeps_applications:
  "keeps tenancy (create_application G req ctx)" "keeps tenancy (delete_application p ctx)" "keeps tenancy (restore_application p ctx)"
  unfolding create_application_def create_application_row_def resolve_environment_def delete_application_def delete_application_row_def
    restore_application_def restore_application_row_def
  by (intro keeps_checked keeps_or_not_found keeps_try_bind keeps_bind keeps_fresh keeps_now keeps_nano_id_new stable_tenancy keeps_map_sqlx keeps_fetch_one
      keeps_query keeps_insert_application keeps_update_application [where p = p]; simp add: application_life_def touch_application_def)+

lemma keeps_resolvers: "keeps tenancy (resolve_tenant p)" "keeps tenancy (resolve_organization p)" "keeps tenancy (resolve_users ps)" "keeps tenancy (get_team_row p)"
  unfolding resolve_tenant_def resolve_organization_def resolve_users_def get_team_row_def Let_def by (intro keeps_intros stable_tenancy)+

lemma keeps_users:
  "keeps tenancy (create_user X G req ctx)" "keeps tenancy (update_user p ureq ctx)" "keeps tenancy (delete_user p ctx)"
  "keeps tenancy (suspend_user p ctx)" "keeps tenancy (reactivate_user p ctx)" "keeps tenancy (lock_user p u ctx)" "keeps tenancy (unlock_user p ctx)"
  unfolding create_user_def create_user_row_def update_user_def update_user_row_def delete_user_def deleted_or_def delete_user_row_def suspend_user_def
    suspend_user_row_def reactivate_user_def reactivate_user_row_def lock_user_def lock_user_row_def unlock_user_def unlock_user_row_def update_user_rows_def
  by (intro keeps_checked keeps_or_not_found keeps_try_bind keeps_return keeps_bind keeps_fresh keeps_nano_id_new stable_tenancy keeps_map_sqlx keeps_fetch_one
      keeps_resolvers keeps_insert_user keeps_update_user [where p = p]; force simp: user_life_def touch_user_def live_user_def user_in_def)+

lemma keeps_update_team_rows: "(\<And>m. hit m \<Longrightarrow> tm_public_id m = p) \<Longrightarrow> keeps tenancy (update_team_rows hit f ctx)"
  unfolding update_team_rows_def by (intro keeps_map_sqlx keeps_update_team)

lemma keeps_add_member_rows: "keeps tenancy (add_member_rows G team ctx ids)"
  by (induction ids) (auto intro!: keeps_intros keeps_insert_member simp: tables_only_stable)

lemma keeps_teams:
  "keeps tenancy (create_team G req ctx)" "keeps tenancy (update_team p ureq ctx)" "keeps tenancy (delete_team p ctx)" "keeps tenancy (restore_team p ctx)"
  "keeps tenancy (add_members G p us ctx)" "keeps tenancy (remove_member p m ctx)"
  unfolding create_team_def create_team_row_def update_team_def update_team_row_def delete_team_def deleted_or_def delete_team_row_def restore_team_def
    restore_team_row_def add_members_def remove_member_def remove_member_row_def team_answer_def
  by (intro keeps_checked keeps_or_not_found keeps_try_bind keeps_return keeps_bind keeps_fresh keeps_nano_id_new stable_tenancy keeps_resolvers keeps_add_member_rows
      keeps_update_team_rows [where p = p] keeps_map_sqlx keeps_insert_team keeps_update_member [where p = m]; simp add: live_team_def)+

section \<open>Any sequence of calls\<close>

datatype tenancy_call =
    CreateOrganization create_organization_request
  | UpdateOrganization string update_organization_request
  | DeleteOrganization string
  | SuspendOrganization string
  | RestoreOrganization string
  | CreateTenant create_tenant_request
  | UpdateTenant string update_tenant_request
  | DeleteTenant string
  | SuspendTenant string
  | ReactivateTenant string
  | CreateEnvironment create_environment_request
  | UpdateEnvironment string "(string \<times> string) list option"
  | EnableEnvironment string
  | DisableEnvironment string
  | CreateApplication create_application_request
  | DeleteApplication string
  | RestoreApplication string
  | CreateUser create_user_request
  | UpdateUser string update_user_request
  | DeleteUser string
  | SuspendUser string
  | ReactivateUser string
  | LockUser string time
  | UnlockUser string
  | CreateTeam create_team_request
  | UpdateTeam string update_team_request
  | DeleteTeam string
  | RestoreTeam string
  | AddMembers string "string list"
  | RemoveMember string string
  | TenancyWait time

fun serve_tenancy :: "tenancy_ext \<Rightarrow> idgen \<Rightarrow> request_context \<Rightarrow> tenancy_call \<Rightarrow> unit io" where
  "serve_tenancy X G ctx (CreateOrganization req) = ignore (create_organization X G req ctx)"
| "serve_tenancy X G ctx (UpdateOrganization p req) = ignore (update_organization X p req ctx)"
| "serve_tenancy X G ctx (DeleteOrganization p) = ignore (delete_organization_handler ctx p)"
| "serve_tenancy X G ctx (SuspendOrganization p) = ignore (suspend_organization_handler ctx p)"
| "serve_tenancy X G ctx (RestoreOrganization p) = ignore (restore_organization p ctx)"
| "serve_tenancy X G ctx (CreateTenant req) = ignore (create_tenant_handler G ctx req)"
| "serve_tenancy X G ctx (UpdateTenant p req) = ignore (update_tenant p req ctx)"
| "serve_tenancy X G ctx (DeleteTenant p) = ignore (delete_tenant_handler ctx p)"
| "serve_tenancy X G ctx (SuspendTenant p) = ignore (suspend_tenant_handler ctx p)"
| "serve_tenancy X G ctx (ReactivateTenant p) = ignore (reactivate_tenant_handler ctx p)"
| "serve_tenancy X G ctx (CreateEnvironment req) = ignore (create_environment_handler X G ctx req)"
| "serve_tenancy X G ctx (UpdateEnvironment p tags) = ignore (update_environment p tags ctx)"
| "serve_tenancy X G ctx (EnableEnvironment p) = ignore (enable_environment p ctx)"
| "serve_tenancy X G ctx (DisableEnvironment p) = ignore (disable_environment p ctx)"
| "serve_tenancy X G ctx (CreateApplication req) = ignore (create_application_handler G ctx req)"
| "serve_tenancy X G ctx (DeleteApplication p) = ignore (delete_application_handler ctx p)"
| "serve_tenancy X G ctx (RestoreApplication p) = ignore (restore_application p ctx)"
| "serve_tenancy X G ctx (CreateUser req) = ignore (create_user_handler X G ctx req)"
| "serve_tenancy X G ctx (UpdateUser p req) = ignore (update_user p req ctx)"
| "serve_tenancy X G ctx (DeleteUser p) = ignore (delete_user_handler ctx p)"
| "serve_tenancy X G ctx (SuspendUser p) = ignore (suspend_user p ctx)"
| "serve_tenancy X G ctx (ReactivateUser p) = ignore (reactivate_user p ctx)"
| "serve_tenancy X G ctx (LockUser p t) = ignore (lock_user p t ctx)"
| "serve_tenancy X G ctx (UnlockUser p) = ignore (unlock_user p ctx)"
| "serve_tenancy X G ctx (CreateTeam req) = ignore (create_team_handler G ctx req)"
| "serve_tenancy X G ctx (UpdateTeam p req) = ignore (update_team p req ctx)"
| "serve_tenancy X G ctx (DeleteTeam p) = ignore (delete_team_handler ctx p)"
| "serve_tenancy X G ctx (RestoreTeam p) = ignore (restore_team p ctx)"
| "serve_tenancy X G ctx (AddMembers p us) = ignore (add_members G p us ctx)"
| "serve_tenancy X G ctx (RemoveMember p m) = ignore (remove_member_handler ctx p m)"
| "serve_tenancy X G ctx (TenancyWait t) = State_Monad.update (w_now_update (\<lambda>n. n + t))"

lemma keeps_tenancy_calls: "keeps tenancy (for_each calls (serve_tenancy X G ctx))"
proof (rule keeps_for_each)
  fix c
  show "keeps tenancy (serve_tenancy X G ctx c)"
    by (cases c) (auto simp: delete_organization_handler_def suspend_organization_handler_def create_tenant_handler_def delete_tenant_handler_def
        suspend_tenant_handler_def reactivate_tenant_handler_def create_environment_handler_def enable_environment_def disable_environment_def Let_def
        create_application_handler_def delete_application_handler_def create_user_handler_def delete_user_handler_def create_team_handler_def
        delete_team_handler_def remove_member_handler_def
        intro!: keeps_ignore keeps_with_status keeps_checked keeps_or_not_found keeps_organizations keeps_tenants keeps_environments keeps_applications keeps_users keeps_teams
          keeps_now_update)
qed

end
