(* ===== verification/Tenancy_Props.thy ===== *)
theory Tenancy_Props
  imports Tenancy_State Key_Revocation
begin

text \<open>
  What suspending a tenant does to requests with its keys, who may change a tenant, and the tables under any calls.
\<close>

section \<open>Suspension and the cached keys\<close>

text \<open>The update of one row of the tenants, answered with the joined row.\<close>

lemma tenant_update_result:
  assumes "on_tenants (checked_update tenant_violation hit f) (\<lambda>d r. Option.bind r (tenant_response_of d)) d = (Inr (Some resp), d')"
  obtains n where "find hit (tenants (identity d)) = Some n" "tenants (identity d') = update_where hit f (tenants (identity d))"
    "api_keys (identity d') = api_keys (identity d)"
  using assms
  by (cases "find hit (tenants (identity d))") (auto simp: checked_update_def on_table_def update_identity_def split: option.splits)

lemma find_by_id: "sorted_wrt (\<lambda>x y. \<not> tenant_clash x y) ts \<Longrightarrow> m \<in> set ts \<Longrightarrow> find (\<lambda>x. tn_id x = tn_id m) ts = Some m"
  by (induction ts) (auto simp: tenant_clash_def)

lemma find_tenant_updated:
  assumes "tenancy_ok d" "find hit (tenants (identity d)) = Some n" "\<And>x. hit x \<Longrightarrow> tn_public_id x = pid" "m \<in> set (tenants (identity d))" "tn_public_id m = pid"
    and "tenants (identity d') = update_where hit f (tenants (identity d))" "\<And>x. tn_id (f x) = tn_id x"
  shows "find_tenant (tn_id m) d' = Some (f m)"
proof -
  let ?ts = "tenants (identity d)"
  have s: "sorted_wrt (\<lambda>x y. \<not> tenant_clash x y) ?ts" using assms(1) by (simp add: tenancy_ok_def table_ok_def)
  have n: "n \<in> set ?ts" "hit n" using assms(2) by (auto dest: find_SomeD)
  have "n = m" using tens.same_row [OF s n(1) assms(4)] assms(3) [OF n(2)] assms(5) by simp
  then show ?thesis
    using n(2) assms(7) find_by_id [OF s assms(4)] by (simp add: find_tenant_def assms(6) find_update_where_key)
qed

text \<open>The tenant with the public id is the one the keys with the hash belong to.\<close>

definition suspendable :: "auth_ext \<Rightarrow> time \<Rightarrow> string \<Rightarrow> uuid \<Rightarrow> string \<Rightarrow> world \<Rightarrow> bool" where
  "suspendable A T pid tid h w \<longleftrightarrow> tenancy_ok (w_db w) \<and> keys_in_tenant tid h (w_db w) \<and>
     (\<exists>n\<in>set (tenants (identity (w_db w))). tn_public_id n = pid \<and> tn_id n = tid) \<and> cached_until A tenant_entry_barred T h (w_ks w)"

abbreviation tenant_barred :: "auth_ext \<Rightarrow> time \<Rightarrow> uuid \<Rightarrow> string \<Rightarrow> world \<Rightarrow> bool" where
  "tenant_barred A T tid h \<equiv> settled A tenant_entry_barred (\<lambda>d. keys_in_tenant tid h d \<and> barred_tenant tid d) T h"

lemma suspension_bars:
  assumes "tenancy_ok d" "keys_in_tenant tid h d" "n \<in> set (tenants (identity d))" "tn_public_id n = pid" "tn_id n = tid"
    and "on_tenants (checked_update tenant_violation (owned_tenant pid caller ''active'') (\<lambda>n. touch_tenant ctx t (n\<lparr>tn_status := ''suspended''\<rparr>)))
      (\<lambda>d r. Option.bind r (tenant_response_of d)) d = (Inr (Some resp), d')"
  shows "keys_in_tenant tid h d' \<and> barred_tenant tid d'"
  using assms(6)
proof (rule tenant_update_result, goal_cases)
  case (1 m)
  have "find_tenant (tn_id n) d' = Some (touch_tenant ctx t (n\<lparr>tn_status := ''suspended''\<rparr>))"
    by (rule find_tenant_updated [OF assms(1) 1(1) _ assms(3,4) 1(2)]) (simp_all add: owned_tenant_def live_tenant_def touch_tenant_def)
  with 1(3) assms(2,5) show ?case by (simp add: barred_tenant_def keys_in_tenant_def touch_tenant_def)
qed

lemma suspend_settles:
  "triple (suspendable A T pid tid h) (suspend_tenant_handler ctx pid) (\<lambda>r w. (\<exists>x. r = Inr x) \<longrightarrow> tenant_barred A T tid h w)"
proof -
  let ?P = "suspendable A T pid tid h"
  have st: "stable ?P" by (simp add: stable_def suspendable_def)
  have "triple ?P (suspend_tenant_row pid (Some (rc_org_id ctx)) ctx) (\<lambda>r w. \<forall>a. r = Inr (Some a) \<longrightarrow> tenant_barred A T tid h w)"
    unfolding suspend_tenant_row_def update_tenant_rows_def
    by (rule triple_weaken [OF triple_statement_split [OF st, where Q = "\<lambda>a w. \<forall>x. a = Some x \<longrightarrow> tenant_barred A T tid h w" and E = "\<lambda>_. True"]])
      (auto simp: suspendable_def settled_def result_post_def dest: suspension_bars)
  then have "triple ?P (suspend_tenant pid (Some (rc_org_id ctx)) ctx) (\<lambda>r w. (\<exists>x. r = Inr x) \<longrightarrow> tenant_barred A T tid h w)"
    unfolding suspend_tenant_def or_not_found_def
    by (rule triple_try_bind) (auto simp: triple_def run_simps split: option.splits)
  then show ?thesis
    by (auto simp: suspend_tenant_handler_def checked_def with_status_def triple_def run_simps case_prod_beta split: sum.splits)
qed

text \<open>C10. Suspending a tenant shuts out its keys within a minute: after a successful suspension, and after any
  sequence of calls on keys that follow it, a request that arrives 60 seconds later with a key of the tenant is
  refused, whatever the calls to Redis and the database fail with, and whatever was cached before.\<close>

theorem suspended_tenant_refused_after_a_minute:
  assumes "auth_cache R A" and "auth_cache_bounded w0" and "w1 = serve_calls R A G earlier w0"
    and "tenancy_ok (w_db w1)" and "n \<in> set (tenants (identity (w_db w1)))" and "keys_in_tenant (tn_id n) h (w_db w1)"
    and "run_state (suspend_tenant_handler ctx (tn_public_id n)) w1 = (Inr resp, w2)"
    and "w3 = serve_calls R A G later w2" and "w_now w1 + secs 60 \<le> w_now w3"
  shows "\<exists>e. fst (run_state (resolve_api_key R A G rid h) w3) = Inl e"
proof -
  have "auth_cache_bounded w1"
    unfolding assms(3) using assms(1,2) by (rule auth_cache.bounded_after_calls)
  then have "suspendable A (w_now w1 + secs 60) (tn_public_id n) (tn_id n) h w1"
    using assms(4-6) bounded_cached_until by (auto simp: suspendable_def)
  then have "tenant_barred A (w_now w1 + secs 60) (tn_id n) h w2"
    using tripleD [OF suspend_settles, of A "w_now w1 + secs 60" "tn_public_id n" "tn_id n" h w1 ctx] assms(7) by simp
  then show ?thesis
    using withdrawn_key.refused_later [OF barred_tenant_withdrawn [OF assms(1)]] assms(8,9) by blast
qed

lemma used_world_tenancy: "tenancy_ok (w_db used_world)" "keys_in_tenant ''t1'' ''hash'' (w_db used_world)"
  by (simp_all add: tenancy_ok_def table_ok_def org_sound_def org_life_def tenant_sound_def tenant_life_def environment_sound_def environment_name_def
      environment_char_def used_world_def key_db_def empty_identity_def empty_db_def ci_key_def nonempty_text_def slug_format_def validate_slug_def
      keys_in_tenant_def byte_in_def append_key_def update_identity_def user_sound_def user_life_def email_format_def local_char_def domain_char_def
      email_letter_def char_length_def)

lemma used_world_suspends:
  "\<exists>resp w2. run_state (suspend_tenant_handler key_ctx ''ten_1'') used_world = (Inr resp, w2) \<and> w_now w2 = 0"
  by (simp add: suspend_tenant_handler_def suspend_tenant_def suspend_tenant_row_def update_tenant_rows_def or_not_found_def run_simps checked_def with_status_def
      used_world_def key_db_def empty_identity_def empty_db_def on_table_def checked_update_def owned_tenant_def live_tenant_def tenant_violation_def touch_tenant_def
      nonempty_text_def char_length_def tenant_response_of_def find_org_def user_name_def append_key_def update_identity_def key_ctx_def validate_id_prefix_def)

theorem suspended_tenant_refused_after_a_minute_witness:
  "\<exists>resp w2 e. run_state (suspend_tenant_handler key_ctx ''ten_1'') used_world = (Inr resp, w2) \<and>
     fst (run_state (resolve_api_key mem_redis sample_auth alnum_idgen None ''hash'')
       (serve_calls mem_redis sample_auth alnum_idgen [Wait (nat (secs 60))] w2)) = Inl e"
proof -
  obtain resp w2 where w2: "run_state (suspend_tenant_handler key_ctx ''ten_1'') used_world = (Inr resp, w2)" "w_now w2 = 0"
    using used_world_suspends by blast
  let ?n = "hd (tenants (identity key_db))"
  have n: "?n \<in> set (tenants (identity (w_db used_world)))" "tn_id ?n = ''t1''" "tn_public_id ?n = ''ten_1''"
    by (simp_all add: used_world_def key_db_def empty_identity_def append_key_def update_identity_def)
  have "w_now (serve_calls mem_redis sample_auth alnum_idgen [Wait (nat (secs 60))] w2) = secs 60"
    using w2(2) by (simp add: serve_calls_def run_simps secs_def)
  moreover have "w_now used_world = 0" by (simp add: used_world_def)
  moreover have "used_world = serve_calls mem_redis sample_auth alnum_idgen [] used_world"
    by (simp add: serve_calls_def run_simps)
  ultimately show ?thesis
    using suspended_tenant_refused_after_a_minute [OF mem_auth.auth_cache_axioms used_world_bounded _ used_world_tenancy(1) n(1)
        used_world_tenancy(2) [folded n(2)] w2(1) [folded n(3)] refl, where rid = None] w2(1)
    by simp
qed

section \<open>Other organizations\<close>

text \<open>A row that is deleted clashes with no other when it did not before.\<close>

lemma deletion_allowed:
  assumes "tenancy_ok d" "n \<in> set (tenants (identity d))" "\<And>x. x \<in> set rs \<Longrightarrow> x \<in> set (tenants (identity d)) \<and> x \<noteq> n"
  shows "tenant_violation (touch_tenant ctx t (n\<lparr>tn_deleted_at := Some t', tn_status := s\<rparr>)) rs = None"
proof -
  have "tn_id x \<noteq> tn_id n \<and> tn_public_id x \<noteq> tn_public_id n" if "x \<in> set rs" for x
    using tens.clash_same [of "tenants (identity d)" x n] assms that by (auto simp: tenancy_ok_def table_ok_def tenant_clash_def)
  moreover have "nonempty_text (tn_name n)" "char_length (tn_name n) \<le> 255" using assms(1,2) by (simp_all add: tenancy_ok_def table_ok_def tenant_sound_def)
  ultimately show ?thesis by (auto simp: tenant_violation_def touch_tenant_def)
qed

lemma tenants_unchanged: "update_identity (tenants_update (\<lambda>_. tenants (identity d))) d = d"
  by (simp add: update_identity_def)

text \<open>A tenant is protected from other organizations against suspension but not against deletion: a caller of
  another organization that asks to suspend it is told there is none and nothing changes, and the same caller
  deletes it with success.\<close>

theorem foreign_caller_deletes_not_suspends:
  assumes "no_faults w" and "tenancy_ok (w_db w)" and "n \<in> set (tenants (identity (w_db w)))" and "tn_deleted_at n = None"
    and "tn_org_id n \<noteq> rc_org_id ctx" and "validate_id_prefix (tn_public_id n) ''ten_'' ''tenant'' = Inr ()"
  shows "run_state (suspend_tenant_handler ctx (tn_public_id n)) w = (Inl (NotFound (''Tenant not found or not in active state: '' @ tn_public_id n)), w) \<and>
    (\<exists>w' m. run_state (delete_tenant_handler ctx (tn_public_id n)) w = (Inr (204, ()), w') \<and>
      find_tenant (tn_id n) (w_db w') = Some m \<and> tn_deleted_at m = Some (w_now w) \<and> tn_status m = ''inactive'')"
proof
  let ?ts = "tenants (identity (w_db w))"
  have s: "sorted_wrt (\<lambda>x y. \<not> tenant_clash x y) ?ts" using assms(2) by (simp add: tenancy_ok_def table_ok_def)
  have "\<not> owned_tenant (tn_public_id n) (Some (rc_org_id ctx)) ''active'' x" if "x \<in> set ?ts" for x
    using tens.same_row [OF s that assms(3)] assms(5) by (auto simp: owned_tenant_def live_tenant_def)
  then have "find (owned_tenant (tn_public_id n) (Some (rc_org_id ctx)) ''active'') ?ts = None" by (auto simp: find_None_iff)
  then show "run_state (suspend_tenant_handler ctx (tn_public_id n)) w = (Inl (NotFound (''Tenant not found or not in active state: '' @ tn_public_id n)), w)"
    using assms(1,6) by (simp add: suspend_tenant_handler_def suspend_tenant_def suspend_tenant_row_def update_tenant_rows_def or_not_found_def run_simps checked_def
        with_status_def on_table_def checked_update_def tenants_unchanged)
  let ?hit = "live_tenant (tn_public_id n)" and ?f = "\<lambda>n. touch_tenant ctx (w_now w) (n\<lparr>tn_deleted_at := Some (w_now w), tn_status := ''inactive''\<rparr>)"
  have one: "x = n" if "x \<in> set ?ts" "?hit x" for x
    using tens.same_row [OF s that(1) assms(3)] that(2) by (simp add: live_tenant_def)
  have hit: "?hit n" using assms(4) by (simp add: live_tenant_def)
  have found: "find ?hit ?ts = Some n"
    using one hit assms(3) by (cases "find ?hit ?ts") (auto simp: find_None_iff dest: find_SomeD)
  moreover have "tenant_violation (?f n) (filter (\<lambda>x. \<not> ?hit x) ?ts) = None"
    using assms(2,3) hit by (intro deletion_allowed) auto
  ultimately have "run_state (delete_tenant_handler ctx (tn_public_id n)) w =
      (Inr (204, ()), w\<lparr>w_db := update_identity (tenants_update (\<lambda>_. update_where ?hit ?f ?ts)) (w_db w)\<rparr>)"
    using assms(1) by (simp add: delete_tenant_handler_def delete_tenant_def deleted_or_def delete_tenant_row_def run_simps with_status_def on_table_def checked_update_def)
  moreover have "find_tenant (tn_id n) (update_identity (tenants_update (\<lambda>_. update_where ?hit ?f ?ts)) (w_db w)) = Some (?f n)"
    by (rule find_tenant_updated [OF assms(2) found _ assms(3) refl]) (simp_all add: live_tenant_def update_identity_def touch_tenant_def)
  ultimately show "\<exists>w' m. run_state (delete_tenant_handler ctx (tn_public_id n)) w = (Inr (204, ()), w') \<and>
      find_tenant (tn_id n) (w_db w') = Some m \<and> tn_deleted_at m = Some (w_now w) \<and> tn_status m = ''inactive''"
    by (simp add: touch_tenant_def)
qed

theorem foreign_caller_deletes_not_suspends_witness:
  "\<exists>w'. run_state (delete_tenant_handler (key_ctx\<lparr>rc_org_id := ''o2''\<rparr>) ''ten_1'') used_world = (Inr (204, ()), w')"
proof -
  let ?n = "hd (tenants (identity key_db))"
  have n: "?n \<in> set (tenants (identity (w_db used_world)))" "tn_deleted_at ?n = None" "tn_org_id ?n \<noteq> rc_org_id (key_ctx\<lparr>rc_org_id := ''o2''\<rparr>)"
    "validate_id_prefix (tn_public_id ?n) ''ten_'' ''tenant'' = Inr ()" "no_faults used_world" "tn_public_id ?n = ''ten_1''"
    by (simp_all add: used_world_def key_db_def empty_identity_def append_key_def update_identity_def key_ctx_def validate_id_prefix_def)
  show ?thesis using foreign_caller_deletes_not_suspends [OF n(5) used_world_tenancy(1) n(1-4)] n(6) by auto
qed

section \<open>The tables\<close>



end
