(* ===== verification/Team_Props.thy ===== *)
theory Team_Props
  imports Tenancy_Props
begin

text \<open>
  What adding members to a team does to its members.
\<close>

section \<open>Teams\<close>

lemma upsert_member_adds:
  assumes "upsert_member ctx t r rs = (Inr m, rs')" "tk_deleted_at r = None"
  shows "(\<exists>x\<in>set rs'. membership (tk_team_id r) (tk_user_id r) x) \<and> (\<forall>x\<in>set rs'. membership (tk_team_id r) (tk_user_id r) x \<longrightarrow> tk_deleted_at x = None) \<and>
    (\<forall>x. \<not> membership (tk_team_id r) (tk_user_id r) x \<longrightarrow> (x \<in> set rs' \<longleftrightarrow> x \<in> set rs))"
proof (cases "\<exists>x\<in>set rs. membership (tk_team_id r) (tk_user_id r) x")
  case True
  let ?hit = "membership (tk_team_id r) (tk_user_id r)" and ?f = "\<lambda>m. touch_team_member ctx t (m\<lparr>tk_deleted_at := None\<rparr>)"
  from True assms(1) have rs': "rs' = update_where ?hit ?f rs"
    by (auto simp: upsert_member_def checked_update_def find_None_iff split: option.splits sum.splits)
  have f: "?hit (?f x) \<longleftrightarrow> ?hit x" "tk_deleted_at (?f x) = None" for x by (simp_all add: membership_def touch_team_member_def)
  with True f show ?thesis by (auto simp: rs' set_update_where)
next
  case False
  with assms(1) have "rs' = rs @ [r]" by (auto simp: upsert_member_def checked_insert_def split: option.splits)
  with False assms(2) show ?thesis by (auto simp: membership_def)
qed

lemma insert_team_member_adds:
  assumes "insert_team_member ctx t r d = (Inr m, d')" "tk_deleted_at r = None"
  shows "(\<exists>x\<in>set (team_members (identity d')). membership (tk_team_id r) (tk_user_id r) x \<and> tk_deleted_at x = None) \<and>
    (\<forall>x. \<not> membership (tk_team_id r) (tk_user_id r) x \<longrightarrow> (x \<in> set (team_members (identity d')) \<longleftrightarrow> x \<in> set (team_members (identity d))))"
proof -
  from assms(1) obtain a rs where q: "upsert_member ctx t r (team_members (identity d)) = (Inr a, rs)" and "team_members (identity d') = rs"
    by (auto simp: insert_team_member_def update_identity_def elim!: on_table_Inr split: prod.splits sum.splits if_splits)
  with upsert_member_adds [OF q assms(2)] show ?thesis by auto
qed

text \<open>The users a team gains, and the memberships that stay as they were.\<close>

lemma add_member_rows_run:
  assumes "run_state (add_member_rows G team ctx ids) w = (Inr ms, w')" "no_faults w"
  shows "(\<forall>i\<in>set ids. \<exists>x\<in>set (team_members (identity (w_db w'))). membership (tm_id team) i x \<and> tk_deleted_at x = None) \<and>
    (\<forall>x. (\<forall>i\<in>set ids. \<not> membership (tm_id team) i x) \<longrightarrow>
       (x \<in> set (team_members (identity (w_db w'))) \<longleftrightarrow> x \<in> set (team_members (identity (w_db w)))))"
  using assms
proof (induction ids arbitrary: w ms)
  case Nil
  then show ?case by (simp add: run_simps)
next
  case (Cons i ids)
  from Cons.prems obtain n nano m d ms' wi where
    ins: "insert_team_member ctx (w_now w) (new_team_member G n nano team i ctx (w_now w)) (w_db w) = (Inr m, d)"
    and rest: "run_state (add_member_rows G team ctx ids) wi = (Inr ms', w')" and wi: "w_db wi = d" "no_faults wi"
    by (auto simp: run_simps nano_id_new_def generate_def split: prod.splits sum.splits)
  have new: "tk_deleted_at (new_team_member G n nano team i ctx (w_now w)) = None" "tk_team_id (new_team_member G n nano team i ctx (w_now w)) = tm_id team"
    "tk_user_id (new_team_member G n nano team i ctx (w_now w)) = i" by (simp_all add: new_team_member_def)
  from insert_team_member_adds [OF ins new(1)] obtain x where x: "x \<in> set (team_members (identity d))" "membership (tm_id team) i x" "tk_deleted_at x = None"
    and others: "\<forall>x. \<not> membership (tm_id team) i x \<longrightarrow> (x \<in> set (team_members (identity d)) \<longleftrightarrow> x \<in> set (team_members (identity (w_db w))))"
    unfolding new by blast
  note IH = Cons.IH [OF rest wi(2), unfolded wi(1)]
  have "\<exists>x\<in>set (team_members (identity (w_db w'))). membership (tm_id team) i x \<and> tk_deleted_at x = None"
  proof (cases "i \<in> set ids")
    case False
    then have "\<forall>j\<in>set ids. \<not> membership (tm_id team) j x" using x(2) by (auto simp: membership_def)
    with IH x show ?thesis by blast
  qed (use IH in blast)
  with IH others show ?case by simp
qed

lemma live_users_resolved:
  assumes "run_state (resolve_users us) w = (Inr ids, w1)" "no_faults w" "us \<noteq> []"
  shows "ids = map us_id (live_users_among us (w_db w)) \<and> w1 = w"
  using assms by (auto simp: resolve_users_def run_simps Let_def split: if_splits)

text \<open>C22. Adding members makes each of the users a member exactly once: after a request that is answered with
  success, every user it names has one row of the team, which is not removed, whether the user was new to the team, a
  member already, or had been removed; the rows of other users and other teams are as before.\<close>

theorem added_users_are_members_once:
  assumes "no_faults w" and "tenancy_ok (w_db w)" and "run_state (add_members G pid us ctx) w = (Inr answer, w')"
    and "find (live_team pid) (teams (identity (w_db w))) = Some team"
    and "u \<in> set (users (identity (w_db w)))" and "us_public_id u \<in> set us" and "us_deleted_at u = None"
  shows "(\<exists>!m. m \<in> set (team_members (identity (w_db w'))) \<and> membership (tm_id team) (us_id u) m) \<and>
    (\<exists>m\<in>set (team_members (identity (w_db w'))). membership (tm_id team) (us_id u) m \<and> tk_deleted_at m = None) \<and>
    (\<forall>m. tk_team_id m \<noteq> tm_id team \<or> tk_user_id m \<notin> us_id ` set (live_users_among us (w_db w)) \<longrightarrow>
       (m \<in> set (team_members (identity (w_db w'))) \<longleftrightarrow> m \<in> set (team_members (identity (w_db w)))))"
proof -
  have "us \<noteq> []" using assms(6) by auto
  have "run_state (or_not_found (get_team_row pid) (team_missing pid)) w = (Inr team, w)"
    using assms(1,4) by (simp add: or_not_found_def get_team_row_def run_simps)
  moreover have "run_state (try_bind (or_not_found (get_team_row pid) (team_missing pid)) (\<lambda>team. try_bind (resolve_users us) (\<lambda>ids.
      try_bind (add_member_rows G team ctx ids) (\<lambda>members. State_Monad.return (Inr (map team_member_response_of members)))))) w = (Inr answer, w')"
    using assms(3) \<open>us \<noteq> []\<close> by (simp add: add_members_def checked_def validate_user_ids_def reject_errors_def)
  ultimately obtain ids w1 ms where ids: "run_state (resolve_users us) w = (Inr ids, w1)" and ms: "run_state (add_member_rows G team ctx ids) w1 = (Inr ms, w')"
    by (auto simp: run_return dest!: try_bind_Inr)
  from live_users_resolved [OF ids assms(1) \<open>us \<noteq> []\<close>] have ids_def: "ids = map us_id (live_users_among us (w_db w))" and "w1 = w" by simp_all
  with add_member_rows_run [OF ms] assms(1) have run: "\<forall>i\<in>set ids. \<exists>x\<in>set (team_members (identity (w_db w'))). membership (tm_id team) i x \<and> tk_deleted_at x = None"
    and others: "\<forall>x. (\<forall>i\<in>set ids. \<not> membership (tm_id team) i x) \<longrightarrow> (x \<in> set (team_members (identity (w_db w'))) \<longleftrightarrow> x \<in> set (team_members (identity (w_db w))))"
    by auto
  have "us_id u \<in> set ids" using assms(5-7) by (auto simp: ids_def live_users_among_def)
  with run obtain x where x: "x \<in> set (team_members (identity (w_db w')))" "membership (tm_id team) (us_id u) x" "tk_deleted_at x = None" by blast
  have "tenancy_ok (w_db w')"
    using keepsD [OF keeps_teams(5) [of G pid us ctx], of w] assms(2,3) by (simp add: any_db_def)
  then have "y = x" if "y \<in> set (team_members (identity (w_db w')))" "membership (tm_id team) (us_id u) y" for y
    using mems.clash_same [OF _ that(1) x(1)] that(2) x(2) by (auto simp: tenancy_ok_def table_ok_def member_clash_def membership_def)
  with x have "\<exists>!m. m \<in> set (team_members (identity (w_db w'))) \<and> membership (tm_id team) (us_id u) m" by blast
  moreover have "m \<in> set (team_members (identity (w_db w'))) \<longleftrightarrow> m \<in> set (team_members (identity (w_db w)))"
    if "tk_team_id m \<noteq> tm_id team \<or> tk_user_id m \<notin> us_id ` set (live_users_among us (w_db w))" for m
    using others that by (simp add: ids_def membership_def) blast
  ultimately show ?thesis using x by blast
qed

definition sales_team :: team_row where
  "sales_team = \<lparr>tm_id = ''g1'', tm_public_id = ''tea_1'', tm_name = ''sales'', tm_tenant_id = ''t1'', tm_org_id = ''o1'', tm_description = None, tm_tags = [], tm_metadata = [],
     tm_settings = [], tm_created_by = ''u1'', tm_updated_by = ''u1'', tm_request_id = ''r0'', tm_version = 1, tm_created_at = 0, tm_updated_at = 0, tm_deleted_at = None\<rparr>"

definition team_world :: world where
  "team_world = start_world (update_identity (teams_update (\<lambda>_. [sales_team])) key_db) empty_keyspace 0"

lemma team_world_ok: "tenancy_ok (w_db team_world)"
  using used_world_tenancy(1)
  by (simp add: tenancy_ok_def used_world_def team_world_def update_identity_def append_key_def table_ok_def team_sound_def nonempty_text_def char_length_def sales_team_def)

lemma team_world_adds: "\<exists>answer w'. run_state (add_members alnum_idgen ''tea_1'' [''usr_1''] key_ctx) team_world = (Inr answer, w')"
  by (simp add: add_members_def checked_def validate_user_ids_def reject_errors_def or_not_found_def get_team_row_def team_world_def update_identity_def live_team_def
      sales_team_def resolve_users_def live_users_among_def key_db_def empty_identity_def nano_id_new_def generate_def insert_team_member_def on_table_def upsert_member_def
      new_team_member_def checked_insert_def team_member_violation_def run_simps Let_def)

theorem added_users_are_members_once_witness:
  "\<exists>answer w' m. run_state (add_members alnum_idgen ''tea_1'' [''usr_1''] key_ctx) team_world = (Inr answer, w') \<and>
     m \<in> set (team_members (identity (w_db w'))) \<and> membership ''g1'' ''u1'' m \<and> tk_deleted_at m = None"
proof -
  obtain answer w' where run: "run_state (add_members alnum_idgen ''tea_1'' [''usr_1''] key_ctx) team_world = (Inr answer, w')" using team_world_adds by blast
  let ?u = "hd (users (identity key_db))"
  have "no_faults team_world" "find (live_team ''tea_1'') (teams (identity (w_db team_world))) = Some sales_team" "?u \<in> set (users (identity (w_db team_world)))"
    "us_public_id ?u \<in> set [''usr_1'']" "us_deleted_at ?u = None" "us_id ?u = ''u1''" "tm_id sales_team = ''g1''"
    by (simp_all add: team_world_def update_identity_def live_team_def sales_team_def key_db_def empty_identity_def)
  with added_users_are_members_once [OF _ team_world_ok run, of sales_team ?u] run show ?thesis by auto
qed

end
