(* ===== verification/Platform.thy ===== *)
theory Platform
  imports Users Applications Auth
begin

text \<open>
  The administration of the platform (\<open>src/features/platform/\<close>): the admin key, and the creation of an organization
  with its first tenant, environment, owner and API key in one transaction.
\<close>

section \<open>The admin key\<close>

text \<open>\<open>extract_bearer\<close> of this module is the function of the same text that the API keys use. HMAC-SHA256 is a parameter.\<close>

definition COMPARE_KEY :: string where
  "COMPARE_KEY = ''hookly-admin-compare''"

definition keys_match :: "(string \<Rightarrow> string \<Rightarrow> string) \<Rightarrow> string \<Rightarrow> string \<Rightarrow> bool" where
  "keys_match hmac stored candidate \<longleftrightarrow> hmac COMPARE_KEY candidate = hmac COMPARE_KEY stored"

definition admin_ctx :: "uuid \<Rightarrow> request_context" where
  "admin_ctx request_id = \<lparr>rc_request_id = request_id, rc_created_by = nil_uuid, rc_org_id = nil_uuid, rc_tenant_id = nil_uuid\<rparr>"

definition authenticate_admin :: "(string \<Rightarrow> string \<Rightarrow> string) \<Rightarrow> string \<Rightarrow> idgen \<Rightarrow> uuid option \<Rightarrow> string option \<Rightarrow> (request_context \<Rightarrow> 'r io) \<Rightarrow>
    ((int \<times> error_body) + 'r) io" where
  "authenticate_admin hmac admin_api_key G request_id header next_handler = (case extract_token header of
      Inl e \<Rightarrow> State_Monad.return (Inl (into_response e))
    | Inr candidate \<Rightarrow>
        if \<not> keys_match hmac admin_api_key candidate then State_Monad.return (Inl (into_response (Unauthorized ''invalid admin key'')))
        else do {
          rid \<leftarrow> (case request_id of Some i \<Rightarrow> State_Monad.return i | None \<Rightarrow> do { n \<leftarrow> fresh; State_Monad.return (uuid_of G n) });
          out \<leftarrow> next_handler (admin_ctx rid);
          State_Monad.return (Inr out) })"

section \<open>The first organization of a customer\<close>

record bootstrap_ids =
  bi_user_id :: uuid
  bi_user_public_id :: string
  bi_org_id :: uuid
  bi_org_public_id :: string

definition boot_org :: "tenancy_ext \<Rightarrow> bootstrap_ids \<Rightarrow> create_organization_request \<Rightarrow> request_context \<Rightarrow> time \<Rightarrow> org_row" where
  "boot_org X b req ctx t = \<lparr>og_id = bi_org_id b, og_public_id = bi_org_public_id b, og_status = ''active'', og_tier = None, og_deleted_at = None,
     og_name = trim (cg_name req), og_slug = trim (tx_to_lowercase X (cg_slug req)), og_owner_email = Some (cg_owner_email req), og_external_id = cg_external_id req,
     og_tags = coalesce (cg_tags req) [], og_version = 0, og_request_id = rc_request_id ctx, og_created_by = bi_user_id b, og_updated_by = bi_user_id b,
     og_created_at = t, og_updated_at = t\<rparr>"

definition boot_tenant :: "bootstrap_ids \<Rightarrow> uuid \<Rightarrow> string \<Rightarrow> create_organization_request \<Rightarrow> request_context \<Rightarrow> time \<Rightarrow> tenant_row" where
  "boot_tenant b tenant_id public_id req ctx t = \<lparr>tn_id = tenant_id, tn_public_id = public_id, tn_org_id = bi_org_id b, tn_status = ''active'', tn_deleted_at = None,
     tn_name = trim (cg_name req) @ '' Default'', tn_description = Some ''Default tenant created on organization signup.'', tn_tags = [], tn_version = 0,
     tn_request_id = rc_request_id ctx, tn_created_by = bi_user_id b, tn_updated_by = bi_user_id b, tn_created_at = t, tn_updated_at = t\<rparr>"

definition boot_environment :: "bootstrap_ids \<Rightarrow> uuid \<Rightarrow> string \<Rightarrow> uuid \<Rightarrow> request_context \<Rightarrow> time \<Rightarrow> environment_row" where
  "boot_environment b env_id public_id tenant_id ctx t = \<lparr>en_id = env_id, en_public_id = public_id, en_tenant_id = tenant_id, en_name = ''production'', en_status = EnvActive,
     en_description = None, en_tags = [], en_version = 0, en_request_id = rc_request_id ctx, en_created_by = bi_user_id b, en_updated_by = bi_user_id b,
     en_created_at = t, en_updated_at = t\<rparr>"

definition boot_user :: "bootstrap_ids \<Rightarrow> uuid \<Rightarrow> create_organization_request \<Rightarrow> request_context \<Rightarrow> time \<Rightarrow> user_row" where
  "boot_user b tenant_id req ctx t = \<lparr>us_id = bi_user_id b, us_public_id = bi_user_public_id b, us_org_id = bi_org_id b, us_tenant_id = tenant_id,
     us_email = cg_owner_email req, us_phone = None, us_status = UserActive, us_email_verified_at = None, us_phone_verified_at = None, us_last_active_at = None,
     us_metadata = [], us_tags = [], us_settings = [], us_password_hash = None, us_version = 1, us_created_by = bi_user_id b, us_updated_by = bi_user_id b,
     us_request_id = rc_request_id ctx, us_locked_until = None, us_login_count = 0, us_created_at = t, us_updated_at = t, us_deleted_at = None\<rparr>"

definition boot_key :: "bootstrap_ids \<Rightarrow> uuid \<Rightarrow> string \<Rightarrow> uuid \<Rightarrow> string \<Rightarrow> string \<Rightarrow> string \<Rightarrow> request_context \<Rightarrow> time \<Rightarrow> api_key_row" where
  "boot_key b key_id public_id tenant_id env_public_id key_hash key_prefix ctx t = \<lparr>ak_id = key_id, ak_public_id = public_id, ak_org_id = bi_org_id b, ak_tenant_id = tenant_id,
     ak_user_id = bi_user_id b, ak_name = ''default'', ak_description = None, ak_key_hash = key_hash, ak_key_encrypted = None, ak_key_prefix = key_prefix,
     ak_environment_id = env_public_id, ak_status = KeyActive, ak_expires_at = None, ak_last_used_at = None, ak_tags = [], ak_request_id = rc_request_id ctx, ak_version = 0,
     ak_created_by = bi_user_id b, ak_updated_by = bi_user_id b, ak_created_at = t, ak_updated_at = t, ak_deleted_at = None\<rparr>"

text \<open>The five inserts. \<open>RETURNING\<close> gives the row itself; the tenant is joined with the organization inserted before it.\<close>

definition tx_insert_org :: "org_row \<Rightarrow> db \<Rightarrow> (sqlx_error + org_row) \<times> db" where
  "tx_insert_org r = on_orgs (checked_insert org_violation r) (\<lambda>_. id)"

definition tx_insert_tenant :: "tenant_row \<Rightarrow> db \<Rightarrow> (sqlx_error + tenant_row \<times> tenant_response) \<times> db" where
  "tx_insert_tenant r d = (case on_tenants (checked_insert tenant_violation r) (\<lambda>d t. map_option (Pair t) (tenant_response_of d t)) d of
       (Inl e, d') \<Rightarrow> (Inl e, d') | (Inr None, d') \<Rightarrow> (Inl RowNotFound, d) | (Inr (Some x), d') \<Rightarrow> (Inr x, d'))"

definition tx_insert_environment :: "environment_row \<Rightarrow> db \<Rightarrow> (sqlx_error + environment_row) \<times> db" where
  "tx_insert_environment r = on_environments (checked_insert environment_violation r) (\<lambda>_. id)"

definition tx_insert_user :: "user_row \<Rightarrow> db \<Rightarrow> (sqlx_error + user_row) \<times> db" where
  "tx_insert_user r d = on_users (checked_insert user_violation r) (\<lambda>_. id) d"

definition tx_insert_key :: "api_key_row \<Rightarrow> db \<Rightarrow> (sqlx_error + api_key_row) \<times> db" where
  "tx_insert_key k d = (case insert_api_key k d of (Inl e, d') \<Rightarrow> (Inl e, d') | (Inr _, d') \<Rightarrow> (Inr k, d'))"

record bootstrap_response =
  br_organization :: organization_response
  br_tenant :: tenant_response
  br_environment :: environment_response
  br_user :: user_response
  br_api_key :: api_key_response

text \<open>The responses, with the public ids the service holds put over what the rows give.\<close>

definition boot_response :: "bootstrap_ids \<Rightarrow> db \<Rightarrow> org_row \<Rightarrow> tenant_row \<times> tenant_response \<Rightarrow> environment_row \<Rightarrow> user_row \<Rightarrow> api_key_row \<Rightarrow> string \<Rightarrow> bootstrap_response" where
  "boot_response b d g tt e u k full_key = (let og = bi_org_public_id b; tn = tn_public_id (fst tt); us = bi_user_public_id b in
     \<lparr>br_organization = (organization_response_of d g)\<lparr>gr_created_by := us, gr_updated_by := us\<rparr>,
      br_tenant = (snd tt)\<lparr>te_created_by := us, te_updated_by := us\<rparr>,
      br_environment = \<lparr>nr_id = en_public_id e, nr_organization_id = og, nr_tenant_id = tn, nr_name = en_name e, nr_description = en_description e, nr_status = en_status e,
        nr_tags = en_tags e, nr_created_by = us, nr_updated_by = us, nr_created_at = en_created_at e, nr_updated_at = en_updated_at e\<rparr>,
      br_user = \<lparr>ur_id = us_public_id u, ur_organization_id = og, ur_tenant_id = tn, ur_email = us_email u, ur_phone = us_phone u, ur_status = us_status u,
        ur_email_verified_at = us_email_verified_at u, ur_phone_verified_at = us_phone_verified_at u, ur_last_active_at = us_last_active_at u, ur_tags = us_tags u,
        ur_locked_until = us_locked_until u, ur_login_count = us_login_count u, ur_created_by = us, ur_updated_by = us, ur_created_at = us_created_at u,
        ur_updated_at = us_updated_at u\<rparr>,
      br_api_key = \<lparr>kr_id = ak_public_id k, kr_organization_id = og, kr_tenant_id = tn, kr_user_id = us, kr_name = ak_name k, kr_description = ak_description k,
        kr_environment_id = ak_environment_id k, kr_status = ak_status k, kr_key_hint = ''key_'' @ ak_key_prefix k @ ''***'', kr_key = Some full_key,
        kr_expires_at = ak_expires_at k, kr_last_used_at = ak_last_used_at k, kr_created_by = us, kr_updated_by = us, kr_created_at = ak_created_at k,
        kr_updated_at = ak_updated_at k\<rparr>\<rparr>)"

definition tx_step :: "(time \<Rightarrow> db \<Rightarrow> (sqlx_error + 'a) \<times> db) \<Rightarrow> db \<Rightarrow> ('a \<Rightarrow> db \<Rightarrow> (app_error + 'b) io) \<Rightarrow> (app_error + 'b) io" where
  "tx_step q d f = try_bind (map_sqlx (tx_statement q d)) (\<lambda>(a, d'). f a d')"

text \<open>The owner and the key, after the organization, the tenant and the environment.\<close>

definition boot_owner :: "key_ext \<Rightarrow> idgen \<Rightarrow> bootstrap_ids \<Rightarrow> create_organization_request \<Rightarrow> request_context \<Rightarrow> org_row \<Rightarrow> tenant_row \<times> tenant_response \<Rightarrow>
    environment_row \<Rightarrow> db \<Rightarrow> (app_error + bootstrap_response) io" where
  "boot_owner K G b req ctx g tt e d3 =
     tx_step (\<lambda>t. tx_insert_user (boot_user b (tn_id (fst tt)) req ctx t)) d3 (\<lambda>u d4. do {
       (full_key, key_prefix) \<leftarrow> generate_api_key G ''production'' 32;
       key_nano \<leftarrow> nano_id_new G;
       i \<leftarrow> fresh;
       tx_step (\<lambda>t. tx_insert_key (boot_key b (uuid_of G i) (''key_'' @ key_nano) (tn_id (fst tt)) (en_public_id e) (hash_key K full_key) key_prefix ctx t)) d4 (\<lambda>k d5.
       try_bind (map_sqlx (tx_commit d5)) (\<lambda>_.
         State_Monad.return (Inr (boot_response b d5 g tt e u k full_key)))) })"

definition bootstrap_rows :: "tenancy_ext \<Rightarrow> key_ext \<Rightarrow> idgen \<Rightarrow> create_organization_request \<Rightarrow> request_context \<Rightarrow> (app_error + uuid \<times> bootstrap_response) io" where
  "bootstrap_rows X K G req ctx = try_bind (map_sqlx tx_begin) (\<lambda>d. do {
     ui \<leftarrow> fresh;
     user_nano \<leftarrow> nano_id_new G;
     oi \<leftarrow> fresh;
     org_nano \<leftarrow> nano_id_new G;
     let b = \<lparr>bi_user_id = uuid_of G ui, bi_user_public_id = ''usr_'' @ user_nano, bi_org_id = uuid_of G oi, bi_org_public_id = ''org_'' @ org_nano\<rparr>;
     tx_step (\<lambda>t. tx_insert_org (boot_org X b req ctx t)) d (\<lambda>g d1. do {
       ti \<leftarrow> fresh;
       tenant_nano \<leftarrow> nano_id_new G;
       tx_step (\<lambda>t. tx_insert_tenant (boot_tenant b (uuid_of G ti) (''ten_'' @ tenant_nano) req ctx t)) d1 (\<lambda>tt d2. do {
         env_nano \<leftarrow> nano_id_new G;
         ei \<leftarrow> fresh;
         tx_step (\<lambda>t. tx_insert_environment (boot_environment b (uuid_of G ei) (''env_'' @ env_nano) (uuid_of G ti) ctx t)) d2 (\<lambda>e d3.
         try_bind (boot_owner K G b req ctx g tt e d3) (\<lambda>resp. State_Monad.return (Inr (uuid_of G ti, resp)))) }) }) })"

text \<open>Seeding the roles of the new tenant is best effort: neither error is reported.\<close>

definition bootstrap_organization :: "tenancy_ext \<Rightarrow> key_ext \<Rightarrow> idgen \<Rightarrow> create_organization_request \<Rightarrow> request_context \<Rightarrow> (app_error + bootstrap_response) io" where
  "bootstrap_organization X K G req ctx = checked (validate_organization X req) (try_bind (bootstrap_rows X K G req ctx) (\<lambda>(tenant_id, resp). do {
     _ \<leftarrow> try_bind list_system (\<lambda>system_perms. seed_default_roles G tenant_id system_perms ctx);
     State_Monad.return (Inr resp) }))"

section \<open>Handlers\<close>

definition admin_create_organization :: "tenancy_ext \<Rightarrow> key_ext \<Rightarrow> idgen \<Rightarrow> request_context \<Rightarrow> create_organization_request \<Rightarrow> (app_error + int \<times> bootstrap_response) io" where
  "admin_create_organization X K G ctx payload = with_status 201 id (bootstrap_organization X K G payload ctx)"

definition admin_restore_organization :: "request_context \<Rightarrow> string \<Rightarrow> (app_error + int \<times> organization_response) io" where
  "admin_restore_organization ctx public_id = checked (validate_id_prefix public_id ''org_'' ''organization'') (with_status 200 id (restore_organization public_id ctx))"

definition admin_suspend_tenant :: "request_context \<Rightarrow> string \<Rightarrow> (app_error + int \<times> tenant_response) io" where
  "admin_suspend_tenant ctx public_id = checked (validate_id_prefix public_id ''ten_'' ''tenant'') (with_status 200 id (suspend_tenant public_id None ctx))"

definition admin_reactivate_tenant :: "request_context \<Rightarrow> string \<Rightarrow> (app_error + int \<times> tenant_response) io" where
  "admin_reactivate_tenant ctx public_id = checked (validate_id_prefix public_id ''ten_'' ''tenant'') (with_status 200 id (reactivate_tenant public_id None ctx))"

end
