(* ===== verification/Platform_Props.thy ===== *)
theory Platform_Props
  imports Platform Auth_Props Tenancy_State
begin

text \<open>
  The creation of an organization from the platform's side: the five rows appear together or not at all, whatever calls
  fail, and the key handed out is accepted at once.
\<close>

section \<open>The rows of a new organization\<close>

record boot_rows =
  bw_org :: org_row
  bw_tenant :: tenant_row
  bw_environment :: environment_row
  bw_user :: user_row
  bw_key :: api_key_row

definition account_tables :: "db \<Rightarrow> org_row list \<times> tenant_row list \<times> environment_row list \<times> user_row list \<times> api_key_row list" where
  "account_tables d = (organizations d, tenants (identity d), environments (identity d), users (identity d), api_keys (identity d))"

text \<open>One row in each table, each pointing at the others, in service and new under its ids.\<close>

definition linked_rows :: "boot_rows \<Rightarrow> bool" where
  "linked_rows b \<longleftrightarrow> tn_org_id (bw_tenant b) = og_id (bw_org b) \<and> en_tenant_id (bw_environment b) = tn_id (bw_tenant b) \<and>
     us_org_id (bw_user b) = og_id (bw_org b) \<and> us_tenant_id (bw_user b) = tn_id (bw_tenant b) \<and>
     ak_org_id (bw_key b) = og_id (bw_org b) \<and> ak_tenant_id (bw_key b) = tn_id (bw_tenant b) \<and> ak_user_id (bw_key b) = us_id (bw_user b) \<and>
     ak_environment_id (bw_key b) = en_public_id (bw_environment b) \<and> og_created_by (bw_org b) = us_id (bw_user b)"

definition active_rows :: "boot_rows \<Rightarrow> bool" where
  "active_rows b \<longleftrightarrow> og_status (bw_org b) = ''active'' \<and> og_deleted_at (bw_org b) = None \<and> tn_status (bw_tenant b) = ''active'' \<and> tn_deleted_at (bw_tenant b) = None \<and>
     en_name (bw_environment b) = ''production'' \<and> us_status (bw_user b) = UserActive \<and>
     ak_status (bw_key b) = KeyActive \<and> ak_deleted_at (bw_key b) = None \<and> ak_expires_at (bw_key b) = None"

definition new_rows :: "boot_rows \<Rightarrow> db \<Rightarrow> bool" where
  "new_rows b d \<longleftrightarrow> og_id (bw_org b) \<notin> og_id ` set (organizations d) \<and> tn_id (bw_tenant b) \<notin> tn_id ` set (tenants (identity d)) \<and>
     ak_key_hash (bw_key b) \<notin> ak_key_hash ` set (api_keys (identity d))"

definition bootstrapped :: "db \<Rightarrow> boot_rows \<Rightarrow> db \<Rightarrow> bool" where
  "bootstrapped d b d' \<longleftrightarrow> linked_rows b \<and> active_rows b \<and> new_rows b d \<and>
     account_tables d' = (organizations d @ [bw_org b], tenants (identity d) @ [bw_tenant b], environments (identity d) @ [bw_environment b],
       users (identity d) @ [bw_user b], api_keys (identity d) @ [bw_key b])"

text \<open>The response names the rows and carries the text of the key, of which the table has the hash.\<close>

definition answers :: "key_ext \<Rightarrow> idgen \<Rightarrow> bootstrap_response \<Rightarrow> boot_rows \<Rightarrow> bool" where
  "answers K G resp b \<longleftrightarrow> gr_id (br_organization resp) = og_public_id (bw_org b) \<and> te_id (br_tenant resp) = tn_public_id (bw_tenant b) \<and>
     nr_id (br_environment resp) = en_public_id (bw_environment b) \<and> ur_id (br_user resp) = us_public_id (bw_user b) \<and>
     kr_id (br_api_key resp) = ak_public_id (bw_key b) \<and>
     (\<exists>n. let full = key_text (bw_environment b) (rand_of G n 32) in kr_key (br_api_key resp) = Some full \<and> ak_key_hash (bw_key b) = hash_key K full)"

section \<open>A step of the transaction\<close>

lemma triple_tx_step:
  assumes "stable R" "\<And>e w. R w \<Longrightarrow> S (Inl e) w" "\<And>t a d'. q t d = (Inr a, d') \<Longrightarrow> triple R (f a d') S"
  shows "triple R (tx_step q d f) S"
  unfolding tx_step_def
proof (rule triple_try [OF triple_tx_statement [OF assms(1)]])
  fix x
  show "triple (\<lambda>w. R w \<and> q (w_now w) d = (Inr (fst x), snd x)) (case x of (a, d') \<Rightarrow> f a d') S"
    using assms(3) by (auto simp: triple_def case_prod_beta)
qed (rule assms(2))

lemma triple_draw: "stable P \<Longrightarrow> (\<And>a. triple P (f a) S) \<Longrightarrow> triple P (State_Monad.bind fresh f) S"
  "stable P \<Longrightarrow> (\<And>a. triple P (f' a) S) \<Longrightarrow> triple P (State_Monad.bind (nano_id_new G) f') S"
  by (rule triple_bind_keeps; auto intro: keeps_fresh keeps_nano_id_new)+

lemma triple_generate_api_key:
  assumes "stable P" "\<And>n. triple P (f (''key_'' @ take_chars 3 env @ ''_'' @ rand_of G n 32, take_chars 3 env @ ''_'' @ take_chars 3 (rand_of G n 32))) S"
  shows "triple P (State_Monad.bind (generate_api_key G env 32) f) S"
  using assms by (auto simp: triple_def generate_api_key_def generate_def run_simps stable_def Let_def)

text \<open>What each insert leaves, when it is accepted.\<close>

lemma inserted:
  "tx_insert_org g d = (Inr a, d') \<Longrightarrow> a = g \<and> d' = d\<lparr>organizations := organizations d @ [g]\<rparr> \<and> og_id g \<notin> og_id ` set (organizations d)"
  "tx_insert_tenant n d = (Inr x, d') \<Longrightarrow> fst x = n \<and> te_id (snd x) = tn_public_id n \<and> d' = update_identity (tenants_update (\<lambda>_. tenants (identity d) @ [n])) d \<and>
     tn_id n \<notin> tn_id ` set (tenants (identity d))"
  "tx_insert_environment e d = (Inr b, d') \<Longrightarrow> b = e \<and> d' = update_identity (environments_update (\<lambda>_. environments (identity d) @ [e])) d"
  "tx_insert_user u d = (Inr c, d') \<Longrightarrow> c = u \<and> d' = update_identity (users_update (\<lambda>_. users (identity d) @ [u])) d"
  "tx_insert_key k d = (Inr y, d') \<Longrightarrow> y = k \<and> d' = update_identity (api_keys_update (\<lambda>_. api_keys (identity d) @ [k])) d \<and>
     ak_key_hash k \<notin> ak_key_hash ` set (api_keys (identity d))"
  unfolding tx_insert_org_def tx_insert_tenant_def tx_insert_environment_def tx_insert_user_def tx_insert_key_def
  by (auto simp: on_table_def checked_insert_def org_violation_def tenant_violation_def insert_api_key_def tenant_response_of_def Let_def
      split: prod.splits sum.splits option.splits if_splits)


definition boot_post :: "key_ext \<Rightarrow> idgen \<Rightarrow> db \<Rightarrow> app_error + bootstrap_response \<Rightarrow> db \<Rightarrow> bool" where
  "boot_post K G d r d' \<longleftrightarrow> (case r of Inl _ \<Rightarrow> account_tables d' = account_tables d \<or> (\<exists>b. bootstrapped d b d')
     | Inr resp \<Rightarrow> (\<exists>b. bootstrapped d b d' \<and> answers K G resp b))"

lemma stable_same_db: "stable (\<lambda>w. w_db w = d)"
  by (simp add: stable_def)

lemma triple_commit_boot:
  assumes "bootstrapped d b d'" "answers K G resp b"
  shows "triple (\<lambda>w. w_db w = d) (try_bind (map_sqlx (tx_commit d')) (\<lambda>_. State_Monad.return (Inr resp))) (\<lambda>r w. boot_post K G d r (w_db w))"
proof (rule triple_try [where Q = "\<lambda>_ w. w_db w = d'" and E = "\<lambda>w. w_db w = d \<or> w_db w = d'"])
  show "triple (\<lambda>w. w_db w = d) (map_sqlx (tx_commit d')) (result_post (\<lambda>_ w. w_db w = d') (\<lambda>w. w_db w = d \<or> w_db w = d'))"
    unfolding tx_commit_def by (rule triple_statement_split [OF stable_same_db]) auto
qed (use assms in \<open>auto simp: boot_post_def intro!: triple_return\<close>)

lemma boot_response_sel:
  "gr_id (br_organization (boot_response b d g tt e u k full)) = og_public_id g" "te_id (br_tenant (boot_response b d g tt e u k full)) = te_id (snd tt)"
  "nr_id (br_environment (boot_response b d g tt e u k full)) = en_public_id e" "ur_id (br_user (boot_response b d g tt e u k full)) = us_public_id u"
  "kr_id (br_api_key (boot_response b d g tt e u k full)) = ak_public_id k" "kr_key (br_api_key (boot_response b d g tt e u k full)) = Some full"
  by (simp_all add: boot_response_def organization_response_of_def Let_def)

lemma boot_sel:
  "og_id (boot_org X b req ctx t) = bi_org_id b" "tn_org_id (boot_tenant b ti tp req ctx t) = bi_org_id b" "en_name (boot_environment b ei ep ti ctx t) = ''production''"
  "ak_key_hash (boot_key b i p ti ep h pre ctx t) = h"
  by (simp_all add: boot_org_def boot_tenant_def boot_environment_def boot_key_def)

lemma answers_boot:
  assumes "en_name e = env" "ak_key_hash k = hash_key K (''key_'' @ take_chars 3 env @ ''_'' @ rand_of G n 32)" "te_id (snd tt) = tn_public_id (fst tt)"
  shows "answers K G (boot_response b d g tt e u k (''key_'' @ take_chars 3 env @ ''_'' @ rand_of G n 32))
    \<lparr>bw_org = g, bw_tenant = fst tt, bw_environment = e, bw_user = u, bw_key = k\<rparr>"
  using assms by (auto simp: answers_def boot_response_sel key_text_def Let_def)

lemma triple_boot_owner:
  assumes "d3 = update_identity (environments_update (\<lambda>_. environments (identity d) @ [e]))
      (update_identity (tenants_update (\<lambda>_. tenants (identity d) @ [fst tt])) (d\<lparr>organizations := organizations d @ [g]\<rparr>))"
    and "g = boot_org X b req ctx t1" "fst tt = boot_tenant b ti tp req ctx t2" "e = boot_environment b ei ep ti ctx t3" "te_id (snd tt) = tn_public_id (fst tt)"
    and "og_id g \<notin> og_id ` set (organizations d)" "tn_id (fst tt) \<notin> tn_id ` set (tenants (identity d))"
  shows "triple (\<lambda>w. w_db w = d) (boot_owner K G b req ctx g tt e d3) (\<lambda>r w. boot_post K G d r (w_db w))"
  unfolding boot_owner_def
proof (rule triple_tx_step [OF stable_same_db], goal_cases)
  case (2 t4 u d4)
  note u = inserted(4) [OF 2]
  show ?case
    unfolding case_prod_beta
  proof (intro triple_generate_api_key triple_draw triple_tx_step stable_same_db, goal_cases)
    case (2 n nano i t5 k d5)
    let ?rows = "\<lparr>bw_org = g, bw_tenant = fst tt, bw_environment = e, bw_user = u, bw_key = k\<rparr>"
    show ?case
    proof (rule triple_commit_boot)
      show "bootstrapped d ?rows d5"
        using assms u inserted(5) [OF 2]
        by (simp add: bootstrapped_def linked_rows_def active_rows_def new_rows_def account_tables_def update_identity_def
            boot_org_def boot_tenant_def boot_environment_def boot_user_def boot_key_def)
      have k: "ak_key_hash k = hash_key K (''key_'' @ take_chars 3 ''production'' @ ''_'' @ rand_of G n 32)"
        unfolding conjunct1 [OF inserted(5) [OF 2]] boot_sel fst_conv ..
      show "answers K G (boot_response b d5 g tt e u k (fst (''key_'' @ take_chars 3 ''production'' @ ''_'' @ rand_of G n 32,
            take_chars 3 ''production'' @ ''_'' @ take_chars 3 (rand_of G n 32)))) ?rows"
        unfolding fst_conv by (rule answers_boot [OF _ k assms(5)]) (simp only: assms(4) boot_sel)
    qed
  qed (simp_all add: boot_post_def)
qed (simp add: boot_post_def)

lemma triple_bootstrap_rows: "triple (\<lambda>w. w_db w = d) (bootstrap_rows X K G req ctx) (\<lambda>r w. boot_post K G d (map_sum id snd r) (w_db w))"
  unfolding bootstrap_rows_def Let_def
proof (rule triple_try [OF triple_tx_begin [OF stable_same_db]], goal_cases)
  case (2 d')
  show ?case
  proof (cases "d' = d")
    case True
    show ?thesis
      unfolding True conj_absorb
    proof (intro triple_draw triple_tx_step stable_same_db, goal_cases)
      case (1 ui un oi on e w)
      then show ?case by (simp add: boot_post_def)
    next
      case (2 ui un oi on t1 g d1 ti tn e w)
      then show ?case by (simp add: boot_post_def)
    next
      case (3 ui un oi on t1 g d1 ti tn t2 tt d2 en ei e w)
      then show ?case by (simp add: boot_post_def)
    next
      case (4 ui un oi on t1 g d1 ti tn t2 tt d2 en ei t3 e d3)
      note rows = inserted(1) [OF 4(1)] inserted(2) [OF 4(2)] inserted(3) [OF 4(3)]
      let ?b = "\<lparr>bi_user_id = uuid_of G ui, bi_user_public_id = ''usr_'' @ un, bi_org_id = uuid_of G oi, bi_org_public_id = ''org_'' @ on\<rparr>"
      have "triple (\<lambda>w. w_db w = d) (boot_owner K G ?b req ctx g tt e d3) (\<lambda>r w. boot_post K G d r (w_db w))"
        by (rule triple_boot_owner [where X = X]) (use rows in \<open>auto simp: update_identity_def\<close>)
      then show ?case by (rule triple_try_bind) (auto simp: boot_post_def intro!: triple_return)
    qed
  qed (auto simp only: triple_def)
qed (simp add: boot_post_def)

lemma boot_post_tables: "account_tables d' = account_tables d'' \<Longrightarrow> boot_post K G d r d' = boot_post K G d r d''"
  by (simp add: boot_post_def bootstrapped_def split: sum.splits)

lemma triple_seed_after:
  "triple (\<lambda>w. boot_post K G d r (w_db w)) (State_Monad.bind (try_bind list_system (\<lambda>perms. seed_default_roles G tid perms ctx)) (\<lambda>_. State_Monad.return r))
     (\<lambda>r w. boot_post K G d r (w_db w))"
proof -
  have "boot_post K G d r (update_access f d') = boot_post K G d r d'" for f d'
    by (rule boot_post_tables) (simp add: account_tables_def update_access_def update_identity_def)
  then have "access_free (\<lambda>w. boot_post K G d r (w_db w))" by (simp add: access_free_def stable_def)
  then show ?thesis by (auto intro!: triple_bind_keeps keeps_try_bind keeps_listing_and_seeding triple_return)
qed

lemma bootstrap_post: "case run_state (bootstrap_organization X K G req ctx) w of (r, w') \<Rightarrow> boot_post K G (w_db w) r (w_db w')"
proof -
  let ?P = "\<lambda>w'. w_db w' = w_db w" and ?Q = "\<lambda>r w'. boot_post K G (w_db w) r (w_db w')"
  have "triple ?P (try_bind (bootstrap_rows X K G req ctx) (\<lambda>(tid, resp). State_Monad.bind (try_bind list_system (\<lambda>perms. seed_default_roles G tid perms ctx))
      (\<lambda>_. State_Monad.return (Inr resp)))) ?Q"
    by (rule triple_try_bind [OF triple_bootstrap_rows]) (auto simp: boot_post_def [of _ _ _ "Inl _"] intro: triple_seed_after)
  then have "triple ?P (bootstrap_organization X K G req ctx) ?Q"
    by (auto simp: bootstrap_organization_def checked_def boot_post_def intro!: triple_return split: sum.splits)
  from tripleD [OF this, of w] show ?thesis by (simp add: case_prod_beta)
qed


section \<open>Properties\<close>


section \<open>The new key\<close>

definition quiet :: "keyspace \<Rightarrow> time \<Rightarrow> world \<Rightarrow> bool" where
  "quiet ks t w \<longleftrightarrow> no_faults w \<and> w_ks w = ks \<and> w_now w = t"

lemma access_free_quiet: "access_free (quiet ks t)"
  by (simp add: access_free_def stable_def quiet_def)

lemma stable_quiet: "stable (quiet ks t)"
  by (simp add: stable_def quiet_def)

lemma keeps_quiet_bootstrap: "keeps (quiet ks t) (bootstrap_organization X K G req ctx)"
  unfolding bootstrap_organization_def bootstrap_rows_def boot_owner_def tx_step_def tx_commit_def case_prod_beta generate_api_key_def generate_def Let_def
  by (intro keeps_checked keeps_try_bind keeps_bind keeps_return keeps_map_sqlx keeps_tx_begin keeps_tx_statement keeps_statement keeps_fresh keeps_nano_id_new
      keeps_listing_and_seeding access_free_quiet stable_quiet) (simp add: quiet_def)

lemma production_key_plain:
  assumes "draws_alphanumeric G" "en_name e = ''production''"
  shows "list_all plain_char (key_text e (rand_of G n k))" "key_text e (rand_of G n k) \<noteq> []"
proof -
  let ?d = "update_identity (environments_update (\<lambda>_. [e])) (SOME d. True)"
  have "plain_names ?d" using assms(2) by (simp add: plain_names_def update_identity_def plain_char_def is_ascii_alphanumeric_def byte_in_def)
  from key_text_plain [OF this assms(1), of e] show "list_all plain_char (key_text e (rand_of G n k))" by (simp add: update_identity_def)
qed (simp add: key_text_def)

lemma find_appended: "f y \<notin> f ` set xs \<Longrightarrow> find (\<lambda>x. f x = f y) (xs @ [y]) = Some y"
  by (induction xs) auto

lemma bootstrapped_auth_row:
  assumes "bootstrapped d b d'"
  shows "\<exists>entry. find_auth_row (ak_key_hash (bw_key b)) d' = Some entry \<and>
    validate_entry t entry = Inr \<lparr>pr_api_key_public_id = ak_public_id (bw_key b), pr_org_id = og_id (bw_org b), pr_tenant_id = tn_id (bw_tenant b), pr_user_id = us_id (bw_user b)\<rparr>"
proof -
  note b = assms [unfolded bootstrapped_def linked_rows_def active_rows_def new_rows_def account_tables_def prod.inject]
  have "find_org (ak_org_id (bw_key b)) d' = Some (bw_org b)" "find_tenant (ak_tenant_id (bw_key b)) d' = Some (bw_tenant b)"
    using b find_appended [of og_id "bw_org b"] find_appended [of tn_id "bw_tenant b"] by (simp_all add: find_org_def find_tenant_def)
  then obtain entry where entry: "entry_of_key d' (bw_key b) = Some entry" by (simp add: entry_of_key_def)
  have "api_keys (identity d') = api_keys (identity d) @ [bw_key b]" using b by simp
  then have "find_auth_row (ak_key_hash (bw_key b)) d' = Some entry"
    unfolding find_auth_row_def by (simp only:, intro first_map_filter_append) (use b entry in \<open>auto simp: rev_image_eqI\<close>)
  moreover have "validate_entry t entry = Inr \<lparr>pr_api_key_public_id = ak_public_id (bw_key b), pr_org_id = og_id (bw_org b), pr_tenant_id = tn_id (bw_tenant b), pr_user_id = us_id (bw_user b)\<rparr>"
    using entry b \<open>find_org _ _ = _\<close> \<open>find_tenant _ _ = _\<close> by (auto simp: entry_of_key_def validate_entry_def)
  ultimately show ?thesis by blast
qed



definition sample_tenancy :: tenancy_ext where
  "sample_tenancy = \<lparr>tx_crypto = sample_crypto, tx_uuid_from_slice = Some, tx_valid_email = (\<lambda>_. True), tx_to_lowercase = id\<rparr>"

definition acme :: create_organization_request where
  "acme = \<lparr>cg_name = ''Acme Ltd'', cg_slug = ''acme'', cg_owner_email = ''jo@acme.io'', cg_external_id = None, cg_tags = None\<rparr>"

lemma acme_text:
  "trim ''Acme Ltd'' = ''Acme Ltd''" "trim ''acme'' = ''acme''" "trim ''jo@acme.io'' = ''jo@acme.io''" "nonempty_text ''Acme Ltd''" "nonempty_text ''Acme Ltd Default''"
  "char_length ''Acme Ltd'' = 8" "char_length ''Acme Ltd Default'' = 16" "char_length ''acme'' = 4" "char_length ''jo@acme.io'' = 10"
  "validate_slug ''acme''" "environment_name ''production''" "email_format ''jo@acme.io''"
  by code_simp+

lemma validate_length_ok: "(case lo of None \<Rightarrow> 0 | Some l \<Rightarrow> l) \<le> char_length s \<Longrightarrow> char_length s \<le> hi \<Longrightarrow> validate_length lo hi m s = []"
  by (auto simp: validate_length_def char_length_def Let_def split: option.splits)

lemmas text_checks = validate_not_blank_def blank_def validate_length_ok validate_slug_text_def validate_email_text_def on_some_def
  slug_format_def longer_than_def acme_text

lemma acme_valid: "validate_organization sample_tenancy acme = Inr ()"
  by (simp add: validate_organization_def reject_errors_def acme_def sample_tenancy_def text_checks Let_def)

lemma acme_org: "org_violation (boot_org sample_tenancy b acme ctx t) [] = None"
  by (simp add: org_violation_def boot_org_def acme_def sample_tenancy_def text_checks)

lemma acme_tenant: "tenant_violation (boot_tenant b ti tp acme ctx t) [] = None"
  by (simp add: tenant_violation_def boot_tenant_def acme_def text_checks)

lemma acme_environment: "environment_violation (boot_environment b ei ep ti ctx t) [] = None"
  by (simp add: environment_violation_def boot_environment_def text_checks)

lemma acme_user: "user_violation (boot_user b ti acme ctx t) [] = None"
  by (simp add: user_violation_def boot_user_def acme_def text_checks)

lemmas acme_accepted = acme_valid acme_org acme_tenant acme_environment acme_user

text \<open>A call that answers, when no call fails.\<close>

definition succeeds :: "(app_error + 'a) io \<Rightarrow> bool" where
  "succeeds m \<longleftrightarrow> triple (with_db (\<lambda>d. d = empty_db)) m (\<lambda>r _. \<exists>x. r = Inr x)"

lemma succeeds_step:
  assumes "\<And>t. \<exists>x. q t d = (Inr (fst x), snd x)" "\<And>t a d'. q t d = (Inr a, d') \<Longrightarrow> succeeds (f a d')"
  shows "succeeds (tx_step q d f)"
  unfolding succeeds_def triple_def
proof (intro allI impI)
  fix w assume w: "with_db (\<lambda>d. d = empty_db) w"
  obtain x where x: "q (w_now w) d = (Inr (fst x), snd x)" using assms(1) by blast
  from w x have "run_state (tx_step q d f) w = run_state (f (fst x) (snd x)) w" by (simp add: tx_step_def run_simps with_db_def case_prod_beta)
  with assms(2) [OF x] w show "\<exists>y. fst (run_state (tx_step q d f) w) = Inr y" by (auto simp: succeeds_def triple_def)
qed

lemma succeeds_draw: "(\<And>a. succeeds (f a)) \<Longrightarrow> succeeds (State_Monad.bind fresh f)" "(\<And>a. succeeds (g a)) \<Longrightarrow> succeeds (State_Monad.bind (nano_id_new G) g)"
  "(\<And>a. succeeds (h a)) \<Longrightarrow> succeeds (State_Monad.bind (generate_api_key G env 32) h)"
  unfolding succeeds_def by (auto intro!: triple_draw triple_generate_api_key tables_only_stable)

lemma succeeds_ends: "succeeds (State_Monad.return (Inr x))" "succeeds m \<Longrightarrow> succeeds (try_bind m (\<lambda>y. State_Monad.return (Inr (g y))))"
  "succeeds (try_bind (map_sqlx (tx_commit d)) (\<lambda>_. State_Monad.return (Inr x)))" "succeeds (f empty_db) \<Longrightarrow> succeeds (try_bind (map_sqlx tx_begin) f)"
  by (fastforce simp: succeeds_def triple_def with_db_def run_simps case_prod_beta split: sum.splits)+

text \<open>In empty tables the five inserts are accepted.\<close>

lemma insert_first:
  "organizations d = [] \<Longrightarrow> \<exists>x. tx_insert_org (boot_org sample_tenancy b acme ctx t) d = (Inr (fst x), snd x)"
  "tenants (identity d) = [] \<Longrightarrow> organizations d = [boot_org X b acme ctx' t'] \<Longrightarrow> \<exists>x. tx_insert_tenant (boot_tenant b ti tp acme ctx t) d = (Inr (fst x), snd x)"
  "environments (identity d) = [] \<Longrightarrow> \<exists>x. tx_insert_environment (boot_environment b ei ep ti ctx t) d = (Inr (fst x), snd x)"
  "users (identity d) = [] \<Longrightarrow> \<exists>x. tx_insert_user (boot_user b ti acme ctx t) d = (Inr (fst x), snd x)"
  "api_keys (identity d) = [] \<Longrightarrow> \<exists>x. tx_insert_key k d = (Inr (fst x), snd x)"
  by (simp_all add: tx_insert_org_def tx_insert_tenant_def tx_insert_environment_def tx_insert_user_def tx_insert_key_def insert_api_key_def on_table_def
      checked_insert_def acme_accepted tenant_response_of_def find_org_def boot_sel update_identity_def)

lemma boot_owner_succeeds: "users (identity d) = [] \<Longrightarrow> api_keys (identity d) = [] \<Longrightarrow> succeeds (boot_owner K G b acme ctx g tt e d)"
  unfolding boot_owner_def case_prod_beta
  by (intro succeeds_step succeeds_draw succeeds_ends insert_first) (auto dest!: inserted(4) simp: update_identity_def)

lemma bootstrap_rows_succeeds: "succeeds (bootstrap_rows sample_tenancy K G acme ctx)"
proof -
  have tables: "organizations empty_db = []" "tenants (identity empty_db) = []" "environments (identity empty_db) = []" "users (identity empty_db) = []"
    "api_keys (identity empty_db) = []" by (simp_all add: empty_db_def empty_identity_def)
  show ?thesis
    unfolding bootstrap_rows_def Let_def
    by (intro succeeds_ends(4) succeeds_step succeeds_draw succeeds_ends(2) insert_first boot_owner_succeeds)
      (auto dest!: inserted(1-3) simp: tables update_identity_def)
qed

lemma acme_boots: "\<exists>resp w'. run_state (bootstrap_organization sample_tenancy sample_keys alnum_idgen acme (admin_ctx ''r'')) (start_world empty_db empty_keyspace 0) = (Inr resp, w')"
  using bootstrap_rows_succeeds [of sample_keys alnum_idgen "admin_ctx ''r''", unfolded succeeds_def, THEN tripleD, of "start_world empty_db empty_keyspace 0"]
  by (auto simp: bootstrap_organization_def checked_def acme_accepted run_simps case_prod_beta with_db_def)


end
