(* ===== verification/Spec2Isabelle.thy ===== *)
theory Spec2Isabelle
  imports Shard_Props Deliver_Props Auth_Props Jwt_Key_Props Queue_Scan Access_Props Invite_Props Endpoint_Props Team_Props Platform_Props
begin

text \<open>
  Hookly is a multi-tenant service that delivers webhooks. This library models its Rust sources (\<open>src/src/\<close>, named below
  without that prefix) and proves what makes them correct. This theory holds no definitions: it imports all others.

  \<^bold>\<open>The program.\<close> Three binaries share a PostgreSQL database and a Redis server. The API (\<open>features/\<close>) authenticates requests and
  keeps organizations, tenants, environments, applications, users, teams, roles, keys, endpoints, subscriptions, schedules and
  events. Publishing an event writes a delivery job per subscribed endpoint and puts a message into a Redis stream. The worker
  (\<open>worker/\<close>) takes messages from streams chosen round robin, asks the rate limiter and the circuit breaker, signs and sends the
  request, and settles the job: delivered, tried again later, or dead. An outbox re-publishes jobs whose message is missing or
  due, a reclaimer takes over messages of crashed workers, a trimmer cuts the streams. The scheduler (\<open>scheduler/\<close>) fires due
  schedules from sharded sorted sets into the same tables and streams.

  \<^bold>\<open>How it is modelled.\<close> \<open>World\<close> has the state the binaries share: the tables as lists of records (\<open>db\<close>), the Redis
  keyspace, the clock, a counter from which identifiers are drawn, and the list of outcomes of the external calls to come. Code
  that does I/O is a function in the state monad over this world (\<open>'a io\<close>); \<open>try_bind\<close> is Rust's \<open>?\<close>, and errors are values of
  \<open>app_error\<close> (\<open>App_Error\<close>, from \<open>error.rs\<close>), \<open>sqlx_error\<close> or \<open>redis_error\<close>. Each call to PostgreSQL or Redis takes the next
  outcome: served, refused (nothing happened), or lost (it happened, and the caller sees an error). Theorems without
  \<open>no_faults\<close> hold for every list of outcomes, that is, for every place at which a call may fail. A statement is one function on
  the tables that also says which constraint of the migrations it violates; a transaction works on a copy that the commit
  installs. Where a property depends on what other processes do between two calls, it is stated over a step relation or with
  arbitrary states in between: \<open>Job_Lifecycle\<close> (jobs), \<open>Queue_Trim\<close> (the cut computed before the trim), \<open>Idempotency\<close> and
  \<open>Shard_Props\<close> (locks), \<open>Key_Lifecycle\<close> and \<open>Key_Revocation\<close> (keys), \<open>Invite_State\<close>, \<open>Access_State\<close>, \<open>Tenancy_State\<close>,
  \<open>Endpoint_State\<close> (any sequence of calls).

  \<^bold>\<open>What is not in the repository is a parameter.\<close> The commands of Redis are the record \<open>redis_cmds\<close>; the locales of
  \<open>Redis_Model\<close> (\<open>redis_zsets\<close>, \<open>redis_strings\<close>, \<open>redis_streams\<close>, joined in \<open>redis_server\<close>) state its documented behaviour, and
  \<open>Redis_Memory\<close> interprets them with an executable Redis. Ciphers, hashes, base64, JWT and PEM libraries, cron and time zones,
  JSON schema validation, HTTP, e-mail and Unicode lower case are fields of the \<open>_ext\<close> records; \<open>crypto_library\<close> and
  \<open>url_safe_library\<close> are the laws the proofs use, and \<open>sample_crypto\<close> satisfies them. Identifiers and random text come from an
  \<open>idgen\<close>. Times are microseconds, as PostgreSQL keeps them; machine integers are kept at their width where it matters (\<open>Nano_Id\<close>,
  \<open>Rate_Limit\<close>, backoff in \<open>Consumer\<close>).

  \<^bold>\<open>Theories and sources.\<close>
  \<^item> \<open>Hookly_Prelude\<close>: string and integer functions of the Rust library, lists, the state monad, \<open>keeps\<close> (a call preserves a
    predicate) and \<open>triple\<close> (Hoare triples with the result), and the collections \<open>run_simps\<close> and \<open>keeps_intros\<close>.
  \<^item> \<open>Queue\<close>, \<open>Queue_Props\<close>, \<open>Queue_Scan\<close>, \<open>Queue_Trim\<close>: \<open>queue/mod.rs\<close>. Parsing the replies of Redis, fair rotation of the
    scheduling set, that a stream with messages stays scheduled, that trimming keeps what is pending or not yet delivered whatever
    happens before the trim, and that the \<open>SCAN\<close> loop ends.
  \<^item> \<open>Rate_Limit\<close>, \<open>Idempotency\<close>, \<open>Nano_Id\<close>, \<open>Crypto\<close>, \<open>Request_Checks\<close>, \<open>App_Error\<close>: \<open>worker/ratelimit.rs\<close>,
    \<open>worker/circuitbreaker.rs\<close>, \<open>common/\<close> and \<open>error.rs\<close>. Exact counting per minute, exclusive locks, identifiers ordered by time,
    encryption and decryption.
  \<^item> \<open>Delivery_Repo\<close>, \<open>Deliver\<close>, \<open>Consumer\<close>: \<open>features/delivery/\<close> and \<open>worker/\<close>. \<open>Consumer_Props\<close>, \<open>Job_Lifecycle\<close>,
    \<open>Worker_Faults\<close>, \<open>Deliver_Props\<close>: processing a message refines one abstract effect on the job table, the table's invariant,
    no job is stranded by processing, the outbox publishes what is due; and the sequences of faults after which a job is lost or
    sent twice.
  \<^item> \<open>Event_Schema\<close>, \<open>Subscriptions\<close>, \<open>Events\<close>, \<open>Event_Props\<close>: \<open>features/event_types/models.rs\<close>, \<open>features/subscriptions/\<close>,
    \<open>features/events/\<close>. Fan-out reaches every active subscription, replays with an idempotency key create nothing.
  \<^item> \<open>Schedules\<close>, \<open>Schedule_Service\<close>, \<open>Scheduler\<close>, \<open>Scheduler_Props\<close>, \<open>Shard_Props\<close>: \<open>features/schedules/\<close>, \<open>scheduler/\<close>. Firing
    is atomic and reaches every endpoint; the lock of a shard excludes others; where the migrated catalog makes firing fail.
  \<^item> \<open>Api_Keys\<close>, \<open>Api_Key_Service\<close>, \<open>Auth\<close>, \<open>Jwt_Keys\<close>: \<open>features/api_keys/\<close>, \<open>features/jwt_keys/\<close>. \<open>Api_Key_Props\<close>,
    \<open>Key_Lifecycle\<close>, \<open>Key_Revocation\<close>, \<open>Auth_Props\<close>, \<open>Jwt_Key_Props\<close>: the limit of keys per user, that a new key is accepted and
    can be revealed, that a withdrawn key is refused once the cache entry of a minute has gone, that a JWT is accepted only for
    the owner of its key, and that both keys are valid during the grace period of a rotation.
  \<^item> \<open>Access_Links\<close>, \<open>Roles\<close>, \<open>Assignments\<close>, \<open>Access_State\<close>, \<open>Access_Props\<close>: \<open>features/permissions/\<close>, \<open>features/roles/\<close>,
    \<open>features/assignments/\<close>. Well-formed tables under any calls, and what assignments grant.
  \<^item> \<open>Invites\<close>, \<open>Invite_State\<close>, \<open>Invite_Props\<close>: \<open>features/invites/\<close>. The status follows an automaton, members come from accepted
    invites, a token admits once.
  \<^item> \<open>Endpoints\<close>, \<open>Endpoint_State\<close>, \<open>Endpoint_Props\<close>: \<open>features/endpoints/\<close>. Every endpoint can sign, rotation switches the
    signature, stale updates are refused, and what pausing does to queued jobs.
  \<^item> \<open>Tenancy\<close>, \<open>Applications\<close>, \<open>Users\<close>, \<open>Tenancy_State\<close>, \<open>Tenancy_Props\<close>, \<open>Team_Props\<close>: \<open>features/\<close> \<open>organizations/\<close>,
    \<open>tenants/\<close>, \<open>environments/\<close>, \<open>applications/\<close>, \<open>users/\<close>, \<open>teams/\<close>. Tables that keep their constraints under any calls, the
    effect of suspending a tenant, membership of teams.
  \<^item> \<open>Platform\<close>, \<open>Platform_Props\<close>: \<open>features/platform/\<close>. Creating an organization is atomic, and its first key works.

  \<^bold>\<open>Interfaces.\<close> Besides the parameters, locales state what several components share. \<open>token_lock\<close> is a lock with a token, proved
  once and obtained for requests and for shards by \<open>sublocale\<close>; \<open>timed_flag\<close> is a flag with a time to live, for blocked endpoints
  and open circuits; \<open>link_table\<close> and its extension \<open>guarded_links\<close> are the five link tables of access control;
  \<open>constrained_table\<close> is a table with constraints, interpreted for seven tables; \<open>key_invariant\<close> and \<open>key_history\<close> say what a
  property needs for the operations on keys, alone and in any sequence, to keep it; \<open>auth_cache\<close> and \<open>withdrawn_key\<close> bound the time a
  cached key is still accepted, for deleted keys and for tenants barred; \<open>invite_invariant\<close> is the same for invites, interpreted for
  the automaton and for the origin of members.

  \<^bold>\<open>Bounds.\<close> The \<open>SCAN\<close> loop has no bound in the source and is given fuel; \<open>Queue_Scan\<close> proves that fuel for as many pages as the
  server takes to return the cursor to 0 is enough, also when calls fail. All other recursions end by their structure or
  a measure. Loops of the processes that never end are modelled by one iteration.

  \<^bold>\<open>Not modelled.\<close> Timers, the semaphore, shutdown and the joining of tasks; the wiring of routes and handlers that only pass
  arguments on; metrics, logs and traces; columns that no statement reads, and audit triggers of the database. The task that
  records the last use of a key runs in place. Inside one call of a service, statements of other processes do not interleave,
  except where said above. The registry of event types, platform webhooks and their subscriptions are left out: bookkeeping of
  the pattern of the endpoints and subscriptions that are modelled.
\<close>

end
